(* ===== verification/Prelude.thy ===== *)
theory Prelude
  imports Main "HOL-Library.Char_ord" "HOL-Library.List_Lexorder" "HOL-Library.Sublist"
    "HOL-Library.Word"
begin

text \<open>
  Shared vocabulary of the development: results with an error value (the code's
  \<open>anyhow::Result\<close>), operations on a mutable state that keep the state reached when they
  fail, UTF-8 text, filesystem paths with the component semantics of \<open>std::path\<close>, ordered
  string maps (\<open>BTreeMap\<close>), unsigned 64-bit saturation, and the generic invariant argument
  for step relations.  The collections \<open>res_simps\<close> and \<open>op_simps\<close> hold the equations with
  which the component theories evaluate results and stateful operations.
\<close>

named_theorems res_simps \<open>evaluation of results\<close>
named_theorems op_simps \<open>evaluation of stateful operations\<close>

section \<open>Results\<close>

text \<open>
  \<open>Bail\<close> carries a message the program itself raises (\<open>bail!\<close>, \<open>ensure!\<close>, \<open>context\<close>);
  \<open>Os\<close> an error of the operating system or of a library call passed on by \<open>?\<close>;
  \<open>NotFound\<close> is \<open>std::io::ErrorKind::NotFound\<close>, which the code tells apart.
\<close>

datatype error = Bail string | Os string | NotFound

type_synonym 'a res = "error + 'a"

definition ensure :: "bool \<Rightarrow> string \<Rightarrow> 'a res \<Rightarrow> 'a res" where
  "ensure c m k = (if c then k else Inl (Bail m))"

definition and_then :: "'a res \<Rightarrow> ('a \<Rightarrow> 'b res) \<Rightarrow> 'b res" where
  "and_then r k = (case r of Inl e \<Rightarrow> Inl e | Inr x \<Rightarrow> k x)"

definition context_opt :: "'a option \<Rightarrow> string \<Rightarrow> 'a res" where
  "context_opt v m = (case v of None \<Rightarrow> Inl (Bail m) | Some x \<Rightarrow> Inr x)"

definition is_ok :: "'a res \<Rightarrow> bool" where
  "is_ok r = (case r of Inl _ \<Rightarrow> False | Inr _ \<Rightarrow> True)"

definition ok_opt :: "'a res \<Rightarrow> 'a option" where
  "ok_opt r = (case r of Inl _ \<Rightarrow> None | Inr x \<Rightarrow> Some x)"

lemma ensure_Inr [res_simps]: "(ensure c m k = Inr x) = (c \<and> k = Inr x)"
  by (simp add: ensure_def)

lemma ensure_Inl [res_simps]:
  "(ensure c m k = Inl e) = ((\<not> c \<and> e = Bail m) \<or> (c \<and> k = Inl e))"
  by (auto simp: ensure_def)

lemma ensure_True [simp]: "ensure True m k = k"
  by (simp add: ensure_def)

lemma ensure_False [simp]: "ensure False m k = Inl (Bail m)"
  by (simp add: ensure_def)

lemma and_then_simps [simp]: "and_then (Inl e) k = Inl e" "and_then (Inr x) k = k x"
  by (simp_all add: and_then_def)

lemma and_then_Inr [res_simps]: "(and_then r k = Inr y) = (\<exists>x. r = Inr x \<and> k x = Inr y)"
  by (cases r) auto

lemma and_then_Inl [res_simps]:
  "(and_then r k = Inl e) = (r = Inl e \<or> (\<exists>x. r = Inr x \<and> k x = Inl e))"
  by (cases r) auto

lemma context_opt_Inr [res_simps]: "(context_opt v m = Inr x) = (v = Some x)"
  by (cases v) (auto simp: context_opt_def)

lemma context_opt_simps [simp]:
  "context_opt (Some x) m = Inr x" "context_opt None m = Inl (Bail m)"
  by (simp_all add: context_opt_def)

lemma is_ok_simps [simp]: "is_ok (Inr x)" "\<not> is_ok (Inl e)"
  by (simp_all add: is_ok_def)

lemma is_ok_iff: "is_ok r = (\<exists>x. r = Inr x)"
  by (cases r) auto

lemma ok_opt_simps [simp]: "ok_opt (Inr x) = Some x" "ok_opt (Inl e) = None"
  by (simp_all add: ok_opt_def)

lemma ex_unit [res_simps]: "(\<exists>u::unit. P u) = P ()"
  by (metis old.unit.exhaust)

lemma unit_res_cases: "(r :: unit res) = Inr () \<or> (\<exists>e. r = Inl e)"
  by (cases r) auto

text \<open>A \<open>for\<close> loop whose body may return early, without and with an accumulator.\<close>

fun check_all :: "('a \<Rightarrow> unit res) \<Rightarrow> 'a list \<Rightarrow> unit res" where
  "check_all f [] = Inr ()"
| "check_all f (x # xs) = and_then (f x) (\<lambda>_. check_all f xs)"

fun fold_res :: "('b \<Rightarrow> 'a \<Rightarrow> 'b res) \<Rightarrow> 'b \<Rightarrow> 'a list \<Rightarrow> 'b res" where
  "fold_res f b [] = Inr b"
| "fold_res f b (x # xs) = and_then (f b x) (\<lambda>b'. fold_res f b' xs)"

fun map_res :: "('a \<Rightarrow> 'b res) \<Rightarrow> 'a list \<Rightarrow> 'b list res" where
  "map_res f [] = Inr []"
| "map_res f (x # xs) = and_then (f x) (\<lambda>y. and_then (map_res f xs) (\<lambda>ys. Inr (y # ys)))"

definition check_opt :: "('a \<Rightarrow> unit res) \<Rightarrow> 'a option \<Rightarrow> unit res" where
  "check_opt f v = (case v of None \<Rightarrow> Inr () | Some x \<Rightarrow> f x)"

lemma check_all_Inr [res_simps]: "(check_all f xs = Inr u) = (\<forall>x\<in>set xs. f x = Inr ())"
  by (induction xs) (auto simp: res_simps)

lemma check_opt_Inr [res_simps]: "(check_opt f v = Inr u) = (\<forall>x. v = Some x \<longrightarrow> f x = Inr ())"
  by (cases v) (auto simp: check_opt_def)

lemma map_res_length: "map_res f xs = Inr ys \<Longrightarrow> length ys = length xs"
  by (induction xs arbitrary: ys) (auto simp: res_simps)

lemma map_res_Inr_iff: "(map_res f xs = Inr ys) = list_all2 (\<lambda>x y. f x = Inr y) xs ys"
  by (induction xs arbitrary: ys) (auto simp: res_simps list_all2_Cons1)

text \<open>
  The \<open>HashSet\<close> loops of the code: \<open>ensure!(seen.insert(key(x)))\<close> for every element
  succeeds exactly when the keys are pairwise distinct and not seen before.
\<close>

definition insert_new :: "string \<Rightarrow> 'k list \<Rightarrow> 'k \<Rightarrow> 'k list res" where
  "insert_new m seen k = ensure (k \<notin> set seen) m (Inr (k # seen))"

lemma insert_new_Inr [res_simps]:
  "(insert_new m seen k = Inr s) = (k \<notin> set seen \<and> s = k # seen)"
  by (auto simp: insert_new_def res_simps)

lemma fold_res_distinct:
  assumes "\<And>seen x s. (f seen x = Inr s) = (ok x \<and> key x \<notin> set seen \<and> s = key x # seen)"
  shows "(fold_res f seen xs = Inr s) =
    ((\<forall>x\<in>set xs. ok x) \<and> distinct (map key xs) \<and> set (map key xs) \<inter> set seen = {}
      \<and> s = rev (map key xs) @ seen)"
  by (induction xs arbitrary: seen) (auto simp: res_simps assms)

section \<open>Operations on a mutable state\<close>

text \<open>
  A method on \<open>&mut self\<close>: it returns its result and the state it leaves, also when the
  result is an error, since a Rust method that returns \<open>Err\<close> keeps the mutations it made.
\<close>

type_synonym ('s, 'a) op = "'s \<Rightarrow> 'a res \<times> 's"

definition op_return :: "'a \<Rightarrow> ('s, 'a) op" where
  "op_return x = (\<lambda>s. (Inr x, s))"

definition op_fail :: "error \<Rightarrow> ('s, 'a) op" where
  "op_fail e = (\<lambda>s. (Inl e, s))"

definition op_try :: "('s, 'a) op \<Rightarrow> ('a \<Rightarrow> ('s, 'b) op) \<Rightarrow> ('s, 'b) op" where
  "op_try m f = (\<lambda>s. case m s of (Inl e, s') \<Rightarrow> (Inl e, s') | (Inr x, s') \<Rightarrow> f x s')"

definition op_lift :: "'a res \<Rightarrow> ('s, 'a) op" where
  "op_lift r = (\<lambda>s. (r, s))"

definition op_ensure :: "bool \<Rightarrow> string \<Rightarrow> ('s, 'a) op \<Rightarrow> ('s, 'a) op" where
  "op_ensure c m k = (if c then k else op_fail (Bail m))"

lemma op_return_simps [simp]: "op_return x s = (Inr x, s)"
  by (simp add: op_return_def)

lemma op_fail_simps [simp]: "op_fail e s = (Inl e, s)"
  by (simp add: op_fail_def)

lemma op_lift_simps [simp]: "op_lift r s = (r, s)"
  by (simp add: op_lift_def)

lemma op_ensure_simps [simp]: "op_ensure True m k = k" "op_ensure False m k = op_fail (Bail m)"
  by (simp_all add: op_ensure_def)

lemma op_try_Inr [op_simps]:
  "(op_try m f s = (Inr y, t)) = (\<exists>x u. m s = (Inr x, u) \<and> f x u = (Inr y, t))"
  by (auto simp: op_try_def split: prod.splits sum.splits)

lemma op_try_Inl [op_simps]:
  "(op_try m f s = (Inl e, t)) =
    (m s = (Inl e, t) \<or> (\<exists>x u. m s = (Inr x, u) \<and> f x u = (Inl e, t)))"
  by (auto simp: op_try_def split: prod.splits sum.splits)

lemma op_ensure_Inr [op_simps]:
  "(op_ensure c m k s = (Inr y, t)) = (c \<and> k s = (Inr y, t))"
  by (simp add: op_ensure_def)

lemma op_ensure_Inl [op_simps]:
  "(op_ensure c m k s = (Inl e, t)) = ((\<not> c \<and> e = Bail m \<and> t = s) \<or> (c \<and> k s = (Inl e, t)))"
  by (auto simp: op_ensure_def)

text \<open>An assertion on every state an operation can leave, whatever it returns.\<close>

definition op_keeps :: "('s \<Rightarrow> bool) \<Rightarrow> ('s, 'a) op \<Rightarrow> bool" where
  "op_keeps P m = (\<forall>s. P s \<longrightarrow> P (snd (m s)))"

lemma op_keepsI: "(\<And>s. P s \<Longrightarrow> P (snd (m s))) \<Longrightarrow> op_keeps P m"
  by (simp add: op_keeps_def)

lemma op_keepsD: "op_keeps P m \<Longrightarrow> P s \<Longrightarrow> m s = (r, t) \<Longrightarrow> P t"
  by (metis op_keeps_def snd_conv)

lemma op_keeps_return [intro]: "op_keeps P (op_return x)"
  by (simp add: op_keeps_def)

lemma op_keeps_fail [intro]: "op_keeps P (op_fail e)"
  by (simp add: op_keeps_def)

lemma op_keeps_lift [intro]: "op_keeps P (op_lift r)"
  by (simp add: op_keeps_def)

lemma op_keeps_try [intro]:
  "op_keeps P m \<Longrightarrow> (\<And>x. op_keeps P (f x)) \<Longrightarrow> op_keeps P (op_try m f)"
  by (auto simp: op_keeps_def op_try_def split: prod.splits sum.splits)

lemma op_keeps_ensure [intro]: "op_keeps P k \<Longrightarrow> op_keeps P (op_ensure c m k)"
  by (simp add: op_ensure_def op_keeps_fail)

text \<open>Reading and writing a part of the state.\<close>

definition op_get :: "('s \<Rightarrow> 'a) \<Rightarrow> ('s, 'a) op" where
  "op_get f = (\<lambda>s. (Inr (f s), s))"

definition op_modify :: "('s \<Rightarrow> 's) \<Rightarrow> ('s, unit) op" where
  "op_modify f = (\<lambda>s. (Inr (), f s))"

lemma op_get_simps [simp]: "op_get f s = (Inr (f s), s)"
  by (simp add: op_get_def)

lemma op_modify_simps [simp]: "op_modify f s = (Inr (), f s)"
  by (simp add: op_modify_def)

lemma op_keeps_get [intro]: "op_keeps P (op_get f)"
  by (simp add: op_keeps_def)

text \<open>A relation between the state before and after an operation, whatever it returns.\<close>

definition op_rel :: "('s \<Rightarrow> 's \<Rightarrow> bool) \<Rightarrow> ('s, 'a) op \<Rightarrow> bool" where
  "op_rel Q m = (\<forall>s. Q s (snd (m s)))"

lemma op_relD: "op_rel Q m \<Longrightarrow> m s = (r, t) \<Longrightarrow> Q s t"
  by (metis op_rel_def snd_conv)

lemma op_rel_try:
  assumes "transp Q" "op_rel Q m" "\<And>x. op_rel Q (f x)"
  shows "op_rel Q (op_try m f)"
  unfolding op_rel_def
proof
  fix s
  obtain r t where m: "m s = (r, t)" by fastforce
  with assms(2) have "Q s t" by (rule op_relD)
  then show "Q s (snd (op_try m f s))"
    using assms m by (cases r) (auto simp: op_try_def op_rel_def elim: transpE)
qed

lemma op_rel_pure:
  assumes "reflp Q"
  shows "op_rel Q (op_return x)" "op_rel Q (op_fail e)" "op_rel Q (op_lift r)" "op_rel Q (op_get f)"
  using assms by (auto simp: op_rel_def reflp_def)

lemma op_rel_ensure: "reflp Q \<Longrightarrow> op_rel Q k \<Longrightarrow> op_rel Q (op_ensure c m k)"
  by (simp add: op_ensure_def op_rel_pure)

text \<open>Total correctness: the operation returns, with a result and a state that satisfy \<open>Q\<close>.\<close>

definition op_ok :: "('s, 'a) op \<Rightarrow> 's \<Rightarrow> ('a \<Rightarrow> 's \<Rightarrow> bool) \<Rightarrow> bool" where
  "op_ok m s Q = (\<exists>x t. m s = (Inr x, t) \<and> Q x t)"

lemma op_okD: "op_ok m s Q \<Longrightarrow> \<exists>x t. m s = (Inr x, t) \<and> Q x t"
  by (simp add: op_ok_def)

lemma op_ok_try:
  "op_ok m s Q \<Longrightarrow> (\<And>x t. Q x t \<Longrightarrow> op_ok (f x) t R) \<Longrightarrow> op_ok (op_try m f) s R"
  unfolding op_ok_def op_try_def by fastforce

lemma op_ok_simps [simp]:
  "op_ok (op_return x) s Q = Q x s" "op_ok (op_get f) s Q = Q (f s) s"
  "op_ok (op_modify g) s' R = R () (g s')" "op_ok (op_ensure True c k) s Q = op_ok k s Q"
  "op_ok (op_lift (Inr x)) s Q = Q x s"
  by (simp_all add: op_ok_def op_ensure_def)

lemma op_ok_mono: "op_ok m s Q \<Longrightarrow> (\<And>x t. Q x t \<Longrightarrow> R x t) \<Longrightarrow> op_ok m s R"
  unfolding op_ok_def by blast

lemma op_try_step: "m s = (Inr x, t) \<Longrightarrow> op_try m f s = f x t"
  by (simp add: op_try_def)

lemma op_try_stop: "m s = (Inl e, t) \<Longrightarrow> op_try m f s = (Inl e, t)"
  by (simp add: op_try_def)

lemma op_ok_get: "op_ok (f (g s)) s R \<Longrightarrow> op_ok (op_try (op_get g) f) s R"
  by (simp add: op_ok_def op_try_def)

lemma op_ok_ensure: "c \<Longrightarrow> op_ok k s Q \<Longrightarrow> op_ok (op_ensure c m k) s Q"
  by (simp add: op_ensure_def)

text \<open>Decimal numerals, as \<open>format!\<close> writes them.\<close>

fun string_of_nat :: "nat \<Rightarrow> string" where
  "string_of_nat n =
    (if n < 10 then [char_of (48 + n)] else string_of_nat (n div 10) @ [char_of (48 + n mod 10)])"

declare string_of_nat.simps [simp del]

lemma char_of_digit: "(d::nat) < 10 \<Longrightarrow> (char_of (48 + d) :: char) \<noteq> CHR ''/''"
proof
  assume d: "d < 10" and "(char_of (48 + d) :: char) = CHR ''/''"
  then have "(of_char (char_of (48 + d) :: char) :: nat) = of_char (CHR ''/'')" by simp
  with d show False by simp
qed

lemma string_of_nat_no_slash: "CHR ''/'' \<notin> set (string_of_nat n)"
proof (induction n rule: string_of_nat.induct)
  case (1 n)
  then show ?case
    using char_of_digit [of n] char_of_digit [of "n mod 10"]
    by (subst string_of_nat.simps) auto
qed

section \<open>Unsigned 64-bit counters\<close>

definition u64_max :: nat where
  "u64_max = 18446744073709551615"

definition saturating_add :: "nat \<Rightarrow> nat \<Rightarrow> nat" where
  "saturating_add a b = min (a + b) u64_max"

definition checked_add :: "nat \<Rightarrow> nat \<Rightarrow> nat option" where
  "checked_add a b = (if a + b \<le> u64_max then Some (a + b) else None)"

lemma saturating_add_le: "saturating_add a b \<le> a + b"
  by (simp add: saturating_add_def)

lemma checked_add_Some [res_simps]: "(checked_add a b = Some c) = (c = a + b \<and> c \<le> u64_max)"
  by (auto simp: checked_add_def)

section \<open>Text\<close>

text \<open>
  A Rust \<open>str\<close> is its UTF-8 bytes, an \<open>OsStr\<close> any bytes; both are \<open>string\<close> here, whose
  \<open>char\<close>s are bytes, so \<open>length\<close> is \<open>len()\<close>.  \<open>chars\<close> decodes the code points.
\<close>

definition utf8_cont :: "nat \<Rightarrow> bool" where
  "utf8_cont b = (128 \<le> b \<and> b < 192)"

fun utf8_decode :: "nat list \<Rightarrow> nat list option" where
  "utf8_decode [] = Some []"
| "utf8_decode (b # bs) =
    (if b < 128 then map_option (Cons b) (utf8_decode bs)
     else if 194 \<le> b \<and> b < 224 then
       (case bs of
          c # cs \<Rightarrow> if utf8_cont c
            then map_option (Cons ((b - 192) * 64 + (c - 128))) (utf8_decode cs) else None
        | _ \<Rightarrow> None)
     else if 224 \<le> b \<and> b < 240 then
       (case bs of
          c # d # cs \<Rightarrow>
            if utf8_cont c \<and> utf8_cont d \<and> (b = 224 \<longrightarrow> 160 \<le> c) \<and> (b = 237 \<longrightarrow> c < 160)
            then map_option (Cons ((b - 224) * 4096 + (c - 128) * 64 + (d - 128)))
              (utf8_decode cs) else None
        | _ \<Rightarrow> None)
     else if 240 \<le> b \<and> b < 245 then
       (case bs of
          c # d # e # cs \<Rightarrow>
            if utf8_cont c \<and> utf8_cont d \<and> utf8_cont e
               \<and> (b = 240 \<longrightarrow> 144 \<le> c) \<and> (b = 244 \<longrightarrow> c < 144)
            then map_option
              (Cons ((b - 240) * 262144 + (c - 128) * 4096 + (d - 128) * 64 + (e - 128)))
              (utf8_decode cs) else None
        | _ \<Rightarrow> None)
     else None)"

definition bytes_of :: "string \<Rightarrow> nat list" where
  "bytes_of s = map of_char s"

definition to_str :: "string \<Rightarrow> nat list option" where
  "to_str s = utf8_decode (bytes_of s)"

definition chars :: "string \<Rightarrow> nat list" where
  "chars s = (case to_str s of Some cs \<Rightarrow> cs | None \<Rightarrow> [])"

definition is_control :: "nat \<Rightarrow> bool" where
  "is_control c = (c < 32 \<or> (127 \<le> c \<and> c < 160))"

definition is_whitespace :: "nat \<Rightarrow> bool" where
  "is_whitespace c = ((9 \<le> c \<and> c \<le> 13) \<or>
     c \<in> set [32, 133, 160, 5760, 8232, 8233, 8239, 8287, 12288] \<or> (8192 \<le> c \<and> c \<le> 8202))"

definition trim_is_empty :: "string \<Rightarrow> bool" where
  "trim_is_empty s = list_all is_whitespace (chars s)"

definition has_control :: "string \<Rightarrow> bool" where
  "has_control s = list_ex is_control (chars s)"

abbreviation nul :: char where
  "nul \<equiv> CHR 0x00"

definition is_ascii_hexdigit :: "char \<Rightarrow> bool" where
  "is_ascii_hexdigit c = (c \<in> set ''0123456789abcdefABCDEF'')"

definition is_ascii_alphanumeric :: "char \<Rightarrow> bool" where
  "is_ascii_alphanumeric c = (let b = (of_char c :: nat) in
     (48 \<le> b \<and> b \<le> 57) \<or> (65 \<le> b \<and> b \<le> 90) \<or> (97 \<le> b \<and> b \<le> 122))"

section \<open>Paths\<close>

text \<open>
  \<open>Path\<close> compares, hashes and takes prefixes by components: repeated and trailing
  separators and inner \<open>.\<close> segments do not count.  Bytes are kept as written, because
  digests are taken over them.
\<close>

type_synonym path = string

datatype component = RootDir | CurDir | ParentDir | Normal string

fun split_on :: "char \<Rightarrow> string \<Rightarrow> string list" where
  "split_on c [] = [[]]"
| "split_on c (x # xs) =
    (if x = c then [] # split_on c xs
     else (case split_on c xs of [] \<Rightarrow> [[x]] | y # ys \<Rightarrow> (x # y) # ys))"

definition component_of :: "string \<Rightarrow> component" where
  "component_of s = (if s = ''..'' then ParentDir else Normal s)"

definition is_absolute :: "path \<Rightarrow> bool" where
  "is_absolute p = (case p of [] \<Rightarrow> False | c # _ \<Rightarrow> c = CHR ''/'')"

definition components :: "path \<Rightarrow> component list" where
  "components p =
    (let segs = split_on (CHR ''/'') p;
         body = map component_of (filter (\<lambda>s. s \<noteq> [] \<and> s \<noteq> ''.'') segs)
     in if is_absolute p then RootDir # body
        else if segs \<noteq> [] \<and> hd segs = ''.'' then CurDir # body else body)"

definition path_eq :: "path \<Rightarrow> path \<Rightarrow> bool" where
  "path_eq p q = (components p = components q)"

definition starts_with :: "path \<Rightarrow> path \<Rightarrow> bool" where
  "starts_with p q = prefix (components q) (components p)"

definition join_path :: "path \<Rightarrow> path \<Rightarrow> path" where
  "join_path base p =
    (if is_absolute p then p
     else if base = [] \<or> last base = CHR ''/'' then base @ p else base @ ''/'' @ p)"

lemma path_eq_refl [simp]: "path_eq p p"
  by (simp add: path_eq_def)

lemma path_eq_sym: "path_eq p q = path_eq q p"
  by (auto simp: path_eq_def)

lemma path_eq_trans: "path_eq p q \<Longrightarrow> path_eq q r \<Longrightarrow> path_eq p r"
  by (simp add: path_eq_def)

lemma starts_with_refl [simp]: "starts_with p p"
  by (simp add: starts_with_def)

lemma starts_with_trans: "starts_with p q \<Longrightarrow> starts_with q r \<Longrightarrow> starts_with p r"
  unfolding starts_with_def by (rule prefix_order.trans)

lemma starts_with_antisym: "starts_with p q \<Longrightarrow> starts_with q p \<Longrightarrow> path_eq p q"
  by (simp add: starts_with_def path_eq_def prefix_order.antisym)

text \<open>Joining a plain file name onto an absolute directory appends one component.\<close>

definition plain_name :: "string \<Rightarrow> bool" where
  "plain_name s = (s \<noteq> [] \<and> s \<noteq> ''.'' \<and> s \<noteq> ''..'' \<and> CHR ''/'' \<notin> set s)"

lemma split_on_not_Nil [simp]: "split_on c s \<noteq> []"
  by (induction s) (auto split: list.splits)

lemma split_on_plain: "c \<notin> set s \<Longrightarrow> split_on c s = [s]"
  by (induction s) auto

lemma split_on_sep: "split_on c (a @ c # b) = split_on c a @ split_on c b"
proof (induction a)
  case (Cons x a)
  show ?case
  proof (cases "split_on c a")
    case Nil
    then show ?thesis by simp
  next
    case (Cons y ys)
    with Cons.IH show ?thesis by simp
  qed
qed simp

lemma filter_component_append:
  "plain_name n \<Longrightarrow> c = CHR ''/'' \<Longrightarrow>
   map component_of (filter (\<lambda>s. s \<noteq> [] \<and> s \<noteq> ''.'') (split_on c (a @ c # n)))
   = map component_of (filter (\<lambda>s. s \<noteq> [] \<and> s \<noteq> ''.'') (split_on c a)) @ [Normal n]"
  by (simp add: split_on_sep split_on_plain plain_name_def component_of_def)

lemma is_absolute_append [simp]: "is_absolute a \<Longrightarrow> is_absolute (a @ b)"
  by (cases a) (auto simp: is_absolute_def)

lemma components_join:
  assumes "is_absolute d" "plain_name n"
  shows "components (join_path d n) = components d @ [Normal n]"
proof -
  have na: "\<not> is_absolute n" using assms(2)
    by (cases n) (auto simp: plain_name_def is_absolute_def)
  have dn: "d \<noteq> []" using assms(1) by (auto simp: is_absolute_def)
  show ?thesis
  proof (cases "last d = CHR ''/''")
    case True
    with dn obtain d' where d': "d = d' @ ''/''" by (metis append_butlast_last_id)
    have "is_absolute (d' @ ''/'' @ n)" using assms(1) d'
      by (cases d') (auto simp: is_absolute_def)
    with assms na d' show ?thesis
      using filter_component_append [OF assms(2) refl, of d']
        split_on_sep [of "CHR ''/''" d' "[]"]
      by (simp add: components_def join_path_def)
  next
    case False
    with assms na dn show ?thesis
      using filter_component_append [OF assms(2) refl, of d]
      by (simp add: components_def join_path_def)
  qed
qed

text \<open>Two paths overlap when one is an ancestor of the other (or they are equal).\<close>

definition overlaps :: "path \<Rightarrow> path \<Rightarrow> bool" where
  "overlaps p q = (starts_with p q \<or> starts_with q p)"

lemma overlaps_sym: "overlaps p q = overlaps q p"
  by (auto simp: overlaps_def)

lemma overlaps_refl [simp]: "overlaps p p"
  by (simp add: overlaps_def)

section \<open>Ordered string maps\<close>

text \<open>
  The interface of \<open>BTreeMap\<close> the code relies on, and its model: an association list kept
  in the order of the keys, the order in which \<open>BTreeMap\<close> iterates and serialises.
\<close>

locale ordered_map =
  fixes empty :: "'m"
    and insert :: "'k \<Rightarrow> 'v \<Rightarrow> 'm \<Rightarrow> 'm"
    and remove :: "'k \<Rightarrow> 'm \<Rightarrow> 'm"
    and lookup :: "'m \<Rightarrow> 'k \<Rightarrow> 'v option"
    and keys :: "'m \<Rightarrow> 'k list"
    and invar :: "'m \<Rightarrow> bool"
  assumes lookup_empty: "lookup empty k = None"
    and lookup_insert: "lookup (insert k v m) = (lookup m)(k := Some v)"
    and lookup_remove: "lookup (remove k m) = (lookup m)(k := None)"
    and set_keys: "set (keys m) = dom (lookup m)"
    and distinct_keys: "invar m \<Longrightarrow> distinct (keys m)"
    and invar_empty: "invar empty"
    and invar_insert: "invar m \<Longrightarrow> invar (insert k v m)"
    and invar_remove: "invar m \<Longrightarrow> invar (remove k m)"
begin

lemma keys_empty: "keys m = [] \<longleftrightarrow> lookup m = Map.empty"
  using set_keys [of m] by (metis dom_eq_empty_conv set_empty)

lemma insert_not_empty: "keys (insert k v m) \<noteq> []"
  unfolding keys_empty lookup_insert by (metis fun_upd_same option.distinct(1))

lemma remove_insert_fresh:
  "lookup m k = None \<Longrightarrow> lookup (remove k (insert k v m)) = lookup m"
  by (auto simp: lookup_remove lookup_insert)

lemma remove_other_not_empty:
  "lookup m k' = Some v \<Longrightarrow> k \<noteq> k' \<Longrightarrow> keys (remove k m) \<noteq> []"
  unfolding keys_empty lookup_remove by (metis fun_upd_other option.distinct(1))

lemma size_insert_fresh:
  assumes "invar m" "lookup m k = None"
  shows "length (keys (insert k v m)) = Suc (length (keys m))"
proof -
  have "card (set (keys (insert k v m))) = Suc (card (set (keys m)))"
    unfolding set_keys lookup_insert using assms
    by (metis card_insert_disjoint domIff dom_fun_upd finite_set option.distinct(1) set_keys)
  then show ?thesis using assms by (simp add: distinct_card distinct_keys invar_insert)
qed

end

type_synonym 'v btree = "(string \<times> 'v) list"

fun bt_insert :: "'k::linorder \<Rightarrow> 'v \<Rightarrow> ('k \<times> 'v) list \<Rightarrow> ('k \<times> 'v) list" where
  "bt_insert k v [] = [(k, v)]"
| "bt_insert k v ((k', v') # m) =
    (if k < k' then (k, v) # (k', v') # m
     else if k = k' then (k, v) # m
     else (k', v') # bt_insert k v m)"

definition bt_remove :: "'k \<Rightarrow> ('k \<times> 'v) list \<Rightarrow> ('k \<times> 'v) list" where
  "bt_remove k m = filter (\<lambda>(k', _). k' \<noteq> k) m"

definition bt_keys :: "('k \<times> 'v) list \<Rightarrow> 'k list" where
  "bt_keys m = map fst m"

definition bt_sorted :: "('k::linorder \<times> 'v) list \<Rightarrow> bool" where
  "bt_sorted m = sorted_wrt (<) (map fst m)"

definition bt_extend :: "('k::linorder \<times> 'v) list \<Rightarrow> ('k \<times> 'v) list \<Rightarrow> ('k \<times> 'v) list" where
  "bt_extend m n = fold (\<lambda>(k, v). bt_insert k v) n m"

lemma map_of_bt_insert [simp]: "map_of (bt_insert k v m) = (map_of m)(k \<mapsto> v)"
  by (induction m) (auto simp: fun_eq_iff)

lemma map_of_bt_remove [simp]: "map_of (bt_remove k m) = (map_of m)(k := None)"
  by (induction m) (auto simp: bt_remove_def fun_eq_iff)

lemma bt_insert_keys [simp]: "fst ` set (bt_insert k v m) = insert k (fst ` set m)"
  by (simp add: dom_map_of_conv_image_fst [symmetric])

lemma bt_sorted_insert: "bt_sorted m \<Longrightarrow> bt_sorted (bt_insert k v m)"
proof (induction m)
  case Nil
  then show ?case by (simp add: bt_sorted_def)
next
  case (Cons a m)
  obtain k' v' where a: "a = (k', v')" by (cases a)
  have tail: "bt_sorted m" and lt: "\<forall>x\<in>fst ` set m. k' < x"
    using Cons.prems a by (auto simp: bt_sorted_def)
  with Cons.IH have "bt_sorted (bt_insert k v m)" by simp
  moreover have "\<forall>x\<in>fst ` set (bt_insert k v m). k' < x" if "k' < k"
    using lt that by simp
  ultimately show ?case
    using Cons.prems a lt by (auto simp: bt_sorted_def dest: order.strict_trans)
qed

lemma bt_sorted_remove: "bt_sorted m \<Longrightarrow> bt_sorted (bt_remove k m)"
  by (induction m) (auto simp: bt_sorted_def bt_remove_def)

interpretation btree: ordered_map "[]" bt_insert bt_remove map_of bt_keys bt_sorted
proof unfold_locales
  show "set (bt_keys m) = dom (map_of m)" for m :: "('a \<times> 'b) list"
    by (simp add: bt_keys_def dom_map_of_conv_image_fst)
  show "distinct (bt_keys m)" if "bt_sorted m" for m :: "('a \<times> 'b) list"
    using that by (simp add: bt_sorted_def bt_keys_def strict_sorted_iff)
  show "bt_sorted ([] :: ('a \<times> 'b) list)"
    by (simp add: bt_sorted_def)
qed (auto simp: bt_sorted_insert bt_sorted_remove)

lemma bt_insert_not_Nil [simp]: "bt_insert k v m \<noteq> []"
  using btree.insert_not_empty [of k v m] by (auto simp: bt_keys_def)

lemma bt_Nil_iff: "m = [] \<longleftrightarrow> map_of m = Map.empty"
  by (cases m) (auto simp: fun_eq_iff split: if_splits)

section \<open>Step relations and invariants\<close>

text \<open>
  The argument every component with a step relation uses: what holds at the start and is
  kept by every step holds in every reachable state.
\<close>

inductive reach :: "('s \<Rightarrow> bool) \<Rightarrow> ('s \<Rightarrow> 's \<Rightarrow> bool) \<Rightarrow> 's \<Rightarrow> bool" for init step where
  reach_init: "init s \<Longrightarrow> reach init step s"
| reach_step: "reach init step s \<Longrightarrow> step s t \<Longrightarrow> reach init step t"

locale transition_system =
  fixes init :: "'s \<Rightarrow> bool"
    and step :: "'s \<Rightarrow> 's \<Rightarrow> bool"
    and inv :: "'s \<Rightarrow> bool"
  assumes inv_init: "init s \<Longrightarrow> inv s"
    and inv_step: "inv s \<Longrightarrow> step s t \<Longrightarrow> inv t"
begin

lemma reach_inv: "reach init step s \<Longrightarrow> inv s"
  by (induction rule: reach.induct) (auto intro: inv_init inv_step)

lemma steps_inv: "step\<^sup>*\<^sup>* s t \<Longrightarrow> inv s \<Longrightarrow> inv t"
  by (induction rule: rtranclp_induct) (auto intro: inv_step)

end

end
