(* ===== verification/Model.thy ===== *)
theory Model
  imports Prelude
begin

text \<open>
  The saved definitions of \<open>model.rs\<close> (with \<open>git.rs\<close>'s repository binding and
  \<open>portable.rs\<close>'s mapping): their records and enums, and the validation every load and save
  of the configuration runs.  \<open>ext\<close> collects the third-party functions the code calls
  (UUID parsing, SHA-256, JSON serialisation); they stay parameters.  The lemmas relate each
  validator to the declarative well-formedness it decides.
\<close>

section \<open>Definitions as stored\<close>

definition SCHEMA :: nat where "SCHEMA = 3"
definition MAX_PROJECTS :: nat where "MAX_PROJECTS = 128"
definition MAX_TERMINALS :: nat where "MAX_TERMINALS = 64"
definition MAX_MESSAGE :: nat where "MAX_MESSAGE = 4194304"

record repository =
  rp_root :: path
  rp_git_dir :: path
  rp_common_dir :: path

definition repository_identity :: "repository \<Rightarrow> path" where
  "repository_identity r = rp_git_dir r"

type_synonym environment = "string btree"

record native_shell =
  ns_args :: "string list"
  ns_env :: environment

datatype task_execution =
    Process path "string list" environment
  | Script path "string list" string environment

record source_spec =
  ss_path :: path
  ss_args :: "string list"

record shell_config =
  sc_native :: "native_shell option"
  sc_executable :: path
  sc_login :: bool
  sc_init_cwd :: path
  sc_sources :: "source_spec list"
  sc_trusted_digest :: "string option"

record terminal_definition =
  td_id :: string
  td_name :: string
  td_cwd :: path
  td_sources :: "source_spec list"
  td_persistent :: bool
  td_trusted_digest :: "string option"

record task_step =
  st_name :: string
  st_command :: string

datatype failure_policy = StopOnFailure | ContinueOnFailure

datatype task_logging = RawLogging | DisabledLogging

record task_definition =
  ta_execution :: "task_execution option"
  ta_id :: string
  ta_name :: string
  ta_command :: string
  ta_cwd :: path
  ta_sources :: "source_spec list"
  ta_artifact :: "path option"
  ta_approved_digest :: "string option"
  ta_steps :: "task_step list"
  ta_failure_policy :: failure_policy
  ta_logging :: task_logging
  ta_interactive :: bool
  ta_build_outputs :: "path list"
  ta_artifact_from_task :: "string option"
  ta_timeout_seconds :: "nat option"

record editor_config =
  ed_executable :: path
  ed_args :: "string list"
  ed_external_gui :: bool

record project =
  pr_id :: string
  pr_name :: string
  pr_root :: path
  pr_repository :: "path option"
  pr_repository_binding :: "repository option"
  pr_related_repositories :: "repository list"
  pr_default_terminal :: "string option"
  pr_shell :: shell_config
  pr_terminals :: "terminal_definition list"
  pr_tasks :: "task_definition list"
  pr_editor :: "editor_config option"

record portable_binding =
  pb_project_id :: string
  pb_path :: path
  pb_digest :: string
  pb_task_ids :: "string btree"
  pb_terminal_ids :: "string btree"
  pb_shell_review_required :: bool
  pb_terminal_reviews :: "string list"
  pb_resolved :: project

record workspace =
  ws_schema :: nat
  ws_revision :: nat
  ws_portable :: "portable_binding list"
  ws_projects :: "project list"
  ws_selected_project :: "string option"
  ws_recent_projects :: "string list"

definition default_workspace :: workspace where
  "default_workspace = \<lparr>ws_schema = SCHEMA, ws_revision = 0, ws_portable = [], ws_projects = [],
     ws_selected_project = None, ws_recent_projects = []\<rparr>"

text \<open>
  Third-party code: \<open>uuid::Uuid::parse_str\<close>, \<open>sha2::Sha256\<close> in lower-case hexadecimal, and
  \<open>serde_json::to_vec\<close> at the types it is used at.
\<close>

record ext =
  uuid_ok :: "string \<Rightarrow> bool"
  sha256_hex :: "string \<Rightarrow> string"
  json_native :: "native_shell \<Rightarrow> string res"
  json_args :: "string list \<Rightarrow> string res"
  json_task :: "task_definition \<Rightarrow> string res"
  json_binding :: "repository option \<Rightarrow> string res"

section \<open>Validation\<close>

definition valid_id :: "ext \<Rightarrow> string \<Rightarrow> unit res" where
  "valid_id x value = ensure (uuid_ok x value) ''invalid object id'' (Inr ())"

definition valid_name :: "string \<Rightarrow> unit res" where
  "valid_name value =
    (if trim_is_empty value \<or> 100 < length (chars value) \<or> has_control value
     then Inl (Bail ''name must be 1-100 visible characters'') else Inr ())"

definition absolute_path :: "path \<Rightarrow> unit res" where
  "absolute_path p =
    (if \<not> is_absolute p \<or> (case to_str p of None \<Rightarrow> True | Some cs \<Rightarrow> list_ex is_control cs)
     then Inl (Bail ''an absolute UTF-8 path without control characters is required'')
     else Inr ())"

definition validate_execution_arguments :: "string list \<Rightarrow> environment \<Rightarrow> unit res" where
  "validate_execution_arguments args env =
    (if 1024 < length args
        \<or> list_ex (\<lambda>arg. 65536 < length arg \<or> nul \<in> set arg) args
        \<or> 1024 < length env
        \<or> list_ex (\<lambda>(key, value). key = [] \<or> CHR ''='' \<in> set key \<or> nul \<in> set key
             \<or> nul \<in> set value) env
     then Inl (Bail ''invalid execution arguments or environment'') else Inr ())"

definition validate_source :: "source_spec \<Rightarrow> unit res" where
  "validate_source s =
    and_then (absolute_path (ss_path s)) (\<lambda>_.
      (if 64 < length (ss_args s)
          \<or> list_ex (\<lambda>arg. 8192 < length arg \<or> has_control arg) (ss_args s)
       then Inl (Bail ''source arguments must be at most 64 literal values without control characters'')
       else Inr ()))"

definition validate_sources :: "source_spec list \<Rightarrow> unit res" where
  "validate_sources paths =
    ensure (length paths \<le> 32) ''too many initialization scripts''
      (check_all validate_source paths)"

definition validate_repository :: "repository \<Rightarrow> unit res" where
  "validate_repository r =
    and_then (absolute_path (rp_root r)) (\<lambda>_.
    and_then (absolute_path (rp_git_dir r)) (\<lambda>_.
    absolute_path (rp_common_dir r)))"

definition validate_terminal_entry ::
    "ext \<Rightarrow> string list \<Rightarrow> terminal_definition \<Rightarrow> string list res" where
  "validate_terminal_entry x ids t =
    and_then (valid_id x (td_id t)) (\<lambda>_.
    and_then (valid_name (td_name t)) (\<lambda>_.
    and_then (absolute_path (td_cwd t)) (\<lambda>_.
    and_then (validate_sources (td_sources t)) (\<lambda>_.
    insert_new ''duplicate terminal/task id'' ids (td_id t)))))"

definition validate_step :: "task_step \<Rightarrow> unit res" where
  "validate_step s =
    and_then (valid_name (st_name s)) (\<lambda>_.
      (if trim_is_empty (st_command s) \<or> 65536 < length (st_command s)
          \<or> nul \<in> set (st_command s)
       then Inl (Bail ''invalid task step command'') else Inr ()))"

text \<open>The program, arguments and environment a native task runs with.\<close>

definition validate_execution :: "task_definition \<Rightarrow> task_execution \<Rightarrow> unit res" where
  "validate_execution t e =
    ensure (ta_command t = [] \<and> ta_steps t = [] \<and> ta_sources t = [])
      ''process/script tasks cannot also contain legacy command, steps or sources''
    (case e of
       Process program args env \<Rightarrow>
         and_then (absolute_path program) (\<lambda>_. validate_execution_arguments args env)
     | Script interpreter args script env \<Rightarrow>
         ensure (\<not> (script = [] \<or> 65536 < length script \<or> nul \<in> set script))
           ''invalid task script''
         (and_then (absolute_path interpreter) (\<lambda>_. validate_execution_arguments args env)))"

definition validate_task_entry ::
    "ext \<Rightarrow> string list \<Rightarrow> task_definition \<Rightarrow> string list res" where
  "validate_task_entry x ids t =
    and_then (valid_id x (ta_id t)) (\<lambda>_.
    and_then (valid_name (ta_name t)) (\<lambda>_.
    and_then (absolute_path (ta_cwd t)) (\<lambda>_.
    and_then (validate_sources (ta_sources t)) (\<lambda>_.
    and_then (check_opt (validate_execution t) (ta_execution t)) (\<lambda>_.
    ensure (\<not> ((ta_execution t = None \<and> ta_steps t = [] \<and> trim_is_empty (ta_command t))
             \<or> 65536 < length (ta_command t) \<or> nul \<in> set (ta_command t)))
      ''invalid task command''
    (ensure (\<not> (64 < length (ta_steps t) \<or> 32 < length (ta_build_outputs t)))
      ''too many task steps or output paths''
    (and_then (check_all validate_step (ta_steps t)) (\<lambda>_.
    and_then (check_all absolute_path (ta_build_outputs t)) (\<lambda>_.
    and_then (check_opt (valid_id x) (ta_artifact_from_task t)) (\<lambda>_.
    ensure (case ta_timeout_seconds t of None \<Rightarrow> True | Some s \<Rightarrow> \<not> (s = 0 \<or> 604800 < s))
      ''task timeout must be 1-604800 seconds''
    (ensure (\<not> (ta_interactive t \<and> ta_logging t \<noteq> DisabledLogging))
      ''interactive task must disable raw logging to protect echoed input''
    (and_then (check_opt absolute_path (ta_artifact t)) (\<lambda>_.
    insert_new ''duplicate terminal/task id'' ids (ta_id t))))))))))))))"

definition contains_str :: "string \<Rightarrow> string \<Rightarrow> bool" where
  "contains_str needle hay = list_ex (prefix needle) (suffixes hay)"

definition validate_editor :: "editor_config \<Rightarrow> unit res" where
  "validate_editor e =
    and_then (absolute_path (ed_executable e)) (\<lambda>_.
    ensure (\<not> (64 < length (ed_args e)
             \<or> list_ex (\<lambda>arg. nul \<in> set arg \<or> 8192 < length arg) (ed_args e)))
      ''invalid editor argv''
    (ensure (list_ex (contains_str ''{file}'') (ed_args e))
      ''editor argv must contain {file}'' (Inr ())))"

definition validate_binding_agrees :: "project \<Rightarrow> repository \<Rightarrow> unit res" where
  "validate_binding_agrees p b =
    and_then (validate_repository b) (\<lambda>_.
    ensure (case pr_repository p of None \<Rightarrow> False | Some r \<Rightarrow> path_eq r (rp_root b))
      ''primary repository path and observed binding disagree'' (Inr ()))"

definition validate_related :: "component list list \<Rightarrow> repository \<Rightarrow> component list list res" where
  "validate_related ids b =
    and_then (validate_repository b) (\<lambda>_.
    insert_new ''duplicate repository binding'' ids (components (rp_git_dir b)))"

definition validate_native :: "project \<Rightarrow> native_shell \<Rightarrow> unit res" where
  "validate_native p n =
    and_then (validate_execution_arguments (ns_args n) (ns_env n)) (\<lambda>_.
    ensure (\<not> (sc_login (pr_shell p) \<or> sc_sources (pr_shell p) \<noteq> []
             \<or> list_ex (\<lambda>t. td_sources t \<noteq> []) (pr_terminals p)))
      ''native terminals use explicit argv and native startup; login/source require legacy csh mode''
      (Inr ()))"

definition validate_project :: "ext \<Rightarrow> project \<Rightarrow> unit res" where
  "validate_project x p =
    and_then (valid_name (pr_name p)) (\<lambda>_.
    and_then (absolute_path (pr_root p)) (\<lambda>_.
    and_then (check_opt absolute_path (pr_repository p)) (\<lambda>_.
    and_then (check_opt (validate_binding_agrees p) (pr_repository_binding p)) (\<lambda>_.
    and_then (fold_res validate_related
        (case pr_repository_binding p of None \<Rightarrow> [] | Some b \<Rightarrow> [components (rp_git_dir b)])
        (pr_related_repositories p)) (\<lambda>_.
    and_then (absolute_path (sc_executable (pr_shell p))) (\<lambda>_.
    and_then (absolute_path (sc_init_cwd (pr_shell p))) (\<lambda>_.
    and_then (validate_sources (sc_sources (pr_shell p))) (\<lambda>_.
    and_then (check_opt (validate_native p) (sc_native (pr_shell p))) (\<lambda>_.
    ensure (\<not> (MAX_TERMINALS < length (pr_terminals p) \<or> 128 < length (pr_tasks p)))
      ''project definition exceeds limits''
    (and_then (fold_res (validate_terminal_entry x) [] (pr_terminals p)) (\<lambda>ids.
    ensure (case pr_default_terminal p of None \<Rightarrow> True
            | Some d \<Rightarrow> list_ex (\<lambda>t. td_id t = d \<and> td_persistent t) (pr_terminals p))
      ''default terminal must identify a persistent terminal''
    (and_then (fold_res (validate_task_entry x) ids (pr_tasks p)) (\<lambda>_.
    check_opt validate_editor (pr_editor p))))))))))))))"

definition find_project :: "workspace \<Rightarrow> string \<Rightarrow> project res" where
  "find_project w i =
    context_opt (find (\<lambda>p. pr_id p = i) (ws_projects w)) ''project not found''"

definition DECLARATION :: path where "DECLARATION = ''idk.toml''"

definition validate_key ::
    "ext \<Rightarrow> string list \<Rightarrow> string \<times> string \<Rightarrow> string list res" where
  "validate_key x ids kv = (case kv of (key, i) \<Rightarrow>
    and_then (valid_name key) (\<lambda>_.
    and_then (valid_id x i) (\<lambda>_.
    insert_new ''duplicate portable definition ID'' ids i)))"

definition validate_binding :: "ext \<Rightarrow> portable_binding \<Rightarrow> workspace \<Rightarrow> unit res" where
  "validate_binding x b w =
    and_then (valid_id x (pb_project_id b)) (\<lambda>_.
    and_then (absolute_path (pb_path b)) (\<lambda>_.
    ensure (length (pb_digest b) = 64 \<and> list_all is_ascii_hexdigit (pb_digest b))
      ''invalid declaration digest''
    (and_then (find_project w (pb_project_id b)) (\<lambda>p.
    ensure (path_eq (pb_path b) (join_path (pr_root p) DECLARATION)
            \<and> pr_id (pb_resolved b) = pr_id p)
      ''portable binding does not match its project''
    (ensure (length (pb_task_ids b) \<le> 1024 \<and> length (pb_terminal_ids b) \<le> 1024)
      ''portable key history exceeds limit''
    (and_then (fold_res (validate_key x) [] (pb_task_ids b @ pb_terminal_ids b)) (\<lambda>_.
    ensure (list_all (\<lambda>i. list_ex (\<lambda>(_, v). v = i) (pb_terminal_ids b))
              (pb_terminal_reviews b))
      ''unknown portable terminal trust scope''
    (validate_project x (pb_resolved b)))))))))"

definition uses_native :: "workspace \<Rightarrow> bool" where
  "uses_native w = list_ex (\<lambda>p. sc_native (pr_shell p) \<noteq> None
     \<or> list_ex (\<lambda>t. ta_execution t \<noteq> None) (pr_tasks p)) (ws_projects w)"

definition validate_mapping ::
    "ext \<Rightarrow> workspace \<Rightarrow> string list \<Rightarrow> portable_binding \<Rightarrow> string list res" where
  "validate_mapping x w mapped b =
    and_then (insert_new ''duplicate portable project mapping'' mapped (pb_project_id b))
      (\<lambda>mapped'. and_then (validate_binding x b w) (\<lambda>_. Inr mapped'))"

definition validate_portable :: "ext \<Rightarrow> workspace \<Rightarrow> unit res" where
  "validate_portable x w =
    (if ws_portable w = [] then Inr () else
     ensure (\<not> ws_schema w < 3) ''portable mappings require configuration schema 3''
     (ensure (length (ws_portable w) \<le> MAX_PROJECTS) ''too many portable project mappings''
     (and_then (fold_res (validate_mapping x w) [] (ws_portable w)) (\<lambda>_. Inr ()))))"

definition validate_project_entry ::
    "ext \<Rightarrow> string list \<Rightarrow> project \<Rightarrow> string list res" where
  "validate_project_entry x ids p =
    and_then (valid_id x (pr_id p)) (\<lambda>_.
    and_then (insert_new ''duplicate project id'' ids (pr_id p)) (\<lambda>ids'.
    and_then (validate_project x p) (\<lambda>_. Inr ids')))"

definition validate_recent :: "string list \<Rightarrow> string list \<Rightarrow> string \<Rightarrow> string list res" where
  "validate_recent ids recent i =
    ensure (i \<in> set ids \<and> i \<notin> set recent)
      ''recent project IDs must be unique registered projects'' (Inr (i # recent))"

definition validate_workspace :: "ext \<Rightarrow> workspace \<Rightarrow> unit res" where
  "validate_workspace x w =
    ensure (ws_schema w \<in> set [1, 2, SCHEMA])
      ''unsupported configuration schema (file preserved)''
    (ensure (\<not> (ws_schema w = 1 \<and> uses_native w))
      ''native/process execution requires configuration schema 2''
    (and_then (validate_portable x w) (\<lambda>_.
    ensure (\<not> MAX_PROJECTS < length (ws_projects w)) ''too many projects (limit 128)''
    (and_then (fold_res (validate_project_entry x) [] (ws_projects w)) (\<lambda>ids.
    ensure (case ws_selected_project w of None \<Rightarrow> True | Some i \<Rightarrow> i \<in> set ids)
      ''selected project is not registered''
    (and_then (fold_res (validate_recent ids) [] (ws_recent_projects w)) (\<lambda>_. Inr ())))))))"

end
