(* ===== verification/Source_Gate.thy ===== *)
theory Source_Gate
  imports Model
begin

text \<open>
  The source-use gate of \<open>model.rs\<close>: one entry per repository identity, shared by registered
  runs and Git mutations.  Every method takes the mutex, so an execution is a sequence of
  method calls (and lease drops) in some order.  The gate's state is exactly the set of
  outstanding leases plus readiness, blocks and the count of finished mutations; the
  invariant proves that, and exclusion between runs and mutations follows.
\<close>

record gate_state =
  gs_provider_ready :: bool
  gs_blocks :: "string btree"
  gs_runs :: "string btree"
  gs_mutation :: "string option"
  gs_generation :: "64 word"

definition default_gate_state :: gate_state where
  "default_gate_state = \<lparr>gs_provider_ready = False, gs_blocks = [], gs_runs = [],
     gs_mutation = None, gs_generation = 0\<rparr>"

text \<open>
  \<open>Arc<Mutex<HashMap<PathBuf, GateState>>>\<close>: keys compare by path components, and a lock
  poisoned by a panicking holder refuses every method.
\<close>

record source_gate =
  sg_poisoned :: bool
  sg_states :: "component list \<rightharpoonup> gate_state"

record gate_lease =
  gl_identity :: path
  gl_operation :: string
  gl_mutation :: bool

definition new_gate :: source_gate where
  "new_gate = \<lparr>sg_poisoned = False, sg_states = Map.empty\<rparr>"

definition gate_entry :: "source_gate \<Rightarrow> path \<Rightarrow> gate_state" where
  "gate_entry g identity =
    (case sg_states g (components identity) of None \<Rightarrow> default_gate_state | Some s \<Rightarrow> s)"

definition gate_put :: "path \<Rightarrow> gate_state \<Rightarrow> source_gate \<Rightarrow> source_gate" where
  "gate_put identity st g = g\<lparr>sg_states := (sg_states g)(components identity \<mapsto> st)\<rparr>"

definition with_entry :: "path \<Rightarrow> (gate_state \<Rightarrow> gate_state) \<Rightarrow> (source_gate, unit) op" where
  "with_entry identity f g =
    (if sg_poisoned g then (Inl (Bail ''source-use provider unavailable''), g)
     else (Inr (), gate_put identity (f (gate_entry g identity)) g))"

definition gate_block :: "path \<Rightarrow> string \<Rightarrow> string \<Rightarrow> (source_gate, unit) op" where
  "gate_block identity i reason =
    with_entry identity (\<lambda>st. st\<lparr>gs_blocks := bt_insert i reason (gs_blocks st)\<rparr>)"

definition gate_unblock :: "path \<Rightarrow> string \<Rightarrow> (source_gate, unit) op" where
  "gate_unblock identity i =
    with_entry identity (\<lambda>st. st\<lparr>gs_blocks := bt_remove i (gs_blocks st)\<rparr>)"

definition gate_unavailable :: "path \<Rightarrow> (source_gate, unit) op" where
  "gate_unavailable identity = with_entry identity (\<lambda>st. st\<lparr>gs_provider_ready := False\<rparr>)"

definition gate_ready :: "path \<Rightarrow> (source_gate, unit) op" where
  "gate_ready identity = with_entry identity (\<lambda>st. st\<lparr>gs_provider_ready := True\<rparr>)"

definition gate_state_of :: "source_gate \<Rightarrow> path \<Rightarrow> gate_state res" where
  "gate_state_of g identity =
    ensure (\<not> sg_poisoned g) ''source-use provider unavailable''
      (let st = gate_entry g identity in
       Inr (st\<lparr>gs_provider_ready := gs_provider_ready st \<and> gs_blocks st = []\<rparr>))"

definition gate_reserve ::
    "path \<Rightarrow> string \<Rightarrow> string option \<Rightarrow> (source_gate, gate_lease) op" where
  "gate_reserve identity operation run g =
    (if sg_poisoned g then (Inl (Bail ''source-use provider unavailable''), g) else
     let st = gate_entry g identity; g' = gate_put identity st g in
     if \<not> gs_provider_ready st \<or> gs_blocks st \<noteq> [] then
       (Inl (Bail ''source-use state unknown; provider is not ready''), g')
     else if gs_mutation st \<noteq> None \<or> (run = None \<and> gs_runs st \<noteq> []) then
       (Inl (Bail ''worktree is in use; stop/wait for owned work before changing sources''), g')
     else if map_of (gs_runs st) operation \<noteq> None then
       (Inl (Bail ''duplicate operation id''), g')
     else
       (Inr \<lparr>gl_identity = identity, gl_operation = operation, gl_mutation = (run = None)\<rparr>,
        gate_put identity
          (case run of
             Some name \<Rightarrow> st\<lparr>gs_runs := bt_insert operation name (gs_runs st)\<rparr>
           | None \<Rightarrow> st\<lparr>gs_mutation := Some operation\<rparr>) g))"

definition gate_reserve_run :: "path \<Rightarrow> string \<Rightarrow> string \<Rightarrow> (source_gate, gate_lease) op" where
  "gate_reserve_run identity operation name = gate_reserve identity operation (Some name)"

definition gate_reserve_mutation :: "path \<Rightarrow> string \<Rightarrow> (source_gate, gate_lease) op" where
  "gate_reserve_mutation identity operation = gate_reserve identity operation None"

text \<open>The \<open>Drop\<close> of a lease.\<close>

definition gate_drop :: "gate_lease \<Rightarrow> source_gate \<Rightarrow> source_gate" where
  "gate_drop l g =
    (if sg_poisoned g then g else
     case sg_states g (components (gl_identity l)) of
       None \<Rightarrow> g
     | Some st \<Rightarrow>
         if gl_mutation l \<and> gs_mutation st = Some (gl_operation l) then
           gate_put (gl_identity l)
             (st\<lparr>gs_mutation := None, gs_generation := gs_generation st + 1\<rparr>) g
         else if \<not> gl_mutation l then
           gate_put (gl_identity l) (st\<lparr>gs_runs := bt_remove (gl_operation l) (gs_runs st)\<rparr>) g
         else g)"

section \<open>Characterisation\<close>

lemma gate_entry_put [simp]:
  "gate_entry (gate_put i st g) j = (if path_eq i j then st else gate_entry g j)"
  by (simp add: gate_entry_def gate_put_def path_eq_def eq_commute)

lemma gate_put_poisoned [simp]: "sg_poisoned (gate_put i st g) = sg_poisoned g"
  by (simp add: gate_put_def)

lemma gate_entry_cong: "path_eq i j \<Longrightarrow> gate_entry g i = gate_entry g j"
  by (simp add: gate_entry_def path_eq_def)

lemma default_gate_state_simps [simp]:
  "gs_provider_ready default_gate_state = False" "gs_blocks default_gate_state = []"
  "gs_runs default_gate_state = []" "gs_mutation default_gate_state = None"
  "gs_generation default_gate_state = 0"
  by (simp_all add: default_gate_state_def)

lemma gate_entry_new [simp]: "gate_entry new_gate i = default_gate_state"
  by (simp add: gate_entry_def new_gate_def)

text \<open>When a reservation is granted, and what it changes.\<close>

definition grantable :: "gate_state \<Rightarrow> string \<Rightarrow> string option \<Rightarrow> bool" where
  "grantable st operation run \<longleftrightarrow> gs_provider_ready st \<and> gs_blocks st = []
     \<and> gs_mutation st = None \<and> (run = None \<longrightarrow> gs_runs st = [])
     \<and> map_of (gs_runs st) operation = None"

definition granted :: "gate_state \<Rightarrow> string \<Rightarrow> string option \<Rightarrow> gate_state" where
  "granted st operation run = (case run of
       Some name \<Rightarrow> st\<lparr>gs_runs := bt_insert operation name (gs_runs st)\<rparr>
     | None \<Rightarrow> st\<lparr>gs_mutation := Some operation\<rparr>)"

lemma gate_reserve_Inr:
  "gate_reserve i operation run g = (Inr l, h) \<longleftrightarrow>
    \<not> sg_poisoned g \<and> grantable (gate_entry g i) operation run
    \<and> l = \<lparr>gl_identity = i, gl_operation = operation, gl_mutation = (run = None)\<rparr>
    \<and> h = gate_put i (granted (gate_entry g i) operation run) g"
  by (auto simp: gate_reserve_def grantable_def granted_def Let_def)

lemma gate_reserve_Inl:
  "gate_reserve i operation run g = (Inl e, h) \<Longrightarrow>
    h = (if sg_poisoned g then g else gate_put i (gate_entry g i) g)"
  by (auto simp: gate_reserve_def Let_def split: if_splits)

lemma gate_reserve_Inl_entry:
  "gate_reserve i operation run g = (Inl e, h) \<Longrightarrow> gate_entry h j = gate_entry g j"
  by (auto dest!: gate_reserve_Inl simp: gate_entry_cong)

lemma with_entry_entry:
  assumes "with_entry i f g = (r, h)"
  shows "gate_entry h j = (if path_eq i j \<and> \<not> sg_poisoned g then f (gate_entry g j)
    else gate_entry g j)"
  using assms by (auto simp: with_entry_def gate_entry_cong split: if_splits)

lemma with_entry_poisoned [simp]: "sg_poisoned (snd (with_entry i f g)) = sg_poisoned g"
  by (simp add: with_entry_def)

lemma gate_reserve_poisoned [simp]:
  "sg_poisoned (snd (gate_reserve i oper run g)) = sg_poisoned g"
  by (simp add: gate_reserve_def Let_def)

lemma gate_drop_poisoned [simp]: "sg_poisoned (gate_drop l g) = sg_poisoned g"
  by (auto simp: gate_drop_def split: option.splits)

text \<open>The effect of dropping a lease on the entry of any identity.\<close>

definition released :: "gate_lease \<Rightarrow> gate_state \<Rightarrow> gate_state" where
  "released l st =
    (if gl_mutation l \<and> gs_mutation st = Some (gl_operation l)
     then st\<lparr>gs_mutation := None, gs_generation := gs_generation st + 1\<rparr>
     else if \<not> gl_mutation l
     then st\<lparr>gs_runs := bt_remove (gl_operation l) (gs_runs st)\<rparr>
     else st)"

lemma released_default [simp]: "released l default_gate_state = default_gate_state"
  by (simp add: released_def default_gate_state_def bt_remove_def)

lemma gate_drop_entry:
  "gate_entry (gate_drop l g) j =
    (if path_eq (gl_identity l) j \<and> \<not> sg_poisoned g then released l (gate_entry g j)
     else gate_entry g j)"
proof (cases "sg_states g (components (gl_identity l))")
  case None
  then have "gate_entry g j = default_gate_state" if "path_eq (gl_identity l) j"
    using that by (simp add: gate_entry_def path_eq_def)
  with None show ?thesis by (simp add: gate_drop_def)
next
  case (Some st)
  then have "gate_entry g (gl_identity l) = st" by (simp add: gate_entry_def)
  with Some show ?thesis
    by (auto simp: gate_drop_def released_def dest: gate_entry_cong [of _ _ g])
qed

section \<open>Executions\<close>

text \<open>
  The gate with the leases its clients hold.  A lease is neither cloned nor forged, so a drop
  removes one outstanding lease.
\<close>

record gate_sys =
  gy_gate :: source_gate
  gy_leases :: "gate_lease list"

datatype gate_action =
    Block path string string
  | Unblock path string
  | Unavailable path
  | Ready path
  | ReserveRun path string string
  | ReserveMutation path string
  | DropLease gate_lease

definition lift_gate :: "(source_gate, unit) op \<Rightarrow> (gate_sys, unit) op" where
  "lift_gate m s = (case m (gy_gate s) of (r, g) \<Rightarrow> (r, s\<lparr>gy_gate := g\<rparr>))"

definition lift_reserve :: "(source_gate, gate_lease) op \<Rightarrow> (gate_sys, unit) op" where
  "lift_reserve m s = (case m (gy_gate s) of
       (Inl e, g) \<Rightarrow> (Inl e, s\<lparr>gy_gate := g\<rparr>)
     | (Inr l, g) \<Rightarrow> (Inr (), s\<lparr>gy_gate := g, gy_leases := l # gy_leases s\<rparr>))"

fun gate_exec :: "gate_action \<Rightarrow> (gate_sys, unit) op" where
  "gate_exec (Block i b reason) = lift_gate (gate_block i b reason)"
| "gate_exec (Unblock i b) = lift_gate (gate_unblock i b)"
| "gate_exec (Unavailable i) = lift_gate (gate_unavailable i)"
| "gate_exec (Ready i) = lift_gate (gate_ready i)"
| "gate_exec (ReserveRun i oper name) = lift_reserve (gate_reserve_run i oper name)"
| "gate_exec (ReserveMutation i oper) = lift_reserve (gate_reserve_mutation i oper)"
| "gate_exec (DropLease l) = (\<lambda>s.
     (Inr (), s\<lparr>gy_gate := gate_drop l (gy_gate s), gy_leases := remove1 l (gy_leases s)\<rparr>))"

fun gate_enabled :: "gate_action \<Rightarrow> gate_sys \<Rightarrow> bool" where
  "gate_enabled (DropLease l) s = (l \<in> set (gy_leases s))"
| "gate_enabled _ s = True"

inductive gate_step :: "gate_sys \<Rightarrow> gate_sys \<Rightarrow> bool" where
  gate_stepI: "gate_enabled a s \<Longrightarrow> gate_exec a s = (r, t) \<Longrightarrow> gate_step s t"

inductive_cases gate_stepE: "gate_step s t"

definition gate_init :: "gate_sys \<Rightarrow> bool" where
  "gate_init s \<longleftrightarrow> s = \<lparr>gy_gate = new_gate, gy_leases = []\<rparr>"

fun gate_run :: "gate_action list \<Rightarrow> gate_sys \<Rightarrow> gate_sys" where
  "gate_run [] s = s"
| "gate_run (a # as) s = gate_run as (if gate_enabled a s then snd (gate_exec a s) else s)"

lemma gate_run_steps: "gate_step\<^sup>*\<^sup>* s (gate_run as s)"
proof (induction as arbitrary: s)
  case (Cons a as)
  show ?case
  proof (cases "gate_enabled a s")
    case True
    then have "gate_step s (snd (gate_exec a s))"
      by (metis gate_stepI prod.collapse)
    with True Cons show ?thesis by (auto intro: converse_rtranclp_into_rtranclp)
  qed (use Cons in simp)
qed simp

lemma gate_run_reach: "reach gate_init gate_step (gate_run as \<lparr>gy_gate = new_gate, gy_leases = []\<rparr>)"
proof -
  have start: "reach gate_init gate_step \<lparr>gy_gate = new_gate, gy_leases = []\<rparr>"
    by (rule reach_init) (simp add: gate_init_def)
  have "reach gate_init gate_step t" if "gate_step\<^sup>*\<^sup>* s t" "reach gate_init gate_step s" for s t
    using that by (induction rule: rtranclp_induct) (auto intro: reach_step)
  with gate_run_steps start show ?thesis by blast
qed

section \<open>The gate's state is its outstanding leases\<close>

text \<open>
  Per identity: the runs recorded are the run leases held there, the mutation recorded is the
  mutation lease held there, and a mutation excludes runs.
\<close>

definition lease_at :: "path \<Rightarrow> gate_lease \<Rightarrow> bool" where
  "lease_at i l = path_eq (gl_identity l) i"

definition entry_inv :: "gate_state \<Rightarrow> gate_lease list \<Rightarrow> bool" where
  "entry_inv st ls \<longleftrightarrow>
     distinct (map (\<lambda>l. (gl_mutation l, gl_operation l)) ls)
   \<and> dom (map_of (gs_runs st)) = gl_operation ` {l \<in> set ls. \<not> gl_mutation l}
   \<and> set_option (gs_mutation st) = gl_operation ` {l \<in> set ls. gl_mutation l}
   \<and> (gs_mutation st \<noteq> None \<longrightarrow> gs_runs st = [])"

definition gate_inv :: "gate_sys \<Rightarrow> bool" where
  "gate_inv s \<longleftrightarrow>
     (\<forall>i. entry_inv (gate_entry (gy_gate s) i) (filter (lease_at i) (gy_leases s)))"

lemma entry_inv_cong:
  "gs_runs st = gs_runs st' \<Longrightarrow> gs_mutation st = gs_mutation st' \<Longrightarrow>
   entry_inv st ls = entry_inv st' ls"
  by (simp add: entry_inv_def)

lemma entry_inv_grant_mutation:
  assumes inv: "entry_inv st ls" and ok: "grantable st oper None"
  shows "entry_inv (granted st oper None)
    (\<lparr>gl_identity = i, gl_operation = oper, gl_mutation = True\<rparr> # ls)" (is "entry_inv ?st (?l # ls)")
proof -
  have none: "gs_mutation st = None" "gs_runs st = []"
    using ok by (auto simp: grantable_def)
  with inv have "ls = []" by (cases ls) (auto simp: entry_inv_def)
  moreover have "{m \<in> set [?l]. gl_mutation m} = {?l}" "{m \<in> set [?l]. \<not> gl_mutation m} = {}"
    by auto
  ultimately show ?thesis using none by (simp add: entry_inv_def granted_def)
qed

lemma entry_inv_grant_run:
  assumes inv: "entry_inv st ls" and ok: "grantable st oper (Some name)"
  shows "entry_inv (granted st oper (Some name))
    (\<lparr>gl_identity = i, gl_operation = oper, gl_mutation = False\<rparr> # ls)" (is "entry_inv ?st (?l # ls)")
proof -
  have "oper \<notin> dom (map_of (gs_runs st))" using ok by (simp add: grantable_def domIff)
  then have fresh: "oper \<notin> gl_operation ` {l \<in> set ls. \<not> gl_mutation l}"
    using inv by (simp add: entry_inv_def)
  have "{l \<in> set (?l # ls). \<not> gl_mutation l} = insert ?l {l \<in> set ls. \<not> gl_mutation l}"
    "{l \<in> set (?l # ls). gl_mutation l} = {l \<in> set ls. gl_mutation l}"
    by auto
  then show ?thesis
    using inv ok fresh
    by (simp add: entry_inv_def granted_def grantable_def) (auto simp: image_iff)
qed

lemma lease_key_inj:
  assumes "distinct (map (\<lambda>l. (gl_mutation l, gl_operation l)) ls)"
  shows "inj_on gl_operation {m \<in> set ls. gl_mutation m = b}"
  using assms by (auto simp: distinct_map inj_on_def)

lemma remove1_keys:
  assumes d: "distinct (map (\<lambda>l. (gl_mutation l, gl_operation l)) ls)" and l: "l \<in> set ls"
  shows "gl_operation ` {m \<in> set (remove1 l ls). gl_mutation m = b} =
    (if gl_mutation l = b then gl_operation ` {m \<in> set ls. gl_mutation m = b} - {gl_operation l}
     else gl_operation ` {m \<in> set ls. gl_mutation m = b})"
proof -
  have "distinct ls" using d by (simp add: distinct_map)
  then have r: "{m \<in> set (remove1 l ls). gl_mutation m = b} = {m \<in> set ls. gl_mutation m = b} - {l}"
    by auto
  show ?thesis
  proof (cases "gl_mutation l = b")
    case True
    have "gl_operation ` ({m \<in> set ls. gl_mutation m = b} - {l}) =
        gl_operation ` {m \<in> set ls. gl_mutation m = b} - gl_operation ` {l}"
      by (rule inj_on_image_set_diff [OF lease_key_inj [OF d]]) (use l True in auto)
    with r True show ?thesis by simp
  next
    case False
    then have "{m \<in> set ls. gl_mutation m = b} - {l} = {m \<in> set ls. gl_mutation m = b}" by auto
    with r False show ?thesis by simp
  qed
qed

lemma distinct_map_remove1: "distinct (map f xs) \<Longrightarrow> distinct (map f (remove1 x xs))"
  by (induction xs) (auto dest: set_remove1_subset [THEN subsetD])

lemma entry_inv_release:
  assumes inv: "entry_inv st ls" and l: "l \<in> set ls"
  shows "entry_inv (released l st) (remove1 l ls)"
proof -
  have d: "distinct (map (\<lambda>l. (gl_mutation l, gl_operation l)) ls)"
    using inv by (simp add: entry_inv_def)
  have d': "distinct (map (\<lambda>l. (gl_mutation l, gl_operation l)) (remove1 l ls))"
    using d by (rule distinct_map_remove1)
  have muts: "set_option (gs_mutation st) = gl_operation ` {m \<in> set ls. gl_mutation m = True}"
    and runs: "dom (map_of (gs_runs st)) = gl_operation ` {m \<in> set ls. gl_mutation m = False}"
    and excl: "gs_mutation st \<noteq> None \<longrightarrow> gs_runs st = []"
    using inv by (simp_all add: entry_inv_def)
  note keys = remove1_keys [OF d l, of True] remove1_keys [OF d l, of False]
  show ?thesis
  proof (cases "gl_mutation l")
    case True
    then have "gl_operation l \<in> set_option (gs_mutation st)" using muts l by auto
    then have m: "gs_mutation st = Some (gl_operation l)" by simp
    have "gl_operation ` {m \<in> set (remove1 l ls). gl_mutation m = True} = {}"
      unfolding keys(1) muts [symmetric] m using True by simp
    moreover have "gl_operation ` {m \<in> set (remove1 l ls). gl_mutation m = False}
        = dom (map_of (gs_runs st))"
      unfolding keys(2) runs using True by simp
    ultimately show ?thesis
      using True m excl d' by (simp add: entry_inv_def released_def)
  next
    case False
    have "gl_operation ` {m \<in> set (remove1 l ls). gl_mutation m = True}
        = set_option (gs_mutation st)"
      unfolding keys(1) muts using False by simp
    moreover have "gl_operation ` {m \<in> set (remove1 l ls). gl_mutation m = False}
        = dom (map_of (gs_runs st)) - {gl_operation l}"
      unfolding keys(2) runs using False by simp
    moreover have "gs_mutation st \<noteq> None \<longrightarrow> bt_remove (gl_operation l) (gs_runs st) = []"
      using excl by (simp add: bt_remove_def)
    ultimately show ?thesis
      using False d' by (simp add: entry_inv_def released_def)
  qed
qed

text \<open>
  A poisoned mutex refuses everything but leaves the recorded leases; the steps of the
  system keep the invariant while the mutex is healthy, which is its only state here, since
  no method panics while it holds the lock.
\<close>

definition gate_ok :: "gate_sys \<Rightarrow> bool" where
  "gate_ok s \<longleftrightarrow> \<not> sg_poisoned (gy_gate s) \<and> gate_inv s"

lemma gate_ok_with_entry:
  assumes "gate_ok s" and "lift_gate (with_entry i f) s = (r, t)"
    and "\<And>st. gs_runs (f st) = gs_runs st" "\<And>st. gs_mutation (f st) = gs_mutation st"
  shows "gate_ok t"
proof -
  from assms(1,2) have t: "t = s\<lparr>gy_gate := gate_put i (f (gate_entry (gy_gate s) i)) (gy_gate s)\<rparr>"
    by (auto simp: lift_gate_def with_entry_def gate_ok_def)
  have "entry_inv (if path_eq i j then f (gate_entry (gy_gate s) i) else gate_entry (gy_gate s) j) ls
    = entry_inv (gate_entry (gy_gate s) j) ls" for j ls
    using gate_entry_cong [of i j "gy_gate s"] by (simp add: entry_inv_def assms(3,4))
  with assms(1) t show ?thesis by (simp add: gate_ok_def gate_inv_def)
qed

lemma gate_ok_reserve:
  assumes ok: "gate_ok s" and e: "lift_reserve (gate_reserve i oper run) s = (r, t)"
  shows "gate_ok t"
proof (cases "gate_reserve i oper run (gy_gate s)")
  case (Pair a g)
  show ?thesis
  proof (cases a)
    case (Inl err)
    with Pair e have t: "t = s\<lparr>gy_gate := g\<rparr>" by (simp add: lift_reserve_def)
    have "gate_entry g j = gate_entry (gy_gate s) j" for j
      using Pair Inl by (auto intro: gate_reserve_Inl_entry)
    moreover have "sg_poisoned g = sg_poisoned (gy_gate s)"
      using gate_reserve_poisoned [of i oper run "gy_gate s"] Pair by simp
    ultimately show ?thesis using ok t by (simp add: gate_ok_def gate_inv_def)
  next
    case (Inr l)
    with Pair have res: "gate_reserve i oper run (gy_gate s) = (Inr l, g)" by simp
    from Pair Inr e have t: "t = s\<lparr>gy_gate := g, gy_leases := l # gy_leases s\<rparr>"
      by (simp add: lift_reserve_def)
    from res [unfolded gate_reserve_Inr] ok
    have l: "l = \<lparr>gl_identity = i, gl_operation = oper, gl_mutation = (run = None)\<rparr>"
      and g: "g = gate_put i (granted (gate_entry (gy_gate s) i) oper run) (gy_gate s)"
      and gr: "grantable (gate_entry (gy_gate s) i) oper run" by auto
    have "entry_inv (gate_entry g j) (filter (lease_at j) (l # gy_leases s))" for j
    proof (cases "path_eq i j")
      case True
      then have "gate_entry (gy_gate s) i = gate_entry (gy_gate s) j" by (rule gate_entry_cong)
      moreover have "entry_inv (gate_entry (gy_gate s) j) (filter (lease_at j) (gy_leases s))"
        using ok by (simp add: gate_ok_def gate_inv_def)
      ultimately show ?thesis
        using True gr g l by (cases run)
          (simp_all add: lease_at_def entry_inv_grant_run entry_inv_grant_mutation)
    next
      case False
      with ok g l show ?thesis by (simp add: lease_at_def gate_ok_def gate_inv_def)
    qed
    with ok t g show ?thesis by (simp add: gate_ok_def gate_inv_def)
  qed
qed

lemma gate_ok_drop:
  assumes ok: "gate_ok s" and l: "l \<in> set (gy_leases s)"
  shows "gate_ok (s\<lparr>gy_gate := gate_drop l (gy_gate s), gy_leases := remove1 l (gy_leases s)\<rparr>)"
proof -
  have "entry_inv (gate_entry (gate_drop l (gy_gate s)) j)
      (filter (lease_at j) (remove1 l (gy_leases s)))" for j
  proof (cases "path_eq (gl_identity l) j")
    case True
    with ok l show ?thesis
      using entry_inv_release [of "gate_entry (gy_gate s) j" "filter (lease_at j) (gy_leases s)" l]
      by (simp add: gate_drop_entry lease_at_def gate_ok_def gate_inv_def filter_remove1)
  next
    case False
    then have "filter (lease_at j) (remove1 l (gy_leases s)) = filter (lease_at j) (gy_leases s)"
      by (simp add: lease_at_def filter_remove1 remove1_idem)
    with False ok show ?thesis by (simp add: gate_drop_entry gate_ok_def gate_inv_def)
  qed
  with ok show ?thesis by (simp add: gate_ok_def gate_inv_def)
qed

lemmas gate_method_defs = gate_block_def gate_unblock_def gate_unavailable_def gate_ready_def
  gate_reserve_run_def gate_reserve_mutation_def

lemma gate_ok_exec:
  assumes "gate_ok s" "gate_enabled a s" "gate_exec a s = (r, t)"
  shows "gate_ok t"
  using assms
  by (cases a) (auto simp: gate_method_defs gate_ok_drop
      elim: gate_ok_with_entry gate_ok_reserve)

interpretation gate: transition_system gate_init gate_step gate_ok
proof unfold_locales
  show "gate_ok s" if "gate_init s" for s
    using that by (simp add: gate_init_def gate_ok_def gate_inv_def new_gate_def entry_inv_def
        gate_entry_def)
  show "gate_ok t" if "gate_ok s" "gate_step s t" for s t
    using that by (auto elim!: gate_stepE intro: gate_ok_exec)
qed

section \<open>Generations\<close>

definition generation_at :: "gate_sys \<Rightarrow> path \<Rightarrow> 64 word" where
  "generation_at s i = gs_generation (gate_entry (gy_gate s) i)"

definition drops_mutation :: "gate_action \<Rightarrow> path \<Rightarrow> bool" where
  "drops_mutation a i = (case a of DropLease l \<Rightarrow> gl_mutation l \<and> path_eq (gl_identity l) i | _ \<Rightarrow> False)"

lemma generation_with_entry:
  assumes "lift_gate (with_entry j f) s = (r, t)" "\<And>st. gs_generation (f st) = gs_generation st"
  shows "generation_at t i = generation_at s i"
  using assms
  by (auto simp: lift_gate_def generation_at_def with_entry_entry split: prod.splits)

lemma generation_reserve:
  assumes "lift_reserve (gate_reserve j oper run) s = (r, t)"
  shows "generation_at t i = generation_at s i"
proof (cases "gate_reserve j oper run (gy_gate s)")
  case (Pair a g)
  show ?thesis
  proof (cases a)
    case (Inl e)
    with Pair assms show ?thesis
      by (auto simp: lift_reserve_def generation_at_def) (metis gate_reserve_Inl_entry)
  next
    case (Inr l)
    with Pair have "g = gate_put j (granted (gate_entry (gy_gate s) j) oper run) (gy_gate s)"
      by (simp add: gate_reserve_Inr)
    with Pair Inr assms show ?thesis
      using gate_entry_cong [of j i "gy_gate s"]
      by (auto simp: lift_reserve_def generation_at_def granted_def split: option.splits)
  qed
qed

lemma generation_exec:
  assumes ok: "gate_ok s" and en: "gate_enabled a s" and ex: "gate_exec a s = (r, t)"
  shows "generation_at t i = generation_at s i + (if drops_mutation a i then 1 else 0)"
proof (cases a)
  case (DropLease l)
  with en have l: "l \<in> set (gy_leases s)" by simp
  show ?thesis
  proof (cases "path_eq (gl_identity l) i")
    case True
    have "entry_inv (gate_entry (gy_gate s) i) (filter (lease_at i) (gy_leases s))"
      using ok by (simp add: gate_ok_def gate_inv_def)
    then have "gl_operation l \<in> set_option (gs_mutation (gate_entry (gy_gate s) i))"
      if "gl_mutation l"
      using that l True by (auto simp: entry_inv_def lease_at_def)
    with True DropLease ex ok show ?thesis
      by (auto simp: generation_at_def gate_drop_entry released_def drops_mutation_def gate_ok_def)
  qed (use DropLease ex in \<open>auto simp: generation_at_def gate_drop_entry drops_mutation_def\<close>)
qed (use ex in \<open>auto simp: gate_method_defs drops_mutation_def
      elim: generation_with_entry generation_reserve\<close>)

section \<open>Properties\<close>

lemma gate_reach_entry:
  assumes "reach gate_init gate_step s"
  shows "entry_inv (gate_entry (gy_gate s) i) (filter (lease_at i) (gy_leases s))"
  using gate.reach_inv [OF assms] by (simp add: gate_ok_def gate_inv_def)

lemma resplit_list:
  assumes "l' \<in> set (xs @ ys)"
  obtains us vs where "xs @ l # ys = us @ l' # vs" "l \<in> set (us @ vs)"
proof (cases "l' \<in> set xs")
  case True
  then obtain as bs where "xs = as @ l' # bs" by (meson split_list)
  then show ?thesis using that [of as "bs @ l # ys"] by simp
next
  case False
  with assms obtain as bs where "ys = as @ l' # bs" by (auto dest: split_list)
  then show ?thesis using that [of "xs @ l # as" bs] by simp
qed

lemma entry_inv_excludes:
  assumes inv: "entry_inv st (xs @ l # ys)" and l': "l' \<in> set (xs @ ys)"
  shows "\<not> gl_mutation l"
proof
  assume m: "gl_mutation l"
  then have "gl_operation l \<in> set_option (gs_mutation st)"
    using inv by (auto simp: entry_inv_def)
  then have st: "gs_mutation st = Some (gl_operation l)" "gs_runs st = []"
    using inv by (auto simp: entry_inv_def)
  then have "gl_operation ` {m \<in> set (xs @ l # ys). \<not> gl_mutation m} = {}"
    using inv by (simp add: entry_inv_def)
  with l' have m': "gl_mutation l'" by auto
  then have "gl_operation l' \<in> gl_operation ` {m \<in> set (xs @ l # ys). gl_mutation m}"
    using l' by (intro imageI) auto
  also have "\<dots> = set_option (gs_mutation st)"
    using inv by (simp only: entry_inv_def)
  finally have "gl_operation l' = gl_operation l" using st by simp
  with m m' l' inv show False by (auto simp: entry_inv_def)
qed

text \<open>C5 (gate_exclusion). In every reachable state of the gate, whatever the order of reservations, drops,
  blocks and readiness changes of all clients: a lease that shares its repository identity with
  another outstanding lease is not a mutation lease, so a source mutation never coexists with a
  run or with another mutation of the same repository.\<close>

theorem gate_exclusion:
  assumes "reach gate_init gate_step s" and "gy_leases s = xs @ l # ys"
    and "l' \<in> set (xs @ ys)" and "path_eq (gl_identity l) (gl_identity l')"
  shows "\<not> gl_mutation l \<and> \<not> gl_mutation l'"
proof -
  let ?f = "filter (lease_at (gl_identity l))"
  have inv: "entry_inv (gate_entry (gy_gate s) (gl_identity l)) (?f xs @ l # ?f ys)"
    using gate_reach_entry [OF assms(1), of "gl_identity l"] assms(2) by (simp add: lease_at_def)
  have l': "l' \<in> set (?f xs @ ?f ys)"
    using assms(3,4) by (auto simp: lease_at_def path_eq_sym)
  then obtain us vs where "?f xs @ l # ?f ys = us @ l' # vs" "l \<in> set (us @ vs)"
    by (rule resplit_list)
  with inv l' show ?thesis by (metis entry_inv_excludes)
qed

theorem gate_exclusion_witness:
  "let s = gate_run [Ready ''/r/.git'', ReserveRun ''/r/.git'' ''a'' ''build'',
       ReserveRun ''/r//.git/'' ''b'' ''test''] \<lparr>gy_gate = new_gate, gy_leases = []\<rparr>
   in length (gy_leases s) = 2 \<and> (\<forall>l \<in> set (gy_leases s). \<not> gl_mutation l)"
proof -
  let ?s = "gate_run [Ready ''/r/.git'', ReserveRun ''/r/.git'' ''a'' ''build'',
       ReserveRun ''/r//.git/'' ''b'' ''test''] \<lparr>gy_gate = new_gate, gy_leases = []\<rparr>"
  let ?b = "\<lparr>gl_identity = ''/r//.git/'', gl_operation = ''b'', gl_mutation = False\<rparr>"
  let ?a = "\<lparr>gl_identity = ''/r/.git'', gl_operation = ''a'', gl_mutation = False\<rparr>"
  have s: "gy_leases ?s = [] @ ?b # [?a]"
    by (simp add: gate_method_defs lift_gate_def lift_reserve_def with_entry_def new_gate_def
        gate_entry_def gate_put_def gate_reserve_def components_def is_absolute_def component_of_def
        default_gate_state_def)
  have "path_eq (gl_identity ?b) (gl_identity ?a)"
    by (simp add: path_eq_def components_def is_absolute_def component_of_def)
  then have "\<not> gl_mutation ?b \<and> \<not> gl_mutation ?a"
    using gate_exclusion [OF gate_run_reach s, of ?a] by simp
  with s show ?thesis by (simp add: Let_def del: gate_run.simps)
qed

text \<open>In every reachable state the gate's record for an identity is exactly the set of
  leases outstanding there: the registered runs are the held run leases, the registered mutation
  is the held mutation lease, and no two leases share kind and operation.\<close>

theorem gate_records_leases:
  assumes "reach gate_init gate_step s"
  shows "dom (map_of (gs_runs (gate_entry (gy_gate s) i))) =
      {oper. \<exists>l\<in>set (gy_leases s). path_eq (gl_identity l) i \<and> \<not> gl_mutation l \<and> gl_operation l = oper}
    \<and> set_option (gs_mutation (gate_entry (gy_gate s) i)) =
      {oper. \<exists>l\<in>set (gy_leases s). path_eq (gl_identity l) i \<and> gl_mutation l \<and> gl_operation l = oper}
    \<and> distinct (map (\<lambda>l. (gl_mutation l, gl_operation l))
        (filter (\<lambda>l. path_eq (gl_identity l) i) (gy_leases s)))"
proof -
  have "filter (lease_at i) ls = filter (\<lambda>l. path_eq (gl_identity l) i) ls" for ls
    by (rule filter_cong) (simp_all add: lease_at_def)
  then show ?thesis
    using gate_reach_entry [OF assms, of i] unfolding entry_inv_def by (auto simp: lease_at_def)
qed

theorem gate_records_leases_witness:
  "let s = gate_run [Ready ''/r'', ReserveMutation ''/r'' ''pull''] \<lparr>gy_gate = new_gate, gy_leases = []\<rparr>
   in ''pull'' \<in> set_option (gs_mutation (gate_entry (gy_gate s) ''/r''))"
proof -
  let ?s = "gate_run [Ready ''/r'', ReserveMutation ''/r'' ''pull'']
    \<lparr>gy_gate = new_gate, gy_leases = []\<rparr>"
  let ?l = "\<lparr>gl_identity = ''/r'', gl_operation = ''pull'', gl_mutation = True\<rparr>"
  have "gy_leases ?s = [?l]"
    by (simp add: gate_method_defs lift_gate_def lift_reserve_def with_entry_def new_gate_def
        gate_entry_def gate_put_def gate_reserve_def default_gate_state_def)
  then show ?thesis
    using gate_records_leases [OF gate_run_reach, of "[Ready ''/r'', ReserveMutation ''/r'' ''pull'']" "''/r''"]
    by (simp add: Let_def del: gate_run.simps elem_set)
qed

text \<open>The generation of a repository counts finished source mutations and nothing else: a
  step of a reachable gate adds one exactly when it drops a mutation lease of that repository,
  and otherwise leaves the generation alone.\<close>

theorem gate_generation_counts:
  assumes "reach gate_init gate_step s" and "gate_enabled a s" and "gate_exec a s = (r, t)"
  shows "gs_generation (gate_entry (gy_gate t) i) = gs_generation (gate_entry (gy_gate s) i)
    + (if drops_mutation a i then 1 else 0)"
  using generation_exec [OF gate.reach_inv [OF assms(1)] assms(2,3), of i]
  by (simp add: generation_at_def)

theorem gate_generation_counts_witness:
  "let s = gate_run [Ready ''/r'', ReserveMutation ''/r'' ''m''] \<lparr>gy_gate = new_gate, gy_leases = []\<rparr>;
       l = \<lparr>gl_identity = ''/r'', gl_operation = ''m'', gl_mutation = True\<rparr>
   in gs_generation (gate_entry (gy_gate (snd (gate_exec (DropLease l) s))) ''/r'') = 1"
proof -
  let ?s = "gate_run [Ready ''/r'', ReserveMutation ''/r'' ''m'']
    \<lparr>gy_gate = new_gate, gy_leases = []\<rparr>"
  let ?l = "\<lparr>gl_identity = ''/r'', gl_operation = ''m'', gl_mutation = True\<rparr>"
  have s: "gy_leases ?s = [?l] \<and> gs_generation (gate_entry (gy_gate ?s) ''/r'') = 0"
    by (simp add: gate_method_defs lift_gate_def lift_reserve_def with_entry_def new_gate_def
        gate_entry_def gate_put_def gate_reserve_def default_gate_state_def)
  then have "gate_enabled (DropLease ?l) ?s" by simp
  from gate_generation_counts [OF gate_run_reach this prod.collapse [symmetric], of "''/r''"] s
  show ?thesis by (simp add: Let_def drops_mutation_def del: gate_run.simps gate_exec.simps)
qed

text \<open>While a run holds its lease, however the other clients interleave, the generation of
  its repository does not move: two equal observations of the generation around a run mean that
  no managed mutation finished in between.\<close>

theorem gate_generation_stable:
  assumes "reach gate_init gate_step s" and "l \<in> set (gy_leases s)" and "\<not> gl_mutation l"
    and "(\<lambda>u v. gate_step u v \<and> l \<in> set (gy_leases v))\<^sup>*\<^sup>* s t"
  shows "gs_generation (gate_entry (gy_gate t) (gl_identity l))
    = gs_generation (gate_entry (gy_gate s) (gl_identity l))"
proof -
  have "gate_ok t \<and> l \<in> set (gy_leases t)
      \<and> generation_at t (gl_identity l) = generation_at s (gl_identity l)"
    using assms(4)
  proof (induction rule: rtranclp_induct)
    case base
    then show ?case using gate.reach_inv [OF assms(1)] assms(2) by simp
  next
    case (step u v)
    then obtain a r where a: "gate_enabled a u" "gate_exec a u = (r, v)" by (auto elim: gate_stepE)
    have "\<not> drops_mutation a (gl_identity l)"
    proof
      assume "drops_mutation a (gl_identity l)"
      then obtain m where m: "a = DropLease m" "gl_mutation m" "path_eq (gl_identity m) (gl_identity l)"
        by (auto simp: drops_mutation_def split: gate_action.splits)
      let ?ls = "filter (lease_at (gl_identity l)) (gy_leases u)"
      have "entry_inv (gate_entry (gy_gate u) (gl_identity l)) ?ls"
        using step.IH by (simp add: gate_ok_def gate_inv_def)
      moreover have "m \<in> set ?ls" "l \<in> set ?ls" using step.IH m a(1) by (auto simp: lease_at_def)
      moreover from \<open>m \<in> set ?ls\<close> obtain xs ys where "?ls = xs @ m # ys" by (meson split_list)
      moreover have "l \<noteq> m" using m assms(3) by auto
      ultimately show False using m entry_inv_excludes [of _ xs m ys l] by auto
    qed
    with step a generation_exec [of u a r v "gl_identity l"] gate_ok_exec [of u a r v]
    show ?case by simp
  qed
  then show ?thesis by (simp add: generation_at_def)
qed

theorem gate_generation_stable_witness:
  "let s = gate_run [Ready ''/r'', ReserveRun ''/r'' ''a'' ''build''] \<lparr>gy_gate = new_gate, gy_leases = []\<rparr>;
       t = snd (gate_exec (ReserveMutation ''/r'' ''pull'') s)
   in gs_generation (gate_entry (gy_gate t) ''/r'') = gs_generation (gate_entry (gy_gate s) ''/r'')"
proof -
  let ?s = "gate_run [Ready ''/r'', ReserveRun ''/r'' ''a'' ''build'']
    \<lparr>gy_gate = new_gate, gy_leases = []\<rparr>"
  let ?t = "snd (gate_exec (ReserveMutation ''/r'' ''pull'') ?s)"
  let ?l = "\<lparr>gl_identity = ''/r'', gl_operation = ''a'', gl_mutation = False\<rparr>"
  have s: "gy_leases ?s = [?l]" "gy_leases ?t = [?l]"
    by (simp_all add: gate_method_defs lift_gate_def lift_reserve_def with_entry_def new_gate_def
        gate_entry_def gate_put_def gate_reserve_def default_gate_state_def)
  have "gate_step ?s ?t"
    by (rule gate_stepI [of "ReserveMutation ''/r'' ''pull''" _ "fst (gate_exec (ReserveMutation ''/r'' ''pull'') ?s)"])
      simp_all
  then have "(\<lambda>u v. gate_step u v \<and> ?l \<in> set (gy_leases v))\<^sup>*\<^sup>* ?s ?t"
    using s by (intro r_into_rtranclp) simp
  from gate_generation_stable [OF gate_run_reach _ _ this] s show ?thesis
    by (simp add: Let_def del: gate_run.simps gate_exec.simps)
qed

lemma block_step:
  assumes "map_of (gs_blocks (gate_entry (gy_gate s) i)) b \<noteq> None"
    and "\<forall>j. path_eq j i \<longrightarrow> a \<noteq> Unblock j b"
  shows "map_of (gs_blocks (gate_entry (gy_gate (snd (gate_exec a s))) i)) b \<noteq> None"
proof -
  have we: "gate_entry (snd (with_entry j f g)) i =
      (if path_eq j i \<and> \<not> sg_poisoned g then f (gate_entry g i) else gate_entry g i)" for j f g
    by (rule with_entry_entry [of j f g "fst (with_entry j f g)"]) simp
  have re: "gs_blocks (gate_entry (snd (gate_reserve j oper run g)) i) = gs_blocks (gate_entry g i)"
    for j oper run g
  proof (cases "gate_reserve j oper run g")
    case (Pair x h)
    show ?thesis
    proof (cases x)
      case (Inl e)
      with Pair show ?thesis by simp (metis gate_reserve_Inl_entry)
    next
      case (Inr l)
      with Pair have "h = gate_put j (granted (gate_entry g j) oper run) g"
        by (simp add: gate_reserve_Inr)
      with Pair show ?thesis
        using gate_entry_cong [of j i g] by (cases run) (simp_all add: granted_def)
    qed
  qed
  have dr: "gs_blocks (gate_entry (gate_drop l g) i) = gs_blocks (gate_entry g i)" for l g
    by (simp add: gate_drop_entry released_def)
  have lg: "gy_gate (snd (lift_gate m s)) = snd (m (gy_gate s))" for m
    by (simp add: lift_gate_def split: prod.splits)
  have lr: "gy_gate (snd (lift_reserve m s)) = snd (m (gy_gate s))" for m
    by (simp add: lift_reserve_def split: prod.splits sum.splits)
  show ?thesis using assms by (cases a) (auto simp: gate_method_defs lg lr we re dr)
qed

text \<open>An independent block (unknown earlier work) refuses every reservation of its repository
  until that very block is released: no readiness report, other unblock, drop or reservation in
  between makes the source available.\<close>

theorem gate_block_persists:
  assumes "map_of (gs_blocks (gate_entry (gy_gate s) i)) b \<noteq> None"
    and "\<forall>j. path_eq j i \<longrightarrow> Unblock j b \<notin> set as" and "path_eq k i"
  shows "\<not> is_ok (fst (gate_reserve k oper run (gy_gate (gate_run as s))))"
proof -
  have "map_of (gs_blocks (gate_entry (gy_gate (gate_run as s)) i)) b \<noteq> None"
    using assms(1,2)
  proof (induction as arbitrary: s)
    case (Cons a as)
    from Cons.prems have "\<forall>j. path_eq j i \<longrightarrow> a \<noteq> Unblock j b" by auto
    from block_step [OF Cons.prems(1) this] Cons show ?case by simp
  qed simp
  then have "gs_blocks (gate_entry (gy_gate (gate_run as s)) k) \<noteq> []"
    using gate_entry_cong [OF assms(3)] by auto
  then show ?thesis by (auto simp: gate_reserve_def Let_def)
qed

theorem gate_block_persists_witness:
  "let s = gate_run [Ready ''/r'', Block ''/r'' ''u1'' ''old'', Block ''/r'' ''u2'' ''old'']
        \<lparr>gy_gate = new_gate, gy_leases = []\<rparr>
   in \<not> is_ok (fst (gate_reserve ''/r'' ''n'' None (gy_gate (gate_run [Ready ''/r'', Unblock ''/r'' ''u2''] s))))"
proof -
  let ?s = "gate_run [Ready ''/r'', Block ''/r'' ''u1'' ''old'', Block ''/r'' ''u2'' ''old'']
        \<lparr>gy_gate = new_gate, gy_leases = []\<rparr>"
  have "map_of (gs_blocks (gate_entry (gy_gate ?s) ''/r'')) ''u1'' \<noteq> None"
    by (simp add: gate_method_defs lift_gate_def with_entry_def new_gate_def
        gate_entry_def gate_put_def default_gate_state_def)
  from gate_block_persists [OF this, of "[Ready ''/r'', Unblock ''/r'' ''u2'']" "''/r''"]
  show ?thesis by (simp add: Let_def del: gate_run.simps)
qed

text \<open>A reservation succeeds exactly when the provider is ready, nothing is blocked, no
  mutation holds the repository, a mutation finds no run, and the operation is new; then it only
  registers itself.  On refusal every recorded entry is unchanged.\<close>

theorem gate_reserve_spec:
  "(case gate_reserve i oper run g of
     (Inr l, h) \<Rightarrow> \<not> sg_poisoned g \<and> gs_provider_ready (gate_entry g i) \<and> gs_blocks (gate_entry g i) = []
        \<and> gs_mutation (gate_entry g i) = None \<and> (run = None \<longrightarrow> gs_runs (gate_entry g i) = [])
        \<and> map_of (gs_runs (gate_entry g i)) oper = None
        \<and> gl_identity l = i \<and> gl_operation l = oper \<and> gl_mutation l = (run = None)
        \<and> (\<forall>j. gate_entry h j = (if path_eq i j then granted (gate_entry g i) oper run else gate_entry g j))
   | (Inl e, h) \<Rightarrow> (\<forall>j. gate_entry h j = gate_entry g j)
        \<and> (sg_poisoned g \<or> \<not> gs_provider_ready (gate_entry g i) \<or> gs_blocks (gate_entry g i) \<noteq> []
           \<or> gs_mutation (gate_entry g i) \<noteq> None \<or> (run = None \<and> gs_runs (gate_entry g i) \<noteq> [])
           \<or> map_of (gs_runs (gate_entry g i)) oper \<noteq> None))"
proof (cases "gate_reserve i oper run g")
  case (Pair x h)
  show ?thesis
  proof (cases x)
    case (Inl e)
    with Pair have "\<forall>j. gate_entry h j = gate_entry g j" by (auto intro: gate_reserve_Inl_entry)
    moreover have "\<not> (\<not> sg_poisoned g \<and> grantable (gate_entry g i) oper run)"
      using Pair Inl by (auto simp: gate_reserve_def grantable_def Let_def split: if_splits)
    ultimately show ?thesis using Pair Inl by (auto simp: grantable_def)
  next
    case (Inr l)
    with Pair have "gate_reserve i oper run g = (Inr l, h)" by simp
    then show ?thesis unfolding gate_reserve_Inr by (auto simp: Pair Inr grantable_def)
  qed
qed

theorem gate_reserve_spec_witness:
  "(case gate_reserve ''/r'' ''a'' (Some ''build'') (snd (gate_ready ''/r'' new_gate)) of
     (Inr l, h) \<Rightarrow> gl_operation l = ''a'' \<and> gs_runs (gate_entry h ''/r'') = [(''a'', ''build'')]
   | (Inl e, h) \<Rightarrow> False)"
proof -
  let ?g = "snd (gate_ready ''/r'' new_gate)"
  have e: "gate_entry ?g ''/r'' = default_gate_state\<lparr>gs_provider_ready := True\<rparr>" "\<not> sg_poisoned ?g"
    by (simp_all add: gate_ready_def with_entry_def new_gate_def gate_entry_def gate_put_def)
  from gate_reserve_spec [where i = "''/r''" and oper = "''a''" and run = "Some ''build''" and g = ?g] show ?thesis
    by (auto simp: e granted_def split: prod.splits sum.splits)
qed

end
