(* ===== verification/Digest.thy ===== *)
theory Digest
  imports Model
begin

text \<open>
  The fingerprints approvals are bound to (\<open>model.rs\<close>: \<open>hash_field\<close>, \<open>hash_sources\<close>,
  \<open>source_digest\<close>, \<open>task_digest\<close>; \<open>task.rs\<close>: \<open>digest\<close>).  A hash state is the bytes fed so
  far; finalising applies the SHA-256 parameter.  The framing of fields is proved
  injective here; what a digest binds is concluded in Digest_Safety.
\<close>

section \<open>What the program reads from the operating system\<close>

record file_meta =
  fm_is_file :: bool
  fm_is_dir :: bool
  fm_len :: nat
  fm_uid :: nat
  fm_mode :: nat
  fm_identity :: "nat \<times> nat"
  fm_times :: "int list"

text \<open>
  One observation of the filesystem: \<open>canonicalize\<close>, \<open>metadata\<close> (following links), and opening
  for reading (the metadata of the opened file and its contents).
\<close>

record os =
  os_canonicalize :: "path \<Rightarrow> path res"
  os_metadata :: "path \<Rightarrow> file_meta res"
  os_open :: "path \<Rightarrow> (file_meta \<times> string) res"

definition with_context :: "'a res \<Rightarrow> string \<Rightarrow> 'a res" where
  "with_context r m = (case r of Inl _ \<Rightarrow> Inl (Bail m) | Inr v \<Rightarrow> Inr v)"

lemma with_context_Inr [res_simps]: "(with_context r m = Inr v) = (r = Inr v)"
  by (cases r) (auto simp: with_context_def)

section \<open>Framed hashing\<close>

definition be64 :: "nat \<Rightarrow> string" where
  "be64 n = map (\<lambda>i. char_of (n div 256 ^ (7 - i))) [0..<8]"

definition hash_field :: "string \<Rightarrow> string \<Rightarrow> string" where
  "hash_field d b = (d @ be64 (length b)) @ b"

definition MAX_SCRIPT :: nat where "MAX_SCRIPT = 4194304"

definition hash_source :: "ext \<Rightarrow> os \<Rightarrow> string \<Rightarrow> source_spec \<Rightarrow> string res" where
  "hash_source x sy d s =
    (let d1 = hash_field d (ss_path s) in
     and_then (json_args x (ss_args s)) (\<lambda>args.
     let d2 = hash_field d1 args in
     and_then (with_context (os_canonicalize sy (ss_path s)) ''cannot resolve initialization script'')
       (\<lambda>canonical.
     and_then (os_metadata sy canonical) (\<lambda>target.
     ensure (fm_is_file target) ''initialization source must be a regular file''
     (ensure (\<not> MAX_SCRIPT < fm_len target) ''initialization script exceeds 4 MiB''
     (and_then (with_context (os_open sy canonical) ''cannot read initialization script'')
       (\<lambda>(meta, content).
     ensure (fm_is_file meta) ''initialization source must be a regular file''
     (let bytes = take (MAX_SCRIPT + 1) content in
      ensure (\<not> MAX_SCRIPT < length bytes) ''initialization script exceeds 4 MiB''
        (Inr (hash_field d2 bytes))))))))))"

definition hash_sources :: "ext \<Rightarrow> os \<Rightarrow> string \<Rightarrow> source_spec list \<Rightarrow> string res" where
  "hash_sources x sy d sources =
    fold_res (hash_source x sy) (hash_field d (be64 (length sources))) sources"

definition source_digest :: "ext \<Rightarrow> os \<Rightarrow> project \<Rightarrow> string res" where
  "source_digest x sy p =
    (let sh = pr_shell p;
         d1 = hash_field [] ''idk-source-definition-v2'';
         d2 = hash_field d1 (sc_executable sh);
         d3 = hash_field d2 [if sc_login sh then CHR 0x01 else CHR 0x00];
         d4 = hash_field d3 (sc_init_cwd sh) in
     and_then (case sc_native sh of
         None \<Rightarrow> Inr d4
       | Some n \<Rightarrow> and_then (json_native x n) (\<lambda>j. Inr (hash_field d4 j))) (\<lambda>d5.
     and_then (hash_sources x sy d5 (sc_sources sh)) (\<lambda>d6.
     Inr (sha256_hex x d6))))"

definition task_digest :: "ext \<Rightarrow> os \<Rightarrow> project \<Rightarrow> task_definition \<Rightarrow> string res" where
  "task_digest x sy p t =
    (let d1 = hash_field [] ''idk-task-definition-v3'' in
     and_then (if ta_execution t = None
         then and_then (source_digest x sy p) (\<lambda>s. Inr (hash_field d1 s)) else Inr d1) (\<lambda>d2.
     and_then (json_task x (t\<lparr>ta_approved_digest := None\<rparr>)) (\<lambda>j.
     let d3 = hash_field d2 j;
         d4 = hash_field d3 (ta_command t);
         d5 = hash_field d4 (ta_cwd t) in
     and_then (hash_sources x sy d5 (ta_sources t)) (\<lambda>d6.
     let d7 = (case ta_artifact t of None \<Rightarrow> d6 | Some a \<Rightarrow> hash_field d6 a) in
     Inr (sha256_hex x d7)))))"

definition approval_digest :: "ext \<Rightarrow> os \<Rightarrow> project \<Rightarrow> task_definition \<Rightarrow> string \<Rightarrow> string res" where
  "approval_digest x sy p t common =
    (let d1 = hash_field [] ''idk-approved-task-v1'';
         d2 = hash_field d1 common in
     and_then (os_canonicalize sy (pr_root p)) (\<lambda>root.
     let d3 = hash_field d2 root in
     and_then (json_binding x (pr_repository_binding p)) (\<lambda>b.
     let d4 = hash_field d3 b in
     and_then (task_digest x sy p t) (\<lambda>td.
     let d5 = hash_field d4 td in
     and_then (os_canonicalize sy (ta_cwd t)) (\<lambda>cwd.
     Inr (sha256_hex x (hash_field d5 cwd)))))))"

section \<open>The framing is injective\<close>

definition framed :: "string list \<Rightarrow> string" where
  "framed bs = concat (map (\<lambda>b. be64 (length b) @ b) bs)"

lemma framed_simps: "framed [] = []" "framed (b # bs) = be64 (length b) @ b @ framed bs"
  by (simp_all add: framed_def)

lemma framed_append: "framed (as @ bs) = framed as @ framed bs"
  by (simp add: framed_def)

lemma hash_field_framed: "hash_field (framed bs) b = framed (bs @ [b])"
  by (simp add: hash_field_def framed_append framed_simps)

lemma length_be64 [simp]: "length (be64 n) = 8"
  by (simp add: be64_def)

lemma digits_determine:
  fixes n m b :: nat
  assumes "\<forall>i<k. n div b ^ i mod b = m div b ^ i mod b"
  shows "n mod b ^ k = m mod b ^ k"
  using assms
proof (induction k)
  case (Suc k)
  then have "n mod b ^ k = m mod b ^ k" "n div b ^ k mod b = m div b ^ k mod b" by auto
  then show ?case by (simp add: mod_mult2_eq power_Suc2 del: power_Suc)
qed simp

lemma be64_inj:
  assumes "be64 n = be64 m" and "n < 2 ^ 64" and "m < 2 ^ 64"
  shows "n = m"
proof -
  have "n div 256 ^ i mod 256 = m div 256 ^ i mod 256" if "i < 8" for i
  proof -
    have "be64 n ! (7 - i) = be64 m ! (7 - i)" using assms(1) by simp
    then have "(char_of (n div 256 ^ i) :: char) = char_of (m div 256 ^ i)"
      using that nth_upt [of 0 "7 - i" 8] by (simp add: be64_def)
    then have "(of_char (char_of (n div 256 ^ i) :: char) :: nat)
        = of_char (char_of (m div 256 ^ i) :: char)" by simp
    then show ?thesis by simp
  qed
  then have "n mod 256 ^ 8 = m mod 256 ^ 8" by (intro digits_determine) auto
  with assms(2,3) show ?thesis by simp
qed

definition short :: "string \<Rightarrow> bool" where
  "short b \<longleftrightarrow> length b < 2 ^ 64"

lemma framed_inj:
  assumes "framed as = framed bs" and "list_all short as" and "list_all short bs"
  shows "as = bs"
  using assms
proof (induction as arbitrary: bs)
  case Nil
  then show ?case by (cases bs) (auto simp: framed_simps dest: arg_cong [of _ _ length])
next
  case (Cons a as)
  show ?case
  proof (cases bs)
    case Nil
    with Cons.prems show ?thesis by (auto simp: framed_simps dest: arg_cong [of _ _ length])
  next
    case (Cons b bs')
    from Cons.prems Cons have "be64 (length a) = be64 (length b)"
      and rest: "a @ framed as = b @ framed bs'" by (simp_all add: framed_simps)
    then have "length a = length b"
      using Cons.prems Cons by (intro be64_inj) (auto simp: short_def)
    with rest have "a = b" "framed as = framed bs'" by simp_all
    with Cons Cons.prems Cons.IH [of bs'] show ?thesis by simp
  qed
qed

section \<open>The fields each digest covers\<close>

definition source_fields :: "ext \<Rightarrow> os \<Rightarrow> source_spec \<Rightarrow> string list \<Rightarrow> bool" where
  "source_fields x sy s fs \<longleftrightarrow> (\<exists>args canonical meta content.
     json_args x (ss_args s) = Inr args \<and> os_canonicalize sy (ss_path s) = Inr canonical
     \<and> os_open sy canonical = Inr (meta, content) \<and> length content \<le> MAX_SCRIPT
     \<and> fs = [ss_path s, args, content])"

lemma hash_source_fields:
  assumes "hash_source x sy (framed bs) s = Inr d"
  shows "\<exists>fs. source_fields x sy s fs \<and> d = framed (bs @ fs)"
proof -
  from assms obtain args canonical meta content where *:
    "json_args x (ss_args s) = Inr args" "os_canonicalize sy (ss_path s) = Inr canonical"
    "os_open sy canonical = Inr (meta, content)"
    "length (take (MAX_SCRIPT + 1) content) \<le> MAX_SCRIPT"
    "d = hash_field (hash_field (hash_field (framed bs) (ss_path s)) args)
           (take (MAX_SCRIPT + 1) content)"
    by (auto simp: hash_source_def Let_def res_simps not_less split: prod.splits)
  then have "length content \<le> MAX_SCRIPT" by simp
  with * show ?thesis by (auto simp: source_fields_def hash_field_framed)
qed

lemma hash_sources_fields:
  assumes "fold_res (hash_source x sy) (framed bs) ss = Inr d"
  shows "\<exists>fss. list_all2 (source_fields x sy) ss fss \<and> d = framed (bs @ concat fss)"
  using assms
proof (induction ss arbitrary: bs)
  case Nil
  then show ?case by simp
next
  case (Cons s ss)
  then obtain d1 where d1: "hash_source x sy (framed bs) s = Inr d1"
    and rest: "fold_res (hash_source x sy) d1 ss = Inr d" by (auto simp: res_simps)
  from hash_source_fields [OF d1] obtain fs where fs: "source_fields x sy s fs"
    and "d1 = framed (bs @ fs)" by auto
  with rest Cons.IH [of "bs @ fs"] obtain fss where
    "list_all2 (source_fields x sy) ss fss" "d = framed ((bs @ fs) @ concat fss)" by auto
  with fs show ?case by (intro exI [of _ "fs # fss"]) simp
qed

text \<open>
  The frames under a task digest: its kind, the project's initialization for a legacy task, the
  JSON of the definition with the approval cleared, command, working directory, and the bytes
  of every initialization script.
\<close>

definition task_frames :: "ext \<Rightarrow> os \<Rightarrow> project \<Rightarrow> task_definition \<Rightarrow> string list \<Rightarrow> bool" where
  "task_frames x sy p t fs \<longleftrightarrow> (\<exists>init j fss.
     (if ta_execution t = None then \<exists>s. source_digest x sy p = Inr s \<and> init = [s] else init = [])
     \<and> json_task x (t\<lparr>ta_approved_digest := None\<rparr>) = Inr j
     \<and> list_all2 (source_fields x sy) (ta_sources t) fss
     \<and> fs = [''idk-task-definition-v3''] @ init
         @ [j, ta_command t, ta_cwd t, be64 (length (ta_sources t))] @ concat fss
         @ (case ta_artifact t of None \<Rightarrow> [] | Some a \<Rightarrow> [a]))"

lemma task_digest_frames:
  assumes "task_digest x sy p t = Inr h"
  shows "\<exists>fs. task_frames x sy p t fs \<and> h = sha256_hex x (framed fs)"
proof -
  define init where "init = (if ta_execution t = None then [projr (source_digest x sy p)] else [])"
  from assms obtain d2 j d6 where
    d2: "(if ta_execution t = None then and_then (source_digest x sy p)
        (\<lambda>s. Inr (hash_field (hash_field [] ''idk-task-definition-v3'') s))
        else Inr (hash_field [] ''idk-task-definition-v3'')) = Inr d2"
    and j: "json_task x (t\<lparr>ta_approved_digest := None\<rparr>) = Inr j"
    and d6: "hash_sources x sy (hash_field (hash_field (hash_field d2 j) (ta_command t)) (ta_cwd t))
        (ta_sources t) = Inr d6"
    and h: "h = sha256_hex x (case ta_artifact t of None \<Rightarrow> d6 | Some a \<Rightarrow> hash_field d6 a)"
    by (auto simp: task_digest_def Let_def res_simps)
  have label: "hash_field [] ''idk-task-definition-v3'' = framed [''idk-task-definition-v3'']"
    using hash_field_framed [of "[]"] by (simp add: framed_def)
  have init: "(if ta_execution t = None then \<exists>s. source_digest x sy p = Inr s \<and> init = [s] else init = [])
      \<and> d2 = framed ([''idk-task-definition-v3''] @ init)"
    using d2 unfolding label
    by (auto simp: init_def res_simps hash_field_framed split: if_splits)
  have "hash_sources x sy (framed ([''idk-task-definition-v3''] @ init @ [j, ta_command t, ta_cwd t]))
      (ta_sources t) = Inr d6"
    using d6 init by (simp add: hash_field_framed)
  then obtain fss where fss: "list_all2 (source_fields x sy) (ta_sources t) fss"
    "d6 = framed (([''idk-task-definition-v3''] @ init @ [j, ta_command t, ta_cwd t]
        @ [be64 (length (ta_sources t))]) @ concat fss)"
    unfolding hash_sources_def hash_field_framed by (auto dest: hash_sources_fields)
  have "h = sha256_hex x (framed ([''idk-task-definition-v3''] @ init
         @ [j, ta_command t, ta_cwd t, be64 (length (ta_sources t))] @ concat fss
         @ (case ta_artifact t of None \<Rightarrow> [] | Some a \<Rightarrow> [a])))"
    using h fss by (simp add: hash_field_framed split: option.splits)
  with init j fss show ?thesis unfolding task_frames_def by blast
qed

lemma approval_digest_frames:
  assumes "approval_digest x sy p t common = Inr h"
  shows "\<exists>root b td cwd. os_canonicalize sy (pr_root p) = Inr root
    \<and> json_binding x (pr_repository_binding p) = Inr b \<and> task_digest x sy p t = Inr td
    \<and> os_canonicalize sy (ta_cwd t) = Inr cwd
    \<and> h = sha256_hex x (framed [''idk-approved-task-v1'', common, root, b, td, cwd])"
proof -
  have label: "hash_field [] ''idk-approved-task-v1'' = framed [''idk-approved-task-v1'']"
    using hash_field_framed [of "[]"] by (simp add: framed_def)
  show ?thesis
    using assms unfolding approval_digest_def Let_def label
    by (auto simp: res_simps hash_field_framed)
qed

text \<open>A concrete instance of the third-party functions, for evaluating the theorems.\<close>

definition hex_byte :: "char \<Rightarrow> string" where
  "hex_byte c = (let n = (of_char c :: nat) in [char_of (97 + n div 16), char_of (97 + n mod 16)])"

definition demo_ext :: ext where
  "demo_ext = \<lparr>uuid_ok = (\<lambda>s. s \<noteq> []), sha256_hex = (\<lambda>b. concat (map hex_byte b)),
     json_native = (\<lambda>_. Inr ''{}''), json_args = (\<lambda>_. Inr ''[]''),
     json_task = (\<lambda>t. Inr (''{'' @ ta_command t @ ''}'')), json_binding = (\<lambda>_. Inr ''null'')\<rparr>"

definition demo_os :: os where
  "demo_os = \<lparr>os_canonicalize = Inr, os_metadata = (\<lambda>_. Inl NotFound), os_open = (\<lambda>_. Inl NotFound)\<rparr>"

lemma of_char_less: "(of_char c :: nat) < 256"
  by (metis of_char_mod_256 mod_less_divisor zero_less_numeral)

lemma hex_digit_inj:
  assumes "(char_of (97 + i) :: char) = char_of (97 + j)" "i < 16" "(j :: nat) < 16"
  shows "i = j"
proof -
  from assms(1) have "(of_char (char_of (97 + i) :: char) :: nat) = of_char (char_of (97 + j) :: char)"
    by simp
  with assms(2,3) show ?thesis by simp
qed

lemma hex_byte_inj: "hex_byte c = hex_byte d \<Longrightarrow> c = d"
proof -
  assume h: "hex_byte c = hex_byte d"
  let ?n = "of_char c :: nat" and ?m = "of_char d :: nat"
  have "?n div 16 < 16" "?m div 16 < 16" using of_char_less [of c] of_char_less [of d]
    by (simp_all add: div_less_iff_less_mult)
  moreover from h have "(char_of (97 + ?n div 16) :: char) = char_of (97 + ?m div 16)"
    "(char_of (97 + ?n mod 16) :: char) = char_of (97 + ?m mod 16)" by (auto simp: hex_byte_def Let_def)
  ultimately have "?n div 16 = ?m div 16" "?n mod 16 = ?m mod 16" by (auto dest: hex_digit_inj)
  then have "?n = ?m" by (metis div_mult_mod_eq)
  then show "c = d" by simp
qed

lemma length_hex_byte [simp]: "length (hex_byte c) = 2"
  by (simp add: hex_byte_def Let_def)

lemma demo_sha_inj: "inj (sha256_hex demo_ext)"
proof (rule injI)
  fix a b
  show "a = b" if "sha256_hex demo_ext a = sha256_hex demo_ext b"
    using that
  proof (induction a arbitrary: b)
    case Nil
    then show ?case by (cases b) (auto simp: demo_ext_def dest: arg_cong [of _ _ length])
  next
    case (Cons c a)
    show ?case
    proof (cases b)
      case Nil
      with Cons.prems show ?thesis by (auto simp: demo_ext_def dest: arg_cong [of _ _ length])
    next
      case (Cons d b')
      with Cons.prems have "hex_byte c @ sha256_hex demo_ext a = hex_byte d @ sha256_hex demo_ext b'"
        by (simp add: demo_ext_def)
      then have "hex_byte c = hex_byte d" "sha256_hex demo_ext a = sha256_hex demo_ext b'" by simp_all
      with Cons Cons.IH show ?thesis by (auto dest: hex_byte_inj)
    qed
  qed
qed

lemma hex_byte_letters: "CHR ''{'' \<notin> set (hex_byte c)"
proof -
  have *: "CHR ''{'' \<noteq> char_of (97 + i)" if "i < 16" for i :: nat
  proof
    assume "CHR ''{'' = char_of (97 + i)"
    then have "(of_char (CHR ''{'') :: nat) = of_char (char_of (97 + i) :: char)" by simp
    with that show False by simp
  qed
  from * [of "of_char c div 16"] * [of "of_char c mod 16"] show ?thesis
    using of_char_less [of c] by (auto simp: hex_byte_def Let_def div_less_iff_less_mult)
qed

lemma demo_sha_letters: "CHR ''{'' \<notin> set (sha256_hex demo_ext b)"
  using hex_byte_letters by (auto simp: demo_ext_def)

lemma demo_brace: "json_task demo_ext t = Inr j \<longrightarrow> take 1 j = ''{''"
  by (auto simp: demo_ext_def)

definition demo_task :: task_definition where
  "demo_task = \<lparr>ta_execution = Some (Process ''/bin/make'' [] []), ta_id = ''t1'', ta_name = ''build'',
     ta_command = [], ta_cwd = ''/w'', ta_sources = [], ta_artifact = None,
     ta_approved_digest = None, ta_steps = [], ta_failure_policy = StopOnFailure,
     ta_logging = RawLogging, ta_interactive = False, ta_build_outputs = [],
     ta_artifact_from_task = None, ta_timeout_seconds = None\<rparr>"

definition demo_project :: project where
  "demo_project = \<lparr>pr_id = ''p1'', pr_name = ''demo'', pr_root = ''/w'', pr_repository = None,
     pr_repository_binding = None, pr_related_repositories = [], pr_default_terminal = None,
     pr_shell = \<lparr>sc_native = Some \<lparr>ns_args = [], ns_env = []\<rparr>, sc_executable = ''/bin/sh'',
       sc_login = False, sc_init_cwd = ''/w'', sc_sources = [], sc_trusted_digest = None\<rparr>,
     pr_terminals = [], pr_tasks = [demo_task], pr_editor = None\<rparr>"

lemma length_demo_sha: "length (sha256_hex demo_ext b) = 2 * length b"
proof (induction b)
  case (Cons c b)
  then show ?case by (simp add: demo_ext_def)
qed (simp add: demo_ext_def)

lemma length_framed: "length (framed bs) = sum_list (map (\<lambda>b. 8 + length b) bs)"
  by (induction bs) (simp_all add: framed_simps)

end
