(* ===== verification/Digest_Safety.thy ===== *)
theory Digest_Safety
  imports Digest
begin

text \<open>
  What an approval digest binds: two reviews with the same digest agree on every field that was
  hashed, the bytes of the scripts included, unless the inputs hashed for them collide.
\<close>

section \<open>The inputs that are hashed\<close>

definition approval_frames :: "ext \<Rightarrow> os \<Rightarrow> project \<Rightarrow> task_definition \<Rightarrow> string \<Rightarrow> string list \<Rightarrow> bool" where
  "approval_frames x sy p t common fs \<longleftrightarrow> (\<exists>root b td cwd. os_canonicalize sy (pr_root p) = Inr root
     \<and> json_binding x (pr_repository_binding p) = Inr b \<and> task_digest x sy p t = Inr td
     \<and> os_canonicalize sy (ta_cwd t) = Inr cwd \<and> fs = [''idk-approved-task-v1'', common, root, b, td, cwd])"

definition source_frames :: "ext \<Rightarrow> os \<Rightarrow> project \<Rightarrow> string list \<Rightarrow> bool" where
  "source_frames x sy p fs \<longleftrightarrow> (\<exists>native fss.
     (case sc_native (pr_shell p) of None \<Rightarrow> native = [] | Some n \<Rightarrow> \<exists>j. json_native x n = Inr j \<and> native = [j])
     \<and> list_all2 (source_fields x sy) (sc_sources (pr_shell p)) fss
     \<and> fs = [''idk-source-definition-v2'', sc_executable (pr_shell p),
           [if sc_login (pr_shell p) then CHR 0x01 else CHR 0x00], sc_init_cwd (pr_shell p)] @ native
         @ [be64 (length (sc_sources (pr_shell p)))] @ concat fss)"

definition hashed_frames :: "ext \<Rightarrow> os \<Rightarrow> project \<Rightarrow> task_definition \<Rightarrow> string \<Rightarrow> string list \<Rightarrow> bool" where
  "hashed_frames x sy p t common fs \<longleftrightarrow> approval_frames x sy p t common fs \<or> task_frames x sy p t fs
     \<or> (ta_execution t = None \<and> source_frames x sy p fs)"

text \<open>The byte strings hashed for a review, and the bounds of memory: every field is shorter than
  \<open>2\<^sup>64\<close> bytes, and there are fewer scripts than that.\<close>

definition hashed_inputs :: "ext \<Rightarrow> os \<Rightarrow> project \<Rightarrow> task_definition \<Rightarrow> string \<Rightarrow> string set" where
  "hashed_inputs x sy p t common = framed ` {fs. hashed_frames x sy p t common fs}"

definition fits_memory :: "ext \<Rightarrow> os \<Rightarrow> project \<Rightarrow> task_definition \<Rightarrow> string \<Rightarrow> bool" where
  "fits_memory x sy p t common \<longleftrightarrow> (\<forall>fs. hashed_frames x sy p t common fs \<longrightarrow> list_all short fs)
     \<and> length (ta_sources t) < 2 ^ 64 \<and> length (sc_sources (pr_shell p)) < 2 ^ 64"

text \<open>What is reviewed of the scripts: the path as written, the arguments, and the bytes.\<close>

definition script_bytes :: "os \<Rightarrow> source_spec \<Rightarrow> string res" where
  "script_bytes sy s = and_then (os_canonicalize sy (ss_path s)) (\<lambda>c.
     and_then (os_open sy c) (\<lambda>(meta, content). Inr content))"

definition reviewed_scripts :: "ext \<Rightarrow> os \<Rightarrow> source_spec list \<Rightarrow> (path \<times> string res \<times> string res) list" where
  "reviewed_scripts x sy ss = map (\<lambda>s. (ss_path s, json_args x (ss_args s), script_bytes sy s)) ss"

lemma approval_digest_hashes:
  assumes "approval_digest x sy p t common = Inr h"
  shows "\<exists>fs. approval_frames x sy p t common fs \<and> h = sha256_hex x (framed fs)"
  using approval_digest_frames [OF assms] unfolding approval_frames_def by blast

lemma source_digest_hashes:
  assumes "source_digest x sy p = Inr h"
  shows "\<exists>fs. source_frames x sy p fs \<and> h = sha256_hex x (framed fs)"
proof -
  let ?sh = "pr_shell p"
  let ?head = "[''idk-source-definition-v2'', sc_executable ?sh, [if sc_login ?sh then CHR 0x01 else CHR 0x00], sc_init_cwd ?sh]"
  have head: "hash_field (hash_field (hash_field (hash_field [] ''idk-source-definition-v2'') (sc_executable ?sh))
      [if sc_login ?sh then CHR 0x01 else CHR 0x00]) (sc_init_cwd ?sh) = framed ?head"
    by (simp add: hash_field_def framed_def)
  from assms obtain d5 d6 where
    d5: "(case sc_native ?sh of None \<Rightarrow> Inr (framed ?head)
       | Some n \<Rightarrow> and_then (json_native x n) (\<lambda>j. Inr (hash_field (framed ?head) j))) = Inr d5"
    and d6: "hash_sources x sy d5 (sc_sources ?sh) = Inr d6" and h: "h = sha256_hex x d6"
    unfolding source_digest_def Let_def head by (auto simp: res_simps)
  from d5 obtain native where
    native: "case sc_native ?sh of None \<Rightarrow> native = [] | Some n \<Rightarrow> \<exists>j. json_native x n = Inr j \<and> native = [j]"
    and d5: "d5 = framed (?head @ native)"
    by (cases "sc_native ?sh") (auto simp: res_simps hash_field_framed)
  from d6 obtain fss where "list_all2 (source_fields x sy) (sc_sources ?sh) fss"
    "d6 = framed ((?head @ native @ [be64 (length (sc_sources ?sh))]) @ concat fss)"
    unfolding hash_sources_def d5 hash_field_framed by (auto dest: hash_sources_fields)
  note fss = this
  have "source_frames x sy p (?head @ native @ [be64 (length (sc_sources ?sh))] @ concat fss)"
    unfolding source_frames_def using native fss(1) by blast
  with h fss(2) show ?thesis by (metis append_assoc)
qed

section \<open>From the fields to what was reviewed\<close>

lemma source_fields_length: "source_fields x sy s fs \<Longrightarrow> length fs = 3"
  by (auto simp: source_fields_def)

lemma sources_length: "list_all2 (source_fields x sy) ss fss \<Longrightarrow> length (concat fss) = 3 * length ss"
  by (induction rule: list_all2_induct) (auto dest: source_fields_length)

lemma same_scripts:
  assumes "list_all2 (source_fields x sy) ss fss" "list_all2 (source_fields x sy') ss' fss'"
    and "concat fss @ r = concat fss' @ r'" "length ss = length ss'"
  shows "reviewed_scripts x sy ss = reviewed_scripts x sy' ss' \<and> r = r'"
  using assms
proof (induction ss fss arbitrary: ss' fss' rule: list_all2_induct)
  case Nil
  then show ?case by (simp add: reviewed_scripts_def)
next
  case (Cons s ss fs fss)
  from Cons.prems(1,3) obtain s' fs' ts gss where s': "ss' = s' # ts" "fss' = fs' # gss"
    "source_fields x sy' s' fs'" "list_all2 (source_fields x sy') ts gss"
    by (cases ss') (auto simp: list_all2_Cons1)
  with Cons.prems(2) Cons.hyps(1) have "fs = fs'" and rest: "concat fss @ r = concat gss @ r'"
    by (auto dest!: source_fields_length)
  with Cons.hyps(1) s'(3) have "(ss_path s, json_args x (ss_args s), script_bytes sy s)
      = (ss_path s', json_args x (ss_args s'), script_bytes sy' s')"
    by (auto simp: source_fields_def script_bytes_def and_then_def)
  with Cons.IH [OF s'(4) rest] Cons.prems(3) s'(1) show ?case by (simp add: reviewed_scripts_def)
qed

text \<open>The fields of the shell of a task without an execution of its own.  Whether it is native shows
  in their number: each script has three.\<close>

lemma source_frames_bind:
  assumes "source_frames x sy p fs" "source_frames x sy' p' fs"
    and "length (sc_sources (pr_shell p)) < 2 ^ 64" "length (sc_sources (pr_shell p')) < 2 ^ 64"
  shows "sc_executable (pr_shell p) = sc_executable (pr_shell p') \<and> sc_login (pr_shell p) = sc_login (pr_shell p')
    \<and> sc_init_cwd (pr_shell p) = sc_init_cwd (pr_shell p')
    \<and> map_option (json_native x) (sc_native (pr_shell p)) = map_option (json_native x) (sc_native (pr_shell p'))
    \<and> reviewed_scripts x sy (sc_sources (pr_shell p)) = reviewed_scripts x sy' (sc_sources (pr_shell p'))"
proof -
  let ?s = "pr_shell p" and ?s' = "pr_shell p'"
  let ?nat = "\<lambda>s native. case sc_native s of None \<Rightarrow> native = [] | Some n \<Rightarrow> \<exists>j. json_native x n = Inr j \<and> native = [j]"
  from assms(1) obtain native fss where f: "?nat ?s native" "list_all2 (source_fields x sy) (sc_sources ?s) fss"
    "fs = [''idk-source-definition-v2'', sc_executable ?s, [if sc_login ?s then CHR 0x01 else CHR 0x00], sc_init_cwd ?s]
       @ native @ [be64 (length (sc_sources ?s))] @ concat fss" unfolding source_frames_def by blast
  from assms(2) obtain native' fss' where f': "?nat ?s' native'" "list_all2 (source_fields x sy') (sc_sources ?s') fss'"
    "fs = [''idk-source-definition-v2'', sc_executable ?s', [if sc_login ?s' then CHR 0x01 else CHR 0x00], sc_init_cwd ?s']
       @ native' @ [be64 (length (sc_sources ?s'))] @ concat fss'" unfolding source_frames_def by blast
  from f(3) f'(3) have heads: "sc_executable ?s = sc_executable ?s'" "sc_login ?s = sc_login ?s'"
    "sc_init_cwd ?s = sc_init_cwd ?s'"
    and tail: "native @ [be64 (length (sc_sources ?s))] @ concat fss = native' @ [be64 (length (sc_sources ?s'))] @ concat fss'"
    by (auto split: if_splits)
  have "length native \<le> 1" "length native' \<le> 1" using f(1) f'(1) by (auto split: option.splits)
  moreover have "length native + 3 * length (sc_sources ?s) = length native' + 3 * length (sc_sources ?s')"
    using arg_cong [OF tail, of length] sources_length [OF f(2)] sources_length [OF f'(2)] by simp
  ultimately have len: "length native = length native'" by presburger
  with tail have n: "native = native'" and b: "be64 (length (sc_sources ?s)) = be64 (length (sc_sources ?s'))"
    and c: "concat fss @ [] = concat fss' @ []" by auto
  from same_scripts [OF f(2) f'(2) c be64_inj [OF b assms(3,4)]] heads n f(1) f'(1) show ?thesis
    by (auto split: option.splits)
qed

lemma task_frames_bind:
  assumes "task_frames x sy p t fs" "task_frames x sy' p' t' fs"
    and brace: "\<forall>t j. json_task x t = Inr j \<longrightarrow> take 1 j = ''{''"
    and hex: "\<forall>b. CHR ''{'' \<notin> set (sha256_hex x b)"
    and few: "length (ta_sources t) < 2 ^ 64" "length (ta_sources t') < 2 ^ 64"
  shows "(ta_execution t = None) = (ta_execution t' = None)
    \<and> (ta_execution t = None \<longrightarrow> source_digest x sy p = source_digest x sy' p')
    \<and> json_task x (t\<lparr>ta_approved_digest := None\<rparr>) = json_task x (t'\<lparr>ta_approved_digest := None\<rparr>)
    \<and> ta_command t = ta_command t' \<and> ta_cwd t = ta_cwd t' \<and> ta_artifact t = ta_artifact t'
    \<and> reviewed_scripts x sy (ta_sources t) = reviewed_scripts x sy' (ta_sources t')"
proof -
  let ?init = "\<lambda>sy p t init. if ta_execution t = None then \<exists>s. source_digest x sy p = Inr s \<and> init = [s] else init = []"
  let ?art = "\<lambda>t. case ta_artifact t of None \<Rightarrow> [] | Some a \<Rightarrow> [a]"
  from assms(1) obtain init j fss where f: "?init sy p t init" "json_task x (t\<lparr>ta_approved_digest := None\<rparr>) = Inr j"
    "list_all2 (source_fields x sy) (ta_sources t) fss"
    "fs = [''idk-task-definition-v3''] @ init @ [j, ta_command t, ta_cwd t, be64 (length (ta_sources t))] @ concat fss @ ?art t"
    unfolding task_frames_def by blast
  from assms(2) obtain init' j' fss' where f': "?init sy' p' t' init'" "json_task x (t'\<lparr>ta_approved_digest := None\<rparr>) = Inr j'"
    "list_all2 (source_fields x sy') (ta_sources t') fss'"
    "fs = [''idk-task-definition-v3''] @ init' @ [j', ta_command t', ta_cwd t', be64 (length (ta_sources t'))] @ concat fss' @ ?art t'"
    unfolding task_frames_def by blast
  have nj: "s \<noteq> j" if "source_digest x sy p = Inr s" "json_task x t = Inr j" for sy p s t j
  proof
    assume "s = j"
    from that(1) obtain b where "s = sha256_hex x b" by (auto simp: source_digest_def Let_def res_simps)
    moreover from brace that(2) have "take 1 j = ''{''" by blast
    then have "CHR ''{'' \<in> set j" by (cases j) auto
    ultimately show False using hex \<open>s = j\<close> by blast
  qed
  have init: "init = init' \<and> (ta_execution t = None) = (ta_execution t' = None)"
    using f f' by (auto split: if_splits dest: nj nj [symmetric])
  with f(4) f'(4) have same: "j = j'" "ta_command t = ta_command t'" "ta_cwd t = ta_cwd t'"
    "be64 (length (ta_sources t)) = be64 (length (ta_sources t'))" "concat fss @ ?art t = concat fss' @ ?art t'" by auto
  from same_scripts [OF f(3) f'(3) same(5) be64_inj [OF same(4) few]] init same f f' show ?thesis
    by (auto split: option.splits if_splits)
qed

section \<open>Properties\<close>

text \<open>C36 (approval_binds_content). Two task reviews with the same approval digest agree on everything that the
  approval covers: the common initialization digest, the canonical project root and working
  directory, the repository binding, the JSON of the definition without its approval, its command,
  directory and artifact, and for every script of the task its path, arguments and bytes; and, of a
  task without an execution of its own, the project's shell: executable, login, initial directory,
  native configuration, and path, arguments and bytes of every script.  The hypotheses are that
  SHA-256 maps no two different ones of the few byte strings hashed for these two reviews to the same
  digest, that its digests are hexadecimal and the JSON of a task an object, and the bounds of
  memory.\<close>

theorem approval_binds_content:
  assumes sha: "inj_on (sha256_hex x) (hashed_inputs x sy p t common \<union> hashed_inputs x sy' p' t' common')"
    and hex: "\<forall>b. CHR ''{'' \<notin> set (sha256_hex x b)"
    and brace: "\<forall>t j. json_task x t = Inr j \<longrightarrow> take 1 j = ''{''"
    and d: "approval_digest x sy p t common = Inr h"
    and d': "approval_digest x sy' p' t' common' = Inr h"
    and fit: "fits_memory x sy p t common" and fit': "fits_memory x sy' p' t' common'"
  shows "common = common'
    \<and> os_canonicalize sy (pr_root p) = os_canonicalize sy' (pr_root p')
    \<and> json_binding x (pr_repository_binding p) = json_binding x (pr_repository_binding p')
    \<and> os_canonicalize sy (ta_cwd t) = os_canonicalize sy' (ta_cwd t')
    \<and> (ta_execution t = None) = (ta_execution t' = None)
    \<and> json_task x (t\<lparr>ta_approved_digest := None\<rparr>) = json_task x (t'\<lparr>ta_approved_digest := None\<rparr>)
    \<and> ta_command t = ta_command t' \<and> ta_cwd t = ta_cwd t' \<and> ta_artifact t = ta_artifact t'
    \<and> reviewed_scripts x sy (ta_sources t) = reviewed_scripts x sy' (ta_sources t')
    \<and> (ta_execution t = None \<longrightarrow> sc_executable (pr_shell p) = sc_executable (pr_shell p')
        \<and> sc_login (pr_shell p) = sc_login (pr_shell p') \<and> sc_init_cwd (pr_shell p) = sc_init_cwd (pr_shell p')
        \<and> map_option (json_native x) (sc_native (pr_shell p)) = map_option (json_native x) (sc_native (pr_shell p'))
        \<and> reviewed_scripts x sy (sc_sources (pr_shell p)) = reviewed_scripts x sy' (sc_sources (pr_shell p')))"
proof -
  have equal: "fs = fs'" if "hashed_frames x sy p t common fs" "hashed_frames x sy' p' t' common' fs'"
    "sha256_hex x (framed fs) = sha256_hex x (framed fs')" for fs fs'
  proof (rule framed_inj)
    show "framed fs = framed fs'" using sha that by (auto simp: hashed_inputs_def dest: inj_onD)
  qed (use that fit fit' in \<open>auto simp: fits_memory_def\<close>)
  from approval_digest_hashes [OF d] approval_digest_hashes [OF d'] obtain fs fs' where
    f: "approval_frames x sy p t common fs" "approval_frames x sy' p' t' common' fs'"
      "sha256_hex x (framed fs) = sha256_hex x (framed fs')" by metis
  then have "fs = fs'" by (intro equal) (simp_all add: hashed_frames_def)
  with f obtain td where outer: "common = common'" "os_canonicalize sy (pr_root p) = os_canonicalize sy' (pr_root p')"
    "json_binding x (pr_repository_binding p) = json_binding x (pr_repository_binding p')"
    "os_canonicalize sy (ta_cwd t) = os_canonicalize sy' (ta_cwd t')"
    and td: "task_digest x sy p t = Inr td" "task_digest x sy' p' t' = Inr td"
    by (auto simp: approval_frames_def)
  from td [THEN task_digest_frames] obtain gs gs' where
    g: "task_frames x sy p t gs" "task_frames x sy' p' t' gs'" "sha256_hex x (framed gs) = sha256_hex x (framed gs')" by metis
  then have "gs = gs'" by (intro equal) (simp_all add: hashed_frames_def)
  with g fit fit' have inner: "task_frames x sy p t gs" "task_frames x sy' p' t' gs"
    and few: "length (ta_sources t) < 2 ^ 64" "length (ta_sources t') < 2 ^ 64"
      "length (sc_sources (pr_shell p)) < 2 ^ 64" "length (sc_sources (pr_shell p')) < 2 ^ 64"
    by (simp_all add: fits_memory_def)
  note task = task_frames_bind [OF inner brace hex few(1,2)]
  have shell: "\<exists>ks. source_frames x sy p ks \<and> source_frames x sy' p' ks" if e: "ta_execution t = None"
  proof -
    from inner(1) e obtain s where s: "source_digest x sy p = Inr s" by (auto simp: task_frames_def)
    with task e have "source_digest x sy' p' = Inr s" by simp
    with s obtain ks ks' where k: "source_frames x sy p ks" "source_frames x sy' p' ks'"
      "sha256_hex x (framed ks) = sha256_hex x (framed ks')" by (metis source_digest_hashes)
    with e task have "ks = ks'" by (intro equal) (simp_all add: hashed_frames_def)
    with k show ?thesis by blast
  qed
  from task outer shell source_frames_bind [OF _ _ few(3,4)] show ?thesis by blast
qed

text \<open>One script, with either of two contents.\<close>

definition script_meta :: "string \<Rightarrow> file_meta" where
  "script_meta content = \<lparr>fm_is_file = True, fm_is_dir = False, fm_len = length content, fm_uid = 1000, fm_mode = 420,
     fm_identity = (1, 2), fm_times = []\<rparr>"

definition script_os :: "string \<Rightarrow> os" where
  "script_os content = demo_os\<lparr>os_metadata := (\<lambda>_. Inr (script_meta content)),
     os_open := (\<lambda>_. Inr (script_meta content, content))\<rparr>"

definition demo_scripted :: task_definition where
  "demo_scripted = demo_task\<lparr>ta_sources := [\<lparr>ss_path = ''/s'', ss_args = []\<rparr>]\<rparr>"

lemma scripted_frames:
  "task_frames demo_ext (script_os [c]) demo_project demo_scripted fs \<longleftrightarrow>
     fs = [''idk-task-definition-v3'', ''{}'', [], ''/w'', be64 1, ''/s'', ''[]'', [c]]"
  by (auto simp: task_frames_def demo_task_def demo_ext_def demo_scripted_def script_os_def script_meta_def demo_os_def
      source_fields_def MAX_SCRIPT_def list_all2_Cons1)

lemma scripted_digest:
  "\<exists>h. approval_digest demo_ext (script_os [c]) demo_project demo_scripted ''c'' = Inr h"
  by (simp add: approval_digest_def task_digest_def hash_sources_def hash_source_def Let_def demo_os_def
      demo_ext_def demo_project_def demo_task_def demo_scripted_def script_os_def script_meta_def MAX_SCRIPT_def with_context_def)

lemma scripted_fits: "fits_memory demo_ext (script_os [c]) demo_project demo_scripted ''c''"
proof -
  have "length b < 2 ^ 64" if "task_digest demo_ext (script_os [c]) demo_project demo_scripted = Inr b" for b
    using task_digest_frames [OF that]
    by (auto simp: scripted_frames length_demo_sha length_framed)
  then show ?thesis
    unfolding fits_memory_def hashed_frames_def scripted_frames approval_frames_def
    by (auto simp: short_def script_os_def demo_os_def demo_ext_def demo_project_def demo_task_def demo_scripted_def)
qed

theorem approval_binds_content_witness:
  "\<exists>h h'. approval_digest demo_ext (script_os ''a'') demo_project demo_scripted ''c'' = Inr h
    \<and> approval_digest demo_ext (script_os ''b'') demo_project demo_scripted ''c'' = Inr h' \<and> h \<noteq> h'"
proof -
  obtain h h' where h: "approval_digest demo_ext (script_os ''a'') demo_project demo_scripted ''c'' = Inr h"
    and h': "approval_digest demo_ext (script_os ''b'') demo_project demo_scripted ''c'' = Inr h'"
    using scripted_digest by blast
  have "inj_on (sha256_hex demo_ext) A" for A using demo_sha_inj by (rule inj_on_subset) simp
  note same = approval_binds_content [OF this _ _ h _ scripted_fits scripted_fits]
  have "reviewed_scripts demo_ext (script_os ''a'') (ta_sources demo_scripted)
      \<noteq> reviewed_scripts demo_ext (script_os ''b'') (ta_sources demo_scripted)"
    by (simp add: reviewed_scripts_def demo_scripted_def script_bytes_def script_os_def demo_os_def)
  with same h' demo_sha_letters demo_brace have "h \<noteq> h'" by blast
  with h h' show ?thesis by blast
qed

end
