(* ===== verification/Model_Valid.thy ===== *)
theory Model_Valid
  imports Model
begin

text \<open>
  What the validators of \<open>model.rs\<close> accept, stated declaratively: each entry well-formed on
  its own, identities unique across the whole definition, references resolved.  The code
  interleaves these checks with \<open>HashSet\<close> insertions and early returns; the equivalences
  below remove that control flow once, for every later proof.
\<close>

section \<open>Declarative well-formedness\<close>

definition wf_terminal :: "ext \<Rightarrow> terminal_definition \<Rightarrow> bool" where
  "wf_terminal x t \<longleftrightarrow> uuid_ok x (td_id t) \<and> valid_name (td_name t) = Inr ()
     \<and> absolute_path (td_cwd t) = Inr () \<and> validate_sources (td_sources t) = Inr ()"

definition wf_execution :: "task_definition \<Rightarrow> bool" where
  "wf_execution t \<longleftrightarrow> (case ta_execution t of
       None \<Rightarrow> ta_steps t \<noteq> [] \<or> \<not> trim_is_empty (ta_command t)
     | Some e \<Rightarrow> ta_command t = [] \<and> ta_steps t = [] \<and> ta_sources t = []
         \<and> (case e of
             Process program args env \<Rightarrow>
               absolute_path program = Inr () \<and> validate_execution_arguments args env = Inr ()
           | Script interpreter args script env \<Rightarrow>
               script \<noteq> [] \<and> length script \<le> 65536 \<and> nul \<notin> set script
               \<and> absolute_path interpreter = Inr ()
               \<and> validate_execution_arguments args env = Inr ()))"

definition wf_task :: "ext \<Rightarrow> task_definition \<Rightarrow> bool" where
  "wf_task x t \<longleftrightarrow> uuid_ok x (ta_id t) \<and> valid_name (ta_name t) = Inr ()
     \<and> absolute_path (ta_cwd t) = Inr () \<and> validate_sources (ta_sources t) = Inr ()
     \<and> wf_execution t
     \<and> length (ta_command t) \<le> 65536 \<and> nul \<notin> set (ta_command t)
     \<and> length (ta_steps t) \<le> 64 \<and> length (ta_build_outputs t) \<le> 32
     \<and> (\<forall>s\<in>set (ta_steps t). validate_step s = Inr ())
     \<and> (\<forall>p\<in>set (ta_build_outputs t). absolute_path p = Inr ())
     \<and> (\<forall>i. ta_artifact_from_task t = Some i \<longrightarrow> uuid_ok x i)
     \<and> (\<forall>s. ta_timeout_seconds t = Some s \<longrightarrow> 1 \<le> s \<and> s \<le> 604800)
     \<and> (ta_interactive t \<longrightarrow> ta_logging t = DisabledLogging)
     \<and> (\<forall>p. ta_artifact t = Some p \<longrightarrow> absolute_path p = Inr ())"

text \<open>The git directories of a project: its primary binding, then the related ones.\<close>

definition bound_repositories :: "project \<Rightarrow> repository list" where
  "bound_repositories p =
    (case pr_repository_binding p of None \<Rightarrow> [] | Some b \<Rightarrow> [b]) @ pr_related_repositories p"

definition wf_shell :: "project \<Rightarrow> bool" where
  "wf_shell p \<longleftrightarrow> absolute_path (sc_executable (pr_shell p)) = Inr ()
     \<and> absolute_path (sc_init_cwd (pr_shell p)) = Inr ()
     \<and> validate_sources (sc_sources (pr_shell p)) = Inr ()
     \<and> (\<forall>n. sc_native (pr_shell p) = Some n \<longrightarrow>
          validate_execution_arguments (ns_args n) (ns_env n) = Inr ()
          \<and> \<not> sc_login (pr_shell p) \<and> sc_sources (pr_shell p) = []
          \<and> (\<forall>t\<in>set (pr_terminals p). td_sources t = []))"

definition definition_ids :: "project \<Rightarrow> string list" where
  "definition_ids p = map td_id (pr_terminals p) @ map ta_id (pr_tasks p)"

definition wf_project :: "ext \<Rightarrow> project \<Rightarrow> bool" where
  "wf_project x p \<longleftrightarrow> valid_name (pr_name p) = Inr () \<and> absolute_path (pr_root p) = Inr ()
     \<and> (\<forall>r. pr_repository p = Some r \<longrightarrow> absolute_path r = Inr ())
     \<and> (\<forall>b. pr_repository_binding p = Some b \<longrightarrow>
          (\<exists>r. pr_repository p = Some r \<and> path_eq r (rp_root b)))
     \<and> (\<forall>b\<in>set (bound_repositories p). validate_repository b = Inr ())
     \<and> distinct (map (\<lambda>b. components (rp_git_dir b)) (bound_repositories p))
     \<and> wf_shell p
     \<and> length (pr_terminals p) \<le> MAX_TERMINALS \<and> length (pr_tasks p) \<le> 128
     \<and> (\<forall>t\<in>set (pr_terminals p). wf_terminal x t)
     \<and> (\<forall>t\<in>set (pr_tasks p). wf_task x t)
     \<and> distinct (definition_ids p)
     \<and> (\<forall>d. pr_default_terminal p = Some d \<longrightarrow>
          (\<exists>t\<in>set (pr_terminals p). td_id t = d \<and> td_persistent t))
     \<and> (\<forall>e. pr_editor p = Some e \<longrightarrow> validate_editor e = Inr ())"

definition wf_mapping :: "ext \<Rightarrow> workspace \<Rightarrow> portable_binding \<Rightarrow> bool" where
  "wf_mapping x w b \<longleftrightarrow> validate_binding x b w = Inr ()"

definition wf_workspace :: "ext \<Rightarrow> workspace \<Rightarrow> bool" where
  "wf_workspace x w \<longleftrightarrow> ws_schema w \<in> {1, 2, SCHEMA}
     \<and> (ws_schema w = 1 \<longrightarrow> \<not> uses_native w)
     \<and> (ws_portable w \<noteq> [] \<longrightarrow> 3 \<le> ws_schema w)
     \<and> length (ws_portable w) \<le> MAX_PROJECTS
     \<and> distinct (map pb_project_id (ws_portable w))
     \<and> (\<forall>b\<in>set (ws_portable w). wf_mapping x w b)
     \<and> length (ws_projects w) \<le> MAX_PROJECTS
     \<and> (\<forall>p\<in>set (ws_projects w). uuid_ok x (pr_id p) \<and> wf_project x p)
     \<and> distinct (map pr_id (ws_projects w))
     \<and> (\<forall>i. ws_selected_project w = Some i \<longrightarrow> i \<in> pr_id ` set (ws_projects w))
     \<and> set (ws_recent_projects w) \<subseteq> pr_id ` set (ws_projects w)
     \<and> distinct (ws_recent_projects w)"

section \<open>The validators decide it\<close>

lemma valid_id_Inr [res_simps]: "(valid_id x i = Inr u) = uuid_ok x i"
  by (auto simp: valid_id_def res_simps)

lemma terminal_entry_Inr:
  "(validate_terminal_entry x ids t = Inr s) =
    (wf_terminal x t \<and> td_id t \<notin> set ids \<and> s = td_id t # ids)"
  by (auto simp: validate_terminal_entry_def wf_terminal_def res_simps)

lemma validate_execution_Inr:
  "(validate_execution t e = Inr u) =
    (ta_command t = [] \<and> ta_steps t = [] \<and> ta_sources t = []
      \<and> (case e of
          Process program args env \<Rightarrow>
            absolute_path program = Inr () \<and> validate_execution_arguments args env = Inr ()
        | Script interpreter args script env \<Rightarrow>
            script \<noteq> [] \<and> length script \<le> 65536 \<and> nul \<notin> set script
            \<and> absolute_path interpreter = Inr ()
            \<and> validate_execution_arguments args env = Inr ()))"
  by (cases e) (auto simp: validate_execution_def res_simps not_less)

lemma task_entry_Inr:
  "(validate_task_entry x ids t = Inr s) =
    (wf_task x t \<and> ta_id t \<notin> set ids \<and> s = ta_id t # ids)"
proof -
  have exec: "wf_execution t \<longleftrightarrow> (\<forall>e. ta_execution t = Some e \<longrightarrow> validate_execution t e = Inr ())
      \<and> (ta_steps t = [] \<longrightarrow> (\<exists>e. ta_execution t = Some e) \<or> \<not> trim_is_empty (ta_command t))"
    by (cases "ta_execution t") (auto simp: wf_execution_def validate_execution_Inr)
  have timeout: "(case ta_timeout_seconds t of None \<Rightarrow> True | Some s \<Rightarrow> \<not> (s = 0 \<or> 604800 < s))
    \<longleftrightarrow> (\<forall>s. ta_timeout_seconds t = Some s \<longrightarrow> 1 \<le> s \<and> s \<le> 604800)"
    by (cases "ta_timeout_seconds t") auto
  show ?thesis
    unfolding validate_task_entry_def wf_task_def exec timeout
    by (simp add: res_simps not_less)
qed

lemma related_Inr:
  "(validate_related ids b = Inr s) =
    (validate_repository b = Inr () \<and> components (rp_git_dir b) \<notin> set ids
      \<and> s = components (rp_git_dir b) # ids)"
  by (auto simp: validate_related_def res_simps)

lemma related_all_Inr:
  "(fold_res validate_related ids bs = Inr s) =
    ((\<forall>b\<in>set bs. validate_repository b = Inr ())
      \<and> distinct (map (\<lambda>b. components (rp_git_dir b)) bs)
      \<and> set (map (\<lambda>b. components (rp_git_dir b)) bs) \<inter> set ids = {}
      \<and> s = rev (map (\<lambda>b. components (rp_git_dir b)) bs) @ ids)"
  by (rule fold_res_distinct) (rule related_Inr)

lemma terminals_all_Inr:
  "(fold_res (validate_terminal_entry x) ids ts = Inr s) =
    ((\<forall>t\<in>set ts. wf_terminal x t) \<and> distinct (map td_id ts)
      \<and> set (map td_id ts) \<inter> set ids = {} \<and> s = rev (map td_id ts) @ ids)"
  by (rule fold_res_distinct) (rule terminal_entry_Inr)

lemma tasks_all_Inr:
  "(fold_res (validate_task_entry x) ids ts = Inr s) =
    ((\<forall>t\<in>set ts. wf_task x t) \<and> distinct (map ta_id ts)
      \<and> set (map ta_id ts) \<inter> set ids = {} \<and> s = rev (map ta_id ts) @ ids)"
  by (rule fold_res_distinct) (rule task_entry_Inr)

lemma native_Inr:
  "(validate_native p n = Inr u) =
    (validate_execution_arguments (ns_args n) (ns_env n) = Inr ()
       \<and> \<not> sc_login (pr_shell p) \<and> sc_sources (pr_shell p) = []
       \<and> (\<forall>t\<in>set (pr_terminals p). td_sources t = []))"
  by (auto simp: validate_native_def res_simps list_ex_iff)

lemma binding_agrees_Inr:
  "(check_opt (validate_binding_agrees p) (pr_repository_binding p) = Inr u) =
    (\<forall>b. pr_repository_binding p = Some b \<longrightarrow> validate_repository b = Inr ()
      \<and> (\<exists>r. pr_repository p = Some r \<and> path_eq r (rp_root b)))"
  by (auto simp: validate_binding_agrees_def res_simps split: option.splits)

lemma bound_repositories_valid:
  "((\<forall>b. pr_repository_binding p = Some b \<longrightarrow> validate_repository b = Inr ()
       \<and> (\<exists>r. pr_repository p = Some r \<and> path_eq r (rp_root b)))
    \<and> (\<exists>s. fold_res validate_related
        (case pr_repository_binding p of None \<Rightarrow> [] | Some b \<Rightarrow> [components (rp_git_dir b)])
        (pr_related_repositories p) = Inr s))
  = ((\<forall>b. pr_repository_binding p = Some b \<longrightarrow>
       (\<exists>r. pr_repository p = Some r \<and> path_eq r (rp_root b)))
    \<and> (\<forall>b\<in>set (bound_repositories p). validate_repository b = Inr ())
    \<and> distinct (map (\<lambda>b. components (rp_git_dir b)) (bound_repositories p)))"
  unfolding bound_repositories_def
  by (cases "pr_repository_binding p") (auto simp: related_all_Inr)

lemma default_terminal_iff:
  "(case pr_default_terminal p of None \<Rightarrow> True
      | Some d \<Rightarrow> list_ex (\<lambda>t. td_id t = d \<and> td_persistent t) (pr_terminals p))
  = (\<forall>d. pr_default_terminal p = Some d \<longrightarrow>
      (\<exists>t\<in>set (pr_terminals p). td_id t = d \<and> td_persistent t))"
  by (auto simp: list_ex_iff split: option.splits)

lemma entries_Inr:
  "(\<exists>ids s. fold_res (validate_terminal_entry x) [] (pr_terminals p) = Inr ids
      \<and> fold_res (validate_task_entry x) ids (pr_tasks p) = Inr s)
  = ((\<forall>t\<in>set (pr_terminals p). wf_terminal x t) \<and> (\<forall>t\<in>set (pr_tasks p). wf_task x t)
    \<and> distinct (definition_ids p))"
  by (auto simp: terminals_all_Inr tasks_all_Inr definition_ids_def)

lemma validate_project_iff: "validate_project x p = Inr () \<longleftrightarrow> wf_project x p"
proof -
  have "validate_project x p = Inr () \<longleftrightarrow>
     valid_name (pr_name p) = Inr () \<and> absolute_path (pr_root p) = Inr ()
   \<and> check_opt absolute_path (pr_repository p) = Inr ()
   \<and> (check_opt (validate_binding_agrees p) (pr_repository_binding p) = Inr ()
     \<and> (\<exists>s. fold_res validate_related
        (case pr_repository_binding p of None \<Rightarrow> [] | Some b \<Rightarrow> [components (rp_git_dir b)])
        (pr_related_repositories p) = Inr s))
   \<and> absolute_path (sc_executable (pr_shell p)) = Inr ()
   \<and> absolute_path (sc_init_cwd (pr_shell p)) = Inr ()
   \<and> validate_sources (sc_sources (pr_shell p)) = Inr ()
   \<and> check_opt (validate_native p) (sc_native (pr_shell p)) = Inr ()
   \<and> length (pr_terminals p) \<le> MAX_TERMINALS \<and> length (pr_tasks p) \<le> 128
   \<and> (\<exists>ids s. fold_res (validate_terminal_entry x) [] (pr_terminals p) = Inr ids
      \<and> fold_res (validate_task_entry x) ids (pr_tasks p) = Inr s)
   \<and> (case pr_default_terminal p of None \<Rightarrow> True
      | Some d \<Rightarrow> list_ex (\<lambda>t. td_id t = d \<and> td_persistent t) (pr_terminals p))
   \<and> check_opt validate_editor (pr_editor p) = Inr ()"
    unfolding validate_project_def
    by (simp only: and_then_Inr ensure_Inr ex_unit de_Morgan_disj not_less) blast
  then show ?thesis
    unfolding binding_agrees_Inr bound_repositories_valid entries_Inr default_terminal_iff
      wf_project_def wf_shell_def
    by (simp only: check_opt_Inr native_Inr conj_assoc)
qed

lemma project_entry_Inr:
  "(validate_project_entry x ids p = Inr s) =
    ((uuid_ok x (pr_id p) \<and> wf_project x p) \<and> pr_id p \<notin> set ids \<and> s = pr_id p # ids)"
  by (auto simp: validate_project_entry_def res_simps validate_project_iff)

lemma mapping_Inr:
  "(validate_mapping x w ids b = Inr s) =
    (wf_mapping x w b \<and> pb_project_id b \<notin> set ids \<and> s = pb_project_id b # ids)"
  by (auto simp: validate_mapping_def res_simps wf_mapping_def)

lemma recent_Inr:
  "(validate_recent ids seen i = Inr s) = (i \<in> set ids \<and> i \<notin> set seen \<and> s = i # seen)"
  by (auto simp: validate_recent_def res_simps)

lemma projects_all_Inr:
  "(fold_res (validate_project_entry x) ids ps = Inr s) =
    ((\<forall>p\<in>set ps. uuid_ok x (pr_id p) \<and> wf_project x p) \<and> distinct (map pr_id ps)
      \<and> set (map pr_id ps) \<inter> set ids = {} \<and> s = rev (map pr_id ps) @ ids)"
  by (rule fold_res_distinct) (rule project_entry_Inr)

lemma mappings_all_Inr:
  "(fold_res (validate_mapping x w) ids bs = Inr s) =
    ((\<forall>b\<in>set bs. wf_mapping x w b) \<and> distinct (map pb_project_id bs)
      \<and> set (map pb_project_id bs) \<inter> set ids = {} \<and> s = rev (map pb_project_id bs) @ ids)"
  by (rule fold_res_distinct) (rule mapping_Inr)

lemma recents_all_Inr:
  "(fold_res (validate_recent ids) seen is = Inr s) =
    ((\<forall>i\<in>set is. i \<in> set ids) \<and> distinct (map id is)
      \<and> set (map id is) \<inter> set seen = {} \<and> s = rev (map id is) @ seen)"
  by (rule fold_res_distinct) (simp add: recent_Inr)

lemma validate_portable_Inr:
  "(validate_portable x w = Inr u) =
    ((ws_portable w \<noteq> [] \<longrightarrow> 3 \<le> ws_schema w) \<and> length (ws_portable w) \<le> MAX_PROJECTS
      \<and> distinct (map pb_project_id (ws_portable w))
      \<and> (\<forall>b\<in>set (ws_portable w). wf_mapping x w b))"
  by (auto simp: validate_portable_def res_simps mappings_all_Inr not_less)

lemma validate_workspace_iff: "validate_workspace x w = Inr () \<longleftrightarrow> wf_workspace x w"
proof -
  have "validate_workspace x w = Inr () \<longleftrightarrow>
     ws_schema w \<in> {1, 2, SCHEMA} \<and> (ws_schema w = 1 \<longrightarrow> \<not> uses_native w)
   \<and> validate_portable x w = Inr () \<and> length (ws_projects w) \<le> MAX_PROJECTS
   \<and> (\<exists>ids. fold_res (validate_project_entry x) [] (ws_projects w) = Inr ids
      \<and> (case ws_selected_project w of None \<Rightarrow> True | Some i \<Rightarrow> i \<in> set ids)
      \<and> (\<exists>s. fold_res (validate_recent ids) [] (ws_recent_projects w) = Inr s))"
    unfolding validate_workspace_def
    by (simp only: res_simps not_less de_Morgan_conj list.set) blast
  also have "\<dots> \<longleftrightarrow> wf_workspace x w"
    unfolding projects_all_Inr recents_all_Inr validate_portable_Inr wf_workspace_def
    by (auto split: option.splits)
  finally show ?thesis .
qed

section \<open>Consequences for lookups\<close>

lemma find_project_Inr:
  "(find_project w i = Inr p) = (find (\<lambda>p. pr_id p = i) (ws_projects w) = Some p)"
  by (simp add: find_project_def res_simps)

lemma find_unique:
  assumes "distinct (map key xs)" "x \<in> set xs" "key x = k"
  shows "find (\<lambda>x. key x = k) xs = Some x"
  using assms by (induction xs) (auto split: if_splits)

lemma find_some_iff_mem:
  assumes "distinct (map key xs)"
  shows "find (\<lambda>x. key x = k) xs = Some x \<longleftrightarrow> x \<in> set xs \<and> key x = k"
  using assms find_unique [OF assms] by (auto simp: find_Some_iff in_set_conv_nth)

lemma wf_workspace_find:
  assumes "wf_workspace x w" "p \<in> set (ws_projects w)"
  shows "find_project w (pr_id p) = Inr p"
  using assms by (simp add: find_project_Inr wf_workspace_def find_unique)

end
