(* ===== verification/Store.thy ===== *)
theory Store
  imports Model_Valid Digest "HOL-Library.Code_Target_Nat"
begin

text \<open>
  The configuration store of \<open>store.rs\<close>: private reads, atomic writes through a pending
  file, the advisory lock, the directory checks, and \<open>load\<close>/\<open>save\<close>/\<open>update\<close> with their
  compare-and-swap on the revision.  The filesystem is a map from paths (by components) to
  inodes; every system call first consumes one entry of a fault list, so any call may fail and
  a failing write leaves a prefix of its bytes.  A save is modelled whole because it runs under
  the exclusive lock.  TOML encoding is a parameter.
\<close>

section \<open>The filesystem\<close>

datatype file_kind = RegularFile | Directory | Symlink path | SpecialFile

record inode =
  fi_kind :: file_kind
  fi_uid :: nat
  fi_mode :: nat
  fi_bytes :: string

record world =
  fw_files :: "component list \<rightharpoonup> inode"
  fw_euid :: nat
  fw_faults :: "(nat \<times> string) option list"
  fw_uuid :: "nat \<Rightarrow> string"
  fw_next :: nat

text \<open>One fallible system call: it succeeds, or fails after \<open>n\<close> bytes with an error.\<close>

definition take_fault :: "world \<Rightarrow> (nat \<times> string) option \<times> world" where
  "take_fault w = (case fw_faults w of [] \<Rightarrow> (None, w) | f # fs \<Rightarrow> (f, w\<lparr>fw_faults := fs\<rparr>))"

definition syscall :: "(world, unit) op" where
  "syscall w = (case take_fault w of
      (None, w') \<Rightarrow> (Inr (), w') | (Some (n, e), w') \<Rightarrow> (Inl (Os e), w'))"

definition file_at :: "path \<Rightarrow> world \<Rightarrow> inode option" where
  "file_at p w = fw_files w (components p)"

definition put_file :: "component list \<Rightarrow> inode \<Rightarrow> world \<Rightarrow> world" where
  "put_file k i w = w\<lparr>fw_files := (fw_files w)(k \<mapsto> i)\<rparr>"

definition drop_file :: "component list \<Rightarrow> world \<Rightarrow> world" where
  "drop_file k w = w\<lparr>fw_files := (fw_files w)(k := None)\<rparr>"

definition is_regular :: "inode \<Rightarrow> bool" where
  "is_regular i = (fi_kind i = RegularFile)"

definition is_symlink :: "inode \<Rightarrow> bool" where
  "is_symlink i = (case fi_kind i of Symlink _ \<Rightarrow> True | _ \<Rightarrow> False)"

text \<open>A regular file of this user without permissions for group or others (mode \<open>& 0o077\<close>).\<close>

definition private_file :: "nat \<Rightarrow> inode \<Rightarrow> bool" where
  "private_file uid i = (is_regular i \<and> fi_uid i = uid \<and> fi_mode i mod 64 = 0)"

definition new_inode :: "nat \<Rightarrow> string \<Rightarrow> inode" where
  "new_inode uid b = \<lparr>fi_kind = RegularFile, fi_uid = uid, fi_mode = 384, fi_bytes = b\<rparr>"

text \<open>\<open>Path::exists\<close>: follows links (at most 40), and answers false on any error.\<close>

fun resolves :: "nat \<Rightarrow> world \<Rightarrow> component list \<Rightarrow> bool" where
  "resolves 0 w k = False"
| "resolves (Suc n) w k = (case fw_files w k of
      None \<Rightarrow> False
    | Some i \<Rightarrow> (case fi_kind i of Symlink t \<Rightarrow> resolves n w (components t) | _ \<Rightarrow> True))"

definition path_exists :: "path \<Rightarrow> (world, bool) op" where
  "path_exists p w = (case syscall w of
      (Inl _, w') \<Rightarrow> (Inr False, w') | (Inr _, w') \<Rightarrow> (Inr (resolves 41 w' (components p)), w'))"

section \<open>Reading and writing\<close>

definition read_private :: "path \<Rightarrow> nat \<Rightarrow> (world, string) op" where
  "read_private p limit =
    op_try syscall (\<lambda>_.
    op_try (op_get (file_at p)) (\<lambda>f. case f of
      None \<Rightarrow> op_fail NotFound
    | Some i \<Rightarrow>
        if is_symlink i then op_fail (Os ''ELOOP'') else
        op_try syscall (\<lambda>_.
        op_try (op_get fw_euid) (\<lambda>uid.
        op_ensure (private_file uid i) ''must be a regular file owned by this user with mode 0600''
        (op_try syscall (\<lambda>_.
         let bytes = take (limit + 1) (fi_bytes i) in
         op_ensure (\<not> limit < length bytes) ''exceeds size limit'' (op_return bytes)))))))"

text \<open>The five system calls of an atomic write, between which the process may die.\<close>

definition create_new :: "component list \<Rightarrow> (world, unit) op" where
  "create_new k = op_try syscall (\<lambda>_.
     op_try (op_get (\<lambda>w. fw_files w k)) (\<lambda>f.
     if f \<noteq> None then op_fail (Os ''EEXIST'')
     else op_modify (\<lambda>w. put_file k (new_inode (fw_euid w) []) w)))"

definition write_all :: "component list \<Rightarrow> string \<Rightarrow> (world, unit) op" where
  "write_all k bytes w = (case take_fault w of
      (None, w') \<Rightarrow> (Inr (), put_file k (new_inode (fw_euid w') bytes) w')
    | (Some (n, e), w') \<Rightarrow> (Inl (Os e), put_file k (new_inode (fw_euid w') (take n bytes)) w'))"

definition rename_file :: "component list \<Rightarrow> component list \<Rightarrow> (world, unit) op" where
  "rename_file from to = op_try syscall (\<lambda>_. \<lambda>w.
     case fw_files w from of
       None \<Rightarrow> (Inl NotFound, w)
     | Some i \<Rightarrow> (case fw_files w to of
         Some j \<Rightarrow> if fi_kind j = Directory then (Inl (Os ''EISDIR''), w)
                   else (Inr (), put_file to i (drop_file from w))
       | None \<Rightarrow> (Inr (), put_file to i (drop_file from w))))"

definition write_steps :: "component list \<Rightarrow> component list \<Rightarrow> string \<Rightarrow> (world, unit) op list" where
  "write_steps pending dest bytes =
    [create_new pending, write_all pending bytes, syscall, rename_file pending dest, syscall]"

fun run_ops :: "('s, unit) op list \<Rightarrow> ('s, unit) op" where
  "run_ops [] = op_return ()"
| "run_ops (m # ms) = op_try m (\<lambda>_. run_ops ms)"

definition remove_file :: "component list \<Rightarrow> world \<Rightarrow> world" where
  "remove_file k w = (case take_fault w of
      (None, w') \<Rightarrow> drop_file k w' | (Some _, w') \<Rightarrow> w')"

definition new_id :: "(world, string) op" where
  "new_id w = (Inr (fw_uuid w (fw_next w)), w\<lparr>fw_next := Suc (fw_next w)\<rparr>)"

definition pending_key :: "component list \<Rightarrow> string \<Rightarrow> component list" where
  "pending_key k i = butlast k @ [Normal (''.pending-'' @ i)]"

text \<open>\<open>Path::parent\<close> exists unless the path is empty or the root.\<close>

definition has_parent :: "component list \<Rightarrow> bool" where
  "has_parent k = (k \<noteq> [] \<and> last k \<noteq> RootDir)"

definition replaceable :: "component list \<Rightarrow> (world, unit) op" where
  "replaceable k w = (case syscall w of
      (Inl _, w') \<Rightarrow> (Inr (), w')
    | (Inr _, w') \<Rightarrow> (case fw_files w' k of
        None \<Rightarrow> (Inr (), w')
      | Some i \<Rightarrow> if is_regular i \<and> fi_uid i = fw_euid w' then (Inr (), w')
          else (Inl (Bail ''destination must be a regular owned file''), w')))"

definition or_cleanup :: "(world, unit) op \<Rightarrow> component list \<Rightarrow> (world, unit) op" where
  "or_cleanup m k w = (case m w of
      (Inr u, w') \<Rightarrow> (Inr u, w') | (Inl e, w') \<Rightarrow> (Inl e, remove_file k w'))"

definition atomic_write :: "path \<Rightarrow> string \<Rightarrow> (world, unit) op" where
  "atomic_write p bytes =
    (let k = components p in
     op_ensure (has_parent k) ''destination has no parent''
     (op_try (replaceable k) (\<lambda>_.
      op_try new_id (\<lambda>i.
      or_cleanup (run_ops (write_steps (pending_key k i) k bytes)) (pending_key k i)))))"

text \<open>
  \<open>FileLock::acquire_mode\<close>: open or create the lock file, check it, and take the lock; the
  last call fails when the wait for another holder expires.
\<close>

definition acquire_lock :: "path \<Rightarrow> (world, unit) op" where
  "acquire_lock p =
    op_try syscall (\<lambda>_.
    op_try (op_get (file_at p)) (\<lambda>f.
    op_try (case f of
        None \<Rightarrow> op_modify (\<lambda>w. put_file (components p) (new_inode (fw_euid w) []) w)
      | Some i \<Rightarrow> if is_symlink i then op_fail (Os ''ELOOP'') else op_return ()) (\<lambda>_.
    op_try syscall (\<lambda>_.
    op_try (op_get (\<lambda>w. case file_at p w of None \<Rightarrow> False | Some i \<Rightarrow> private_file (fw_euid w) i))
      (\<lambda>ok. op_ensure ok ''invalid lock file ownership/permissions'' syscall)))))"

section \<open>The store\<close>

record store =
  so_config_dir :: path
  so_state_dir :: path
  so_runtime_dir :: path

definition config_path :: "store \<Rightarrow> path" where
  "config_path st = join_path (so_config_dir st) ''workspace.toml''"

definition socket_path :: "store \<Rightarrow> path" where
  "socket_path st = join_path (so_runtime_dir st) ''host.sock''"

record codec =
  toml_of :: "workspace \<Rightarrow> string res"
  toml_parse :: "string \<Rightarrow> workspace res"

definition decode_workspace :: "ext \<Rightarrow> codec \<Rightarrow> string \<Rightarrow> workspace res" where
  "decode_workspace x c bytes =
    ensure (to_str bytes \<noteq> None) ''configuration is not UTF-8 (preserved)''
    (case toml_parse c bytes of
       Inl _ \<Rightarrow> Inl (Bail ''invalid configuration (preserved; no reset performed)'')
     | Inr w \<Rightarrow> and_then (validate_workspace x w) (\<lambda>_. Inr w))"

definition store_load :: "ext \<Rightarrow> codec \<Rightarrow> store \<Rightarrow> (world, workspace) op" where
  "store_load x c st w = (case read_private (config_path st) MAX_MESSAGE w of
      (Inr bytes, w') \<Rightarrow> (decode_workspace x c bytes, w')
    | (Inl NotFound, w') \<Rightarrow> (Inr default_workspace, w')
    | (Inl e, w') \<Rightarrow> (Inl e, w'))"

text \<open>\<open>save\<close> works on \<open>&mut Workspace\<close> and the filesystem.\<close>

definition on_world :: "(world, 'a) op \<Rightarrow> (workspace \<times> world, 'a) op" where
  "on_world m = (\<lambda>(ws, w). case m w of (r, w') \<Rightarrow> (r, (ws, w')))"

definition raise_schema :: "workspace \<Rightarrow> workspace" where
  "raise_schema ws =
    (if ws_portable ws \<noteq> [] then ws\<lparr>ws_schema := SCHEMA\<rparr>
     else if uses_native ws then ws\<lparr>ws_schema := max (ws_schema ws) 2\<rparr> else ws)"

definition migration_backup :: "store \<Rightarrow> nat \<Rightarrow> path" where
  "migration_backup st n = join_path (so_config_dir st) (''workspace.schema'' @ string_of_nat n @ ''.toml'')"

definition previous_path :: "store \<Rightarrow> path" where
  "previous_path st = join_path (so_config_dir st) ''workspace.previous.toml''"

definition store_backup :: "store \<Rightarrow> workspace \<Rightarrow> workspace \<Rightarrow> (world, unit) op" where
  "store_backup st previous ws =
    op_try (path_exists (config_path st)) (\<lambda>e.
    if \<not> e then op_return () else
    op_try (read_private (config_path st) MAX_MESSAGE) (\<lambda>old.
    op_try (if ws_schema previous < ws_schema ws
        then op_try (path_exists (migration_backup st (ws_schema previous))) (\<lambda>b.
          if b then op_return () else atomic_write (migration_backup st (ws_schema previous)) old)
        else op_return ()) (\<lambda>_.
    atomic_write (previous_path st) old)))"

definition store_prepare ::
    "ext \<Rightarrow> codec \<Rightarrow> store \<Rightarrow> nat \<Rightarrow> (workspace \<times> world, string) op" where
  "store_prepare x c st expected =
    op_try (on_world (acquire_lock (join_path (so_config_dir st) ''workspace.lock''))) (\<lambda>_.
    op_try (on_world (store_load x c st)) (\<lambda>previous.
    op_ensure (ws_revision previous = expected)
      ''configuration changed elsewhere; reload before saving''
    (op_try (op_modify (\<lambda>(ws, w). (raise_schema ws, w))) (\<lambda>_.
     op_try (op_get fst) (\<lambda>ws.
     op_try (op_lift (validate_workspace x ws)) (\<lambda>_.
     op_try (op_lift (context_opt (checked_add expected 1) ''configuration revision exhausted'')) (\<lambda>r.
     op_try (op_modify (\<lambda>(ws, w). (ws\<lparr>ws_revision := r\<rparr>, w))) (\<lambda>_.
     op_try (op_get fst) (\<lambda>ws'.
     op_try (op_lift (toml_of c ws')) (\<lambda>encoded.
     op_ensure (\<not> MAX_MESSAGE < length encoded) ''configuration exceeds size limit''
     (op_try (on_world (store_backup st previous ws')) (\<lambda>_.
      op_return encoded))))))))))))"

definition store_save :: "ext \<Rightarrow> codec \<Rightarrow> store \<Rightarrow> nat \<Rightarrow> (workspace \<times> world, unit) op" where
  "store_save x c st expected =
    op_try (store_prepare x c st expected) (\<lambda>encoded.
    on_world (atomic_write (config_path st) encoded))"

definition store_update ::
    "ext \<Rightarrow> codec \<Rightarrow> store \<Rightarrow> (workspace, 'a) op \<Rightarrow> (world, 'a) op" where
  "store_update x c st f =
    op_try (store_load x c st) (\<lambda>ws. \<lambda>w.
      case f ws of
        (Inl e, ws') \<Rightarrow> (Inl e, w)
      | (Inr v, ws') \<Rightarrow> (case store_save x c st (ws_revision ws) (ws', w) of
          (Inl e, (_, w')) \<Rightarrow> (Inl e, w') | (Inr _, (_, w')) \<Rightarrow> (Inr v, w')))"

definition valid_filename :: "string \<Rightarrow> bool" where
  "valid_filename n = (\<not> (n = [] \<or> 100 < length n \<or> hd n = CHR ''.''
     \<or> \<not> list_all (\<lambda>b. is_ascii_alphanumeric b \<or> b \<in> set ''-_.'') n))"

definition read_state ::
    "(string \<Rightarrow> 'a res) \<Rightarrow> store \<Rightarrow> string \<Rightarrow> (world, 'a option) op" where
  "read_state parse st name =
    op_ensure (valid_filename name) ''invalid state filename''
    (\<lambda>w. case read_private (join_path (so_state_dir st) name) MAX_MESSAGE w of
       (Inr bytes, w') \<Rightarrow>
         ((case parse bytes of Inl _ \<Rightarrow> Inl (Bail ''invalid state (preserved)'')
           | Inr v \<Rightarrow> Inr (Some v)), w')
     | (Inl NotFound, w') \<Rightarrow> (Inr None, w')
     | (Inl e, w') \<Rightarrow> (Inl e, w'))"

definition write_state ::
    "('a \<Rightarrow> string res) \<Rightarrow> store \<Rightarrow> string \<Rightarrow> 'a \<Rightarrow> (world, unit) op" where
  "write_state encode st name v =
    op_ensure (valid_filename name) ''invalid state filename''
    (op_try (op_lift (encode v)) (\<lambda>bytes.
     op_ensure (\<not> MAX_MESSAGE < length bytes) ''state exceeds size limit''
       (atomic_write (join_path (so_state_dir st) name) bytes)))"

section \<open>What a write can change\<close>

definition pending_name :: "component list \<Rightarrow> bool" where
  "pending_name k = (\<exists>d i. k = d @ [Normal (''.pending-'' @ i)])"

definition untouched :: "component list set \<Rightarrow> world \<Rightarrow> world \<Rightarrow> bool" where
  "untouched D w w' = (fw_euid w' = fw_euid w
     \<and> (\<forall>k. k \<notin> D \<and> \<not> pending_name k \<longrightarrow> fw_files w' k = fw_files w k))"

lemma untouched_reflp: "reflp (untouched D)"
  by (simp add: untouched_def reflp_def)

lemma untouched_transp: "transp (untouched D)"
  by (simp add: untouched_def transp_def)

lemma untouched_trans: "untouched D w w' \<Longrightarrow> untouched D w' w'' \<Longrightarrow> untouched D w w''"
  by (simp add: untouched_def)

lemma untouched_mono: "untouched D w w' \<Longrightarrow> D \<subseteq> E \<Longrightarrow> untouched E w w'"
  by (auto simp: untouched_def)

lemma untouched_file:
  "untouched D w w' \<Longrightarrow> components p \<notin> D \<Longrightarrow> \<not> pending_name (components p) \<Longrightarrow>
   file_at p w' = file_at p w"
  by (simp add: untouched_def file_at_def)

lemma untouched_euid: "untouched D w w' \<Longrightarrow> fw_euid w' = fw_euid w"
  by (simp add: untouched_def)

lemma pending_key_name [simp]: "pending_name (pending_key k i)"
  by (auto simp: pending_name_def pending_key_def)

lemma take_fault_frame [simp]:
  "take_fault w = (f, w') \<Longrightarrow> fw_files w' = fw_files w"
  "take_fault w = (f, w') \<Longrightarrow> fw_euid w' = fw_euid w"
  by (auto simp: take_fault_def split: list.splits)

lemma syscall_frame:
  "syscall w = (r, w') \<Longrightarrow> fw_files w' = fw_files w \<and> fw_euid w' = fw_euid w"
  by (auto simp: syscall_def split: prod.splits option.splits)

lemma syscall_error [simp]: "syscall w \<noteq> (Inl NotFound, w')"
  by (auto simp: syscall_def split: prod.splits option.splits)

lemma untouched_syscall: "op_rel (untouched D) syscall"
  unfolding op_rel_def untouched_def
  by (metis syscall_frame prod.collapse)

lemma untouched_put:
  "untouched D w w' \<Longrightarrow> pending_name k \<or> k \<in> D \<Longrightarrow> untouched D w (put_file k i w')"
  by (auto simp: untouched_def put_file_def)

lemma untouched_drop:
  "untouched D w w' \<Longrightarrow> pending_name k \<or> k \<in> D \<Longrightarrow> untouched D w (drop_file k w')"
  by (auto simp: untouched_def drop_file_def)

lemma untouched_refl [simp]: "untouched D w w"
  by (simp add: untouched_def)

lemma untouched_files: "fw_files w' = fw_files w \<Longrightarrow> fw_euid w' = fw_euid w \<Longrightarrow> untouched D w w'"
  by (simp add: untouched_def)

lemmas untouched_ops = op_rel_try [OF untouched_transp] op_rel_pure [OF untouched_reflp]
  op_rel_ensure [OF untouched_reflp] untouched_syscall

lemma untouched_create: "op_rel (untouched D) (create_new (pending_key k i))"
  unfolding create_new_def
  by (auto intro!: untouched_ops) (auto simp: op_rel_def intro: untouched_put)

lemma untouched_write_all: "op_rel (untouched D) (write_all (pending_key k i) bytes)"
  unfolding op_rel_def
proof
  fix w
  obtain f w' where t: "take_fault w = (f, w')" by fastforce
  then have "untouched D w w'" by (simp add: untouched_files)
  then show "untouched D w (snd (write_all (pending_key k i) bytes w))"
    using t by (auto simp: write_all_def simp del: take_fault_frame intro: untouched_put
        split: option.splits)
qed

lemma untouched_rename: "k \<in> D \<Longrightarrow> op_rel (untouched D) (rename_file (pending_key k' i) k)"
  unfolding rename_file_def
  by (intro untouched_ops)
    (auto simp: op_rel_def intro!: untouched_put untouched_drop split: option.splits)

lemma untouched_run_ops:
  "(\<And>m. m \<in> set ms \<Longrightarrow> op_rel (untouched D) m) \<Longrightarrow> op_rel (untouched D) (run_ops ms)"
  by (induction ms) (auto intro!: untouched_ops)

lemma untouched_write_steps:
  "op_rel (untouched {k}) (run_ops (take n (write_steps (pending_key k i) k bytes)))"
  by (rule untouched_run_ops)
    (auto dest!: in_set_takeD simp: write_steps_def untouched_create untouched_write_all
      untouched_rename untouched_syscall)

lemma take_all_steps: "take 5 (write_steps p k bytes) = write_steps p k bytes"
  by (simp add: write_steps_def)

lemmas untouched_all_steps = untouched_write_steps [of _ 5, unfolded take_all_steps]

lemma untouched_take_fault: "take_fault w = (f, w') \<Longrightarrow> untouched D w w'"
  by (simp add: untouched_files)

lemma untouched_remove: "pending_name k \<Longrightarrow> untouched D w (remove_file k w)"
  by (auto simp: remove_file_def simp del: take_fault_frame
      intro: untouched_drop untouched_take_fault split: prod.splits option.splits)

lemma untouched_replaceable: "op_rel (untouched D) (replaceable k)"
  unfolding op_rel_def
proof
  fix w
  obtain r w' where t: "syscall w = (r, w')" by fastforce
  with op_relD [OF untouched_syscall t, of D]
  show "untouched D w (snd (replaceable k w))"
    by (auto simp: replaceable_def split: sum.splits option.splits)
qed

lemma untouched_new_id: "op_rel (untouched D) new_id"
  by (auto simp: op_rel_def new_id_def untouched_def)

lemma untouched_cleanup:
  assumes "op_rel (untouched D) m" "pending_name k"
  shows "op_rel (untouched D) (or_cleanup m k)"
  unfolding op_rel_def
proof
  fix w
  obtain r w' where t: "m w = (r, w')" by fastforce
  with op_relD [OF assms(1) t] assms(2) show "untouched D w (snd (or_cleanup m k w))"
    by (auto simp: or_cleanup_def intro: untouched_trans untouched_remove split: sum.splits)
qed

lemma untouched_atomic_write: "op_rel (untouched {components p}) (atomic_write p bytes)"
  unfolding atomic_write_def Let_def
  by (intro untouched_ops untouched_replaceable untouched_new_id untouched_cleanup
      untouched_all_steps) simp_all

text \<open>The destination itself holds its old inode or the complete new one, at every step.\<close>

lemma create_new_dest:
  "create_new p w = (r, w') \<Longrightarrow> p \<noteq> k \<Longrightarrow> fw_files w' k = fw_files w k \<and> fw_euid w' = fw_euid w"
  by (auto simp: create_new_def op_try_def put_file_def dest!: syscall_frame
      split: prod.splits sum.splits if_splits)

lemma write_all_dest:
  "write_all p bytes w = (r, w') \<Longrightarrow> p \<noteq> k \<Longrightarrow>
   fw_files w' k = fw_files w k \<and> fw_euid w' = fw_euid w
   \<and> (r = Inr () \<longrightarrow> fw_files w' p = Some (new_inode (fw_euid w) bytes))"
  by (auto simp: write_all_def put_file_def split: prod.splits option.splits)

lemma rename_file_dest:
  "rename_file p k w = (r, w') \<Longrightarrow> p \<noteq> k \<Longrightarrow> fw_euid w' = fw_euid w
   \<and> (if r = Inr () then fw_files w' k = fw_files w p else fw_files w' k = fw_files w k)"
  by (auto simp: rename_file_def op_try_def put_file_def drop_file_def dest!: syscall_frame
      split: prod.splits sum.splits if_splits option.splits)

lemma write_steps_dest:
  assumes "run_ops (take n (write_steps p k bytes)) w = (r, w')" and "p \<noteq> k"
  shows "fw_files w' k \<in> {fw_files w k, Some (new_inode (fw_euid w) bytes)}"
    and "5 \<le> n \<Longrightarrow> r = Inr () \<Longrightarrow> fw_files w' k = Some (new_inode (fw_euid w) bytes)"
proof -
  have "n = 0 \<or> n = 1 \<or> n = 2 \<or> n = 3 \<or> n = 4 \<or> 5 \<le> n" by linarith
  with assms have "fw_files w' k \<in> {fw_files w k, Some (new_inode (fw_euid w) bytes)}
      \<and> (5 \<le> n \<longrightarrow> r = Inr () \<longrightarrow> fw_files w' k = Some (new_inode (fw_euid w) bytes))"
    by (elim disjE)
      (auto simp: write_steps_def op_try_def split: prod.splits sum.splits
        dest!: syscall_frame create_new_dest [where k = k] write_all_dest [where k = k]
          rename_file_dest)
  then show "fw_files w' k \<in> {fw_files w k, Some (new_inode (fw_euid w) bytes)}"
    and "5 \<le> n \<Longrightarrow> r = Inr () \<Longrightarrow> fw_files w' k = Some (new_inode (fw_euid w) bytes)" by auto
qed

lemma not_pending_key: "\<not> pending_name k \<Longrightarrow> pending_key k' i \<noteq> k"
  by (metis pending_key_name)

lemma replaceable_frame:
  "replaceable k w = (r, w') \<Longrightarrow> fw_files w' = fw_files w \<and> fw_euid w' = fw_euid w"
  by (auto simp: replaceable_def dest!: syscall_frame split: prod.splits sum.splits option.splits if_splits)

lemma remove_file_frame:
  "fw_euid (remove_file p w) = fw_euid w \<and> (p \<noteq> k \<longrightarrow> fw_files (remove_file p w) k = fw_files w k)"
  by (auto simp: remove_file_def drop_file_def split: prod.splits option.splits)

lemma new_id_frame:
  "new_id w = (r, w') \<Longrightarrow> fw_files w' = fw_files w \<and> fw_euid w' = fw_euid w"
  by (auto simp: new_id_def)

lemma atomic_write_dest:
  assumes "atomic_write p bytes w = (r, w')" and np: "\<not> pending_name (components p)"
  shows "file_at p w' = file_at p w \<or> file_at p w' = Some (new_inode (fw_euid w) bytes)"
    and "r = Inr () \<Longrightarrow> file_at p w' = Some (new_inode (fw_euid w) bytes)"
proof -
  let ?k = "components p"
  consider (early) "fw_files w' = fw_files w" "r \<noteq> Inr ()"
    | (run) i w1 r2 w2 where "fw_files w1 = fw_files w" "fw_euid w1 = fw_euid w"
        "run_ops (take 5 (write_steps (pending_key ?k i) ?k bytes)) w1 = (r2, w2)" "r = r2"
        "w' = (case r2 of Inr u \<Rightarrow> w2 | Inl e \<Rightarrow> remove_file (pending_key ?k i) w2)"
    using assms(1) unfolding atomic_write_def Let_def op_ensure_def take_all_steps
    by (auto simp: op_try_def or_cleanup_def dest!: replaceable_frame new_id_frame
        split: prod.splits sum.splits if_splits)
  then have "(file_at p w' = file_at p w \<or> file_at p w' = Some (new_inode (fw_euid w) bytes))
    \<and> (r = Inr () \<longrightarrow> file_at p w' = Some (new_inode (fw_euid w) bytes))"
  proof cases
    case early
    then show ?thesis by (simp add: file_at_def)
  next
    case run
    note d = write_steps_dest [OF run(3) not_pending_key [OF np]]
    show ?thesis
      using d run(1,2,4,5) remove_file_frame [of "pending_key ?k i" w2 ?k] not_pending_key [OF np, of ?k i]
      by (auto simp: file_at_def split: sum.splits)
  qed
  then show "file_at p w' = file_at p w \<or> file_at p w' = Some (new_inode (fw_euid w) bytes)"
    and "r = Inr () \<Longrightarrow> file_at p w' = Some (new_inode (fw_euid w) bytes)" by auto
qed

section \<open>What a load sees\<close>

text \<open>The configuration on disk, as a load without system errors returns it.\<close>

definition disk_config :: "ext \<Rightarrow> codec \<Rightarrow> store \<Rightarrow> world \<Rightarrow> workspace res" where
  "disk_config x c st w = (case file_at (config_path st) w of
      None \<Rightarrow> Inr default_workspace
    | Some i \<Rightarrow> ensure (private_file (fw_euid w) i \<and> length (fi_bytes i) \<le> MAX_MESSAGE)
        ''unreadable'' (decode_workspace x c (fi_bytes i)))"

lemma read_private_frame: "op_rel (untouched D) (read_private p limit)"
  unfolding read_private_def Let_def
  by (intro untouched_ops) (auto split: option.splits intro!: untouched_ops)

lemma read_private_files:
  "read_private p limit w = (r, w') \<Longrightarrow> fw_files w' = fw_files w \<and> fw_euid w' = fw_euid w"
  by (auto simp: read_private_def op_try_def op_ensure_def Let_def dest!: syscall_frame
      split: prod.splits sum.splits option.splits if_splits)

lemma read_private_Inr:
  "read_private p limit w = (Inr b, w') \<Longrightarrow>
   \<exists>i. file_at p w = Some i \<and> private_file (fw_euid w) i \<and> fi_bytes i = b \<and> length b \<le> limit"
  by (fastforce simp: read_private_def op_try_def op_ensure_def Let_def file_at_def
      dest!: syscall_frame split: prod.splits sum.splits option.splits if_splits)

lemma read_private_NotFound:
  "read_private p limit w = (Inl NotFound, w') \<Longrightarrow> file_at p w = None"
  by (auto simp: read_private_def op_try_def op_ensure_def Let_def file_at_def
      dest!: syscall_frame split: prod.splits sum.splits option.splits if_splits)

lemma store_load_frame: "op_rel (untouched D) (store_load x c st)"
  unfolding op_rel_def
proof
  fix w
  obtain r w' where t: "read_private (config_path st) MAX_MESSAGE w = (r, w')" by fastforce
  with op_relD [OF read_private_frame t, of D] show "untouched D w (snd (store_load x c st w))"
    by (auto simp: store_load_def split: sum.splits error.splits)
qed

lemma store_load_disk:
  "store_load x c st w = (Inr ws, w') \<Longrightarrow> disk_config x c st w = Inr ws"
  by (auto simp: store_load_def disk_config_def
      dest!: read_private_Inr read_private_NotFound split: prod.splits sum.splits error.splits)

lemma decode_workspace_valid: "decode_workspace x c b = Inr ws \<Longrightarrow> validate_workspace x ws = Inr ()"
  by (auto simp: decode_workspace_def res_simps split: sum.splits)

lemma default_workspace_valid: "validate_workspace x default_workspace = Inr ()"
  by (simp add: validate_workspace_def default_workspace_def SCHEMA_def validate_portable_def
      MAX_PROJECTS_def)

lemma disk_config_valid: "disk_config x c st w = Inr ws \<Longrightarrow> validate_workspace x ws = Inr ()"
  by (auto simp: disk_config_def res_simps default_workspace_valid dest: decode_workspace_valid
      split: option.splits)

lemma disk_config_cong:
  "file_at (config_path st) w' = file_at (config_path st) w \<Longrightarrow> fw_euid w' = fw_euid w \<Longrightarrow>
   disk_config x c st w' = disk_config x c st w"
  by (simp add: disk_config_def cong: option.case_cong)

section \<open>What a save commits\<close>

lemma validate_mapping_revision [simp]:
  "validate_mapping x (ws\<lparr>ws_revision := r\<rparr>) = validate_mapping x ws"
  by (intro ext) (simp add: validate_mapping_def validate_binding_def find_project_def)

lemma validate_workspace_revision [simp]:
  "validate_workspace x (ws\<lparr>ws_revision := r\<rparr>) = validate_workspace x ws"
  by (simp add: validate_workspace_def uses_native_def validate_portable_def)

lemma components_config:
  assumes "is_absolute (so_config_dir st)"
  shows "components (config_path st) = components (so_config_dir st) @ [Normal ''workspace.toml'']"
    and "components (previous_path st) = components (so_config_dir st) @ [Normal ''workspace.previous.toml'']"
    and "components (join_path (so_config_dir st) ''workspace.lock'')
      = components (so_config_dir st) @ [Normal ''workspace.lock'']"
    and "components (migration_backup st n) = components (so_config_dir st)
      @ [Normal (''workspace.schema'' @ string_of_nat n @ ''.toml'')]"
  using assms string_of_nat_no_slash [of n]
  by (auto simp: config_path_def previous_path_def migration_backup_def plain_name_def
      intro!: components_join)

lemma config_not_pending:
  "is_absolute (so_config_dir st) \<Longrightarrow> \<not> pending_name (components (config_path st))"
  "is_absolute (so_config_dir st) \<Longrightarrow> \<not> pending_name (components (previous_path st))"
  by (simp_all add: pending_name_def components_config)

lemma untouched_path_exists: "op_rel (untouched D) (path_exists p)"
  unfolding op_rel_def
proof
  fix w
  obtain r w' where t: "syscall w = (r, w')" by fastforce
  with op_relD [OF untouched_syscall t, of D] show "untouched D w (snd (path_exists p w))"
    by (auto simp: path_exists_def split: sum.splits)
qed

lemma untouched_write_in: "components p \<in> D \<Longrightarrow> op_rel (untouched D) (atomic_write p bytes)"
  using untouched_atomic_write [of p bytes] untouched_mono [of "{components p}" _ _ D]
  by (auto simp: op_rel_def)

lemma untouched_backup:
  assumes "components (previous_path st) \<in> D" "\<And>n. components (migration_backup st n) \<in> D"
  shows "op_rel (untouched D) (store_backup st previous ws)"
  unfolding store_backup_def
  by (auto intro!: untouched_ops untouched_path_exists read_private_frame untouched_write_in assms)

lemma untouched_lock:
  assumes "components p \<in> D"
  shows "op_rel (untouched D) (acquire_lock p)"
  unfolding acquire_lock_def
  by (auto intro!: untouched_ops split: option.splits)
    (auto simp: op_rel_def intro!: untouched_put assms)

text \<open>Every file of a save but the configuration itself.\<close>

definition side_files :: "store \<Rightarrow> component list set" where
  "side_files st = {components (join_path (so_config_dir st) ''workspace.lock''),
     components (previous_path st)} \<union> range (\<lambda>n. components (migration_backup st n))"

lemma config_not_side:
  "is_absolute (so_config_dir st) \<Longrightarrow> components (config_path st) \<notin> side_files st"
  by (auto simp: side_files_def components_config)

lemma on_world_simps: "on_world m (ws, w) = (r, (ws', w')) \<longleftrightarrow> ws' = ws \<and> m w = (r, w')"
  by (auto simp: on_world_def split: prod.splits)

definition both_untouched :: "component list set \<Rightarrow> workspace \<times> world \<Rightarrow> workspace \<times> world \<Rightarrow> bool" where
  "both_untouched D s t = untouched D (snd s) (snd t)"

lemma both_reflp: "reflp (both_untouched D)"
  by (simp add: both_untouched_def reflp_def)

lemma both_transp: "transp (both_untouched D)"
  by (auto simp: both_untouched_def transp_def intro: untouched_trans)

lemmas both_ops = op_rel_try [OF both_transp] op_rel_pure [OF both_reflp] op_rel_ensure [OF both_reflp]

lemma both_on_world: "op_rel (untouched D) m \<Longrightarrow> op_rel (both_untouched D) (on_world m)"
  by (auto simp: op_rel_def both_untouched_def on_world_def split: prod.splits) (metis snd_conv)

lemma both_modify: "(\<And>s. snd (f s) = snd s) \<Longrightarrow> op_rel (both_untouched D) (op_modify f)"
  by (simp add: op_rel_def both_untouched_def)

lemma store_prepare_frame: "op_rel (both_untouched (side_files st)) (store_prepare x c st expected)"
  unfolding store_prepare_def
  by (intro both_ops both_on_world both_modify untouched_lock store_load_frame untouched_backup)
    (auto simp: side_files_def)

lemma store_prepare_Inr:
  assumes "store_prepare x c st expected (ws, w) = (Inr encoded, (ws', w'))"
    and "is_absolute (so_config_dir st)"
  shows "\<exists>previous. disk_config x c st w = Inr previous \<and> ws_revision previous = expected
    \<and> ws' = (raise_schema ws)\<lparr>ws_revision := expected + 1\<rparr> \<and> expected + 1 \<le> u64_max
    \<and> validate_workspace x ws' = Inr () \<and> toml_of c ws' = Inr encoded
    \<and> length encoded \<le> MAX_MESSAGE"
proof -
  let ?lock = "join_path (so_config_dir st) ''workspace.lock''"
  from assms(1) obtain w1 w2 previous where
    l: "acquire_lock ?lock w = (Inr (), w1)" and
    p: "store_load x c st w1 = (Inr previous, w2)" and
    rest: "ws_revision previous = expected" "validate_workspace x (raise_schema ws) = Inr ()"
      "expected + 1 \<le> u64_max" "ws' = (raise_schema ws)\<lparr>ws_revision := expected + 1\<rparr>"
      "toml_of c ws' = Inr encoded" "length encoded \<le> MAX_MESSAGE"
    by (auto simp: store_prepare_def op_simps on_world_simps res_simps not_less)
  have "untouched (side_files st) w w1"
    by (rule op_relD [OF untouched_lock l]) (simp add: side_files_def)
  then have "file_at (config_path st) w1 = file_at (config_path st) w" "fw_euid w1 = fw_euid w"
    using untouched_file [OF _ config_not_side config_not_pending(1)] assms(2)
    by (blast, blast intro: untouched_euid)
  then have "disk_config x c st w1 = disk_config x c st w" by (rule disk_config_cong)
  with store_load_disk [OF p] have "disk_config x c st w = Inr previous" by simp
  with rest show ?thesis by simp
qed

text \<open>The contract of the TOML codec: what is written parses back, as UTF-8 text.\<close>

definition codec_ok :: "codec \<Rightarrow> bool" where
  "codec_ok c = (\<forall>ws b. toml_of c ws = Inr b \<longrightarrow> toml_parse c b = Inr ws \<and> to_str b \<noteq> None)"

lemma disk_config_written:
  assumes "codec_ok c" "toml_of c ws = Inr b" "validate_workspace x ws = Inr ()"
    and "length b \<le> MAX_MESSAGE" "file_at (config_path st) w = Some (new_inode (fw_euid w) b)"
  shows "disk_config x c st w = Inr ws"
  using assms
  by (simp add: disk_config_def decode_workspace_def codec_ok_def new_inode_def private_file_def
      is_regular_def)

text \<open>
  Every outcome of a save: the stored configuration is unchanged, or it is the new workspace,
  one revision after the one it replaces.  Only the second is reported as success.
\<close>

lemma store_save_cases:
  assumes save: "store_save x c st expected (ws, w) = (r, (ws', w'))"
    and dir: "is_absolute (so_config_dir st)" and codec: "codec_ok c"
  shows "(r \<noteq> Inr () \<and> disk_config x c st w' = disk_config x c st w)
    \<or> (\<exists>previous. disk_config x c st w = Inr previous \<and> ws_revision previous = expected
        \<and> ws' = (raise_schema ws)\<lparr>ws_revision := expected + 1\<rparr> \<and> expected + 1 \<le> u64_max
        \<and> disk_config x c st w' = Inr ws')"
proof -
  obtain r1 ws1 w1 where p: "store_prepare x c st expected (ws, w) = (r1, (ws1, w1))"
    by (metis prod.collapse)
  have "untouched (side_files st) w w1"
    using op_relD [OF store_prepare_frame p] by (simp add: both_untouched_def)
  then have same: "file_at (config_path st) w1 = file_at (config_path st) w"
    "fw_euid w1 = fw_euid w"
    using untouched_file [OF _ config_not_side config_not_pending(1)] dir
    by (blast, blast intro: untouched_euid)
  then have kept: "disk_config x c st w1 = disk_config x c st w" by (rule disk_config_cong)
  show ?thesis
  proof (cases r1)
    case (Inl e)
    with p save have "r = Inl e" "w' = w1" by (auto simp: store_save_def op_try_def)
    with kept show ?thesis by simp
  next
    case (Inr encoded)
    with p save have a: "atomic_write (config_path st) encoded w1 = (r, w')" and "ws' = ws1"
      by (auto simp: store_save_def op_try_def on_world_simps)
    from store_prepare_Inr [OF p [unfolded Inr] dir] obtain previous where
      prev: "disk_config x c st w = Inr previous" "ws_revision previous = expected"
        "ws1 = (raise_schema ws)\<lparr>ws_revision := expected + 1\<rparr>" "expected + 1 \<le> u64_max"
      and enc: "validate_workspace x ws1 = Inr ()" "toml_of c ws1 = Inr encoded"
        "length encoded \<le> MAX_MESSAGE" by blast
    have euid: "fw_euid w' = fw_euid w1"
      by (rule untouched_euid [OF op_relD [OF untouched_atomic_write a]])
    note dest = atomic_write_dest [OF a config_not_pending(1) [OF dir]]
    show ?thesis
    proof (cases "file_at (config_path st) w' = Some (new_inode (fw_euid w1) encoded)")
      case True
      then have "disk_config x c st w' = Inr ws1"
        using disk_config_written [OF codec enc(2,1,3)] euid by simp
      with prev \<open>ws' = ws1\<close> show ?thesis by blast
    next
      case False
      with dest have "file_at (config_path st) w' = file_at (config_path st) w1" "r \<noteq> Inr ()"
        by auto
      then show ?thesis using disk_config_cong [OF _ euid, of st x c] kept by simp
    qed
  qed
qed

section \<open>Compare-and-swap\<close>

text \<open>
  The interface clients of the store rely on: a save names the version it was based on, and
  either leaves the stored value or replaces exactly that version by its successor.
\<close>

fun run_saves :: "(nat \<Rightarrow> 'v \<Rightarrow> 's \<Rightarrow> bool \<times> 's) \<Rightarrow> (nat \<times> 'v) list \<Rightarrow> 's \<Rightarrow> bool list \<times> 's" where
  "run_saves save [] s = ([], s)"
| "run_saves save ((n, v) # rs) s =
    (case save n v s of (b, s1) \<Rightarrow> (case run_saves save rs s1 of (bs, t) \<Rightarrow> (b # bs, t)))"

locale cas_store =
  fixes open_store :: "'s \<Rightarrow> bool"
    and stored :: "'s \<Rightarrow> 'v option"
    and version :: "'v \<Rightarrow> nat"
    and save :: "nat \<Rightarrow> 'v \<Rightarrow> 's \<Rightarrow> bool \<times> 's"
  assumes save_open: "open_store s \<Longrightarrow> save n v s = (b, t) \<Longrightarrow> open_store t"
    and save_outcome: "open_store s \<Longrightarrow> save n v s = (b, t) \<Longrightarrow> (\<not> b \<and> stored t = stored s)
      \<or> (\<exists>u u'. stored s = Some u \<and> version u = n \<and> stored t = Some u' \<and> version u' = Suc n)"
begin

lemma save_mono:
  "open_store s \<Longrightarrow> save n v s = (b, t) \<Longrightarrow> stored s = Some u \<Longrightarrow>
   \<exists>u'. stored t = Some u' \<and> version u \<le> version u'"
  using save_outcome [of s n v b t] by auto

lemma save_needs_version:
  "open_store s \<Longrightarrow> save n v s = (True, t) \<Longrightarrow> \<exists>u. stored s = Some u \<and> version u = n"
  using save_outcome [of s n v True t] by auto

lemma save_advances:
  "open_store s \<Longrightarrow> save n v s = (True, t) \<Longrightarrow> \<exists>u. stored t = Some u \<and> version u = Suc n"
  using save_outcome [of s n v True t] by auto

lemma saves_mono:
  "run_saves save rs s = (bs, t) \<Longrightarrow> open_store s \<Longrightarrow> stored s = Some u \<Longrightarrow>
   \<exists>u'. stored t = Some u' \<and> version u \<le> version u'"
proof (induction rs arbitrary: s bs u)
  case (Cons r rs)
  obtain n v where r: "r = (n, v)" by fastforce
  from Cons.prems(1) r obtain b s1 bs' where
    s: "save n v s = (b, s1)" "run_saves save rs s1 = (bs', t)" by (auto split: prod.splits)
  from save_mono [OF Cons.prems(2) s(1) Cons.prems(3)] obtain u1 where
    "stored s1 = Some u1" "version u \<le> version u1" by blast
  with Cons.IH [OF s(2) save_open [OF Cons.prems(2) s(1)]] show ?case by (meson order_trans)
qed simp

lemma saves_success:
  "run_saves save rs s = (bs, t) \<Longrightarrow> open_store s \<Longrightarrow> j < length rs \<Longrightarrow> bs ! j \<Longrightarrow>
   stored s = Some u \<Longrightarrow> version u \<le> fst (rs ! j)"
proof (induction rs arbitrary: s bs u j)
  case (Cons r rs)
  obtain n v where r: "r = (n, v)" by fastforce
  from Cons.prems(1) r obtain b s1 bs' where
    s: "save n v s = (b, s1)" "run_saves save rs s1 = (bs', t)" "bs = b # bs'"
    by (auto split: prod.splits)
  show ?case
  proof (cases j)
    case 0
    with Cons.prems s save_needs_version [of s n v s1] r show ?thesis by auto
  next
    case (Suc j')
    from save_mono [OF Cons.prems(2) s(1) Cons.prems(5)] obtain u1 where
      u1: "stored s1 = Some u1" "version u \<le> version u1" by blast
    from Cons.IH [OF s(2) save_open [OF Cons.prems(2) s(1)] _ _ u1(1), of j']
      Cons.prems(3,4) s(3) Suc u1(2) show ?thesis by simp
  qed
qed simp

lemma single_winner:
  "run_saves save rs s = (bs, t) \<Longrightarrow> open_store s \<Longrightarrow> i < j \<Longrightarrow> j < length rs \<Longrightarrow> bs ! i \<Longrightarrow> bs ! j \<Longrightarrow>
   fst (rs ! i) < fst (rs ! j)"
proof (induction rs arbitrary: s bs i j)
  case (Cons r rs)
  obtain n v where r: "r = (n, v)" by fastforce
  from Cons.prems(1) r obtain b s1 bs' where
    s: "save n v s = (b, s1)" "run_saves save rs s1 = (bs', t)" "bs = b # bs'"
    by (auto split: prod.splits)
  from Cons.prems(3) obtain j' where j: "j = Suc j'" by (cases j) auto
  have op: "open_store s1" by (rule save_open [OF Cons.prems(2) s(1)])
  show ?case
  proof (cases i)
    case 0
    with Cons.prems s have "save n v s = (True, s1)" by simp
    from save_advances [OF Cons.prems(2) this] obtain u where
      "stored s1 = Some u" "version u = Suc n" by blast
    with saves_success [OF s(2) op, of j' u] Cons.prems s(3) j r 0 show ?thesis by simp
  next
    case (Suc i')
    with Cons.IH [OF s(2) op, of i' j'] Cons.prems s(3) j show ?thesis by simp
  qed
qed simp

end

text \<open>
  The workspace store as such a store.  A site is a store together with the filesystem and the
  parameters it works with; its value is what a load sees.
\<close>

record site =
  si_ext :: ext
  si_codec :: codec
  si_store :: store
  si_world :: world

definition site_ok :: "site \<Rightarrow> bool" where
  "site_ok s = (is_absolute (so_config_dir (si_store s)) \<and> codec_ok (si_codec s))"

definition site_config :: "site \<Rightarrow> workspace option" where
  "site_config s = ok_opt (disk_config (si_ext s) (si_codec s) (si_store s) (si_world s))"

definition site_save :: "nat \<Rightarrow> workspace \<Rightarrow> site \<Rightarrow> bool \<times> site" where
  "site_save n ws s = (case store_save (si_ext s) (si_codec s) (si_store s) n (ws, si_world s) of
     (r, (_, w')) \<Rightarrow> (is_ok r, s\<lparr>si_world := w'\<rparr>))"

interpretation config: cas_store site_ok site_config ws_revision site_save
proof unfold_locales
  fix n v s b t
  assume ok: "site_ok s" and save: "site_save n v s = (b, t)"
  then show "site_ok t" by (auto simp: site_save_def site_ok_def split: prod.splits)
  obtain r ws' w' where r: "store_save (si_ext s) (si_codec s) (si_store s) n (v, si_world s)
      = (r, (ws', w'))" and b: "b = is_ok r" and t: "t = s\<lparr>si_world := w'\<rparr>"
    using save by (auto simp: site_save_def split: prod.splits)
  have "is_absolute (so_config_dir (si_store s))" "codec_ok (si_codec s)"
    using ok by (simp_all add: site_ok_def)
  from store_save_cases [OF r this] b t
  show "(\<not> b \<and> site_config t = site_config s)
      \<or> (\<exists>u u'. site_config s = Some u \<and> ws_revision u = n \<and> site_config t = Some u'
          \<and> ws_revision u' = Suc n)"
    by (auto simp: is_ok_iff site_config_def)
qed

section \<open>When a save succeeds\<close>

text \<open>No system call fails, and no pending file is left over.\<close>

definition calm :: "world \<Rightarrow> bool" where
  "calm w = (fw_faults w = [] \<and> (\<forall>k. pending_name k \<longrightarrow> fw_files w k = None))"

definition writable :: "path \<Rightarrow> world \<Rightarrow> bool" where
  "writable p w = (case file_at p w of None \<Rightarrow> True | Some i \<Rightarrow> is_regular i \<and> fi_uid i = fw_euid w)"

definition lockable :: "path \<Rightarrow> world \<Rightarrow> bool" where
  "lockable p w = (case file_at p w of None \<Rightarrow> True | Some i \<Rightarrow> private_file (fw_euid w) i)"

lemma calm_syscall: "calm w \<Longrightarrow> syscall w = (Inr (), w)"
  by (simp add: calm_def syscall_def take_fault_def)

lemma op_ok_syscall: "calm w \<Longrightarrow> op_ok (f ()) w R \<Longrightarrow> op_ok (op_try syscall f) w R"
  by (simp add: op_ok_def op_try_def calm_syscall)

lemma private_not_symlink: "private_file u i \<Longrightarrow> \<not> is_symlink i"
  by (auto simp: private_file_def is_regular_def is_symlink_def)

lemma calm_read:
  assumes "calm w" "file_at p w = Some i" "private_file (fw_euid w) i" "length (fi_bytes i) \<le> limit"
  shows "read_private p limit w = (Inr (fi_bytes i), w)"
proof -
  have "op_ok (read_private p limit) w (\<lambda>b t. b = fi_bytes i \<and> t = w)"
    unfolding read_private_def
    using assms private_not_symlink
    by (intro op_ok_syscall op_ok_get) (auto intro!: op_ok_syscall op_ok_get op_ok_ensure simp: Let_def)
  then show ?thesis by (auto dest: op_okD)
qed

lemma calm_load:
  assumes "calm w" "disk_config x c st w = Inr ws"
  shows "store_load x c st w = (Inr ws, w)"
proof (cases "file_at (config_path st) w")
  case None
  have "read_private (config_path st) MAX_MESSAGE w = (Inl NotFound, w)"
    using assms(1) None by (simp add: read_private_def op_try_def calm_syscall)
  with assms(2) None show ?thesis by (simp add: store_load_def disk_config_def)
next
  case (Some i)
  with assms(2) have "private_file (fw_euid w) i" "length (fi_bytes i) \<le> MAX_MESSAGE"
    and "decode_workspace x c (fi_bytes i) = Inr ws" by (auto simp: disk_config_def res_simps)
  with calm_read [OF assms(1) Some] show ?thesis by (simp add: store_load_def)
qed

lemma calm_write:
  assumes calm: "calm w" and np: "\<not> pending_name (components p)" and "has_parent (components p)"
    and wr: "writable p w"
  shows "op_ok (atomic_write p b) w (\<lambda>_ t. calm t \<and> untouched {components p} w t
      \<and> file_at p t = Some (new_inode (fw_euid w) b))"
proof -
  let ?k = "components p"
  define i where "i = fw_uuid w (fw_next w)"
  define w1 where "w1 = w\<lparr>fw_next := Suc (fw_next w)\<rparr>"
  have rep: "replaceable ?k w = (Inr (), w)"
    using wr by (auto simp: replaceable_def calm_syscall [OF calm] writable_def file_at_def
        split: option.splits)
  have id: "new_id w = (Inr i, w1)" by (simp add: new_id_def i_def w1_def)
  have calm1: "calm w1" and absent: "fw_files w1 (pending_key ?k i) = None"
    using calm by (simp_all add: calm_def w1_def)
  have neq: "pending_key ?k i \<noteq> ?k" by (rule not_pending_key [OF np])
  have dest: "fw_files w1 ?k = None \<or> (\<exists>j. fw_files w1 ?k = Some j \<and> fi_kind j \<noteq> Directory)"
    using wr by (auto simp: w1_def writable_def file_at_def is_regular_def split: option.splits)
  have "\<exists>t. run_ops (write_steps (pending_key ?k i) ?k b) w1 = (Inr (), t) \<and> calm t"
    using calm1 absent neq dest np
    by (auto simp: write_steps_def op_try_def create_new_def write_all_def rename_file_def
        syscall_def take_fault_def calm_def put_file_def drop_file_def)
  then obtain t where t: "run_ops (write_steps (pending_key ?k i) ?k b) w1 = (Inr (), t)" "calm t"
    by blast
  with rep id have run: "atomic_write p b w = (Inr (), t)"
    using assms(3) by (simp add: atomic_write_def Let_def op_try_def or_cleanup_def)
  have "untouched {?k} w t" by (rule op_relD [OF untouched_atomic_write run])
  moreover have "file_at p t = Some (new_inode (fw_euid w) b)"
    by (rule atomic_write_dest(2) [OF run np refl])
  ultimately show ?thesis using run t(2) by (simp add: op_ok_def)
qed

lemma side_not_pending:
  assumes "is_absolute (so_config_dir st)"
  shows "\<not> pending_name (components (migration_backup st n))"
    "\<not> pending_name (components (join_path (so_config_dir st) ''workspace.lock''))"
  using assms by (simp_all add: pending_name_def components_config)

lemma side_distinct:
  assumes "is_absolute (so_config_dir st)"
  shows "components (migration_backup st n) \<noteq> components (config_path st)"
    "components (migration_backup st n) \<noteq> components (previous_path st)"
    "components (join_path (so_config_dir st) ''workspace.lock'') \<noteq> components (config_path st)"
    "components (join_path (so_config_dir st) ''workspace.lock'') \<noteq> components (previous_path st)"
    "components (join_path (so_config_dir st) ''workspace.lock'') \<noteq> components (migration_backup st n)"
    "components (previous_path st) \<noteq> components (config_path st)"
  using assms by (auto simp: components_config)

lemma side_parents:
  assumes "is_absolute (so_config_dir st)"
  shows "has_parent (components (config_path st))" "has_parent (components (previous_path st))"
    "has_parent (components (migration_backup st n))"
  using assms by (simp_all add: has_parent_def components_config)

lemma writable_cong:
  "untouched D w w' \<Longrightarrow> components p \<notin> D \<Longrightarrow> \<not> pending_name (components p) \<Longrightarrow>
   writable p w' = writable p w"
  using untouched_file [of D w w' p] untouched_euid [of D w w'] by (simp add: writable_def cong: option.case_cong)

lemma resolves_none: "fw_files w k = None \<Longrightarrow> \<not> resolves n w k"
  by (cases n) simp_all

lemma resolves_file: "fw_files w k = Some i \<Longrightarrow> is_regular i \<Longrightarrow> resolves (Suc n) w k"
  by (simp add: is_regular_def)

lemma calm_path_exists: "calm w \<Longrightarrow> path_exists p w = (Inr (resolves 41 w (components p)), w)"
  by (simp add: path_exists_def calm_syscall)

lemma calm_lock:
  assumes "calm w" "lockable p w" "\<not> pending_name (components p)"
  shows "op_ok (acquire_lock p) w (\<lambda>_ t. calm t \<and> untouched {components p} w t)"
proof (cases "file_at p w")
  case None
  let ?t = "put_file (components p) (new_inode (fw_euid w) []) w"
  have "calm ?t" using assms by (auto simp: calm_def put_file_def)
  moreover have "untouched {components p} w ?t" by (simp add: untouched_put)
  moreover have "file_at p ?t = Some (new_inode (fw_euid w) [])" "fw_euid ?t = fw_euid w"
    by (simp_all add: file_at_def put_file_def)
  ultimately show ?thesis
    unfolding acquire_lock_def using assms(1) None
    by (auto simp: op_ok_def op_try_def op_ensure_def calm_syscall private_file_def new_inode_def
        is_regular_def)
next
  case (Some i)
  with assms(2) have "private_file (fw_euid w) i" by (simp add: lockable_def)
  with assms(1) Some show ?thesis
    unfolding acquire_lock_def
    by (auto simp: op_ok_def op_try_def calm_syscall dest: private_not_symlink)
qed

lemma calm_backup:
  assumes dir: "is_absolute (so_config_dir st)" and calm: "calm w"
    and prev: "writable (previous_path st) w"
    and mig: "writable (migration_backup st (ws_schema previous)) w"
    and disk: "disk_config x c st w = Inr v"
  shows "op_ok (store_backup st previous ws) w (\<lambda>_ t. calm t
     \<and> untouched {components (previous_path st), components (migration_backup st (ws_schema previous))} w t
     \<and> (\<forall>i. file_at (config_path st) w = Some i \<longrightarrow>
          file_at (previous_path st) t = Some (new_inode (fw_euid w) (fi_bytes i))))"
proof (cases "file_at (config_path st) w")
  case None
  then have "\<not> resolves 41 w (components (config_path st))"
    using resolves_none [of w "components (config_path st)" 41] by (simp add: file_at_def)
  with None calm show ?thesis
    by (simp add: store_backup_def op_ok_def op_try_def calm_path_exists)
next
  case (Some i)
  with disk have priv: "private_file (fw_euid w) i" and len: "length (fi_bytes i) \<le> MAX_MESSAGE"
    by (auto simp: disk_config_def res_simps)
  have ex: "resolves 41 w (components (config_path st))"
    using Some priv resolves_file [of w "components (config_path st)" i 40]
    by (simp add: file_at_def private_file_def)
  let ?m = "migration_backup st (ws_schema previous)"
  have step: "op_ok (if ws_schema previous < ws_schema ws
        then op_try (path_exists ?m) (\<lambda>b. if b then op_return () else atomic_write ?m (fi_bytes i))
        else op_return ()) w (\<lambda>_ t. calm t \<and> untouched {components ?m} w t)"
    using calm calm_write [OF calm side_not_pending(1) [OF dir] side_parents(3) [OF dir] mig, of "fi_bytes i"]
    by (simp add: op_ok_def op_try_step [OF calm_path_exists]) blast
  have last: "op_ok (atomic_write (previous_path st) (fi_bytes i)) t (\<lambda>_ u. calm u
      \<and> untouched {components (previous_path st), components ?m} w u
      \<and> file_at (previous_path st) u = Some (new_inode (fw_euid w) (fi_bytes i)))"
    if "calm t \<and> untouched {components ?m} w t" for t
  proof -
    from that have wr: "writable (previous_path st) t"
      using writable_cong [of "{components ?m}" w t "previous_path st"] prev side_distinct(2) [OF dir]
        config_not_pending(2) [OF dir] by (metis singletonD)
    show ?thesis
      by (rule op_ok_mono [OF calm_write [OF _ config_not_pending(2) [OF dir] side_parents(2) [OF dir] wr]])
        (use that in \<open>auto intro: untouched_trans untouched_mono simp: untouched_euid [of "{components ?m}" w t]\<close>)
  qed
  have e: "path_exists (config_path st) w = (Inr True, w)" using calm ex
    by (simp add: calm_path_exists)
  note r = calm_read [OF calm Some priv len]
  show ?thesis
    using op_ok_try [OF step last]
    by (simp add: store_backup_def op_ok_def op_try_step [where m = "path_exists (config_path st)", OF e]
        op_try_step [where m = "read_private (config_path st) MAX_MESSAGE", OF r] Some)
qed

text \<open>The conditions under which a save is accepted and no environment failure can refuse it.\<close>

definition save_ready :: "ext \<Rightarrow> codec \<Rightarrow> store \<Rightarrow> nat \<Rightarrow> workspace \<Rightarrow> world \<Rightarrow> bool" where
  "save_ready x c st expected ws w = (calm w
     \<and> lockable (join_path (so_config_dir st) ''workspace.lock'') w
     \<and> writable (previous_path st) w \<and> (\<forall>n. writable (migration_backup st n) w)
     \<and> (\<exists>previous. disk_config x c st w = Inr previous \<and> ws_revision previous = expected)
     \<and> expected < u64_max \<and> validate_workspace x (raise_schema ws) = Inr ()
     \<and> (\<exists>b. toml_of c ((raise_schema ws)\<lparr>ws_revision := expected + 1\<rparr>) = Inr b
          \<and> length b \<le> MAX_MESSAGE))"

lemma disk_writable: "disk_config x c st w = Inr ws \<Longrightarrow> writable (config_path st) w"
  by (auto simp: disk_config_def writable_def private_file_def res_simps split: option.splits)

lemma on_world_step: "m w = (Inr x, t) \<Longrightarrow> on_world m (ws, w) = (Inr x, (ws, t))"
  by (simp add: on_world_def)

lemma store_save_ready:
  assumes dir: "is_absolute (so_config_dir st)" and ready: "save_ready x c st expected ws w"
  shows "\<exists>w'. store_save x c st expected (ws, w) =
      (Inr (), ((raise_schema ws)\<lparr>ws_revision := expected + 1\<rparr>, w')) \<and> calm w'
    \<and> (\<forall>i. file_at (config_path st) w = Some i \<longrightarrow>
         file_at (previous_path st) w' = Some (new_inode (fw_euid w) (fi_bytes i)))"
proof -
  let ?lock = "join_path (so_config_dir st) ''workspace.lock''"
  let ?ws = "(raise_schema ws)\<lparr>ws_revision := expected + 1\<rparr>"
  from ready obtain previous b where calm: "calm w" and lk: "lockable ?lock w"
    and wp: "writable (previous_path st) w" and wm: "\<And>n. writable (migration_backup st n) w"
    and disk: "disk_config x c st w = Inr previous" and rev: "ws_revision previous = expected"
    and bound: "expected < u64_max" and valid: "validate_workspace x (raise_schema ws) = Inr ()"
    and enc: "toml_of c ?ws = Inr b" and len: "length b \<le> MAX_MESSAGE"
    unfolding save_ready_def by blast
  note np = config_not_pending [OF dir] side_not_pending [OF dir]
  note dist = side_distinct [OF dir]
  from op_okD [OF calm_lock [OF calm lk np(4)]] obtain w1 where
    l: "acquire_lock ?lock w = (Inr (), w1)" and c1: "calm w1" and u1: "untouched {components ?lock} w w1"
    by auto
  have cfg1: "file_at (config_path st) w1 = file_at (config_path st) w"
    by (rule untouched_file [OF u1 _ np(1)]) (use dist(3) in auto)
  have "disk_config x c st w1 = disk_config x c st w"
    by (rule disk_config_cong [OF cfg1 untouched_euid [OF u1]])
  then have disk1: "disk_config x c st w1 = Inr previous" using disk by simp
  have wp1: "writable (previous_path st) w1"
    using writable_cong [OF u1 _ np(2)] dist(4) wp by auto
  have wm1: "writable (migration_backup st (ws_schema previous)) w1"
    using writable_cong [OF u1 _ np(3)] dist(5) [symmetric] wm by auto
  from op_okD [OF calm_backup [OF dir c1 wp1 wm1 disk1, of ?ws]] obtain w2 where
    bk: "store_backup st previous ?ws w1 = (Inr (), w2)" and c2: "calm w2"
    and u2: "untouched {components (previous_path st),
        components (migration_backup st (ws_schema previous))} w1 w2"
    and kept: "\<forall>i. file_at (config_path st) w1 = Some i \<longrightarrow>
        file_at (previous_path st) w2 = Some (new_inode (fw_euid w1) (fi_bytes i))" by auto
  have "writable (config_path st) w2"
    using writable_cong [OF u2 _ np(1)] dist(1,6) disk_writable [OF disk1] by (metis insertE singletonD)
  from op_okD [OF calm_write [OF c2 np(1) side_parents(1) [OF dir] this]] obtain w3 where
    wr: "atomic_write (config_path st) b w2 = (Inr (), w3)" and c3: "calm w3"
    and u3: "untouched {components (config_path st)} w2 w3" by auto
  have "file_at (previous_path st) w3 = file_at (previous_path st) w2"
    by (rule untouched_file [OF u3 _ np(2)]) (use dist(6) in auto)
  then have kept3: "\<forall>i. file_at (config_path st) w = Some i \<longrightarrow>
      file_at (previous_path st) w3 = Some (new_inode (fw_euid w) (fi_bytes i))"
    using kept cfg1 untouched_euid [OF u1] by simp
  have "store_prepare x c st expected (ws, w) = (Inr b, (?ws, w2))"
    unfolding store_prepare_def
    using rev bound valid enc len
    by (simp add: op_try_step [where m = "on_world m" for m, OF on_world_step]
        l calm_load [OF c1 disk1] bk [simplified] checked_add_def op_try_def on_world_def)
  then have "store_save x c st expected (ws, w) = (Inr (), (?ws, w3))"
    by (simp add: store_save_def op_try_def on_world_def wr)
  with c3 kept3 show ?thesis by blast
qed

section \<open>A concrete store\<close>

text \<open>A codec for the workspaces without projects: the revision in unary.\<close>

definition demo_codec :: codec where
  "demo_codec = \<lparr>toml_of = (\<lambda>ws. if ws = default_workspace\<lparr>ws_revision := ws_revision ws\<rparr>
       then Inr (replicate (ws_revision ws) CHR ''1'') else Inl (Os ''unsupported'')),
     toml_parse = (\<lambda>b. Inr (default_workspace\<lparr>ws_revision := length b\<rparr>))\<rparr>"

definition demo_store :: store where
  "demo_store = \<lparr>so_config_dir = ''/c'', so_state_dir = ''/s'', so_runtime_dir = ''/r''\<rparr>"

definition demo_world :: world where
  "demo_world = \<lparr>fw_files = Map.empty, fw_euid = 1000, fw_faults = [], fw_uuid = string_of_nat,
     fw_next = 0\<rparr>"

definition demo_site :: site where
  "demo_site = \<lparr>si_ext = demo_ext, si_codec = demo_codec, si_store = demo_store, si_world = demo_world\<rparr>"

lemma to_str_ones: "to_str (replicate n CHR ''1'') \<noteq> None"
  by (induction n) (auto simp: to_str_def bytes_of_def)

lemma demo_codec_ok: "codec_ok demo_codec"
  unfolding codec_ok_def
proof (intro allI impI)
  fix ws b
  assume "toml_of demo_codec ws = Inr b"
  then have "ws = default_workspace\<lparr>ws_revision := ws_revision ws\<rparr>"
    "b = replicate (ws_revision ws) CHR ''1''"
    by (auto simp: demo_codec_def split: if_splits)
  then show "toml_parse demo_codec b = Inr ws \<and> to_str b \<noteq> None"
    using to_str_ones by (simp add: demo_codec_def)
qed

lemma demo_dir: "is_absolute (so_config_dir demo_store)"
  by (simp add: demo_store_def is_absolute_def)

lemma demo_save_ready: "save_ready demo_ext demo_codec demo_store 0 default_workspace demo_world"
  by (simp add: save_ready_def calm_def demo_world_def lockable_def writable_def file_at_def
      disk_config_def raise_schema_def uses_native_def u64_max_def
      default_workspace_valid default_workspace_def [THEN arg_cong, of ws_portable]
      default_workspace_def [THEN arg_cong, of ws_projects]
      default_workspace_def [THEN arg_cong, of ws_revision] demo_codec_def MAX_MESSAGE_def)

section \<open>Properties\<close>

text \<open>A save that reports success was based on the configuration then on disk, and
  afterwards a load returns exactly the saved workspace: the given definitions, with the schema
  raised where they need it and the revision one higher.\<close>

theorem save_commits:
  assumes "store_save x c st expected (ws, w) = (Inr (), (ws', w'))"
    and "is_absolute (so_config_dir st)" and "codec_ok c"
  shows "(\<exists>previous. disk_config x c st w = Inr previous \<and> ws_revision previous = expected)
    \<and> ws' = (raise_schema ws)\<lparr>ws_revision := expected + 1\<rparr> \<and> expected + 1 \<le> u64_max
    \<and> disk_config x c st w' = Inr ws'"
  using store_save_cases [OF assms] by auto

theorem save_commits_witness:
  "\<exists>w'. disk_config demo_ext demo_codec demo_store w' = Inr (default_workspace\<lparr>ws_revision := 1\<rparr>)"
proof -
  from store_save_ready [OF demo_dir demo_save_ready] obtain w' where
    s: "store_save demo_ext demo_codec demo_store 0 (default_workspace, demo_world)
      = (Inr (), ((raise_schema default_workspace)\<lparr>ws_revision := 0 + 1\<rparr>, w'))" by blast
  have "raise_schema default_workspace = default_workspace"
    by (simp add: raise_schema_def default_workspace_def uses_native_def)
  with save_commits [OF s demo_dir demo_codec_ok] show ?thesis by auto
qed

text \<open>A save that fails - on a stale revision, an invalid definition, or any system
  call - leaves a configuration that loads: the old one, or, when only the final directory sync
  failed, the complete new one.  A stale save never changes anything.\<close>

theorem save_failure_keeps:
  assumes "store_save x c st expected (ws, w) = (Inl e, (ws', w'))"
    and "is_absolute (so_config_dir st)" and "codec_ok c"
    and "disk_config x c st w = Inr current"
  shows "disk_config x c st w' = Inr current
    \<or> (ws_revision current = expected
       \<and> disk_config x c st w' = Inr ((raise_schema ws)\<lparr>ws_revision := expected + 1\<rparr>))"
  using store_save_cases [OF assms(1-3)] assms(4) by auto

theorem save_failure_keeps_witness:
  "let w = demo_world\<lparr>fw_faults := [Some (0, ''EACCES'')]\<rparr>;
       w' = snd (snd (store_save demo_ext demo_codec demo_store 0 (default_workspace, w)))
   in w' = w\<lparr>fw_faults := []\<rparr> \<and> (disk_config demo_ext demo_codec demo_store w' = Inr default_workspace
      \<or> disk_config demo_ext demo_codec demo_store w'
        = Inr ((raise_schema default_workspace)\<lparr>ws_revision := 1\<rparr>))"
proof -
  let ?w = "demo_world\<lparr>fw_faults := [Some (0, ''EACCES'')]\<rparr>"
  have s: "store_save demo_ext demo_codec demo_store 0 (default_workspace, ?w)
      = (Inl (Os ''EACCES''), (default_workspace, ?w\<lparr>fw_faults := []\<rparr>))"
    by (simp add: store_save_def store_prepare_def on_world_def acquire_lock_def op_try_def
        syscall_def take_fault_def demo_world_def)
  have d: "disk_config demo_ext demo_codec demo_store ?w = Inr default_workspace"
    by (simp add: disk_config_def file_at_def demo_world_def)
  from save_failure_keeps [OF s demo_dir demo_codec_ok d] show ?thesis
    by (auto simp: s Let_def)
qed

text \<open>C10 (saves_no_lost_update). Whatever saves any number of clients attempt, in any order and with any system
  failures, two of them that succeed were based on different revisions, the later one on the
  higher: no client overwrites a change it has not seen.\<close>

theorem saves_no_lost_update:
  assumes "run_saves site_save requests s = (outcomes, t)" and "site_ok s"
    and "i < j" and "j < length requests" and "outcomes ! i" and "outcomes ! j"
  shows "fst (requests ! i) < fst (requests ! j)"
  using assms by (rule config.single_winner)

theorem saves_no_lost_update_witness:
  "let requests = [(0, default_workspace), (0, default_workspace), (1, default_workspace)]
   in fst (run_saves site_save requests demo_site) = [True, False, True]
      \<and> fst (requests ! 0) < fst (requests ! 2)"
proof -
  let ?rs = "[(0, default_workspace), (0, default_workspace), (1, default_workspace)] :: (nat \<times> workspace) list"
  have o: "fst (run_saves site_save ?rs demo_site) = [True, False, True]" by code_simp
  then obtain t where r: "run_saves site_save ?rs demo_site = ([True, False, True], t)"
    by (metis prod.collapse)
  have ok: "site_ok demo_site"
    using demo_dir demo_codec_ok by (simp add: site_ok_def demo_site_def)
  from saves_no_lost_update [OF r ok, of 0 2] o show ?thesis by (simp add: Let_def)
qed

text \<open>A save of a valid workspace based on the current revision does succeed when no
  system call fails and the files are the user's own, and keeps the replaced bytes in
  \<open>workspace.previous.toml\<close>.\<close>

theorem save_succeeds:
  assumes "save_ready x c st expected ws w" and "is_absolute (so_config_dir st)"
  shows "\<exists>w'. store_save x c st expected (ws, w) =
      (Inr (), ((raise_schema ws)\<lparr>ws_revision := expected + 1\<rparr>, w'))
    \<and> (\<forall>i. file_at (config_path st) w = Some i \<longrightarrow>
         file_at (previous_path st) w' = Some (new_inode (fw_euid w) (fi_bytes i)))"
  using store_save_ready [OF assms(2,1)] by blast

theorem save_succeeds_witness:
  "\<exists>w'. store_save demo_ext demo_codec demo_store 0 (default_workspace, demo_world)
     = (Inr (), ((raise_schema default_workspace)\<lparr>ws_revision := 0 + 1\<rparr>, w'))"
  using save_succeeds [OF demo_save_ready demo_dir] by blast

text \<open>A crash between any two system calls of an atomic write leaves the destination with
  its old inode or the complete new one, and every other file but the pending one as it was.\<close>

theorem write_crash_atomic:
  assumes "run_ops (take n (write_steps (pending_key (components p) i) (components p) bytes)) w = (r, w')"
    and "\<not> pending_name (components p)"
  shows "(file_at p w' = file_at p w \<or> file_at p w' = Some (new_inode (fw_euid w) bytes))
    \<and> untouched {components p} w w'"
  using write_steps_dest(1) [OF assms(1) not_pending_key [OF assms(2)]]
    op_relD [OF untouched_write_steps assms(1)] by (simp add: file_at_def)

theorem write_crash_atomic_witness:
  "file_at ''/c/f'' (put_file (pending_key (components ''/c/f'') ''7'')
     (new_inode 1000 ''ne'') (demo_world\<lparr>fw_faults := []\<rparr>)) = None
   \<or> file_at ''/c/f'' (put_file (pending_key (components ''/c/f'') ''7'')
     (new_inode 1000 ''ne'') (demo_world\<lparr>fw_faults := []\<rparr>)) = Some (new_inode 1000 ''new'')"
proof -
  let ?k = "components ''/c/f''"
  let ?w = "demo_world\<lparr>fw_faults := [None, Some (2, ''ENOSPC'')]\<rparr>"
  have np: "\<not> pending_name ?k"
    by (simp add: pending_name_def components_def is_absolute_def component_of_def)
  have "run_ops (take 3 (write_steps (pending_key ?k ''7'') ?k ''new'')) ?w
      = (Inl (Os ''ENOSPC''), put_file (pending_key ?k ''7'') (new_inode 1000 ''ne'')
          (demo_world\<lparr>fw_faults := []\<rparr>))"
    by (simp add: write_steps_def create_new_def write_all_def op_try_def syscall_def take_fault_def
        put_file_def demo_world_def new_inode_def)
  from write_crash_atomic [OF this np] show ?thesis
    by (simp add: file_at_def demo_world_def)
qed

end
