(* ===== verification/Trust_Scope.thy ===== *)
theory Trust_Scope
  imports Store
begin

text \<open>
  The launch environment and the trust scopes of \<open>project.rs\<close>: the fingerprints over shell
  startup files and initialization scripts that a project or terminal must match to be
  started, and path availability.  What the program observes of the machine is the record
  \<open>observation\<close>; JSON serialisation of the manifests is a parameter.
\<close>

section \<open>Launch environment\<close>

record launch_environment =
  le_variables :: environment

definition env_total :: "environment \<Rightarrow> nat" where
  "env_total vs = sum_list (map (\<lambda>(k, v). length k + length v + 2) vs)"

definition from_variables :: "environment \<Rightarrow> launch_environment res" where
  "from_variables vs =
    ensure (length vs \<le> 1024) ''launch environment exceeds 1024 entries''
    (ensure (env_total vs \<le> u64_max) ''launch environment size overflow''
    (ensure (env_total vs \<le> 262144) ''launch environment exceeds 256 KiB''
    (ensure (list_all (\<lambda>(k, v). k \<noteq> [] \<and> \<not> (CHR ''='' \<in> set k \<or> nul \<in> set k) \<and> nul \<notin> set v) vs)
      ''invalid launch environment entry''
    (and_then (context_opt (map_of vs ''HOME'') ''launch environment needs HOME'') (\<lambda>home.
     and_then (absolute_path home) (\<lambda>_. Inr \<lparr>le_variables = vs\<rparr>))))))"

definition env_home :: "launch_environment \<Rightarrow> path" where
  "env_home e = (case map_of (le_variables e) ''HOME'' of None \<Rightarrow> [] | Some h \<Rightarrow> h)"

definition resolve_input_path :: "string \<Rightarrow> path \<Rightarrow> launch_environment \<Rightarrow> path res" where
  "resolve_input_path input base e =
    ensure (input \<noteq> []) ''path is required''
    (let p = (if input = ''~'' then env_home e
              else if prefix ''~/'' input then join_path (env_home e) (drop 2 input)
              else if is_absolute input then input else join_path base input) in
     and_then (absolute_path p) (\<lambda>_. Inr p))"

section \<open>Observations\<close>

datatype shell_kind = Tcsh | BsdCsh

record shell_inspection =
  sn_canonical :: path
  sn_kind :: shell_kind
  sn_login_first :: bool

text \<open>
  What one operation observes: files and directories (with a second \<open>metadata\<close> and
  \<open>canonicalize\<close> after reading, since files may change meanwhile), the inspected shell, and Git.
\<close>

record observation =
  ob_os :: os
  ob_restat :: "path \<Rightarrow> file_meta res"
  ob_recanon :: "path \<Rightarrow> path res"
  ob_try_exists :: "path \<Rightarrow> bool res"
  ob_access :: "path \<Rightarrow> unit res"
  ob_inspect_shell :: "path \<Rightarrow> environment \<Rightarrow> shell_inspection res"
  ob_discover :: "path \<Rightarrow> repository res"
  ob_verify :: "repository \<Rightarrow> unit res"
  ob_declaration :: "path \<Rightarrow> string option res"

record trust_file =
  tf_path :: path
  tf_canonical :: "path option"
  tf_digest :: "string option"
  tf_role :: string
  tf_args :: "string list"
  tf_missing_optional :: bool

record trust_scope =
  ts_terminal_id :: "string option"
  ts_digest :: "string option"
  ts_trusted :: bool
  ts_files :: "trust_file list"
  ts_error :: "error option"

text \<open>The manifests \<open>serde_json::json!\<close> builds, by their label.\<close>

datatype manifest =
    NativeTerminal path "native_shell option"
  | ProjectNative path "native_shell option" path
  | NativeInstance "string option" string path
  | CommonInitialization nat string path shell_kind path bool bool path "path option" path
      "path option" "trust_file list"
  | TerminalInitialization string string path "path option" "trust_file list"

definition SOURCE_LIMIT :: nat where "SOURCE_LIMIT = 4194304"
definition SHELL_LIMIT :: nat where "SHELL_LIMIT = 33554432"
definition STARTUP_POLICY_VERSION :: nat where "STARTUP_POLICY_VERSION = 2"

definition framed_digest :: "ext \<Rightarrow> (manifest \<Rightarrow> string res) \<Rightarrow> string \<Rightarrow> manifest \<Rightarrow> string res" where
  "framed_digest x js label m =
    and_then (js m) (\<lambda>j. Inr (sha256_hex x (hash_field (hash_field [] label) j)))"

text \<open>
  \<open>append_file\<close> pushes its entry before it can fail, so the files collected so far are part of
  its result in either case.
\<close>

definition read_stable :: "observation \<Rightarrow> path \<Rightarrow> path \<Rightarrow> nat \<Rightarrow> string res" where
  "read_stable ob p canonical limit =
    and_then (os_metadata (ob_os ob) canonical) (\<lambda>target.
    ensure (fm_is_file target) ''must be a regular file''
    (ensure (fm_len target \<le> limit) ''exceeds the limit''
    (and_then (with_context (os_open (ob_os ob) canonical) ''cannot read'') (\<lambda>(before, content).
     ensure (fm_is_file before) ''must be a regular file''
     (ensure (fm_len before \<le> limit) ''exceeds the limit''
     (ensure (fm_identity before = fm_identity target) ''target changed during review''
     (let bytes = take (limit + 1) content in
      ensure (length bytes \<le> limit) ''exceeds the read limit''
      (and_then (ob_restat ob canonical) (\<lambda>after.
       ensure (fm_len before = fm_len after \<and> fm_times before = fm_times after)
         ''changed while being read''
       (and_then (ob_recanon ob p) (\<lambda>again.
        ensure (path_eq again canonical) ''symlink target changed during review''
          (Inr bytes))))))))))))"

definition append_file ::
    "ext \<Rightarrow> observation \<Rightarrow> path \<Rightarrow> string \<Rightarrow> string list \<Rightarrow> bool \<Rightarrow> nat \<Rightarrow> (trust_file list, unit) op" where
  "append_file x ob p role args optional limit files =
    (case absolute_path p of Inl e \<Rightarrow> (Inl e, files) | Inr _ \<Rightarrow>
     let entry = \<lparr>tf_path = p, tf_canonical = None, tf_digest = None, tf_role = role,
                  tf_args = args, tf_missing_optional = False\<rparr> in
     case os_canonicalize (ob_os ob) p of
       Inl e \<Rightarrow> if optional \<and> e = NotFound
         then (Inr (), files @ [entry\<lparr>tf_missing_optional := True\<rparr>])
         else (Inl (Bail ''cannot resolve''), files @ [entry])
     | Inr canonical \<Rightarrow>
         let entry' = entry\<lparr>tf_canonical := Some canonical\<rparr> in
         (case read_stable ob p canonical limit of
            Inl e \<Rightarrow> (Inl e, files @ [entry'])
          | Inr bytes \<Rightarrow> (Inr (), files @ [entry'\<lparr>tf_digest := Some (sha256_hex x bytes)\<rparr>])))"

definition startup_inventory ::
    "observation \<Rightarrow> shell_config \<Rightarrow> path \<Rightarrow> shell_inspection \<Rightarrow> (path \<times> string) list res" where
  "startup_inventory ob sh home ins =
    (let login_first = (if sc_login sh \<and> sn_login_first ins
           then [(''/etc/csh.login'', ''system login'')] else []);
         login_last = (if sc_login sh \<and> \<not> sn_login_first ins
           then [(''/etc/csh.login'', ''system login'')] else []);
         user_first = (if sc_login sh \<and> sn_login_first ins
           then [(join_path home ''.login'', ''user login'')] else []);
         user_last = (if sc_login sh \<and> \<not> sn_login_first ins
           then [(join_path home ''.login'', ''user login'')] else []);
         logout = (if sc_login sh then [(''/etc/csh.logout'', ''system logout''),
           (join_path home ''.logout'', ''user logout'')] else []);
         tcshrc = join_path home ''.tcshrc'';
         cshrc = (join_path home ''.cshrc'', ''user startup'') in
     and_then (if sn_kind ins = Tcsh
         then and_then (with_context (ob_try_exists ob tcshrc) ''inspect user startup selection'')
           (\<lambda>e. Inr ((tcshrc, ''user startup candidate'') # (if e then [] else [cshrc])))
         else Inr [cshrc]) (\<lambda>rc.
     Inr (login_first @ [(''/etc/csh.cshrc'', ''system startup'')] @ login_last @ user_first
       @ rc @ user_last @ logout)))"

definition scope_result ::
    "string option \<Rightarrow> string option \<Rightarrow> trust_file list \<Rightarrow> string res \<Rightarrow> trust_scope" where
  "scope_result tid approved files r = (case r of
      Inr d \<Rightarrow> \<lparr>ts_terminal_id = tid, ts_digest = Some d, ts_trusted = (approved = Some d),
                ts_files = files, ts_error = None\<rparr>
    | Inl e \<Rightarrow> \<lparr>ts_terminal_id = tid, ts_digest = None, ts_trusted = False,
                ts_files = files, ts_error = Some e\<rparr>)"

fun append_files ::
    "(trust_file list, unit) op list \<Rightarrow> (trust_file list, unit) op" where
  "append_files [] = op_return ()"
| "append_files (m # ms) = op_try m (\<lambda>_. append_files ms)"

definition source_ops :: "ext \<Rightarrow> observation \<Rightarrow> string \<Rightarrow> source_spec list \<Rightarrow> (trust_file list, unit) op list" where
  "source_ops x ob role sources =
    map (\<lambda>s. append_file x ob (ss_path s) role (ss_args s) False SOURCE_LIMIT) sources"

definition legacy_common ::
    "ext \<Rightarrow> (manifest \<Rightarrow> string res) \<Rightarrow> observation \<Rightarrow> project \<Rightarrow> launch_environment \<Rightarrow> (trust_file list, string) op" where
  "legacy_common x js ob p e =
    op_try (op_lift (ob_inspect_shell ob (sc_executable (pr_shell p)) (le_variables e))) (\<lambda>ins.
    op_try (append_file x ob (sc_executable (pr_shell p)) ''shell executable'' [] False SHELL_LIMIT) (\<lambda>_.
    op_try (op_lift (startup_inventory ob (pr_shell p) (env_home e) ins)) (\<lambda>inventory.
    op_try (append_files (map (\<lambda>(q, role). append_file x ob q role [] True SOURCE_LIMIT) inventory)) (\<lambda>_.
    op_ensure (\<not> (sn_kind ins = BsdCsh \<and> list_ex (\<lambda>s. ss_args s \<noteq> []) (sc_sources (pr_shell p))))
      ''BSD csh does not support source arguments; select tcsh or remove them''
    (op_try (op_lift (validate_sources (sc_sources (pr_shell p)))) (\<lambda>_.
     op_try (append_files (source_ops x ob ''common source'' (sc_sources (pr_shell p)))) (\<lambda>_.
     op_try (op_get id) (\<lambda>files.
     op_lift (framed_digest x js ''idk-common-initialization-v2''
       (CommonInitialization STARTUP_POLICY_VERSION (pr_id p) (sc_executable (pr_shell p))
          (sn_kind ins) (sn_canonical ins) (sn_login_first ins) (sc_login (pr_shell p))
          (env_home e) (ok_opt (os_canonicalize (ob_os ob) (env_home e)))
          (sc_init_cwd (pr_shell p))
          (ok_opt (os_canonicalize (ob_os ob) (sc_init_cwd (pr_shell p)))) files))))))))))"

definition common_scope ::
    "ext \<Rightarrow> (manifest \<Rightarrow> string res) \<Rightarrow> observation \<Rightarrow> project \<Rightarrow> launch_environment \<Rightarrow> trust_scope" where
  "common_scope x js ob p e =
    (if sc_native (pr_shell p) \<noteq> None then
       let r = and_then (validate_project x p) (\<lambda>_. framed_digest x js ''idk-native-terminal-v1''
                 (NativeTerminal (sc_executable (pr_shell p)) (sc_native (pr_shell p))));
           review = scope_result None None [] r in
       review\<lparr>ts_trusted := (ts_digest review \<noteq> None)\<rparr>
     else (case legacy_common x js ob p e [] of
       (r, files) \<Rightarrow> scope_result None (sc_trusted_digest (pr_shell p)) files r))"

definition legacy_terminal ::
    "ext \<Rightarrow> (manifest \<Rightarrow> string res) \<Rightarrow> observation \<Rightarrow> project \<Rightarrow> terminal_definition \<Rightarrow>
     launch_environment \<Rightarrow> trust_scope \<Rightarrow> (trust_file list, string) op" where
  "legacy_terminal x js ob p t e common =
    op_try (op_lift (context_opt (ts_digest common) ''common initialization is unavailable'')) (\<lambda>cd.
    op_try (op_lift (validate_sources (td_sources t))) (\<lambda>_.
    op_try (op_lift (if list_ex (\<lambda>s. ss_args s \<noteq> []) (td_sources t)
        then and_then (ob_inspect_shell ob (sc_executable (pr_shell p)) (le_variables e)) (\<lambda>ins.
          ensure (sn_kind ins \<noteq> BsdCsh)
            ''BSD csh does not support source arguments; select tcsh or remove them'' (Inr ()))
        else Inr ())) (\<lambda>_.
    op_try (op_get length) (\<lambda>first_extra.
    op_try (append_files (source_ops x ob ''terminal source'' (td_sources t))) (\<lambda>_.
    op_try (op_get id) (\<lambda>files.
    op_lift (framed_digest x js ''idk-terminal-initialization-v2''
      (TerminalInitialization cd (td_id t) (td_cwd t)
         (ok_opt (os_canonicalize (ob_os ob) (td_cwd t))) (drop first_extra files)))))))))"

definition terminal_scope ::
    "ext \<Rightarrow> (manifest \<Rightarrow> string res) \<Rightarrow> observation \<Rightarrow> project \<Rightarrow> terminal_definition \<Rightarrow>
     launch_environment \<Rightarrow> trust_scope \<Rightarrow> trust_scope" where
  "terminal_scope x js ob p t e common =
    (if sc_native (pr_shell p) \<noteq> None then
       let r = (if td_sources t = []
             then framed_digest x js ''idk-native-terminal-instance-v1''
               (NativeInstance (ts_digest common) (td_id t) (td_cwd t))
             else Inl (Bail ''native terminals do not inject source files''));
           review = scope_result (Some (td_id t)) None [] r in
       review\<lparr>ts_trusted := (ts_trusted common \<and> ts_digest review \<noteq> None)\<rparr>
     else (case legacy_terminal x js ob p t e common (ts_files common) of
       (r, files) \<Rightarrow> scope_result (Some (td_id t)) (td_trusted_digest t) files r))"

definition managed_common_scope ::
    "ext \<Rightarrow> (manifest \<Rightarrow> string res) \<Rightarrow> observation \<Rightarrow> workspace \<Rightarrow> project \<Rightarrow> launch_environment \<Rightarrow> trust_scope" where
  "managed_common_scope x js ob w p e =
    (if sc_native (pr_shell p) \<noteq> None
        \<and> list_ex (\<lambda>b. pb_project_id b = pr_id p \<and> pb_shell_review_required b) (ws_portable w)
     then scope_result None (sc_trusted_digest (pr_shell p)) []
       (and_then (validate_project x p) (\<lambda>_. framed_digest x js ''idk-project-native-startup-v1''
         (ProjectNative (sc_executable (pr_shell p)) (sc_native (pr_shell p)) (sc_init_cwd (pr_shell p)))))
     else common_scope x js ob p e)"

definition managed_terminal_scope ::
    "ext \<Rightarrow> (manifest \<Rightarrow> string res) \<Rightarrow> observation \<Rightarrow> workspace \<Rightarrow> project \<Rightarrow> terminal_definition \<Rightarrow>
     launch_environment \<Rightarrow> trust_scope \<Rightarrow> trust_scope" where
  "managed_terminal_scope x js ob w p t e common =
    (let review = terminal_scope x js ob p t e common in
     if sc_native (pr_shell p) \<noteq> None
        \<and> list_ex (\<lambda>b. pb_project_id b = pr_id p \<and> td_id t \<in> set (pb_terminal_reviews b)) (ws_portable w)
     then review\<lparr>ts_trusted := (ts_trusted common
        \<and> (case ts_digest review of None \<Rightarrow> False | Some d \<Rightarrow> td_trusted_digest t = Some d))\<rparr>
     else review)"

section \<open>Paths as shown to the user\<close>

datatype availability = Ready path | Missing | Denied | NotDirectory | Unavailable error

definition availability_failure :: "error \<Rightarrow> availability" where
  "availability_failure e = (case e of
      NotFound \<Rightarrow> Missing
    | Os m \<Rightarrow> if m \<in> set [''EACCES'', ''EPERM''] then Denied else Unavailable e
    | Bail _ \<Rightarrow> Unavailable e)"

definition path_availability :: "observation \<Rightarrow> path \<Rightarrow> availability" where
  "path_availability ob p = (case os_metadata (ob_os ob) p of
      Inl e \<Rightarrow> availability_failure e
    | Inr m \<Rightarrow> if \<not> fm_is_dir m then NotDirectory else
        (case os_canonicalize (ob_os ob) p of
           Inl e \<Rightarrow> availability_failure e
         | Inr c \<Rightarrow> if nul \<in> set c then Unavailable (Bail ''path contains NUL'') else
             (case ob_access ob c of
                Inl e \<Rightarrow> availability_failure e
              | Inr _ \<Rightarrow> Ready c)))"

definition is_ready :: "availability \<Rightarrow> bool" where
  "is_ready a = (case a of Ready _ \<Rightarrow> True | _ \<Rightarrow> False)"

section \<open>When a scope is trusted\<close>

lemma scope_result_trusted:
  "ts_trusted (scope_result i a f r) = (\<exists>d. r = Inr d \<and> a = Some d)"
  by (auto simp: scope_result_def split: sum.splits)

lemma scope_result_digest: "ts_digest (scope_result i a f r) = ok_opt r"
  by (auto simp: scope_result_def split: sum.splits)

lemma scope_result_id: "ts_terminal_id (scope_result i a f r) = i"
  by (auto simp: scope_result_def split: sum.splits)

lemmas scope_facts = scope_result_trusted scope_result_digest scope_result_id

text \<open>Whether a terminal of the project starts without an explicit review.\<close>

definition shell_reviewed :: "workspace \<Rightarrow> project \<Rightarrow> bool" where
  "shell_reviewed w p = (sc_native (pr_shell p) = None
     \<or> list_ex (\<lambda>b. pb_project_id b = pr_id p \<and> pb_shell_review_required b) (ws_portable w))"

lemma managed_common_trusted:
  "ts_trusted (managed_common_scope x js ob w p e) \<Longrightarrow>
   \<exists>d. ts_digest (managed_common_scope x js ob w p e) = Some d
     \<and> (shell_reviewed w p \<longrightarrow> sc_trusted_digest (pr_shell p) = Some d)"
  by (auto simp: managed_common_scope_def common_scope_def shell_reviewed_def scope_facts Let_def
      split: if_splits prod.splits)

definition terminal_reviewed :: "workspace \<Rightarrow> project \<Rightarrow> terminal_definition \<Rightarrow> bool" where
  "terminal_reviewed w p t = (sc_native (pr_shell p) = None
     \<or> list_ex (\<lambda>b. pb_project_id b = pr_id p \<and> td_id t \<in> set (pb_terminal_reviews b)) (ws_portable w))"

lemma managed_terminal_trusted:
  "ts_trusted (managed_terminal_scope x js ob w p t e common) \<Longrightarrow>
   \<exists>d. ts_digest (managed_terminal_scope x js ob w p t e common) = Some d
     \<and> (terminal_reviewed w p t \<longrightarrow> td_trusted_digest t = Some d)"
  by (auto simp: managed_terminal_scope_def terminal_scope_def terminal_reviewed_def scope_facts
      Let_def split: if_splits prod.splits option.splits)

lemma managed_terminal_id:
  "ts_terminal_id (managed_terminal_scope x js ob w p t e common) = Some (td_id t)"
  by (auto simp: managed_terminal_scope_def terminal_scope_def scope_facts Let_def
      split: prod.splits)

end
