(* ===== verification/Project_Edit.thy ===== *)
theory Project_Edit
  imports Trust_Scope
begin

text \<open>
  The edits of \<open>project.rs\<close> and \<open>task.rs\<close>: each is the closure a service method hands to
  \<open>change\<close>, a function from the loaded workspace to a result and the edited workspace (an edit
  that fails is dropped with its copy).  \<open>edit\<close> collects them as commands, so that what no
  edit may do is stated once for all of them.
\<close>

section \<open>Editing one project\<close>

fun update_first :: "('a \<Rightarrow> bool) \<Rightarrow> ('a \<Rightarrow> 'a) \<Rightarrow> 'a list \<Rightarrow> 'a list" where
  "update_first P f [] = []"
| "update_first P f (x # xs) = (if P x then f x # xs else x # update_first P f xs)"

definition put_project :: "string \<Rightarrow> project \<Rightarrow> workspace \<Rightarrow> workspace" where
  "put_project pid p w = w\<lparr>ws_projects := update_first (\<lambda>q. pr_id q = pid) (\<lambda>_. p) (ws_projects w)\<rparr>"

definition edit_project ::
    "string \<Rightarrow> (project \<Rightarrow> ('a \<times> project) res) \<Rightarrow> workspace \<Rightarrow> ('a \<times> workspace) res" where
  "edit_project pid f w =
    and_then (find_project w pid) (\<lambda>p. and_then (f p) (\<lambda>(v, p'). Inr (v, put_project pid p' w)))"

record definition_impact =
  di_project_id :: string
  di_terminal_ids :: "string list"

definition impact :: "project \<Rightarrow> definition_impact" where
  "impact p = \<lparr>di_project_id = pr_id p, di_terminal_ids = map td_id (pr_terminals p)\<rparr>"

record project_match =
  pm_id :: string
  pm_name :: string
  pm_root :: path

definition duplicate_roots :: "observation \<Rightarrow> workspace \<Rightarrow> path \<Rightarrow> string option \<Rightarrow> project_match list" where
  "duplicate_roots ob w root except =
    (let canonical = ok_opt (os_canonicalize (ob_os ob) root) in
     map (\<lambda>p. \<lparr>pm_id = pr_id p, pm_name = pr_name p, pm_root = pr_root p\<rparr>)
       (filter (\<lambda>p. path_eq (pr_root p) root
            \<or> (case canonical of None \<Rightarrow> False
               | Some c \<Rightarrow> (case ok_opt (os_canonicalize (ob_os ob) (pr_root p)) of
                   None \<Rightarrow> False | Some c' \<Rightarrow> path_eq c' c)))
         (filter (\<lambda>p. Some (pr_id p) \<noteq> except) (ws_projects w))))"

definition select_workspace :: "string \<Rightarrow> workspace \<Rightarrow> workspace" where
  "select_workspace pid w = w\<lparr>ws_selected_project := Some pid,
     ws_recent_projects := pid # filter (\<lambda>i. i \<noteq> pid) (ws_recent_projects w)\<rparr>"

definition validate_terminal :: "ext \<Rightarrow> project \<Rightarrow> terminal_definition \<Rightarrow> unit res" where
  "validate_terminal x p t = validate_project x
     (p\<lparr>pr_terminals := filter (\<lambda>u. td_id u \<noteq> td_id t) (pr_terminals p) @ [t],
        pr_default_terminal := (if \<not> td_persistent t \<and> pr_default_terminal p = Some (td_id t)
          then None else pr_default_terminal p)\<rparr>)"

section \<open>Connecting, selecting, removing\<close>

record terminal_draft =
  dr_name :: string
  dr_cwd :: path
  dr_sources :: "source_spec list"
  dr_persistent :: bool

record connect_draft =
  cd_name :: string
  cd_root :: path
  cd_shell :: shell_config
  cd_terminals :: "terminal_draft list"

record connect_preview =
  cp_revision :: nat
  cp_project :: project
  cp_duplicates :: "project_match list"
  cp_allow_duplicate_root :: bool
  cp_repository_notice :: "error option"

definition discover_binding :: "observation \<Rightarrow> path \<Rightarrow> repository option \<times> error option" where
  "discover_binding ob root = (case ob_discover ob root of
      Inr r \<Rightarrow> (Some r, None) | Inl e \<Rightarrow> (None, Some e))"

text \<open>New identifiers come from \<open>uuid::Uuid::new_v4\<close>, in the order they are drawn.\<close>

definition new_terminal :: "ext \<Rightarrow> project \<Rightarrow> terminal_draft \<Rightarrow> (world, terminal_definition) op" where
  "new_terminal x p d = op_try new_id (\<lambda>i.
     let t = \<lparr>td_id = i, td_name = dr_name d, td_cwd = dr_cwd d, td_sources = dr_sources d,
              td_persistent = dr_persistent d, td_trusted_digest = None\<rparr> in
     op_try (op_lift (validate_terminal x p t)) (\<lambda>_. op_return t))"

fun add_drafts :: "ext \<Rightarrow> terminal_draft list \<Rightarrow> project \<Rightarrow> (world, project) op" where
  "add_drafts x [] p = op_return p"
| "add_drafts x (d # ds) p = op_try (new_terminal x p d) (\<lambda>t.
     op_ensure (td_persistent t) ''transient terminals belong to the session, not connection defaults''
       (add_drafts x ds (p\<lparr>pr_terminals := pr_terminals p @ [t]\<rparr>)))"

definition preview_connect ::
    "ext \<Rightarrow> codec \<Rightarrow> store \<Rightarrow> observation \<Rightarrow> connect_draft \<Rightarrow> (world, connect_preview) op" where
  "preview_connect x c st ob d =
    op_try (store_load x c st) (\<lambda>w.
    op_try (op_lift (absolute_path (cd_root d))) (\<lambda>_.
    op_try (op_lift (valid_name (cd_name d))) (\<lambda>_.
    op_try new_id (\<lambda>i.
    (case discover_binding ob (cd_root d) of (binding, notice) \<Rightarrow>
     let p = \<lparr>pr_id = i, pr_name = cd_name d, pr_root = cd_root d,
           pr_repository = map_option rp_root binding, pr_repository_binding = binding,
           pr_related_repositories = [], pr_default_terminal = None,
           pr_shell = (cd_shell d)\<lparr>sc_trusted_digest := None\<rparr>, pr_terminals = [], pr_tasks = [],
           pr_editor = None\<rparr> in
     op_try (add_drafts x (cd_terminals d) p) (\<lambda>q.
     let r = q\<lparr>pr_default_terminal := (case pr_terminals q of [] \<Rightarrow> None | t # _ \<Rightarrow> Some (td_id t))\<rparr> in
     op_try (op_lift (validate_project x r)) (\<lambda>_.
     op_return \<lparr>cp_revision = ws_revision w, cp_project = r,
       cp_duplicates = duplicate_roots ob w (pr_root r) None,
       cp_allow_duplicate_root = False, cp_repository_notice = notice\<rparr>)))))))"

definition untrusted :: "project \<Rightarrow> project" where
  "untrusted p = p\<lparr>pr_shell := (pr_shell p)\<lparr>sc_trusted_digest := None\<rparr>,
     pr_terminals := map (\<lambda>t. t\<lparr>td_trusted_digest := None\<rparr>) (pr_terminals p)\<rparr>"

definition create_edit ::
    "ext \<Rightarrow> observation \<Rightarrow> nat \<Rightarrow> connect_preview \<Rightarrow> workspace \<Rightarrow> (project \<times> workspace) res" where
  "create_edit x ob expected preview w =
    (let p = untrusted (cp_project preview) in
     ensure (expected = cp_revision preview) ''connection preview is stale''
     (ensure (list_all td_persistent (pr_terminals (cp_project preview)))
       ''transient terminals must stay outside saved project definitions''
     (ensure (\<not> list_ex (\<lambda>q. pr_id q = pr_id p) (ws_projects w)) ''project ID already exists''
     (ensure (cp_allow_duplicate_root preview \<or> duplicate_roots ob w (pr_root p) None = [])
       ''project root is already connected; review keeping a separate definition''
     (and_then (check_opt (ob_verify ob) (pr_repository_binding p)) (\<lambda>_.
      and_then (validate_project x p) (\<lambda>_.
      Inr (p, select_workspace (pr_id p) (w\<lparr>ws_projects := ws_projects w @ [p]\<rparr>)))))))))"

definition select_edit :: "string \<Rightarrow> workspace \<Rightarrow> (unit \<times> workspace) res" where
  "select_edit pid w = and_then (find_project w pid) (\<lambda>_. Inr ((), select_workspace pid w))"

definition rename_edit :: "string \<Rightarrow> string \<Rightarrow> workspace \<Rightarrow> (definition_impact \<times> workspace) res" where
  "rename_edit pid name w =
    and_then (valid_name name) (\<lambda>_.
    edit_project pid (\<lambda>p. Inr (impact p, p\<lparr>pr_name := name\<rparr>)) w)"

definition remove_definition_edit :: "string \<Rightarrow> workspace \<Rightarrow> (definition_impact \<times> workspace) res" where
  "remove_definition_edit pid w =
    and_then (find_project w pid) (\<lambda>p.
    let recent = filter (\<lambda>i. i \<noteq> pid) (ws_recent_projects w) in
    Inr (impact p, w\<lparr>ws_projects := filter (\<lambda>q. pr_id q \<noteq> pid) (ws_projects w),
      ws_portable := filter (\<lambda>b. pb_project_id b \<noteq> pid) (ws_portable w),
      ws_recent_projects := recent,
      ws_selected_project := (if ws_selected_project w = Some pid
        then (case recent of [] \<Rightarrow> None | i # _ \<Rightarrow> Some i) else ws_selected_project w)\<rparr>))"

section \<open>Shell and terminals\<close>

definition source_eq :: "source_spec \<Rightarrow> source_spec \<Rightarrow> bool" where
  "source_eq s t = (path_eq (ss_path s) (ss_path t) \<and> ss_args s = ss_args t)"

definition sources_eq :: "source_spec list \<Rightarrow> source_spec list \<Rightarrow> bool" where
  "sources_eq = list_all2 source_eq"

definition same_shell :: "shell_config \<Rightarrow> shell_config \<Rightarrow> bool" where
  "same_shell s t = (sc_native s = sc_native t \<and> path_eq (sc_executable s) (sc_executable t)
     \<and> sc_login s = sc_login t \<and> path_eq (sc_init_cwd s) (sc_init_cwd t)
     \<and> sources_eq (sc_sources s) (sc_sources t))"

definition update_shell_edit ::
    "ext \<Rightarrow> string \<Rightarrow> shell_config \<Rightarrow> workspace \<Rightarrow> (definition_impact \<times> workspace) res" where
  "update_shell_edit x pid sh = edit_project pid (\<lambda>p.
     let p' = (if same_shell sh (pr_shell p)
         then p\<lparr>pr_shell := sh\<lparr>sc_trusted_digest := sc_trusted_digest (pr_shell p)\<rparr>\<rparr>
         else p\<lparr>pr_shell := sh\<lparr>sc_trusted_digest := None\<rparr>,
                pr_terminals := map (\<lambda>t. t\<lparr>td_trusted_digest := None\<rparr>) (pr_terminals p)\<rparr>) in
     and_then (validate_project x p') (\<lambda>_. Inr (impact p', p')))"

definition same_terminal :: "terminal_definition \<Rightarrow> terminal_definition \<Rightarrow> bool" where
  "same_terminal t u = (path_eq (td_cwd t) (td_cwd u) \<and> sources_eq (td_sources t) (td_sources u))"

definition save_terminal_in :: "terminal_definition \<Rightarrow> project \<Rightarrow> project" where
  "save_terminal_in t p =
    (let p' = (case find (\<lambda>u. td_id u = td_id t) (pr_terminals p) of
           Some u \<Rightarrow> p\<lparr>pr_terminals := update_first (\<lambda>u. td_id u = td_id t)
             (\<lambda>_. t\<lparr>td_trusted_digest := (if same_terminal u t then td_trusted_digest u else None)\<rparr>)
             (pr_terminals p)\<rparr>
         | None \<Rightarrow> p\<lparr>pr_terminals := pr_terminals p @ [t\<lparr>td_trusted_digest := None\<rparr>]\<rparr>) in
     if pr_default_terminal p' = None then p'\<lparr>pr_default_terminal := Some (td_id t)\<rparr> else p')"

definition save_terminal_edit ::
    "ext \<Rightarrow> string \<Rightarrow> terminal_definition \<Rightarrow> workspace \<Rightarrow> (definition_impact \<times> workspace) res" where
  "save_terminal_edit x pid t = edit_project pid (\<lambda>p.
     and_then (validate_terminal x p t) (\<lambda>_.
     let p' = save_terminal_in t p in
     and_then (validate_project x p') (\<lambda>_.
     Inr (\<lparr>di_project_id = pid, di_terminal_ids = [td_id t]\<rparr>, p'))))"

definition reorder_terminals_edit :: "string \<Rightarrow> string list \<Rightarrow> workspace \<Rightarrow> (unit \<times> workspace) res" where
  "reorder_terminals_edit pid ids = edit_project pid (\<lambda>p.
     ensure (length ids = length (pr_terminals p) \<and> distinct ids
       \<and> list_all (\<lambda>i. list_ex (\<lambda>t. td_id t = i) (pr_terminals p)) ids)
       ''terminal order must contain every terminal ID exactly once''
     (Inr ((), p\<lparr>pr_terminals := map (\<lambda>i. the (find (\<lambda>t. td_id t = i) (pr_terminals p))) ids\<rparr>)))"

definition set_default_edit :: "string \<Rightarrow> string \<Rightarrow> workspace \<Rightarrow> (unit \<times> workspace) res" where
  "set_default_edit pid tid = edit_project pid (\<lambda>p.
     ensure (list_ex (\<lambda>t. td_id t = tid \<and> td_persistent t) (pr_terminals p))
       ''default terminal must be persistent''
     (Inr ((), p\<lparr>pr_default_terminal := Some tid\<rparr>)))"

definition remove_terminal_edit ::
    "string \<Rightarrow> string \<Rightarrow> workspace \<Rightarrow> (definition_impact \<times> workspace) res" where
  "remove_terminal_edit pid tid = edit_project pid (\<lambda>p.
     ensure (list_ex (\<lambda>t. td_id t = tid) (pr_terminals p)) ''terminal definition not found''
     (let rest = filter (\<lambda>t. td_id t \<noteq> tid) (pr_terminals p) in
      Inr (\<lparr>di_project_id = pid, di_terminal_ids = [tid]\<rparr>,
        p\<lparr>pr_terminals := rest,
          pr_default_terminal := (if pr_default_terminal p = Some tid
            then map_option td_id (find td_persistent rest) else pr_default_terminal p)\<rparr>)))"

section \<open>Repositories\<close>

definition same_git :: "repository \<Rightarrow> repository \<Rightarrow> bool" where
  "same_git r s = path_eq (rp_git_dir r) (rp_git_dir s)"

definition bind_primary :: "repository \<Rightarrow> project \<Rightarrow> project" where
  "bind_primary r p =
    (let related = (case pr_repository_binding p of
         Some prev \<Rightarrow> if \<not> same_git prev r \<and> \<not> list_ex (\<lambda>q. same_git q prev) (pr_related_repositories p)
           then pr_related_repositories p @ [prev] else pr_related_repositories p
       | None \<Rightarrow> pr_related_repositories p) in
     p\<lparr>pr_related_repositories := filter (\<lambda>q. \<not> same_git q r) related,
       pr_repository := Some (rp_root r), pr_repository_binding := Some r\<rparr>)"

definition bind_related :: "repository \<Rightarrow> project \<Rightarrow> project" where
  "bind_related r p =
    (if (case pr_repository_binding p of None \<Rightarrow> True | Some b \<Rightarrow> \<not> same_git b r)
        \<and> \<not> list_ex (\<lambda>q. same_git q r) (pr_related_repositories p)
     then p\<lparr>pr_related_repositories := pr_related_repositories p @ [r]\<rparr> else p)"

definition bind_repository_edit ::
    "observation \<Rightarrow> string \<Rightarrow> path \<Rightarrow> bool \<Rightarrow> workspace \<Rightarrow> (repository \<times> workspace) res" where
  "bind_repository_edit ob pid root primary w =
    and_then (absolute_path root) (\<lambda>_.
    and_then (ob_discover ob root) (\<lambda>r.
    and_then (ob_verify ob r) (\<lambda>_.
    edit_project pid (\<lambda>p. Inr (r, if primary then bind_primary r p else bind_related r p)) w)))"

definition clear_primary_edit :: "string \<Rightarrow> workspace \<Rightarrow> (definition_impact \<times> workspace) res" where
  "clear_primary_edit pid = edit_project pid (\<lambda>p.
     Inr (impact p, p\<lparr>pr_repository := None, pr_repository_binding := None\<rparr>))"

section \<open>Tasks\<close>

definition save_task_edit ::
    "ext \<Rightarrow> string \<Rightarrow> task_definition \<Rightarrow> workspace \<Rightarrow> (task_definition \<times> workspace) res" where
  "save_task_edit x pid t w =
    and_then (edit_project pid (\<lambda>p.
      ensure (ta_execution t \<noteq> None \<or> sc_native (pr_shell p) = None)
        ''legacy csh tasks require a legacy csh project; use --program or --interpreter for a native project''
      (let t' = t\<lparr>ta_approved_digest := None\<rparr> in
       if list_ex (\<lambda>u. ta_id u = ta_id t) (pr_tasks p)
       then Inr (t', p\<lparr>pr_tasks := update_first (\<lambda>u. ta_id u = ta_id t) (\<lambda>_. t') (pr_tasks p)\<rparr>)
       else ensure (length (pr_tasks p) < 128) ''task limit reached''
         (Inr (t', p\<lparr>pr_tasks := pr_tasks p @ [t']\<rparr>)))) w) (\<lambda>(v, w').
    and_then (validate_workspace x w') (\<lambda>_. Inr (v, w')))"

end
