(* ===== verification/Rebind.thy ===== *)
theory Rebind
  imports Project_Edit
begin

text \<open>
  Reconnecting a moved project root (\<open>project.rs\<close>: \<open>remap_path\<close>, \<open>rebind_preview\<close> and the
  closure of \<open>rebind_root\<close>).  Every path of the project below the old root moves to the new
  root with the same relative suffix; all trust is dropped.
\<close>

section \<open>Stripping and joining a prefix\<close>

definition trivial_seg :: "string \<Rightarrow> bool" where
  "trivial_seg s = (s = [] \<or> s = ''.'')"

fun skip_real :: "nat \<Rightarrow> string list \<Rightarrow> string list" where
  "skip_real n [] = []"
| "skip_real n (s # ss) =
    (if n = 0 then s # ss else if trivial_seg s then skip_real n ss else skip_real (n - 1) ss)"

definition trim_segs :: "string list \<Rightarrow> string list" where
  "trim_segs ss = rev (dropWhile trivial_seg (rev (dropWhile trivial_seg ss)))"

fun join_segs :: "string list \<Rightarrow> string" where
  "join_segs [] = []"
| "join_segs [s] = s"
| "join_segs (s # ss) = s @ ''/'' @ join_segs ss"

text \<open>
  \<open>Path::strip_prefix\<close>: the remaining bytes after the prefix, without surrounding separators.
\<close>

definition strip_prefix :: "path \<Rightarrow> path \<Rightarrow> path option" where
  "strip_prefix p old =
    (if starts_with p old
     then Some (join_segs (trim_segs
       (skip_real (length (filter (\<lambda>c. c \<noteq> RootDir) (components old))) (split_on (CHR ''/'') p))))
     else None)"

record path_change =
  pc_field :: string
  pc_old :: path
  pc_new :: path

definition remap_path :: "path \<Rightarrow> path \<Rightarrow> string \<Rightarrow> path \<Rightarrow> path \<times> path_change list" where
  "remap_path old new field p = (case strip_prefix p old of
      None \<Rightarrow> (p, [])
    | Some suf \<Rightarrow> let q = join_path new suf in
        if path_eq q p then (p, []) else (q, [\<lparr>pc_field = field, pc_old = p, pc_new = q\<rparr>]))"

section \<open>What the moved path is\<close>

lemma real_segs: "filter (\<lambda>s. s \<noteq> [] \<and> s \<noteq> ''.'') = filter (\<lambda>s. \<not> trivial_seg s)"
  by (simp add: trivial_seg_def)

lemma filter_skip_real:
  "filter (\<lambda>s. \<not> trivial_seg s) (skip_real n ss) = drop n (filter (\<lambda>s. \<not> trivial_seg s) ss)"
  by (induction n ss rule: skip_real.induct) (auto simp: drop_Cons')

lemma filter_dropWhile: "filter (\<lambda>s. \<not> P s) (dropWhile P ss) = filter (\<lambda>s. \<not> P s) ss"
  by (induction ss) auto

lemma filter_trim_segs:
  "filter (\<lambda>s. \<not> trivial_seg s) (trim_segs ss) = filter (\<lambda>s. \<not> trivial_seg s) ss"
  by (simp add: trim_segs_def rev_filter [symmetric] filter_dropWhile)

lemma split_on_no_sep: "s \<in> set (split_on c p) \<Longrightarrow> c \<notin> set s"
  by (induction p arbitrary: s) (auto split: if_splits list.splits)

lemma set_skip_real: "set (skip_real n ss) \<subseteq> set ss"
  by (induction n ss rule: skip_real.induct) auto

lemma set_trim_segs: "set (trim_segs ss) \<subseteq> set ss"
  by (auto simp: trim_segs_def dest!: set_dropWhileD)

lemma split_join_segs:
  "ss \<noteq> [] \<Longrightarrow> \<forall>s\<in>set ss. CHR ''/'' \<notin> set s \<Longrightarrow> split_on (CHR ''/'') (join_segs ss) = ss"
proof (induction ss rule: join_segs.induct)
  case (3 s t ss)
  then show ?case
    using split_on_sep [of "CHR ''/''" s "join_segs (t # ss)"] by (simp add: split_on_plain)
qed (simp_all add: split_on_plain)

lemma real_split_join:
  assumes "\<forall>s\<in>set ss. CHR ''/'' \<notin> set s"
  shows "filter (\<lambda>s. \<not> trivial_seg s) (split_on (CHR ''/'') (join_segs ss))
    = filter (\<lambda>s. \<not> trivial_seg s) ss"
proof (cases "ss = []")
  case True
  then show ?thesis by (simp add: trivial_seg_def)
next
  case False
  with assms show ?thesis by (simp add: split_join_segs)
qed

lemma hd_trim_segs: "trim_segs ss \<noteq> [] \<Longrightarrow> \<not> trivial_seg (hd (trim_segs ss))"
proof -
  let ?ts = "dropWhile trivial_seg ss"
  assume "trim_segs ss \<noteq> []"
  then have ts: "?ts \<noteq> []" unfolding trim_segs_def by force
  then have h: "\<not> trivial_seg (hd ?ts)" by (rule hd_dropWhile)
  have "rev ?ts = rev (tl ?ts) @ [hd ?ts]" using ts by (metis hd_Cons_tl rev.simps(2))
  then have "rev (dropWhile trivial_seg (rev ?ts)) = hd ?ts # rev (dropWhile trivial_seg (rev (tl ?ts)))"
    using h by (simp add: dropWhile_append3)
  then show "\<not> trivial_seg (hd (trim_segs ss))" using h by (simp add: trim_segs_def)
qed

lemma join_segs_relative:
  assumes "\<forall>s\<in>set ss. CHR ''/'' \<notin> set s" "ss \<noteq> [] \<Longrightarrow> \<not> trivial_seg (hd ss)"
  shows "\<not> is_absolute (join_segs ss)"
  using assms
proof (cases ss)
  case (Cons s ss')
  with assms have "CHR ''/'' \<notin> set s" "s \<noteq> []" by (auto simp: trivial_seg_def)
  then obtain c s' where "s = c # s'" "c \<noteq> CHR ''/''" by (cases s) auto
  moreover have "\<exists>t. join_segs ss = s @ t" unfolding Cons by (cases ss') auto
  ultimately show ?thesis by (auto simp: is_absolute_def)
qed (simp add: is_absolute_def)

lemma components_absolute:
  assumes "is_absolute p"
  shows "components p
     = RootDir # map component_of (filter (\<lambda>s. \<not> trivial_seg s) (split_on (CHR ''/'') p))"
  unfolding components_def real_segs Let_def using assms by (simp only: if_True)

lemma components_join_relative:
  assumes d: "is_absolute d" and s: "\<not> is_absolute s"
  shows "components (join_path d s) = components d
     @ map component_of (filter (\<lambda>s. \<not> trivial_seg s) (split_on (CHR ''/'') s))"
proof -
  have dn: "d \<noteq> []" using d by (auto simp: is_absolute_def)
  show ?thesis
  proof (cases "last d = CHR ''/''")
    case True
    with dn obtain d' where d': "d = d' @ ''/''" by (metis append_butlast_last_id)
    have "components (d @ s) = RootDir # map component_of (filter (\<lambda>s. \<not> trivial_seg s)
        (split_on (CHR ''/'') d' @ split_on (CHR ''/'') s))"
      using components_absolute [OF is_absolute_append [OF d, of s]] split_on_sep [of "CHR ''/''" d' s] d'
      by simp
    moreover have "components d = RootDir # map component_of (filter (\<lambda>s. \<not> trivial_seg s)
        (split_on (CHR ''/'') d'))"
      using d components_absolute [of d] split_on_sep [of "CHR ''/''" d' "[]"] d'
      by (simp add: trivial_seg_def)
    ultimately show ?thesis using True s dn by (simp add: join_path_def)
  next
    case False
    have "components (d @ ''/'' @ s) = RootDir # map component_of (filter (\<lambda>s. \<not> trivial_seg s)
        (split_on (CHR ''/'') d @ split_on (CHR ''/'') s))"
      using components_absolute [OF is_absolute_append [OF d, of "''/'' @ s"]]
        split_on_sep [of "CHR ''/''" d s] by simp
    with False s dn components_absolute [OF d] show ?thesis by (simp add: join_path_def)
  qed
qed

text \<open>The suffix below the old root is kept, component by component.\<close>

lemma strip_join_components:
  assumes "strip_prefix p old = Some suf" "is_absolute p" "is_absolute old" "is_absolute new"
  shows "components (join_path new suf) = components new @ drop (length (components old)) (components p)"
proof -
  let ?real = "filter (\<lambda>s. \<not> trivial_seg s)"
  define n where "n = length (filter (\<lambda>c. c \<noteq> RootDir) (components old))"
  define ss where "ss = trim_segs (skip_real n (split_on (CHR ''/'') p))"
  from assms(1) have suf: "suf = join_segs ss"
    by (simp add: strip_prefix_def ss_def n_def split: if_splits)
  have plain: "\<forall>s\<in>set ss. CHR ''/'' \<notin> set s"
    unfolding ss_def using set_trim_segs set_skip_real split_on_no_sep by (metis subsetD)
  have rel: "\<not> is_absolute suf"
    unfolding suf by (rule join_segs_relative [OF plain]) (simp add: ss_def hd_trim_segs)
  have "filter (\<lambda>c. c \<noteq> RootDir) (map component_of xs) = map component_of xs" for xs
    by (induction xs) (auto simp: component_of_def)
  then have n: "length (components old) = Suc n"
    unfolding n_def components_absolute [OF assms(3)] by simp
  have "?real (split_on (CHR ''/'') suf) = drop n (?real (split_on (CHR ''/'') p))"
    unfolding suf real_split_join [OF plain] by (simp add: ss_def filter_trim_segs filter_skip_real)
  then have "components (join_path new suf)
      = components new @ map component_of (drop n (?real (split_on (CHR ''/'') p)))"
    using components_join_relative [OF assms(4) rel] by simp
  also have "\<dots> = components new @ drop (length (components old)) (components p)"
    unfolding n components_absolute [OF assms(2)] by (simp add: drop_map)
  finally show ?thesis .
qed

section \<open>The preview\<close>

definition remap_source :: "path \<Rightarrow> path \<Rightarrow> string \<Rightarrow> nat \<times> source_spec \<Rightarrow> source_spec \<times> path_change list" where
  "remap_source old new label is = (case is of (i, s) \<Rightarrow>
     (case remap_path old new (label @ string_of_nat (i + 1)) (ss_path s) of
        (q, cs) \<Rightarrow> (s\<lparr>ss_path := q\<rparr>, cs)))"

text \<open>A \<open>for\<close> loop over \<open>iter_mut\<close> that also collects changes.\<close>

definition remap_each :: "('a \<Rightarrow> 'b \<times> path_change list) \<Rightarrow> 'a list \<Rightarrow> 'b list \<times> path_change list" where
  "remap_each f xs = (map (fst \<circ> f) xs, concat (map (snd \<circ> f) xs))"

definition remap_sources :: "path \<Rightarrow> path \<Rightarrow> string \<Rightarrow> source_spec list \<Rightarrow> source_spec list \<times> path_change list" where
  "remap_sources old new label ss = remap_each (remap_source old new label) (enumerate 0 ss)"

definition remap_terminal :: "path \<Rightarrow> path \<Rightarrow> terminal_definition \<Rightarrow> terminal_definition \<times> path_change list" where
  "remap_terminal old new t =
    (case remap_path old new (td_name t @ '' start cwd'') (td_cwd t) of (cwd, c1) \<Rightarrow>
     case remap_sources old new (td_name t @ '' source '') (td_sources t) of (ss, c2) \<Rightarrow>
     (t\<lparr>td_cwd := cwd, td_sources := ss, td_trusted_digest := None\<rparr>, c1 @ c2))"

definition remap_output :: "path \<Rightarrow> path \<Rightarrow> string \<Rightarrow> nat \<times> path \<Rightarrow> path \<times> path_change list" where
  "remap_output old new name ip = (case ip of (i, p) \<Rightarrow>
     remap_path old new (name @ '' build output '' @ string_of_nat (i + 1)) p)"

definition remap_task :: "path \<Rightarrow> path \<Rightarrow> task_definition \<Rightarrow> task_definition \<times> path_change list" where
  "remap_task old new t =
    (case remap_path old new (ta_name t @ '' task cwd'') (ta_cwd t) of (cwd, c1) \<Rightarrow>
     case remap_sources old new (ta_name t @ '' task source '') (ta_sources t) of (ss, c2) \<Rightarrow>
     case (case ta_artifact t of None \<Rightarrow> (None, [])
           | Some a \<Rightarrow> (case remap_path old new (ta_name t @ '' artifact'') a of
               (q, cs) \<Rightarrow> (Some q, cs))) of (artifact, c3) \<Rightarrow>
     case remap_each (remap_output old new (ta_name t)) (enumerate 0 (ta_build_outputs t)) of (outs, c4) \<Rightarrow>
     (t\<lparr>ta_cwd := cwd, ta_sources := ss, ta_artifact := artifact, ta_build_outputs := outs,
        ta_approved_digest := None\<rparr>, c1 @ c2 @ c3 @ c4))"

definition remap_shell :: "path \<Rightarrow> path \<Rightarrow> shell_config \<Rightarrow> shell_config \<times> path_change list" where
  "remap_shell old new sh =
    (case remap_path old new ''initialization cwd'' (sc_init_cwd sh) of (cwd, c1) \<Rightarrow>
     case remap_path old new ''shell executable'' (sc_executable sh) of (exe, c2) \<Rightarrow>
     case remap_sources old new ''common source '' (sc_sources sh) of (ss, c3) \<Rightarrow>
     (sh\<lparr>sc_init_cwd := cwd, sc_executable := exe, sc_sources := ss, sc_trusted_digest := None\<rparr>,
      c1 @ c2 @ c3))"

definition remap_related ::
    "observation \<Rightarrow> path \<Rightarrow> path \<Rightarrow> repository \<Rightarrow> repository \<times> path_change list \<times> error option" where
  "remap_related ob old new r = (case strip_prefix (rp_root r) old of
      None \<Rightarrow> (r, [], None)
    | Some suf \<Rightarrow> let q = join_path new suf in
        if path_eq q (rp_root r) then (r, [], None) else
        (case ob_discover ob q of
           Inr observed \<Rightarrow> (observed, [\<lparr>pc_field = ''related repository'', pc_old = rp_root r, pc_new = q\<rparr>], None)
         | Inl e \<Rightarrow> (r, [\<lparr>pc_field = ''related repository'', pc_old = rp_root r, pc_new = q\<rparr>], Some e)))"

definition remap_primary ::
    "observation \<Rightarrow> path \<Rightarrow> path \<Rightarrow> path option \<Rightarrow> repository option \<Rightarrow>
     path option \<times> repository option \<times> path_change list \<times> error option" where
  "remap_primary ob old new repo binding = (case repo of
      None \<Rightarrow> (None, binding, [], None)
    | Some p \<Rightarrow> (case remap_path old new ''primary repository'' p of (q, cs) \<Rightarrow>
        if path_eq p q then (Some q, binding, cs, None)
        else (case discover_binding ob q of (b, notice) \<Rightarrow> (Some q, b, cs, notice))))"

text \<open>The last notice of the loop wins, a later failure overwriting an earlier one.\<close>

fun last_some :: "'a option \<Rightarrow> 'a option list \<Rightarrow> 'a option" where
  "last_some n [] = n"
| "last_some n (m # ms) = last_some (if m = None then n else m) ms"

record root_rebind =
  rb_revision :: nat
  rb_project_id :: string
  rb_old_root :: path
  rb_new_root :: path
  rb_project :: project
  rb_changes :: "path_change list"
  rb_repository_notice :: "error option"

definition remap_project ::
    "observation \<Rightarrow> path \<Rightarrow> path \<Rightarrow> project \<Rightarrow> project \<times> path_change list \<times> error option" where
  "remap_project ob old new p =
    (case remap_path old new ''project root'' (pr_root p) of (root, c1) \<Rightarrow>
     case remap_shell old new (pr_shell p) of (sh, c2) \<Rightarrow>
     case remap_each (remap_terminal old new) (pr_terminals p) of (ts, c3) \<Rightarrow>
     case remap_each (remap_task old new) (pr_tasks p) of (tasks, c4) \<Rightarrow>
     case remap_primary ob old new (pr_repository p) (pr_repository_binding p) of (repo, binding, c5, n) \<Rightarrow>
     (let rel = map (remap_related ob old new) (pr_related_repositories p) in
     (p\<lparr>pr_root := root, pr_shell := sh, pr_terminals := ts, pr_tasks := tasks,
        pr_repository := repo, pr_repository_binding := binding,
        pr_related_repositories := map fst rel\<rparr>,
      c1 @ c2 @ c3 @ c4 @ c5 @ concat (map (fst \<circ> snd) rel),
      last_some n (map (snd \<circ> snd) rel))))"

definition rebind_preview ::
    "ext \<Rightarrow> observation \<Rightarrow> workspace \<Rightarrow> string \<Rightarrow> path \<Rightarrow> root_rebind res" where
  "rebind_preview x ob w pid root =
    and_then (absolute_path root) (\<lambda>_.
    and_then (find_project w pid) (\<lambda>p.
    case remap_project ob (pr_root p) root p of (q, changes, notice) \<Rightarrow>
    and_then (validate_project x q) (\<lambda>_.
    Inr \<lparr>rb_revision = ws_revision w, rb_project_id = pid, rb_old_root = pr_root p,
         rb_new_root = root, rb_project = q, rb_changes = changes,
         rb_repository_notice = notice\<rparr>)))"

section \<open>Applying it\<close>

text \<open>
  Derived equality of \<open>Project\<close> compares its paths by components; \<open>norm_path\<close> writes the
  components out canonically, so that normalised projects are equal exactly then.
\<close>

definition component_text :: "component \<Rightarrow> string" where
  "component_text c = (case c of RootDir \<Rightarrow> [] | CurDir \<Rightarrow> ''.'' | ParentDir \<Rightarrow> ''..'' | Normal s \<Rightarrow> s)"

definition norm_path :: "path \<Rightarrow> path" where
  "norm_path p = (if components p = [RootDir] then ''/'' else join_segs (map component_text (components p)))"

definition norm_sources :: "source_spec list \<Rightarrow> source_spec list" where
  "norm_sources = map (\<lambda>s. s\<lparr>ss_path := norm_path (ss_path s)\<rparr>)"

definition norm_repository :: "repository \<Rightarrow> repository" where
  "norm_repository r = \<lparr>rp_root = norm_path (rp_root r), rp_git_dir = norm_path (rp_git_dir r),
     rp_common_dir = norm_path (rp_common_dir r)\<rparr>"

definition norm_execution :: "task_execution \<Rightarrow> task_execution" where
  "norm_execution e = (case e of
      Process program args env \<Rightarrow> Process (norm_path program) args env
    | Script interp args script env \<Rightarrow> Script (norm_path interp) args script env)"

definition norm_task :: "task_definition \<Rightarrow> task_definition" where
  "norm_task t = t\<lparr>ta_execution := map_option norm_execution (ta_execution t),
     ta_cwd := norm_path (ta_cwd t), ta_sources := norm_sources (ta_sources t),
     ta_artifact := map_option norm_path (ta_artifact t),
     ta_build_outputs := map norm_path (ta_build_outputs t)\<rparr>"

definition norm_project :: "project \<Rightarrow> project" where
  "norm_project p = p\<lparr>pr_root := norm_path (pr_root p),
     pr_repository := map_option norm_path (pr_repository p),
     pr_repository_binding := map_option norm_repository (pr_repository_binding p),
     pr_related_repositories := map norm_repository (pr_related_repositories p),
     pr_shell := (pr_shell p)\<lparr>sc_executable := norm_path (sc_executable (pr_shell p)),
       sc_init_cwd := norm_path (sc_init_cwd (pr_shell p)),
       sc_sources := norm_sources (sc_sources (pr_shell p))\<rparr>,
     pr_terminals := map (\<lambda>t. t\<lparr>td_cwd := norm_path (td_cwd t),
       td_sources := norm_sources (td_sources t)\<rparr>) (pr_terminals p),
     pr_tasks := map norm_task (pr_tasks p),
     pr_editor := map_option (\<lambda>e. e\<lparr>ed_executable := norm_path (ed_executable e)\<rparr>) (pr_editor p)\<rparr>"

definition project_eq :: "project \<Rightarrow> project \<Rightarrow> bool" where
  "project_eq p q = (norm_project p = norm_project q)"

definition check_binding :: "ext \<Rightarrow> observation \<Rightarrow> portable_binding \<Rightarrow> unit res" where
  "check_binding x ob b =
    and_then (ob_declaration ob (pb_path b)) (\<lambda>d.
    and_then (context_opt d ''managed idk.toml was removed; restore/sync before reviewing or executing'') (\<lambda>current.
    ensure (sha256_hex x current = pb_digest b)
      ''idk.toml changed externally; sync and review the current resolved definition before executing''
      (Inr ())))"

definition ensure_workspace_current :: "ext \<Rightarrow> observation \<Rightarrow> workspace \<Rightarrow> string \<Rightarrow> unit res" where
  "ensure_workspace_current x ob w pid =
    check_opt (check_binding x ob) (find (\<lambda>b. pb_project_id b = pid) (ws_portable w))"

text \<open>A managed project's resolved baseline is moved like the project itself.\<close>

definition rebind_portable ::
    "ext \<Rightarrow> observation \<Rightarrow> workspace \<Rightarrow> string \<Rightarrow> path \<Rightarrow> portable_binding \<Rightarrow> portable_binding res" where
  "rebind_portable x ob w pid root b =
    and_then (find_project w pid) (\<lambda>_.
    and_then (rebind_preview x ob ((put_project pid (pb_resolved b) w)\<lparr>ws_portable := []\<rparr>) pid root) (\<lambda>r.
    Inr (b\<lparr>pb_path := join_path root DECLARATION, pb_resolved := rb_project r\<rparr>)))"

definition rebind_edit ::
    "ext \<Rightarrow> observation \<Rightarrow> nat \<Rightarrow> root_rebind \<Rightarrow> workspace \<Rightarrow> (definition_impact \<times> workspace) res" where
  "rebind_edit x ob expected preview w =
    (let pid = rb_project_id preview; root = rb_new_root preview in
     ensure (expected = rb_revision preview) ''root reconnection preview is stale''
     (and_then (find_project w pid) (\<lambda>p.
     ensure (path_eq (pr_root p) (rb_old_root preview)) ''project root changed; review again''
     (and_then (rebind_preview x ob w pid root) (\<lambda>fresh.
     ensure (project_eq (rb_project fresh) (rb_project preview))
       ''root reconnection inputs changed; review again''
     (and_then (case find (\<lambda>b. pb_project_id b = pid) (ws_portable w) of
         None \<Rightarrow> Inr None
       | Some b \<Rightarrow> and_then (rebind_portable x ob w pid root b) (\<lambda>b'. Inr (Some b'))) (\<lambda>moved.
     let w1 = put_project pid (rb_project fresh) w in
     case moved of
       None \<Rightarrow> Inr (impact (rb_project fresh), w1)
     | Some b' \<Rightarrow>
         (let w2 = w1\<lparr>ws_portable := update_first (\<lambda>b. pb_project_id b = pid) (\<lambda>_. b') (ws_portable w)\<rparr> in
          and_then (ensure_workspace_current x ob w2 pid) (\<lambda>_.
          Inr (impact (rb_project fresh), w2))))))))))"

end
