(* ===== verification/Project_Service.thy ===== *)
theory Project_Service
  imports Rebind
begin

text \<open>
  The services over the store (\<open>project.rs\<close>: reviews, approvals, launch plans and \<open>change\<close>;
  \<open>task.rs\<close>: \<open>TaskService\<close>).  An operation works on the filesystem \<open>world\<close>; what it observes
  of shells, scripts and Git is an \<open>observation\<close>.
\<close>

section \<open>Reviews\<close>

type_synonym json = "manifest \<Rightarrow> string res"

record initialization_review =
  ir_revision :: nat
  ir_project_id :: string
  ir_home :: path
  ir_common :: trust_scope
  ir_terminals :: "trust_scope list"
  ir_environment :: launch_environment

definition review_project ::
    "ext \<Rightarrow> json \<Rightarrow> observation \<Rightarrow> workspace \<Rightarrow> string \<Rightarrow> launch_environment \<Rightarrow> initialization_review res" where
  "review_project x js ob w pid e =
    and_then (ensure_workspace_current x ob w pid) (\<lambda>_.
    and_then (find_project w pid) (\<lambda>p.
    let common = managed_common_scope x js ob w p e in
    Inr \<lparr>ir_revision = ws_revision w, ir_project_id = pid, ir_home = env_home e, ir_common = common,
      ir_terminals = map (\<lambda>t. managed_terminal_scope x js ob w p t e common) (pr_terminals p),
      ir_environment = e\<rparr>))"

definition approve_scope ::
    "initialization_review \<Rightarrow> project \<times> bool \<Rightarrow> trust_scope \<Rightarrow> (project \<times> bool) res" where
  "approve_scope fresh acc scope = (case acc of (p, approved) \<Rightarrow>
    and_then (context_opt (ts_terminal_id scope) ''terminal trust scope is missing its ID'') (\<lambda>i.
    and_then (context_opt (find (\<lambda>s. ts_terminal_id s = Some i) (ir_terminals fresh))
      ''terminal changed during review'') (\<lambda>observed.
    ensure (ts_digest observed = ts_digest scope) ''terminal initialization changed during review''
    (case ts_digest scope of
       None \<Rightarrow> Inr (p, approved)
     | Some d \<Rightarrow> ensure (list_ex (\<lambda>t. td_id t = i) (pr_terminals p)) ''terminal no longer registered''
         (Inr (p\<lparr>pr_terminals := update_first (\<lambda>t. td_id t = i)
            (\<lambda>t. t\<lparr>td_trusted_digest := Some d\<rparr>) (pr_terminals p)\<rparr>, True))))))"

definition approve_initialization_edit ::
    "ext \<Rightarrow> json \<Rightarrow> observation \<Rightarrow> nat \<Rightarrow> initialization_review \<Rightarrow> workspace \<Rightarrow> (unit \<times> workspace) res" where
  "approve_initialization_edit x js ob expected review w =
    ensure (expected = ir_revision review) ''initialization review is stale''
    (and_then (review_project x js ob w (ir_project_id review) (ir_environment review)) (\<lambda>fresh.
     ensure (ts_digest (ir_common fresh) = ts_digest (ir_common review))
       ''common initialization changed during review''
     (edit_project (ir_project_id review) (\<lambda>p.
       let start = (case ts_digest (ir_common review) of
           None \<Rightarrow> (p, False)
         | Some d \<Rightarrow> (p\<lparr>pr_shell := (pr_shell p)\<lparr>sc_trusted_digest := Some d\<rparr>\<rparr>, True)) in
       and_then (fold_res (approve_scope fresh) start (ir_terminals review)) (\<lambda>(p', approved).
       ensure approved ''no readable initialization scope can be approved'' (Inr ((), p')))) w)))"

section \<open>Changing the workspace\<close>

definition load_expected :: "ext \<Rightarrow> codec \<Rightarrow> store \<Rightarrow> nat \<Rightarrow> (world, workspace) op" where
  "load_expected x c st expected =
    op_try (store_load x c st) (\<lambda>w.
    op_ensure (ws_revision w = expected) ''configuration changed elsewhere; reload before saving''
      (op_return w))"

definition save_as ::
    "ext \<Rightarrow> codec \<Rightarrow> store \<Rightarrow> nat \<Rightarrow> 'a \<times> workspace \<Rightarrow> (world, 'a) op" where
  "save_as x c st expected vw w = (case store_save x c st expected (snd vw, w) of
      (Inl e, (_, w')) \<Rightarrow> (Inl e, w') | (Inr _, (_, w')) \<Rightarrow> (Inr (fst vw), w'))"

definition change ::
    "ext \<Rightarrow> codec \<Rightarrow> store \<Rightarrow> nat \<Rightarrow> (workspace \<Rightarrow> ('a \<times> workspace) res) \<Rightarrow> (world, 'a) op" where
  "change x c st expected f =
    op_try (load_expected x c st expected) (\<lambda>w.
    op_try (op_lift (f w)) (\<lambda>vw. save_as x c st expected vw))"

definition save_terminal ::
    "ext \<Rightarrow> codec \<Rightarrow> store \<Rightarrow> nat \<Rightarrow> string \<Rightarrow> terminal_definition \<Rightarrow> (world, definition_impact) op" where
  "save_terminal x c st expected pid t =
    (if \<not> td_persistent t then
       op_try (load_expected x c st expected) (\<lambda>w.
       op_try (op_lift (find_project w pid)) (\<lambda>p.
       op_try (op_lift (validate_terminal x p t)) (\<lambda>_.
       if list_ex (\<lambda>u. td_id u = td_id t) (pr_terminals p)
       then change x c st expected (remove_terminal_edit pid (td_id t))
       else op_return \<lparr>di_project_id = pid, di_terminal_ids = [td_id t]\<rparr>)))
     else change x c st expected (save_terminal_edit x pid t))"

definition approve_transient ::
    "ext \<Rightarrow> json \<Rightarrow> codec \<Rightarrow> store \<Rightarrow> observation \<Rightarrow> nat \<Rightarrow> string \<Rightarrow> terminal_definition \<Rightarrow> trust_scope \<Rightarrow>
     launch_environment \<Rightarrow> (world, terminal_definition) op" where
  "approve_transient x js c st ob expected pid t review e =
    op_try (load_expected x c st expected) (\<lambda>w.
    op_try (op_lift (ensure_workspace_current x ob w pid)) (\<lambda>_.
    op_try (op_lift (find_project w pid)) (\<lambda>p.
    op_ensure (\<not> td_persistent t \<and> \<not> list_ex (\<lambda>u. td_id u = td_id t) (pr_terminals p))
      ''transient ID must be outside saved definitions''
    (let common = managed_common_scope x js ob w p e in
     op_ensure (ts_trusted common) ''review common initialization first''
     (let fresh = managed_terminal_scope x js ob w p t e common in
      op_ensure (ts_terminal_id fresh = ts_terminal_id review \<and> ts_digest fresh = ts_digest review)
        ''transient initialization changed during review''
      (op_try (op_lift (context_opt (ts_digest fresh) ''transient initialization cannot be approved'')) (\<lambda>d.
       op_return (t\<lparr>td_trusted_digest := Some d\<rparr>))))))))"

section \<open>Listing and resolving\<close>

definition list_order :: "workspace \<Rightarrow> project list" where
  "list_order w =
    List.map_filter (\<lambda>i. find (\<lambda>p. pr_id p = i) (ws_projects w)) (ws_recent_projects w)
    @ filter (\<lambda>p. pr_id p \<notin> set (ws_recent_projects w)) (ws_projects w)"

record terminal_view =
  tv_definition :: terminal_definition
  tv_path :: availability

record project_details =
  pv_project :: project
  pv_root :: availability
  pv_init_cwd :: availability
  pv_terminals :: "terminal_view list"

definition project_view :: "observation \<Rightarrow> project \<Rightarrow> project_details" where
  "project_view ob p = \<lparr>pv_project = p, pv_root = path_availability ob (pr_root p),
     pv_init_cwd = path_availability ob (sc_init_cwd (pr_shell p)),
     pv_terminals = map (\<lambda>t. \<lparr>tv_definition = t, tv_path = path_availability ob (td_cwd t)\<rparr>)
       (pr_terminals p)\<rparr>"

record workspace_view =
  wv_revision :: nat
  wv_selected_project :: "string option"
  wv_projects :: "project_details list"

definition list_projects :: "ext \<Rightarrow> codec \<Rightarrow> store \<Rightarrow> observation \<Rightarrow> (world, workspace_view) op" where
  "list_projects x c st ob = op_try (store_load x c st) (\<lambda>w.
     op_return \<lparr>wv_revision = ws_revision w, wv_selected_project = ws_selected_project w,
       wv_projects = map (project_view ob) (list_order w)\<rparr>)"

definition resolve_project_id :: "ext \<Rightarrow> workspace \<Rightarrow> string \<Rightarrow> string res" where
  "resolve_project_id x w selector =
    (if uuid_ok x selector then and_then (find_project w selector) (\<lambda>p. Inr (pr_id p))
     else (case filter (\<lambda>p. pr_name p = selector) (ws_projects w) of
         [p] \<Rightarrow> Inr (pr_id p)
       | [] \<Rightarrow> Inl (Bail ''project not found'')
       | _ \<Rightarrow> Inl (Bail ''project name is ambiguous; select its stable ID'')))"

section \<open>Launching a terminal\<close>

record shell_plan =
  sp_native :: "native_shell option"
  sp_shell :: path
  sp_login :: bool
  sp_init_cwd :: path
  sp_start_cwd :: path
  sp_sources :: "source_spec list"
  sp_env :: environment
  sp_command :: "string option"

record terminal_launch =
  tp_shell :: shell_plan
  tp_definition_revision :: nat
  tp_launch_digest :: string

definition terminal_plan ::
    "ext \<Rightarrow> json \<Rightarrow> observation \<Rightarrow> workspace \<Rightarrow> string \<Rightarrow> terminal_definition \<Rightarrow> launch_environment \<Rightarrow>
     terminal_launch res" where
  "terminal_plan x js ob w pid t e =
    and_then (ensure_workspace_current x ob w pid) (\<lambda>_.
    and_then (find_project w pid) (\<lambda>p.
    and_then (validate_terminal x p t) (\<lambda>_.
    and_then (case find (\<lambda>u. td_id u = td_id t) (pr_terminals p) of
        Some saved \<Rightarrow> ensure (same_terminal saved t \<and> td_trusted_digest saved = td_trusted_digest t)
          ''terminal definition changed; reload before starting'' (Inr ())
      | None \<Rightarrow> ensure (\<not> td_persistent t) ''persistent terminal is not registered'' (Inr ())) (\<lambda>_.
    let common = managed_common_scope x js ob w p e;
        review = managed_terminal_scope x js ob w p t e common;
        native = (sc_native (pr_shell p) \<noteq> None) in
    ensure (ts_trusted common) ''common initialization needs review''
    (ensure (ts_trusted review) ''terminal initialization needs review''
    (ensure (is_ready (path_availability ob (sc_init_cwd (pr_shell p))) \<or> native)
      ''initialization directory is unavailable''
    (ensure (is_ready (path_availability ob (td_cwd t))) ''terminal start directory is unavailable''
    (ensure (is_ready (path_availability ob (env_home e)) \<or> native) ''launch HOME is unavailable''
    (and_then (context_opt (ts_digest review) ''missing launch digest'') (\<lambda>d.
     Inr \<lparr>tp_shell = \<lparr>sp_native = sc_native (pr_shell p), sp_shell = sc_executable (pr_shell p),
            sp_login = sc_login (pr_shell p), sp_init_cwd = sc_init_cwd (pr_shell p),
            sp_start_cwd = td_cwd t, sp_sources = sc_sources (pr_shell p) @ td_sources t,
            sp_env = le_variables e, sp_command = None\<rparr>,
          tp_definition_revision = ws_revision w, tp_launch_digest = d\<rparr>))))))))))"

definition terminal_launch_plan ::
    "ext \<Rightarrow> json \<Rightarrow> codec \<Rightarrow> store \<Rightarrow> observation \<Rightarrow> string \<Rightarrow> terminal_definition \<Rightarrow> launch_environment \<Rightarrow>
     (world, terminal_launch) op" where
  "terminal_launch_plan x js c st ob pid t e =
    op_try (store_load x c st) (\<lambda>w. op_lift (terminal_plan x js ob w pid t e))"

section \<open>Tasks\<close>

definition initialization ::
    "ext \<Rightarrow> json \<Rightarrow> observation \<Rightarrow> project \<Rightarrow> task_definition \<Rightarrow> launch_environment \<Rightarrow> (string \<times> bool) res" where
  "initialization x js ob p t e =
    (if ta_execution t \<noteq> None then Inr (sha256_hex x ''idk-direct-process-v1'', True)
     else ensure (sc_native (pr_shell p) = None)
       ''legacy csh tasks require a legacy csh project; use --program or --interpreter for a native project''
       (let common = common_scope x js ob p e in
        and_then (context_opt (ts_digest common) ''common initialization unavailable'') (\<lambda>d.
        Inr (d, ts_trusted common))))"

record task_review =
  tk_revision :: nat
  tk_project_id :: string
  tk_task :: task_definition
  tk_digest :: string
  tk_approved :: bool
  tk_common_approved :: bool
  tk_home :: path

definition find_task :: "project \<Rightarrow> string \<Rightarrow> task_definition res" where
  "find_task p tid = context_opt (find (\<lambda>t. ta_id t = tid) (pr_tasks p)) ''task not registered''"

definition review_task ::
    "ext \<Rightarrow> json \<Rightarrow> observation \<Rightarrow> workspace \<Rightarrow> string \<Rightarrow> string \<Rightarrow> launch_environment \<Rightarrow> task_review res" where
  "review_task x js ob w pid tid e =
    and_then (find_project w pid) (\<lambda>p.
    and_then (find_task p tid) (\<lambda>t.
    and_then (initialization x js ob p t e) (\<lambda>(common, common_approved).
    and_then (approval_digest x (ob_os ob) p t common) (\<lambda>d.
    Inr \<lparr>tk_revision = ws_revision w, tk_project_id = pid, tk_task = t, tk_digest = d,
         tk_approved = (ta_approved_digest t = Some d), tk_common_approved = common_approved,
         tk_home = env_home e\<rparr>))))"

definition task_service_review ::
    "ext \<Rightarrow> json \<Rightarrow> codec \<Rightarrow> store \<Rightarrow> observation \<Rightarrow> string \<Rightarrow> string \<Rightarrow> launch_environment \<Rightarrow>
     (world, task_review) op" where
  "task_service_review x js c st ob pid tid e =
    op_try (store_load x c st) (\<lambda>w0.
    op_try (op_lift (ensure_workspace_current x ob w0 pid)) (\<lambda>_.
    op_try (store_load x c st) (\<lambda>w. op_lift (review_task x js ob w pid tid e))))"

definition approve_task_edit :: "string \<Rightarrow> string \<Rightarrow> string \<Rightarrow> workspace \<Rightarrow> (unit \<times> workspace) res" where
  "approve_task_edit pid tid d = edit_project pid (\<lambda>p.
     and_then (find_task p tid) (\<lambda>_.
     Inr ((), p\<lparr>pr_tasks := update_first (\<lambda>t. ta_id t = tid)
       (\<lambda>t. t\<lparr>ta_approved_digest := Some d\<rparr>) (pr_tasks p)\<rparr>)))"

definition task_service_approve ::
    "ext \<Rightarrow> json \<Rightarrow> codec \<Rightarrow> store \<Rightarrow> observation \<Rightarrow> nat \<Rightarrow> string \<Rightarrow> string \<Rightarrow> string \<Rightarrow> launch_environment \<Rightarrow>
     (world, unit) op" where
  "task_service_approve x js c st ob expected pid tid reviewed e =
    op_try (task_service_review x js c st ob pid tid e) (\<lambda>review.
    op_ensure (tk_revision review = expected \<and> tk_digest review = reviewed)
      ''task or initialization changed since review''
    (op_ensure (tk_common_approved review) ''approve common initialization first''
    (op_try (store_load x c st) (\<lambda>w.
     op_ensure (ws_revision w = expected) ''configuration changed since review''
     (op_try (op_lift (approve_task_edit pid tid (tk_digest review) w)) (\<lambda>vw.
      save_as x c st expected vw))))))"

definition task_service_save ::
    "ext \<Rightarrow> codec \<Rightarrow> store \<Rightarrow> nat \<Rightarrow> string \<Rightarrow> task_definition \<Rightarrow> (world, task_definition) op" where
  "task_service_save x c st expected pid t =
    op_try (store_load x c st) (\<lambda>w.
    op_ensure (ws_revision w = expected) ''configuration changed; reload task definition''
    (op_try (op_lift (save_task_edit x pid t w)) (\<lambda>vw. save_as x c st expected vw)))"

record task_launch_plan =
  tl_project_id :: string
  tl_task :: task_definition
  tl_shell :: shell_plan
  tl_definition_revision :: nat
  tl_launch_digest :: string
  tl_initialization_digest :: string
  tl_repository :: "repository option"
  tl_source_roots :: "path list"

text \<open>\<open>sort\<close> and \<open>dedup\<close> of the two source roots, ordered as paths.\<close>

fun component_le :: "component list \<Rightarrow> component list \<Rightarrow> bool" where
  "component_le [] _ = True"
| "component_le (c # cs) [] = False"
| "component_le (c # cs) (d # ds) =
    (let rank = (\<lambda>c. case c of RootDir \<Rightarrow> (1 :: nat) | CurDir \<Rightarrow> 2 | ParentDir \<Rightarrow> 3 | Normal _ \<Rightarrow> 4) in
     if c = d then component_le cs ds
     else (case (c, d) of (Normal a, Normal b) \<Rightarrow> a < b | _ \<Rightarrow> rank c < rank d))"

definition source_roots :: "path \<Rightarrow> path \<Rightarrow> path list" where
  "source_roots a b = (if path_eq a b then [a]
     else if component_le (components a) (components b) then [a, b] else [b, a])"

definition task_plan ::
    "ext \<Rightarrow> json \<Rightarrow> observation \<Rightarrow> workspace \<Rightarrow> string \<Rightarrow> string \<Rightarrow> launch_environment \<Rightarrow> task_launch_plan res" where
  "task_plan x js ob w pid tid e =
    and_then (find_project w pid) (\<lambda>p.
    and_then (validate_project x p) (\<lambda>_.
    and_then (find_task p tid) (\<lambda>t.
    and_then (initialization x js ob p t e) (\<lambda>(common, trusted).
    ensure trusted ''common initialization needs review''
    (and_then (approval_digest x (ob_os ob) p t common) (\<lambda>d.
     ensure (ta_approved_digest t = Some d) ''task definition or initialization needs review''
     (ensure (case os_metadata (ob_os ob) (ta_cwd t) of Inl _ \<Rightarrow> False | Inr m \<Rightarrow> fm_is_dir m)
       ''task working directory unavailable''
     (and_then (os_canonicalize (ob_os ob) (pr_root p)) (\<lambda>root.
      and_then (os_canonicalize (ob_os ob) (ta_cwd t)) (\<lambda>cwd.
      Inr \<lparr>tl_project_id = pid, tl_task = t,
        tl_shell = \<lparr>sp_native = None, sp_shell = sc_executable (pr_shell p),
          sp_login = sc_login (pr_shell p), sp_init_cwd = sc_init_cwd (pr_shell p),
          sp_start_cwd = ta_cwd t, sp_sources = sc_sources (pr_shell p) @ ta_sources t,
          sp_env = le_variables e, sp_command = None\<rparr>,
        tl_definition_revision = ws_revision w, tl_launch_digest = d,
        tl_initialization_digest = common, tl_repository = pr_repository_binding p,
        tl_source_roots = source_roots root cwd\<rparr>))))))))))"

definition task_service_launch_plan ::
    "ext \<Rightarrow> json \<Rightarrow> codec \<Rightarrow> store \<Rightarrow> observation \<Rightarrow> string \<Rightarrow> string \<Rightarrow> launch_environment \<Rightarrow>
     (world, task_launch_plan) op" where
  "task_service_launch_plan x js c st ob pid tid e =
    op_try (store_load x c st) (\<lambda>w0.
    op_try (op_lift (ensure_workspace_current x ob w0 pid)) (\<lambda>_.
    op_try (store_load x c st) (\<lambda>w. op_lift (task_plan x js ob w pid tid e))))"

definition steps :: "task_definition \<Rightarrow> task_step list" where
  "steps t = (if ta_steps t = [] then [\<lparr>st_name = ta_name t, st_command = ta_command t\<rparr>] else ta_steps t)"

end
