(* ===== verification/Trust_Safety.thy ===== *)
theory Trust_Safety
  imports Project_Service
begin

text \<open>
  What the edits may do to trust.  A grant is a stored fingerprint together with the content it
  was given for; no edit but an approval creates one, and an approval creates only grants whose
  fingerprint the approving operation has itself just computed.
\<close>

section \<open>The edits as commands\<close>

datatype edit =
    Create nat connect_preview
  | Select string
  | Rename string string
  | RemoveDefinition string
  | UpdateShell string shell_config
  | SaveTerminal string terminal_definition
  | ReorderTerminals string "string list"
  | SetDefault string string
  | RemoveTerminal string string
  | BindRepository string path bool
  | ClearPrimary string
  | SaveTask string task_definition
  | RebindRoot nat root_rebind

definition forget :: "('a \<times> workspace) res \<Rightarrow> workspace res" where
  "forget r = and_then r (\<lambda>(_, w). Inr w)"

lemma forget_Inr [res_simps]: "(forget r = Inr w) = (\<exists>v. r = Inr (v, w))"
  by (auto simp: forget_def res_simps)

fun apply_edit :: "ext \<Rightarrow> observation \<Rightarrow> edit \<Rightarrow> workspace \<Rightarrow> workspace res" where
  "apply_edit x ob (Create n preview) w = forget (create_edit x ob n preview w)"
| "apply_edit x ob (Select pid) w = forget (select_edit pid w)"
| "apply_edit x ob (Rename pid name) w = forget (rename_edit pid name w)"
| "apply_edit x ob (RemoveDefinition pid) w = forget (remove_definition_edit pid w)"
| "apply_edit x ob (UpdateShell pid sh) w = forget (update_shell_edit x pid sh w)"
| "apply_edit x ob (SaveTerminal pid t) w = forget (save_terminal_edit x pid t w)"
| "apply_edit x ob (ReorderTerminals pid ids) w = forget (reorder_terminals_edit pid ids w)"
| "apply_edit x ob (SetDefault pid tid) w = forget (set_default_edit pid tid w)"
| "apply_edit x ob (RemoveTerminal pid tid) w = forget (remove_terminal_edit pid tid w)"
| "apply_edit x ob (BindRepository pid root primary) w = forget (bind_repository_edit ob pid root primary w)"
| "apply_edit x ob (ClearPrimary pid) w = forget (clear_primary_edit pid w)"
| "apply_edit x ob (SaveTask pid t) w = forget (save_task_edit x pid t w)"
| "apply_edit x ob (RebindRoot n preview) w = forget (rebind_edit x ob n preview w)"

fun edit_target :: "edit \<Rightarrow> string" where
  "edit_target (Create n preview) = pr_id (cp_project preview)"
| "edit_target (Select pid) = pid"
| "edit_target (Rename pid name) = pid"
| "edit_target (RemoveDefinition pid) = pid"
| "edit_target (UpdateShell pid sh) = pid"
| "edit_target (SaveTerminal pid t) = pid"
| "edit_target (ReorderTerminals pid ids) = pid"
| "edit_target (SetDefault pid tid) = pid"
| "edit_target (RemoveTerminal pid tid) = pid"
| "edit_target (BindRepository pid root primary) = pid"
| "edit_target (ClearPrimary pid) = pid"
| "edit_target (SaveTask pid t) = pid"
| "edit_target (RebindRoot n preview) = rb_project_id preview"

section \<open>Grants\<close>

type_synonym source_key = "(component list \<times> string list) list"

definition sources_key :: "source_spec list \<Rightarrow> source_key" where
  "sources_key = map (\<lambda>s. (components (ss_path s), ss_args s))"

type_synonym shell_key = "native_shell option \<times> component list \<times> bool \<times> component list \<times> source_key"

definition shell_key :: "shell_config \<Rightarrow> shell_key" where
  "shell_key s = (sc_native s, components (sc_executable s), sc_login s, components (sc_init_cwd s),
     sources_key (sc_sources s))"

datatype grant =
    ShellGrant string shell_key string
  | TerminalGrant string shell_key string "component list" source_key string
  | TaskGrant string task_definition string

fun grant_digest :: "grant \<Rightarrow> string" where
  "grant_digest (ShellGrant _ _ d) = d"
| "grant_digest (TerminalGrant _ _ _ _ _ d) = d"
| "grant_digest (TaskGrant _ _ d) = d"

definition terminal_grant :: "string \<Rightarrow> shell_key \<Rightarrow> terminal_definition \<Rightarrow> grant option" where
  "terminal_grant pid k t = map_option
     (TerminalGrant pid k (td_id t) (components (td_cwd t)) (sources_key (td_sources t)))
     (td_trusted_digest t)"

definition task_grant :: "string \<Rightarrow> task_definition \<Rightarrow> grant option" where
  "task_grant pid t = map_option (TaskGrant pid (t\<lparr>ta_approved_digest := None\<rparr>)) (ta_approved_digest t)"

definition project_grants :: "project \<Rightarrow> grant set" where
  "project_grants p = {g. map_option (ShellGrant (pr_id p) (shell_key (pr_shell p)))
       (sc_trusted_digest (pr_shell p)) = Some g}
     \<union> {g. \<exists>t\<in>set (pr_terminals p). terminal_grant (pr_id p) (shell_key (pr_shell p)) t = Some g}
     \<union> {g. \<exists>t\<in>set (pr_tasks p). task_grant (pr_id p) t = Some g}"

definition grants :: "workspace \<Rightarrow> grant set" where
  "grants w = (\<Union>p\<in>set (ws_projects w). project_grants p)"

lemma sources_eq_key: "sources_eq s t = (sources_key s = sources_key t)"
  unfolding sources_eq_def sources_key_def
  by (induction s t rule: list_induct2') (auto simp: source_eq_def path_eq_def)

lemma same_shell_key: "same_shell s t = (shell_key s = shell_key t)"
  by (auto simp: same_shell_def shell_key_def sources_eq_key path_eq_def)

lemma same_terminal_grant:
  "same_terminal u t \<Longrightarrow> td_id u = td_id t \<Longrightarrow>
   terminal_grant pid k (t\<lparr>td_trusted_digest := td_trusted_digest u\<rparr>) = terminal_grant pid k u"
  by (simp add: same_terminal_def terminal_grant_def sources_eq_key path_eq_def)

lemma terminal_grant_None [simp]: "terminal_grant pid k (t\<lparr>td_trusted_digest := None\<rparr>) = None"
  by (simp add: terminal_grant_def)

lemma task_grant_None [simp]: "task_grant pid (t\<lparr>ta_approved_digest := None\<rparr>) = None"
  by (simp add: task_grant_def)

section \<open>How an edit of one project acts on the workspace\<close>

lemma update_first_set: "set (update_first P (\<lambda>_. y) xs) \<subseteq> insert y (set xs)"
  by (induction xs) auto

lemma update_first_elem:
  "z \<in> set (update_first P f xs) \<Longrightarrow> z \<in> set xs \<or> (\<exists>x\<in>set xs. P x \<and> z = f x)"
  by (induction xs) (auto split: if_splits)

lemma update_first_find:
  "z \<in> set (update_first P f xs) \<Longrightarrow> z \<in> set xs \<or> (\<exists>x. find P xs = Some x \<and> z = f x)"
  by (induction xs) (auto split: if_splits)

lemma update_first_filter:
  "(\<And>x. P x \<Longrightarrow> \<not> Q x \<and> \<not> Q (f x)) \<Longrightarrow> filter Q (update_first P f xs) = filter Q xs"
  by (induction xs) auto

lemma update_first_map: "(\<And>x. P x \<Longrightarrow> g (f x) = g x) \<Longrightarrow> map g (update_first P f xs) = map g xs"
  by (induction xs) auto

lemma find_project_Some:
  "find_project w pid = Inr p \<Longrightarrow> p \<in> set (ws_projects w) \<and> pr_id p = pid"
  by (auto simp: find_project_def res_simps find_Some_iff)

lemma edit_project_Inr:
  "edit_project pid f w = Inr (v, w') \<Longrightarrow>
   \<exists>p p'. find_project w pid = Inr p \<and> f p = Inr (v, p') \<and> w' = put_project pid p' w"
  by (auto simp: edit_project_def res_simps)

lemma put_project_grants:
  assumes "find_project w pid = Inr p" "project_grants p' \<subseteq> project_grants p \<union> G"
  shows "grants (put_project pid p' w) \<subseteq> grants w \<union> G"
  using assms update_first_set [of "\<lambda>q. pr_id q = pid" p' "ws_projects w"]
    find_project_Some [OF assms(1)]
  by (fastforce simp: grants_def put_project_def)

lemma edit_project_grants:
  assumes "edit_project pid f w = Inr (v, w')"
    and "\<And>p v p'. f p = Inr (v, p') \<Longrightarrow> pr_id p = pid \<Longrightarrow> project_grants p' \<subseteq> project_grants p"
  shows "grants w' \<subseteq> grants w"
proof -
  from edit_project_Inr [OF assms(1)] obtain p p' where
    e: "find_project w pid = Inr p" "f p = Inr (v, p')" "w' = put_project pid p' w" by blast
  have "project_grants p' \<subseteq> project_grants p \<union> {}"
    using assms(2) [OF e(2)] find_project_Some [OF e(1)] by simp
  from put_project_grants [OF e(1) this] show ?thesis unfolding e(3) by simp
qed

section \<open>No edit creates trust\<close>

lemma project_grants_mono:
  assumes "pr_id q = pr_id p"
    and "\<And>d. sc_trusted_digest (pr_shell q) = Some d \<Longrightarrow>
      sc_trusted_digest (pr_shell p) = Some d \<and> shell_key (pr_shell q) = shell_key (pr_shell p)"
    and "\<And>t g. t \<in> set (pr_terminals q) \<Longrightarrow>
      terminal_grant (pr_id p) (shell_key (pr_shell q)) t = Some g \<Longrightarrow>
      \<exists>u\<in>set (pr_terminals p). terminal_grant (pr_id p) (shell_key (pr_shell p)) u = Some g"
    and "\<And>t g. t \<in> set (pr_tasks q) \<Longrightarrow> task_grant (pr_id p) t = Some g \<Longrightarrow>
      \<exists>u\<in>set (pr_tasks p). task_grant (pr_id p) u = Some g"
  shows "project_grants q \<subseteq> project_grants p"
  using assms by (fastforce simp: project_grants_def)

lemma tasks_grants:
  assumes "\<And>t. t \<in> set ts \<Longrightarrow> t \<in> set (pr_tasks p) \<or> task_grant (pr_id p) t = None"
  shows "project_grants (p\<lparr>pr_tasks := ts\<rparr>) \<subseteq> project_grants p"
  using assms by (intro project_grants_mono) (auto, fastforce)

lemma terminals_grants:
  assumes "set ts \<subseteq> set (pr_terminals p)"
  shows "project_grants (p\<lparr>pr_terminals := ts, pr_default_terminal := d\<rparr>) \<subseteq> project_grants p"
    "project_grants (p\<lparr>pr_terminals := ts\<rparr>) \<subseteq> project_grants p"
  using assms by (auto intro!: project_grants_mono del: subsetI) fastforce+

lemma untrusted_grants: "pr_tasks p = [] \<Longrightarrow> project_grants (untrusted p) = {}"
  by (auto simp: project_grants_def untrusted_def)

lemma grants_subset_projects:
  "set (ws_projects w') \<subseteq> set (ws_projects w) \<Longrightarrow> grants w' \<subseteq> grants w"
  by (auto simp: grants_def)

lemma select_workspace_grants [simp]: "grants (select_workspace pid w) = grants w"
  by (simp add: grants_def select_workspace_def)

lemma update_shell_grants:
  assumes "update_shell_edit x pid sh w = Inr (v, w')"
  shows "grants w' \<subseteq> grants w"
  using assms unfolding update_shell_edit_def
proof (rule edit_project_grants)
  fix p v p'
  assume "(let p' = (if same_shell sh (pr_shell p)
         then p\<lparr>pr_shell := sh\<lparr>sc_trusted_digest := sc_trusted_digest (pr_shell p)\<rparr>\<rparr>
         else p\<lparr>pr_shell := sh\<lparr>sc_trusted_digest := None\<rparr>,
                pr_terminals := map (\<lambda>t. t\<lparr>td_trusted_digest := None\<rparr>) (pr_terminals p)\<rparr>) in
     and_then (validate_project x p') (\<lambda>_. Inr (impact p', p'))) = Inr (v, p')"
  then have p': "p' = (if same_shell sh (pr_shell p)
         then p\<lparr>pr_shell := sh\<lparr>sc_trusted_digest := sc_trusted_digest (pr_shell p)\<rparr>\<rparr>
         else p\<lparr>pr_shell := sh\<lparr>sc_trusted_digest := None\<rparr>,
                pr_terminals := map (\<lambda>t. t\<lparr>td_trusted_digest := None\<rparr>) (pr_terminals p)\<rparr>)"
    by (auto simp: Let_def res_simps)
  have "shell_key (sh\<lparr>sc_trusted_digest := d\<rparr>) = shell_key sh" for d by (simp add: shell_key_def)
  then show "project_grants p' \<subseteq> project_grants p"
    unfolding p' by (intro project_grants_mono) (auto simp: same_shell_key split: if_splits)
qed

lemma save_terminal_in_grants: "project_grants (save_terminal_in t p) \<subseteq> project_grants p"
proof (rule project_grants_mono)
  fix u g
  assume u: "u \<in> set (pr_terminals (save_terminal_in t p))"
    and g: "terminal_grant (pr_id p) (shell_key (pr_shell (save_terminal_in t p))) u = Some g"
  have sh: "pr_shell (save_terminal_in t p) = pr_shell p"
    by (simp add: save_terminal_in_def Let_def split: option.splits)
  show "\<exists>u\<in>set (pr_terminals p). terminal_grant (pr_id p) (shell_key (pr_shell p)) u = Some g"
  proof (cases "find (\<lambda>u. td_id u = td_id t) (pr_terminals p)")
    case None
    with u have "u \<in> set (pr_terminals p) \<or> u = t\<lparr>td_trusted_digest := None\<rparr>"
      by (auto simp: save_terminal_in_def Let_def split: if_splits)
    with g sh show ?thesis by auto
  next
    case (Some old)
    then have old: "old \<in> set (pr_terminals p)" "td_id old = td_id t" by (auto simp: find_Some_iff)
    from u Some consider "u \<in> set (pr_terminals p)"
      | "u = t\<lparr>td_trusted_digest := (if same_terminal old t then td_trusted_digest old else None)\<rparr>"
      by (auto simp: save_terminal_in_def Let_def split: if_splits dest!: update_first_elem)
    then show ?thesis
    proof cases
      case 1
      with g sh show ?thesis by auto
    next
      case 2
      with g sh same_terminal_grant [of old t] old show ?thesis by (auto split: if_splits)
    qed
  qed
qed (auto simp: save_terminal_in_def Let_def split: option.splits if_splits)

lemma save_task_grants:
  assumes "save_task_edit x pid t w = Inr (v, w')"
  shows "grants w' \<subseteq> grants w"
proof -
  from assms obtain v' where e: "edit_project pid (\<lambda>p.
      ensure (ta_execution t \<noteq> None \<or> sc_native (pr_shell p) = None)
        ''legacy csh tasks require a legacy csh project; use --program or --interpreter for a native project''
      (let t' = t\<lparr>ta_approved_digest := None\<rparr> in
       if list_ex (\<lambda>u. ta_id u = ta_id t) (pr_tasks p)
       then Inr (t', p\<lparr>pr_tasks := update_first (\<lambda>u. ta_id u = ta_id t) (\<lambda>_. t') (pr_tasks p)\<rparr>)
       else ensure (length (pr_tasks p) < 128) ''task limit reached''
         (Inr (t', p\<lparr>pr_tasks := pr_tasks p @ [t']\<rparr>)))) w = Inr (v', w')"
    unfolding save_task_edit_def by (auto simp: res_simps)
  show ?thesis
    by (rule edit_project_grants [OF e])
      (auto simp: res_simps Let_def simp del: Un_subset_iff intro!: tasks_grants
        dest!: update_first_elem split: if_splits del: subsetI)
qed

lemma remap_project_grants: "project_grants (fst (remap_project ob old new p)) = {}"
  by (auto simp: remap_project_def remap_shell_def remap_each_def remap_terminal_def remap_task_def
      project_grants_def terminal_grant_def task_grant_def Let_def split: prod.splits)

lemma remap_project_id [simp]: "pr_id (fst (remap_project ob old new p)) = pr_id p"
  by (auto simp: remap_project_def Let_def split: prod.splits)

lemma rebind_preview_project:
  "rebind_preview x ob w pid root = Inr r \<Longrightarrow>
   \<exists>p. find_project w pid = Inr p \<and> rb_project r = fst (remap_project ob (pr_root p) root p)"
  by (auto simp: rebind_preview_def res_simps case_prod_beta)

lemma rebind_edit_project:
  assumes "rebind_edit x ob n preview w = Inr (v, w')"
  shows "\<exists>r. rebind_preview x ob w (rb_project_id preview) (rb_new_root preview) = Inr r
    \<and> ws_projects w' = ws_projects (put_project (rb_project_id preview) (rb_project r) w)"
  using assms
  by (auto simp: rebind_edit_def Let_def res_simps put_project_def split: option.splits)

lemma rebind_grants:
  assumes "rebind_edit x ob n preview w = Inr (v, w')"
  shows "grants w' \<subseteq> grants w"
proof -
  from rebind_edit_project [OF assms] obtain r where
    r: "rebind_preview x ob w (rb_project_id preview) (rb_new_root preview) = Inr r"
      "ws_projects w' = ws_projects (put_project (rb_project_id preview) (rb_project r) w)" by blast
  from rebind_preview_project [OF r(1)] obtain p where
    p: "find_project w (rb_project_id preview) = Inr p"
      "rb_project r = fst (remap_project ob (pr_root p) (rb_new_root preview) p)" by blast
  have "project_grants (rb_project r) \<subseteq> project_grants p \<union> {}"
    unfolding p(2) remap_project_grants by simp
  from put_project_grants [OF p(1) this] show ?thesis by (simp add: grants_def r(2))
qed

lemma create_grants:
  assumes "create_edit x ob n preview w = Inr (v, w')" "pr_tasks (cp_project preview) = []"
  shows "grants w' \<subseteq> grants w"
proof -
  from assms(1) have "w' = select_workspace (pr_id (untrusted (cp_project preview)))
      (w\<lparr>ws_projects := ws_projects w @ [untrusted (cp_project preview)]\<rparr>)"
    by (auto simp: create_edit_def Let_def res_simps)
  then show ?thesis using untrusted_grants [OF assms(2)]
    by (simp add: grants_def select_workspace_def)
qed

lemma find_by_id:
  "\<exists>t\<in>set ts. f t = i \<Longrightarrow> \<exists>t\<in>set ts. find (\<lambda>t. f t = i) ts = Some t \<and> f t = i"
  by (induction ts) auto

lemma reorder_grants:
  assumes "reorder_terminals_edit pid ids w = Inr (v, w')"
  shows "grants w' \<subseteq> grants w"
  using assms unfolding reorder_terminals_edit_def
proof (rule edit_project_grants)
  fix p v and p' :: project
  assume "ensure (length ids = length (pr_terminals p) \<and> distinct ids
       \<and> list_all (\<lambda>i. list_ex (\<lambda>t. td_id t = i) (pr_terminals p)) ids)
       ''terminal order must contain every terminal ID exactly once''
     (Inr ((), p\<lparr>pr_terminals := map (\<lambda>i. the (find (\<lambda>t. td_id t = i) (pr_terminals p))) ids\<rparr>))
    = Inr (v, p')"
  then have ids: "\<forall>i\<in>set ids. \<exists>t\<in>set (pr_terminals p). td_id t = i"
    and p': "p' = p\<lparr>pr_terminals := map (\<lambda>i. the (find (\<lambda>t. td_id t = i) (pr_terminals p))) ids\<rparr>"
    by (auto simp: res_simps list_all_iff list_ex_iff)
  have "set (map (\<lambda>i. the (find (\<lambda>t. td_id t = i) (pr_terminals p))) ids) \<subseteq> set (pr_terminals p)"
    using ids find_by_id [of "pr_terminals p" td_id] by fastforce
  then show "project_grants p' \<subseteq> project_grants p" unfolding p' by (rule terminals_grants(2))
qed

lemma field_grants [simp]:
  "project_grants (p\<lparr>pr_name := n\<rparr>) = project_grants p"
  "project_grants (p\<lparr>pr_default_terminal := d\<rparr>) = project_grants p"
  "project_grants (p\<lparr>pr_repository := r\<rparr>) = project_grants p"
  "project_grants (p\<lparr>pr_repository_binding := b\<rparr>) = project_grants p"
  "project_grants (p\<lparr>pr_related_repositories := rs\<rparr>) = project_grants p"
  by (simp_all add: project_grants_def)

text \<open>No edit, whatever its arguments, can leave a grant that was not there before.\<close>

lemma apply_edit_grants:
  assumes "apply_edit x ob e w = Inr w'"
    and "\<forall>n preview. e = Create n preview \<longrightarrow> pr_tasks (cp_project preview) = []"
  shows "grants w' \<subseteq> grants w"
proof (cases e)
  case (Create n preview)
  with assms show ?thesis by (auto simp: res_simps dest: create_grants)
next
  case (Select pid)
  with assms show ?thesis by (auto simp: res_simps select_edit_def)
next
  case (Rename pid name)
  with assms(1) show ?thesis
    by (auto simp: res_simps rename_edit_def dest!: edit_project_grants)
next
  case (RemoveDefinition pid)
  with assms(1) show ?thesis
    by (auto simp: res_simps remove_definition_edit_def Let_def grants_def)
next
  case (UpdateShell pid sh)
  with assms(1) show ?thesis by (auto simp: res_simps dest: update_shell_grants)
next
  case (SaveTerminal pid t)
  with assms(1) obtain v where "save_terminal_edit x pid t w = Inr (v, w')" by (auto simp: res_simps)
  then show ?thesis unfolding save_terminal_edit_def
    by (rule edit_project_grants) (auto simp: res_simps Let_def save_terminal_in_grants [THEN subsetD])
next
  case (ReorderTerminals pid ids)
  with assms(1) show ?thesis by (auto simp: res_simps dest: reorder_grants)
next
  case (SetDefault pid tid)
  with assms(1) obtain v where "set_default_edit pid tid w = Inr (v, w')" by (auto simp: res_simps)
  then show ?thesis unfolding set_default_edit_def
    by (rule edit_project_grants) (auto simp: res_simps)
next
  case (RemoveTerminal pid tid)
  with assms(1) obtain v where "remove_terminal_edit pid tid w = Inr (v, w')" by (auto simp: res_simps)
  then show ?thesis unfolding remove_terminal_edit_def
    by (rule edit_project_grants)
      (auto simp: res_simps Let_def intro!: terminals_grants del: subsetI)
next
  case (BindRepository pid root primary)
  with assms(1) obtain v r where "edit_project pid
      (\<lambda>p. Inr (r, if primary then bind_primary r p else bind_related r p)) w = Inr (v, w')"
    by (auto simp: res_simps bind_repository_edit_def)
  then show ?thesis
    by (rule edit_project_grants)
      (auto simp: bind_primary_def bind_related_def Let_def split: if_splits)
next
  case (ClearPrimary pid)
  with assms(1) obtain v where "clear_primary_edit pid w = Inr (v, w')" by (auto simp: res_simps)
  then show ?thesis unfolding clear_primary_edit_def
    by (rule edit_project_grants) auto
next
  case (SaveTask pid t)
  with assms(1) show ?thesis by (auto simp: res_simps dest: save_task_grants)
next
  case (RebindRoot n preview)
  with assms(1) show ?thesis by (auto simp: res_simps dest: rebind_grants)
qed

section \<open>Other projects are left alone\<close>

definition others :: "string \<Rightarrow> workspace \<Rightarrow> project list" where
  "others pid w = filter (\<lambda>p. pr_id p \<noteq> pid) (ws_projects w)"

lemma put_project_others: "pr_id p' = pid \<Longrightarrow> others pid (put_project pid p' w) = others pid w"
  by (simp add: others_def put_project_def update_first_filter)

lemma edit_project_others:
  assumes "edit_project pid f w = Inr (v, w')"
    and "\<And>p v p'. f p = Inr (v, p') \<Longrightarrow> pr_id p' = pr_id p"
  shows "others pid w' = others pid w"
proof -
  from edit_project_Inr [OF assms(1)] obtain p p' where
    e: "find_project w pid = Inr p" "f p = Inr (v, p')" "w' = put_project pid p' w" by blast
  have "pr_id p' = pid" using assms(2) [OF e(2)] find_project_Some [OF e(1)] by simp
  then show ?thesis unfolding e(3) by (rule put_project_others)
qed

lemma save_terminal_in_id [simp]: "pr_id (save_terminal_in t p) = pr_id p"
  by (simp add: save_terminal_in_def Let_def split: option.splits)

lemma bind_id [simp]: "pr_id (bind_primary r p) = pr_id p" "pr_id (bind_related r p) = pr_id p"
  by (simp_all add: bind_primary_def bind_related_def Let_def)

lemma rebind_others:
  assumes "rebind_edit x ob n preview w = Inr (v, w')"
  shows "others (rb_project_id preview) w' = others (rb_project_id preview) w"
proof -
  from rebind_edit_project [OF assms] obtain r where
    r: "rebind_preview x ob w (rb_project_id preview) (rb_new_root preview) = Inr r"
      "ws_projects w' = ws_projects (put_project (rb_project_id preview) (rb_project r) w)" by blast
  from rebind_preview_project [OF r(1)] find_project_Some have "pr_id (rb_project r) = rb_project_id preview"
    by auto
  from put_project_others [OF this, of w] r(2) show ?thesis by (simp add: others_def)
qed

lemma create_others:
  "create_edit x ob n preview w = Inr (v, w') \<Longrightarrow>
   others (pr_id (cp_project preview)) w' = others (pr_id (cp_project preview)) w"
  by (auto simp: create_edit_def Let_def res_simps untrusted_def others_def select_workspace_def)

lemma select_others:
  "select_edit pid w = Inr (v, w') \<Longrightarrow> others pid w' = others pid w"
  by (auto simp: select_edit_def res_simps others_def select_workspace_def)

lemma remove_others:
  "remove_definition_edit pid w = Inr (v, w') \<Longrightarrow> others pid w' = others pid w"
  by (auto simp: remove_definition_edit_def res_simps Let_def others_def)

lemma apply_edit_others:
  assumes "apply_edit x ob e w = Inr w'"
  shows "others (edit_target e) w' = others (edit_target e) w"
  using assms
  by (cases e)
    (auto simp: res_simps rename_edit_def create_others select_others remove_others
      update_shell_edit_def save_terminal_edit_def reorder_terminals_edit_def set_default_edit_def
      remove_terminal_edit_def bind_repository_edit_def clear_primary_edit_def save_task_edit_def
      Let_def rebind_others split: if_splits dest!: edit_project_others)

section \<open>Edits on disk\<close>

lemma store_load_same:
  assumes "store_load x c st w = (r, w1)" "is_absolute (so_config_dir st)"
  shows "disk_config x c st w1 = disk_config x c st w"
proof -
  have u: "untouched {} w w1" by (rule op_relD [OF store_load_frame assms(1)])
  show ?thesis
    by (rule disk_config_cong [OF untouched_file [OF u _ config_not_pending(1)] untouched_euid [OF u]])
      (use assms(2) in auto)
qed

lemma save_as_Inr:
  assumes "save_as x c st expected vw w = (Inr v, w')"
    and "is_absolute (so_config_dir st)" "codec_ok c"
  shows "v = fst vw \<and> disk_config x c st w'
    = Inr ((raise_schema (snd vw))\<lparr>ws_revision := expected + 1\<rparr>)"
proof -
  from assms(1) obtain ws' where
    s: "store_save x c st expected (snd vw, w) = (Inr (), (ws', w'))" and v: "v = fst vw"
    by (auto simp: save_as_def split: prod.splits sum.splits)
  from store_save_cases [OF s assms(2,3)] v show ?thesis by auto
qed

lemma load_expected_Inr:
  assumes "load_expected x c st expected w = (Inr ws, w1)" "is_absolute (so_config_dir st)"
  shows "disk_config x c st w = Inr ws \<and> ws_revision ws = expected
    \<and> disk_config x c st w1 = disk_config x c st w"
  using assms store_load_disk store_load_same
  by (fastforce simp: load_expected_def op_simps)

lemma change_Inr:
  assumes "change x c st expected f w = (Inr v, w')"
    and "is_absolute (so_config_dir st)" "codec_ok c"
  shows "\<exists>ws ws'. disk_config x c st w = Inr ws \<and> ws_revision ws = expected \<and> f ws = Inr (v, ws')
    \<and> disk_config x c st w' = Inr ((raise_schema ws')\<lparr>ws_revision := expected + 1\<rparr>)"
proof -
  from assms(1) obtain ws w1 vw where
    l: "load_expected x c st expected w = (Inr ws, w1)" and f: "f ws = Inr vw"
    and s: "save_as x c st expected vw w1 = (Inr v, w')"
    by (auto simp: change_def op_simps)
  show ?thesis
    using load_expected_Inr [OF l assms(2)] save_as_Inr [OF s assms(2,3)] f
    by (metis prod.collapse)
qed

lemma raise_schema_projects [simp]:
  "ws_projects ((raise_schema ws)\<lparr>ws_revision := r\<rparr>) = ws_projects ws"
  by (simp add: raise_schema_def)

lemma raise_schema_grants [simp]: "grants ((raise_schema ws)\<lparr>ws_revision := r\<rparr>) = grants ws"
  by (simp add: grants_def)

section \<open>What an approval grants\<close>

lemma update_terminal_grants:
  "project_grants (p\<lparr>pr_terminals := update_first (\<lambda>t. td_id t = i)
      (\<lambda>t. t\<lparr>td_trusted_digest := Some d\<rparr>) (pr_terminals p)\<rparr>)
   \<subseteq> project_grants p \<union> {g. grant_digest g = d}"
  by (fastforce simp: project_grants_def terminal_grant_def dest!: update_first_elem)

lemma approve_scope_grants:
  assumes "approve_scope fresh (p, a) scope = Inr (p', a')"
  shows "project_grants p' \<subseteq> project_grants p
      \<union> {g. Some (grant_digest g) \<in> set (map ts_digest (ir_terminals fresh))} \<and> pr_id p' = pr_id p"
proof -
  from assms obtain i observed where
    f: "find (\<lambda>s. ts_terminal_id s = Some i) (ir_terminals fresh) = Some observed"
    and d: "ts_digest observed = ts_digest scope"
    and r: "(case ts_digest scope of None \<Rightarrow> Inr (p, a)
     | Some d \<Rightarrow> ensure (list_ex (\<lambda>t. td_id t = i) (pr_terminals p)) ''terminal no longer registered''
         (Inr (p\<lparr>pr_terminals := update_first (\<lambda>t. td_id t = i)
            (\<lambda>t. t\<lparr>td_trusted_digest := Some d\<rparr>) (pr_terminals p)\<rparr>, True))) = Inr (p', a')"
    by (auto simp: approve_scope_def res_simps)
  have mem: "ts_digest observed \<in> set (map ts_digest (ir_terminals fresh))"
    using f by (auto simp: find_Some_iff)
  show ?thesis
  proof (cases "ts_digest scope")
    case None
    with r show ?thesis by auto
  next
    case (Some dg)
    with r have p': "p' = p\<lparr>pr_terminals := update_first (\<lambda>t. td_id t = i)
            (\<lambda>t. t\<lparr>td_trusted_digest := Some dg\<rparr>) (pr_terminals p)\<rparr>" by (simp add: res_simps)
    show ?thesis using update_terminal_grants [where p = p and i = i and d = dg] mem d Some unfolding p' by auto
  qed
qed

lemma approve_scopes_grants:
  assumes "fold_res (approve_scope fresh) (p, a) scopes = Inr (p', a')"
  shows "project_grants p' \<subseteq> project_grants p
      \<union> {g. Some (grant_digest g) \<in> set (map ts_digest (ir_terminals fresh))} \<and> pr_id p' = pr_id p"
  using assms
proof (induction scopes arbitrary: p a)
  case (Cons s scopes)
  then obtain p1 a1 where s: "approve_scope fresh (p, a) s = Inr (p1, a1)"
    and rest: "fold_res (approve_scope fresh) (p1, a1) scopes = Inr (p', a')"
    by (auto simp: res_simps)
  from approve_scope_grants [OF s] Cons.IH [OF rest] show ?case by auto
qed simp

text \<open>Everything an initialization approval grants was just observed by its own fresh review.\<close>

definition fresh_digests :: "initialization_review \<Rightarrow> string option set" where
  "fresh_digests r = insert (ts_digest (ir_common r)) (set (map ts_digest (ir_terminals r)))"

lemma trust_shell_grants:
  "project_grants (p\<lparr>pr_shell := (pr_shell p)\<lparr>sc_trusted_digest := Some d\<rparr>\<rparr>)
   \<subseteq> project_grants p \<union> {g. grant_digest g = d}"
  by (auto simp: project_grants_def shell_key_def)

lemma approve_initialization_grants:
  assumes "approve_initialization_edit x js ob n review w = Inr (v, w')"
  shows "\<exists>fresh. review_project x js ob w (ir_project_id review) (ir_environment review) = Inr fresh
    \<and> grants w' \<subseteq> grants w \<union> {g. Some (grant_digest g) \<in> fresh_digests fresh}"
proof -
  let ?start = "\<lambda>p. case ts_digest (ir_common review) of None \<Rightarrow> (p, False)
     | Some d \<Rightarrow> (p\<lparr>pr_shell := (pr_shell p)\<lparr>sc_trusted_digest := Some d\<rparr>\<rparr>, True)"
  from assms obtain fresh p p' where
    fresh: "review_project x js ob w (ir_project_id review) (ir_environment review) = Inr fresh"
    and dig: "ts_digest (ir_common fresh) = ts_digest (ir_common review)"
    and p: "find_project w (ir_project_id review) = Inr p"
    and fold: "fold_res (approve_scope fresh) (?start p) (ir_terminals review) = Inr (p', True)"
    and w': "w' = put_project (ir_project_id review) p' w"
    unfolding approve_initialization_edit_def
    by (auto simp: res_simps Let_def dest!: edit_project_Inr)
  let ?G = "{g. Some (grant_digest g) \<in> fresh_digests fresh}"
  obtain p0 a0 where start: "?start p = (p0, a0)" by fastforce
  have "project_grants p0 \<subseteq> project_grants p \<union> ?G"
    using start dig trust_shell_grants [where p = p] by (fastforce simp: fresh_digests_def split: option.splits)
  then have "project_grants p' \<subseteq> project_grants p \<union> ?G"
    using approve_scopes_grants [OF fold [unfolded start]] by (auto simp: fresh_digests_def)
  from put_project_grants [OF p this] fresh show ?thesis unfolding w' by blast
qed

lemma approve_task_grants:
  assumes "approve_task_edit pid tid d w = Inr (v, w')"
  shows "\<exists>p t. find_project w pid = Inr p \<and> find_task p tid = Inr t
    \<and> grants w' \<subseteq> insert (TaskGrant pid (t\<lparr>ta_approved_digest := None\<rparr>) d) (grants w)"
proof -
  from assms obtain p t where p: "find_project w pid = Inr p" and t: "find_task p tid = Inr t"
    and w': "w' = put_project pid (p\<lparr>pr_tasks := update_first (\<lambda>t. ta_id t = tid)
       (\<lambda>t. t\<lparr>ta_approved_digest := Some d\<rparr>) (pr_tasks p)\<rparr>) w"
    unfolding approve_task_edit_def by (auto simp: res_simps dest!: edit_project_Inr)
  have "project_grants (p\<lparr>pr_tasks := update_first (\<lambda>t. ta_id t = tid)
       (\<lambda>t. t\<lparr>ta_approved_digest := Some d\<rparr>) (pr_tasks p)\<rparr>)
     \<subseteq> project_grants p \<union> {TaskGrant pid (t\<lparr>ta_approved_digest := None\<rparr>) d}"
    using t find_project_Some [OF p]
    by (fastforce simp: project_grants_def find_task_def res_simps task_grant_def
        dest!: update_first_find)
  from put_project_grants [OF p this] p t show ?thesis unfolding w' by blast
qed

end
