(* ===== verification/Trust_Properties.thy ===== *)
theory Trust_Properties
  imports Trust_Safety "HOL-Library.Multiset"
begin

text \<open>
  The claims about project definitions, trust and launches, with concrete instances: a
  workspace with one native project and one task, and a machine on which every directory exists.
\<close>

section \<open>A concrete workspace\<close>

definition demo_workspace :: workspace where
  "demo_workspace = default_workspace\<lparr>ws_projects := [demo_project]\<rparr>"

definition demo_meta :: file_meta where
  "demo_meta = \<lparr>fm_is_file = False, fm_is_dir = True, fm_len = 0, fm_uid = 1000, fm_mode = 448,
     fm_identity = (1, 2), fm_times = []\<rparr>"

definition demo_machine :: os where
  "demo_machine = demo_os\<lparr>os_metadata := (\<lambda>_. Inr demo_meta)\<rparr>"

definition demo_ob :: observation where
  "demo_ob = \<lparr>ob_os = demo_machine, ob_restat = (\<lambda>_. Inr demo_meta), ob_recanon = Inr,
     ob_try_exists = (\<lambda>_. Inr False), ob_access = (\<lambda>_. Inr ()),
     ob_inspect_shell = (\<lambda>_ _. Inl (Os ''ENOENT'')), ob_discover = (\<lambda>_. Inl (Os ''ENOENT'')),
     ob_verify = (\<lambda>_. Inr ()), ob_declaration = (\<lambda>_. Inr None)\<rparr>"

definition demo_env :: launch_environment where
  "demo_env = \<lparr>le_variables = [(''HOME'', ''/h'')]\<rparr>"

definition demo_json :: json where
  "demo_json m = Inr ''{}''"

definition demo_terminal :: terminal_definition where
  "demo_terminal = \<lparr>td_id = ''t9'', td_name = ''shell'', td_cwd = ''/w'', td_sources = [],
     td_persistent = True, td_trusted_digest = Some ''forged''\<rparr>"

section \<open>Finding what was just put\<close>

lemma find_update_first:
  "find P xs = Some x \<Longrightarrow> P (f x) \<Longrightarrow> find P (update_first P f xs) = Some (f x)"
  by (induction xs) (auto split: if_splits)

lemma find_put_project:
  "find_project w pid = Inr p \<Longrightarrow> pr_id p' = pid \<Longrightarrow> find_project (put_project pid p' w) pid = Inr p'"
  by (auto simp: find_project_def put_project_def res_simps find_update_first)

lemma find_task_update:
  assumes "find_task p tid = Inr t" "ta_id (f t) = tid"
  shows "find_task (p\<lparr>pr_tasks := update_first (\<lambda>t. ta_id t = tid) f (pr_tasks p)\<rparr>) tid = Inr (f t)"
  using assms by (auto simp: find_task_def res_simps find_update_first)

lemma find_task_id: "find_task p tid = Inr t \<Longrightarrow> ta_id t = tid"
  by (auto simp: find_task_def res_simps find_Some_iff)

lemma validate_step_cong [simp]:
  "validate_task_entry x ids (t\<lparr>ta_approved_digest := d\<rparr>) = validate_task_entry x ids t"
proof -
  have "validate_execution (t\<lparr>ta_approved_digest := d\<rparr>) = validate_execution t"
    by (intro ext) (simp add: validate_execution_def)
  then show ?thesis by (simp add: validate_task_entry_def)
qed

lemma fold_res_update_first:
  "(\<And>b t. g b (f t) = g b t) \<Longrightarrow> fold_res g b (update_first P f ts) = fold_res g b ts"
  by (induction ts arbitrary: b) (auto simp: and_then_def split: sum.splits)

lemma length_update_first [simp]: "length (update_first P f xs) = length xs"
  by (induction xs) auto

lemma validate_project_approved [simp]:
  "validate_project x (p\<lparr>pr_tasks := update_first P (\<lambda>t. t\<lparr>ta_approved_digest := d\<rparr>) (pr_tasks p)\<rparr>)
   = validate_project x p"
proof -
  have "validate_binding_agrees (p\<lparr>pr_tasks := ts\<rparr>) = validate_binding_agrees p"
    "validate_native (p\<lparr>pr_tasks := ts\<rparr>) = validate_native p" for ts
    by (intro ext, simp add: validate_binding_agrees_def validate_native_def)+
  then show ?thesis
    by (simp add: validate_project_def fold_res_update_first cong: option.case_cong)
qed

lemma approval_digest_approved:
  "approval_digest x sy (p\<lparr>pr_tasks := ts\<rparr>) (t\<lparr>ta_approved_digest := d\<rparr>) common
   = approval_digest x sy p t common"
proof -
  have "source_digest x sy (p\<lparr>pr_tasks := ts\<rparr>) = source_digest x sy p"
    by (simp add: source_digest_def Let_def)
  then show ?thesis by (simp add: approval_digest_def task_digest_def Let_def)
qed

lemma legacy_common_tasks: "legacy_common x js ob (p\<lparr>pr_tasks := ts\<rparr>) e = legacy_common x js ob p e"
  by (simp add: legacy_common_def)

lemma initialization_approved:
  "initialization x js ob (p\<lparr>pr_tasks := ts\<rparr>) (t\<lparr>ta_approved_digest := d\<rparr>) e = initialization x js ob p t e"
  by (cases "sc_native (pr_shell p)") (simp_all add: initialization_def common_scope_def legacy_common_tasks)

section \<open>Edits and trust\<close>

text \<open>C37 (edits_create_no_trust). No edit of projects, shells, terminals, repositories or tasks creates trust: every
  stored approval after it was there before, for the same content.  In particular a client
  cannot smuggle one in with the definition it saves.  (A preview comes without tasks.)\<close>

theorem edits_create_no_trust:
  assumes "apply_edit x ob e w = Inr w'"
    and "\<forall>n preview. e = Create n preview \<longrightarrow> pr_tasks (cp_project preview) = []"
  shows "grants w' \<subseteq> grants w"
  using assms by (rule apply_edit_grants)

theorem edits_create_no_trust_witness:
  "let w' = apply_edit demo_ext demo_ob (SaveTerminal ''p1'' demo_terminal) demo_workspace
   in is_ok w' \<and> (\<forall>v. w' = Inr v \<longrightarrow> grants v \<subseteq> grants demo_workspace)"
proof -
  have ok: "is_ok (apply_edit demo_ext demo_ob (SaveTerminal ''p1'' demo_terminal) demo_workspace)"
    by code_simp
  show ?thesis
    using ok edits_create_no_trust [of demo_ext demo_ob "SaveTerminal ''p1'' demo_terminal" demo_workspace]
    by (simp add: Let_def)
qed

text \<open>An edit changes no project but its target: the other projects keep their
  definitions and their order.\<close>

theorem edits_touch_one_project:
  assumes "apply_edit x ob e w = Inr w'"
  shows "filter (\<lambda>p. pr_id p \<noteq> edit_target e) (ws_projects w')
    = filter (\<lambda>p. pr_id p \<noteq> edit_target e) (ws_projects w)"
  using apply_edit_others [OF assms] by (simp add: others_def)

theorem edits_touch_one_project_witness:
  "let w = demo_workspace\<lparr>ws_projects := [demo_project, demo_project\<lparr>pr_id := ''p2''\<rparr>]\<rparr>;
       r = apply_edit demo_ext demo_ob (Rename ''p2'' ''new'') w
   in is_ok r \<and> (\<forall>w'. r = Inr w' \<longrightarrow> filter (\<lambda>p. pr_id p \<noteq> ''p2'') (ws_projects w') = [demo_project])"
proof -
  let ?w = "demo_workspace\<lparr>ws_projects := [demo_project, demo_project\<lparr>pr_id := ''p2''\<rparr>]\<rparr>"
  have ok: "is_ok (apply_edit demo_ext demo_ob (Rename ''p2'' ''new'') ?w)" by code_simp
  have f: "filter (\<lambda>p. pr_id p \<noteq> ''p2'') (ws_projects ?w) = [demo_project]"
    by (simp add: demo_project_def)
  show ?thesis
    using ok f edits_touch_one_project [of demo_ext demo_ob "Rename ''p2'' ''new''" ?w]
    by (simp add: Let_def)
qed

text \<open>A successful service operation applied its edit to the configuration on disk at the
  expected revision, and left on disk exactly the result of the edit, one revision later.\<close>

theorem change_commits:
  assumes "change x c st expected f w = (Inr v, w')"
    and "is_absolute (so_config_dir st)" and "codec_ok c"
  shows "\<exists>ws ws'. disk_config x c st w = Inr ws \<and> ws_revision ws = expected \<and> f ws = Inr (v, ws')
    \<and> disk_config x c st w' = Inr ((raise_schema ws')\<lparr>ws_revision := expected + 1\<rparr>)"
  using assms by (rule change_Inr)

theorem change_commits_witness:
  "let r = change demo_ext demo_codec demo_store 0 (\<lambda>w. Inr (ws_revision w, w)) demo_world
   in fst r = Inr 0 \<and> (\<exists>ws. disk_config demo_ext demo_codec demo_store (snd r) = Inr ws \<and> ws_revision ws = 1)"
proof -
  let ?f = "\<lambda>w. Inr (ws_revision w, w) :: (nat \<times> workspace) res"
  have "fst (change demo_ext demo_codec demo_store 0 ?f demo_world) = Inr 0" by code_simp
  then obtain w' where r: "change demo_ext demo_codec demo_store 0 ?f demo_world = (Inr 0, w')"
    by (metis prod.collapse)
  from change_commits [OF r demo_dir demo_codec_ok] r show ?thesis by (auto simp: Let_def)
qed

text \<open>Approving initialization grants nothing beyond what the approving operation has
  itself just read: every new grant carries a fingerprint of its fresh review of the machine,
  not merely the one the client presents.\<close>

theorem approval_grants_fresh:
  assumes "approve_initialization_edit x js ob n review w = Inr (v, w')"
  shows "\<exists>fresh. review_project x js ob w (ir_project_id review) (ir_environment review) = Inr fresh
    \<and> grants w' \<subseteq> grants w \<union> {g. Some (grant_digest g) \<in> fresh_digests fresh}"
  using assms by (rule approve_initialization_grants)

theorem approval_grants_fresh_witness:
  "\<exists>review. review_project demo_ext demo_json demo_ob demo_workspace ''p1'' demo_env = Inr review
    \<and> (\<exists>w'. approve_initialization_edit demo_ext demo_json demo_ob 0 review demo_workspace = Inr ((), w')
       \<and> grants w' \<subseteq> grants demo_workspace \<union> {g. Some (grant_digest g) \<in> fresh_digests review})"
proof -
  let ?r = "review_project demo_ext demo_json demo_ob demo_workspace ''p1'' demo_env"
  have "is_ok ?r" by code_simp
  then obtain review where r: "?r = Inr review" by (auto simp: is_ok_iff)
  have same: "ir_project_id review = ''p1'' \<and> ir_environment review = demo_env"
    using r by (auto simp: review_project_def res_simps Let_def)
  have "is_ok (and_then ?r (\<lambda>review. approve_initialization_edit demo_ext demo_json demo_ob 0 review demo_workspace))"
    by code_simp
  with r obtain w' where a: "approve_initialization_edit demo_ext demo_json demo_ob 0 review demo_workspace = Inr ((), w')"
    by (auto simp: is_ok_iff)
  from approval_grants_fresh [OF a] r same a show ?thesis by auto
qed

text \<open>C11 (edited_task_cannot_launch). A task that has just been saved cannot be launched, whatever the machine, the
  environment and the approval the client sent with it: it has to be approved again.\<close>

theorem edited_task_cannot_launch:
  assumes "save_task_edit x pid t w = Inr (v, w')"
  shows "\<not> is_ok (task_plan x js ob w' pid (ta_id t) e)"
proof -
  let ?t = "t\<lparr>ta_approved_digest := None\<rparr>"
  from assms obtain p ts where p: "find_project w pid = Inr p"
    and w': "w' = put_project pid (p\<lparr>pr_tasks := ts\<rparr>) w"
    and ts: "ts = (if list_ex (\<lambda>u. ta_id u = ta_id t) (pr_tasks p)
        then update_first (\<lambda>u. ta_id u = ta_id t) (\<lambda>_. ?t) (pr_tasks p) else pr_tasks p @ [?t])"
    unfolding save_task_edit_def
    by (auto simp: res_simps Let_def dest!: edit_project_Inr split: if_splits)
  have "find (\<lambda>u. ta_id u = ta_id t) (xs @ [?t]) = Some ?t" if "\<not> list_ex (\<lambda>u. ta_id u = ta_id t) xs" for xs
    using that by (induction xs) auto
  moreover have "find (\<lambda>u. ta_id u = ta_id t) (update_first (\<lambda>u. ta_id u = ta_id t) (\<lambda>_. ?t) xs) = Some ?t"
    if "list_ex (\<lambda>u. ta_id u = ta_id t) xs" for xs
    using that by (induction xs) auto
  ultimately have "find_task (p\<lparr>pr_tasks := ts\<rparr>) (ta_id t) = Inr ?t"
    by (simp add: find_task_def ts)
  moreover have "find_project w' pid = Inr (p\<lparr>pr_tasks := ts\<rparr>)"
    unfolding w' by (rule find_put_project [OF p]) (use find_project_Some [OF p] in simp)
  ultimately show ?thesis
    by (auto simp: task_plan_def is_ok_iff res_simps)
qed

theorem edited_task_cannot_launch_witness:
  "let t = demo_task\<lparr>ta_approved_digest := Some ''forged''\<rparr>;
       r = save_task_edit demo_ext ''p1'' t demo_workspace
   in is_ok r \<and> (\<forall>v w'. r = Inr (v, w') \<longrightarrow> \<not> is_ok (task_plan demo_ext demo_json demo_ob w' ''p1'' ''t1'' demo_env))"
proof -
  have "is_ok (save_task_edit demo_ext ''p1'' (demo_task\<lparr>ta_approved_digest := Some ''forged''\<rparr>) demo_workspace)"
    by code_simp
  moreover have "ta_id (demo_task\<lparr>ta_approved_digest := d\<rparr>) = ''t1''" for d by (simp add: demo_task_def)
  ultimately show ?thesis
    using edited_task_cannot_launch
      [of demo_ext "''p1''" "demo_task\<lparr>ta_approved_digest := Some ''forged''\<rparr>" demo_workspace]
    by (simp add: Let_def)
qed

text \<open>C38 (approve_then_launch). Approving exactly the reviewed digest is what makes the task launchable: while the
  machine is as reviewed, the plan exists and carries that digest.\<close>

theorem approve_then_launch:
  assumes "review_task x js ob w pid tid e = Inr r" and "tk_common_approved r"
    and "approve_task_edit pid tid (tk_digest r) w = Inr (v, w')"
    and "find_project w pid = Inr p" and "validate_project x p = Inr ()"
    and "os_metadata (ob_os ob) (ta_cwd (tk_task r)) = Inr m" and "fm_is_dir m"
  shows "\<exists>plan. task_plan x js ob w' pid tid e = Inr plan \<and> tl_launch_digest plan = tk_digest r"
proof -
  from assms(1,4) obtain t common where t: "find_task p tid = Inr t" "tk_task r = t"
    and i: "initialization x js ob p t e = Inr (common, tk_common_approved r)"
    and d: "approval_digest x (ob_os ob) p t common = Inr (tk_digest r)"
    by (auto simp: review_task_def res_simps)
  from d obtain root cwd where c: "os_canonicalize (ob_os ob) (pr_root p) = Inr root"
    "os_canonicalize (ob_os ob) (ta_cwd t) = Inr cwd"
    by (auto simp: approval_digest_def Let_def res_simps)
  let ?f = "\<lambda>t. t\<lparr>ta_approved_digest := Some (tk_digest r)\<rparr>"
  let ?p = "p\<lparr>pr_tasks := update_first (\<lambda>t. ta_id t = tid) ?f (pr_tasks p)\<rparr>"
  have "w' = put_project pid ?p w"
    using assms(3,4) unfolding approve_task_edit_def by (auto simp: res_simps dest!: edit_project_Inr)
  then have "find_project w' pid = Inr ?p"
    using find_put_project [OF assms(4)] find_project_Some [OF assms(4)] by simp
  moreover have "find_task ?p tid = Inr (?f t)"
    by (rule find_task_update [OF t(1)]) (simp add: find_task_id [OF t(1)])
  ultimately show ?thesis
    using i d c assms(2,5-7) t(2)
    by (simp add: task_plan_def initialization_approved approval_digest_approved)
qed

theorem approve_then_launch_witness:
  "\<exists>r w' plan. review_task demo_ext demo_json demo_ob demo_workspace ''p1'' ''t1'' demo_env = Inr r
    \<and> approve_task_edit ''p1'' ''t1'' (tk_digest r) demo_workspace = Inr ((), w')
    \<and> task_plan demo_ext demo_json demo_ob w' ''p1'' ''t1'' demo_env = Inr plan"
proof -
  let ?r = "review_task demo_ext demo_json demo_ob demo_workspace ''p1'' ''t1'' demo_env"
  have "is_ok ?r" by code_simp
  then obtain r where r: "?r = Inr r" by (auto simp: is_ok_iff)
  have p: "find_project demo_workspace ''p1'' = Inr demo_project" by code_simp
  have v: "validate_project demo_ext demo_project = Inr ()" by code_simp
  have c: "tk_common_approved r"
    using r by (auto simp: review_task_def res_simps p find_task_def demo_project_def demo_task_def initialization_def)
  have "is_ok (approve_task_edit ''p1'' ''t1'' d demo_workspace)" for d
    by (simp add: approve_task_edit_def edit_project_def p find_task_def demo_project_def demo_task_def)
  then obtain w' where a: "approve_task_edit ''p1'' ''t1'' (tk_digest r) demo_workspace = Inr ((), w')"
    by (metis is_ok_iff old.unit.exhaust surj_pair)
  have m: "os_metadata (ob_os demo_ob) (ta_cwd (tk_task r)) = Inr demo_meta" "fm_is_dir demo_meta"
    by (simp_all add: demo_ob_def demo_machine_def demo_meta_def)
  from approve_then_launch [OF r c a p v m] r a show ?thesis by blast
qed

text \<open>C13 (terminal_launch_needs_trust). A terminal is launched only when the shell and the terminal are trusted as the
  machine is now: the plan's fingerprint is the one just computed over the startup files and
  scripts, and where the scope is under review the stored approvals equal the fresh
  fingerprints.  A saved terminal must be as the client last saw it.\<close>

theorem terminal_launch_needs_trust:
  assumes "terminal_plan x js ob w pid t e = Inr plan"
  shows "\<exists>p dc. find_project w pid = Inr p
    \<and> (let common = managed_common_scope x js ob w p e;
           review = managed_terminal_scope x js ob w p t e common in
         ts_digest common = Some dc \<and> (shell_reviewed w p \<longrightarrow> sc_trusted_digest (pr_shell p) = Some dc)
         \<and> ts_digest review = Some (tp_launch_digest plan)
         \<and> (terminal_reviewed w p t \<longrightarrow> td_trusted_digest t = Some (tp_launch_digest plan)))
    \<and> (td_persistent t \<longrightarrow> (\<exists>u\<in>set (pr_terminals p). td_id u = td_id t \<and> same_terminal u t
          \<and> td_trusted_digest u = td_trusted_digest t))
    \<and> is_ready (path_availability ob (td_cwd t))"
proof -
  from assms obtain p where p: "find_project w pid = Inr p"
    and saved: "(case find (\<lambda>u. td_id u = td_id t) (pr_terminals p) of
        Some saved \<Rightarrow> ensure (same_terminal saved t \<and> td_trusted_digest saved = td_trusted_digest t)
          ''terminal definition changed; reload before starting'' (Inr ())
      | None \<Rightarrow> ensure (\<not> td_persistent t) ''persistent terminal is not registered'' (Inr ())) = Inr ()"
    and tc: "ts_trusted (managed_common_scope x js ob w p e)"
    and tt: "ts_trusted (managed_terminal_scope x js ob w p t e (managed_common_scope x js ob w p e))"
    and d: "ts_digest (managed_terminal_scope x js ob w p t e (managed_common_scope x js ob w p e))
      = Some (tp_launch_digest plan)"
    and r: "is_ready (path_availability ob (td_cwd t))"
    by (auto simp: terminal_plan_def res_simps Let_def)
  have "td_persistent t \<longrightarrow> (\<exists>u\<in>set (pr_terminals p). td_id u = td_id t \<and> same_terminal u t
          \<and> td_trusted_digest u = td_trusted_digest t)"
    using saved by (auto simp: res_simps find_Some_iff split: option.splits)
  with p managed_common_trusted [OF tc] managed_terminal_trusted [OF tt] d r show ?thesis
    by (auto simp: Let_def)
qed

text \<open>A legacy csh project whose shell and terminal were approved on this machine.\<close>

definition csh_ob :: observation where
  "csh_ob = demo_ob\<lparr>ob_inspect_shell := (\<lambda>p _. Inr \<lparr>sn_canonical = p, sn_kind = BsdCsh, sn_login_first = False\<rparr>),
     ob_restat := (\<lambda>_. Inr (demo_meta\<lparr>fm_is_file := True\<rparr>)),
     ob_os := \<lparr>os_canonicalize = (\<lambda>p. if p \<in> set [''/bin/csh'', ''/w'', ''/h''] then Inr p else Inl NotFound),
       os_metadata = (\<lambda>_. Inr (demo_meta\<lparr>fm_is_file := True\<rparr>)),
       os_open = (\<lambda>_. Inr (demo_meta\<lparr>fm_is_file := True\<rparr>, ''csh''))\<rparr>\<rparr>"

definition csh_project :: "string option \<Rightarrow> project" where
  "csh_project d = demo_project\<lparr>pr_tasks := [], pr_shell := \<lparr>sc_native = None, sc_executable = ''/bin/csh'',
     sc_login = False, sc_init_cwd = ''/w'', sc_sources = [], sc_trusted_digest = d\<rparr>\<rparr>"

definition csh_common :: trust_scope where
  "csh_common = common_scope demo_ext demo_json csh_ob (csh_project None) demo_env"

definition csh_terminal :: terminal_definition where
  "csh_terminal = demo_terminal\<lparr>td_persistent := False, td_trusted_digest :=
     ts_digest (terminal_scope demo_ext demo_json csh_ob (csh_project None) demo_terminal demo_env csh_common)\<rparr>"

definition csh_workspace :: workspace where
  "csh_workspace = default_workspace\<lparr>ws_projects := [csh_project (ts_digest csh_common)]\<rparr>"

theorem terminal_launch_needs_trust_witness:
  "\<exists>plan. terminal_plan demo_ext demo_json csh_ob csh_workspace ''p1'' csh_terminal demo_env = Inr plan
    \<and> shell_reviewed csh_workspace (csh_project (ts_digest csh_common))
    \<and> td_trusted_digest csh_terminal = Some (tp_launch_digest plan)"
proof -
  have "is_ok (terminal_plan demo_ext demo_json csh_ob csh_workspace ''p1'' csh_terminal demo_env)"
    by code_simp
  then obtain plan where plan: "terminal_plan demo_ext demo_json csh_ob csh_workspace ''p1'' csh_terminal demo_env = Inr plan"
    by (auto simp: is_ok_iff)
  have f: "find_project csh_workspace ''p1'' = Inr (csh_project (ts_digest csh_common))"
    by (simp add: find_project_def csh_workspace_def csh_project_def demo_project_def)
  have r: "shell_reviewed csh_workspace (csh_project d)" "terminal_reviewed csh_workspace (csh_project d) t" for d t
    by (simp_all add: shell_reviewed_def terminal_reviewed_def csh_project_def)
  from terminal_launch_needs_trust [OF plan] f r plan show ?thesis by (auto simp: Let_def)
qed

text \<open>C12 (task_launch_needs_approval). A task is launched only with the approval that matches it now: the stored
  approval equals the digest recomputed from the definition, the scripts and directories on
  disk, and the initialization it will run under.\<close>

theorem task_launch_needs_approval:
  assumes "task_plan x js ob w pid tid e = Inr plan"
  shows "\<exists>p t. find_project w pid = Inr p \<and> find_task p tid = Inr t \<and> tl_task plan = t
    \<and> initialization x js ob p t e = Inr (tl_initialization_digest plan, True)
    \<and> approval_digest x (ob_os ob) p t (tl_initialization_digest plan) = Inr (tl_launch_digest plan)
    \<and> ta_approved_digest t = Some (tl_launch_digest plan)"
  using assms by (auto simp: task_plan_def res_simps)

theorem task_launch_needs_approval_witness:
  "\<exists>w plan. task_plan demo_ext demo_json demo_ob w ''p1'' ''t1'' demo_env = Inr plan
    \<and> ta_approved_digest (tl_task plan) = Some (tl_launch_digest plan)"
proof -
  let ?r = "review_task demo_ext demo_json demo_ob demo_workspace ''p1'' ''t1'' demo_env"
  let ?plan = "and_then ?r (\<lambda>r. and_then (approve_task_edit ''p1'' ''t1'' (tk_digest r) demo_workspace) (\<lambda>(_, w).
    task_plan demo_ext demo_json demo_ob w ''p1'' ''t1'' demo_env))"
  have "is_ok ?plan" by code_simp
  then obtain w plan where "task_plan demo_ext demo_json demo_ob w ''p1'' ''t1'' demo_env = Inr plan"
    by (auto simp: is_ok_iff res_simps)
  from task_launch_needs_approval [OF this] this show ?thesis by blast
qed

text \<open>Reconnecting moves exactly the paths under the old root: such a path keeps its
  components below the root, under the new root; every other path is untouched.\<close>

theorem remap_path_moves:
  assumes "is_absolute p" and "is_absolute old" and "is_absolute new"
  shows "(if starts_with p old
     then components (fst (remap_path old new field p))
       = components new @ drop (length (components old)) (components p)
     else remap_path old new field p = (p, []))"
proof (cases "strip_prefix p old")
  case None
  then show ?thesis by (auto simp: remap_path_def strip_prefix_def split: if_splits)
next
  case (Some suf)
  then have "starts_with p old" by (auto simp: strip_prefix_def split: if_splits)
  with strip_join_components [OF Some assms] Some show ?thesis
    by (auto simp: remap_path_def Let_def path_eq_def)
qed

theorem remap_path_moves_witness:
  "components (fst (remap_path ''/a'' ''/z'' ''f'' ''/a/b//c''))
    = [RootDir, Normal ''z'', Normal ''b'', Normal ''c'']"
  using remap_path_moves [of "''/a/b//c''" "''/a''" "''/z''" "''f''"]
  by (simp add: is_absolute_def starts_with_def components_def component_of_def)

text \<open>A reconnection replaces the project by its remapping and leaves it without any
  trust: shell, terminals and tasks have to be reviewed at the new place.\<close>

theorem rebind_drops_trust:
  assumes "rebind_edit x ob n preview w = Inr (v, w')"
  shows "\<exists>p q. find_project w (rb_project_id preview) = Inr p
    \<and> find_project w' (rb_project_id preview) = Inr q
    \<and> q = fst (remap_project ob (pr_root p) (rb_new_root preview) p) \<and> project_grants q = {}"
proof -
  from rebind_edit_project [OF assms] obtain r where
    r: "rebind_preview x ob w (rb_project_id preview) (rb_new_root preview) = Inr r"
      "ws_projects w' = ws_projects (put_project (rb_project_id preview) (rb_project r) w)" by blast
  from rebind_preview_project [OF r(1)] obtain p where
    p: "find_project w (rb_project_id preview) = Inr p"
      "rb_project r = fst (remap_project ob (pr_root p) (rb_new_root preview) p)" by blast
  have "find_project (put_project (rb_project_id preview) (rb_project r) w) (rb_project_id preview)
      = Inr (rb_project r)"
    by (rule find_put_project [OF p(1)]) (use p find_project_Some [OF p(1)] in simp)
  then have "find_project w' (rb_project_id preview) = Inr (rb_project r)"
    using r(2) by (simp add: find_project_def)
  with p remap_project_grants show ?thesis by metis
qed

theorem rebind_drops_trust_witness:
  "\<exists>preview w'. rebind_preview demo_ext demo_ob demo_workspace ''p1'' ''/z'' = Inr preview
    \<and> rebind_edit demo_ext demo_ob 0 preview demo_workspace = Inr w'
    \<and> (\<exists>q. find_project (snd w') ''p1'' = Inr q \<and> project_grants q = {})"
proof -
  let ?r = "rebind_preview demo_ext demo_ob demo_workspace ''p1'' ''/z''"
  have "is_ok (and_then ?r (\<lambda>r. rebind_edit demo_ext demo_ob 0 r demo_workspace))" by code_simp
  then obtain preview v w' where r: "?r = Inr preview"
    "rebind_edit demo_ext demo_ob 0 preview demo_workspace = Inr (v, w')"
    by (auto simp: is_ok_iff res_simps)
  have "rb_project_id preview = ''p1''" using r(1) by (auto simp: rebind_preview_def res_simps case_prod_beta)
  with rebind_drops_trust [OF r(2)] r show ?thesis by auto
qed

text \<open>Reordering terminals keeps exactly the terminals of the project, in the order of
  the given ids.\<close>

theorem reorder_permutes:
  assumes "reorder_terminals_edit pid ids w = Inr (v, w')"
    and "find_project w pid = Inr p" and "distinct (map td_id (pr_terminals p))"
  shows "\<exists>q. find_project w' pid = Inr q \<and> map td_id (pr_terminals q) = ids
    \<and> mset (pr_terminals q) = mset (pr_terminals p)"
proof -
  let ?pick = "\<lambda>i. the (find (\<lambda>t. td_id t = i) (pr_terminals p))"
  let ?q = "p\<lparr>pr_terminals := map ?pick ids\<rparr>"
  from assms(1,2) have w': "w' = put_project pid ?q w"
    and ids: "length ids = length (pr_terminals p)" "distinct ids"
      "\<forall>i\<in>set ids. \<exists>t\<in>set (pr_terminals p). td_id t = i"
    unfolding reorder_terminals_edit_def
    by (auto simp: res_simps list_all_iff list_ex_iff dest!: edit_project_Inr)
  have pick: "\<forall>i\<in>set ids. ?pick i \<in> set (pr_terminals p) \<and> td_id (?pick i) = i"
    using ids(3) find_by_id [of "pr_terminals p" td_id] by fastforce
  then have map: "map td_id (map ?pick ids) = ids" by (simp add: map_idI)
  have "distinct (map ?pick ids)" using map ids(2) by (metis distinct_map)
  moreover have "set (map ?pick ids) \<subseteq> set (pr_terminals p)" using pick by auto
  moreover have dp: "distinct (pr_terminals p)" using assms(3) by (simp add: distinct_map)
  ultimately have "set (map ?pick ids) = set (pr_terminals p)"
    using ids(1) by (metis card_subset_eq distinct_card finite_set length_map)
  then have "mset (map ?pick ids) = mset (pr_terminals p)"
    using \<open>distinct (map ?pick ids)\<close> dp set_eq_iff_mset_eq_distinct by blast
  moreover have "find_project w' pid = Inr ?q"
    unfolding w' by (rule find_put_project [OF assms(2)]) (use find_project_Some [OF assms(2)] in simp)
  ultimately show ?thesis using map by auto
qed

definition two_terminals :: project where
  "two_terminals = demo_project\<lparr>pr_terminals := [demo_terminal, demo_terminal\<lparr>td_id := ''t8''\<rparr>]\<rparr>"

theorem reorder_permutes_witness:
  "\<exists>w' q. reorder_terminals_edit ''p1'' [''t8'', ''t9''] (demo_workspace\<lparr>ws_projects := [two_terminals]\<rparr>) = Inr ((), w')
    \<and> find_project w' ''p1'' = Inr q \<and> map td_id (pr_terminals q) = [''t8'', ''t9'']"
proof -
  let ?w = "demo_workspace\<lparr>ws_projects := [two_terminals]\<rparr>"
  have "is_ok (reorder_terminals_edit ''p1'' [''t8'', ''t9''] ?w)" by code_simp
  then obtain w' where r: "reorder_terminals_edit ''p1'' [''t8'', ''t9''] ?w = Inr ((), w')"
    by (auto simp: is_ok_iff)
  have f: "find_project ?w ''p1'' = Inr two_terminals" "distinct (map td_id (pr_terminals two_terminals))"
    by code_simp+
  from reorder_permutes [OF r f] r show ?thesis by auto
qed

end
