(* ===== verification/Run_Types.thy ===== *)
theory Run_Types
  imports Digest
begin

text \<open>
  The records of a run (\<open>run_wire.rs\<close>), of its structured result (\<open>structured_result.rs\<close>) and
  events (\<open>result_store.rs\<close>), and of the saved ledgers (\<open>saved_state.rs\<close>, \<open>git_wire.rs\<close>,
  \<open>protocol.rs\<close>).  Exit codes are \<open>u32\<close> or \<open>i32\<close> in the code; they are only stored and
  compared.
\<close>

section \<open>Runs\<close>

datatype run_state =
    RPreparing | RRunning | RCancelling | RSucceeded | RFailed | RCancelled | RUnknown

definition run_is_live :: "run_state \<Rightarrow> bool" where
  "run_is_live s = (s \<in> {RPreparing, RRunning, RCancelling})"

lemma run_is_live_simps [simp]:
  "run_is_live RPreparing" "run_is_live RRunning" "run_is_live RCancelling"
  "\<not> run_is_live RSucceeded" "\<not> run_is_live RFailed" "\<not> run_is_live RCancelled"
  "\<not> run_is_live RUnknown"
  by (simp_all add: run_is_live_def)

datatype log_state =
    LDisabled | LRecording | LComplete | LLimited | LWriteFailed | LExpired | LPartial

type_synonym file_key = "nat \<times> nat"

record log_descriptor =
  ld_run_id :: string
  ld_generation :: nat
  ld_state :: log_state
  ld_bytes :: nat
  ld_observed_bytes :: nat
  ld_limit_bytes :: nat
  ld_merged_pty :: bool
  ld_file_identity :: "file_key option"

record step_result =
  sr_index :: nat
  sr_name :: string
  sr_exit_code :: "int option"

record source_observation =
  so_identity :: "path option"
  so_generation :: "64 word option"
  so_git_head :: "string option"
  so_dirty :: "bool option"
  so_status_digest :: "string option"
  so_error :: "string option"

record file_identity =
  fk_device :: nat
  fk_inode :: nat
  fk_size :: nat
  fk_times :: "int list"

record artifact_snapshot =
  as_path :: path
  as_sha256 :: string
  as_size :: nat
  as_identity :: file_identity

record artifact_relation =
  ar_path :: "path option"
  ar_from_task :: "string option"
  ar_from_run :: "string option"
  ar_verified_bytes :: bool
  ar_snapshot :: "artifact_snapshot option"
  ar_snapshot_error :: "string option"
  ar_observed_at_ms :: "nat option"

section \<open>Results and events\<close>

record body_reference =
  bd_run_id :: string
  bd_sha256 :: string
  bd_bytes :: nat

record result_summary =
  rs_schema_id :: string
  rs_schema_version :: nat
  rs_producer :: string
  rs_producer_version :: string
  rs_producer_run_id :: "string option"
  rs_findings_count :: nat
  rs_complete :: "bool option"
  rs_selected_gate :: "string option"
  rs_workspace_gate :: "string option"
  rs_scope_kind :: "string option"
  rs_identity_digest :: string
  rs_scope_digest :: string

text \<open>The inline document of the legacy form is kept as its JSON text.\<close>

datatype structured_result =
    ResultMissing
  | ResultInvalid string "body_reference option"
  | ResultUnsupported string nat "body_reference option"
  | ResultOversize nat nat
  | ResultLimited nat nat
  | ResultStorageFailed string
  | ResultExpired body_reference
  | ResultTampered body_reference string
  | ResultStored result_summary body_reference
  | ResultAvailable string path string string nat string "string option" string

definition result_body :: "structured_result \<Rightarrow> body_reference option" where
  "result_body r = (case r of
      ResultStored _ b \<Rightarrow> Some b | ResultExpired b \<Rightarrow> Some b | ResultTampered b _ \<Rightarrow> Some b
    | ResultInvalid _ b \<Rightarrow> b | ResultUnsupported _ _ b \<Rightarrow> b | _ \<Rightarrow> None)"

definition result_summary_of :: "structured_result \<Rightarrow> result_summary option" where
  "result_summary_of r = (case r of ResultStored s _ \<Rightarrow> Some s | _ \<Rightarrow> None)"

definition result_status_label :: "structured_result \<Rightarrow> string" where
  "result_status_label r = (case r of
      ResultMissing \<Rightarrow> ''missing'' | ResultInvalid _ _ \<Rightarrow> ''invalid''
    | ResultUnsupported _ _ _ \<Rightarrow> ''unsupported'' | ResultOversize _ _ \<Rightarrow> ''oversize''
    | ResultLimited _ _ \<Rightarrow> ''limited'' | ResultStorageFailed _ \<Rightarrow> ''storage_failed''
    | ResultExpired _ \<Rightarrow> ''expired'' | ResultTampered _ _ \<Rightarrow> ''tampered''
    | ResultStored _ _ \<Rightarrow> ''stored'' | ResultAvailable _ _ _ _ _ _ _ _ \<Rightarrow> ''legacy_inline'')"

datatype event_state =
    EvMissing | EvObserved | EvPartial | EvInvalid | EvOversize | EvExpired | EvTampered
  | EvStorageFailed

record progress_event =
  pe_seq :: nat
  pe_event_type :: string
  pe_producer_run_id :: string
  pe_task_id :: "string option"
  pe_message :: string

record event_progress =
  ep_state :: event_state
  ep_bytes_observed :: nat
  ep_events_observed :: nat
  ep_invalid_events :: nat
  ep_sequence_gaps :: nat
  ep_truncated_tail :: bool
  ep_latest :: "progress_event option"
  ep_error :: "string option"
  ep_body :: "body_reference option"

definition default_events :: event_progress where
  "default_events = \<lparr>ep_state = EvMissing, ep_bytes_observed = 0, ep_events_observed = 0,
     ep_invalid_events = 0, ep_sequence_gaps = 0, ep_truncated_tail = False, ep_latest = None,
     ep_error = None, ep_body = None\<rparr>"

record run_info =
  ri_run_id :: string
  ri_operation_id :: string
  ri_project_id :: string
  ri_task_id :: string
  ri_name :: string
  ri_session_id :: "string option"
  ri_state :: run_state
  ri_definition_revision :: nat
  ri_launch_digest :: string
  ri_initialization_digest :: string
  ri_cwd :: path
  ri_source_roots :: "path list"
  ri_build_outputs :: "path list"
  ri_started_at_ms :: nat
  ri_finished_at_ms :: "nat option"
  ri_timeout_seconds :: "nat option"
  ri_timeout_requested :: bool
  ri_cancel_requested :: bool
  ri_cleanup_confirmed :: bool
  ri_exit_code :: "nat option"
  ri_signal :: "string option"
  ri_steps :: "step_result list"
  ri_structured_result :: "structured_result option"
  ri_pinned :: bool
  ri_events :: "event_progress option"
  ri_source_start :: source_observation
  ri_source_end :: "source_observation option"
  ri_source_changed :: "bool option"
  ri_artifact :: artifact_relation
  ri_log :: log_descriptor
  ri_error :: "string option"

record terminal_exit =
  te_code :: nat
  te_signal :: "string option"

section \<open>Ledgers\<close>

record retired_run =
  rt_run_id :: string
  rt_result :: "body_reference option"
  rt_events :: "body_reference option"
  rt_log_identity :: "file_key option"
  rt_runtime_identity :: "file_key option"

record run_ledger =
  rl_schema :: nat
  rl_runs :: "run_info list"
  rl_retired :: "retired_run list"

datatype session_state =
    SPreparing | SRunning | SClosing | SClosed | SExited | SFailed | SUnknown

record host_record =
  hr_session_id :: string
  hr_project_id :: string
  hr_terminal_id :: string
  hr_name :: string
  hr_persistent :: bool
  hr_state :: session_state
  hr_definition_revision :: nat
  hr_launch_digest :: "string option"
  hr_exit :: "terminal_exit option"
  hr_purpose :: "string option"
  hr_run_id :: "string option"

record host_ledger =
  hl_schema :: nat
  hl_sessions :: "host_record list"

record host_exit =
  hx_schema :: nat
  hx_host_instance :: string
  hx_pid :: nat
  hx_started_at_ms :: nat
  hx_stopped_at_ms :: "nat option"
  hx_error :: "string option"

datatype git_operation_kind =
    GStage | GUnstage | GCommit | GCreateBranch | GSwitchBranch | GFetch | GPullFastForward | GPush

datatype git_operation_state = GPending | GRunning | GCancelling | GComplete | GUnknown

datatype git_outcome =
    OSucceeded | OFailed | OCancelled | OUnknown | OChangedAfterExecution

record git_record =
  gr_id :: string
  gr_context_id :: string
  gr_project_id :: string
  gr_repository :: repository
  gr_kind :: git_operation_kind
  gr_state :: git_operation_state
  gr_cleanup_acknowledged :: bool
  gr_outcome :: "git_outcome option"
  gr_exit_code :: "nat option"
  gr_commit :: "string option"
  gr_error :: "string option"

record git_ledger =
  gl_schema :: nat
  gl_operations :: "git_record list"

end
