(* ===== verification/Saved_State.thy ===== *)
theory Saved_State
  imports Run_Types
begin

text \<open>
  Validation of the persisted records (\<open>saved_state.rs\<close>): the host, run and Git ledgers and the
  host exit record, as startup, package health and every ledger write run it.
\<close>

definition HOST_RECORD_LIMIT :: nat where
  "HOST_RECORD_LIMIT = MAX_PROJECTS * MAX_TERMINALS + MAX_TERMINALS"

definition RUN_RECORD_LIMIT :: nat where "RUN_RECORD_LIMIT = 64"
definition GIT_RECORD_LIMIT :: nat where "GIT_RECORD_LIMIT = 128"
definition LOG_BYTE_LIMIT :: nat where "LOG_BYTE_LIMIT = 4194304"
definition PINNED_RUN_LIMIT :: nat where "PINNED_RUN_LIMIT = 16"
definition PINNED_RESULT_BYTES :: nat where "PINNED_RESULT_BYTES = 134217728"
definition MAX_RESULT_BYTES :: nat where "MAX_RESULT_BYTES = 16777216"
definition MAX_EVENT_BYTES :: nat where "MAX_EVENT_BYTES = 8388608"
definition MAX_AUTO_ARTIFACT_BYTES :: nat where "MAX_AUTO_ARTIFACT_BYTES = 16777216"

definition saved_digest :: "string \<Rightarrow> unit res" where
  "saved_digest v = ensure (length v = 64 \<and> list_all is_ascii_hexdigit v) ''invalid saved digest'' (Inr ())"

definition object_id :: "string \<Rightarrow> unit res" where
  "object_id v = ensure (length v \<in> {40, 64} \<and> list_all is_ascii_hexdigit v)
     ''invalid saved Git object identity'' (Inr ())"

definition validate_observation :: "source_observation \<Rightarrow> unit res" where
  "validate_observation s =
    and_then (check_opt absolute_path (so_identity s)) (\<lambda>_.
    and_then (check_opt object_id (so_git_head s)) (\<lambda>_.
    check_opt saved_digest (so_status_digest s)))"

section \<open>Host sessions\<close>

definition validate_host_record :: "ext \<Rightarrow> host_record \<Rightarrow> unit res" where
  "validate_host_record x h =
    and_then (valid_id x (hr_session_id h)) (\<lambda>_.
    and_then (valid_id x (hr_project_id h)) (\<lambda>_.
    and_then (valid_id x (hr_terminal_id h)) (\<lambda>_.
    and_then (valid_name (hr_name h)) (\<lambda>_.
    and_then (check_opt saved_digest (hr_launch_digest h)) (\<lambda>_.
    (case hr_purpose h of
       None \<Rightarrow> ensure (hr_run_id h = None) ''ordinary terminal record has a Run identity'' (Inr ())
     | Some p \<Rightarrow>
         if p = ''run'' then
           ensure (\<not> hr_persistent h) ''Run terminal cannot be a saved shell definition''
           (case hr_run_id h of None \<Rightarrow> Inr ()
            | Some i \<Rightarrow> and_then (valid_id x i) (\<lambda>_.
                ensure (i = hr_terminal_id h) ''Run terminal identity mismatch'' (Inr ())))
         else if p = ''editor'' then
           ensure (\<not> hr_persistent h \<and> hr_run_id h = None) ''invalid editor terminal identity'' (Inr ())
         else Inl (Bail ''unsupported terminal purpose; record preserved'')))))))"

definition validate_host_entry ::
    "ext \<Rightarrow> (string \<times> string \<times> string) list \<Rightarrow> host_record \<Rightarrow> (string \<times> string \<times> string) list res" where
  "validate_host_entry x seen h =
    and_then (validate_host_record x h) (\<lambda>_.
    ensure (hr_session_id h \<notin> fst ` set seen
        \<and> (hr_project_id h, hr_terminal_id h) \<notin> snd ` set seen)
      ''duplicate session identity in host ledger; preserved''
      (Inr ((hr_session_id h, hr_project_id h, hr_terminal_id h) # seen)))"

definition validate_host_ledger :: "ext \<Rightarrow> host_ledger \<Rightarrow> unit res" where
  "validate_host_ledger x l =
    ensure (hl_schema l = 1 \<and> length (hl_sessions l) \<le> HOST_RECORD_LIMIT)
      ''unsupported or oversized host session ledger; preserved''
    (and_then (fold_res (validate_host_entry x) [] (hl_sessions l)) (\<lambda>_. Inr ()))"

definition validate_host_exit :: "ext \<Rightarrow> host_exit \<Rightarrow> unit res" where
  "validate_host_exit x h =
    ensure (hx_schema h = 1 \<and> 1 < hx_pid h) ''unsupported host exit record; preserved''
    (and_then (valid_id x (hx_host_instance h)) (\<lambda>_.
     ensure (case hx_stopped_at_ms h of None \<Rightarrow> True | Some s \<Rightarrow> hx_started_at_ms h \<le> s)
       ''host exit precedes its own start; record preserved''
     (ensure (case hx_error h of None \<Rightarrow> True | Some e \<Rightarrow> length e \<le> 1024 \<and> \<not> has_control e)
       ''invalid host exit detail; preserved'' (Inr ()))))"

section \<open>Runs\<close>

text \<open>Serialised sizes: \<open>serde_json::to_vec\<close> of a result and of event progress.\<close>

record run_json =
  json_result :: "structured_result \<Rightarrow> string res"
  json_events :: "event_progress \<Rightarrow> string res"

definition saturating_sum :: "nat list \<Rightarrow> nat" where
  "saturating_sum ns = foldl saturating_add 0 ns"

definition body_bytes :: "body_reference option \<Rightarrow> nat" where
  "body_bytes b = (case b of None \<Rightarrow> 0 | Some r \<Rightarrow> bd_bytes r)"

definition retained_bytes :: "run_info \<Rightarrow> nat" where
  "retained_bytes r = saturating_add
     (saturating_add (body_bytes (Option.bind (ri_structured_result r) result_body))
       (body_bytes (Option.bind (ri_events r) ep_body)))
     (ld_bytes (ri_log r))"

definition validate_retired_body :: "retired_run \<Rightarrow> body_reference option \<Rightarrow> nat \<Rightarrow> unit res" where
  "validate_retired_body t b limit = (case b of None \<Rightarrow> Inr () | Some r \<Rightarrow>
     ensure (bd_run_id r = rt_run_id t \<and> bd_bytes r \<le> limit) ''invalid retired body identity''
       (saved_digest (bd_sha256 r)))"

definition validate_retired ::
    "ext \<Rightarrow> run_info list \<Rightarrow> string list \<Rightarrow> retired_run \<Rightarrow> string list res" where
  "validate_retired x runs ids t =
    and_then (valid_id x (rt_run_id t)) (\<lambda>_.
    ensure (rt_run_id t \<notin> set ids \<and> \<not> list_ex (\<lambda>r. ri_run_id r = rt_run_id t) runs)
      ''retired Run is duplicated or still retained''
    (and_then (validate_retired_body t (rt_result t) MAX_RESULT_BYTES) (\<lambda>_.
     and_then (validate_retired_body t (rt_events t) MAX_EVENT_BYTES) (\<lambda>_.
     Inr (rt_run_id t # ids)))))"

definition validate_result :: "run_json \<Rightarrow> nat \<Rightarrow> run_info \<Rightarrow> structured_result \<Rightarrow> unit res" where
  "validate_result j schema r s =
    ensure (schema = 1 \<or> \<not> (case s of ResultAvailable _ _ _ _ _ _ _ _ \<Rightarrow> True | _ \<Rightarrow> False))
      ''new run ledger cannot inline result bodies''
    (and_then (case result_body s of None \<Rightarrow> Inr () | Some b \<Rightarrow>
        ensure (bd_run_id b = ri_run_id r \<and> bd_bytes b \<le> MAX_RESULT_BYTES)
          ''invalid result body reference'' (saved_digest (bd_sha256 b))) (\<lambda>_.
     if schema = 2 then and_then (json_result j s) (\<lambda>t.
       ensure (length t \<le> 8192) ''result summary exceeds ledger limit'' (Inr ()))
     else Inr ()))"

definition validate_events :: "run_json \<Rightarrow> run_info \<Rightarrow> event_progress \<Rightarrow> unit res" where
  "validate_events j r e =
    and_then (json_events j e) (\<lambda>t.
    ensure (length t \<le> 8192) ''event summary exceeds ledger limit''
    (case ep_body e of None \<Rightarrow> Inr () | Some b \<Rightarrow>
       ensure (bd_run_id b = ri_run_id r \<and> bd_bytes b \<le> MAX_EVENT_BYTES)
         ''invalid event body reference'' (saved_digest (bd_sha256 b))))"

definition validate_step_result :: "nat \<times> step_result \<Rightarrow> unit res" where
  "validate_step_result is = (case is of (i, s) \<Rightarrow>
    ensure (sr_index s = i) ''run step order is invalid''
    (and_then (valid_name (sr_name s)) (\<lambda>_.
     ensure (case sr_exit_code s of None \<Rightarrow> True | Some c \<Rightarrow> 0 \<le> c \<and> c \<le> 255)
       ''invalid step exit code'' (Inr ()))))"

definition validate_artifact :: "ext \<Rightarrow> nat \<Rightarrow> run_info \<Rightarrow> artifact_relation \<Rightarrow> unit res" where
  "validate_artifact x schema r a =
    and_then (check_opt absolute_path (ar_path a)) (\<lambda>_.
    and_then (check_opt (valid_id x) (ar_from_task a)) (\<lambda>_.
    and_then (check_opt (valid_id x) (ar_from_run a)) (\<lambda>_.
    and_then (check_opt (\<lambda>s. ensure (schema = 2
          \<and> (case ar_path a of None \<Rightarrow> False | Some p \<Rightarrow> path_eq (as_path s) p)
          \<and> as_size s \<le> MAX_AUTO_ARTIFACT_BYTES \<and> as_size s = fk_size (as_identity s)
          \<and> ar_observed_at_ms a \<noteq> None) ''invalid artifact byte observation''
        (saved_digest (as_sha256 s))) (ar_snapshot a)) (\<lambda>_.
    ensure (case ar_snapshot_error a of None \<Rightarrow> True
            | Some e \<Rightarrow> length e \<le> 2048 \<and> \<not> has_control e) ''invalid artifact observation error''
    (ensure (\<not> ar_verified_bytes a \<or> (schema = 2 \<and> ar_snapshot a \<noteq> None \<and> ar_from_run a \<noteq> None
        \<and> ar_from_task a \<noteq> None \<and> ri_cleanup_confirmed r))
      ''artifact equality lacks measured bytes or predecessor'' (Inr ()))))))"

definition validate_log :: "run_info \<Rightarrow> unit res" where
  "validate_log r = (let log = ri_log r in
     ensure (ld_run_id log = ri_run_id r \<and> 0 < ld_generation log
         \<and> ld_limit_bytes log \<le> LOG_BYTE_LIMIT \<and> ld_bytes log \<le> ld_limit_bytes log)
       ''invalid run log descriptor; ledger preserved'' (Inr ()))"

text \<open>The checks of one run that do not depend on the others.\<close>

definition validate_run_body :: "ext \<Rightarrow> run_json \<Rightarrow> nat \<Rightarrow> run_info \<Rightarrow> unit res" where
  "validate_run_body x j schema r =
    and_then (check_opt (validate_result j schema r) (ri_structured_result r)) (\<lambda>_.
    and_then (check_opt (validate_events j r) (ri_events r)) (\<lambda>_.
    ensure (\<not> ri_pinned r \<or> (\<not> run_is_live (ri_state r) \<and> ri_cleanup_confirmed r))
      ''pinned run must have confirmed cleanup''
    (and_then (valid_name (ri_name r)) (\<lambda>_.
     and_then (absolute_path (ri_cwd r)) (\<lambda>_.
     and_then (saved_digest (ri_launch_digest r)) (\<lambda>_.
     and_then (saved_digest (ri_initialization_digest r)) (\<lambda>_.
     ensure (ri_steps r \<noteq> [] \<and> length (ri_steps r) \<le> 64 \<and> length (ri_source_roots r) \<le> 128
         \<and> length (ri_build_outputs r) \<le> 32) ''run ledger record exceeds definition bounds''
     (and_then (check_all validate_step_result (enumerate 0 (ri_steps r))) (\<lambda>_.
      and_then (check_all absolute_path (ri_source_roots r @ ri_build_outputs r)) (\<lambda>_.
      and_then (validate_artifact x schema r (ri_artifact r)) (\<lambda>_.
      ensure (case ri_timeout_seconds r of None \<Rightarrow> True | Some s \<Rightarrow> 1 \<le> s \<and> s \<le> 604800)
        ''invalid run timeout''
      (and_then (validate_log r) (\<lambda>_.
       and_then (validate_observation (ri_source_start r)) (\<lambda>_.
       check_opt validate_observation (ri_source_end r)))))))))))))))"

type_synonym run_ids = "string list \<times> string list \<times> string list"

definition validate_run_entry :: "ext \<Rightarrow> run_json \<Rightarrow> nat \<Rightarrow> run_ids \<Rightarrow> run_info \<Rightarrow> run_ids res" where
  "validate_run_entry x j schema seen r = (case seen of (ids, operations, sessions) \<Rightarrow>
    and_then (valid_id x (ri_run_id r)) (\<lambda>_.
    and_then (valid_id x (ri_operation_id r)) (\<lambda>_.
    and_then (valid_id x (ri_project_id r)) (\<lambda>_.
    and_then (valid_id x (ri_task_id r)) (\<lambda>_.
    ensure (ri_run_id r \<notin> set ids \<and> ri_operation_id r \<notin> set operations)
      ''duplicate run or operation identity; ledger preserved''
    (and_then (case ri_session_id r of None \<Rightarrow> Inr sessions | Some i \<Rightarrow>
        and_then (valid_id x i) (\<lambda>_.
          insert_new ''duplicate Run session identity; ledger preserved'' sessions i)) (\<lambda>sessions'.
     and_then (validate_run_body x j schema r) (\<lambda>_.
     Inr (ri_run_id r # ids, ri_operation_id r # operations, sessions')))))))))"

definition validate_run_ledger :: "ext \<Rightarrow> run_json \<Rightarrow> run_ledger \<Rightarrow> unit res" where
  "validate_run_ledger x j l =
    ensure (rl_schema l \<in> {1, 2}
        \<and> length (filter (\<lambda>r. \<not> ri_pinned r) (rl_runs l)) \<le> RUN_RECORD_LIMIT
        \<and> length (filter ri_pinned (rl_runs l)) \<le> PINNED_RUN_LIMIT
        \<and> (rl_schema l = 2 \<or> list_all (\<lambda>r. \<not> ri_pinned r) (rl_runs l)))
      ''unsupported or oversized run ledger; preserved''
    (ensure (saturating_sum (map retained_bytes (filter ri_pinned (rl_runs l))) \<le> PINNED_RESULT_BYTES)
      ''pinned run budget exceeds 128 MiB''
    (ensure (length (rl_retired l) \<le> RUN_RECORD_LIMIT \<and> (rl_schema l = 2 \<or> rl_retired l = []))
      ''invalid retired Run cleanup journal''
    (and_then (fold_res (validate_retired x (rl_runs l)) [] (rl_retired l)) (\<lambda>_.
     and_then (fold_res (validate_run_entry x j (rl_schema l)) ([], [], []) (rl_runs l)) (\<lambda>_.
     Inr ())))))"

section \<open>Git operations\<close>

definition validate_git_record :: "ext \<Rightarrow> string list \<Rightarrow> git_record \<Rightarrow> string list res" where
  "validate_git_record x ids g =
    and_then (valid_id x (gr_id g)) (\<lambda>_.
    and_then (valid_id x (gr_context_id g)) (\<lambda>_.
    and_then (valid_id x (gr_project_id g)) (\<lambda>_.
    and_then (insert_new ''duplicate Git operation identity; ledger preserved'' ids (gr_id g)) (\<lambda>ids'.
    and_then (check_all absolute_path [rp_root (gr_repository g), rp_git_dir (gr_repository g),
        rp_common_dir (gr_repository g)]) (\<lambda>_.
    and_then (check_opt object_id (gr_commit g)) (\<lambda>_.
    ensure (\<not> gr_cleanup_acknowledged g \<or> gr_state g = GUnknown)
      ''cleanup acknowledgment belongs only to an unknown Git outcome'' (Inr ids')))))))"

definition validate_git_ledger :: "ext \<Rightarrow> git_ledger \<Rightarrow> unit res" where
  "validate_git_ledger x l =
    ensure (gl_schema l = 1 \<and> length (gl_operations l) \<le> GIT_RECORD_LIMIT)
      ''unsupported or oversized Git operation ledger; preserved''
    (and_then (fold_res (validate_git_record x) [] (gl_operations l)) (\<lambda>_. Inr ()))"

section \<open>What a valid run ledger guarantees\<close>

definition wf_run_ledger :: "ext \<Rightarrow> run_json \<Rightarrow> run_ledger \<Rightarrow> bool" where
  "wf_run_ledger x j l \<longleftrightarrow> rl_schema l \<in> {1, 2}
     \<and> length (filter (\<lambda>r. \<not> ri_pinned r) (rl_runs l)) \<le> RUN_RECORD_LIMIT
     \<and> length (filter ri_pinned (rl_runs l)) \<le> PINNED_RUN_LIMIT
     \<and> distinct (map ri_run_id (rl_runs l)) \<and> distinct (map ri_operation_id (rl_runs l))
     \<and> distinct (List.map_filter ri_session_id (rl_runs l))
     \<and> distinct (map rt_run_id (rl_retired l)) \<and> length (rl_retired l) \<le> RUN_RECORD_LIMIT
     \<and> set (map rt_run_id (rl_retired l)) \<inter> set (map ri_run_id (rl_runs l)) = {}
     \<and> (\<forall>r\<in>set (rl_runs l). validate_run_body x j (rl_schema l) r = Inr ())"

lemma fold_run_entries:
  "fold_res (validate_run_entry x j n) (a, b, c) rs = Inr s \<Longrightarrow>
   distinct (map ri_run_id rs) \<and> set (map ri_run_id rs) \<inter> set a = {}
   \<and> distinct (map ri_operation_id rs) \<and> set (map ri_operation_id rs) \<inter> set b = {}
   \<and> distinct (List.map_filter ri_session_id rs) \<and> set (List.map_filter ri_session_id rs) \<inter> set c = {}
   \<and> (\<forall>r\<in>set rs. validate_run_body x j n r = Inr ())"
proof (induction rs arbitrary: a b c)
  case Nil
  then show ?case by (simp add: List.map_filter_simps)
next
  case (Cons r rs)
  then obtain s1 where e: "validate_run_entry x j n (a, b, c) r = Inr s1"
    and rest: "fold_res (validate_run_entry x j n) s1 rs = Inr s" by (auto simp: res_simps)
  from e obtain c' where s1: "s1 = (ri_run_id r # a, ri_operation_id r # b, c')"
    and fresh: "ri_run_id r \<notin> set a" "ri_operation_id r \<notin> set b"
    and body: "validate_run_body x j n r = Inr ()"
    and c': "(case ri_session_id r of None \<Rightarrow> Inr c | Some i \<Rightarrow>
        and_then (valid_id x i) (\<lambda>_.
          insert_new ''duplicate Run session identity; ledger preserved'' c i)) = Inr c'"
    by (auto simp: validate_run_entry_def res_simps)
  from Cons.IH [OF rest [unfolded s1]] fresh body c' show ?case
    by (auto simp: List.map_filter_simps res_simps split: option.splits)
qed

lemma fold_retired:
  "fold_res (validate_retired x runs) ids ts = Inr s \<Longrightarrow>
   distinct (map rt_run_id ts) \<and> set (map rt_run_id ts) \<inter> set ids = {}
   \<and> set (map rt_run_id ts) \<inter> set (map ri_run_id runs) = {}"
proof (induction ts arbitrary: ids)
  case (Cons t ts)
  then obtain s1 where e: "validate_retired x runs ids t = Inr s1"
    and rest: "fold_res (validate_retired x runs) s1 ts = Inr s" by (auto simp: res_simps)
  from e have "s1 = rt_run_id t # ids" "rt_run_id t \<notin> set ids" "rt_run_id t \<notin> ri_run_id ` set runs"
    by (auto simp: validate_retired_def res_simps list_ex_iff)
  with Cons.IH [OF rest] show ?case by auto
qed simp

lemma validate_run_ledger_wf: "validate_run_ledger x j l = Inr u \<Longrightarrow> wf_run_ledger x j l"
  unfolding validate_run_ledger_def wf_run_ledger_def
  by (auto simp only: res_simps dest!: fold_run_entries fold_retired)

end
