(* ===== verification/Run_Log.thy ===== *)
theory Run_Log
  imports Saved_State
begin

text \<open>
  The bounded log writer of a run (\<open>run.rs\<close>: \<open>RunOutputSink\<close>).  The PTY reader pushes bytes
  into a channel of 32 chunks and never waits; a writer thread appends them to the log file up
  to the limit.  The threads meet only in the channel, the descriptor's mutex and the atomics,
  so a run of the sink is an interleaving of the steps below.  \<open>sk_stream\<close> is a history
  variable: every byte the reader has pushed, in order.
\<close>

datatype writer_phase = Looping | Syncing | Gone

record sink =
  sk_queue :: "string list"
  sk_pending :: "string list"
  sk_desc :: log_descriptor
  sk_observed :: nat
  sk_stopped :: bool
  sk_limited :: bool
  sk_partial :: bool
  sk_finished :: bool
  sk_file :: "string option"
  sk_written :: string
  sk_phase :: writer_phase
  sk_stream :: string

definition CHANNEL :: nat where "CHANNEL = 32"
definition CHUNK :: nat where "CHUNK = 8192"

text \<open>\<open>chunks(8192)\<close>; the second argument bounds the number of chunks.\<close>

fun chunks :: "nat \<Rightarrow> string \<Rightarrow> string list" where
  "chunks 0 b = []"
| "chunks (Suc n) b = (if b = [] then [] else take CHUNK b # chunks n (drop CHUNK b))"

definition chunks_of :: "string \<Rightarrow> string list" where
  "chunks_of b = chunks (length b) b"

definition new_sink :: "log_descriptor \<Rightarrow> file_key option \<Rightarrow> sink" where
  "new_sink d key =
    \<lparr>sk_queue = [], sk_pending = [], sk_desc = d\<lparr>ld_file_identity :=
        (if ld_state d = LDisabled then ld_file_identity d else key)\<rparr>,
     sk_observed = 0, sk_stopped = False, sk_limited = False, sk_partial = False,
     sk_finished = False, sk_file = (if ld_state d = LDisabled then None else Some []),
     sk_written = [], sk_phase = Looping, sk_stream = []\<rparr>"

text \<open>The descriptor clients see.\<close>

definition sink_descriptor :: "sink \<Rightarrow> log_descriptor" where
  "sink_descriptor s =
    (let d0 = (sk_desc s)\<lparr>ld_observed_bytes := sk_observed s\<rparr>;
         d1 = (if sk_limited s \<and> ld_state d0 \<in> {LRecording, LComplete}
               then d0\<lparr>ld_state := LLimited\<rparr> else d0) in
     if sk_partial s \<and> ld_state d1 \<in> {LRecording, LComplete} then d1\<lparr>ld_state := LPartial\<rparr> else d1)"

section \<open>The producer\<close>

definition push_begin :: "string \<Rightarrow> sink \<Rightarrow> sink" where
  "push_begin b s =
    (let s' = s\<lparr>sk_observed := sk_observed s + length b, sk_stream := sk_stream s @ b\<rparr> in
     if sk_stopped s then s'
     else if ld_state (sink_descriptor s) = LDisabled then s'
     else s'\<lparr>sk_pending := chunks_of b\<rparr>)"

text \<open>One \<open>try_send\<close>: it fails when the channel is full or the receiver is gone.\<close>

definition push_send :: "sink \<Rightarrow> sink" where
  "push_send s = (case sk_pending s of
      [] \<Rightarrow> s
    | c # cs \<Rightarrow>
        if length (sk_queue s) < CHANNEL \<and> sk_phase s \<noteq> Gone
        then s\<lparr>sk_queue := sk_queue s @ [c], sk_pending := cs\<rparr>
        else s\<lparr>sk_limited := True, sk_stopped := True, sk_pending := []\<rparr>)"

definition mark_partial :: "sink \<Rightarrow> sink" where
  "mark_partial s = s\<lparr>sk_partial := True\<rparr>"

definition sink_finish :: "sink \<Rightarrow> sink" where
  "sink_finish s = s\<lparr>sk_stopped := True, sk_finished := True\<rparr>"

section \<open>The writer thread\<close>

text \<open>\<open>write_all\<close> either writes every byte or fails after some of them.\<close>

definition write_chunk :: "nat option \<Rightarrow> string \<Rightarrow> sink \<Rightarrow> sink" where
  "write_chunk failed b s =
    (let d = sk_desc s;
         count = min (ld_limit_bytes d - ld_bytes d) (length b) in
     if \<not> (ld_state d \<in> {LRecording, LLimited}) then s
     else (case (sk_file s, failed) of
         (Some f, Some k) \<Rightarrow>
           s\<lparr>sk_file := None, sk_written := f @ take k (take count b),
             sk_desc := d\<lparr>ld_state := LWriteFailed\<rparr>\<rparr>
       | (file, _) \<Rightarrow>
           s\<lparr>sk_file := map_option (\<lambda>f. f @ take count b) file,
             sk_written := (case file of None \<Rightarrow> sk_written s | Some f \<Rightarrow> f @ take count b),
             sk_desc := d\<lparr>ld_bytes := ld_bytes d + count,
               ld_state := (if count < length b then LLimited else ld_state d)\<rparr>\<rparr>))"

definition writer_receive :: "nat option \<Rightarrow> sink \<Rightarrow> sink" where
  "writer_receive failed s = (case sk_queue s of
      [] \<Rightarrow> s | b # q \<Rightarrow> write_chunk failed b (s\<lparr>sk_queue := q\<rparr>))"

definition writer_sync :: "bool \<Rightarrow> sink \<Rightarrow> sink" where
  "writer_sync ok s =
    (let d = sk_desc s in
     s\<lparr>sk_phase := Gone, sk_queue := [],
       sk_desc := (if sk_file s \<noteq> None \<and> \<not> ok then d\<lparr>ld_state := LWriteFailed\<rparr>
         else if ld_state d = LRecording then d\<lparr>ld_state := LComplete\<rparr> else d)\<rparr>)"

inductive sink_step :: "sink \<Rightarrow> sink \<Rightarrow> bool" where
  begin_push: "sk_pending s = [] \<Longrightarrow> sink_step s (push_begin b s)"
| send_chunk: "sk_pending s \<noteq> [] \<Longrightarrow> sink_step s (push_send s)"
| partial: "sink_step s (mark_partial s)"
| finish: "sink_step s (sink_finish s)"
| receive: "sk_phase s = Looping \<Longrightarrow> sk_queue s \<noteq> [] \<Longrightarrow> sink_step s (writer_receive failed s)"
| leave: "sk_phase s = Looping \<Longrightarrow> sk_queue s = [] \<Longrightarrow> sk_finished s \<Longrightarrow>
    sink_step s (s\<lparr>sk_phase := Syncing\<rparr>)"
| sync: "sk_phase s = Syncing \<Longrightarrow> sink_step s (writer_sync ok s)"

inductive_cases sink_stepE: "sink_step s t"

section \<open>What the file holds\<close>

text \<open>
  The invariant: the bytes of the file, then the queue, then the chunks still being sent, are a
  prefix of the stream while nothing was dropped; once bytes are dropped the file is full,
  failed, or closed, and never grows again.
\<close>

definition flow :: "sink \<Rightarrow> string" where
  "flow s = sk_written s @ concat (sk_queue s) @ concat (sk_pending s)"

definition flow_inv :: "sink \<Rightarrow> bool" where
  "flow_inv s = (sk_phase s \<noteq> Gone \<longrightarrow> ld_state (sk_desc s) = LRecording \<longrightarrow>
     prefix (flow s) (sk_stream s) \<and> (\<not> sk_stopped s \<longrightarrow> flow s = sk_stream s))"

definition file_inv :: "sink \<Rightarrow> bool" where
  "file_inv s \<longleftrightarrow>
     length (sk_written s) \<le> ld_limit_bytes (sk_desc s)
   \<and> ld_bytes (sk_desc s) \<le> length (sk_written s)
   \<and> (ld_state (sk_desc s) \<noteq> LWriteFailed \<longrightarrow> ld_bytes (sk_desc s) = length (sk_written s))
   \<and> (case sk_file s of Some f \<Rightarrow> f = sk_written s
        | None \<Rightarrow> ld_state (sk_desc s) \<in> {LDisabled, LWriteFailed})
   \<and> (ld_state (sk_desc s) = LDisabled \<longrightarrow> sk_queue s = [] \<and> sk_pending s = [] \<and> sk_written s = [])
   \<and> (ld_state (sk_desc s) = LLimited \<longrightarrow> ld_bytes (sk_desc s) = ld_limit_bytes (sk_desc s))
   \<and> ld_state (sk_desc s) \<in> (if sk_phase s = Gone then {LDisabled, LComplete, LLimited, LWriteFailed}
        else {LDisabled, LRecording, LLimited, LWriteFailed})"

definition sink_inv :: "sink \<Rightarrow> bool" where
  "sink_inv s \<longleftrightarrow> sk_observed s = length (sk_stream s) \<and> prefix (sk_written s) (sk_stream s)
     \<and> file_inv s \<and> flow_inv s"

definition sink_start :: "sink \<Rightarrow> bool" where
  "sink_start s = (\<exists>d key. s = new_sink d key \<and> ld_state d \<in> {LRecording, LDisabled} \<and> ld_bytes d = 0)"

lemma concat_chunks: "length b \<le> n * CHUNK \<Longrightarrow> concat (chunks n b) = b"
proof (induction n b rule: chunks.induct)
  case (2 n b)
  then show ?case by (auto simp: CHUNK_def)
qed simp

lemma concat_chunks_of [simp]: "concat (chunks_of b) = b"
  unfolding chunks_of_def by (rule concat_chunks) (simp add: CHUNK_def)

lemma sink_inv_start: "sink_start s \<Longrightarrow> sink_inv s"
  by (auto simp: sink_start_def sink_inv_def file_inv_def flow_inv_def flow_def new_sink_def)

lemma sink_descriptor_disabled: "ld_state (sink_descriptor s) = LDisabled \<longleftrightarrow> ld_state (sk_desc s) = LDisabled"
  by (auto simp: sink_descriptor_def Let_def)

lemma prefix_more: "prefix a b \<Longrightarrow> prefix a (b @ c)"
  by (auto simp: prefix_def)

lemma sink_inv_begin:
  assumes "sink_inv s" "sk_pending s = []"
  shows "sink_inv (push_begin b s)"
proof -
  have "file_inv (push_begin b s)"
    using assms unfolding push_begin_def Let_def sink_descriptor_disabled
    by (auto simp: sink_inv_def file_inv_def split: option.splits)
  moreover have "flow_inv (push_begin b s)"
    using assms unfolding push_begin_def Let_def sink_descriptor_disabled
    by (auto simp: sink_inv_def flow_inv_def flow_def prefix_more)
      (metis append.assoc prefix_order.refl)
  moreover have "sk_observed (push_begin b s) = length (sk_stream (push_begin b s))
      \<and> prefix (sk_written (push_begin b s)) (sk_stream (push_begin b s))"
    using assms by (simp add: sink_inv_def push_begin_def Let_def prefix_more)
  ultimately show ?thesis unfolding sink_inv_def by blast
qed

lemma sink_inv_send:
  assumes "sink_inv s"
  shows "sink_inv (push_send s)"
proof (cases "sk_pending s")
  case Nil
  with assms show ?thesis by (simp add: push_send_def)
next
  case (Cons c cs)
  have "prefix (sk_written s @ concat (sk_queue s)) (sk_stream s)"
    if "prefix (flow s) (sk_stream s)"
    using that by (metis append.assoc append_prefixD flow_def)
  with assms Cons show ?thesis
    by (auto simp: push_send_def sink_inv_def file_inv_def flow_inv_def flow_def split: option.splits)
qed

lemma sink_inv_write:
  assumes inv: "sink_inv s" and phase: "sk_phase s = Looping" and q: "sk_queue s = b # q"
  shows "sink_inv (write_chunk failed b (s\<lparr>sk_queue := q\<rparr>))"
proof -
  let ?d = "sk_desc s"
  let ?count = "min (ld_limit_bytes ?d - ld_bytes ?d) (length b)"
  have parts: "sk_observed s = length (sk_stream s)" "prefix (sk_written s) (sk_stream s)"
    "file_inv s" "flow_inv s" using inv by (simp_all add: sink_inv_def)
  consider (closed) "ld_state ?d = LWriteFailed" | (limited) "ld_state ?d = LLimited"
    | (recording) "ld_state ?d = LRecording"
    using parts(3) q phase by (auto simp: file_inv_def)
  then show ?thesis
  proof cases
    case closed
    with parts phase show ?thesis
      by (auto simp: write_chunk_def sink_inv_def file_inv_def flow_inv_def split: option.splits)
  next
    case limited
    with parts(3) have "?count = 0" by (simp add: file_inv_def)
    with parts limited phase q show ?thesis
      by (auto simp: write_chunk_def Let_def sink_inv_def file_inv_def flow_inv_def split: option.splits)
  next
    case recording
    with parts(3) obtain f where f: "sk_file s = Some f" "f = sk_written s"
      by (auto simp: file_inv_def split: option.splits)
    from parts(4) recording phase q have whole: "prefix (sk_written s @ b @ concat q @ concat (sk_pending s)) (sk_stream s)"
      and exact: "\<not> sk_stopped s \<longrightarrow> sk_written s @ b @ concat q @ concat (sk_pending s) = sk_stream s"
      by (simp_all add: flow_inv_def flow_def)
    have cut: "prefix (sk_written s @ take k b) (sk_stream s)" for k
      using whole by (metis append.assoc append_prefixD append_take_drop_id)
    show ?thesis
    proof (cases failed)
      case None
      have flow: "prefix ((sk_written s @ take ?count b) @ concat q @ concat (sk_pending s)) (sk_stream s)
          \<and> (\<not> sk_stopped s \<longrightarrow> (sk_written s @ take ?count b) @ concat q @ concat (sk_pending s) = sk_stream s)"
        if "\<not> ?count < length b" using whole exact that by simp
      from parts recording f None phase q cut [of ?count] flow show ?thesis
        unfolding write_chunk_def Let_def sink_inv_def file_inv_def flow_inv_def flow_def
        by (simp del: append.assoc) (auto simp del: append.assoc)
    next
      case (Some k)
      have "length (sk_written s) + min k (min (length b) (ld_limit_bytes ?d - length (sk_written s)))
          \<le> ld_limit_bytes ?d"
        using parts(3) by (auto simp: file_inv_def min_def)
      with parts recording f Some phase q cut [of "min k ?count"] show ?thesis
        by (simp add: write_chunk_def Let_def sink_inv_def file_inv_def flow_inv_def min.commute)
    qed
  qed
qed

lemma sink_inv_sync: "sink_inv s \<Longrightarrow> sk_phase s = Syncing \<Longrightarrow> sink_inv (writer_sync ok s)"
  by (auto simp: sink_inv_def file_inv_def flow_inv_def writer_sync_def Let_def split: option.splits)

lemma sink_inv_step: "sink_inv s \<Longrightarrow> sink_step s t \<Longrightarrow> sink_inv t"
proof (erule sink_stepE)
  assume inv: "sink_inv s"
  show "sink_inv t" if "t = push_begin b s" "sk_pending s = []" for b
    using sink_inv_begin inv that by simp
  show "sink_inv t" if "t = push_send s" using sink_inv_send inv that by simp
  show "sink_inv t" if "t = mark_partial s"
    using inv that
    by (auto simp: mark_partial_def sink_inv_def file_inv_def flow_inv_def flow_def split: option.splits)
  show "sink_inv t" if "t = sink_finish s"
    using inv that
    by (auto simp: sink_finish_def sink_inv_def file_inv_def flow_inv_def flow_def split: option.splits)
  show "sink_inv t" if "t = writer_receive failed s" "sk_phase s = Looping" "sk_queue s \<noteq> []" for failed
    using inv that sink_inv_write by (auto simp: writer_receive_def neq_Nil_conv)
  show "sink_inv t" if "t = s\<lparr>sk_phase := Syncing\<rparr>" "sk_phase s = Looping"
    using inv that
    by (auto simp: sink_inv_def file_inv_def flow_inv_def flow_def split: option.splits)
  show "sink_inv t" if "t = writer_sync ok s" "sk_phase s = Syncing" for ok
    using sink_inv_sync inv that by simp
qed

interpretation sink: transition_system sink_start sink_step sink_inv
  by unfold_locales (auto intro: sink_inv_start sink_inv_step)

section \<open>Properties\<close>

lemma sink_descriptor_fields [simp]:
  "ld_bytes (sink_descriptor s) = ld_bytes (sk_desc s)"
  "ld_limit_bytes (sink_descriptor s) = ld_limit_bytes (sk_desc s)"
  "ld_observed_bytes (sink_descriptor s) = sk_observed s"
  by (simp_all add: sink_descriptor_def Let_def)

lemma sink_descriptor_complete:
  "ld_state (sink_descriptor s) = LComplete \<Longrightarrow> ld_state (sk_desc s) = LComplete"
  by (auto simp: sink_descriptor_def Let_def split: if_splits)

text \<open>C35 (log_is_bounded_prefix). However the reader, the writer thread and the host interleave, and whichever writes
  fail, the log file is a prefix of the output the task produced, never longer than its limit,
  and the descriptor never claims more bytes than the file holds.\<close>

theorem log_is_bounded_prefix:
  assumes "reach sink_start sink_step s"
  shows "prefix (sk_written s) (sk_stream s)
    \<and> length (sk_written s) \<le> ld_limit_bytes (sink_descriptor s)
    \<and> ld_bytes (sink_descriptor s) \<le> length (sk_written s)"
  using sink.reach_inv [OF assms] by (simp add: sink_inv_def file_inv_def)

text \<open>Lost output is always visible: a log shown as complete whose byte count equals the
  observed count holds exactly the task's output, and the observed count is always the true one.\<close>

theorem log_loss_is_visible:
  assumes "reach sink_start sink_step s"
  shows "ld_observed_bytes (sink_descriptor s) = length (sk_stream s)
    \<and> (ld_state (sink_descriptor s) = LComplete \<and>
       ld_bytes (sink_descriptor s) = ld_observed_bytes (sink_descriptor s) \<longrightarrow> sk_written s = sk_stream s)"
proof -
  have inv: "sink_inv s" by (rule sink.reach_inv [OF assms])
  have "sk_written s = sk_stream s" if "ld_state (sink_descriptor s) = LComplete"
    "ld_bytes (sink_descriptor s) = ld_observed_bytes (sink_descriptor s)"
  proof -
    have "length (sk_written s) = length (sk_stream s)"
      using inv that sink_descriptor_complete [OF that(1)] by (simp add: sink_inv_def file_inv_def)
    with inv show ?thesis by (auto simp: sink_inv_def prefix_def)
  qed
  with inv show ?thesis by (simp add: sink_inv_def)
qed

text \<open>A sink with a limit of three bytes that is pushed five.\<close>

definition demo_descriptor :: log_descriptor where
  "demo_descriptor = \<lparr>ld_run_id = ''r1'', ld_generation = 1, ld_state = LRecording, ld_bytes = 0,
     ld_observed_bytes = 0, ld_limit_bytes = 3, ld_merged_pty = True, ld_file_identity = None\<rparr>"

definition demo_sink :: "string \<Rightarrow> sink" where
  "demo_sink b = writer_sync True ((sink_finish (writer_receive None
     (push_send (push_begin b (new_sink demo_descriptor None)))))\<lparr>sk_phase := Syncing\<rparr>)"

lemma demo_sink_reach:
  assumes "chunks_of b = [b]" "b \<noteq> []"
  shows "reach sink_start sink_step (demo_sink b)"
proof -
  let ?s0 = "new_sink demo_descriptor None"
  let ?s1 = "push_begin b ?s0" let ?s2 = "push_send ?s1" let ?s3 = "writer_receive None ?s2"
  let ?s4 = "sink_finish ?s3" let ?s5 = "?s4\<lparr>sk_phase := Syncing\<rparr>"
  have "sink_start ?s0" by (auto simp: sink_start_def demo_descriptor_def)
  then have r0: "reach sink_start sink_step ?s0" by (rule reach_init)
  note defs = new_sink_def demo_descriptor_def push_begin_def push_send_def writer_receive_def
    write_chunk_def sink_finish_def Let_def sink_descriptor_def CHANNEL_def
  have "sink_step ?s0 ?s1" by (rule begin_push) (simp add: defs)
  with r0 have r1: "reach sink_start sink_step ?s1" by (rule reach_step)
  have "sink_step ?s1 ?s2" by (rule send_chunk) (simp add: defs assms)
  with r1 have r2: "reach sink_start sink_step ?s2" by (rule reach_step)
  have "sink_step ?s2 ?s3" by (rule receive) (simp_all add: defs assms)
  with r2 have r3: "reach sink_start sink_step ?s3" by (rule reach_step)
  with finish have r4: "reach sink_start sink_step ?s4" by (rule reach_step [rotated])
  have "sink_step ?s4 ?s5" by (rule leave) (simp_all add: defs assms)
  with r4 have r5: "reach sink_start sink_step ?s5" by (rule reach_step)
  have "sink_step ?s5 (writer_sync True ?s5)" by (rule sync) simp
  with r5 show ?thesis unfolding demo_sink_def by (rule reach_step)
qed

lemma demo_chunks: "chunks_of ''abcde'' = [''abcde'']" "chunks_of ''ab'' = [''ab'']"
  by (simp_all add: chunks_of_def CHUNK_def)

theorem log_is_bounded_prefix_witness:
  "sk_stream (demo_sink ''abcde'') = ''abcde'' \<and> prefix (sk_written (demo_sink ''abcde'')) ''abcde''
    \<and> length (sk_written (demo_sink ''abcde'')) \<le> 3"
proof -
  have "sk_stream (demo_sink ''abcde'') = ''abcde''"
    "ld_limit_bytes (sink_descriptor (demo_sink ''abcde'')) = 3" by code_simp+
  with log_is_bounded_prefix [OF demo_sink_reach [OF demo_chunks(1)]] show ?thesis by simp
qed

theorem log_loss_is_visible_witness:
  "ld_state (sink_descriptor (demo_sink ''ab'')) = LComplete \<and> sk_written (demo_sink ''ab'') = ''ab''"
proof -
  have s: "ld_state (sink_descriptor (demo_sink ''ab'')) = LComplete"
    "ld_bytes (sink_descriptor (demo_sink ''ab'')) = ld_observed_bytes (sink_descriptor (demo_sink ''ab''))"
    "sk_stream (demo_sink ''ab'') = ''ab''" by code_simp+
  have "reach sink_start sink_step (demo_sink ''ab'')" by (rule demo_sink_reach [OF demo_chunks(2)]) simp
  from log_loss_is_visible [OF this] s show ?thesis by simp
qed

end
