(* ===== verification/Run_Registry.thy ===== *)
theory Run_Registry
  imports Saved_State Source_Gate Project_Service
begin

text \<open>
  The host's run registry (\<open>run.rs\<close>: \<open>RunRegistry\<close>): reserved starts, live and finished runs,
  their source leases, the retention journal, and the ledger on disk that every change is
  persisted to.  \<open>env\<close> is what one operation observes of the machine and of the log writers;
  \<open>rg_disk\<close> is the ledger file, \<open>rg_faults\<close> the outcomes of the coming ledger writes.
\<close>

definition HISTORY_LIMIT :: nat where "HISTORY_LIMIT = RUN_RECORD_LIMIT"
definition LOG_LIMIT :: nat where "LOG_LIMIT = LOG_BYTE_LIMIT"
definition CHUNK_LIMIT :: nat where "CHUNK_LIMIT = 65536"
definition RETENTION_MS :: nat where "RETENTION_MS = 2592000000"

section \<open>State\<close>

record measurement =
  ms_snapshot :: "artifact_snapshot option"
  ms_error :: "string option"
  ms_observed_at_ms :: nat

record active =
  ac_plan :: task_launch_plan
  ac_shell :: shell_plan
  ac_lease :: "gate_lease option"
  ac_run_use :: bool
  ac_directory :: path
  ac_started :: nat
  ac_finishing :: bool
  ac_result_snapshot :: "structured_result option"
  ac_events_snapshot :: "event_progress option"
  ac_measurement :: "measurement option"

record pending_start =
  pn_run_id :: string
  pn_project_id :: string
  pn_task_id :: string
  pn_operation_id :: string
  pn_build_outputs :: "path list"

record begin_ticket =
  bt_run_id :: string
  bt_plan :: task_launch_plan
  bt_operation_id :: string
  bt_outputs :: "path list"
  bt_lease :: "gate_lease option"

record registry =
  rg_gate :: source_gate
  rg_runs :: "run_info list"
  rg_retired :: "retired_run list"
  rg_active :: "active btree"
  rg_published :: "path list"
  rg_pending :: "pending_start list"
  rg_disk :: "run_ledger option"
  rg_faults :: "(bool \<times> string) option list"

text \<open>
  A write of the ledger file succeeds, fails leaving the old file, or fails after the new file
  is in place (the directory sync), as \<open>atomic_write\<close> may.
\<close>

record config =
  cf_ext :: ext
  cf_json :: json
  cf_run_json :: run_json
  cf_codec :: codec
  cf_store :: store

record stat =
  st_plain :: bool
  st_key :: file_key
  st_owned :: bool

record env =
  ev_now :: nat
  ev_instant :: nat
  ev_world :: world
  ev_ob :: observation
  ev_run_use :: "unit res"
  ev_new_id :: string
  ev_private_dir :: "path \<Rightarrow> unit res"
  ev_write :: "path \<Rightarrow> string \<Rightarrow> unit res"
  ev_script_id :: string
  ev_new_log :: "string \<Rightarrow> file_key res"
  ev_sink :: "string \<Rightarrow> log_descriptor"
  ev_step_file :: "path \<Rightarrow> nat \<Rightarrow> string option"
  ev_log_file :: "string \<Rightarrow> (file_key \<times> string) res"
  ev_log_exists :: "string \<Rightarrow> bool"
  ev_log_stat :: "string \<Rightarrow> stat res"
  ev_dir_stat :: "string \<Rightarrow> stat res"
  ev_remove_log :: "string \<Rightarrow> unit res"
  ev_remove_dir :: "string \<Rightarrow> unit res"
  ev_remove_body :: "body_reference \<Rightarrow> bool \<Rightarrow> unit res"
  ev_capture :: "string \<Rightarrow> structured_result"
  ev_events :: "string \<Rightarrow> string option \<Rightarrow> event_progress"
  ev_verify_result :: "structured_result \<Rightarrow> structured_result"
  ev_retained_events :: "event_progress \<Rightarrow> event_progress"
  ev_migrate :: "string \<Rightarrow> structured_result \<Rightarrow> structured_result"
  ev_backup_v1 :: "unit res"

section \<open>Run details\<close>

text \<open>\<open>text.trim().parse::<i32>()\<close>, kept when it is an exit status.\<close>

fun digits_value :: "nat \<Rightarrow> nat list \<Rightarrow> nat option" where
  "digits_value acc [] = Some acc"
| "digits_value acc (c # cs) =
    (if 48 \<le> c \<and> c \<le> 57 then digits_value (acc * 10 + (c - 48)) cs else None)"

definition parse_i32 :: "nat list \<Rightarrow> int option" where
  "parse_i32 s =
    (let (neg, ds) = (case s of [] \<Rightarrow> (False, []) | c # cs \<Rightarrow>
          if c = 45 then (True, cs) else if c = 43 then (False, cs) else (False, s)) in
     if ds = [] then None
     else (case digits_value 0 ds of None \<Rightarrow> None | Some n \<Rightarrow>
       let v = (if neg then - int n else int n) in
       if - 2147483648 \<le> v \<and> v \<le> 2147483647 then Some v else None))"

definition trim_chars :: "nat list \<Rightarrow> nat list" where
  "trim_chars s = rev (dropWhile is_whitespace (rev (dropWhile is_whitespace s)))"

definition step_exit_code :: "string option \<Rightarrow> int option" where
  "step_exit_code f = (case f of None \<Rightarrow> None | Some b \<Rightarrow>
     if 32 < length b then None
     else (case Option.bind (to_str b) (\<lambda>cs. parse_i32 (trim_chars cs)) of None \<Rightarrow> None
       | Some v \<Rightarrow> if 0 \<le> v \<and> v \<le> 255 then Some v else None))"

definition read_steps :: "env \<Rightarrow> path \<Rightarrow> task_step list \<Rightarrow> step_result list" where
  "read_steps ev dir ss = map (\<lambda>(i, s). \<lparr>sr_index = i, sr_name = st_name s,
     sr_exit_code = step_exit_code (ev_step_file ev dir i)\<rparr>) (enumerate 0 ss)"

definition get_active :: "string \<Rightarrow> registry \<Rightarrow> active option" where
  "get_active i st = map_of (rg_active st) i"

definition put_active :: "string \<Rightarrow> active \<Rightarrow> registry \<Rightarrow> registry" where
  "put_active i a st = st\<lparr>rg_active := bt_insert i a (rg_active st)\<rparr>"

definition find_run :: "string \<Rightarrow> registry \<Rightarrow> run_info option" where
  "find_run i st = find (\<lambda>r. ri_run_id r = i) (rg_runs st)"

definition update_run :: "string \<Rightarrow> (run_info \<Rightarrow> run_info) \<Rightarrow> registry \<Rightarrow> registry" where
  "update_run i f st = st\<lparr>rg_runs := update_first (\<lambda>r. ri_run_id r = i) f (rg_runs st)\<rparr>"

text \<open>The saved record with what the log file and the step files now say.\<close>

definition info_log :: "env \<Rightarrow> bool \<Rightarrow> run_info \<Rightarrow> run_info" where
  "info_log ev owned r =
    (let log = ri_log r in
     if ld_state log = LDisabled then r else
     (case ev_log_file ev (ri_run_id r) of
        Inl _ \<Rightarrow> r\<lparr>ri_log := log\<lparr>ld_state := LExpired\<rparr>\<rparr>
      | Inr (key, content) \<Rightarrow>
          if ld_file_identity log \<noteq> Some key then
            r\<lparr>ri_log := log\<lparr>ld_state := LExpired, ld_generation := saturating_add (ld_generation log) 1\<rparr>\<rparr>
          else if length content < ld_bytes log then
            r\<lparr>ri_log := log\<lparr>ld_state := LPartial, ld_bytes := length content,
               ld_generation := saturating_add (ld_generation log) 1\<rparr>\<rparr>
          else if \<not> owned then
            r\<lparr>ri_log := log\<lparr>ld_state := (if length content \<noteq> ld_bytes log then LPartial else ld_state log),
               ld_bytes := min (length content) LOG_LIMIT\<rparr>\<rparr>
          else r))"

definition info_run :: "env \<Rightarrow> registry \<Rightarrow> run_info \<Rightarrow> run_info" where
  "info_run ev st r =
    (case get_active (ri_run_id r) st of
       None \<Rightarrow> info_log ev False r
     | Some a \<Rightarrow>
         let r1 = r\<lparr>ri_log := ev_sink ev (ri_run_id r)\<rparr>;
             r2 = (if ta_execution (tl_task (ac_plan a)) = None
               then r1\<lparr>ri_steps := read_steps ev (ac_directory a) (steps (tl_task (ac_plan a)))\<rparr> else r1) in
         info_log ev True r2)"

definition info :: "env \<Rightarrow> string \<Rightarrow> registry \<Rightarrow> run_info res" where
  "info ev i st = and_then (context_opt (find_run i st) ''run not found or retention expired'')
     (\<lambda>r. Inr (info_run ev st r))"

definition get_info :: "env \<Rightarrow> string \<Rightarrow> (registry, run_info) op" where
  "get_info ev i st = (info ev i st, st)"

definition error_text :: "error \<Rightarrow> string" where
  "error_text e = (case e of Bail m \<Rightarrow> m | Os m \<Rightarrow> m | NotFound \<Rightarrow> ''No such file or directory (os error 2)'')"

definition list_runs :: "env \<Rightarrow> string option \<Rightarrow> registry \<Rightarrow> run_info list" where
  "list_runs ev pid st = map (\<lambda>r. case info ev (ri_run_id r) st of
       Inr i \<Rightarrow> i
     | Inl e \<Rightarrow> r\<lparr>ri_log := (ri_log r)\<lparr>ld_state := LPartial\<rparr>,
         ri_error := Some (''run details unavailable: '' @ error_text e)\<rparr>)
     (filter (\<lambda>r. case pid of None \<Rightarrow> True | Some p \<Rightarrow> ri_project_id r = p) (rg_runs st))"

section \<open>The ledger\<close>

definition persist :: "config \<Rightarrow> env \<Rightarrow> (registry, unit) op" where
  "persist cf ev st =
    (let l = \<lparr>rl_schema = 2, rl_runs = list_runs ev None st, rl_retired = rg_retired st\<rparr> in
     case validate_run_ledger (cf_ext cf) (cf_run_json cf) l of
       Inl e \<Rightarrow> (Inl e, st)
     | Inr _ \<Rightarrow> (case rg_faults st of
         [] \<Rightarrow> (Inr (), st\<lparr>rg_disk := Some l\<rparr>)
       | None # fs \<Rightarrow> (Inr (), st\<lparr>rg_disk := Some l, rg_faults := fs\<rparr>)
       | Some (renamed, e) # fs \<Rightarrow>
           (Inl (Os e), st\<lparr>rg_disk := (if renamed then Some l else rg_disk st), rg_faults := fs\<rparr>)))"

text \<open>Persist, and undo the change in memory when that fails.\<close>

definition persist_or :: "config \<Rightarrow> env \<Rightarrow> (registry \<Rightarrow> registry) \<Rightarrow> (registry, unit) op" where
  "persist_or cf ev undo st = (case persist cf ev st of
      (Inr u, st') \<Rightarrow> (Inr u, st') | (Inl e, st') \<Rightarrow> (Inl e, undo st'))"

section \<open>Retention\<close>

definition can_rotate :: "registry \<Rightarrow> run_info \<Rightarrow> bool" where
  "can_rotate st r = (\<not> ri_pinned r \<and> \<not> run_is_live (ri_state r) \<and> ri_cleanup_confirmed r
     \<and> \<not> (case get_active (ri_run_id r) st of None \<Rightarrow> False | Some a \<Rightarrow> ac_finishing a))"

definition remove_stat :: "stat res \<Rightarrow> file_key option \<Rightarrow> string \<Rightarrow> unit res \<Rightarrow> unit res" where
  "remove_stat s key m removed = (case s of
      Inr t \<Rightarrow> ensure (st_plain t \<and> Some (st_key t) = key \<and> st_owned t) m removed
    | Inl e \<Rightarrow> if e = NotFound then Inr () else Inl e)"

definition cleanup_one :: "env \<Rightarrow> retired_run \<Rightarrow> unit res" where
  "cleanup_one ev t =
    and_then (check_opt (\<lambda>b. ev_remove_body ev b False) (rt_result t)) (\<lambda>_.
    and_then (check_opt (\<lambda>b. ev_remove_body ev b True) (rt_events t)) (\<lambda>_.
    and_then (remove_stat (ev_log_stat ev (rt_run_id t)) (rt_log_identity t)
      ''retired log was replaced or has unknown identity; preserved'' (ev_remove_log ev (rt_run_id t))) (\<lambda>_.
    remove_stat (ev_dir_stat ev (rt_run_id t)) (rt_runtime_identity t)
      ''retired runtime directory was replaced or has unknown identity; preserved''
      (ev_remove_dir ev (rt_run_id t)))))"

text \<open>\<open>while let Some(retired) = self.retired.first()\<close>: every round removes the first entry.\<close>

fun cleanup_loop :: "nat \<Rightarrow> config \<Rightarrow> env \<Rightarrow> (registry, unit) op" where
  "cleanup_loop 0 cf ev = op_return ()"
| "cleanup_loop (Suc n) cf ev = (\<lambda>st. case rg_retired st of
      [] \<Rightarrow> (Inr (), st)
    | t # ts \<Rightarrow>
        op_try (op_lift (cleanup_one ev t)) (\<lambda>_.
        op_try (op_modify (\<lambda>st. st\<lparr>rg_retired := ts\<rparr>)) (\<lambda>_.
        op_try (persist_or cf ev (\<lambda>st. st\<lparr>rg_retired := t # rg_retired st\<rparr>)) (\<lambda>_.
        cleanup_loop n cf ev))) st)"

definition cleanup_retired :: "config \<Rightarrow> env \<Rightarrow> (registry, unit) op" where
  "cleanup_retired cf ev st = cleanup_loop (length (rg_retired st)) cf ev st"

definition insert_at :: "nat \<Rightarrow> 'a \<Rightarrow> 'a list \<Rightarrow> 'a list" where
  "insert_at i x xs = take i xs @ x # drop i xs"

definition remove_at :: "nat \<Rightarrow> 'a list \<Rightarrow> 'a list" where
  "remove_at i xs = take i xs @ drop (Suc i) xs"

text \<open>Dropping an entry of \<open>active\<close> drops the lease it may still hold.\<close>

definition drop_lease :: "gate_lease option \<Rightarrow> registry \<Rightarrow> registry" where
  "drop_lease l st = (case l of None \<Rightarrow> st | Some g \<Rightarrow> st\<lparr>rg_gate := gate_drop g (rg_gate st)\<rparr>)"

definition drop_active :: "string \<Rightarrow> registry \<Rightarrow> registry" where
  "drop_active i st = (case get_active i st of
      None \<Rightarrow> st
    | Some a \<Rightarrow> (drop_lease (ac_lease a) st)\<lparr>rg_active := bt_remove i (rg_active st)\<rparr>)"

definition remove_history :: "config \<Rightarrow> env \<Rightarrow> nat \<Rightarrow> (registry, unit) op" where
  "remove_history cf ev index st =
    (let old = rg_runs st ! index in
     op_ensure (can_rotate st old) ''run retention cannot remove live, pinned or unconfirmed work''
     (op_ensure (length (rg_retired st) < HISTORY_LIMIT)
       ''retention cleanup journal full; inspect pending cleanup before continuing''
     (op_try (op_lift (case ev_dir_stat ev (ri_run_id old) of
         Inr t \<Rightarrow> ensure (st_plain t \<and> st_owned t) ''unexpected Run runtime directory; preserved''
           (Inr (Some (st_key t)))
       | Inl e \<Rightarrow> if e = NotFound then Inr None else Inl e)) (\<lambda>runtime.
      op_try (op_modify (\<lambda>st. st\<lparr>rg_retired := rg_retired st @ [\<lparr>rt_run_id = ri_run_id old,
            rt_result = Option.bind (ri_structured_result old) result_body,
            rt_events = Option.bind (ri_events old) ep_body,
            rt_log_identity = ld_file_identity (ri_log old), rt_runtime_identity = runtime\<rparr>],
          rg_runs := remove_at index (rg_runs st)\<rparr>)) (\<lambda>_.
      op_try (persist_or cf ev (\<lambda>st. st\<lparr>rg_runs := insert_at index old (rg_runs st),
          rg_retired := butlast (rg_retired st)\<rparr>)) (\<lambda>_.
      op_try (op_modify (drop_active (ri_run_id old))) (\<lambda>_.
      cleanup_retired cf ev)))))) st)"

text \<open>\<open>Iterator::position\<close>.\<close>

fun position :: "('a \<Rightarrow> bool) \<Rightarrow> 'a list \<Rightarrow> nat option" where
  "position P [] = None"
| "position P (x # xs) = (if P x then Some 0 else map_option Suc (position P xs))"

definition expired :: "env \<Rightarrow> registry \<Rightarrow> run_info \<Rightarrow> bool" where
  "expired ev st r = (can_rotate st r
     \<and> (case ri_finished_at_ms r of None \<Rightarrow> False | Some f \<Rightarrow> RETENTION_MS < ev_now ev - f))"

text \<open>The loops below remove one run per round, so the number of runs bounds the rounds.\<close>

fun expire_loop :: "nat \<Rightarrow> config \<Rightarrow> env \<Rightarrow> (registry, unit) op" where
  "expire_loop 0 cf ev = op_return ()"
| "expire_loop (Suc n) cf ev = (\<lambda>st. case position (expired ev st) (rg_runs st) of
      None \<Rightarrow> (Inr (), st)
    | Some i \<Rightarrow> op_try (remove_history cf ev i) (\<lambda>_. expire_loop n cf ev) st)"

definition expire_history :: "config \<Rightarrow> env \<Rightarrow> (registry, unit) op" where
  "expire_history cf ev st = expire_loop (length (rg_runs st)) cf ev st"

definition unpinned :: "registry \<Rightarrow> nat" where
  "unpinned st = length (filter (\<lambda>r. \<not> ri_pinned r) (rg_runs st))"

fun rotate_loop :: "nat \<Rightarrow> (registry \<Rightarrow> bool) \<Rightarrow> string \<Rightarrow> config \<Rightarrow> env \<Rightarrow> (registry, unit) op" where
  "rotate_loop 0 full m cf ev = (\<lambda>st. if full st then (Inl (Bail m), st) else (Inr (), st))"
| "rotate_loop (Suc n) full m cf ev = (\<lambda>st. if \<not> full st then (Inr (), st) else
      (case position (can_rotate st) (rg_runs st) of
         None \<Rightarrow> (Inl (Bail m), st)
       | Some i \<Rightarrow> op_try (remove_history cf ev i) (\<lambda>_. rotate_loop n full m cf ev) st))"

section \<open>Sources\<close>

definition on_gate :: "(source_gate, 'a) op \<Rightarrow> (registry, 'a) op" where
  "on_gate m st = (case m (rg_gate st) of (r, g) \<Rightarrow> (r, st\<lparr>rg_gate := g\<rparr>))"

definition unsettled :: "run_info \<Rightarrow> bool" where
  "unsettled r = (ri_state r = RUnknown \<and> \<not> ri_cleanup_confirmed r)"

definition publish_source :: "path \<Rightarrow> (registry, unit) op" where
  "publish_source identity st =
    op_ensure (\<not> list_ex (\<lambda>r. unsettled r \<and> (case so_identity (ri_source_start r) of
        None \<Rightarrow> False | Some i \<Rightarrow> path_eq i identity)) (rg_runs st))
      ''source-use unknown from previous run; inspect old processes before recovery''
    (op_try (on_gate (gate_ready identity)) (\<lambda>_.
     op_modify (\<lambda>st. st\<lparr>rg_published := (if list_ex (\<lambda>q. path_eq q identity) (rg_published st)
       then rg_published st else identity # rg_published st)\<rparr>))) st"

text \<open>
  \<open>output_identity\<close>: resolve the longest existing ancestor and append the rest; \<open>parent\<close> and
  \<open>file_name\<close> split the last component off.
\<close>

definition path_text :: "component list \<Rightarrow> path" where
  "path_text cs = (if cs = [RootDir] then ''/'' else join_segs (map (\<lambda>c. case c of
      RootDir \<Rightarrow> [] | CurDir \<Rightarrow> ''.'' | ParentDir \<Rightarrow> ''..'' | Normal n \<Rightarrow> n) cs))"

function output_identity :: "os \<Rightarrow> path \<Rightarrow> component list \<Rightarrow> path res" where
  "output_identity sy p cs =
    (if is_ok (os_metadata sy p) then os_canonicalize sy p
     else if cs = [] then Inl (Bail ''output path requires a basename'')
     else (case last cs of
         Normal name \<Rightarrow> and_then (output_identity sy (path_text (butlast cs)) (butlast cs))
           (\<lambda>d. Inr (join_path d name))
       | _ \<Rightarrow> Inl (Bail ''output path requires a basename'')))"
  by pat_completeness auto
termination by (relation "measure (\<lambda>(sy, p, cs). length cs)") auto

declare output_identity.simps [simp del]

section \<open>Starting a run\<close>

datatype begin_reservation = Existing run_info | Fresh begin_ticket

definition same_task :: "run_info \<Rightarrow> task_launch_plan \<Rightarrow> bool" where
  "same_task r plan = (ri_project_id r = tl_project_id plan \<and> ri_task_id r = ta_id (tl_task plan))"

definition fresh_plan :: "config \<Rightarrow> env \<Rightarrow> task_launch_plan \<Rightarrow> task_launch_plan res" where
  "fresh_plan cf ev plan =
    and_then (from_variables (sp_env (tl_shell plan))) (\<lambda>e.
    fst (task_service_launch_plan (cf_ext cf) (cf_json cf) (cf_codec cf) (cf_store cf) (ev_ob ev)
      (tl_project_id plan) (ta_id (tl_task plan)) e (ev_world ev)))"

definition holds_output :: "run_info \<Rightarrow> bool" where
  "holds_output r = (run_is_live (ri_state r) \<or> unsettled r)"

definition conflicts :: "path list \<Rightarrow> path list \<Rightarrow> bool" where
  "conflicts ps qs = list_ex (\<lambda>p. list_ex (overlaps p) qs) ps"

definition history_full :: "registry \<Rightarrow> bool" where
  "history_full st = (HISTORY_LIMIT \<le> unpinned st + length (rg_pending st))"

definition make_room :: "config \<Rightarrow> env \<Rightarrow> (registry, unit) op" where
  "make_room cf ev =
    op_try (cleanup_retired cf ev) (\<lambda>_.
    op_try (expire_history cf ev) (\<lambda>_. \<lambda>st.
    rotate_loop (length (rg_runs st)) history_full
      ''run history full of active, unknown or unfinalized executions'' cf ev st))"

definition reserve_source :: "config \<Rightarrow> env \<Rightarrow> task_launch_plan \<Rightarrow> string \<Rightarrow> (registry, gate_lease option) op" where
  "reserve_source cf ev plan operation = (case tl_repository plan of
      None \<Rightarrow> op_return None
    | Some r \<Rightarrow>
        op_try (op_lift (ob_verify (ev_ob ev) r)) (\<lambda>_.
        op_try (publish_source (rp_git_dir r)) (\<lambda>_.
        op_try (on_gate (gate_reserve_run (rp_git_dir r) operation (ta_name (tl_task plan)))) (\<lambda>l.
        op_return (Some l)))))"

definition reserve_fresh ::
    "config \<Rightarrow> env \<Rightarrow> task_launch_plan \<Rightarrow> string \<Rightarrow> (registry, begin_reservation) op" where
  "reserve_fresh cf ev plan operation =
    op_try (op_lift (map_res (\<lambda>p. output_identity (ob_os (ev_ob ev)) p (components p))
        (ta_build_outputs (tl_task plan)))) (\<lambda>outputs. \<lambda>st0.
    op_ensure (\<not> list_ex (\<lambda>r. holds_output r \<and> conflicts outputs (ri_build_outputs r)) (rg_runs st0))
      ''build output conflicts with active or unknown run; wait or register distinct output locations''
    (op_ensure (\<not> list_ex (\<lambda>n. conflicts outputs (pn_build_outputs n)) (rg_pending st0))
      ''build output conflicts with a start still being prepared; wait or register distinct output locations''
    (op_try (make_room cf ev) (\<lambda>_.
     op_try (reserve_source cf ev plan operation) (\<lambda>lease.
     op_try (op_modify (\<lambda>st. st\<lparr>rg_pending := rg_pending st @ [\<lparr>pn_run_id = ev_new_id ev,
        pn_project_id = tl_project_id plan, pn_task_id = ta_id (tl_task plan),
        pn_operation_id = operation, pn_build_outputs = outputs\<rparr>]\<rparr>)) (\<lambda>_.
     op_return (Fresh \<lparr>bt_run_id = ev_new_id ev, bt_plan = plan, bt_operation_id = operation,
        bt_outputs = outputs, bt_lease = lease\<rparr>)))))) st0)"

definition begin_reserve ::
    "config \<Rightarrow> env \<Rightarrow> task_launch_plan \<Rightarrow> string \<Rightarrow> bool \<Rightarrow> (registry, begin_reservation) op" where
  "begin_reserve cf ev asked operation par =
    op_try (op_lift (valid_id (cf_ext cf) operation)) (\<lambda>_. \<lambda>st.
    case find (\<lambda>r. ri_operation_id r = operation) (rg_runs st) of
      Some r \<Rightarrow>
        op_ensure (same_task r asked \<and> ri_launch_digest r = tl_launch_digest asked)
          ''operation ID already refers to a different execution intent''
        (op_try (get_info ev (ri_run_id r)) (\<lambda>i. op_return (Existing i))) st
    | None \<Rightarrow>
        op_try (op_lift (with_context (ev_run_use ev) ''root reconnection is in progress; task was not reserved'')) (\<lambda>_.
        op_try (op_lift (fresh_plan cf ev asked)) (\<lambda>plan.
        op_ensure (tl_launch_digest plan = tl_launch_digest asked)
          ''task definition changed before reservation; review the current task''
        (op_ensure (\<not> list_ex (\<lambda>n. pn_operation_id n = operation) (rg_pending st))
          ''this execution is already being prepared; await its result''
        (case find (\<lambda>r. same_task r plan \<and> run_is_live (ri_state r)) (rev (rg_runs st)) of
           Some r \<Rightarrow> if \<not> par then op_try (get_info ev (ri_run_id r)) (\<lambda>i. op_return (Existing i))
             else
               op_ensure (\<not> list_ex (\<lambda>r. same_task r plan \<and> unsettled r) (rg_runs st))
                 ''previous task cleanup is unknown; inspect old processes before another start''
                 (reserve_fresh cf ev plan operation)
         | None \<Rightarrow>
             op_ensure (par \<or> \<not> list_ex (\<lambda>n. pn_project_id n = tl_project_id plan
                 \<and> pn_task_id n = ta_id (tl_task plan)) (rg_pending st))
               ''a start of this task is already being prepared; await its result''
             (op_ensure (\<not> list_ex (\<lambda>r. same_task r plan \<and> unsettled r) (rg_runs st))
               ''previous task cleanup is unknown; inspect old processes before another start''
               (reserve_fresh cf ev plan operation)))))) st)"

definition begin_abandon :: "begin_ticket \<Rightarrow> registry \<Rightarrow> registry" where
  "begin_abandon t st = (drop_lease (bt_lease t) st)\<lparr>rg_pending :=
     filter (\<lambda>n. pn_run_id n \<noteq> bt_run_id t) (rg_pending st)\<rparr>"

text \<open>
  The \<open>tcsh\<close> driver of a run's steps: each step is a file that is sourced, its status is
  written beside it.  \<open>quote\<close> writes a path as one word of that script.
\<close>

fun quote_chars :: "string \<Rightarrow> string" where
  "quote_chars [] = []"
| "quote_chars (c # cs) = (if c = CHR ''!'' then [CHR 0x5C, CHR ''!'']
     else if c = CHR 0x27 then [CHR 0x27, CHR 0x5C, CHR 0x27, CHR 0x27] else [c]) @ quote_chars cs"

definition quote :: "path \<Rightarrow> string res" where
  "quote p =
    ensure (to_str p \<noteq> None) ''task path must be UTF-8''
    (ensure (\<not> has_control p) ''task path contains control characters''
    (Inr ([CHR 0x27] @ quote_chars p @ [CHR 0x27])))"

definition newline :: string where "newline = [CHR 0x0A]"

definition step_script :: "string \<Rightarrow> bool \<Rightarrow> string \<Rightarrow> string \<Rightarrow> string" where
  "step_script pre stop script status =
    (let b = ''$'' @ pre @ ''b''; c = pre @ ''c''; f = pre @ ''f'' in
     b @ ''[1] '' @ script @ newline @
     b @ ''[2] '' @ c @ '' = $status'' @ newline @
     b @ ''[3] $'' @ c @ '' >! '' @ status @ newline @
     ''if ($'' @ c @ '' != 0) then'' @ newline @
     ''if ($'' @ f @ '' == 0) '' @ b @ ''[2] '' @ f @ '' = $'' @ c @ newline @
     (if stop then b @ ''[4] $'' @ c @ newline else []) @
     ''endif'' @ newline)"

definition script_prefix :: "string \<Rightarrow> string" where
  "script_prefix i = ''__idk_'' @ take 12 (filter (\<lambda>c. c \<noteq> CHR ''-'') i)"

definition create_step :: "env \<Rightarrow> path \<Rightarrow> string \<Rightarrow> bool \<Rightarrow> string \<Rightarrow> nat \<times> task_step \<Rightarrow> string res" where
  "create_step ev dir pre stop acc is = (case is of (i, s) \<Rightarrow>
    let script = join_path dir (''step-'' @ string_of_nat i @ ''.csh'');
        status = join_path dir (''step-'' @ string_of_nat i @ ''.status'') in
    and_then (ev_write ev script (st_command s @ newline)) (\<lambda>_.
    and_then (ev_write ev status []) (\<lambda>_.
    and_then (quote status) (\<lambda>qstatus.
    and_then (quote script) (\<lambda>qscript.
    Inr (acc @ step_script pre stop qscript qstatus))))))"

definition create_steps :: "env \<Rightarrow> task_launch_plan \<Rightarrow> path \<Rightarrow> shell_plan res" where
  "create_steps ev plan dir = (let task = tl_task plan in
    case ta_execution task of
      Some (Script _ _ script _) \<Rightarrow>
        and_then (ev_write ev (join_path dir ''task.script'') script) (\<lambda>_. Inr (tl_shell plan))
    | Some (Process _ _ _) \<Rightarrow> Inr (tl_shell plan)
    | None \<Rightarrow>
        let pre = script_prefix (ev_script_id ev);
            header = ''if (1) set '' @ pre @ ''b = ( source set echo exit )'' @ newline @
              ''$'' @ pre @ ''b[2] '' @ pre @ ''f = 0'' @ newline in
        and_then (fold_res (create_step ev dir pre (ta_failure_policy task = StopOnFailure)) header
            (enumerate 0 (steps task))) (\<lambda>command.
        Inr ((tl_shell plan)\<lparr>sp_command := Some (command @ ''$'' @ pre @ ''b[4] $'' @ pre @ ''f'' @ newline)\<rparr>)))"

definition run_environment :: "environment \<Rightarrow> string \<Rightarrow> path \<Rightarrow> environment" where
  "run_environment e i dir =
    bt_insert ''IDK_EVENTS_PATH'' (join_path dir ''events.jsonl'')
    (bt_insert ''IDK_RESULT_PATH'' (join_path dir ''result.json'')
    (bt_insert ''IDK_RUN_ID'' i e))"

definition run_directory :: "config \<Rightarrow> string \<Rightarrow> path" where
  "run_directory cf i = join_path (so_runtime_dir (cf_store cf)) (''run-'' @ i)"

definition prepare_run :: "config \<Rightarrow> env \<Rightarrow> begin_ticket \<Rightarrow> (shell_plan \<times> file_key) res" where
  "prepare_run cf ev t = (let dir = run_directory cf (bt_run_id t) in
    and_then (ev_private_dir ev dir) (\<lambda>_.
    and_then (create_steps ev (bt_plan t) dir) (\<lambda>shell.
    and_then (ev_new_log ev (bt_run_id t)) (\<lambda>key.
    Inr (shell\<lparr>sp_env := run_environment (sp_env shell) (bt_run_id t) dir\<rparr>, key)))))"

definition new_log :: "begin_ticket \<Rightarrow> file_key \<Rightarrow> log_descriptor" where
  "new_log t key = (let task = tl_task (bt_plan t) in
     \<lparr>ld_run_id = bt_run_id t, ld_generation = 1,
      ld_state = (if ta_logging task = DisabledLogging then LDisabled else LRecording),
      ld_bytes = 0, ld_observed_bytes = 0, ld_limit_bytes = LOG_LIMIT,
      ld_merged_pty = (ta_execution task = None \<or> ta_interactive task),
      ld_file_identity = (if ta_logging task = DisabledLogging then None else Some key)\<rparr>)"

definition new_run :: "env \<Rightarrow> registry \<Rightarrow> begin_ticket \<Rightarrow> source_observation \<Rightarrow> log_descriptor \<Rightarrow> run_info" where
  "new_run ev st t source log = (let plan = bt_plan t; task = tl_task plan in
    \<lparr>ri_run_id = bt_run_id t, ri_operation_id = bt_operation_id t,
     ri_project_id = tl_project_id plan, ri_task_id = ta_id task, ri_name = ta_name task,
     ri_session_id = None, ri_state = RPreparing,
     ri_definition_revision = tl_definition_revision plan, ri_launch_digest = tl_launch_digest plan,
     ri_initialization_digest = tl_initialization_digest plan, ri_cwd = ta_cwd task,
     ri_source_roots = tl_source_roots plan, ri_build_outputs = bt_outputs t,
     ri_started_at_ms = ev_now ev, ri_finished_at_ms = None,
     ri_timeout_seconds = ta_timeout_seconds task, ri_timeout_requested = False,
     ri_cancel_requested = False, ri_cleanup_confirmed = False, ri_exit_code = None,
     ri_signal = None,
     ri_steps = map (\<lambda>(i, s). \<lparr>sr_index = i, sr_name = st_name s, sr_exit_code = None\<rparr>)
       (enumerate 0 (steps task)),
     ri_structured_result = None, ri_pinned = False, ri_events = None,
     ri_source_start = source, ri_source_end = None, ri_source_changed = None,
     ri_artifact = \<lparr>ar_path = ta_artifact task, ar_from_task = ta_artifact_from_task task,
       ar_from_run = Option.bind (ta_artifact_from_task task) (\<lambda>from.
         map_option ri_run_id (find (\<lambda>r. ri_project_id r = tl_project_id plan \<and> ri_task_id r = from
           \<and> ri_state r = RSucceeded
           \<and> map_option components (ar_path (ri_artifact r)) = map_option components (ta_artifact task))
           (rev (rg_runs st)))),
       ar_verified_bytes = False, ar_snapshot = None, ar_snapshot_error = None,
       ar_observed_at_ms = None\<rparr>,
     ri_log = log, ri_error = None\<rparr>)"

text \<open>
  \<open>begin_commit\<close>: the pending start is removed first; every failure drops the ticket's lease
  and leaves no run.
\<close>

definition begin_commit ::
    "config \<Rightarrow> env \<Rightarrow> begin_ticket \<Rightarrow> source_observation \<Rightarrow> (registry, run_info) op" where
  "begin_commit cf ev t source st0 =
    (let st = st0\<lparr>rg_pending := filter (\<lambda>n. pn_run_id n \<noteq> bt_run_id t) (rg_pending st0)\<rparr> in
     case prepare_run cf ev t of
       Inl e \<Rightarrow> (Inl e, drop_lease (bt_lease t) st)
     | Inr (shell, key) \<Rightarrow>
         let run = new_run ev st t source (new_log t key) in
         (case persist cf ev (st\<lparr>rg_runs := rg_runs st @ [run]\<rparr>) of
            (Inl e, st') \<Rightarrow> (Inl e, drop_lease (bt_lease t) (st'\<lparr>rg_runs := butlast (rg_runs st')\<rparr>))
          | (Inr _, st') \<Rightarrow> (Inr run, put_active (bt_run_id t)
              \<lparr>ac_plan = bt_plan t, ac_shell = shell, ac_lease = bt_lease t, ac_run_use = True,
               ac_directory = run_directory cf (bt_run_id t),
               ac_started = ev_instant ev, ac_finishing = False, ac_result_snapshot = None,
               ac_events_snapshot = None, ac_measurement = None\<rparr> st')))"

text \<open>\<open>begin\<close>: both halves at once, the observation in between taken as given.\<close>

definition begin_run ::
    "config \<Rightarrow> env \<Rightarrow> task_launch_plan \<Rightarrow> string \<Rightarrow> bool \<Rightarrow> source_observation \<Rightarrow> (registry, run_info \<times> bool) op" where
  "begin_run cf ev plan operation par source =
    op_try (begin_reserve cf ev plan operation par) (\<lambda>r. case r of
      Existing i \<Rightarrow> op_return (i, True)
    | Fresh t \<Rightarrow> op_try (begin_commit cf ev t source) (\<lambda>i. op_return (i, False)))"

text \<open>\<open>publish_registered_sources\<close> ignores what a source in use refuses.\<close>

definition publish_registered_sources :: "config \<Rightarrow> env \<Rightarrow> (registry, unit) op" where
  "publish_registered_sources cf ev =
    op_try (op_lift (fst (store_load (cf_ext cf) (cf_codec cf) (cf_store cf) (ev_world ev)))) (\<lambda>w.
    op_modify (fold (\<lambda>p st. fold (\<lambda>r st. snd (publish_source (rp_git_dir r) st))
      ((case pr_repository_binding p of None \<Rightarrow> [] | Some r \<Rightarrow> [r]) @ pr_related_repositories p) st)
      (ws_projects w)))"

section \<open>Spawning\<close>

definition run_shell_plan :: "config \<Rightarrow> env \<Rightarrow> string \<Rightarrow> registry \<Rightarrow> shell_plan res" where
  "run_shell_plan cf ev i st =
    and_then (context_opt (get_active i st) ''run is not owned by this host'') (\<lambda>a.
    and_then (fresh_plan cf ev (ac_plan a)) (\<lambda>fresh.
    ensure (tl_launch_digest fresh = tl_launch_digest (ac_plan a)) ''task definition changed before spawn''
    (and_then (info ev i st) (\<lambda>r.
     ensure (ri_state r = RPreparing) ''run cancelled or already started''
     (Inr (ac_shell a))))))"

record process_launch =
  pl_program :: path
  pl_args :: "string list"
  pl_env :: environment
  pl_cwd :: path
  pl_interactive :: bool

definition process_plan :: "config \<Rightarrow> env \<Rightarrow> string \<Rightarrow> registry \<Rightarrow> process_launch option res" where
  "process_plan cf ev i st =
    and_then (run_shell_plan cf ev i st) (\<lambda>_.
    and_then (context_opt (get_active i st) ''run is not owned by this host'') (\<lambda>a.
    (let task = tl_task (ac_plan a);
         launch = (\<lambda>program args overrides. Some \<lparr>pl_program = program, pl_args = args,
           pl_env = run_environment (bt_extend (sp_env (tl_shell (ac_plan a))) overrides) i (ac_directory a),
           pl_cwd = ta_cwd task, pl_interactive = ta_interactive task\<rparr>) in
     Inr (case ta_execution task of
        None \<Rightarrow> None
      | Some (Process program args overrides) \<Rightarrow> launch program args overrides
      | Some (Script interpreter args _ overrides) \<Rightarrow>
          launch interpreter (args @ [join_path (ac_directory a) ''task.script'']) overrides))))"

section \<open>While it runs\<close>

definition run_mut :: "string \<Rightarrow> (run_info \<Rightarrow> (registry, 'a) op) \<Rightarrow> (registry, 'a) op" where
  "run_mut i f st = op_try (op_lift (context_opt (find_run i st) ''run not found'')) f st"

definition mark_running :: "config \<Rightarrow> env \<Rightarrow> string \<Rightarrow> string \<Rightarrow> (registry, unit) op" where
  "mark_running cf ev i session =
    op_try (op_lift (valid_id (cf_ext cf) session)) (\<lambda>_.
    run_mut i (\<lambda>r.
      op_ensure (run_is_live (ri_state r)) ''run is no longer live''
      (op_try (op_modify (update_run i (\<lambda>r. r\<lparr>ri_session_id := Some session,
          ri_state := (if ri_state r = RPreparing then RRunning else ri_state r)\<rparr>))) (\<lambda>_.
       persist cf ev))))"

definition finishing :: "string \<Rightarrow> registry \<Rightarrow> bool" where
  "finishing i st = (case get_active i st of None \<Rightarrow> False | Some a \<Rightarrow> ac_finishing a)"

definition cancel_run :: "config \<Rightarrow> env \<Rightarrow> string \<Rightarrow> bool \<Rightarrow> (registry, run_info) op" where
  "cancel_run cf ev i timeout st =
    op_ensure (\<not> finishing i st)
      ''run execution already ended; source observation or durable finalization is pending''
    (run_mut i (\<lambda>previous.
      op_ensure (run_is_live (ri_state previous)) ''run is not live; unknown outcomes require inspection''
      (op_try (op_modify (update_run i (\<lambda>r. r\<lparr>ri_state := RCancelling, ri_cancel_requested := True,
          ri_timeout_requested := ri_timeout_requested r \<or> timeout\<rparr>))) (\<lambda>_.
       op_try (persist_or cf ev (update_run i (\<lambda>_. previous))) (\<lambda>_.
       get_info ev i))))) st"

definition acknowledge_unknown_cleanup :: "config \<Rightarrow> env \<Rightarrow> string \<Rightarrow> (registry, run_info) op" where
  "acknowledge_unknown_cleanup cf ev i st =
    op_ensure (get_active i st = None) ''use owned cleanup for runs still tracked by this host''
    (run_mut i (\<lambda>previous.
      op_ensure (ri_state previous = RUnknown) ''only a recovered unknown run needs reconciliation''
      (op_try (op_modify (update_run i (\<lambda>r. r\<lparr>ri_cleanup_confirmed := True,
          ri_error := Some ''user confirmed old process cleanup; execution outcome remains unknown''\<rparr>))) (\<lambda>_.
       op_try (persist_or cf ev (update_run i (\<lambda>_. previous))) (\<lambda>_.
       get_info ev i))))) st"

text \<open>The monotonic clock is in seconds here; a start in the future never counts as expired.\<close>

definition timed_out_at :: "nat \<Rightarrow> registry \<Rightarrow> string list" where
  "timed_out_at now st = map ri_run_id (filter (\<lambda>r. ri_state r \<in> {RPreparing, RRunning}
     \<and> (case ri_timeout_seconds r of None \<Rightarrow> False | Some s \<Rightarrow>
         (case get_active (ri_run_id r) st of None \<Rightarrow> False | Some a \<Rightarrow>
            \<not> ac_finishing a \<and> s \<le> now - ac_started a))) (rg_runs st))"

section \<open>Finishing\<close>

definition finish_probe :: "string \<Rightarrow> (registry, repository option) op" where
  "finish_probe i st = (case get_active i st of
      None \<Rightarrow> (Inl (Bail ''run not owned by this host''), st)
    | Some a \<Rightarrow> (Inr (tl_repository (ac_plan a)), put_active i (a\<lparr>ac_finishing := True\<rparr>) st))"

definition final_state :: "bool \<Rightarrow> bool \<Rightarrow> terminal_exit option \<Rightarrow> string option \<Rightarrow> run_state" where
  "final_state cleanup cancel_requested ex error =
    (if \<not> cleanup then RUnknown
     else if cancel_requested then RCancelled
     else if (case ex of None \<Rightarrow> False | Some e \<Rightarrow> te_code e = 0 \<and> te_signal e = None) then RSucceeded
     else if ex \<noteq> None \<or> error \<noteq> None then RFailed
     else RUnknown)"

definition final_steps :: "env \<Rightarrow> active \<Rightarrow> terminal_exit option \<Rightarrow> step_result list" where
  "final_steps ev a ex = (let task = tl_task (ac_plan a) in
     if ta_execution task \<noteq> None then [\<lparr>sr_index = 0, sr_name = ta_name task,
       sr_exit_code = (case ex of None \<Rightarrow> None | Some e \<Rightarrow>
         if te_signal e = None \<and> te_code e < 2147483648 then Some (int (te_code e)) else None)\<rparr>]
     else read_steps ev (ac_directory a) (steps task))"

definition take_snapshots :: "env \<Rightarrow> string \<Rightarrow> bool \<Rightarrow> active \<Rightarrow> active" where
  "take_snapshots ev i cleanup a =
    (if cleanup \<and> ac_result_snapshot a = None then
       let result = ev_capture ev i in
       a\<lparr>ac_finishing := True, ac_result_snapshot := Some result,
         ac_events_snapshot := Some (ev_events ev i
           (Option.bind (result_summary_of result) rs_producer_run_id))\<rparr>
     else a\<lparr>ac_finishing := True\<rparr>)"

definition same_artifact :: "registry \<Rightarrow> run_info \<Rightarrow> measurement option \<Rightarrow> bool" where
  "same_artifact st existing m =
    (let predecessor = Option.bind (ar_from_run (ri_artifact existing)) (\<lambda>i.
       find (\<lambda>r. ri_run_id r = i \<and> ri_project_id r = ri_project_id existing
         \<and> Some (ri_task_id r) = ar_from_task (ri_artifact existing)
         \<and> ri_state r = RSucceeded \<and> ri_cleanup_confirmed r
         \<and> map_option components (ar_path (ri_artifact r))
           = map_option components (ar_path (ri_artifact existing))) (rg_runs st)) in
     case (Option.bind m ms_snapshot, Option.bind predecessor (\<lambda>r. ar_snapshot (ri_artifact r))) of
       (Some c, Some p) \<Rightarrow> as_sha256 c = as_sha256 p \<and> as_size c = as_size p
     | _ \<Rightarrow> False)"

definition final_artifact :: "bool \<Rightarrow> bool \<Rightarrow> measurement option \<Rightarrow> artifact_relation \<Rightarrow> artifact_relation" where
  "final_artifact cleanup verified m a =
    (if ar_path a \<noteq> None \<and> cleanup then
       (case m of
          Some v \<Rightarrow> a\<lparr>ar_snapshot := ms_snapshot v, ar_snapshot_error := ms_error v,
            ar_observed_at_ms := Some (ms_observed_at_ms v), ar_verified_bytes := verified\<rparr>
        | None \<Rightarrow> a\<lparr>ar_snapshot_error := Some ''artifact measurement did not complete within the observation budget'',
            ar_verified_bytes := verified\<rparr>)
     else a)"

definition source_change :: "source_observation \<Rightarrow> source_observation \<Rightarrow> bool option" where
  "source_change s e =
    (if so_error s = None \<and> so_error e = None \<and> so_identity s \<noteq> None
     then Some (so_git_head s \<noteq> so_git_head e \<or> so_status_digest s \<noteq> so_status_digest e
       \<or> so_generation s \<noteq> so_generation e)
     else None)"

definition final_run ::
    "env \<Rightarrow> registry \<Rightarrow> active \<Rightarrow> run_info \<Rightarrow> terminal_exit option \<Rightarrow> bool \<Rightarrow> string option \<Rightarrow>
     source_observation \<Rightarrow> run_info \<Rightarrow> run_info" where
  "final_run ev st a existing ex cleanup error source r =
    r\<lparr>ri_artifact := final_artifact cleanup (cleanup \<and> same_artifact st existing (ac_measurement a))
        (ac_measurement a) (ri_artifact r),
      ri_structured_result := ac_result_snapshot a, ri_events := ac_events_snapshot a,
      ri_source_changed := source_change (ri_source_start r) source,
      ri_source_end := Some source, ri_steps := final_steps ev a ex,
      ri_log := ev_sink ev (ri_run_id r), ri_error := error,
      ri_exit_code := map_option te_code ex, ri_signal := Option.bind ex te_signal,
      ri_state := final_state cleanup (ri_cancel_requested r) ex error,
      ri_finished_at_ms := Some (ev_now ev), ri_cleanup_confirmed := cleanup\<rparr>"

definition settle_active :: "string \<Rightarrow> bool \<Rightarrow> registry \<Rightarrow> registry" where
  "settle_active i cleanup st = (case get_active i st of
      None \<Rightarrow> st
    | Some a \<Rightarrow>
        if cleanup then put_active i (a\<lparr>ac_finishing := False, ac_lease := None, ac_run_use := False\<rparr>)
          (drop_lease (ac_lease a) st)
        else put_active i (a\<lparr>ac_finishing := False\<rparr>) st)"

definition finish_observed ::
    "config \<Rightarrow> env \<Rightarrow> string \<Rightarrow> terminal_exit option \<Rightarrow> bool \<Rightarrow> string option \<Rightarrow> source_observation \<Rightarrow>
     (registry, run_info) op" where
  "finish_observed cf ev i ex cleanup error source st0 =
    (case get_active i st0 of
       None \<Rightarrow> (Inl (Bail ''run not owned by this host''), st0)
     | Some a0 \<Rightarrow>
         let a = take_snapshots ev i cleanup a0; st = put_active i a st0 in
         op_try (op_lift (info ev i st)) (\<lambda>existing.
         op_try (op_modify (update_run i (final_run ev st a existing ex cleanup error source))) (\<lambda>_.
         op_try (persist cf ev) (\<lambda>_.
         op_try (op_modify (settle_active i cleanup)) (\<lambda>_.
         get_info ev i)))) st)"

text \<open>\<open>finish\<close>: the probe, its observation (taken as given) and the finalization at once.\<close>

definition finish_run ::
    "config \<Rightarrow> env \<Rightarrow> string \<Rightarrow> terminal_exit option \<Rightarrow> bool \<Rightarrow> string option \<Rightarrow> source_observation \<Rightarrow>
     (registry, run_info) op" where
  "finish_run cf ev i ex cleanup error source =
    op_try (finish_probe i) (\<lambda>_. finish_observed cf ev i ex cleanup error source)"

section \<open>Pinning\<close>

definition pin_room :: "config \<Rightarrow> env \<Rightarrow> (registry, unit) op" where
  "pin_room cf ev st = rotate_loop (length (rg_runs st)) (\<lambda>st. HISTORY_LIMIT \<le> unpinned st)
     ''ordinary history is full of active or unconfirmed work; cannot unpin yet'' cf ev st"

definition pin_checks :: "env \<Rightarrow> run_info \<Rightarrow> registry \<Rightarrow> unit res" where
  "pin_checks ev current st =
    ensure (case ri_structured_result current of None \<Rightarrow> True | Some r \<Rightarrow>
        (case ev_verify_result ev r of ResultExpired _ \<Rightarrow> False | ResultTampered _ _ \<Rightarrow> False | _ \<Rightarrow> True))
      ''cannot pin expired or tampered result''
    (ensure (case ri_events current of None \<Rightarrow> True | Some e \<Rightarrow>
        ep_state (ev_retained_events ev e) \<notin> {EvExpired, EvTampered})
      ''cannot pin expired or tampered events''
    (ensure (length (filter ri_pinned (rg_runs st)) < PINNED_RUN_LIMIT)
      ''at most 16 pinned runs; unpin or export an existing baseline''
    (ensure (saturating_add (saturating_sum (map retained_bytes (filter ri_pinned (rg_runs st))))
        (retained_bytes current) \<le> PINNED_RESULT_BYTES)
      ''pinned data exceeds 128 MiB; unpin or export an existing baseline'' (Inr ()))))"

definition pin_result :: "config \<Rightarrow> env \<Rightarrow> string \<Rightarrow> bool \<Rightarrow> (registry, run_info) op" where
  "pin_result cf ev i pinned =
    op_try (get_info ev i) (\<lambda>current.
    op_ensure (\<not> run_is_live (ri_state current) \<and> ri_cleanup_confirmed current)
      ''pin requires confirmed process cleanup''
    (if ri_pinned current = pinned then op_return current else
     op_try (if pinned then (\<lambda>st. (pin_checks ev current st, st)) else pin_room cf ev) (\<lambda>_.
     run_mut i (\<lambda>_.
     op_try (op_modify (update_run i (\<lambda>r. r\<lparr>ri_pinned := pinned\<rparr>))) (\<lambda>_.
     op_try (persist_or cf ev (update_run i (\<lambda>r. r\<lparr>ri_pinned := ri_pinned current\<rparr>))) (\<lambda>_.
     get_info ev i))))))"

section \<open>Opening and closing\<close>

definition recover_run :: "run_info \<Rightarrow> run_info" where
  "recover_run r =
    (let r1 = (if run_is_live (ri_state r) then r\<lparr>ri_state := RUnknown,
           ri_error := Some ''previous host ended before confirmed cleanup; no automatic retry or process adoption''\<rparr>
         else r) in
     if ld_state (ri_log r1) = LRecording then r1\<lparr>ri_log := (ri_log r1)\<lparr>ld_state := LPartial\<rparr>\<rparr> else r1)"

definition migrate_result :: "env \<Rightarrow> run_info \<Rightarrow> run_info res" where
  "migrate_result ev r = (case ri_structured_result r of None \<Rightarrow> Inr r | Some old \<Rightarrow>
     let new = ev_migrate ev (ri_run_id r) old in
     ensure (case new of ResultLimited _ _ \<Rightarrow> False | ResultStorageFailed _ \<Rightarrow> False | _ \<Rightarrow> True)
       ''cannot snapshot legacy result; original ledger preserved''
       (Inr (r\<lparr>ri_structured_result := Some new\<rparr>)))"

definition check_saved_run :: "ext \<Rightarrow> string list \<Rightarrow> run_info \<Rightarrow> unit res" where
  "check_saved_run x ids r =
    and_then (valid_id x (ri_run_id r)) (\<lambda>_.
    and_then (valid_id x (ri_operation_id r)) (\<lambda>_.
    and_then (valid_id x (ri_project_id r)) (\<lambda>_.
    and_then (valid_id x (ri_task_id r)) (\<lambda>_.
    ensure (ri_run_id r \<notin> set ids) ''duplicate run ledger ID''
    (and_then (valid_name (ri_name r)) (\<lambda>_.
     and_then (absolute_path (ri_cwd r)) (\<lambda>_.
     ensure (ld_run_id (ri_log r) = ri_run_id r \<and> ld_limit_bytes (ri_log r) \<le> LOG_LIMIT
         \<and> ld_bytes (ri_log r) \<le> LOG_LIMIT \<and> 0 < ld_generation (ri_log r))
       ''invalid run log descriptor; ledger preserved''
     (ensure (length (ri_steps r) \<le> 64 \<and> length (ri_source_roots r) \<le> 128
         \<and> length (ri_build_outputs r) \<le> 32) ''run ledger record exceeds definition bounds''
     (check_all absolute_path (ri_source_roots r @ ri_build_outputs r))))))))))"

text \<open>One round of the loop of \<open>open\<close>; the accumulator is the runs taken over so far.\<close>

definition recover_one :: "config \<Rightarrow> env \<Rightarrow> run_info list \<Rightarrow> run_info \<Rightarrow> run_info list res" where
  "recover_one cf ev acc r =
    and_then (migrate_result ev r) (\<lambda>m.
    and_then (check_saved_run (cf_ext cf) (map ri_run_id acc) m) (\<lambda>_.
    Inr (acc @ [recover_run m])))"

definition new_registry :: "source_gate \<Rightarrow> run_ledger option \<Rightarrow> (bool \<times> string) option list \<Rightarrow> registry" where
  "new_registry gate disk faults = \<lparr>rg_gate = gate, rg_runs = [], rg_retired = [], rg_active = [],
     rg_published = [], rg_pending = [], rg_disk = disk, rg_faults = faults\<rparr>"

definition withdraw_sources :: "project list \<Rightarrow> (registry, unit) op" where
  "withdraw_sources ps = fold (\<lambda>p m. op_try m (\<lambda>_. case pr_repository_binding p of
      None \<Rightarrow> op_return () | Some r \<Rightarrow> on_gate (gate_unavailable (rp_git_dir r)))) ps (op_return ())"

text \<open>
  \<open>open\<close>: every bound repository is unavailable until published; the saved runs are taken over
  without adopting any process; the first ledger it writes has the new schema.
\<close>

definition open_registry :: "config \<Rightarrow> env \<Rightarrow> (registry, unit) op" where
  "open_registry cf ev =
    op_try (op_lift (fst (store_load (cf_ext cf) (cf_codec cf) (cf_store cf) (ev_world ev)))) (\<lambda>w.
    op_try (withdraw_sources (ws_projects w)) (\<lambda>_.
    op_try (op_get (\<lambda>st. case rg_disk st of
        None \<Rightarrow> \<lparr>rl_schema = 2, rl_runs = [], rl_retired = []\<rparr> | Some l \<Rightarrow> l)) (\<lambda>l.
    op_try (op_lift (validate_run_ledger (cf_ext cf) (cf_run_json cf) l)) (\<lambda>_.
    op_try (op_lift (if rl_schema l = 1 then ev_backup_v1 ev else Inr ())) (\<lambda>_.
    op_try (op_lift (fold_res (recover_one cf ev) [] (rl_runs l))) (\<lambda>runs.
    op_try (op_modify (\<lambda>st. st\<lparr>rg_runs := runs, rg_retired := rl_retired l\<rparr>)) (\<lambda>_.
    op_try (persist cf ev) (\<lambda>_.
    op_try (cleanup_retired cf ev) (\<lambda>_.
    expire_history cf ev)))))))))"

text \<open>
  \<open>Drop\<close>: published and active sources become unavailable, then the entries of \<open>active\<close> are
  dropped with the leases they hold.
\<close>

definition drop_registry :: "registry \<Rightarrow> source_gate" where
  "drop_registry st =
    fold (\<lambda>(_, a) g. case ac_lease a of None \<Rightarrow> g | Some l \<Rightarrow> gate_drop l g) (rg_active st)
      (fold (\<lambda>i g. snd (gate_unavailable i g))
        (rg_published st @ List.map_filter (\<lambda>(_, a). map_option rp_git_dir (tl_repository (ac_plan a))) (rg_active st))
        (rg_gate st))"

section \<open>Reading logs\<close>

record log_chunk =
  lc_descriptor :: log_descriptor
  lc_offset :: nat
  lc_next_offset :: nat
  lc_data :: string
  lc_eof :: bool

definition read_log :: "env \<Rightarrow> string \<Rightarrow> nat \<Rightarrow> nat \<Rightarrow> nat \<Rightarrow> registry \<Rightarrow> log_chunk res" where
  "read_log ev i generation offset limit st =
    and_then (info ev i st) (\<lambda>r. let d = ri_log r in
    ensure (generation = ld_generation d) ''log generation changed; reload descriptor''
    (ensure (0 < limit \<and> limit \<le> CHUNK_LIMIT) ''log read limit must be 1-65536''
    (and_then (if ld_state d \<in> {LDisabled, LExpired} then Inr (d, []) else
       (case ev_log_file ev i of
          Inr (key, content) \<Rightarrow>
            ensure (ld_file_identity d = Some key) ''log file replaced; reload descriptor''
            (let d1 = (if length content < ld_bytes d then d\<lparr>ld_state := LPartial\<rparr> else d);
                 d2 = d1\<lparr>ld_bytes := min (length content) LOG_LIMIT\<rparr> in
             ensure (offset \<le> ld_bytes d2) ''log position no longer available''
               (Inr (d2, take limit (drop offset content))))
        | Inl e \<Rightarrow> if \<not> ev_log_exists ev i then Inr (d\<lparr>ld_state := LExpired\<rparr>, []) else Inl e)) (\<lambda>(d', bytes).
     Inr \<lparr>lc_descriptor = d', lc_offset = offset, lc_next_offset = offset + length bytes,
          lc_data = bytes, lc_eof = (ld_bytes d' \<le> offset + length bytes)\<rparr>))))"

end
