(* ===== verification/Run_Safety.thy ===== *)
theory Run_Safety
  imports Run_Registry "HOL-Library.Multiset"
begin

text \<open>
  Safety of the run registry.  A system is a registry together with the tickets of reserved
  starts and the leases other clients of the gate hold; its steps are the registry's methods,
  the gate's methods called by the Git service, and a restart of the host, in any order and
  with any observation.  The invariants say that claimed outputs never overlap, that the gate
  knows exactly the outstanding leases, that every live run is owned and keeps its lease, and
  that a lease is only given up when the disk has the settled outcome.
\<close>

section \<open>Pairwise facts about lists\<close>

text \<open>A symmetric relation between all pairs of a list does not depend on its order.\<close>

lemma sorted_wrt_mset:
  assumes "symp R" "mset xs = mset ys" "sorted_wrt R xs"
  shows "sorted_wrt R ys"
  using assms(2,3)
proof (induction ys arbitrary: xs)
  case (Cons y ys)
  then have "y \<in> set xs" by (metis list.set_intros(1) set_mset_mset)
  then obtain as bs where xs: "xs = as @ y # bs" by (meson split_list)
  with Cons.prems have m: "mset (as @ bs) = mset ys" by simp
  have "sorted_wrt R (as @ bs)" using Cons.prems(2) xs by (auto simp: sorted_wrt_append)
  from Cons.IH [OF m this] have "sorted_wrt R ys" .
  moreover have "\<forall>z\<in>set (as @ bs). R y z"
    using Cons.prems(2) xs assms(1) by (auto simp: sorted_wrt_append dest: sympD)
  ultimately show ?case using mset_eq_setD [OF m] by auto
qed simp

lemma find_split:
  "find P xs = Some x \<Longrightarrow> \<exists>us vs. xs = us @ x # vs \<and> P x \<and> (\<forall>u\<in>set us. \<not> P u)"
proof (induction xs)
  case (Cons y ys)
  show ?case
  proof (cases "P y")
    case True
    with Cons.prems show ?thesis by (intro exI [of _ "[]"] exI [of _ ys]) simp
  next
    case False
    with Cons obtain us vs where "ys = us @ x # vs \<and> P x \<and> (\<forall>u\<in>set us. \<not> P u)" by auto
    with False show ?thesis by (intro exI [of _ "y # us"] exI [of _ vs]) simp
  qed
qed simp

lemma update_first_split:
  "\<forall>u\<in>set us. \<not> P u \<Longrightarrow> P x \<Longrightarrow> update_first P f (us @ x # vs) = us @ f x # vs"
  by (induction us) auto


section \<open>Persisting\<close>

lemma info_log_fields [simp]:
  "ri_run_id (info_log ev o' r) = ri_run_id r" "ri_state (info_log ev o' r) = ri_state r"
  "ri_operation_id (info_log ev o' r) = ri_operation_id r"
  "ri_cleanup_confirmed (info_log ev o' r) = ri_cleanup_confirmed r"
  "ri_build_outputs (info_log ev o' r) = ri_build_outputs r"
  "ri_pinned (info_log ev o' r) = ri_pinned r"
  "ri_cancel_requested (info_log ev o' r) = ri_cancel_requested r"
  "ri_project_id (info_log ev o' r) = ri_project_id r"
  "ri_task_id (info_log ev o' r) = ri_task_id r"
  "ri_finished_at_ms (info_log ev o' r) = ri_finished_at_ms r"
  by (auto simp: info_log_def Let_def split: sum.splits)

lemma info_run_fields [simp]:
  "ri_run_id (info_run ev st r) = ri_run_id r" "ri_state (info_run ev st r) = ri_state r"
  "ri_operation_id (info_run ev st r) = ri_operation_id r"
  "ri_cleanup_confirmed (info_run ev st r) = ri_cleanup_confirmed r"
  "ri_build_outputs (info_run ev st r) = ri_build_outputs r"
  "ri_pinned (info_run ev st r) = ri_pinned r"
  "ri_cancel_requested (info_run ev st r) = ri_cancel_requested r"
  "ri_project_id (info_run ev st r) = ri_project_id r"
  "ri_task_id (info_run ev st r) = ri_task_id r"
  "ri_finished_at_ms (info_run ev st r) = ri_finished_at_ms r"
  by (auto simp: info_run_def Let_def split: option.splits)

definition run_id_list :: "registry \<Rightarrow> string list" where
  "run_id_list st = map ri_run_id (rg_runs st)"

lemma find_run_mem:
  "distinct (run_id_list st) \<Longrightarrow> r \<in> set (rg_runs st) \<Longrightarrow> find_run (ri_run_id r) st = Some r"
proof -
  assume d: "distinct (run_id_list st)" and r: "r \<in> set (rg_runs st)"
  then obtain x where x: "find_run (ri_run_id r) st = Some x"
    by (cases "find_run (ri_run_id r) st") (auto simp: find_run_def find_None_iff)
  then obtain us vs where "rg_runs st = us @ x # vs" "ri_run_id x = ri_run_id r"
    by (auto simp: find_run_def dest!: find_split)
  with d r show ?thesis using x by (auto simp: run_id_list_def)
qed

lemma list_runs_all:
  assumes "distinct (run_id_list st)"
  shows "list_runs ev None st = map (info_run ev st) (rg_runs st)"
  using find_run_mem [OF assms]
  by (auto simp: list_runs_def info_def and_then_def)

definition ledger :: "env \<Rightarrow> registry \<Rightarrow> run_ledger" where
  "ledger ev st = \<lparr>rl_schema = 2, rl_runs = list_runs ev None st, rl_retired = rg_retired st\<rparr>"

text \<open>What a call of \<open>persist\<close> leaves: only the disk may change, and only to this state's ledger.\<close>

lemma persistE:
  assumes "persist cf ev st = (r, st')"
  obtains disk faults where "st' = st\<lparr>rg_disk := disk, rg_faults := faults\<rparr>"
    "disk = rg_disk st \<or> disk = Some (ledger ev st)"
    "r = Inr () \<Longrightarrow> disk = Some (ledger ev st)"
    "r = Inr () \<Longrightarrow> validate_run_ledger (cf_ext cf) (cf_run_json cf) (ledger ev st) = Inr ()"
proof -
  have "st' = st\<lparr>rg_disk := rg_disk st', rg_faults := rg_faults st'\<rparr>
    \<and> (rg_disk st' = rg_disk st \<or> rg_disk st' = Some (ledger ev st))
    \<and> (r = Inr () \<longrightarrow> rg_disk st' = Some (ledger ev st)
      \<and> validate_run_ledger (cf_ext cf) (cf_run_json cf) (ledger ev st) = Inr ())"
    using assms
    by (auto simp: persist_def ledger_def [symmetric] Let_def
        split: sum.splits list.splits option.splits prod.splits)
  then show ?thesis using that by blast
qed

section \<open>Changes that only write the ledger\<close>

definition disk_only :: "env \<Rightarrow> registry \<Rightarrow> registry \<Rightarrow> bool" where
  "disk_only ev st st' \<longleftrightarrow>
     rg_gate st' = rg_gate st \<and> rg_runs st' = rg_runs st \<and> rg_active st' = rg_active st
   \<and> rg_published st' = rg_published st \<and> rg_pending st' = rg_pending st
   \<and> (rg_disk st' = rg_disk st \<or> (\<exists>l. rg_disk st' = Some l \<and> rl_runs l = list_runs ev None st))"

lemma list_runs_cong:
  assumes "rg_runs st' = rg_runs st" "rg_active st' = rg_active st"
  shows "list_runs ev p st' = list_runs ev p st"
proof -
  have "info_run ev st' = info_run ev st"
    using assms by (simp add: info_run_def get_active_def fun_eq_iff)
  with assms show ?thesis by (simp add: list_runs_def info_def find_run_def)
qed

lemma disk_only_refl: "disk_only ev st st"
  by (simp add: disk_only_def)

lemma disk_only_trans: "disk_only ev st st' \<Longrightarrow> disk_only ev st' st'' \<Longrightarrow> disk_only ev st st''"
  unfolding disk_only_def by (metis list_runs_cong)

lemma disk_only_persist: "op_rel (disk_only ev) (persist cf ev)"
  unfolding op_rel_def
proof
  fix st
  obtain r st' where p: "persist cf ev st = (r, st')" by fastforce
  then show "disk_only ev st (snd (persist cf ev st))"
    by (rule persistE) (auto simp: p disk_only_def ledger_def)
qed

lemma disk_only_retired [simp]:
  "disk_only ev st (st'\<lparr>rg_retired := t\<rparr>) = disk_only ev st st'"
  "disk_only ev (st\<lparr>rg_retired := t\<rparr>) st' = disk_only ev st st'"
  using list_runs_cong [of "st\<lparr>rg_retired := t\<rparr>" st ev None] by (simp_all add: disk_only_def)

lemma cleanup_loop_retired: "op_rel (disk_only ev) (cleanup_loop n cf ev)"
proof (induction n)
  case 0
  then show ?case by (simp add: op_rel_def disk_only_refl)
next
  case (Suc n)
  have "disk_only ev st (snd (cleanup_loop (Suc n) cf ev st))" for st
  proof (cases "rg_retired st")
    case Nil
    then show ?thesis by (simp add: disk_only_refl)
  next
    case (Cons t ts)
    let ?st = "st\<lparr>rg_retired := ts\<rparr>"
    obtain r u where p: "persist cf ev ?st = (r, u)" by fastforce
    then have pu: "disk_only ev st u" using op_relD [OF disk_only_persist p] by simp
    moreover have "disk_only ev u (snd (cleanup_loop n cf ev u))"
      using Suc unfolding op_rel_def by blast
    ultimately have "disk_only ev st (snd (cleanup_loop n cf ev u))" by (rule disk_only_trans)
    with p pu Cons show ?thesis
      by (auto simp: op_try_def persist_or_def disk_only_refl split: sum.splits prod.splits)
  qed
  then show ?case by (simp add: op_rel_def)
qed

lemma disk_only_cleanup: "op_rel (disk_only ev) (cleanup_retired cf ev)"
  using cleanup_loop_retired unfolding op_rel_def cleanup_retired_def by blast

section \<open>Claims\<close>

text \<open>
  What a run or a pending start claims: its identities, and its outputs while it holds them.
  Two claims are compatible when the identities differ and no output overlaps.
\<close>

type_synonym claim = "string \<times> string \<times> path list"

definition run_claim :: "run_info \<Rightarrow> claim" where
  "run_claim r = (ri_run_id r, ri_operation_id r, if holds_output r then ri_build_outputs r else [])"

definition pending_claim :: "pending_start \<Rightarrow> claim" where
  "pending_claim n = (pn_run_id n, pn_operation_id n, pn_build_outputs n)"

definition claims :: "registry \<Rightarrow> claim list" where
  "claims st = map run_claim (rg_runs st) @ map pending_claim (rg_pending st)"

fun compatible :: "claim \<Rightarrow> claim \<Rightarrow> bool" where
  "compatible (i, oi, ps) (j, oj, qs) \<longleftrightarrow> i \<noteq> j \<and> oi \<noteq> oj \<and> \<not> conflicts ps qs"

definition claims_ok :: "registry \<Rightarrow> bool" where
  "claims_ok st \<longleftrightarrow> sorted_wrt compatible (claims st)
     \<and> (\<forall>l. rg_disk st = Some l \<longrightarrow> sorted_wrt compatible (map run_claim (rl_runs l)))"

lemma conflicts_sym: "conflicts ps qs = conflicts qs ps"
  unfolding conflicts_def list_ex_iff by (metis overlaps_sym)

lemma conflicts_Nil [simp]: "\<not> conflicts [] qs" "\<not> conflicts ps []"
  by (simp_all add: conflicts_def list_ex_iff)

lemma compatible_sym: "symp compatible"
  by (rule sympI) (auto simp: conflicts_sym)

text \<open>Claims may only shrink: some disappear, others give their outputs up.\<close>

fun weaker :: "claim \<Rightarrow> claim \<Rightarrow> bool" where
  "weaker (i, oi, ps) (j, oj, qs) \<longleftrightarrow> i = j \<and> oi = oj \<and> (ps = qs \<or> ps = [])"

lemma weaker_refl [simp]: "weaker c c"
  by (cases c) simp

lemma compatible_weaker: "compatible c d \<Longrightarrow> weaker c' c \<Longrightarrow> weaker d' d \<Longrightarrow> compatible c' d'"
  by (cases c; cases d; cases c'; cases d') auto

lemma sorted_wrt_weaker:
  assumes "list_all2 weaker xs ys" "sorted_wrt compatible ys"
  shows "sorted_wrt compatible xs"
  using assms
proof (induction rule: list_all2_induct)
  case (Cons x xs y ys)
  have "compatible x z" if "z \<in> set xs" for z
  proof -
    from that Cons(2) obtain w where "w \<in> set ys" "weaker z w"
      by (metis in_set_conv_nth list_all2_conv_all_nth)
    with Cons show ?thesis by (auto intro: compatible_weaker)
  qed
  with Cons show ?case by simp
qed simp

lemma sorted_wrt_subseq: "subseq xs ys \<Longrightarrow> sorted_wrt P ys \<Longrightarrow> sorted_wrt P xs"
  by (induction rule: list_emb.induct) (auto dest: list_emb_set)

lemma claims_distinct:
  "sorted_wrt compatible (claims st) \<Longrightarrow> distinct (run_id_list st)"
proof -
  have "distinct (map fst cs)" if "sorted_wrt compatible cs" for cs
    using that by (induction cs) auto
  moreover assume "sorted_wrt compatible (claims st)"
  ultimately have "distinct (map fst (claims st))" .
  then show ?thesis by (simp add: claims_def run_id_list_def run_claim_def comp_def)
qed

lemma run_claim_info [simp]: "run_claim (info_run ev st r) = run_claim r"
  by (simp add: run_claim_def holds_output_def unsettled_def)

lemma claims_list:
  assumes "sorted_wrt compatible (claims st)"
  shows "map run_claim (list_runs ev None st) = map run_claim (rg_runs st)"
  using list_runs_all [OF claims_distinct [OF assms]] by simp

lemma claims_ok_disk_only:
  assumes "disk_only ev st st'" "claims_ok st"
  shows "claims_ok st'"
  using assms claims_list [of st ev]
  by (auto simp: disk_only_def claims_ok_def claims_def sorted_wrt_append)

lemma claims_ok_weaker:
  assumes "claims_ok st" "list_all2 weaker (claims st') (claims st)" "rg_disk st' = rg_disk st"
  shows "claims_ok st'"
  using assms sorted_wrt_weaker by (auto simp: claims_ok_def)

lemma claims_ok_subseq:
  assumes "claims_ok st" "subseq (claims st') (claims st)" "rg_disk st' = rg_disk st"
  shows "claims_ok st'"
  using assms sorted_wrt_subseq by (auto simp: claims_ok_def)

end
