(* ===== verification/Run_Invariant.thy ===== *)
theory Run_Invariant
  imports Run_Safety
begin

text \<open>
  The invariant of a registry whose clients hold the leases \<open>M\<close> besides its own, and its
  preservation by every method: claims are compatible, the gate knows exactly the outstanding
  leases, every live run is owned, and an owned run of a repository either keeps its lease or
  is settled both in memory and on disk.
\<close>

section \<open>The gate and its leases\<close>

definition gate_holds :: "source_gate \<Rightarrow> gate_lease multiset \<Rightarrow> bool" where
  "gate_holds g M \<longleftrightarrow> (\<exists>ls. mset ls = M \<and> gate_ok \<lparr>gy_gate = g, gy_leases = ls\<rparr>)"

lemma gate_holds_new: "gate_holds new_gate {#}"
  unfolding gate_holds_def
  by (rule exI [of _ "[]"]) (auto intro!: gate.reach_inv reach_init simp: gate_init_def)

lemma gate_holds_method:
  assumes "gate_holds g M" "m \<in> {gate_block i b reason, gate_unblock i b, gate_unavailable i, gate_ready i}"
  shows "gate_holds (snd (m g)) M"
proof -
  from assms(1) obtain ls where ls: "mset ls = M" "gate_ok \<lparr>gy_gate = g, gy_leases = ls\<rparr>"
    by (auto simp: gate_holds_def)
  have "gate_ok \<lparr>gy_gate = snd (m g), gy_leases = ls\<rparr>"
    if "gate_exec a \<lparr>gy_gate = g, gy_leases = ls\<rparr> = lift_gate m \<lparr>gy_gate = g, gy_leases = ls\<rparr>"
      "gate_enabled a \<lparr>gy_gate = g, gy_leases = ls\<rparr>" for a
    using gate_ok_exec [OF ls(2) that(2)] that(1) by (auto simp: lift_gate_def split: prod.splits)
  from this [of "Block i b reason"] this [of "Unblock i b"] this [of "gate_action.Unavailable i"]
    this [of "gate_action.Ready i"] assms(2) ls(1)
  show ?thesis unfolding gate_holds_def by auto
qed

lemma gate_holds_reserve:
  assumes "gate_holds g M"
  shows "gate_holds (snd (gate_reserve i oper run g)) (case fst (gate_reserve i oper run g) of
    Inl _ \<Rightarrow> M | Inr l \<Rightarrow> add_mset l M)"
proof -
  from assms obtain ls where ls: "mset ls = M" "gate_ok \<lparr>gy_gate = g, gy_leases = ls\<rparr>"
    by (auto simp: gate_holds_def)
  let ?s = "\<lparr>gy_gate = g, gy_leases = ls\<rparr>"
  obtain r t where e: "lift_reserve (gate_reserve i oper run) ?s = (r, t)" by fastforce
  then have "gate_ok t" by (rule gate_ok_reserve [OF ls(2)])
  then have "gate_ok \<lparr>gy_gate = gy_gate t, gy_leases = gy_leases t\<rparr>" by (cases t) simp
  moreover have "gy_gate t = snd (gate_reserve i oper run g)"
    "mset (gy_leases t) = (case fst (gate_reserve i oper run g) of Inl _ \<Rightarrow> M | Inr l \<Rightarrow> add_mset l M)"
    using e ls(1) by (auto simp: lift_reserve_def split: prod.splits sum.splits)
  ultimately show ?thesis unfolding gate_holds_def by metis
qed

lemma gate_holds_drop:
  assumes "gate_holds g (add_mset l M)"
  shows "gate_holds (gate_drop l g) M"
proof -
  from assms obtain ls where ls: "mset ls = add_mset l M" "gate_ok \<lparr>gy_gate = g, gy_leases = ls\<rparr>"
    by (auto simp: gate_holds_def)
  then have "l \<in> set ls" by (metis set_mset_mset union_single_eq_member)
  with ls(2) have "gate_ok \<lparr>gy_gate = gate_drop l g, gy_leases = remove1 l ls\<rparr>"
    using gate_ok_drop [of "\<lparr>gy_gate = g, gy_leases = ls\<rparr>" l] by simp
  moreover have "mset (remove1 l ls) = M" using ls(1) by simp
  ultimately show ?thesis unfolding gate_holds_def by blast
qed

text \<open>A held lease refuses every mutation of its repository.\<close>

lemma gate_holds_refuses:
  assumes "gate_holds g M" "l \<in># M" "path_eq (gl_identity l) i"
  shows "\<exists>e. fst (gate_reserve_mutation i oper g) = Inl e"
proof -
  from assms obtain ls where ls: "mset ls = M" "gate_ok \<lparr>gy_gate = g, gy_leases = ls\<rparr>"
    by (auto simp: gate_holds_def)
  let ?f = "filter (lease_at i) ls"
  have inv: "entry_inv (gate_entry g i) ?f"
    using ls(2) by (auto simp: gate_ok_def gate_inv_def)
  have "l \<in> set ?f" using assms(2,3) ls(1) by (auto simp: lease_at_def)
  then have "\<not> grantable (gate_entry g i) oper None"
  proof -
    assume l: "l \<in> set ?f"
    show ?thesis
    proof (cases "gl_mutation l")
      case True
      with l inv have "gs_mutation (gate_entry g i) \<noteq> None" by (auto simp: entry_inv_def)
      then show ?thesis by (auto simp: grantable_def)
    next
      case False
      with l have "gl_operation l \<in> gl_operation ` {m \<in> set ?f. \<not> gl_mutation m}" by blast
      then have "gl_operation l \<in> dom (map_of (gs_runs (gate_entry g i)))"
        using inv unfolding entry_inv_def by (simp only:)
      then show ?thesis by (auto simp: grantable_def)
    qed
  qed
  then show ?thesis
    using gate_reserve_Inr [of i oper None g]
    by (cases "gate_reserve i oper None g"; cases "fst (gate_reserve i oper None g)")
      (auto simp: gate_reserve_mutation_def)
qed

section \<open>Leases of the active runs\<close>

definition lease_of :: "active option \<Rightarrow> gate_lease multiset" where
  "lease_of a = (case Option.bind a ac_lease of None \<Rightarrow> {#} | Some l \<Rightarrow> {#l#})"

fun leases_of :: "active btree \<Rightarrow> gate_lease multiset" where
  "leases_of [] = {#}"
| "leases_of ((i, a) # m) = lease_of (Some a) + leases_of m"

lemma leases_of_insert:
  "bt_sorted m \<Longrightarrow> leases_of (bt_insert i a m) + lease_of (map_of m i) = leases_of m + lease_of (Some a)"
proof (induction m)
  case Nil
  then show ?case by (simp add: lease_of_def)
next
  case (Cons p m)
  obtain j b where p: "p = (j, b)" by (cases p)
  have tail: "bt_sorted m" and lt: "\<forall>x\<in>fst ` set m. j < x"
    using Cons.prems p by (auto simp: bt_sorted_def)
  have none: "map_of m i = None" if "i \<le> j"
    using lt that by (force simp: map_of_eq_None_iff)
  show ?case
    using Cons.IH [OF tail] p none by (auto simp: lease_of_def ac_simps)
qed

lemma leases_of_remove:
  "bt_sorted m \<Longrightarrow> leases_of (bt_remove i m) + lease_of (map_of m i) = leases_of m"
proof (induction m)
  case Nil
  then show ?case by (simp add: lease_of_def bt_remove_def)
next
  case (Cons p m)
  obtain j b where p: "p = (j, b)" by (cases p)
  have tail: "bt_sorted m" and lt: "\<forall>x\<in>fst ` set m. j < x"
    using Cons.prems p by (auto simp: bt_sorted_def)
  have none: "map_of m j = None" using lt by (force simp: map_of_eq_None_iff)
  then have "bt_remove j m = m"
    by (auto simp: bt_remove_def map_of_eq_None_iff image_iff intro!: filter_True)
  with Cons.IH [OF tail] p none show ?case
    by (auto simp: lease_of_def bt_remove_def ac_simps)
qed

lemma lease_in_leases: "map_of m i = Some a \<Longrightarrow> ac_lease a = Some l \<Longrightarrow> l \<in># leases_of m"
  by (induction m) (auto simp: lease_of_def split: if_splits)

section \<open>The invariant\<close>

definition settled :: "run_info \<Rightarrow> bool" where
  "settled r \<longleftrightarrow> \<not> run_is_live (ri_state r) \<and> ri_cleanup_confirmed r"

definition settled_at :: "string \<Rightarrow> registry \<Rightarrow> bool" where
  "settled_at i st \<longleftrightarrow> (\<forall>r\<in>set (rg_runs st). ri_run_id r = i \<longrightarrow> settled r)
     \<and> (\<forall>l. rg_disk st = Some l \<longrightarrow> (\<forall>r\<in>set (rl_runs l). ri_run_id r = i \<longrightarrow> settled r))"

definition leased :: "string \<Rightarrow> active \<Rightarrow> registry \<Rightarrow> bool" where
  "leased i a st \<longleftrightarrow> (\<forall>rp. tl_repository (ac_plan a) = Some rp \<longrightarrow>
     (\<exists>l. ac_lease a = Some l \<and> gl_identity l = rp_git_dir rp) \<or> settled_at i st)"

definition registry_inv :: "gate_lease multiset \<Rightarrow> registry \<Rightarrow> bool" where
  "registry_inv M st \<longleftrightarrow> claims_ok st \<and> bt_sorted (rg_active st)
     \<and> gate_holds (rg_gate st) (leases_of (rg_active st) + M)
     \<and> (\<forall>r\<in>set (rg_runs st). run_is_live (ri_state r) \<longrightarrow> get_active (ri_run_id r) st \<noteq> None)
     \<and> (\<forall>i a. get_active i st = Some a \<longrightarrow> leased i a st)
     \<and> (\<forall>n\<in>set (rg_pending st). get_active (pn_run_id n) st = None)"

lemma registry_invD:
  assumes "registry_inv M st"
  shows "claims_ok st" "bt_sorted (rg_active st)"
    "gate_holds (rg_gate st) (leases_of (rg_active st) + M)"
    "\<And>r. r \<in> set (rg_runs st) \<Longrightarrow> run_is_live (ri_state r) \<Longrightarrow> get_active (ri_run_id r) st \<noteq> None"
    "\<And>i a. get_active i st = Some a \<Longrightarrow> leased i a st"
    "\<And>n. n \<in> set (rg_pending st) \<Longrightarrow> get_active (pn_run_id n) st = None"
    "distinct (run_id_list st)"
  using assms claims_distinct by (auto simp: registry_inv_def claims_ok_def)

lemma settled_info [simp]: "settled (info_run ev st r) = settled r"
  by (simp add: settled_def)

lemma settled_not_holding: "settled r \<Longrightarrow> \<not> holds_output r"
  by (auto simp: settled_def holds_output_def unsettled_def)

lemma settled_at_disk_only:
  assumes "disk_only ev st st'" "distinct (run_id_list st)" "settled_at i st"
  shows "settled_at i st'"
  using assms by (auto simp: disk_only_def settled_at_def list_runs_all)

lemma leased_mono: "leased i a st \<Longrightarrow> (settled_at i st \<Longrightarrow> settled_at i st') \<Longrightarrow> leased i a st'"
  by (auto simp: leased_def)

lemma inv_disk_only:
  assumes inv: "registry_inv M st" and d: "disk_only ev st st'"
  shows "registry_inv M st'"
proof -
  note I = registry_invD [OF inv]
  have "leased i a st'" if "get_active i st' = Some a" for i a
  proof (rule leased_mono)
    show "leased i a st" using I(5) that d by (simp add: get_active_def disk_only_def)
  qed (rule settled_at_disk_only [OF d I(7)])
  with inv d claims_ok_disk_only [OF d I(1)] show ?thesis
    by (simp add: registry_inv_def disk_only_def get_active_def)
qed

lemma op_keeps_disk_only: "op_rel (disk_only ev) m \<Longrightarrow> op_keeps (registry_inv M) m"
  unfolding op_keeps_def op_rel_def using inv_disk_only by blast

lemmas inv_persist = op_keeps_disk_only [OF disk_only_persist]
lemmas inv_cleanup = op_keeps_disk_only [OF disk_only_cleanup]

text \<open>Memory of one state with the disk of another, both good: what an undone change leaves.\<close>

lemma inv_mix:
  assumes "registry_inv M st" "registry_inv N st2" "rg_active st2 = rg_active st"
    "rg_gate st' = rg_gate st" "rg_runs st' = rg_runs st" "rg_active st' = rg_active st"
    "rg_pending st' = rg_pending st" "rg_disk st' = rg_disk st2"
  shows "registry_inv M st'"
proof -
  have "leased i a st'" if "get_active i st' = Some a" for i a
  proof -
    have "leased i a st" "leased i a st2"
      using that assms registry_invD(5) [OF assms(1)] registry_invD(5) [OF assms(2)]
      by (simp_all add: get_active_def)
    with assms(5,8) show ?thesis by (auto simp: leased_def settled_at_def)
  qed
  moreover have "claims_ok st'"
    using assms(5,7,8) registry_invD(1) [OF assms(1)] registry_invD(1) [OF assms(2)]
    by (simp add: claims_ok_def claims_def)
  ultimately show ?thesis using assms(1,4-7) by (simp add: registry_inv_def get_active_def)
qed

section \<open>Changes of one run\<close>

text \<open>A change of a run that keeps its identity and claims no more than before.\<close>

definition gentle :: "run_info \<Rightarrow> run_info \<Rightarrow> bool" where
  "gentle p q \<longleftrightarrow> ri_run_id q = ri_run_id p \<and> weaker (run_claim q) (run_claim p)
     \<and> (run_is_live (ri_state q) \<longrightarrow> run_is_live (ri_state p)) \<and> (settled p \<longrightarrow> settled q)"

lemma inv_update_run:
  assumes inv: "registry_inv M st" and p: "find_run i st = Some p" and g: "gentle p (f p)"
  shows "registry_inv M (update_run i f st)"
proof -
  note I = registry_invD [OF inv]
  obtain us vs where runs: "rg_runs st = us @ p # vs" and i: "ri_run_id p = i"
    and us: "\<forall>u\<in>set us. ri_run_id u \<noteq> i"
    using p by (auto simp: find_run_def dest!: find_split)
  then have runs': "rg_runs (update_run i f st) = us @ f p # vs"
    by (simp add: update_run_def update_first_split)
  have rest: "rg_gate (update_run i f st) = rg_gate st" "rg_active (update_run i f st) = rg_active st"
    "rg_pending (update_run i f st) = rg_pending st" "rg_disk (update_run i f st) = rg_disk st"
    by (simp_all add: update_run_def)
  have "list_all2 weaker (claims (update_run i f st)) (claims st)"
    using g runs runs' rest by (simp add: claims_def gentle_def list_all2_append list_all2_refl)
  then have c: "claims_ok (update_run i f st)" by (rule claims_ok_weaker [OF I(1) _ rest(4)])
  have live: "get_active (ri_run_id r) (update_run i f st) \<noteq> None"
    if "r \<in> set (rg_runs (update_run i f st))" "run_is_live (ri_state r)" for r
    using that I(4) g runs runs' rest unfolding gentle_def get_active_def by auto
  have "leased j a (update_run i f st)" if "get_active j (update_run i f st) = Some a" for j a
  proof (rule leased_mono)
    show "leased j a st" using I(5) that rest by (simp add: get_active_def)
    show "settled_at j st \<Longrightarrow> settled_at j (update_run i f st)"
      using g runs runs' rest by (auto simp: settled_at_def gentle_def)
  qed
  with I c live rest show ?thesis by (simp add: registry_inv_def get_active_def)
qed

text \<open>Change a run, persist, and put the old record back when the write fails.\<close>

lemma inv_change_run:
  assumes inv: "registry_inv M st" and p: "find_run i st = Some p" and g: "gentle p (f p)"
    and undo: "u (f p) = p"
    and k: "op_keeps (registry_inv M) k"
  shows "registry_inv M (snd (op_try (op_modify (update_run i f))
    (\<lambda>_. op_try (persist_or cf ev (update_run i u)) (\<lambda>_. k)) st))"
proof -
  let ?st = "update_run i f st"
  have inv': "registry_inv M ?st" using inv p g by (rule inv_update_run)
  obtain r st' where e: "persist cf ev ?st = (r, st')" by fastforce
  have d: "disk_only ev ?st st'" using op_relD [OF disk_only_persist e] .
  have inv'': "registry_inv M st'" using inv' d by (rule inv_disk_only)
  have i: "ri_run_id p = i" using p by (auto simp: find_run_def dest!: find_split)
  show ?thesis
  proof (cases r)
    case (Inr v)
    with e k inv'' show ?thesis by (simp add: op_try_def persist_or_def op_keeps_def)
  next
    case (Inl err)
    have "registry_inv M (update_run i u st')"
    proof (rule inv_mix [OF inv inv''])
      show "rg_runs (update_run i u st') = rg_runs st"
      proof -
        obtain us vs where "rg_runs st = us @ p # vs" "\<forall>w\<in>set us. ri_run_id w \<noteq> i"
          using p by (auto simp: find_run_def dest!: find_split)
        with d i g undo show ?thesis
          by (auto simp: update_run_def update_first_split disk_only_def gentle_def)
      qed
    qed (use d in \<open>simp_all add: disk_only_def update_run_def\<close>)
    with e Inl show ?thesis by (simp add: op_try_def persist_or_def)
  qed
qed

section \<open>Retention\<close>

lemma position_Some: "position P xs = Some i \<Longrightarrow> i < length xs \<and> P (xs ! i)"
  by (induction xs arbitrary: i) (auto split: if_splits)

lemma position_None: "position P xs = None \<longleftrightarrow> (\<forall>x\<in>set xs. \<not> P x)"
  by (induction xs) auto

lemma subseq_remove_at: "subseq (remove_at i xs) xs"
proof (cases "i < length xs")
  case True
  then have xs: "xs = take i xs @ xs ! i # drop (Suc i) xs" by (rule id_take_nth_drop)
  have "subseq (take i xs @ drop (Suc i) xs) (take i xs @ xs ! i # drop (Suc i) xs)"
    unfolding subseq_append' by (rule list_emb_Cons) simp
  then show ?thesis unfolding remove_at_def using xs by simp
qed (simp add: remove_at_def)

lemma insert_remove_at: "i < length xs \<Longrightarrow> insert_at i (xs ! i) (remove_at i xs) = xs"
  by (simp add: insert_at_def remove_at_def id_take_nth_drop [symmetric])

lemma remove_at_ids:
  assumes "distinct (map f xs)" "i < length xs" "y \<in> set (remove_at i xs)"
  shows "f y \<noteq> f (xs ! i)"
proof -
  have xs: "xs = take i xs @ xs ! i # drop (Suc i) xs" using assms(2) by (rule id_take_nth_drop)
  then have "distinct (map f (take i xs @ xs ! i # drop (Suc i) xs))" using assms(1) by simp
  with assms(3) show ?thesis unfolding remove_at_def by (auto simp: image_iff)
qed

lemma inv_fewer_runs:
  assumes inv: "registry_inv M st" and sub: "subseq rs (rg_runs st)"
  shows "registry_inv M (st\<lparr>rg_retired := t, rg_runs := rs\<rparr>)" (is "registry_inv M ?st")
proof -
  note I = registry_invD [OF inv]
  have rs: "set rs \<subseteq> set (rg_runs st)" using sub by (auto dest: list_emb_set)
  have "subseq (claims ?st) (claims st)"
    using sub by (simp add: claims_def subseq_map)
  then have c: "claims_ok ?st" by (rule claims_ok_subseq [OF I(1)]) simp
  have "leased i a ?st" if "get_active i ?st = Some a" for i a
  proof (rule leased_mono)
    show "leased i a st" using I(5) that by (simp add: get_active_def)
    show "settled_at i st \<Longrightarrow> settled_at i ?st" using rs by (auto simp: settled_at_def)
  qed
  with inv c rs show ?thesis by (auto simp: registry_inv_def get_active_def)
qed

lemma inv_drop_active:
  assumes inv: "registry_inv M st" and gone: "\<forall>r\<in>set (rg_runs st). ri_run_id r \<noteq> i"
  shows "registry_inv M (drop_active i st)"
proof (cases "get_active i st")
  case None
  with inv show ?thesis by (simp add: drop_active_def)
next
  case (Some a)
  note I = registry_invD [OF inv]
  let ?st = "drop_active i st"
  have fields: "rg_runs ?st = rg_runs st" "rg_pending ?st = rg_pending st" "rg_disk ?st = rg_disk st"
    "rg_active ?st = bt_remove i (rg_active st)"
    "rg_gate ?st = (case ac_lease a of None \<Rightarrow> rg_gate st | Some g \<Rightarrow> gate_drop g (rg_gate st))"
    using Some by (auto simp: drop_active_def drop_lease_def split: option.splits)
  have get: "get_active j ?st = (if j = i then None else get_active j st)" for j
    using fields(4) by (simp add: get_active_def)
  have "leases_of (rg_active ?st) + lease_of (Some a) = leases_of (rg_active st)"
    using leases_of_remove [OF I(2), of i] Some fields(4) by (simp add: get_active_def)
  then have l: "leases_of (rg_active st) + M = lease_of (Some a) + (leases_of (rg_active ?st) + M)"
    by (simp add: ac_simps)
  have "gate_holds (rg_gate ?st) (leases_of (rg_active ?st) + M)"
    using I(3) unfolding l fields(5)
    by (auto simp: lease_of_def split: option.splits intro: gate_holds_drop)
  moreover have "claims_ok ?st" using I(1) by (simp add: claims_ok_def claims_def fields)
  moreover have "leased j b ?st" if "get_active j ?st = Some b" for j b
    using I(5) [of j b] that by (auto simp: leased_def settled_at_def fields get split: if_splits)
  ultimately show ?thesis
    using I(2,4,6) gone by (simp add: registry_inv_def fields get bt_sorted_remove)
qed

text \<open>
  \<open>remove_history\<close> either refuses and changes nothing, or takes the run out, writes the ledger,
  and drops the run's entry.
\<close>

definition commit_removal :: "config \<Rightarrow> env \<Rightarrow> nat \<Rightarrow> run_info \<Rightarrow> (registry, unit) op" where
  "commit_removal cf ev i old =
    op_try (persist_or cf ev (\<lambda>st. st\<lparr>rg_runs := insert_at i old (rg_runs st),
      rg_retired := butlast (rg_retired st)\<rparr>)) (\<lambda>_.
    op_try (op_modify (drop_active (ri_run_id old))) (\<lambda>_. cleanup_retired cf ev))"

definition retired_of :: "run_info \<Rightarrow> file_key option \<Rightarrow> retired_run" where
  "retired_of old key = \<lparr>rt_run_id = ri_run_id old,
     rt_result = Option.bind (ri_structured_result old) result_body,
     rt_events = Option.bind (ri_events old) ep_body,
     rt_log_identity = ld_file_identity (ri_log old), rt_runtime_identity = key\<rparr>"

lemma remove_history_cases:
  assumes "remove_history cf ev i st = (r, st')"
  obtains (refused) e where "r = Inl e" "st' = st"
  | (removed) key where "can_rotate st (rg_runs st ! i)" "length (rg_retired st) < HISTORY_LIMIT"
      "commit_removal cf ev i (rg_runs st ! i) (st\<lparr>rg_retired := rg_retired st @
         [retired_of (rg_runs st ! i) key], rg_runs := remove_at i (rg_runs st)\<rparr>) = (r, st')"
  using assms that
  unfolding remove_history_def Let_def commit_removal_def [symmetric] retired_of_def [symmetric]
  by (auto simp: op_ensure_def op_try_def split: sum.splits if_splits)

lemma inv_remove_history:
  assumes inv: "registry_inv M st" and i: "i < length (rg_runs st)"
  shows "registry_inv M (snd (remove_history cf ev i st))"
proof -
  let ?old = "rg_runs st ! i"
  obtain r st' where e: "remove_history cf ev i st = (r, st')" by fastforce
  then show ?thesis
  proof (cases rule: remove_history_cases)
    case refused
    with e inv show ?thesis by simp
  next
    case (removed key)
    let ?rm = "st\<lparr>rg_retired := rg_retired st @ [retired_of ?old key], rg_runs := remove_at i (rg_runs st)\<rparr>"
    have inv': "registry_inv M ?rm" by (rule inv_fewer_runs [OF inv subseq_remove_at])
    obtain q st1 where p: "persist cf ev ?rm = (q, st1)" by fastforce
    have d: "disk_only ev ?rm st1" using op_relD [OF disk_only_persist p] .
    have inv1: "registry_inv M st1" using inv' d by (rule inv_disk_only)
    have undo: "registry_inv M (st1\<lparr>rg_runs := insert_at i ?old (rg_runs st1),
        rg_retired := butlast (rg_retired st1)\<rparr>)"
      by (rule inv_mix [OF inv inv1]) (use d i in \<open>simp_all add: disk_only_def insert_remove_at\<close>)
    have "\<forall>r\<in>set (rg_runs st1). ri_run_id r \<noteq> ri_run_id ?old"
      using d i registry_invD(7) [OF inv]
      by (auto simp: disk_only_def run_id_list_def dest: remove_at_ids)
    with inv1 have "registry_inv M (drop_active (ri_run_id ?old) st1)" by (rule inv_drop_active)
    then have "registry_inv M (snd (cleanup_retired cf ev (drop_active (ri_run_id ?old) st1)))"
      using inv_cleanup unfolding op_keeps_def by blast
    with p undo removed(3) e show ?thesis
      by (cases q) (auto simp: commit_removal_def op_try_def persist_or_def)
  qed
qed

lemma inv_expire_loop: "op_keeps (registry_inv M) (expire_loop n cf ev)"
proof (induction n)
  case (Suc n)
  show ?case
  proof (rule op_keepsI)
    fix st
    assume inv: "registry_inv M st"
    then show "registry_inv M (snd (expire_loop (Suc n) cf ev st))"
      using Suc inv_remove_history [OF inv, of _ cf ev]
      by (auto simp: op_try_def op_keeps_def split: option.splits sum.splits prod.splits
          dest!: position_Some) (metis snd_conv)+
  qed
qed (simp add: op_keeps_def)

lemma inv_expire: "op_keeps (registry_inv M) (expire_history cf ev)"
  using inv_expire_loop by (simp add: op_keeps_def expire_history_def)

lemma inv_rotate_loop: "op_keeps (registry_inv M) (rotate_loop n full m cf ev)"
proof (induction n)
  case 0
  show ?case by (simp add: op_keeps_def)
next
  case (Suc n)
  show ?case
  proof (rule op_keepsI)
    fix st
    assume inv: "registry_inv M st"
    then show "registry_inv M (snd (rotate_loop (Suc n) full m cf ev st))"
      using Suc inv_remove_history [OF inv, of _ cf ev]
      by (auto simp: op_try_def op_keeps_def split: option.splits sum.splits prod.splits
          dest!: position_Some) (metis snd_conv)+
  qed
qed

lemma inv_make_room: "op_keeps (registry_inv M) (make_room cf ev)"
  unfolding make_room_def
  by (intro op_keeps_try inv_cleanup inv_expire)
    (use inv_rotate_loop in \<open>simp add: op_keeps_def\<close>)

section \<open>While a run lives\<close>

lemma find_runD: "find_run i st = Some r \<Longrightarrow> ri_run_id r = i \<and> r \<in> set (rg_runs st)"
  by (auto simp: find_run_def dest!: find_split)

lemma find_skip: "\<forall>u\<in>set us. \<not> P u \<Longrightarrow> P x \<Longrightarrow> find P (us @ x # vs) = Some x"
  by (induction us) auto

lemma inv_mark_running: "op_keeps (registry_inv M) (mark_running cf ev i session)"
proof (rule op_keepsI)
  fix st assume inv: "registry_inv M st"
  have "registry_inv M (snd (persist cf ev (update_run i f st)))"
    if "find_run i st = Some p" "gentle p (f p)" for p f
    using inv_persist inv_update_run [where f = f, OF inv that] unfolding op_keeps_def by blast
  then show "registry_inv M (snd (mark_running cf ev i session st))"
    using inv
    by (auto simp: mark_running_def run_mut_def op_try_def op_ensure_def gentle_def run_claim_def
        holds_output_def settled_def split: sum.splits option.splits)
      (auto simp: context_opt_def run_is_live_def split: option.splits)
qed

lemma inv_get_info: "op_keeps P (get_info ev i)"
  by (simp add: op_keeps_def get_info_def)

lemma inv_run_mut:
  assumes "\<And>p. find_run i st = Some p \<Longrightarrow> registry_inv M (snd (k p st))" "registry_inv M st"
  shows "registry_inv M (snd (run_mut i k st))"
  using assms by (auto simp: run_mut_def op_try_def context_opt_def split: option.splits)

lemma inv_ensure:
  assumes "c \<Longrightarrow> registry_inv M (snd (k st))" "registry_inv M st"
  shows "registry_inv M (snd (op_ensure c m k st))"
  using assms by (auto simp: op_ensure_def)

lemma inv_cancel_run: "op_keeps (registry_inv M) (cancel_run cf ev i timeout)"
proof (rule op_keepsI)
  fix st assume inv: "registry_inv M st"
  show "registry_inv M (snd (cancel_run cf ev i timeout st))"
    unfolding cancel_run_def
    by (intro inv_ensure inv_run_mut inv_change_run inv inv_get_info)
      (auto simp: gentle_def run_claim_def holds_output_def settled_def)
qed

lemma inv_acknowledge: "op_keeps (registry_inv M) (acknowledge_unknown_cleanup cf ev i)"
proof (rule op_keepsI)
  fix st assume inv: "registry_inv M st"
  show "registry_inv M (snd (acknowledge_unknown_cleanup cf ev i st))"
    unfolding acknowledge_unknown_cleanup_def
    by (intro inv_ensure inv_run_mut inv_change_run inv inv_get_info)
      (auto simp: gentle_def run_claim_def holds_output_def unsettled_def settled_def)
qed

lemma info_pinned: "info ev i st = Inr c \<Longrightarrow> find_run i st = Some p \<Longrightarrow> ri_pinned c = ri_pinned p"
  by (auto simp: info_def and_then_def context_opt_def)

section \<open>Finishing\<close>

lemma inv_put_active:
  assumes inv: "registry_inv M st" and a: "get_active i st = Some a"
    and same: "ac_plan a' = ac_plan a" "ac_lease a' = ac_lease a"
  shows "registry_inv M (put_active i a' st)"
proof -
  note I = registry_invD [OF inv]
  let ?st = "put_active i a' st"
  have get: "get_active j ?st = (if j = i then Some a' else get_active j st)" for j
    by (simp add: get_active_def put_active_def)
  have "leases_of (rg_active ?st) + lease_of (Some a) = leases_of (rg_active st) + lease_of (Some a')"
    using leases_of_insert [OF I(2), of i a'] a by (simp add: put_active_def get_active_def)
  moreover have "lease_of (Some a') = lease_of (Some a)" using same by (simp add: lease_of_def)
  ultimately have "leases_of (rg_active ?st) = leases_of (rg_active st)" by simp
  moreover have "leased j b ?st" if "get_active j ?st = Some b" for j b
    using I(5) [of j] a that same unfolding get leased_def settled_at_def
    by (auto simp: put_active_def split: if_splits)
  ultimately show ?thesis
    using inv I(2) a unfolding registry_inv_def get
    by (auto simp: put_active_def claims_ok_def claims_def bt_sorted_insert get_active_def)
qed

lemma inv_finish_probe: "op_keeps (registry_inv M) (finish_probe i)"
  using inv_put_active
  by (auto simp: op_keeps_def finish_probe_def split: option.splits)

lemma inv_settle_active:
  assumes inv: "registry_inv M st" and fin: "cleanup \<Longrightarrow> settled_at i st"
  shows "registry_inv M (settle_active i cleanup st)"
proof (cases "get_active i st")
  case None
  with inv show ?thesis by (simp add: settle_active_def)
next
  case (Some a)
  show ?thesis
  proof (cases cleanup)
    case False
    with Some inv show ?thesis
      by (simp add: settle_active_def inv_put_active)
  next
    case True
    note I = registry_invD [OF inv]
    let ?a = "a\<lparr>ac_finishing := False, ac_lease := None, ac_run_use := False\<rparr>"
    let ?st = "settle_active i cleanup st"
    have fields: "rg_runs ?st = rg_runs st" "rg_pending ?st = rg_pending st" "rg_disk ?st = rg_disk st"
      "rg_active ?st = bt_insert i ?a (rg_active st)"
      "rg_gate ?st = (case ac_lease a of None \<Rightarrow> rg_gate st | Some g \<Rightarrow> gate_drop g (rg_gate st))"
      using Some True by (auto simp: settle_active_def drop_lease_def put_active_def split: option.splits)
    have get: "get_active j ?st = (if j = i then Some ?a else get_active j st)" for j
      using fields(4) by (simp add: get_active_def)
    have "leases_of (rg_active ?st) + lease_of (Some a) = leases_of (rg_active st)"
      using leases_of_insert [OF I(2), of i ?a] Some fields(4)
      by (simp add: get_active_def lease_of_def)
    then have l: "leases_of (rg_active st) + M = lease_of (Some a) + (leases_of (rg_active ?st) + M)"
      by (simp add: ac_simps)
    have "gate_holds (rg_gate ?st) (leases_of (rg_active ?st) + M)"
      using I(3) unfolding l fields(5)
      by (auto simp: lease_of_def split: option.splits intro: gate_holds_drop)
    moreover have "claims_ok ?st" using I(1) by (simp add: claims_ok_def claims_def fields)
    moreover have "settled_at i ?st" using fin [OF True] by (simp add: settled_at_def fields)
    moreover have "leased j b ?st" if "get_active j ?st = Some b" for j b
      using I(5) [of j b] that \<open>settled_at i ?st\<close>
      by (auto simp: leased_def settled_at_def fields get split: if_splits)
    ultimately show ?thesis
      using I(2,4,6) Some unfolding registry_inv_def get
      by (auto simp: fields bt_sorted_insert)
  qed
qed

lemma final_run_fields [simp]:
  "ri_run_id (final_run ev st a e ex cleanup err src r) = ri_run_id r"
  "ri_operation_id (final_run ev st a e ex cleanup err src r) = ri_operation_id r"
  "ri_build_outputs (final_run ev st a e ex cleanup err src r) = ri_build_outputs r"
  "ri_cleanup_confirmed (final_run ev st a e ex cleanup err src r) = cleanup"
  "ri_state (final_run ev st a e ex cleanup err src r) = final_state cleanup (ri_cancel_requested r) ex err"
  by (simp_all add: final_run_def)

lemma final_not_live [simp]: "\<not> run_is_live (final_state cleanup c ex err)"
  by (simp add: final_state_def)

lemma final_gentle:
  assumes "cleanup \<or> holds_output p"
  shows "gentle p (final_run ev st a e ex cleanup err src p)"
  using assms
  by (auto simp: gentle_def run_claim_def holds_output_def unsettled_def settled_def final_state_def)

lemma take_snapshots_fields [simp]:
  "ac_plan (take_snapshots ev i cleanup a) = ac_plan a"
  "ac_lease (take_snapshots ev i cleanup a) = ac_lease a"
  by (simp_all add: take_snapshots_def Let_def)

text \<open>
  The host's part of the contract: it reports cleanup as unconfirmed only for a run it has not
  settled before.
\<close>

definition may_finish :: "string \<Rightarrow> bool \<Rightarrow> registry \<Rightarrow> bool" where
  "may_finish i cleanup st \<longleftrightarrow>
     cleanup \<or> (case find_run i st of None \<Rightarrow> True | Some r \<Rightarrow> holds_output r)"

lemma settled_at_persisted:
  assumes inv: "registry_inv M st" and e: "persist cf ev st = (Inr u, st')"
    and p: "find_run i st = Some q" "settled q"
  shows "settled_at i st'"
proof -
  obtain disk faults where st': "st' = st\<lparr>rg_disk := disk, rg_faults := faults\<rparr>"
    and disk: "disk = Some (ledger ev st)"
    using e by (rule persistE) auto
  have "settled r" if "r \<in> set (rg_runs st)" "ri_run_id r = i" for r
    using find_run_mem [OF registry_invD(7) [OF inv] that(1)] that p by simp
  with st' disk show ?thesis
    by (auto simp: settled_at_def ledger_def list_runs_all [OF registry_invD(7) [OF inv]])
qed

lemma inv_finish_observed:
  assumes inv: "registry_inv M st" and ok: "may_finish i cleanup st"
  shows "registry_inv M (snd (finish_observed cf ev i ex cleanup err src st))"
proof (cases "get_active i st")
  case None
  with inv show ?thesis by (simp add: finish_observed_def)
next
  case (Some a0)
  define a where "a = take_snapshots ev i cleanup a0"
  define st1 where "st1 = put_active i a st"
  have inv1: "registry_inv M st1"
    unfolding st1_def using inv Some by (rule inv_put_active) (simp_all add: a_def)
  show ?thesis
  proof (cases "info ev i st1")
    case (Inl e)
    with Some inv1 show ?thesis
      by (simp add: finish_observed_def Let_def op_try_def a_def [symmetric] st1_def [symmetric])
  next
    case (Inr existing)
    then obtain p where p: "find_run i st1 = Some p"
      by (auto simp: info_def and_then_def context_opt_def split: option.splits)
    let ?f = "final_run ev st1 a existing ex cleanup err src"
    let ?st2 = "update_run i ?f st1"
    have "find_run i st = Some p" using p by (simp add: find_run_def st1_def put_active_def)
    with ok have "gentle p (?f p)" by (intro final_gentle) (auto simp: may_finish_def)
    then have inv2: "registry_inv M ?st2" by (rule inv_update_run [OF inv1 p])
    obtain r st3 where e: "persist cf ev ?st2 = (r, st3)" by fastforce
    have inv3: "registry_inv M st3"
      using inv2 op_relD [OF disk_only_persist e] by (rule inv_disk_only)
    have q: "find_run i ?st2 = Some (?f p)"
    proof -
      obtain us vs where "rg_runs st1 = us @ p # vs" "ri_run_id p = i" "\<forall>u\<in>set us. ri_run_id u \<noteq> i"
        using p by (auto simp: find_run_def dest!: find_split)
      then show ?thesis by (simp add: find_run_def update_run_def update_first_split find_skip)
    qed
    have "registry_inv M (settle_active i cleanup st3)" if "r = Inr ()"
    proof (rule inv_settle_active [OF inv3])
      assume cleanup
      then have "settled (?f p)" by (simp add: settled_def)
      with inv2 e q that show "settled_at i st3" by (auto intro: settled_at_persisted)
    qed
    with e inv3 Some Inr show ?thesis
      by (cases r) (simp_all add: finish_observed_def Let_def op_try_def a_def [symmetric]
          st1_def [symmetric] get_info_def)
  qed
qed

section \<open>What retention leaves alone\<close>

definition shrunk :: "registry \<Rightarrow> registry \<Rightarrow> bool" where
  "shrunk st st' \<longleftrightarrow> set (rg_runs st') \<subseteq> set (rg_runs st) \<and> rg_pending st' = rg_pending st
     \<and> (\<forall>i. get_active i st = None \<longrightarrow> get_active i st' = None)"

lemma shrunk_refl: "shrunk st st"
  by (simp add: shrunk_def)

lemma shrunk_trans: "shrunk a b \<Longrightarrow> shrunk b c \<Longrightarrow> shrunk a c"
  by (auto simp: shrunk_def)

lemma shrunk_rel: "reflp shrunk" "transp shrunk"
  by (auto simp: reflp_def transp_def shrunk_refl intro: shrunk_trans)

lemma disk_only_shrunk: "disk_only ev st st' \<Longrightarrow> shrunk st st'"
  by (simp add: disk_only_def shrunk_def get_active_def)

lemma shrunk_cleanup: "op_rel shrunk (cleanup_retired cf ev)"
  using disk_only_cleanup disk_only_shrunk unfolding op_rel_def by blast

lemma shrunk_drop_active: "shrunk st (drop_active i st)"
  by (auto simp: shrunk_def drop_active_def drop_lease_def get_active_def split: option.splits)

lemma shrunk_remove_history:
  assumes "i < length (rg_runs st)"
  shows "shrunk st (snd (remove_history cf ev i st))"
proof -
  let ?old = "rg_runs st ! i"
  obtain r st' where e: "remove_history cf ev i st = (r, st')" by fastforce
  then show ?thesis
  proof (cases rule: remove_history_cases)
    case refused
    with e show ?thesis by (simp add: shrunk_refl)
  next
    case (removed key)
    let ?rm = "st\<lparr>rg_retired := rg_retired st @ [retired_of ?old key], rg_runs := remove_at i (rg_runs st)\<rparr>"
    have rm: "shrunk st ?rm"
      using subseq_remove_at [of i "rg_runs st"] by (auto simp: shrunk_def get_active_def dest: list_emb_set)
    obtain q st1 where p: "persist cf ev ?rm = (q, st1)" by fastforce
    have d: "disk_only ev ?rm st1" using op_relD [OF disk_only_persist p] .
    have "shrunk st (snd (cleanup_retired cf ev (drop_active (ri_run_id ?old) st1)))"
      by (rule shrunk_trans [OF shrunk_trans [OF shrunk_trans [OF rm disk_only_shrunk [OF d]]
            shrunk_drop_active] shrunk_cleanup [unfolded op_rel_def, THEN spec]])
    moreover have "shrunk st (st1\<lparr>rg_runs := insert_at i ?old (rg_runs st1),
          rg_retired := butlast (rg_retired st1)\<rparr>)"
      using d assms by (simp add: disk_only_def shrunk_def insert_remove_at get_active_def)
    ultimately show ?thesis using p removed(3) e
      by (cases q) (auto simp: commit_removal_def op_try_def persist_or_def)
  qed
qed

text \<open>What one removal respects, the loops of retention respect.\<close>

lemma retention_expire:
  assumes Q: "reflp Q" "transp Q"
    and one: "\<And>st i. i < length (rg_runs st) \<Longrightarrow> Q st (snd (remove_history cf ev i st))"
  shows "op_rel Q (expire_loop n cf ev)"
proof (induction n)
  case (Suc n)
  have "Q st (snd (expire_loop (Suc n) cf ev st))" for st
  proof (cases "position (expired ev st) (rg_runs st)")
    case None
    then show ?thesis using Q(1) by (simp add: reflpD)
  next
    case (Some i)
    obtain r st' where e: "remove_history cf ev i st = (r, st')" by fastforce
    have "Q st st'" using one [of i st] Some e by (auto dest!: position_Some)
    moreover have "Q st' (snd (expire_loop n cf ev st'))" using Suc by (simp add: op_rel_def)
    ultimately show ?thesis using Some e Q(2) by (cases r) (auto simp: op_try_def elim: transpE)
  qed
  then show ?case by (simp add: op_rel_def)
qed (use Q(1) in \<open>simp add: op_rel_def reflpD\<close>)

lemma retention_rotate:
  assumes Q: "reflp Q" "transp Q"
    and one: "\<And>st i. i < length (rg_runs st) \<Longrightarrow> Q st (snd (remove_history cf ev i st))"
  shows "op_rel Q (rotate_loop n full m cf ev)"
proof (induction n)
  case (Suc n)
  have "Q st (snd (rotate_loop (Suc n) full m cf ev st))" for st
  proof (cases "position (can_rotate st) (rg_runs st)")
    case None
    then show ?thesis using Q(1) by (simp add: reflpD)
  next
    case (Some i)
    obtain r st' where e: "remove_history cf ev i st = (r, st')" by fastforce
    have "Q st st'" using one [of i st] Some e by (auto dest!: position_Some)
    moreover have "Q st' (snd (rotate_loop n full m cf ev st'))" using Suc by (simp add: op_rel_def)
    ultimately show ?thesis using Some e Q
      by (cases r) (auto simp: op_try_def reflpD elim: transpE)
  qed
  then show ?case by (simp add: op_rel_def)
qed (use Q(1) in \<open>simp add: op_rel_def reflpD\<close>)

lemma retention_make_room:
  assumes Q: "reflp Q" "transp Q" and cleanup: "op_rel Q (cleanup_retired cf ev)"
    and one: "\<And>st i. i < length (rg_runs st) \<Longrightarrow> Q st (snd (remove_history cf ev i st))"
  shows "op_rel Q (make_room cf ev)"
  unfolding make_room_def expire_history_def
  by (intro op_rel_try Q cleanup)
    (use retention_expire [OF Q one] retention_rotate [OF Q one] in \<open>simp_all add: op_rel_def\<close>)

lemmas shrunk_expire_loop = retention_expire [OF shrunk_rel shrunk_remove_history]
lemmas shrunk_rotate_loop = retention_rotate [OF shrunk_rel shrunk_remove_history]
lemmas shrunk_make_room = retention_make_room [OF shrunk_rel shrunk_cleanup shrunk_remove_history]

lemma find_shrunk:
  assumes "shrunk st st'" "distinct (run_id_list st)" "find_run i st' = Some p"
  shows "find_run i st = Some p"
  using find_run_mem [OF assms(2), of p] assms(1) find_runD [OF assms(3)] by (auto simp: shrunk_def)

section \<open>Pinning\<close>

lemma inv_pin_result: "op_keeps (registry_inv M) (pin_result cf ev i pinned)"
proof (rule op_keepsI)
  fix st assume inv: "registry_inv M st"
  define room where "room c = (if pinned then (\<lambda>st. (pin_checks ev c st, st)) else pin_room cf ev)" for c
  have "registry_inv M (snd (op_try (room c) (\<lambda>_. run_mut i (\<lambda>_.
      op_try (op_modify (update_run i (\<lambda>r. r\<lparr>ri_pinned := pinned\<rparr>))) (\<lambda>_.
      op_try (persist_or cf ev (update_run i (\<lambda>r. r\<lparr>ri_pinned := ri_pinned c\<rparr>))) (\<lambda>_.
      get_info ev i)))) st))" if c: "info ev i st = Inr c" for c
  proof -
    obtain r st1 where e: "room c st = (r, st1)" by fastforce
    have inv1: "registry_inv M st1"
      using e inv inv_rotate_loop by (auto simp: room_def pin_room_def op_keeps_def split: if_splits) (metis snd_conv)
    have "shrunk st st1"
      using e shrunk_rotate_loop shrunk_refl by (auto simp: room_def pin_room_def op_rel_def split: if_splits) (metis snd_conv)
    note same = find_shrunk [OF this registry_invD(7) [OF inv]]
    have "registry_inv M (snd (run_mut i (\<lambda>_.
      op_try (op_modify (update_run i (\<lambda>r. r\<lparr>ri_pinned := pinned\<rparr>))) (\<lambda>_.
      op_try (persist_or cf ev (update_run i (\<lambda>r. r\<lparr>ri_pinned := ri_pinned c\<rparr>))) (\<lambda>_.
      get_info ev i))) st1))"
      by (intro inv_run_mut inv_change_run inv1 inv_get_info)
        (auto simp: gentle_def run_claim_def holds_output_def unsettled_def settled_def
          info_pinned [OF c same])
    with e inv1 show ?thesis by (cases r) (simp_all add: op_try_def)
  qed
  with inv show "registry_inv M (snd (pin_result cf ev i pinned st))"
    by (auto simp: pin_result_def op_try_def [of "get_info ev i"] get_info_def op_ensure_def
        room_def [symmetric] split: sum.splits)
qed

section \<open>Sources\<close>

lemma inv_gate:
  assumes "registry_inv M st" "gate_holds (rg_gate st) (leases_of (rg_active st) + M) \<Longrightarrow>
    gate_holds g (leases_of (rg_active st) + N)"
  shows "registry_inv N (st\<lparr>rg_gate := g\<rparr>)"
  using assms
  by (auto simp: registry_inv_def claims_ok_def claims_def get_active_def leased_def settled_at_def)

lemma inv_published: "registry_inv M (st\<lparr>rg_published := p\<rparr>) = registry_inv M st"
  by (simp add: registry_inv_def claims_ok_def claims_def get_active_def leased_def settled_at_def)

lemma inv_gate_method:
  assumes "registry_inv M st" "m \<in> {gate_block i b reason, gate_unblock i b, gate_unavailable i, gate_ready i}"
  shows "registry_inv M (snd (on_gate m st))"
proof -
  have "registry_inv M (st\<lparr>rg_gate := snd (m (rg_gate st))\<rparr>)"
    by (rule inv_gate [OF assms(1)]) (rule gate_holds_method [OF _ assms(2)])
  then show ?thesis by (auto simp: on_gate_def split: prod.splits)
qed

lemma inv_publish_source: "op_keeps (registry_inv M) (publish_source i)"
proof (rule op_keepsI)
  fix st assume inv: "registry_inv M st"
  have "registry_inv M (snd (on_gate (gate_ready i) st))"
    by (rule inv_gate_method [OF inv, where i = i]) simp
  with inv show "registry_inv M (snd (publish_source i st))"
    by (auto simp: publish_source_def op_try_def op_ensure_def inv_published split: sum.splits prod.splits)
qed

definition mset_opt :: "'a option \<Rightarrow> 'a multiset" where
  "mset_opt v = (case v of None \<Rightarrow> {#} | Some x \<Rightarrow> {#x#})"

definition ticket_leased :: "repository option \<Rightarrow> gate_lease option \<Rightarrow> bool" where
  "ticket_leased repo lease \<longleftrightarrow> (\<forall>rp. repo = Some rp \<longrightarrow>
     (\<exists>l. lease = Some l \<and> gl_identity l = rp_git_dir rp))"

lemma publish_same:
  "publish_source i st = (r, st') \<Longrightarrow> rg_runs st' = rg_runs st \<and> rg_active st' = rg_active st
     \<and> rg_pending st' = rg_pending st \<and> rg_disk st' = rg_disk st"
  by (auto simp: publish_source_def op_try_def op_ensure_def on_gate_def split: sum.splits prod.splits if_splits)

lemma inv_reserve_source:
  assumes inv: "registry_inv M st" and e: "reserve_source cf ev plan oper st = (r, st')"
  shows "registry_inv ((case r of Inl _ \<Rightarrow> {#} | Inr l \<Rightarrow> mset_opt l) + M) st'
    \<and> rg_runs st' = rg_runs st \<and> rg_active st' = rg_active st \<and> rg_pending st' = rg_pending st
    \<and> (\<forall>l. r = Inr l \<longrightarrow> ticket_leased (tl_repository plan) l)"
proof (cases "tl_repository plan")
  case None
  with inv e show ?thesis by (auto simp: reserve_source_def mset_opt_def ticket_leased_def)
next
  case (Some rp)
  show ?thesis
  proof (cases "ob_verify (ev_ob ev) rp")
    case (Inl err)
    with Some inv e show ?thesis by (auto simp: reserve_source_def op_try_def)
  next
    case (Inr u)
    obtain q st1 where pub: "publish_source (rp_git_dir rp) st = (q, st1)" by fastforce
    have inv1: "registry_inv M st1"
      using op_keepsD [OF inv_publish_source inv pub] .
    note same = publish_same [OF pub]
    show ?thesis
    proof (cases q)
      case (Inl err)
      with Some Inr pub inv1 e same show ?thesis by (auto simp: reserve_source_def op_try_def)
    next
      case q: (Inr v)
      let ?m = "gate_reserve (rp_git_dir rp) oper (Some (ta_name (tl_task plan)))"
      have hold: "registry_inv ((case fst (?m (rg_gate st1)) of Inl _ \<Rightarrow> {#} | Inr l \<Rightarrow> {#l#}) + M)
          (st1\<lparr>rg_gate := snd (?m (rg_gate st1))\<rparr>)"
        by (rule inv_gate [OF inv1], drule gate_holds_reserve
            [of _ _ "rp_git_dir rp" oper "Some (ta_name (tl_task plan))"]) (auto split: sum.splits)
      obtain w g where m: "?m (rg_gate st1) = (w, g)" by fastforce
      have ident: "gl_identity l = rp_git_dir rp" if "w = Inr l" for l
        using m that by (auto simp: gate_reserve_Inr)
      have red: "reserve_source cf ev plan oper st =
          (case w of Inl err \<Rightarrow> (Inl err, st1\<lparr>rg_gate := g\<rparr>) | Inr l \<Rightarrow> (Inr (Some l), st1\<lparr>rg_gate := g\<rparr>))"
        using Some Inr pub q m
        by (simp add: reserve_source_def op_try_def on_gate_def gate_reserve_run_def split: sum.splits)
      show ?thesis
        using hold m same ident e red Some by (cases w) (auto simp: mset_opt_def ticket_leased_def)
    qed
  qed
qed

section \<open>Starting\<close>

definition pending_of :: "begin_ticket \<Rightarrow> pending_start" where
  "pending_of t = \<lparr>pn_run_id = bt_run_id t, pn_project_id = tl_project_id (bt_plan t),
     pn_task_id = ta_id (tl_task (bt_plan t)), pn_operation_id = bt_operation_id t,
     pn_build_outputs = bt_outputs t\<rparr>"

lemma inv_push_pending:
  assumes inv: "registry_inv M st" and free: "get_active (pn_run_id n) st = None"
    and c: "\<forall>c\<in>set (claims st). compatible c (pending_claim n)"
  shows "registry_inv M (st\<lparr>rg_pending := rg_pending st @ [n]\<rparr>)"
proof -
  have "claims (st\<lparr>rg_pending := rg_pending st @ [n]\<rparr>) = claims st @ [pending_claim n]"
    by (simp add: claims_def)
  with inv c have "claims_ok (st\<lparr>rg_pending := rg_pending st @ [n]\<rparr>)"
    by (simp add: registry_inv_def claims_ok_def sorted_wrt_append)
  with inv free show ?thesis
    by (auto simp: registry_inv_def get_active_def leased_def settled_at_def)
qed

text \<open>\<open>Uuid::new_v4\<close>: an identity no run, start or entry has.\<close>

definition fresh_id :: "string \<Rightarrow> registry \<Rightarrow> bool" where
  "fresh_id i st \<longleftrightarrow> i \<notin> set (run_id_list st) \<and> i \<notin> pn_run_id ` set (rg_pending st)
     \<and> get_active i st = None"

definition reserved :: "gate_lease multiset \<Rightarrow> registry \<Rightarrow> begin_reservation res \<Rightarrow> registry \<Rightarrow> bool" where
  "reserved M st r st' \<longleftrightarrow> (case r of
       Inr (Fresh t) \<Rightarrow> registry_inv (mset_opt (bt_lease t) + M) st'
         \<and> rg_pending st' = rg_pending st @ [pending_of t]
         \<and> ticket_leased (tl_repository (bt_plan t)) (bt_lease t)
     | _ \<Rightarrow> registry_inv M st' \<and> rg_pending st' = rg_pending st)"

lemma reserved_same: "registry_inv M st \<Longrightarrow> \<forall>t. r \<noteq> Inr (Fresh t) \<Longrightarrow> reserved M st r st"
  by (auto simp: reserved_def split: sum.splits begin_reservation.splits)

lemma reserved_lift:
  assumes "op_try (op_lift v) k st = (r, st')" "registry_inv M st"
    "\<And>x. v = Inr x \<Longrightarrow> k x st = (r, st') \<Longrightarrow> reserved M st r st'"
  shows "reserved M st r st'"
  using assms by (cases v) (auto simp: op_try_def intro: reserved_same)

lemma reserved_guard:
  assumes "op_ensure c m k st = (r, st')" "registry_inv M st"
    "c \<Longrightarrow> k st = (r, st') \<Longrightarrow> reserved M st r st'"
  shows "reserved M st r st'"
  using assms by (cases c) (auto simp: op_ensure_def intro: reserved_same)

lemma new_claim_compatible:
  assumes "fresh_id i st" "oper \<notin> ri_operation_id ` set (rg_runs st)"
    "oper \<notin> pn_operation_id ` set (rg_pending st)"
    "\<not> list_ex (\<lambda>r. holds_output r \<and> conflicts outputs (ri_build_outputs r)) (rg_runs st)"
    "\<not> list_ex (\<lambda>n. conflicts outputs (pn_build_outputs n)) (rg_pending st)"
    "shrunk st st'" "c \<in> set (claims st')"
  shows "compatible c (i, oper, outputs)"
proof -
  have "c \<in> set (claims st)" using assms(6,7) by (auto simp: claims_def shrunk_def)
  with assms(1-5) show ?thesis
    by (auto simp: claims_def run_claim_def pending_claim_def fresh_id_def run_id_list_def
        list_ex_iff conflicts_sym)
qed

lemma inv_reserve_fresh:
  assumes inv: "registry_inv M st" and fresh: "fresh_id (ev_new_id ev) st"
    and oper: "oper \<notin> ri_operation_id ` set (rg_runs st)" "oper \<notin> pn_operation_id ` set (rg_pending st)"
    and e: "reserve_fresh cf ev plan oper st = (r, st')"
  shows "reserved M st r st'"
proof -
  have "reserved M st r st'"
    if e: "op_try (make_room cf ev) (\<lambda>_.
     op_try (reserve_source cf ev plan oper) (\<lambda>lease.
     op_try (op_modify (\<lambda>st. st\<lparr>rg_pending := rg_pending st @ [\<lparr>pn_run_id = ev_new_id ev,
        pn_project_id = tl_project_id plan, pn_task_id = ta_id (tl_task plan),
        pn_operation_id = oper, pn_build_outputs = outputs\<rparr>]\<rparr>)) (\<lambda>_.
     op_return (Fresh \<lparr>bt_run_id = ev_new_id ev, bt_plan = plan, bt_operation_id = oper,
        bt_outputs = outputs, bt_lease = lease\<rparr>)))) st = (r, st')"
      and free: "\<not> list_ex (\<lambda>r. holds_output r \<and> conflicts outputs (ri_build_outputs r)) (rg_runs st)"
      "\<not> list_ex (\<lambda>n. conflicts outputs (pn_build_outputs n)) (rg_pending st)" for outputs
  proof -
    obtain q st1 where room: "make_room cf ev st = (q, st1)" by fastforce
    have inv1: "registry_inv M st1" using op_keepsD [OF inv_make_room inv room] .
    have sh: "shrunk st st1" using op_relD [OF shrunk_make_room room] .
    obtain w st2 where src: "reserve_source cf ev plan oper st1 = (w, st2)" by fastforce
    note S = inv_reserve_source [OF inv1 src]
    show ?thesis
    proof (cases q)
      case (Inl err)
      with e room inv1 sh show ?thesis by (auto simp: op_try_def reserved_def shrunk_def)
    next
      case q: (Inr v)
      show ?thesis
      proof (cases w)
        case (Inl err)
        with e room q src S sh show ?thesis by (auto simp: op_try_def reserved_def shrunk_def)
      next
        case (Inr lease)
        let ?t = "\<lparr>bt_run_id = ev_new_id ev, bt_plan = plan, bt_operation_id = oper,
          bt_outputs = outputs, bt_lease = lease\<rparr>"
        have claims2: "claims st2 = claims st1" using S by (simp add: claims_def)
        have "registry_inv (mset_opt lease + M) (st2\<lparr>rg_pending := rg_pending st2 @ [pending_of ?t]\<rparr>)"
        proof (rule inv_push_pending)
          show "registry_inv (mset_opt lease + M) st2" using S Inr by simp
          have "get_active (ev_new_id ev) st1 = None" using fresh sh by (simp add: fresh_id_def shrunk_def)
          then show "get_active (pn_run_id (pending_of ?t)) st2 = None"
            using S by (simp add: get_active_def pending_of_def)
          show "\<forall>c\<in>set (claims st2). compatible c (pending_claim (pending_of ?t))"
            unfolding claims2 using new_claim_compatible [OF fresh oper free sh]
            by (auto simp: pending_claim_def pending_of_def)
        qed
        with e room q src S Inr sh show ?thesis
          by (auto simp: op_try_def reserved_def pending_of_def shrunk_def)
      qed
    qed
  qed
  with e inv show ?thesis
    unfolding reserve_fresh_def by (elim reserved_lift reserved_guard) blast+
qed

lemma inv_begin_reserve:
  assumes inv: "registry_inv M st" and fresh: "fresh_id (ev_new_id ev) st"
    and e: "begin_reserve cf ev asked oper par st = (r, st')"
  shows "reserved M st r st'"
proof -
  have existing: "reserved M st r st'"
    if "op_try (get_info ev i) (\<lambda>i. op_return (Existing i)) st = (r, st')" for i
    using that inv by (auto simp: op_try_def get_info_def reserved_same split: sum.splits)
  have new: "reserved M st r st'"
    if "find (\<lambda>r. ri_operation_id r = oper) (rg_runs st) = None"
      "\<not> list_ex (\<lambda>n. pn_operation_id n = oper) (rg_pending st)"
      "reserve_fresh cf ev plan oper st = (r, st')" for plan
    using that by (intro inv_reserve_fresh [OF inv fresh]) (auto simp: find_None_iff list_ex_iff)
  show ?thesis
  proof (cases "find (\<lambda>r. ri_operation_id r = oper) (rg_runs st)")
    case (Some q)
    from e inv show ?thesis
      unfolding begin_reserve_def
      by (elim reserved_lift) (auto simp: Some elim!: reserved_guard intro: existing)
  next
    case None
    from e inv show ?thesis
      unfolding begin_reserve_def
      by (elim reserved_lift)
        (auto simp: None elim!: reserved_lift reserved_guard intro: existing new [OF None]
          split: option.splits if_splits)
  qed
qed

lemma drop_lease_fields [simp]:
  "rg_runs (drop_lease l st) = rg_runs st" "rg_active (drop_lease l st) = rg_active st"
  "rg_pending (drop_lease l st) = rg_pending st" "rg_disk (drop_lease l st) = rg_disk st"
  by (simp_all add: drop_lease_def split: option.splits)

lemma inv_drop_lease: "registry_inv (mset_opt l + M) st \<Longrightarrow> registry_inv M (drop_lease l st)"
proof (cases l)
  case (Some g)
  assume inv: "registry_inv (mset_opt l + M) st"
  have "registry_inv M (st\<lparr>rg_gate := gate_drop g (rg_gate st)\<rparr>)"
    by (rule inv_gate [OF inv]) (auto simp: Some mset_opt_def intro: gate_holds_drop)
  with Some show ?thesis by (simp add: drop_lease_def)
qed (simp add: mset_opt_def drop_lease_def)

definition without :: "begin_ticket \<Rightarrow> registry \<Rightarrow> registry" where
  "without t st = st\<lparr>rg_pending := filter (\<lambda>n. pn_run_id n \<noteq> bt_run_id t) (rg_pending st)\<rparr>"

lemma inv_without: "registry_inv M st \<Longrightarrow> registry_inv M (without t st)"
proof -
  assume inv: "registry_inv M st"
  have "subseq (claims (without t st)) (claims st)"
    by (simp add: claims_def without_def subseq_map subseq_append')
  then have "claims_ok (without t st)"
    by (rule claims_ok_subseq [OF registry_invD(1) [OF inv]]) (simp add: without_def)
  with inv show ?thesis
    by (auto simp: registry_inv_def without_def get_active_def leased_def settled_at_def)
qed

lemma inv_begin_abandon:
  assumes "registry_inv (mset_opt (bt_lease t) + M) st"
  shows "registry_inv M (begin_abandon t st)"
proof -
  have "begin_abandon t st = without t (drop_lease (bt_lease t) st)"
    by (simp add: begin_abandon_def without_def)
  with inv_without [OF inv_drop_lease [OF assms]] show ?thesis by simp
qed

lemma claims_distinct_all: "sorted_wrt compatible cs \<Longrightarrow> distinct (map fst cs)"
  by (induction cs) auto

text \<open>The claim of a pending start becomes the claim of its run.\<close>

lemma claims_commit:
  assumes c: "sorted_wrt compatible (claims st)" and t: "pending_of t \<in> set (rg_pending st)"
    and r: "run_claim run = pending_claim (pending_of t)"
  shows "sorted_wrt compatible (claims (without t st\<lparr>rg_runs := rg_runs st @ [run]\<rparr>))"
proof -
  obtain as bs where p: "rg_pending st = as @ pending_of t # bs" using t by (meson split_list)
  have "distinct (map pn_run_id (rg_pending st))"
    using claims_distinct_all [OF c] by (simp add: claims_def pending_claim_def comp_def)
  then have "filter (\<lambda>n. pn_run_id n \<noteq> bt_run_id t) (rg_pending st) = as @ bs"
    unfolding p by (auto simp: pending_of_def image_iff intro!: arg_cong2 [where f = "(@)"] filter_True)
  then have "mset (claims st) = mset (claims (without t st\<lparr>rg_runs := rg_runs st @ [run]\<rparr>))"
    using p r by (simp add: claims_def without_def)
  then show ?thesis using compatible_sym c by (auto intro: sorted_wrt_mset)
qed

lemma new_run_claim: "run_claim (new_run ev st t src log) = pending_claim (pending_of t)"
  by (simp add: new_run_def run_claim_def pending_claim_def pending_of_def holds_output_def Let_def)

lemma new_run_live: "run_is_live (ri_state (new_run ev st t src log))"
  "ri_run_id (new_run ev st t src log) = bt_run_id t"
  by (simp_all add: new_run_def Let_def)

text \<open>The state a commit starts from, with the disk its ledger write leaves.\<close>

lemma inv_commit_disk:
  assumes inv: "registry_inv M st" and free: "get_active (ri_run_id run) st = None"
    and c: "sorted_wrt compatible (claims (st\<lparr>rg_runs := rg_runs st @ [run]\<rparr>))"
    and d: "disk_only ev (st\<lparr>rg_runs := rg_runs st @ [run]\<rparr>) st1"
    and st': "rg_gate st' = rg_gate st" "rg_runs st' = rg_runs st" "rg_active st' = rg_active st"
      "rg_pending st' = rg_pending st" "rg_disk st' = rg_disk st1"
  shows "registry_inv M st'"
proof -
  note I = registry_invD [OF inv]
  let ?st = "st\<lparr>rg_runs := rg_runs st @ [run]\<rparr>"
  have "claims_ok ?st" using c I(1) by (simp add: claims_ok_def)
  then have "claims_ok st1" by (rule claims_ok_disk_only [OF d])
  then have cl: "claims_ok st'" using st' I(1) by (simp add: claims_ok_def claims_def)
  have runs: "list_runs ev None ?st = map (info_run ev ?st) (rg_runs st @ [run])"
    using list_runs_all [OF claims_distinct [OF c], of ev] by simp
  have "leased i a st'" if a: "get_active i st' = Some a" for i a
  proof (rule leased_mono)
    have ai: "get_active i st = Some a" using a st' by (simp add: get_active_def)
    then show "leased i a st" by (rule I(5))
    have "ri_run_id run \<noteq> i" using ai free by auto
    then show "settled_at i st'" if "settled_at i st"
      using that d runs st' by (auto simp: disk_only_def settled_at_def)
  qed
  with inv cl st' show ?thesis by (simp add: registry_inv_def get_active_def)
qed

lemma inv_add_run:
  assumes inv: "registry_inv (mset_opt l + M) st" and free: "get_active i st = None"
    and run: "ri_run_id run = i" and c: "sorted_wrt compatible (claims (st\<lparr>rg_runs := rg_runs st @ [run]\<rparr>))"
    and a: "ac_lease a = l" "ticket_leased (tl_repository (ac_plan a)) l"
    and pend: "\<forall>n\<in>set (rg_pending st). pn_run_id n \<noteq> i"
  shows "registry_inv M (put_active i a (st\<lparr>rg_runs := rg_runs st @ [run]\<rparr>))"
proof -
  note I = registry_invD [OF inv]
  let ?st = "put_active i a (st\<lparr>rg_runs := rg_runs st @ [run]\<rparr>)"
  have get: "get_active j ?st = (if j = i then Some a else get_active j st)" for j
    by (simp add: get_active_def put_active_def)
  have "leases_of (rg_active ?st) = leases_of (rg_active st) + mset_opt l"
    using leases_of_insert [OF I(2), of i a] free a
    by (simp add: put_active_def get_active_def lease_of_def mset_opt_def split: option.splits)
  then have "gate_holds (rg_gate ?st) (leases_of (rg_active ?st) + M)"
    using I(3) by (simp add: put_active_def ac_simps)
  moreover have "claims_ok ?st"
    using c I(1) by (simp add: claims_ok_def claims_def put_active_def)
  moreover have "leased j b ?st" if "get_active j ?st = Some b" for j b
  proof (cases "j = i")
    case True
    with that a get show ?thesis by (auto simp: leased_def ticket_leased_def)
  next
    case False
    with that get have "leased j b st" using I(5) by simp
    then show ?thesis
      by (rule leased_mono) (use False run in \<open>auto simp: settled_at_def put_active_def\<close>)
  qed
  ultimately show ?thesis
    using I(2,4,6) run pend unfolding registry_inv_def get
    by (auto simp: put_active_def bt_sorted_insert)
qed

lemma inv_begin_commit:
  assumes inv: "registry_inv (mset_opt (bt_lease t) + M) st" and t: "pending_of t \<in> set (rg_pending st)"
    and lease: "ticket_leased (tl_repository (bt_plan t)) (bt_lease t)"
  shows "registry_inv M (snd (begin_commit cf ev t src st))"
proof -
  let ?st = "without t st"
  have inv0: "registry_inv (mset_opt (bt_lease t) + M) ?st" using inv by (rule inv_without)
  have runs0: "rg_runs ?st = rg_runs st" by (simp add: without_def)
  have "get_active (pn_run_id (pending_of t)) st = None" using registry_invD(6) [OF inv t] .
  then have free: "get_active (bt_run_id t) ?st = None"
    by (simp add: pending_of_def without_def get_active_def)
  have abort: "registry_inv M (drop_lease (bt_lease t) ?st)" using inv0 by (rule inv_drop_lease)
  show ?thesis
  proof (cases "prepare_run cf ev t")
    case (Inl e)
    with abort show ?thesis by (simp add: begin_commit_def Let_def without_def)
  next
    case (Inr p)
    obtain shell key where p: "p = (shell, key)" by (cases p)
    define run where "run = new_run ev ?st t src (new_log t key)"
    let ?st1 = "?st\<lparr>rg_runs := rg_runs ?st @ [run]\<rparr>"
    have c: "sorted_wrt compatible (claims ?st1)"
      using claims_commit [of st t run] registry_invD(1) [OF inv] t
      by (simp add: run_def new_run_claim claims_ok_def without_def)
    obtain r st2 where e: "persist cf ev ?st1 = (r, st2)" by fastforce
    have d: "disk_only ev ?st1 st2" using op_relD [OF disk_only_persist e] .
    have free': "get_active (ri_run_id run) ?st = None" using free by (simp add: run_def new_run_live)
    note disk = inv_commit_disk [OF inv0 free' c d]
    show ?thesis
    proof (cases r)
      case (Inl err)
      have "registry_inv (mset_opt (bt_lease t) + M) (st2\<lparr>rg_runs := butlast (rg_runs st2)\<rparr>)"
        by (rule disk) (use d in \<open>simp_all add: disk_only_def\<close>)
      then have "registry_inv M (drop_lease (bt_lease t) (st2\<lparr>rg_runs := butlast (rg_runs st2)\<rparr>))"
        by (rule inv_drop_lease)
      with Inr Inl e p show ?thesis
        by (simp add: begin_commit_def Let_def without_def [symmetric] run_def [symmetric])
    next
      case (Inr u)
      let ?base = "st2\<lparr>rg_runs := rg_runs ?st\<rparr>"
      let ?a = "\<lparr>ac_plan = bt_plan t, ac_shell = shell, ac_lease = bt_lease t, ac_run_use = True,
               ac_directory = run_directory cf (bt_run_id t),
               ac_started = ev_instant ev, ac_finishing = False, ac_result_snapshot = None,
               ac_events_snapshot = None, ac_measurement = None\<rparr>"
      have base: "registry_inv (mset_opt (bt_lease t) + M) ?base"
        by (rule disk) (use d in \<open>simp_all add: disk_only_def\<close>)
      have same: "?base\<lparr>rg_runs := rg_runs ?base @ [run]\<rparr> = st2"
        using d by (simp add: disk_only_def)
      have "registry_inv M (put_active (bt_run_id t) ?a (?base\<lparr>rg_runs := rg_runs ?base @ [run]\<rparr>))"
        by (rule inv_add_run [OF base])
          (use d free lease c in \<open>simp_all add: disk_only_def get_active_def claims_def run_def new_run_live
            without_def\<close>)
      then show ?thesis
        using \<open>prepare_run cf ev t = Inr p\<close> Inr e p unfolding same
        by (simp add: begin_commit_def Let_def without_def [symmetric] run_def [symmetric])
    qed
  qed
qed

section \<open>Opening\<close>

lemma inv_new_registry:
  assumes "\<forall>l. disk = Some l \<longrightarrow> sorted_wrt compatible (map run_claim (rl_runs l))"
  shows "registry_inv {#} (new_registry new_gate disk faults)"
  using assms gate_holds_new
  by (auto simp: registry_inv_def new_registry_def claims_ok_def claims_def bt_sorted_def get_active_def)

lemma recover_claim: "weaker (run_claim (recover_run r)) (run_claim r)"
  by (auto simp: recover_run_def run_claim_def holds_output_def unsettled_def Let_def)

lemma migrate_claim: "migrate_result ev r = Inr m \<Longrightarrow> run_claim m = run_claim r"
  by (auto simp: migrate_result_def Let_def run_claim_def holds_output_def unsettled_def res_simps
      split: option.splits)

lemma recover_not_live: "\<not> run_is_live (ri_state (recover_run r))"
  by (simp add: recover_run_def Let_def)

lemma recover_one_Inr:
  "recover_one cf ev acc r = Inr acc' \<Longrightarrow> \<exists>m. migrate_result ev r = Inr m \<and> acc' = acc @ [recover_run m]"
  by (auto simp: recover_one_def res_simps)

lemma recover_all:
  assumes "fold_res (recover_one cf ev) acc rs = Inr runs"
  shows "\<exists>ms. runs = acc @ map recover_run ms \<and> list_all2 (\<lambda>r m. migrate_result ev r = Inr m) rs ms"
  using assms
proof (induction rs arbitrary: acc)
  case (Cons r rs)
  then obtain m where m: "migrate_result ev r = Inr m"
    and rest: "fold_res (recover_one cf ev) (acc @ [recover_run m]) rs = Inr runs"
    by (auto simp: and_then_Inr dest!: recover_one_Inr)
  from Cons.IH [OF rest] obtain ms where "runs = (acc @ [recover_run m]) @ map recover_run ms"
    "list_all2 (\<lambda>r m. migrate_result ev r = Inr m) rs ms" by blast
  with m show ?case by (intro exI [of _ "m # ms"]) simp
qed simp

lemma recover_weaker:
  "list_all2 (\<lambda>r m. migrate_result ev r = Inr m) rs ms \<Longrightarrow>
    list_all2 weaker (map run_claim (map recover_run ms)) (map run_claim rs)"
  by (induction rule: list_all2_induct) (simp_all add: migrate_claim [symmetric] recover_claim)

lemma inv_set_runs:
  assumes "registry_inv M st" "rg_active st = []" "rg_pending st = []"
    "sorted_wrt compatible (map run_claim runs)" "\<forall>r\<in>set runs. \<not> run_is_live (ri_state r)"
  shows "registry_inv M (st\<lparr>rg_runs := runs, rg_retired := ret\<rparr>)"
  using assms by (auto simp: registry_inv_def claims_ok_def claims_def get_active_def)

lemma keep_lift:
  "registry_inv M st \<Longrightarrow> (\<And>x. v = Inr x \<Longrightarrow> registry_inv M (snd (k x st))) \<Longrightarrow>
   registry_inv M (snd (op_try (op_lift v) k st))"
  by (cases v) (auto simp: op_try_def)

lemma keep_get: "registry_inv M (snd (k (f st) st)) \<Longrightarrow> registry_inv M (snd (op_try (op_get f) k st))"
  by (simp add: op_try_def)

definition pristine :: "registry \<Rightarrow> bool" where
  "pristine st \<longleftrightarrow> rg_active st = [] \<and> rg_pending st = [] \<and> rg_runs st = []"

lemma withdraw_keeps:
  assumes "registry_inv M st" "pristine st" "withdraw_sources ps st = (r, st')"
  shows "registry_inv M st' \<and> pristine st' \<and> rg_disk st' = rg_disk st"
proof -
  let ?P = "\<lambda>u. registry_inv M u \<and> pristine u \<and> rg_disk u = rg_disk st"
  let ?f = "\<lambda>p m. op_try m (\<lambda>_. case pr_repository_binding p of
      None \<Rightarrow> op_return () | Some r \<Rightarrow> on_gate (gate_unavailable (rp_git_dir r)))"
  have gate: "op_keeps ?P (on_gate (gate_unavailable i))" for i
    using inv_gate_method [where m = "gate_unavailable i" and i = i]
    by (auto simp: op_keeps_def on_gate_def pristine_def split: prod.splits)
  have step: "op_keeps ?P (?f p m)" if "op_keeps ?P m" for p m
    using that gate by (intro op_keeps_try) (auto simp: op_keeps_def split: option.splits)
  have "op_keeps ?P (fold ?f ps m)" if "op_keeps ?P m" for m
    using that by (induction ps arbitrary: m) (auto intro: step)
  from this [of "op_return ()"] have "op_keeps ?P (withdraw_sources ps)"
    by (simp add: withdraw_sources_def op_keeps_return)
  from op_keepsD [OF this _ assms(3)] assms(1,2) show ?thesis by blast
qed

lemma inv_open_registry:
  assumes disk: "\<forall>l. disk = Some l \<longrightarrow> sorted_wrt compatible (map run_claim (rl_runs l))"
  shows "registry_inv {#} (snd (open_registry cf ev (new_registry new_gate disk faults)))"
proof -
  let ?st = "new_registry new_gate disk faults"
  have inv: "registry_inv {#} ?st" using disk by (rule inv_new_registry)
  have pr: "pristine ?st" by (simp add: pristine_def new_registry_def)
  have tail: "registry_inv {#} (snd (op_try (persist cf ev) (\<lambda>_.
      op_try (cleanup_retired cf ev) (\<lambda>_. expire_history cf ev)) u))" if "registry_inv {#} u" for u
  proof -
    have "op_keeps (registry_inv {#}) (op_try (persist cf ev) (\<lambda>_.
        op_try (cleanup_retired cf ev) (\<lambda>_. expire_history cf ev)))"
      by (intro op_keeps_try inv_persist inv_cleanup inv_expire)
    with that show ?thesis by (simp add: op_keeps_def)
  qed
  have load: "registry_inv {#} (snd (op_try (op_lift (fold_res (recover_one cf ev) [] (rl_runs l))) (\<lambda>runs.
      op_try (op_modify (\<lambda>st. st\<lparr>rg_runs := runs, rg_retired := rl_retired l\<rparr>)) (\<lambda>_.
      op_try (persist cf ev) (\<lambda>_. op_try (cleanup_retired cf ev) (\<lambda>_. expire_history cf ev)))) u))"
    if u: "registry_inv {#} u" "pristine u" "rg_disk u = disk"
      and l: "l = (case disk of None \<Rightarrow> \<lparr>rl_schema = 2, rl_runs = [], rl_retired = []\<rparr> | Some l \<Rightarrow> l)" for u l
  proof (cases "fold_res (recover_one cf ev) [] (rl_runs l)")
    case (Inl e)
    with u show ?thesis by (simp add: op_try_def)
  next
    case (Inr runs)
    from recover_all [OF this] obtain ms where runs: "runs = map recover_run ms"
      and ms: "list_all2 (\<lambda>r m. migrate_result ev r = Inr m) (rl_runs l) ms" by auto
    have "sorted_wrt compatible (map run_claim (rl_runs l))"
      using l disk by (auto split: option.splits)
    then have "sorted_wrt compatible (map run_claim runs)"
      using sorted_wrt_weaker [OF recover_weaker [OF ms]] runs by simp
    then have "registry_inv {#} (u\<lparr>rg_runs := runs, rg_retired := rl_retired l\<rparr>)"
      using u by (intro inv_set_runs) (auto simp: pristine_def runs recover_not_live)
    with tail Inr show ?thesis by (simp add: op_try_def)
  qed
  have "registry_inv {#} (snd (op_try (withdraw_sources ps) k ?st))"
    if "\<And>u. registry_inv {#} u \<Longrightarrow> pristine u \<Longrightarrow> rg_disk u = disk \<Longrightarrow> registry_inv {#} (snd (k () u))" for ps k
  proof -
    obtain r u where w: "withdraw_sources ps ?st = (r, u)" by fastforce
    have "registry_inv {#} u \<and> pristine u \<and> rg_disk u = rg_disk ?st"
      using withdraw_keeps [OF inv pr w] .
    with that w show ?thesis by (cases r) (auto simp: op_try_def new_registry_def)
  qed
  note start = this
  show ?thesis
    unfolding open_registry_def
    by (rule keep_lift [OF inv], rule start, rule keep_get, rule keep_lift, assumption,
        rule keep_lift, assumption, rule load) auto
qed

end
