(* ===== verification/Run_System.thy ===== *)
theory Run_System
  imports Run_Invariant
begin

text \<open>
  The registry among its clients.  The host holds the tickets of reserved starts, the Git
  service the leases of its mutations; both live in the process, so a restart forgets them and
  reopens the registry from the ledger on disk.  A step is one call with an arbitrary
  observation of the machine, including an arbitrary outcome of each ledger write.
\<close>

record run_sys =
  ry_registry :: registry
  ry_open :: bool
  ry_tickets :: "begin_ticket list"
  ry_leases :: "gate_lease list"

datatype run_action =
    Begin task_launch_plan string bool
  | Commit begin_ticket source_observation
  | Abandon begin_ticket
  | MarkRunning string string
  | CancelRun string bool
  | Acknowledge string
  | FinishProbe string
  | FinishRun string "terminal_exit option" bool "string option" source_observation
  | PinResult string bool
  | PublishSource path
  | PublishRegistered
  | GateClient gate_action
  | Restart "(bool \<times> string) option list"

definition on_registry :: "(registry, 'a) op \<Rightarrow> run_sys \<Rightarrow> run_sys" where
  "on_registry m y = y\<lparr>ry_registry := snd (m (ry_registry y))\<rparr>"

definition drop_ticket :: "begin_ticket \<Rightarrow> run_sys \<Rightarrow> run_sys" where
  "drop_ticket t y = y\<lparr>ry_tickets := filter (\<lambda>u. bt_run_id u \<noteq> bt_run_id t) (ry_tickets y)\<rparr>"

definition gate_client :: "gate_action \<Rightarrow> run_sys \<Rightarrow> run_sys" where
  "gate_client a y =
    (let t = snd (gate_exec a \<lparr>gy_gate = rg_gate (ry_registry y), gy_leases = ry_leases y\<rparr>) in
     y\<lparr>ry_registry := (ry_registry y)\<lparr>rg_gate := gy_gate t\<rparr>, ry_leases := gy_leases t\<rparr>)"

definition closed_system :: "run_ledger option \<Rightarrow> run_sys" where
  "closed_system disk = \<lparr>ry_registry = new_registry new_gate disk [], ry_open = False,
     ry_tickets = [], ry_leases = []\<rparr>"

fun run_exec :: "config \<Rightarrow> env \<Rightarrow> run_action \<Rightarrow> run_sys \<Rightarrow> run_sys" where
  "run_exec cf ev (Begin plan oper par) y =
    (case begin_reserve cf ev plan oper par (ry_registry y) of
       (Inr (Fresh t), st) \<Rightarrow> y\<lparr>ry_registry := st, ry_tickets := ry_tickets y @ [t]\<rparr>
     | (_, st) \<Rightarrow> y\<lparr>ry_registry := st\<rparr>)"
| "run_exec cf ev (Commit t src) y = drop_ticket t (on_registry (begin_commit cf ev t src) y)"
| "run_exec cf ev (Abandon t) y = drop_ticket t (on_registry (op_modify (begin_abandon t)) y)"
| "run_exec cf ev (MarkRunning i session) y = on_registry (mark_running cf ev i session) y"
| "run_exec cf ev (CancelRun i timeout) y = on_registry (cancel_run cf ev i timeout) y"
| "run_exec cf ev (Acknowledge i) y = on_registry (acknowledge_unknown_cleanup cf ev i) y"
| "run_exec cf ev (FinishProbe i) y = on_registry (finish_probe i) y"
| "run_exec cf ev (FinishRun i ex cleanup err src) y =
    on_registry (finish_observed cf ev i ex cleanup err src) y"
| "run_exec cf ev (PinResult i pinned) y = on_registry (pin_result cf ev i pinned) y"
| "run_exec cf ev (PublishSource p) y = on_registry (publish_source p) y"
| "run_exec cf ev PublishRegistered y = on_registry (publish_registered_sources cf ev) y"
| "run_exec cf ev (GateClient a) y = gate_client a y"
| "run_exec cf ev (Restart faults) y =
    (case open_registry cf ev (new_registry new_gate (rg_disk (ry_registry y)) faults) of
       (Inr _, st) \<Rightarrow> \<lparr>ry_registry = st, ry_open = True, ry_tickets = [], ry_leases = []\<rparr>
     | (Inl _, st) \<Rightarrow> closed_system (rg_disk st))"

text \<open>
  Who may call what: tickets and leases are used by their holders, new identities are fresh,
  and the host keeps its part of the contract of \<open>finish_observed\<close>.
\<close>

fun run_enabled :: "env \<Rightarrow> run_action \<Rightarrow> run_sys \<Rightarrow> bool" where
  "run_enabled ev (Restart faults) y = True"
| "run_enabled ev (GateClient (DropLease l)) y = (l \<in> set (ry_leases y))"
| "run_enabled ev (GateClient (ReserveRun _ _ _)) y = False"
| "run_enabled ev (GateClient _) y = True"
| "run_enabled ev (Begin _ _ _) y = (ry_open y \<and> fresh_id (ev_new_id ev) (ry_registry y))"
| "run_enabled ev (Commit t _) y = (ry_open y \<and> t \<in> set (ry_tickets y))"
| "run_enabled ev (Abandon t) y = (ry_open y \<and> t \<in> set (ry_tickets y))"
| "run_enabled ev (FinishRun i _ cleanup _ _) y = (ry_open y \<and> may_finish i cleanup (ry_registry y))"
| "run_enabled ev _ y = ry_open y"

inductive run_step :: "config \<Rightarrow> run_sys \<Rightarrow> run_sys \<Rightarrow> bool" for cf where
  run_stepI: "run_enabled ev a y \<Longrightarrow> run_step cf y (run_exec cf ev a y)"

inductive_cases run_stepE: "run_step cf y z"

definition ledger_ok :: "run_ledger option \<Rightarrow> bool" where
  "ledger_ok disk \<longleftrightarrow> (\<forall>l. disk = Some l \<longrightarrow> sorted_wrt compatible (map run_claim (rl_runs l)))"

definition run_init :: "run_sys \<Rightarrow> bool" where
  "run_init y \<longleftrightarrow> (\<exists>disk. ledger_ok disk \<and> y = closed_system disk)"

section \<open>The invariant of the system\<close>

definition ticket_leases :: "begin_ticket list \<Rightarrow> gate_lease multiset" where
  "ticket_leases ts = sum_list (map (\<lambda>t. mset_opt (bt_lease t)) ts)"

definition run_inv :: "run_sys \<Rightarrow> bool" where
  "run_inv y \<longleftrightarrow> registry_inv (ticket_leases (ry_tickets y) + mset (ry_leases y)) (ry_registry y)
     \<and> rg_pending (ry_registry y) = map pending_of (ry_tickets y)
     \<and> (\<forall>t\<in>set (ry_tickets y). ticket_leased (tl_repository (bt_plan t)) (bt_lease t))"

section \<open>Relations that every operation respects\<close>

text \<open>
  What a relation between the registry before and after a call has to promise so that every
  operation that does not touch the reserved starts respects it: it is a preorder, it is
  about the ledger on disk and the reserved starts only, and \<open>persist\<close> respects it.
\<close>

locale registry_relation =
  fixes cf :: config
    and Q :: "registry \<Rightarrow> registry \<Rightarrow> bool"
  assumes refl: "Q st st"
    and trans: "Q a b \<Longrightarrow> Q b c \<Longrightarrow> Q a c"
    and frame: "rg_disk st' = rg_disk st \<Longrightarrow> rg_pending st' = rg_pending st \<Longrightarrow> Q st st'"
    and saved: "op_rel Q (persist cf ev)"
begin

lemma preorder: "reflp Q" "transp Q"
  using refl trans by (auto simp: reflp_def transp_def)

lemma modify:
  assumes "\<And>st. rg_pending (f st) = rg_pending st" "\<And>st. rg_disk (f st) = rg_disk st"
  shows "op_rel Q (op_modify f)"
  using assms frame by (simp add: op_rel_def)

lemma saved_or:
  assumes "\<And>st. rg_pending (u st) = rg_pending st" "\<And>st. rg_disk (u st) = rg_disk st"
  shows "op_rel Q (persist_or cf ev u)"
proof -
  have "Q st (snd (persist_or cf ev u st))" for st
  proof -
    obtain r st' where e: "persist cf ev st = (r, st')" by fastforce
    have "Q st st'" using op_relD [OF saved e] .
    moreover have "Q st' (u st')" by (rule frame [OF assms(2,1)])
    ultimately show ?thesis using e trans by (cases r) (auto simp: persist_or_def)
  qed
  then show ?thesis by (simp add: op_rel_def)
qed

lemma lookup: "(\<And>r. op_rel Q (k r)) \<Longrightarrow> op_rel Q (run_mut i k)"
  by (auto simp: op_rel_def run_mut_def op_try_def refl split: sum.splits)

lemma get: "op_rel Q (get_info ev i)"
  by (simp add: op_rel_def get_info_def refl)

lemmas intros = op_rel_try op_rel_ensure preorder saved saved_or modify lookup get
  op_rel_pure [OF preorder(1)]

lemma updates [simp]:
  "rg_pending (update_run i f st) = rg_pending st" "rg_disk (update_run i f st) = rg_disk st"
  "rg_pending (put_active i a st) = rg_pending st" "rg_disk (put_active i a st) = rg_disk st"
  "rg_pending (drop_lease l st) = rg_pending st" "rg_disk (drop_lease l st) = rg_disk st"
  by (auto simp: update_run_def put_active_def drop_lease_def split: option.splits)

lemma drops [simp]:
  "rg_pending (drop_active i st) = rg_pending st" "rg_disk (drop_active i st) = rg_disk st"
  "rg_pending (settle_active i c st) = rg_pending st" "rg_disk (settle_active i c st) = rg_disk st"
  by (auto simp: drop_active_def settle_active_def split: option.splits)

lemma at: "op_rel Q m \<Longrightarrow> Q st (snd (m st))"
  by (simp add: op_rel_def)

lemma cleanup_one_round: "op_rel Q (cleanup_loop n cf ev)"
proof (induction n)
  case (Suc n)
  have "Q st (snd (cleanup_loop (Suc n) cf ev st))" for st
  proof (cases "rg_retired st")
    case (Cons t ts)
    have "Q st (snd (op_try (op_lift (cleanup_one ev t)) (\<lambda>_.
        op_try (op_modify (\<lambda>st. st\<lparr>rg_retired := ts\<rparr>)) (\<lambda>_.
        op_try (persist_or cf ev (\<lambda>st. st\<lparr>rg_retired := t # rg_retired st\<rparr>)) (\<lambda>_.
        cleanup_loop n cf ev))) st))"
      by (rule at, intro intros Suc) simp_all
    with Cons show ?thesis by simp
  qed (simp add: refl)
  then show ?case by (simp add: op_rel_def)
qed (simp add: op_rel_def refl)

lemma cleanup: "op_rel Q (cleanup_retired cf ev)"
  using cleanup_one_round by (simp add: op_rel_def cleanup_retired_def)

lemma removal: "Q st (snd (remove_history cf ev i st))"
  unfolding remove_history_def Let_def
  by (rule at, intro intros cleanup) simp_all

lemmas expiry = retention_expire [OF preorder removal]
lemmas rotation = retention_rotate [OF preorder removal]
lemmas room = retention_make_room [OF preorder cleanup removal]

lemma expire: "op_rel Q (expire_history cf ev)"
  using expiry by (simp add: op_rel_def expire_history_def)

lemma running: "op_rel Q (mark_running cf ev i s)"
  unfolding mark_running_def by (intro intros) simp_all

lemma acknowledge: "op_rel Q (acknowledge_unknown_cleanup cf ev i)"
proof -
  have "Q st (snd (acknowledge_unknown_cleanup cf ev i st))" for st
    unfolding acknowledge_unknown_cleanup_def by (rule at, intro intros) simp_all
  then show ?thesis by (simp add: op_rel_def)
qed

lemma cancel: "op_rel Q (cancel_run cf ev i timeout)"
proof -
  have "Q st (snd (cancel_run cf ev i timeout st))" for st
    unfolding cancel_run_def by (rule at, intro intros) simp_all
  then show ?thesis by (simp add: op_rel_def)
qed

lemma probe: "op_rel Q (finish_probe i)"
  by (auto simp: op_rel_def finish_probe_def refl intro!: frame split: option.splits)

lemma finish: "op_rel Q (finish_observed cf ev i ex cleanup err src)"
proof -
  have body: "Q st (snd (op_try (op_lift (info ev i st)) (\<lambda>existing.
         op_try (op_modify (update_run i (f existing))) (\<lambda>_.
         op_try (persist cf ev) (\<lambda>_.
         op_try (op_modify (settle_active i cleanup)) (\<lambda>_. get_info ev i)))) st))" for st f
    by (rule at, intro intros) simp_all
  have "Q st (put_active i a st)" for st a by (rule frame) simp_all
  from trans [OF this body] show ?thesis
    by (auto simp: op_rel_def finish_observed_def Let_def refl split: option.splits)
qed

lemma pin: "op_rel Q (pin_result cf ev i pinned)"
proof -
  have "op_rel Q (pin_room cf ev)" using rotation by (simp add: op_rel_def pin_room_def)
  moreover have "op_rel Q (\<lambda>st. (pin_checks ev c st, st))" for c by (simp add: op_rel_def refl)
  ultimately have "op_rel Q (if pinned then (\<lambda>st. (pin_checks ev c st, st)) else pin_room cf ev)" for c
    by simp
  then have "op_rel Q (if ri_pinned c = pinned then op_return c else
     op_try (if pinned then (\<lambda>st. (pin_checks ev c st, st)) else pin_room cf ev) (\<lambda>_.
     run_mut i (\<lambda>_.
     op_try (op_modify (update_run i (\<lambda>r. r\<lparr>ri_pinned := pinned\<rparr>))) (\<lambda>_.
     op_try (persist_or cf ev (update_run i (\<lambda>r. r\<lparr>ri_pinned := ri_pinned c\<rparr>))) (\<lambda>_.
     get_info ev i)))))" for c
    by (cases "ri_pinned c = pinned", simp add: op_rel_pure preorder)
      (simp only: if_False, intro intros, simp_all)
  then show ?thesis unfolding pin_result_def by (intro intros)
qed

lemma on_gates: "op_rel Q (on_gate m)"
  by (auto simp: op_rel_def on_gate_def intro!: frame split: prod.splits)

lemma publish: "op_rel Q (publish_source i)"
proof -
  have "Q st (snd (publish_source i st))" for st
    unfolding publish_source_def by (rule at, intro intros on_gates) simp_all
  then show ?thesis by (simp add: op_rel_def)
qed

lemma withdraw: "op_rel Q (withdraw_sources ps)"
proof -
  let ?f = "\<lambda>p m. op_try m (\<lambda>_. case pr_repository_binding p of
      None \<Rightarrow> op_return () | Some r \<Rightarrow> on_gate (gate_unavailable (rp_git_dir r)))"
  have "op_rel Q (?f p m)" if "op_rel Q m" for p m
    using that on_gates
    by (intro op_rel_try preorder) (auto simp: op_rel_pure preorder split: option.splits)
  then have "op_rel Q (fold ?f ps m)" if "op_rel Q m" for m
    using that by (induction ps arbitrary: m) auto
  from this [of "op_return ()"] show ?thesis
    by (simp add: withdraw_sources_def op_rel_pure preorder)
qed

lemma reopen: "op_rel Q (open_registry cf ev)"
  unfolding open_registry_def by (intro intros withdraw expire cleanup) simp_all

end

definition same_pending :: "registry \<Rightarrow> registry \<Rightarrow> bool" where
  "same_pending st st' \<longleftrightarrow> rg_pending st' = rg_pending st"

lemma disk_only_pending: "disk_only ev st st' \<Longrightarrow> same_pending st st'"
  by (simp add: disk_only_def same_pending_def)

interpretation pending: registry_relation cf same_pending
proof unfold_locales
  show "op_rel same_pending (persist cf ev)" for ev
    using disk_only_persist disk_only_pending unfolding op_rel_def by blast
qed (simp_all add: same_pending_def)

section \<open>Every step keeps the invariant\<close>

lemma run_inv_registry:
  assumes inv: "run_inv y" and k: "\<And>M. registry_inv M (ry_registry y) \<Longrightarrow> registry_inv M (snd (m (ry_registry y)))"
    and p: "op_rel same_pending m"
  shows "run_inv (on_registry m y)"
  using inv k p by (simp add: run_inv_def on_registry_def op_rel_def same_pending_def)

lemma run_inv_keeps:
  assumes "run_inv y" "\<And>M. op_keeps (registry_inv M) m" "op_rel same_pending m"
  shows "run_inv (on_registry m y)"
  using assms by (intro run_inv_registry) (auto simp: op_keeps_def)

lemma op_keeps_fold:
  assumes "\<And>x. op_keeps P (op_modify (f x))"
  shows "P st \<Longrightarrow> P (fold f xs st)"
  using assms by (induction xs arbitrary: st) (auto simp: op_keeps_def)

lemma run_inv_publish_registered:
  assumes inv: "run_inv y"
  shows "run_inv (on_registry (publish_registered_sources cf ev) y)"
proof -
  define f where "f = (\<lambda>(p :: project) st. fold (\<lambda>r st. snd (publish_source (rp_git_dir r) st))
      ((case pr_repository_binding p of None \<Rightarrow> [] | Some r \<Rightarrow> [r]) @ pr_related_repositories p) st)"
  have eq: "publish_registered_sources cf ev =
      op_try (op_lift (fst (store_load (cf_ext cf) (cf_codec cf) (cf_store cf) (ev_world ev))))
        (\<lambda>w. op_modify (fold f (ws_projects w)))"
    by (simp add: publish_registered_sources_def f_def)
  define P where "P M q st \<longleftrightarrow> registry_inv M st \<and> rg_pending st = q" for M q st
  have one: "op_keeps (P M q) (op_modify (\<lambda>st. snd (publish_source (rp_git_dir r) st)))" for M q r
    using inv_publish_source pending.publish
    by (simp add: P_def op_keeps_def op_rel_def same_pending_def)
  have "P M q st \<Longrightarrow> P M q (f p st)" for M q p st
    unfolding f_def by (rule op_keeps_fold [OF one])
  then have per: "op_keeps (P M q) (op_modify (f p))" for M q p
    by (simp add: op_keeps_def)
  have all: "P M q st \<Longrightarrow> P M q (fold f ps st)" for M q st ps
    by (rule op_keeps_fold [OF per])
  show ?thesis
    using inv all eq
    by (auto simp: P_def on_registry_def run_inv_def op_try_def split: sum.splits)
qed

lemma distinct_tickets:
  assumes "run_inv y"
  shows "distinct (map bt_run_id (ry_tickets y))"
proof -
  have "distinct (map fst (claims (ry_registry y)))"
    using assms claims_distinct_all by (auto simp: run_inv_def registry_inv_def claims_ok_def)
  then have "distinct (map fst (map pending_claim (rg_pending (ry_registry y))))"
    by (simp add: claims_def)
  with assms show ?thesis
    by (simp add: run_inv_def pending_claim_def pending_of_def comp_def)
qed

lemma ticket_leases_remove:
  assumes "distinct (map bt_run_id ts)" "t \<in> set ts"
  shows "ticket_leases ts = mset_opt (bt_lease t) + ticket_leases (filter (\<lambda>u. bt_run_id u \<noteq> bt_run_id t) ts)"
  using assms
proof (induction ts)
  case (Cons u us)
  show ?case
  proof (cases "t = u")
    case True
    then have "filter (\<lambda>w. bt_run_id w \<noteq> bt_run_id t) us = us"
      using Cons.prems by (intro filter_True) (auto simp: image_iff)
    with True show ?thesis by (simp add: ticket_leases_def)
  next
    case False
    with Cons.prems have "t \<in> set us" "bt_run_id u \<noteq> bt_run_id t" by auto
    with Cons show ?thesis by (simp add: ticket_leases_def ac_simps)
  qed
qed simp

lemma filter_pending_tickets:
  "filter (\<lambda>n. pn_run_id n \<noteq> bt_run_id t) (map pending_of ts)
    = map pending_of (filter (\<lambda>u. bt_run_id u \<noteq> bt_run_id t) ts)"
  by (simp add: filter_map comp_def pending_of_def)

text \<open>A ticket is used up: its pending start and its lease leave the system's books.\<close>

lemma run_inv_ticket:
  assumes inv: "run_inv y" and t: "t \<in> set (ry_tickets y)"
    and k: "\<And>M. registry_inv (mset_opt (bt_lease t) + M) (ry_registry y) \<Longrightarrow>
        pending_of t \<in> set (rg_pending (ry_registry y)) \<Longrightarrow>
        ticket_leased (tl_repository (bt_plan t)) (bt_lease t) \<Longrightarrow>
        registry_inv M (snd (m (ry_registry y)))"
    and p: "rg_pending (snd (m (ry_registry y))) =
        filter (\<lambda>n. pn_run_id n \<noteq> bt_run_id t) (rg_pending (ry_registry y))"
  shows "run_inv (drop_ticket t (on_registry m y))"
proof -
  let ?ts = "filter (\<lambda>u. bt_run_id u \<noteq> bt_run_id t) (ry_tickets y)"
  have "registry_inv (mset_opt (bt_lease t) + (ticket_leases ?ts + mset (ry_leases y))) (ry_registry y)"
    using inv ticket_leases_remove [OF distinct_tickets [OF inv] t] by (simp add: run_inv_def ac_simps)
  moreover have "pending_of t \<in> set (rg_pending (ry_registry y))"
    "ticket_leased (tl_repository (bt_plan t)) (bt_lease t)"
    using inv t by (auto simp: run_inv_def)
  ultimately have "registry_inv (ticket_leases ?ts + mset (ry_leases y)) (snd (m (ry_registry y)))"
    by (rule k)
  moreover have "rg_pending (snd (m (ry_registry y))) = map pending_of ?ts"
    using p inv by (simp add: run_inv_def filter_pending_tickets)
  ultimately show ?thesis
    using inv by (simp add: run_inv_def drop_ticket_def on_registry_def)
qed

lemma pending_commit:
  "rg_pending (snd (begin_commit cf ev t src st)) = filter (\<lambda>n. pn_run_id n \<noteq> bt_run_id t) (rg_pending st)"
proof (cases "prepare_run cf ev t")
  case (Inl e)
  then show ?thesis by (simp add: begin_commit_def Let_def)
next
  case (Inr p)
  have "rg_pending (snd (persist cf ev u)) = rg_pending u" for u
    using pending.saved by (simp add: op_rel_def same_pending_def)
  with Inr show ?thesis
    by (auto simp: begin_commit_def Let_def split: prod.splits sum.splits)
      (drule arg_cong [where f = "\<lambda>x. rg_pending (snd x)"], simp)+
qed

lemma run_inv_gate_client:
  assumes inv: "run_inv y" and en: "run_enabled ev (GateClient a) y"
  shows "run_inv (gate_client a y)"
proof -
  let ?st = "ry_registry y"
  let ?s = "\<lparr>gy_gate = rg_gate ?st, gy_leases = ry_leases y\<rparr>"
  let ?T = "ticket_leases (ry_tickets y)"
  have R: "registry_inv (?T + mset (ry_leases y)) ?st" using inv by (simp add: run_inv_def)
  have "registry_inv (?T + mset (gy_leases (snd (gate_exec a ?s)))) (?st\<lparr>rg_gate := gy_gate (snd (gate_exec a ?s))\<rparr>)"
  proof (rule inv_gate [OF R])
    let ?B = "leases_of (rg_active ?st) + ?T"
    assume "gate_holds (rg_gate ?st) (leases_of (rg_active ?st) + (?T + mset (ry_leases y)))"
    then have H: "gate_holds (rg_gate ?st) (?B + mset (ry_leases y))" by (simp add: ac_simps)
    have "gate_holds (gy_gate (snd (gate_exec a ?s))) (?B + mset (gy_leases (snd (gate_exec a ?s))))"
    proof (cases a)
      case (Block i b reason)
      with gate_holds_method [OF H, where m = "gate_block i b reason" and i = i and b = b and reason = reason]
      show ?thesis by (auto simp: lift_gate_def split: prod.splits)
    next
      case (Unblock i b)
      with gate_holds_method [OF H, where m = "gate_unblock i b" and i = i and b = b]
      show ?thesis by (auto simp: lift_gate_def split: prod.splits)
    next
      case (Unavailable i)
      with gate_holds_method [OF H, where m = "gate_unavailable i" and i = i]
      show ?thesis by (auto simp: lift_gate_def split: prod.splits)
    next
      case (Ready i)
      with gate_holds_method [OF H, where m = "gate_ready i" and i = i]
      show ?thesis by (auto simp: lift_gate_def split: prod.splits)
    next
      case (ReserveRun i oper name)
      with en show ?thesis by simp
    next
      case (ReserveMutation i oper)
      with gate_holds_reserve [OF H, of i oper None] show ?thesis
        by (auto simp: lift_reserve_def gate_reserve_mutation_def split: prod.splits sum.splits)
    next
      case (DropLease l)
      with en have "l \<in># mset (ry_leases y)" by simp
      then obtain N where N: "mset (ry_leases y) = add_mset l N" by (meson multi_member_split)
      with H have "gate_holds (gate_drop l (rg_gate ?st)) (?B + N)" by (auto intro: gate_holds_drop)
      with DropLease N show ?thesis by simp
    qed
    then show "gate_holds (gy_gate (snd (gate_exec a ?s)))
        (leases_of (rg_active ?st) + (?T + mset (gy_leases (snd (gate_exec a ?s)))))"
      by (simp add: ac_simps)
  qed
  with inv show ?thesis by (simp add: run_inv_def gate_client_def Let_def)
qed


lemma run_inv_begin:
  assumes inv: "run_inv y" and fresh: "fresh_id (ev_new_id ev) (ry_registry y)"
  shows "run_inv (run_exec cf ev (Begin plan oper par) y)"
proof -
  let ?M = "ticket_leases (ry_tickets y) + mset (ry_leases y)"
  obtain r st' where e: "begin_reserve cf ev plan oper par (ry_registry y) = (r, st')" by fastforce
  have "reserved ?M (ry_registry y) r st'"
    using inv_begin_reserve [OF _ fresh e] inv by (simp add: run_inv_def)
  with e inv show ?thesis
    by (auto simp: reserved_def run_inv_def ticket_leases_def ac_simps
        split: sum.splits begin_reservation.splits)
qed

lemma pending_open: "rg_pending (snd (open_registry cf ev (new_registry new_gate disk faults))) = []"
  using pending.reopen [of cf ev] by (simp add: op_rel_def same_pending_def new_registry_def)

lemma run_inv_closed: "ledger_ok disk \<Longrightarrow> run_inv (closed_system disk)"
  using inv_new_registry [of disk]
  by (simp add: ledger_ok_def run_inv_def closed_system_def ticket_leases_def new_registry_def)

lemma run_inv_disk: "run_inv y \<Longrightarrow> ledger_ok (rg_disk (ry_registry y))"
  by (auto simp: run_inv_def registry_inv_def claims_ok_def ledger_ok_def)

lemma run_inv_restart:
  assumes "run_inv y"
  shows "run_inv (run_exec cf ev (Restart faults) y)"
proof -
  let ?d = "rg_disk (ry_registry y)"
  obtain r st' where e: "open_registry cf ev (new_registry new_gate ?d faults) = (r, st')" by fastforce
  have R: "registry_inv {#} st'"
    using inv_open_registry [of ?d cf ev faults] run_inv_disk [OF assms] e by (simp add: ledger_ok_def)
  have P: "rg_pending st' = []" using pending_open [of cf ev ?d faults] e by simp
  show ?thesis
  proof (cases r)
    case (Inl m)
    have "ledger_ok (rg_disk st')" using R by (auto simp: registry_inv_def claims_ok_def ledger_ok_def)
    with e Inl show ?thesis by (simp add: run_inv_closed)
  next
    case (Inr u)
    with e R P show ?thesis by (simp add: run_inv_def ticket_leases_def)
  qed
qed

lemma run_inv_exec:
  assumes inv: "run_inv y" and en: "run_enabled ev a y"
  shows "run_inv (run_exec cf ev a y)"
proof (cases a)
  case (Begin plan oper par)
  with inv en show ?thesis by (simp add: run_inv_begin del: run_exec.simps)
next
  case (Commit t src)
  with en have "t \<in> set (ry_tickets y)" by simp
  with inv have "run_inv (drop_ticket t (on_registry (begin_commit cf ev t src) y))"
    by (rule run_inv_ticket) (auto intro: inv_begin_commit simp: pending_commit)
  with Commit show ?thesis by simp
next
  case (Abandon t)
  with en have "t \<in> set (ry_tickets y)" by simp
  with inv have "run_inv (drop_ticket t (on_registry (op_modify (begin_abandon t)) y))"
    by (rule run_inv_ticket) (simp_all add: inv_begin_abandon, simp add: begin_abandon_def)
  with Abandon show ?thesis by simp
next
  case (FinishRun i ex cleanup err src)
  with en have "may_finish i cleanup (ry_registry y)" by simp
  then have "registry_inv M (ry_registry y) \<Longrightarrow>
      registry_inv M (snd (finish_observed cf ev i ex cleanup err src (ry_registry y)))" for M
    by (intro inv_finish_observed)
  with inv FinishRun show ?thesis by (simp add: run_inv_registry pending.finish)
next
  case (GateClient g)
  with inv en show ?thesis using run_inv_gate_client by (simp del: run_enabled.simps)
next
  case (Restart faults)
  with inv show ?thesis by (simp add: run_inv_restart del: run_exec.simps)
qed (use inv in \<open>simp_all add: run_inv_keeps run_inv_publish_registered inv_mark_running inv_cancel_run
    inv_acknowledge inv_finish_probe inv_pin_result inv_publish_source pending.running
    pending.cancel pending.acknowledge pending.probe pending.pin pending.publish\<close>)

text \<open>The step relation of the registry and its clients is an instance of the shared argument.\<close>

interpretation runs: transition_system run_init "run_step cf" run_inv
proof unfold_locales
  show "run_inv y" if "run_init y" for y
    using that by (auto simp: run_init_def intro: run_inv_closed)
  show "run_inv z" if "run_inv y" "run_step cf y z" for y z
    using that by (auto elim!: run_stepE intro: run_inv_exec)
qed

end
