(* ===== verification/Run_Demo.thy ===== *)
theory Run_Demo
  imports Run_System Trust_Properties
begin

text \<open>
  The concrete instance on which the claims about runs are applied: a host with one project,
  two approved tasks that write the same output, and a disk that works or fails on demand.
  Each scenario is evaluated once.
\<close>

section \<open>A concrete host\<close>

definition demo_repo :: repository where
  "demo_repo = \<lparr>rp_root = ''/w'', rp_git_dir = ''/w/.git'', rp_common_dir = ''/w/.git''\<rparr>"

definition demo_run_ext :: ext where
  "demo_run_ext = demo_ext\<lparr>sha256_hex := (\<lambda>_. replicate 64 CHR ''a''), json_task := (\<lambda>t. Inr ''{}'')\<rparr>"

definition demo_run_task :: task_definition where
  "demo_run_task = demo_task\<lparr>ta_approved_digest := Some (replicate 64 CHR ''a''), ta_build_outputs := [''/w/out'']\<rparr>"

definition demo_run_workspace :: workspace where
  "demo_run_workspace = default_workspace\<lparr>ws_projects := [demo_project\<lparr>
     pr_repository := Some ''/w'', pr_repository_binding := Some demo_repo,
     pr_tasks := [demo_run_task, demo_run_task\<lparr>ta_id := ''t2''\<rparr>]\<rparr>]\<rparr>"

definition demo_config :: config where
  "demo_config = \<lparr>cf_ext = demo_run_ext, cf_json = demo_json,
     cf_run_json = \<lparr>json_result = (\<lambda>_. Inr []), json_events = (\<lambda>_. Inr [])\<rparr>,
     cf_codec = demo_codec\<lparr>toml_parse := (\<lambda>_. Inr demo_run_workspace)\<rparr>, cf_store = demo_store\<rparr>"

definition demo_run_world :: world where
  "demo_run_world = demo_world\<lparr>fw_files := [components ''/c/workspace.toml'' \<mapsto> new_inode 1000 ''x'']\<rparr>"
definition demo_run_env :: env where
  "demo_run_env = \<lparr>ev_now = 1000, ev_instant = 5, ev_world = demo_run_world, ev_ob = demo_ob,
     ev_run_use = Inr (), ev_new_id = ''r1'', ev_private_dir = (\<lambda>_. Inr ()), ev_write = (\<lambda>_ _. Inr ()),
     ev_script_id = ''s'', ev_new_log = (\<lambda>_. Inr (1, 1)),
     ev_sink = (\<lambda>i. \<lparr>ld_run_id = i, ld_generation = 1, ld_state = LRecording, ld_bytes = 0,
       ld_observed_bytes = 0, ld_limit_bytes = LOG_LIMIT, ld_merged_pty = False,
       ld_file_identity = Some (1, 1)\<rparr>),
     ev_step_file = (\<lambda>_ _. None), ev_log_file = (\<lambda>_. Inr ((1, 1), [])), ev_log_exists = (\<lambda>_. True),
     ev_log_stat = (\<lambda>_. Inl NotFound), ev_dir_stat = (\<lambda>_. Inl NotFound), ev_remove_log = (\<lambda>_. Inr ()),
     ev_remove_dir = (\<lambda>_. Inr ()), ev_remove_body = (\<lambda>_ _. Inr ()), ev_capture = (\<lambda>_. ResultMissing),
     ev_events = (\<lambda>_ _. default_events), ev_verify_result = id, ev_retained_events = id,
     ev_migrate = (\<lambda>_. id), ev_backup_v1 = Inr ()\<rparr>"


definition demo_plan :: task_launch_plan where
  "demo_plan = \<lparr>tl_project_id = ''p1'', tl_task = demo_run_task,
     tl_shell = \<lparr>sp_native = None, sp_shell = ''/bin/sh'', sp_login = False, sp_init_cwd = ''/w'',
       sp_start_cwd = ''/w'', sp_sources = [], sp_env = [(''HOME'', ''/h'')], sp_command = None\<rparr>,
     tl_definition_revision = 0, tl_launch_digest = replicate 64 CHR ''a'',
     tl_initialization_digest = replicate 64 CHR ''a'', tl_repository = Some demo_repo,
     tl_source_roots = [''/w'']\<rparr>"

definition demo_source :: source_observation where
  "demo_source = \<lparr>so_identity = Some ''/w/.git'', so_generation = Some 1, so_git_head = None,
     so_dirty = None, so_status_digest = None, so_error = None\<rparr>"

definition demo_ticket :: begin_ticket where
  "demo_ticket = \<lparr>bt_run_id = ''r1'', bt_plan = demo_plan, bt_operation_id = ''op'',
     bt_outputs = [''/w/out''], bt_lease = Some \<lparr>gl_identity = ''/w/.git'', gl_operation = ''op'',
       gl_mutation = False\<rparr>\<rparr>"

text \<open>The host opens an empty ledger, reserves a start and commits it.\<close>

definition demo_opened :: run_sys where
  "demo_opened = run_exec demo_config demo_run_env (Restart []) (closed_system None)"

definition demo_reserved :: run_sys where
  "demo_reserved = run_exec demo_config demo_run_env (Begin demo_plan ''op'' False) demo_opened"

definition demo_started :: run_sys where
  "demo_started = run_exec demo_config demo_run_env (Commit demo_ticket demo_source) demo_reserved"

definition demo_exit :: terminal_exit where
  "demo_exit = \<lparr>te_code = 0, te_signal = None\<rparr>"

definition demo_finished :: run_sys where
  "demo_finished = run_exec demo_config demo_run_env (FinishRun ''r1'' (Some demo_exit) True None demo_source)
     demo_started"

text \<open>A host whose third ledger write fails: the one that would save the cancellation.\<close>

definition demo_failing :: run_sys where
  "demo_failing = run_exec demo_config demo_run_env (Commit demo_ticket demo_source)
     (run_exec demo_config demo_run_env (Begin demo_plan ''op'' False)
       (run_exec demo_config demo_run_env (Restart [None, None, Some (False, ''ENOSPC'')])
         (closed_system None)))"

text \<open>A recovered ledger with two unknown runs that write different files.\<close>

definition demo_unknown :: "string \<Rightarrow> path \<Rightarrow> run_info" where
  "demo_unknown i out = (new_run demo_run_env (ry_registry demo_opened)
      (demo_ticket\<lparr>bt_run_id := i, bt_operation_id := i, bt_outputs := [out]\<rparr>) demo_source
      (new_log (demo_ticket\<lparr>bt_run_id := i\<rparr>) (1, 1)))\<lparr>ri_state := RUnknown\<rparr>"

definition demo_ledger :: run_ledger where
  "demo_ledger = \<lparr>rl_schema = 2, rl_runs = [demo_unknown ''r1'' ''/w/a'', demo_unknown ''r2'' ''/w/b''],
     rl_retired = []\<rparr>"

definition demo_recovered :: run_sys where
  "demo_recovered = run_exec demo_config demo_run_env (Restart []) (closed_system (Some demo_ledger))"

text \<open>A record of run \<open>i\<close> in the ledger on disk.\<close>

definition on_disk :: "string \<Rightarrow> (run_info \<Rightarrow> bool) \<Rightarrow> registry \<Rightarrow> bool" where
  "on_disk i P st \<longleftrightarrow> (\<exists>l r. rg_disk st = Some l \<and> r \<in> set (rl_runs l) \<and> ri_run_id r = i \<and> P r)"

section \<open>What the scenarios evaluate to\<close>

definition demo_cancel :: "run_sys \<Rightarrow> run_info res \<times> registry" where
  "demo_cancel y = cancel_run demo_config demo_run_env ''r1'' True (ry_registry y)"

definition demo_finish :: "run_sys \<Rightarrow> run_info res \<times> registry" where
  "demo_finish y = finish_observed demo_config demo_run_env ''r1'' (Some demo_exit) True None demo_source
     (ry_registry y)"

definition demo_bound :: "run_sys \<Rightarrow> bool" where
  "demo_bound y = (case get_active ''r1'' (ry_registry y) of None \<Rightarrow> False
     | Some a \<Rightarrow> tl_repository (ac_plan a) = Some demo_repo)"

definition demo_mutation :: "run_sys \<Rightarrow> gate_lease res \<times> source_gate" where
  "demo_mutation y = gate_reserve_mutation ''/w/.git'' ''op2'' (rg_gate (ry_registry y))"

lemma demo_facts:
  "let y1 = run_exec demo_config demo_run_env (Restart []) (closed_system None);
       y2 = run_exec demo_config demo_run_env (Begin demo_plan ''op'' False) y1;
       y3 = run_exec demo_config demo_run_env (Commit demo_ticket demo_source) y2;
       y4 = run_exec demo_config demo_run_env (FinishRun ''r1'' (Some demo_exit) True None demo_source) y3
   in run_enabled demo_run_env (Begin demo_plan ''op'' False) y1
    \<and> run_enabled demo_run_env (Commit demo_ticket demo_source) y2
    \<and> run_enabled demo_run_env (FinishRun ''r1'' (Some demo_exit) True None demo_source) y3
    \<and> map pn_build_outputs (rg_pending (ry_registry y2)) = [[''/w/out'']]
    \<and> map (\<lambda>r. (ri_run_id r, ri_state r, ri_cancel_requested r)) (rg_runs (ry_registry y3))
      = [(''r1'', RPreparing, False)]
    \<and> demo_bound y3 \<and> demo_bound y4 \<and> is_ok (fst (demo_cancel y3)) \<and> is_ok (fst (demo_finish y3))
    \<and> is_ok (fst (demo_mutation y4))"
  by code_simp


lemmas demo_run_facts = demo_facts [unfolded Let_def, folded demo_opened_def,
  folded demo_reserved_def, folded demo_started_def, folded demo_finished_def]

lemma demo_failing_facts:
  "let y1 = run_exec demo_config demo_run_env (Restart [None, None, Some (False, ''ENOSPC'')])
         (closed_system None);
       y2 = run_exec demo_config demo_run_env (Begin demo_plan ''op'' False) y1;
       y3 = run_exec demo_config demo_run_env (Commit demo_ticket demo_source) y2
   in run_enabled demo_run_env (Begin demo_plan ''op'' False) y1
    \<and> run_enabled demo_run_env (Commit demo_ticket demo_source) y2
    \<and> fst (demo_cancel y3) = Inl (Os ''ENOSPC'') \<and> fst (demo_finish y3) = Inl (Os ''ENOSPC'')
    \<and> map ri_state (rg_runs (ry_registry y3)) = [RPreparing]
    \<and> map_option ac_lease (get_active ''r1'' (ry_registry y3)) = Some (bt_lease demo_ticket)"
  by code_simp

lemmas demo_failure_facts = demo_failing_facts [unfolded Let_def]

lemma demo_recovered_facts:
  "let rs = rg_runs (ry_registry demo_recovered) in
   sorted_wrt compatible (map run_claim (rl_runs demo_ledger))
   \<and> map ri_operation_id rs = [''r1'', ''r2''] \<and> map holds_output rs = [True, True]"
  by code_simp

lemma demo_empty: "run_init (closed_system None)"
  by (auto simp: run_init_def ledger_ok_def)

lemma demo_step:
  "reach run_init (run_step demo_config) y \<Longrightarrow> run_enabled demo_run_env a y \<Longrightarrow>
   reach run_init (run_step demo_config) (run_exec demo_config demo_run_env a y)"
  by (blast intro: reach_step run_stepI)

lemma demo_restart:
  "run_init y \<Longrightarrow> reach run_init (run_step demo_config) (run_exec demo_config demo_run_env (Restart fs) y)"
  by (rule demo_step [OF reach_init]) simp_all

lemma demo_opened_reach: "reach run_init (run_step demo_config) demo_opened"
  unfolding demo_opened_def by (rule demo_restart [OF demo_empty])

lemma demo_reserved_reach: "reach run_init (run_step demo_config) demo_reserved"
  unfolding demo_reserved_def using demo_step [OF demo_opened_reach] demo_run_facts by blast

lemma demo_started_reach: "reach run_init (run_step demo_config) demo_started"
  unfolding demo_started_def using demo_step [OF demo_reserved_reach] demo_run_facts by blast

lemma demo_finished_reach: "reach run_init (run_step demo_config) demo_finished"
  unfolding demo_finished_def using demo_step [OF demo_started_reach] demo_run_facts by blast

lemma demo_failing_reach: "reach run_init (run_step demo_config) demo_failing"
  unfolding demo_failing_def
  using demo_step [OF demo_step [OF demo_restart [OF demo_empty]]] demo_failure_facts by blast

lemma demo_recovered_reach: "reach run_init (run_step demo_config) demo_recovered"
proof -
  have "run_init (closed_system (Some demo_ledger))"
    using demo_recovered_facts by (auto simp: run_init_def ledger_ok_def Let_def)
  then show ?thesis unfolding demo_recovered_def by (rule demo_restart)
qed

end
