(* ===== verification/Run_Properties.thy ===== *)
theory Run_Properties
  imports Run_Demo
begin

text \<open>
  The claims about runs: outputs and sources are exclusive while a run may still be writing,
  cancellation and results are durable before they are reported.
\<close>

section \<open>Exclusive outputs and identities\<close>

lemma claims_nth:
  assumes "claims_ok st" "i < length (claims st)" "j < length (claims st)" "i \<noteq> j"
  shows "compatible (claims st ! i) (claims st ! j)"
  using assms sympD [OF compatible_sym]
  by (metis claims_ok_def linorder_neqE_nat sorted_wrt_nth_less)

lemma run_reach_inv: "reach run_init (run_step cf) y \<Longrightarrow> run_inv y"
  by (rule runs.reach_inv)

lemma run_reach_claims: "reach run_init (run_step cf) y \<Longrightarrow> claims_ok (ry_registry y)"
  using run_reach_inv by (auto simp: run_inv_def registry_inv_def)

text \<open>
  C3 (run_outputs_exclusive). In every reachable state of the registry and its clients, whatever calls failed
  and however often the host restarted, two runs that are live, or that ended unknown without
  confirmed cleanup, have no overlapping build outputs: no output file is ever written by two
  runs at once, not even by one that a dead host left behind.
\<close>

theorem run_outputs_exclusive:
  assumes "reach run_init (run_step cf) y"
    and "i < length (rg_runs (ry_registry y))" "j < length (rg_runs (ry_registry y))" "i \<noteq> j"
    and "holds_output (rg_runs (ry_registry y) ! i)" "holds_output (rg_runs (ry_registry y) ! j)"
  shows "\<not> conflicts (ri_build_outputs (rg_runs (ry_registry y) ! i))
    (ri_build_outputs (rg_runs (ry_registry y) ! j))"
  using claims_nth [OF run_reach_claims [OF assms(1)], of i j] assms(2-)
  by (auto simp: claims_def nth_append run_claim_def)

theorem run_outputs_exclusive_witness:
  "let rs = rg_runs (ry_registry demo_recovered) in
   length rs = 2 \<and> holds_output (rs ! 0) \<and> holds_output (rs ! 1)
   \<and> \<not> conflicts (ri_build_outputs (rs ! 0)) (ri_build_outputs (rs ! 1))"
proof -
  let ?rs = "rg_runs (ry_registry demo_recovered)"
  have "map holds_output ?rs = [True, True]" using demo_recovered_facts by (simp only: Let_def)
  then obtain a b where ab: "?rs = [a, b]" "holds_output a" "holds_output b"
    by (auto simp: map_eq_Cons_conv)
  with run_outputs_exclusive [OF demo_recovered_reach, of 0 1] show ?thesis
    by (simp add: Let_def)
qed

lemma sorted_wrt_pair:
  assumes "symp P" "sorted_wrt P xs" "x \<in> set xs" "y \<in> set xs" "x \<noteq> y"
  shows "P x y"
  using assms(2-) by (induction xs) (auto dest: sympD [OF assms(1)])

text \<open>
  A start that is reserved but not yet committed already owns its outputs: they
  overlap neither those of another reserved start nor those of a run that may still be writing.
\<close>

theorem start_outputs_exclusive:
  assumes "reach run_init (run_step cf) y" and "n \<in> set (rg_pending (ry_registry y))"
  shows "(\<forall>r\<in>set (rg_runs (ry_registry y)). holds_output r \<longrightarrow>
      \<not> conflicts (ri_build_outputs r) (pn_build_outputs n))
    \<and> (\<forall>m\<in>set (rg_pending (ry_registry y)). m \<noteq> n \<longrightarrow>
      \<not> conflicts (pn_build_outputs m) (pn_build_outputs n))"
proof -
  let ?st = "ry_registry y"
  have ok: "sorted_wrt compatible (map run_claim (rg_runs ?st) @ map pending_claim (rg_pending ?st))"
    using run_reach_claims [OF assms(1)] by (simp add: claims_ok_def claims_def)
  have "compatible (run_claim r) (pending_claim n)" if "r \<in> set (rg_runs ?st)" for r
    using ok assms(2) that by (auto simp: sorted_wrt_append)
  moreover have "compatible (pending_claim m) (pending_claim n)"
    if "m \<in> set (rg_pending ?st)" "m \<noteq> n" for m
  proof -
    have "sorted_wrt (\<lambda>m n. compatible (pending_claim m) (pending_claim n)) (rg_pending ?st)"
      using ok by (simp add: sorted_wrt_append sorted_wrt_map)
    moreover have "symp (\<lambda>m n. compatible (pending_claim m) (pending_claim n))"
      by (rule sympI) (rule sympD [OF compatible_sym])
    ultimately show ?thesis using sorted_wrt_pair assms(2) that by metis
  qed
  ultimately show ?thesis
    unfolding run_claim_def pending_claim_def by fastforce
qed


theorem start_outputs_exclusive_witness:
  "let st = ry_registry demo_reserved; n = hd (rg_pending st) in
   rg_pending st = [n] \<and> pn_build_outputs n = [''/w/out'']
   \<and> (\<forall>r\<in>set (rg_runs st). holds_output r \<longrightarrow> \<not> conflicts (ri_build_outputs r) (pn_build_outputs n))"
proof -
  let ?st = "ry_registry demo_reserved"
  have l: "length (rg_pending ?st) = 1 \<and> pn_build_outputs (hd (rg_pending ?st)) = [''/w/out'']"
    using demo_run_facts by (auto simp: map_eq_Cons_conv)
  then have n: "rg_pending ?st = [hd (rg_pending ?st)]" by (cases "rg_pending ?st") auto
  then have "hd (rg_pending ?st) \<in> set (rg_pending ?st)" by (metis list.set_intros(1))
  from start_outputs_exclusive [OF demo_reserved_reach this] n l show ?thesis
    by (simp only: Let_def) blast
qed

lemma distinct_if_sorted_neq: "sorted_wrt (\<noteq>) xs \<Longrightarrow> distinct xs"
  by (induction xs) auto

lemma run_reach_operations:
  assumes "reach run_init (run_step cf) y"
  shows "distinct (map ri_operation_id (rg_runs (ry_registry y))
    @ map pn_operation_id (rg_pending (ry_registry y)))"
proof -
  have ok: "sorted_wrt compatible (claims (ry_registry y))"
    using run_reach_claims [OF assms] by (simp add: claims_ok_def)
  have "sorted_wrt (\<lambda>c d. fst (snd c) \<noteq> fst (snd d)) (claims (ry_registry y))"
    by (rule sorted_wrt_mono_rel [OF _ ok]) auto
  then have "distinct (map (fst \<circ> snd) (claims (ry_registry y)))"
    by (simp_all add: distinct_if_sorted_neq sorted_wrt_map comp_def)
  then show ?thesis
    by (simp add: claims_def run_claim_def pending_claim_def comp_def)
qed

text \<open>
  Run ids and operation ids are unique over the runs and the reserved starts together,
  in every reachable state: one client operation never becomes two executions.
\<close>

theorem operations_unique:
  assumes "reach run_init (run_step cf) y"
  shows "distinct (map ri_run_id (rg_runs (ry_registry y)) @ map pn_run_id (rg_pending (ry_registry y)))
    \<and> distinct (map ri_operation_id (rg_runs (ry_registry y))
        @ map pn_operation_id (rg_pending (ry_registry y)))"
proof -
  have "distinct (map fst (claims (ry_registry y)))"
    using run_reach_claims [OF assms] claims_distinct_all by (auto simp: claims_ok_def)
  with run_reach_operations [OF assms] show ?thesis
    by (simp add: claims_def run_claim_def pending_claim_def comp_def)
qed

theorem operations_unique_witness:
  "map ri_operation_id (rg_runs (ry_registry demo_recovered)) = [''r1'', ''r2'']
   \<and> distinct (map ri_operation_id (rg_runs (ry_registry demo_recovered))
      @ map pn_operation_id (rg_pending (ry_registry demo_recovered)))"
proof -
  have "map ri_operation_id (rg_runs (ry_registry demo_recovered)) = [''r1'', ''r2'']"
    using demo_recovered_facts by (simp only: Let_def)
  with operations_unique [OF demo_recovered_reach] show ?thesis by simp
qed

section \<open>Runs and mutations of one source\<close>

lemma lease_of_entry: "get_active i st = Some a \<Longrightarrow> ac_lease a = Some l \<Longrightarrow> l \<in># leases_of (rg_active st)"
  using lease_in_leases by (simp add: get_active_def)

lemma ticket_lease_in: "t \<in> set ts \<Longrightarrow> bt_lease t = Some l \<Longrightarrow> l \<in># ticket_leases ts"
  by (induction ts) (auto simp: ticket_leases_def mset_opt_def)

text \<open>
  C4 (mutation_waits_for_runs). If the Git service is granted a mutation of a repository, then every run of a task
  bound to that repository that this host started is over, with its cleanup confirmed, both in memory and in
  the ledger on disk, and no start for it is reserved: the lease outlives the process and is
  given back only after the outcome is durable.
\<close>

theorem mutation_waits_for_runs:
  assumes "reach run_init (run_step cf) y"
    and "gate_reserve_mutation identity oper (rg_gate (ry_registry y)) = (Inr lease, g)"
  shows "(\<forall>i a rp. get_active i (ry_registry y) = Some a \<longrightarrow> tl_repository (ac_plan a) = Some rp \<longrightarrow>
        path_eq (rp_git_dir rp) identity \<longrightarrow> settled_at i (ry_registry y))
    \<and> (\<forall>t\<in>set (ry_tickets y). \<forall>rp. tl_repository (bt_plan t) = Some rp \<longrightarrow>
        \<not> path_eq (rp_git_dir rp) identity)"
proof -
  let ?st = "ry_registry y"
  let ?M = "leases_of (rg_active ?st) + (ticket_leases (ry_tickets y) + mset (ry_leases y))"
  have inv: "run_inv y" using assms(1) by (rule run_reach_inv)
  then have holds: "gate_holds (rg_gate ?st) ?M"
    and leased: "\<And>i a. get_active i ?st = Some a \<Longrightarrow> leased i a ?st"
    by (simp_all add: run_inv_def registry_inv_def)
  have free: "\<not> path_eq (gl_identity l) identity" if "l \<in># ?M" for l
    using gate_holds_refuses [OF holds that, of identity oper] assms(2) by auto
  have "settled_at i ?st" if a: "get_active i ?st = Some a" "tl_repository (ac_plan a) = Some rp"
    "path_eq (rp_git_dir rp) identity" for i a rp
  proof (rule ccontr)
    assume "\<not> settled_at i ?st"
    then obtain l where "ac_lease a = Some l" "gl_identity l = rp_git_dir rp"
      using leased [OF a(1)] a(2) by (auto simp: leased_def)
    with free [of l] lease_of_entry [OF a(1)] a(3) show False by auto
  qed
  moreover have "\<not> path_eq (rp_git_dir rp) identity"
    if t: "t \<in> set (ry_tickets y)" and rp: "tl_repository (bt_plan t) = Some rp" for t rp
  proof -
    from inv t rp obtain l where "bt_lease t = Some l" "gl_identity l = rp_git_dir rp"
      by (auto simp: run_inv_def ticket_leased_def)
    with free [of l] ticket_lease_in [OF t] show ?thesis by auto
  qed
  ultimately show ?thesis by blast
qed

text \<open>
  While a run is live, no Git mutation of its task's repository is granted.
\<close>

theorem live_run_blocks_mutation:
  assumes "reach run_init (run_step cf) y"
    and "r \<in> set (rg_runs (ry_registry y))" "run_is_live (ri_state r)"
    and "get_active (ri_run_id r) (ry_registry y) = Some a" "tl_repository (ac_plan a) = Some rp"
  shows "\<exists>e. fst (gate_reserve_mutation (rp_git_dir rp) oper (rg_gate (ry_registry y))) = Inl e"
proof -
  let ?st = "ry_registry y"
  have inv: "run_inv y" using assms(1) by (rule run_reach_inv)
  have "\<not> settled_at (ri_run_id r) ?st"
    using assms(2,3) by (auto simp: settled_at_def settled_def)
  moreover have "leased (ri_run_id r) a ?st"
    using inv assms(4) by (simp add: run_inv_def registry_inv_def)
  ultimately obtain l where l: "ac_lease a = Some l" "gl_identity l = rp_git_dir rp"
    using assms(5) by (auto simp: leased_def)
  have "gate_holds (rg_gate ?st)
      (leases_of (rg_active ?st) + (ticket_leases (ry_tickets y) + mset (ry_leases y)))"
    using inv by (simp add: run_inv_def registry_inv_def)
  then show ?thesis
    by (rule gate_holds_refuses) (use lease_of_entry [OF assms(4) l(1)] l(2) in auto)
qed

theorem live_run_blocks_mutation_witness:
  "let st = ry_registry demo_started; r = hd (rg_runs st) in ri_state r = RPreparing
   \<and> (\<exists>e. fst (gate_reserve_mutation ''/w/.git'' ''op2'' (rg_gate st)) = Inl e)"
proof -
  let ?st = "ry_registry demo_started"
  have r: "length (rg_runs ?st) = 1 \<and> ri_state (hd (rg_runs ?st)) = RPreparing \<and> ri_run_id (hd (rg_runs ?st)) = ''r1''"
    using demo_run_facts by (auto simp: map_eq_Cons_conv)
  then have m: "hd (rg_runs ?st) \<in> set (rg_runs ?st)" by (cases "rg_runs ?st") auto
  obtain a where a: "get_active (ri_run_id (hd (rg_runs ?st))) ?st = Some a"
    "tl_repository (ac_plan a) = Some demo_repo"
    using r demo_run_facts by (auto simp: demo_bound_def split: option.splits)
  have "run_is_live (ri_state (hd (rg_runs ?st)))" using r by (simp only:) simp
  from live_run_blocks_mutation [OF demo_started_reach m this a, of "''op2''"] r show ?thesis
    unfolding Let_def demo_repo_def repository.simps by blast
qed


section \<open>Durable decisions\<close>

lemma find_update_run:
  assumes "find_run i st = Some p" "ri_run_id (f p) = i"
  shows "find_run i (update_run i f st) = Some (f p)"
  using assms by (auto simp: find_run_def update_run_def find_update_first)

lemma update_run_back:
  assumes "find_run i st = Some p" "ri_run_id (f p) = i"
  shows "rg_runs (update_run i (\<lambda>_. p) (update_run i f st)) = rg_runs st"
proof -
  obtain us vs where "rg_runs st = us @ p # vs" "ri_run_id p = i" "\<forall>u\<in>set us. ri_run_id u \<noteq> i"
    using assms(1) by (auto simp: find_run_def dest!: find_split)
  with assms(2) show ?thesis by (simp add: update_run_def update_first_split)
qed

lemma update_run_ids:
  assumes "find_run i st = Some p" "ri_run_id (f p) = i"
  shows "run_id_list (update_run i f st) = run_id_list st"
proof -
  obtain us vs where "rg_runs st = us @ p # vs" "ri_run_id p = i" "\<forall>u\<in>set us. ri_run_id u \<noteq> i"
    using assms(1) by (auto simp: find_run_def dest!: find_split)
  with assms(2) show ?thesis by (simp add: run_id_list_def update_run_def update_first_split)
qed

lemma on_disk_mono: "on_disk i P st \<Longrightarrow> (\<And>r. P r \<Longrightarrow> Q r) \<Longrightarrow> on_disk i Q st"
  by (auto simp: on_disk_def)

lemma on_disk_saved:
  assumes "rg_disk st' = Some (ledger ev u)" "distinct (run_id_list u)" "r \<in> set (rg_runs u)"
  shows "on_disk (ri_run_id r) (\<lambda>q. \<exists>v. q = info_run ev v r) st'"
proof -
  have "info_run ev u r \<in> set (rl_runs (ledger ev u))"
    using assms(3) by (simp add: ledger_def list_runs_all [OF assms(2)])
  with assms(1) show ?thesis unfolding on_disk_def by (metis info_run_fields(1))
qed

lemma info_run_requests [simp]:
  "ri_cancel_requested (info_run ev st r) = ri_cancel_requested r"
  "ri_timeout_requested (info_run ev st r) = ri_timeout_requested r"
  by (auto simp: info_run_def info_log_def Let_def split: option.splits sum.splits prod.splits)

text \<open>A change of one run that is saved, or undone when saving fails.\<close>

lemma change_run_cases:
  assumes e: "op_try (op_modify (update_run i f)) (\<lambda>_. op_try (persist_or cf ev (update_run i (\<lambda>_. p)))
      (\<lambda>_. get_info ev i)) st = (r, st')"
    and p: "find_run i st = Some p" and f: "ri_run_id (f p) = i" and ids: "distinct (run_id_list st)"
  obtains (saved) "r = Inr (info_run ev st' (f p))" "find_run i st' = Some (f p)"
      "rg_runs st' = rg_runs (update_run i f st)" "on_disk i (\<lambda>q. \<exists>u. q = info_run ev u (f p)) st'"
  | (undone) e where "r = Inl e" "rg_runs st' = rg_runs st" "rg_active st' = rg_active st"
      "rg_gate st' = rg_gate st" "rg_pending st' = rg_pending st"
proof -
  let ?u = "update_run i f st"
  obtain q u' where per: "persist cf ev ?u = (q, u')" by fastforce
  then obtain disk faults where u': "u' = ?u\<lparr>rg_disk := disk, rg_faults := faults\<rparr>"
    and d: "q = Inr () \<Longrightarrow> disk = Some (ledger ev ?u)"
    by (rule persistE) blast
  have find: "find_run i u' = Some (f p)"
    using find_update_run [where f = f, OF p f] u' by (simp add: find_run_def)
  show ?thesis
  proof (cases q)
    case (Inl m)
    have "rg_runs (update_run i (\<lambda>_. p) u') = rg_runs st"
      using update_run_back [where f = f, OF p f] u' by (simp add: update_run_def)
    with Inl per e u' show ?thesis
      by (intro undone [of m]) (auto simp: op_try_def persist_or_def update_run_def)
  next
    case (Inr x)
    then have st': "st' = u'" and r: "r = info ev i u'"
      using e per by (auto simp: op_try_def persist_or_def get_info_def)
    have "f p \<in> set (rg_runs ?u)"
      using find_update_run [where f = f, OF p f] by (auto simp: find_run_def find_Some_iff)
    moreover have "distinct (run_id_list ?u)"
      using update_run_ids [where f = f, OF p f] ids by simp
    moreover have "rg_disk u' = Some (ledger ev ?u)" using Inr d u' by simp
    ultimately have "on_disk i (\<lambda>q. \<exists>u. q = info_run ev u (f p)) u'"
      using f on_disk_saved [of u' ev ?u "f p"] by simp
    with st' r find u' show ?thesis
      by (intro saved) (auto simp: info_def and_then_def)
  qed
qed

lemma run_reach_ids: "reach run_init (run_step cf) y \<Longrightarrow> distinct (run_id_list (ry_registry y))"
  using run_reach_claims claims_distinct by (auto simp: claims_ok_def)

text \<open>
  A cancellation that is reported as accepted is in the ledger on disk: whatever happens to
  the host next, the run is recorded as being cancelled, with the timeout when that caused it.
  The run that is returned says so too.
\<close>

theorem cancel_is_durable:
  assumes "reach run_init (run_step cf') y"
    and "cancel_run cf ev i timeout (ry_registry y) = (Inr c, st')"
  shows "ri_state c = RCancelling \<and> ri_cancel_requested c
    \<and> on_disk i (\<lambda>r. ri_state r = RCancelling \<and> ri_cancel_requested r
        \<and> (timeout \<longrightarrow> ri_timeout_requested r)) st'"
proof -
  let ?f = "\<lambda>r. r\<lparr>ri_state := RCancelling, ri_cancel_requested := True,
    ri_timeout_requested := ri_timeout_requested r \<or> timeout\<rparr>"
  from assms(2) obtain p where p: "find_run i (ry_registry y) = Some p"
    and e: "op_try (op_modify (update_run i ?f)) (\<lambda>_. op_try (persist_or cf ev (update_run i (\<lambda>_. p)))
      (\<lambda>_. get_info ev i)) (ry_registry y) = (Inr c, st')"
    unfolding cancel_run_def run_mut_def
    by (auto simp: op_ensure_def op_try_def context_opt_def split: if_splits option.splits)
  have f: "ri_run_id (?f p) = i" using find_runD [OF p] by simp
  show ?thesis
    using e p f run_reach_ids [OF assms(1)]
  proof (cases rule: change_run_cases)
    case saved
    then show ?thesis by (auto elim!: on_disk_mono)
  qed simp
qed

text \<open>
  A cancellation that is refused, or whose ledger write fails, changes no run, gives no
  lease back and leaves every reserved start as it was; the run keeps executing as before.
\<close>

theorem cancel_failure_keeps:
  assumes "reach run_init (run_step cf') y"
    and "cancel_run cf ev i timeout (ry_registry y) = (Inl e, st')"
  shows "rg_runs st' = rg_runs (ry_registry y) \<and> rg_active st' = rg_active (ry_registry y)
    \<and> rg_gate st' = rg_gate (ry_registry y) \<and> rg_pending st' = rg_pending (ry_registry y)"
proof (cases "st' = ry_registry y")
  case False
  let ?f = "\<lambda>r. r\<lparr>ri_state := RCancelling, ri_cancel_requested := True,
    ri_timeout_requested := ri_timeout_requested r \<or> timeout\<rparr>"
  from assms(2) False obtain p where p: "find_run i (ry_registry y) = Some p"
    and e: "op_try (op_modify (update_run i ?f)) (\<lambda>_. op_try (persist_or cf ev (update_run i (\<lambda>_. p)))
      (\<lambda>_. get_info ev i)) (ry_registry y) = (Inl e, st')"
    unfolding cancel_run_def run_mut_def
    by (auto simp: op_ensure_def op_try_def context_opt_def split: if_splits option.splits)
  have f: "ri_run_id (?f p) = i" using find_runD [OF p] by simp
  show ?thesis
    using e p f run_reach_ids [OF assms(1)] by (cases rule: change_run_cases) simp_all
qed simp

theorem cancel_is_durable_witness:
  "let (r, st') = cancel_run demo_config demo_run_env ''r1'' True (ry_registry demo_started) in
   (\<exists>c. r = Inr c \<and> ri_state c = RCancelling)
   \<and> on_disk ''r1'' (\<lambda>r. ri_state r = RCancelling \<and> ri_cancel_requested r \<and> ri_timeout_requested r) st'"
proof -
  obtain r st' where e: "cancel_run demo_config demo_run_env ''r1'' True (ry_registry demo_started) = (r, st')"
    by fastforce
  have "is_ok (fst (cancel_run demo_config demo_run_env ''r1'' True (ry_registry demo_started)))"
    using demo_run_facts by (simp only: demo_cancel_def)
  with e obtain c where "r = Inr c" by (auto simp: is_ok_iff)
  with cancel_is_durable [OF demo_started_reach, of demo_config demo_run_env "''r1''" True c st'] e
  show ?thesis by simp
qed

theorem cancel_failure_keeps_witness:
  "let st = ry_registry demo_failing; (r, st') = cancel_run demo_config demo_run_env ''r1'' True st in
   r = Inl (Os ''ENOSPC'') \<and> rg_runs st' = rg_runs st \<and> map ri_state (rg_runs st') = [RPreparing]"
proof -
  let ?st = "ry_registry demo_failing"
  obtain r st' where e: "cancel_run demo_config demo_run_env ''r1'' True ?st = (r, st')" by fastforce
  have "fst (cancel_run demo_config demo_run_env ''r1'' True ?st) = Inl (Os ''ENOSPC'')"
    using demo_failure_facts by (simp only: demo_cancel_def demo_failing_def)
  then have r: "r = Inl (Os ''ENOSPC'')" using e by simp
  have "map ri_state (rg_runs ?st) = [RPreparing]"
    using demo_failure_facts by (simp only: demo_failing_def)
  with cancel_failure_keeps [OF demo_failing_reach, of demo_config demo_run_env "''r1''" True "Os ''ENOSPC''" st'] e r
  show ?thesis by simp
qed


section \<open>Finishing\<close>

lemma get_put_active [simp]: "get_active i (put_active i a st) = Some a"
  by (simp add: get_active_def put_active_def)

lemma finish_cases:
  assumes e: "finish_observed cf ev i ex cleanup err src st = (r, st')" and ids: "distinct (run_id_list st)"
  obtains (refused) e where "r = Inl e" "rg_gate st' = rg_gate st"
      "\<And>a. get_active i st = Some a \<Longrightarrow> \<exists>b. get_active i st' = Some b \<and> ac_lease b = ac_lease a"
  | (finished) p a b u where "find_run i st = Some p" "get_active i st = Some a" "get_active i st' = Some b"
      "ac_lease b = (if cleanup then None else ac_lease a)"
      "rg_gate st' = (if cleanup then (case ac_lease a of None \<Rightarrow> rg_gate st
         | Some l \<Rightarrow> gate_drop l (rg_gate st)) else rg_gate st)"
      "r = Inr (info_run ev st' u)" "ri_run_id u = i"
      "ri_state u = final_state cleanup (ri_cancel_requested p) ex err" "ri_cleanup_confirmed u = cleanup"
      "on_disk i (\<lambda>q. ri_state q = ri_state u \<and> ri_cleanup_confirmed q = cleanup) st'"
proof (cases "get_active i st")
  case None
  with e show ?thesis by (intro refused) (auto simp: finish_observed_def)
next
  case (Some a0)
  define a where "a = take_snapshots ev i cleanup a0"
  define st1 where "st1 = put_active i a st"
  have g1: "rg_gate st1 = rg_gate st" "get_active i st1 = Some a" "ac_lease a = ac_lease a0"
    by (simp_all add: st1_def a_def put_active_def get_active_def)
  show ?thesis
  proof (cases "info ev i st1")
    case (Inl m)
    with e Some g1 show ?thesis
      by (intro refused [of m])
        (auto simp: finish_observed_def Let_def op_try_def a_def [symmetric] st1_def [symmetric])
  next
    case (Inr existing)
    then obtain p where p: "find_run i st1 = Some p"
      by (auto simp: info_def and_then_def context_opt_def split: option.splits)
    let ?f = "final_run ev st1 a existing ex cleanup err src"
    let ?st2 = "update_run i ?f st1"
    have f: "ri_run_id (?f p) = i" using find_runD [OF p] by simp
    obtain q st3 where per: "persist cf ev ?st2 = (q, st3)" by fastforce
    then obtain disk faults where st3: "st3 = ?st2\<lparr>rg_disk := disk, rg_faults := faults\<rparr>"
      and d: "q = Inr () \<Longrightarrow> disk = Some (ledger ev ?st2)"
      by (rule persistE) blast
    have keep: "rg_gate st3 = rg_gate st" "get_active i st3 = Some a"
      using st3 g1 by (simp_all add: update_run_def get_active_def)
    show ?thesis
    proof (cases q)
      case (Inl m)
      with e per Some Inr keep g1 show ?thesis
        by (intro refused [of m])
          (auto simp: finish_observed_def Let_def op_try_def a_def [symmetric] st1_def [symmetric])
    next
      case (Inr x)
      then have st': "st' = settle_active i cleanup st3" and r: "r = info ev i st'"
        using e per Some \<open>info ev i st1 = Inr existing\<close>
        by (auto simp: finish_observed_def Let_def op_try_def get_info_def a_def [symmetric] st1_def [symmetric])
      have runs: "rg_runs st' = rg_runs ?st2" "rg_disk st' = disk"
        using st' st3 keep
        by (auto simp: settle_active_def put_active_def drop_lease_def split: option.splits)
      have find: "find_run i st' = Some (?f p)"
        using find_update_run [where f = ?f, OF p f] runs by (simp add: find_run_def)
      have "?f p \<in> set (rg_runs ?st2)"
        using find_update_run [where f = ?f, OF p f] by (auto simp: find_run_def find_Some_iff)
      moreover have "distinct (run_id_list ?st2)"
        using update_run_ids [where f = ?f, OF p f] ids
        by (simp add: st1_def run_id_list_def put_active_def)
      moreover have "rg_disk st' = Some (ledger ev ?st2)" using Inr d runs by simp
      ultimately have "on_disk i (\<lambda>q. \<exists>v. q = info_run ev v (?f p)) st'"
        using f on_disk_saved [of st' ev ?st2 "?f p"] by simp
      then have disk: "on_disk i (\<lambda>q. ri_state q = ri_state (?f p) \<and> ri_cleanup_confirmed q = cleanup) st'"
        by (rule on_disk_mono) auto
      obtain b where b: "get_active i st' = Some b" "ac_lease b = (if cleanup then None else ac_lease a0)"
        "rg_gate st' = (if cleanup then (case ac_lease a0 of None \<Rightarrow> rg_gate st
         | Some l \<Rightarrow> gate_drop l (rg_gate st)) else rg_gate st)"
        using st' keep g1(3)
        by (cases cleanup; cases "ac_lease a0")
          (auto simp: settle_active_def drop_lease_def put_active_def get_active_def)
      have "find_run i st = Some p" using p by (simp add: find_run_def st1_def put_active_def)
      then show ?thesis
        using b disk f find r
        by (intro finished [OF _ Some b, of p "?f p"]) (auto simp: info_def and_then_def)
    qed
  qed
qed

text \<open>
  C15 (finish_settles). When \<open>finish_observed\<close> reports a result, that result is the one of the table of
  outcomes, it is in the ledger on disk, and only then, and only with confirmed cleanup, the
  source lease of the run has been given back; without confirmed cleanup the outcome is
  unknown and the lease stays.
\<close>

theorem finish_settles:
  assumes "reach run_init (run_step cf') y"
    and "finish_observed cf ev i ex cleanup err src (ry_registry y) = (Inr c, st')"
  shows "\<exists>p a b. find_run i (ry_registry y) = Some p
    \<and> get_active i (ry_registry y) = Some a \<and> get_active i st' = Some b
    \<and> ri_state c = final_state cleanup (ri_cancel_requested p) ex err
    \<and> on_disk i (\<lambda>r. ri_state r = ri_state c \<and> ri_cleanup_confirmed r = cleanup) st'
    \<and> ac_lease b = (if cleanup then None else ac_lease a)
    \<and> (\<not> cleanup \<longrightarrow> ri_state c = RUnknown \<and> rg_gate st' = rg_gate (ry_registry y))"
  using assms(2) run_reach_ids [OF assms(1)]
proof (cases rule: finish_cases)
  case (finished p a b u)
  then show ?thesis by (auto simp: final_state_def)
qed simp

text \<open>
  When the final record of a run cannot be saved, its source lease is still held:
  the source stays protected until the outcome is durable.
\<close>

theorem finish_failure_keeps_lease:
  assumes "reach run_init (run_step cf') y"
    and "finish_observed cf ev i ex cleanup err src (ry_registry y) = (Inl e, st')"
    and "get_active i (ry_registry y) = Some a"
  shows "rg_gate st' = rg_gate (ry_registry y)
    \<and> (\<exists>b. get_active i st' = Some b \<and> ac_lease b = ac_lease a)"
  using assms(2) run_reach_ids [OF assms(1)]
proof (cases rule: finish_cases)
  case (refused m)
  with assms(3) show ?thesis by blast
qed simp


theorem finish_settles_witness:
  "\<exists>c st'. finish_observed demo_config demo_run_env ''r1'' (Some demo_exit) True None demo_source
      (ry_registry demo_started) = (Inr c, st') \<and> ri_state c = RSucceeded
    \<and> on_disk ''r1'' (\<lambda>r. ri_state r = RSucceeded \<and> ri_cleanup_confirmed r) st'
    \<and> (\<exists>b. get_active ''r1'' st' = Some b \<and> ac_lease b = None)"
proof -
  let ?m = "finish_observed demo_config demo_run_env ''r1'' (Some demo_exit) True None demo_source
      (ry_registry demo_started)"
  have "is_ok (fst ?m)" using demo_run_facts by (simp only: demo_finish_def)
  then obtain c st' where e: "?m = (Inr c, st')" by (cases ?m) (auto simp: is_ok_iff)
  have p: "map_option ri_cancel_requested (find_run ''r1'' (ry_registry demo_started)) = Some False"
    using demo_run_facts by (auto simp: map_eq_Cons_conv find_run_def)
  show ?thesis
    using finish_settles [OF demo_started_reach e] e p
    by (auto simp: final_state_def demo_exit_def)
qed

theorem finish_failure_keeps_lease_witness:
  "let st = ry_registry demo_failing;
       (r, st') = finish_observed demo_config demo_run_env ''r1'' (Some demo_exit) True None demo_source st
   in r = Inl (Os ''ENOSPC'') \<and> rg_gate st' = rg_gate st
    \<and> map_option ac_lease (get_active ''r1'' st') = Some (bt_lease demo_ticket)"
proof -
  let ?st = "ry_registry demo_failing"
  let ?m = "finish_observed demo_config demo_run_env ''r1'' (Some demo_exit) True None demo_source ?st"
  obtain r st' where e: "?m = (r, st')" by fastforce
  have "fst ?m = Inl (Os ''ENOSPC'')"
    using demo_failure_facts by (simp only: demo_finish_def demo_failing_def)
  then have r: "r = Inl (Os ''ENOSPC'')" using e by simp
  have "map_option ac_lease (get_active ''r1'' ?st) = Some (bt_lease demo_ticket)"
    using demo_failure_facts by (simp only: demo_failing_def)
  then obtain a where a: "get_active ''r1'' ?st = Some a" "ac_lease a = bt_lease demo_ticket" by auto
  show ?thesis
    using finish_failure_keeps_lease [OF demo_failing_reach e [unfolded r] a(1)] e r a(2) by auto
qed

theorem mutation_waits_for_runs_witness:
  "let st = ry_registry demo_finished in is_ok (fst (gate_reserve_mutation ''/w/.git'' ''op2'' (rg_gate st)))
    \<and> get_active ''r1'' st \<noteq> None \<and> settled_at ''r1'' st"
proof -
  let ?st = "ry_registry demo_finished"
  let ?m = "gate_reserve_mutation ''/w/.git'' ''op2'' (rg_gate ?st)"
  have ok: "is_ok (fst ?m)" using demo_run_facts by (simp only: demo_mutation_def)
  then obtain l g where e: "?m = (Inr l, g)" by (cases ?m) (auto simp: is_ok_iff)
  obtain a where a: "get_active ''r1'' ?st = Some a" "tl_repository (ac_plan a) = Some demo_repo"
    using demo_run_facts by (auto simp: demo_bound_def split: option.splits)
  have "path_eq (rp_git_dir demo_repo) ''/w/.git''" by (simp add: demo_repo_def)
  with mutation_waits_for_runs [OF demo_finished_reach e] a ok show ?thesis by auto
qed

end
