(* ===== verification/Run_Retention.thy ===== *)
theory Run_Retention
  imports Run_Properties
begin

text \<open>
  Retention and recovery: what the loops that expire, rotate and clean up history keep and
  remove, and what a restart makes of the runs a dead host left behind.
\<close>

section \<open>Retention\<close>

definition kept :: "registry \<Rightarrow> registry \<Rightarrow> bool" where
  "kept st st' \<longleftrightarrow> (distinct (run_id_list st) \<longrightarrow> subseq (rg_runs st') (rg_runs st)
     \<and> (\<forall>r\<in>set (rg_runs st'). get_active (ri_run_id r) st' = get_active (ri_run_id r) st)
     \<and> (\<forall>r\<in>set (rg_runs st). \<not> can_rotate st r \<longrightarrow> r \<in> set (rg_runs st')))"

lemma kept_refl: "kept st st"
  by (simp add: kept_def)

lemma distinct_subseq: "subseq xs ys \<Longrightarrow> distinct ys \<Longrightarrow> distinct xs"
  by (induction rule: list_emb.induct) (auto dest: list_emb_set)

lemma kept_trans:
  assumes "kept a b" "kept b c"
  shows "kept a c"
proof -
  have ids: "distinct (run_id_list b)" if "distinct (run_id_list a)"
    using assms(1) that distinct_subseq [OF subseq_map]
    by (auto simp: kept_def run_id_list_def)
  have rot: "can_rotate b r = can_rotate a r" if "distinct (run_id_list a)" "r \<in> set (rg_runs b)" for r
    using assms(1) that by (simp add: kept_def can_rotate_def)
  have sub: "r \<in> set (rg_runs b)" if "subseq (rg_runs c) (rg_runs b)" "r \<in> set (rg_runs c)" for r
    using that by (auto dest: list_emb_set)
  show ?thesis
    using assms ids rot sub unfolding kept_def by (metis subseq_order.order_trans)
qed

lemma kept_rel: "reflp kept" "transp kept"
  using kept_refl kept_trans by (auto simp: reflp_def transp_def)

lemma disk_only_kept: "disk_only ev st st' \<Longrightarrow> kept st st'"
  by (simp add: kept_def disk_only_def get_active_def)

lemma kept_cleanup: "op_rel kept (cleanup_retired cf ev)"
  using disk_only_cleanup disk_only_kept unfolding op_rel_def by blast

lemma in_remove_at: "r \<in> set xs \<Longrightarrow> r \<noteq> xs ! i \<Longrightarrow> r \<in> set (remove_at i xs)"
proof (induction xs arbitrary: i)
  case (Cons x xs)
  then show ?case by (cases i) (auto simp: remove_at_def)
qed simp

lemma kept_removed:
  assumes i: "i < length (rg_runs st)" and old: "can_rotate st (rg_runs st ! i)"
    and runs: "rg_runs st' = remove_at i (rg_runs st)"
    and active: "\<And>j. j \<noteq> ri_run_id (rg_runs st ! i) \<Longrightarrow> get_active j st' = get_active j st"
  shows "kept st st'"
  unfolding kept_def
proof (intro impI conjI ballI)
  assume ids: "distinct (run_id_list st)"
  show "subseq (rg_runs st') (rg_runs st)" using runs subseq_remove_at by simp
  show "get_active (ri_run_id r) st' = get_active (ri_run_id r) st" if "r \<in> set (rg_runs st')" for r
    using active remove_at_ids [where f = ri_run_id and i = i and y = r and xs = "rg_runs st"] that runs i ids
    by (auto simp: run_id_list_def)
  show "r \<in> set (rg_runs st')" if "r \<in> set (rg_runs st)" "\<not> can_rotate st r" for r
    using in_remove_at that old runs by metis
qed

lemma get_active_drop: "j \<noteq> i \<Longrightarrow> get_active j (drop_active i st) = get_active j st"
  by (auto simp: drop_active_def drop_lease_def get_active_def map_of_bt_remove split: option.splits)

lemma kept_remove_history:
  assumes "i < length (rg_runs st)"
  shows "kept st (snd (remove_history cf ev i st))"
proof -
  let ?old = "rg_runs st ! i"
  obtain r st' where e: "remove_history cf ev i st = (r, st')" by fastforce
  then show ?thesis
  proof (cases rule: remove_history_cases)
    case refused
    with e show ?thesis by (simp add: kept_refl)
  next
    case (removed key)
    let ?rm = "st\<lparr>rg_retired := rg_retired st @ [retired_of ?old key], rg_runs := remove_at i (rg_runs st)\<rparr>"
    obtain q st1 where p: "persist cf ev ?rm = (q, st1)" by fastforce
    have d: "disk_only ev ?rm st1" using op_relD [OF disk_only_persist p] .
    have "kept st (drop_active (ri_run_id ?old) st1)"
      using assms removed(1) d
      by (intro kept_removed [of i]) (auto simp: disk_only_def get_active_drop get_active_def
          drop_active_def drop_lease_def map_of_bt_remove split: option.splits)
    then have "kept st (snd (cleanup_retired cf ev (drop_active (ri_run_id ?old) st1)))"
      using kept_cleanup kept_trans unfolding op_rel_def by blast
    moreover have "kept st (st1\<lparr>rg_runs := insert_at i ?old (rg_runs st1),
          rg_retired := butlast (rg_retired st1)\<rparr>)"
      using d assms by (simp add: disk_only_def kept_def insert_remove_at get_active_def)
    ultimately show ?thesis using p removed(3) e
      by (cases q) (auto simp: commit_removal_def op_try_def persist_or_def)
  qed
qed


lemmas kept_expire_loop = retention_expire [OF kept_rel kept_remove_history]
lemmas kept_rotate_loop = retention_rotate [OF kept_rel kept_remove_history]
lemmas kept_make_room = retention_make_room [OF kept_rel kept_cleanup kept_remove_history]

lemma kept_expire: "op_rel kept (expire_history cf ev)"
  using kept_expire_loop by (simp add: op_rel_def expire_history_def)

lemma kept_pin_room: "op_rel kept (pin_room cf ev)"
  using kept_rotate_loop by (simp add: op_rel_def pin_room_def)

text \<open>
  C16 (retention_keeps). Whatever retention does to make room, by age or by number, and wherever it fails
  on the way, a run that is live, pinned, without confirmed cleanup or still being finalized
  stays in the history exactly as it was, and the rest only loses runs, never changes or
  reorders them.
\<close>

theorem retention_keeps:
  assumes "reach run_init (run_step cf') y"
    and "m \<in> {expire_history cf ev, make_room cf ev, pin_room cf ev}"
    and "m (ry_registry y) = (result, st')"
  shows "subseq (rg_runs st') (rg_runs (ry_registry y))
    \<and> (\<forall>r\<in>set (rg_runs (ry_registry y)). run_is_live (ri_state r) \<or> ri_pinned r
        \<or> \<not> ri_cleanup_confirmed r \<or> finishing (ri_run_id r) (ry_registry y) \<longrightarrow> r \<in> set (rg_runs st'))"
proof -
  have "op_rel kept m"
    using assms(2) kept_expire kept_make_room kept_pin_room by auto
  then have "kept (ry_registry y) st'" using assms(3) by (rule op_relD)
  with run_reach_ids [OF assms(1)] show ?thesis
    by (auto simp: kept_def can_rotate_def finishing_def)
qed

theorem retention_keeps_witness:
  "let (r, st') = expire_history demo_config demo_run_env (ry_registry demo_recovered) in
   subseq (rg_runs st') (rg_runs (ry_registry demo_recovered))
   \<and> rg_runs (ry_registry demo_recovered) \<noteq> []"
proof -
  obtain r st' where e: "expire_history demo_config demo_run_env (ry_registry demo_recovered) = (r, st')"
    by fastforce
  have "rg_runs (ry_registry demo_recovered) \<noteq> []" using demo_recovered_facts by (auto simp: Let_def)
  with retention_keeps [where m = "expire_history demo_config demo_run_env" and cf = demo_config
      and ev = demo_run_env, OF demo_recovered_reach _ e] e
  show ?thesis by simp
qed

lemma cleanup_loop_empties:
  "cleanup_loop n cf ev st = (Inr u, st') \<Longrightarrow> length (rg_retired st) \<le> n \<Longrightarrow> rg_retired st' = []"
proof (induction n arbitrary: st)
  case (Suc n)
  show ?case
  proof (cases "rg_retired st")
    case (Cons t ts)
    obtain q v where per: "persist cf ev (st\<lparr>rg_retired := ts\<rparr>) = (q, v)" by fastforce
    then have "rg_retired v = ts" by (rule persistE) simp
    with Suc Cons per show ?thesis
      by (auto simp: op_try_def persist_or_def split: sum.splits prod.splits)
  qed (use Suc in simp)
qed (auto simp: op_return_def)

lemma cleanup_retired_empties: "cleanup_retired cf ev st = (Inr u, st') \<Longrightarrow> rg_retired st' = []"
  using cleanup_loop_empties [of "length (rg_retired st)" cf ev st u st'] by (simp add: cleanup_retired_def)

lemma cleanup_keeps_runs: "rg_runs (snd (cleanup_retired cf ev st)) = rg_runs st"
  using disk_only_cleanup by (simp add: op_rel_def disk_only_def)

lemma remove_history_Inr:
  assumes e: "remove_history cf ev i st = (Inr u, st')" and i: "i < length (rg_runs st)"
  shows "length (rg_runs st) = Suc (length (rg_runs st'))" "rg_retired st' = []"
proof -
  have "length (rg_runs st) = Suc (length (rg_runs st')) \<and> rg_retired st' = []"
    using e
  proof (cases rule: remove_history_cases)
    case (removed key)
    let ?rm = "st\<lparr>rg_retired := rg_retired st @ [retired_of (rg_runs st ! i) key],
      rg_runs := remove_at i (rg_runs st)\<rparr>"
    obtain q v where per: "persist cf ev ?rm = (q, v)" by fastforce
    then have v: "rg_runs v = remove_at i (rg_runs st)" by (rule persistE) simp
    from removed(3) per
    have c: "cleanup_retired cf ev (drop_active (ri_run_id (rg_runs st ! i)) v) = (Inr u, st')"
      by (auto simp: commit_removal_def op_try_def persist_or_def split: sum.splits prod.splits)
    have "rg_runs st' = remove_at i (rg_runs st)"
      using cleanup_keeps_runs [of cf ev "drop_active (ri_run_id (rg_runs st ! i)) v"] c v
      by (auto simp: drop_active_def drop_lease_def split: option.splits)
    then have "length (rg_runs st) = Suc (length (rg_runs st'))"
      using i by (simp add: remove_at_def)
    with cleanup_retired_empties [OF c] show ?thesis by simp
  qed simp
  then show "length (rg_runs st) = Suc (length (rg_runs st'))" "rg_retired st' = []" by simp_all
qed

lemma expire_loop_complete:
  "expire_loop n cf ev st = (Inr u, st') \<Longrightarrow> length (rg_runs st) \<le> n \<Longrightarrow>
   position (expired ev st') (rg_runs st') = None"
proof (induction n arbitrary: st)
  case (Suc n)
  show ?case
  proof (cases "position (expired ev st) (rg_runs st)")
    case (Some i)
    then have i: "i < length (rg_runs st)" by (auto dest: position_Some)
    from Suc.prems(1) Some obtain v where v: "remove_history cf ev i st = (Inr (), v)"
      "expire_loop n cf ev v = (Inr u, st')"
      by (auto simp: op_try_def split: sum.splits prod.splits)
    with Suc remove_history_Inr(1) [OF v(1) i] show ?thesis by simp
  qed (use Suc in auto)
qed (auto simp: op_return_def)

lemma expire_loop_retired:
  "expire_loop n cf ev st = (Inr u, st') \<Longrightarrow> rg_retired st = [] \<Longrightarrow> rg_retired st' = []"
proof (induction n arbitrary: st)
  case (Suc n)
  show ?case
  proof (cases "position (expired ev st) (rg_runs st)")
    case (Some i)
    then have i: "i < length (rg_runs st)" by (auto dest: position_Some)
    from Suc.prems(1) Some obtain v where v: "remove_history cf ev i st = (Inr (), v)"
      "expire_loop n cf ev v = (Inr u, st')"
      by (auto simp: op_try_def split: sum.splits prod.splits)
    with Suc remove_history_Inr(2) [OF v(1) i] show ?thesis by simp
  qed (use Suc in auto)
qed (auto simp: op_return_def)

text \<open>
  Expiring the history takes at most one round per run, so the loop ends, and when it
  reports success no run is left that retention would still expire.
\<close>

theorem expiry_is_complete:
  assumes "expire_history cf ev st = (Inr u, st')"
  shows "\<forall>r\<in>set (rg_runs st'). \<not> expired ev st' r"
  using expire_loop_complete [of "length (rg_runs st)" cf ev st u st'] assms
  by (simp add: expire_history_def position_None)

lemma rotate_loop_room: "rotate_loop n full m cf ev st = (Inr u, st') \<Longrightarrow> \<not> full st'"
proof (induction n arbitrary: st)
  case (Suc n)
  show ?case
  proof (cases "full st")
    case True
    with Suc show ?thesis
      by (auto simp: op_try_def split: option.splits sum.splits prod.splits if_splits)
  qed (use Suc in auto)
qed (auto split: if_splits)

lemma rotate_loop_retired:
  "rotate_loop n full m cf ev st = (Inr u, st') \<Longrightarrow> rg_retired st = [] \<Longrightarrow> rg_retired st' = []"
proof (induction n arbitrary: st)
  case (Suc n)
  show ?case
  proof (cases "position (can_rotate st) (rg_runs st)")
    case (Some i)
    then have i: "i < length (rg_runs st)" by (auto dest: position_Some)
    show ?thesis
      using Suc Some remove_history_Inr(2) [OF _ i]
      by (auto simp: op_try_def split: sum.splits prod.splits if_splits)
  qed (use Suc in \<open>auto split: if_splits\<close>)
qed (auto split: if_splits)

text \<open>
  When making room for a start succeeds there is room for it in the bounded history, and
  every removal it made is finished: nothing is left in the cleanup journal.
\<close>

theorem room_for_a_start:
  assumes "make_room cf ev st = (Inr u, st')"
  shows "unpinned st' + length (rg_pending st') < HISTORY_LIMIT \<and> rg_retired st' = []"
proof -
  from assms obtain a b where a: "cleanup_retired cf ev st = (Inr (), a)"
    and b: "expire_loop (length (rg_runs a)) cf ev a = (Inr (), b)"
    and c: "rotate_loop (length (rg_runs b)) history_full
      ''run history full of active, unknown or unfinalized executions'' cf ev b = (Inr u, st')"
    by (auto simp: make_room_def op_try_def expire_history_def split: sum.splits prod.splits)
  have "rg_retired st' = []"
    using rotate_loop_retired [OF c expire_loop_retired [OF b cleanup_retired_empties [OF a]]] .
  moreover have "\<not> history_full st'" using c by (rule rotate_loop_room)
  ultimately show ?thesis by (simp add: history_full_def)
qed


lemma demo_retention_facts:
  "is_ok (fst (expire_history demo_config demo_run_env (ry_registry demo_recovered)))
   \<and> is_ok (fst (make_room demo_config demo_run_env (ry_registry demo_reserved)))"
  by code_simp

theorem expiry_is_complete_witness:
  "\<exists>st'. expire_history demo_config demo_run_env (ry_registry demo_recovered) = (Inr (), st')
    \<and> (\<forall>r\<in>set (rg_runs st'). \<not> expired demo_run_env st' r)"
proof -
  obtain st' where e: "expire_history demo_config demo_run_env (ry_registry demo_recovered) = (Inr (), st')"
    using demo_retention_facts
    by (cases "expire_history demo_config demo_run_env (ry_registry demo_recovered)") (auto simp: is_ok_iff)
  with expiry_is_complete [OF e] show ?thesis by blast
qed

theorem room_for_a_start_witness:
  "\<exists>st'. make_room demo_config demo_run_env (ry_registry demo_reserved) = (Inr (), st')
    \<and> unpinned st' + length (rg_pending st') < HISTORY_LIMIT \<and> rg_retired st' = []"
proof -
  obtain st' where e: "make_room demo_config demo_run_env (ry_registry demo_reserved) = (Inr (), st')"
    using demo_retention_facts
    by (cases "make_room demo_config demo_run_env (ry_registry demo_reserved)") (auto simp: is_ok_iff)
  with room_for_a_start [OF e] show ?thesis by blast
qed

section \<open>Recovery\<close>

lemma op_try_InrE:
  assumes "op_try m k st = (Inr y, st')"
  obtains x u where "m st = (Inr x, u)" "k x u = (Inr y, st')"
  using assms by (auto simp: op_try_def split: sum.splits prod.splits)

lemma open_registry_Inr:
  assumes ok: "ledger_ok (Some l)"
    and e: "open_registry cf ev (new_registry new_gate (Some l) faults) = (Inr u, st')"
  obtains ms w where "list_all2 (\<lambda>r m. migrate_result ev r = Inr m) (rl_runs l) ms"
    "rg_runs w = map recover_run ms" "rg_active w = []" "rg_pending w = []"
    "distinct (run_id_list w)" "kept w st'" "shrunk w st'"
proof -
  let ?st = "new_registry new_gate (Some l) faults"
  have srt: "sorted_wrt compatible (map run_claim (rl_runs l))" using ok by (simp add: ledger_ok_def)
  have inv: "registry_inv {#} ?st" by (rule inv_new_registry) (use srt in simp)
  have pr: "pristine ?st" by (simp add: pristine_def new_registry_def)
  let ?l = "\<lambda>v. case rg_disk v of None \<Rightarrow> \<lparr>rl_schema = 2, rl_runs = [], rl_retired = []\<rparr> | Some l \<Rightarrow> l"
  from e obtain ps v runs a b where v: "withdraw_sources ps ?st = (Inr (), v)"
    and f: "fold_res (recover_one cf ev) [] (rl_runs (?l v)) = Inr runs"
    and a: "persist cf ev (v\<lparr>rg_runs := runs, rg_retired := rl_retired (?l v)\<rparr>) = (Inr (), a)"
    and b: "cleanup_retired cf ev a = (Inr (), b)" and c: "expire_history cf ev b = (Inr u, st')"
    unfolding open_registry_def
    by (auto elim!: op_try_InrE)
  have V: "pristine v" "rg_disk v = Some l"
    using withdraw_keeps [OF inv pr v] by (auto simp: new_registry_def)
  let ?w = "v\<lparr>rg_runs := runs, rg_retired := rl_retired l\<rparr>"
  have a': "persist cf ev ?w = (Inr (), a)" and f': "fold_res (recover_one cf ev) [] (rl_runs l) = Inr runs"
    using a f V(2) by simp_all
  from recover_all [OF f'] obtain ms where
    ms: "list_all2 (\<lambda>r m. migrate_result ev r = Inr m) (rl_runs l) ms" "runs = map recover_run ms" by auto
  have "sorted_wrt compatible (map run_claim runs)"
    using sorted_wrt_weaker [OF recover_weaker [OF ms(1)] srt] ms(2) by simp
  then have "distinct (run_id_list ?w)"
    using claims_distinct [of ?w] V(1) by (simp add: claims_def pristine_def)
  moreover have "disk_only ev ?w a" using op_relD [OF disk_only_persist a'] .
  then have "kept ?w a" "shrunk ?w a" by (rule disk_only_kept, rule disk_only_shrunk)
  then have "kept ?w st'" "shrunk ?w st'"
    using op_relD [OF kept_cleanup b] op_relD [OF kept_expire c] op_relD [OF shrunk_cleanup b]
      op_relD [OF shrunk_expire_loop c [unfolded expire_history_def]]
    by (blast intro: kept_trans, blast intro: shrunk_trans)
  ultimately show ?thesis using that [of ms ?w] ms V(1) by (simp add: pristine_def)
qed

lemma migrated_run:
  "migrate_result ev r = Inr m \<Longrightarrow> ri_run_id m = ri_run_id r \<and> ri_state m = ri_state r
     \<and> ri_build_outputs m = ri_build_outputs r \<and> ri_cleanup_confirmed m = ri_cleanup_confirmed r"
  by (auto simp: migrate_result_def Let_def res_simps split: option.splits)

lemma recovered_run:
  "run_is_live (ri_state r) \<Longrightarrow> migrate_result ev r = Inr m \<Longrightarrow>
   ri_run_id (recover_run m) = ri_run_id r \<and> ri_state (recover_run m) = RUnknown
     \<and> ri_build_outputs (recover_run m) = ri_build_outputs r
     \<and> ri_cleanup_confirmed (recover_run m) = ri_cleanup_confirmed r"
  using migrated_run [of ev r m] by (auto simp: recover_run_def Let_def)

text \<open>
  C14 (restart_adopts_nothing). After a successful reopening no run is live and nothing is active or reserved.
  Every remaining run that the ledger shows as live is unknown, with the outputs and the
  confirmation of its cleanup that the ledger records; and those whose cleanup the ledger does not
  record as confirmed all remain and hold their outputs, so that nothing else may write them until
  the user has inspected the old processes.
\<close>

theorem restart_adopts_nothing:
  assumes "ledger_ok (Some l)"
    and "open_registry cf ev (new_registry new_gate (Some l) faults) = (Inr u, st')"
  shows "(\<forall>r\<in>set (rg_runs st'). \<not> run_is_live (ri_state r)) \<and> rg_active st' = [] \<and> rg_pending st' = []
    \<and> (\<forall>r\<in>set (rl_runs l). run_is_live (ri_state r) \<longrightarrow>
        (\<forall>q\<in>set (rg_runs st'). ri_run_id q = ri_run_id r \<longrightarrow> ri_state q = RUnknown
          \<and> ri_build_outputs q = ri_build_outputs r \<and> ri_cleanup_confirmed q = ri_cleanup_confirmed r)
        \<and> (\<not> ri_cleanup_confirmed r \<longrightarrow>
            (\<exists>q\<in>set (rg_runs st'). ri_run_id q = ri_run_id r \<and> holds_output q)))"
proof -
  from open_registry_Inr [OF assms] obtain ms w where
    ms: "list_all2 (\<lambda>r m. migrate_result ev r = Inr m) (rl_runs l) ms"
    and w: "rg_runs w = map recover_run ms" "rg_active w = []" "rg_pending w = []"
    and ids: "distinct (run_id_list w)" and k: "kept w st'" and s: "shrunk w st'" .
  have sub: "set (rg_runs st') \<subseteq> set (rg_runs w)" using s by (simp add: shrunk_def)
  then have "\<forall>r\<in>set (rg_runs st'). \<not> run_is_live (ri_state r)"
    using w(1) recover_not_live by auto
  moreover have "map_of (rg_active st') = Map.empty"
    using s w(2) by (auto simp: shrunk_def get_active_def fun_eq_iff)
  then have "rg_active st' = []" by simp
  moreover have "rg_pending st' = []" using s w(3) by (simp add: shrunk_def)
  moreover have "(\<forall>q\<in>set (rg_runs st'). ri_run_id q = ri_run_id r \<longrightarrow> ri_state q = RUnknown
        \<and> ri_build_outputs q = ri_build_outputs r \<and> ri_cleanup_confirmed q = ri_cleanup_confirmed r)
      \<and> (\<not> ri_cleanup_confirmed r \<longrightarrow> (\<exists>q\<in>set (rg_runs st'). ri_run_id q = ri_run_id r \<and> holds_output q))"
    if r: "r \<in> set (rl_runs l)" "run_is_live (ri_state r)" for r
  proof -
    have "\<exists>m\<in>set ms. migrate_result ev r = Inr m"
      using ms r(1) by (induction rule: list_all2_induct) auto
    then obtain m where m: "m \<in> set ms" "migrate_result ev r = Inr m" by blast
    note q = recovered_run [OF r(2) m(2)]
    have in_w: "recover_run m \<in> set (rg_runs w)" using w(1) m(1) by simp
    have "x = recover_run m" if "x \<in> set (rg_runs st')" "ri_run_id x = ri_run_id r" for x
      using ids sub that in_w q by (metis distinct_map inj_onD run_id_list_def subsetD)
    moreover have "recover_run m \<in> set (rg_runs st') \<and> holds_output (recover_run m)" if "\<not> ri_cleanup_confirmed r"
      using k ids in_w q that by (auto simp: kept_def can_rotate_def holds_output_def unsettled_def)
    ultimately show ?thesis using q by metis
  qed
  ultimately show ?thesis by blast
qed


definition demo_left :: run_ledger where
  "demo_left = \<lparr>rl_schema = 2, rl_runs = [(demo_unknown ''r1'' ''/w/a'')\<lparr>ri_state := RRunning\<rparr>], rl_retired = []\<rparr>"

lemma demo_left_facts:
  "sorted_wrt compatible (map run_claim (rl_runs demo_left))
   \<and> is_ok (fst (open_registry demo_config demo_run_env (new_registry new_gate (Some demo_left) [])))"
  by code_simp

theorem restart_adopts_nothing_witness:
  "\<exists>st'. open_registry demo_config demo_run_env (new_registry new_gate (Some demo_left) []) = (Inr (), st')
    \<and> (\<exists>q\<in>set (rg_runs st'). ri_run_id q = ''r1'' \<and> ri_state q = RUnknown \<and> holds_output q)"
proof -
  let ?m = "open_registry demo_config demo_run_env (new_registry new_gate (Some demo_left) [])"
  obtain st' where e: "?m = (Inr (), st')" using demo_left_facts by (cases ?m) (auto simp: is_ok_iff)
  have ok: "ledger_ok (Some demo_left)" using demo_left_facts by (simp add: ledger_ok_def)
  let ?r = "(demo_unknown ''r1'' ''/w/a'')\<lparr>ri_state := RRunning\<rparr>"
  have "?r \<in> set (rl_runs demo_left)" "run_is_live (ri_state ?r)" "\<not> ri_cleanup_confirmed ?r"
    "ri_run_id ?r = ''r1''"
    by (simp_all add: demo_left_def demo_unknown_def new_run_def Let_def)
  with restart_adopts_nothing [OF ok e] e show ?thesis by metis
qed

section \<open>Replaying an operation\<close>

text \<open>
  A client that repeats an operation id it already used changes nothing: with the same
  task and launch it gets the run that exists, with another intent it is refused.
\<close>

theorem replayed_operation:
  assumes "reach run_init (run_step cf') y" "r \<in> set (rg_runs (ry_registry y))"
    and "valid_id (cf_ext cf) (ri_operation_id r) = Inr ()"
  shows "begin_reserve cf ev plan (ri_operation_id r) par (ry_registry y) =
    (if same_task r plan \<and> ri_launch_digest r = tl_launch_digest plan
     then Inr (Existing (info_run ev (ry_registry y) r))
     else Inl (Bail ''operation ID already refers to a different execution intent''), ry_registry y)"
proof -
  let ?st = "ry_registry y"
  have "distinct (map ri_operation_id (rg_runs ?st))"
    using run_reach_operations [OF assms(1)] by simp
  then have "find (\<lambda>q. ri_operation_id q = ri_operation_id r) (rg_runs ?st) = Some r"
    using assms(2) by (rule find_unique) simp
  moreover have "find_run (ri_run_id r) ?st = Some r"
    by (rule find_run_mem [OF run_reach_ids [OF assms(1)] assms(2)])
  ultimately show ?thesis
    using assms(3)
    by (simp add: begin_reserve_def op_try_def get_info_def info_def and_then_def op_ensure_def op_return_def op_fail_def)
qed


theorem replayed_operation_witness:
  "let st = ry_registry demo_recovered; m = begin_reserve demo_config demo_run_env demo_plan ''r1'' True st
   in snd m = st \<and> (\<exists>i e. fst m = Inr (Existing i) \<or> fst m = Inl e)"
proof -
  have "map ri_operation_id (rg_runs (ry_registry demo_recovered)) = [''r1'', ''r2'']"
    using demo_recovered_facts by (simp only: Let_def)
  then obtain r where r: "r \<in> set (rg_runs (ry_registry demo_recovered))" "ri_operation_id r = ''r1''"
    by (fastforce simp: map_eq_Cons_conv)
  have "valid_id (cf_ext demo_config) (ri_operation_id r) = Inr ()"
    using r(2) by (simp add: valid_id_def demo_config_def demo_run_ext_def demo_ext_def)
  from replayed_operation [OF demo_recovered_reach r(1) this, of demo_run_env demo_plan True] r(2)
  show ?thesis by (simp add: Let_def)
qed

end
