(* ===== verification/Run_Ledger.thy ===== *)
theory Run_Ledger
  imports Run_Demo
begin

text \<open>
  The ledger on disk: whatever the registry writes, a later reopening accepts.
\<close>

definition disk_valid :: "config \<Rightarrow> registry \<Rightarrow> bool" where
  "disk_valid cf st = (case rg_disk st of None \<Rightarrow> True
     | Some l \<Rightarrow> is_ok (validate_run_ledger (cf_ext cf) (cf_run_json cf) l))"

definition valid_kept :: "config \<Rightarrow> registry \<Rightarrow> registry \<Rightarrow> bool" where
  "valid_kept cf st st' \<longleftrightarrow> (disk_valid cf st \<longrightarrow> disk_valid cf st')"

lemma valid_frame: "rg_disk st' = rg_disk st \<Longrightarrow> valid_kept cf st st'"
  by (simp add: valid_kept_def disk_valid_def)

lemma valid_persist: "op_rel (valid_kept cf) (persist cf ev)"
  by (auto simp: op_rel_def valid_kept_def persist_def Let_def disk_valid_def is_ok_iff
      split: sum.splits list.splits option.splits prod.splits)

interpretation valid: registry_relation cf "valid_kept cf"
  by unfold_locales (auto simp: valid_kept_def disk_valid_def valid_persist)

lemma valid_modify: "(\<And>st. rg_disk (f st) = rg_disk st) \<Longrightarrow> op_rel (valid_kept cf) (op_modify f)"
  by (simp add: op_rel_def valid_frame)

lemmas valid_intros = op_rel_try op_rel_ensure valid.preorder valid.saved valid.get
  op_rel_pure [OF valid.preorder(1)] valid_modify valid.room valid.on_gates valid.publish

lemma valid_reserve_source: "op_rel (valid_kept cf) (reserve_source cf ev plan oper)"
  unfolding reserve_source_def by (cases "tl_repository plan") (auto intro!: valid_intros)

text \<open>Steps that look at the state they start from.\<close>

lemma op_rel_guarded:
  "op_rel (valid_kept cf) k \<Longrightarrow> op_rel (valid_kept cf) (\<lambda>s. op_ensure (P s) m (op_ensure (R s) n k) s)"
  by (auto simp: op_rel_def op_ensure_def op_fail_def valid_frame)

lemma op_rel_choice:
  "op_rel (valid_kept cf) b \<Longrightarrow> (\<And>r. op_rel (valid_kept cf) (a r)) \<Longrightarrow>
   op_rel (valid_kept cf) (\<lambda>s. case f s of None \<Rightarrow> b s | Some r \<Rightarrow> a r s)"
  by (auto simp: op_rel_def split: option.splits)

lemma op_rel_continue:
  assumes "op_rel (valid_kept cf) m" "\<And>s x. op_rel (valid_kept cf) (k s x)"
  shows "op_rel (valid_kept cf) (\<lambda>s. op_try m (k s) s)"
proof -
  have "op_rel (valid_kept cf) (op_try m (k s))" for s
    by (rule op_rel_try [OF valid.preorder(2) assms])
  then show ?thesis by (simp add: op_rel_def)
qed

lemma valid_reserve_fresh: "op_rel (valid_kept cf) (reserve_fresh cf ev plan oper)"
  unfolding reserve_fresh_def by (intro valid_intros op_rel_guarded valid_reserve_source) simp_all

lemma valid_begin_reserve: "op_rel (valid_kept cf) (begin_reserve cf ev asked oper par)"
proof -
  have "op_rel (valid_kept cf) (case o' of None \<Rightarrow> a | Some r \<Rightarrow> b r)"
    if "op_rel (valid_kept cf) a" "\<And>r. op_rel (valid_kept cf) (b r)" for o' a b
    using that by (cases o') auto
  note choice = this
  show ?thesis
    unfolding begin_reserve_def if_not_P
    by (intro valid_intros op_rel_choice op_rel_continue choice valid_reserve_fresh)
      (auto intro!: valid_intros valid_reserve_fresh)
qed

lemma valid_persisted:
  "persist cf ev u = (r, v) \<Longrightarrow> rg_disk u = rg_disk st \<Longrightarrow> disk_valid cf st \<Longrightarrow> disk_valid cf v"
  using op_relD [OF valid_persist, of cf ev u r v] valid_frame [of u st cf] by (simp add: valid_kept_def)

lemma disk_valid_frame [simp]:
  "disk_valid cf (drop_lease l st) = disk_valid cf st" "disk_valid cf (put_active i a st) = disk_valid cf st"
  "disk_valid cf (st\<lparr>rg_runs := rs\<rparr>) = disk_valid cf st"
  "disk_valid cf (st\<lparr>rg_pending := ps\<rparr>) = disk_valid cf st"
  by (simp_all add: disk_valid_def valid.updates)

lemma valid_begin_commit: "op_rel (valid_kept cf) (begin_commit cf ev t source)"
proof -
  have "valid_kept cf st (snd (begin_commit cf ev t source st))" for st
    by (cases "prepare_run cf ev t")
      (auto simp: begin_commit_def Let_def valid_kept_def dest: valid_persisted [where st = st]
        split: sum.splits prod.splits)
  then show ?thesis by (simp add: op_rel_def)
qed

lemma valid_published: "op_rel (valid_kept cf) (publish_registered_sources cf ev)"
proof -
  have one: "valid_kept cf st (fold (\<lambda>r st. snd (publish_source (f r) st)) rs st)" for f :: "repository \<Rightarrow> path" and rs st
    by (induction rs arbitrary: st)
      (auto simp: valid.refl intro: valid.trans [OF valid.at [OF valid.publish]])
  have "valid_kept cf st (fold (\<lambda>p st. fold (\<lambda>r st. snd (publish_source (f r) st)) (g p) st) ps st)"
    for f :: "repository \<Rightarrow> path" and g :: "project \<Rightarrow> repository list" and ps st
    by (induction ps arbitrary: st) (auto simp: valid.refl intro: valid.trans [OF one])
  then show ?thesis
    unfolding publish_registered_sources_def
    by (intro op_rel_try valid.preorder op_rel_pure) (simp only: op_rel_def op_modify_simps snd_conv, blast)
qed


lemma valid_step:
  assumes "disk_valid cf (ry_registry y)"
  shows "disk_valid cf (ry_registry (run_exec cf ev a y))"
proof -
  have op: "disk_valid cf (snd (m (ry_registry y)))" if "op_rel (valid_kept cf) m" for m :: "(registry, 'x) op"
    using that assms by (simp add: op_rel_def valid_kept_def)
  show ?thesis
  proof (cases a)
    case (Begin plan oper par)
    with op [OF valid_begin_reserve] show ?thesis
      by (auto split: prod.splits sum.splits begin_reservation.splits) (metis snd_conv)+
  next
    case (Commit t src)
    with op [OF valid_begin_commit] show ?thesis by (simp add: drop_ticket_def on_registry_def)
  next
    case (Abandon t)
    with assms show ?thesis by (simp add: drop_ticket_def on_registry_def begin_abandon_def)
  next
    case (GateClient g)
    with assms show ?thesis by (simp add: gate_client_def Let_def disk_valid_def)
  next
    case (Restart faults)
    have "disk_valid cf (new_registry new_gate (rg_disk (ry_registry y)) faults)"
      using assms by (simp add: new_registry_def disk_valid_def)
    then have "disk_valid cf (snd (open_registry cf ev (new_registry new_gate (rg_disk (ry_registry y)) faults)))"
      using valid.reopen by (simp add: op_rel_def valid_kept_def)
    with Restart show ?thesis
      by (auto simp: closed_system_def new_registry_def disk_valid_def split: prod.splits sum.splits)
  qed (simp_all add: on_registry_def op valid.running valid.cancel valid.acknowledge valid.probe
      valid.finish valid.pin valid.publish valid_published)
qed

interpretation ledgers: transition_system "\<lambda>y. run_init y \<and> disk_valid cf (ry_registry y)" "run_step cf"
  "\<lambda>y. disk_valid cf (ry_registry y)"
  by unfold_locales (auto elim!: run_stepE intro: valid_step)

text \<open>
  C17 (ledger_stays_valid). Starting from a ledger that validates, every ledger that any call of the registry or a
  restart ever leaves on disk validates again, also when its last write was reported as failed:
  it always passes the check of the ledger that opening the registry makes first.
\<close>

theorem ledger_stays_valid:
  assumes "reach (\<lambda>y. run_init y \<and> disk_valid cf (ry_registry y)) (run_step cf) y"
    and "rg_disk (ry_registry y) = Some l"
  shows "validate_run_ledger (cf_ext cf) (cf_run_json cf) l = Inr ()"
  using ledgers.reach_inv [OF assms(1)] assms(2) by (simp add: disk_valid_def is_ok_iff)


lemma demo_disk: "map_option rl_runs (rg_disk (ry_registry demo_opened)) = Some []"
  by code_simp

theorem ledger_stays_valid_witness:
  "\<exists>l. rg_disk (ry_registry demo_opened) = Some l
    \<and> validate_run_ledger demo_run_ext (cf_run_json demo_config) l = Inr ()"
proof -
  have "run_init (closed_system None) \<and> disk_valid demo_config (ry_registry (closed_system None))"
    using demo_empty by (simp add: closed_system_def new_registry_def disk_valid_def)
  then have "reach (\<lambda>y. run_init y \<and> disk_valid demo_config (ry_registry y)) (run_step demo_config)
      (closed_system None)"
    by (rule reach_init)
  then have r: "reach (\<lambda>y. run_init y \<and> disk_valid demo_config (ry_registry y)) (run_step demo_config) demo_opened"
    unfolding demo_opened_def by (rule reach_step) (rule run_stepI, simp)
  obtain l where l: "rg_disk (ry_registry demo_opened) = Some l" using demo_disk by auto
  with ledger_stays_valid [OF r l] show ?thesis by (simp add: demo_config_def)
qed

end
