(* ===== verification/Run_Text.thy ===== *)
theory Run_Text
  imports Run_Demo
begin

text \<open>
  Claims about the text a run is made of: the quoted paths of the driver script, and the
  pages of its log.
\<close>

section \<open>Quoting\<close>

text \<open>How a reader undoes \<open>quote\<close>: the three escapes, and nothing else.\<close>

fun unquote_chars :: "string \<Rightarrow> string" where
  "unquote_chars (a # b # c # d # s) =
    (if [a, b] = [CHR 0x5C, CHR ''!''] then CHR ''!'' # unquote_chars (c # d # s)
     else if [a, b, c, d] = [CHR 0x27, CHR 0x5C, CHR 0x27, CHR 0x27] then CHR 0x27 # unquote_chars s
     else a # unquote_chars (b # c # d # s))"
| "unquote_chars (a # b # s) =
    (if [a, b] = [CHR 0x5C, CHR ''!''] then CHR ''!'' # unquote_chars s else a # unquote_chars (b # s))"
| "unquote_chars s = s"

definition unquote :: "string \<Rightarrow> string" where
  "unquote s = unquote_chars (butlast (tl s))"

lemma unquote_plain:
  "c \<noteq> CHR 0x5C \<Longrightarrow> c \<noteq> CHR 0x27 \<Longrightarrow> unquote_chars (c # s) = c # unquote_chars s"
  by (cases "c # s" rule: unquote_chars.cases) auto

lemma unquote_bang: "unquote_chars (CHR 0x5C # CHR ''!'' # s) = CHR ''!'' # unquote_chars s"
  by (cases s; cases "tl s") auto

lemma unquote_quote: "unquote_chars (CHR 0x27 # CHR 0x5C # CHR 0x27 # CHR 0x27 # s) = CHR 0x27 # unquote_chars s"
  by simp

lemma unquote_backslash: "hd (s @ [CHR ''x'']) \<noteq> CHR ''!'' \<Longrightarrow>
  unquote_chars (CHR 0x5C # s) = CHR 0x5C # unquote_chars s"
  by (cases "CHR 0x5C # s" rule: unquote_chars.cases) auto

lemma quote_chars_head: "hd (quote_chars p @ [CHR ''x'']) \<noteq> CHR ''!''"
  by (cases p) auto

lemma unquote_quote_chars: "unquote_chars (quote_chars p) = p"
proof (induction p)
  case (Cons c p)
  consider "c = CHR ''!''" | "c = CHR 0x27" | "c = CHR 0x5C" | "c \<notin> {CHR ''!'', CHR 0x27, CHR 0x5C}" by blast
  then show ?case
  proof cases
    case 3
    with Cons show ?thesis using unquote_backslash [OF quote_chars_head] by simp
  qed (use Cons in \<open>simp_all add: unquote_bang unquote_plain\<close>)
qed simp

text \<open>
  A path that \<open>quote\<close> accepts can be read back from the word it becomes in the driver
  script: no two paths are confused, whatever quotes, backslashes and exclamation marks they
  contain, and no control character gets into the script.
\<close>

theorem quote_roundtrip:
  assumes "quote p = Inr s"
  shows "unquote s = p \<and> \<not> has_control p"
  using assms by (auto simp: quote_def res_simps unquote_def unquote_quote_chars butlast_append)

theorem quote_roundtrip_witness:
  "let p = [CHR ''a'', CHR 0x27, CHR 0x5C, CHR ''!''] in \<exists>s. quote p = Inr s \<and> unquote s = p"
proof -
  let ?p = "[CHR ''a'', CHR 0x27, CHR 0x5C, CHR ''!'']"
  have "is_ok (quote ?p)" by code_simp
  then obtain s where s: "quote ?p = Inr s" by (auto simp: is_ok_iff)
  with quote_roundtrip [OF s] show ?thesis by (auto simp: Let_def)
qed


section \<open>Pages of a log\<close>

lemma read_log_page:
  assumes "read_log ev i g off n st = Inr c" "lc_data c \<noteq> []"
  obtains r key content where "info ev i st = Inr r" "ld_state (ri_log r) \<notin> {LDisabled, LExpired}"
    "ev_log_file ev i = Inr (key, content)" "ld_file_identity (ri_log r) = Some key"
    "lc_data c = take n (drop off content)" "lc_next_offset c = off + length (lc_data c)"
  using assms
  by (auto simp: read_log_def res_simps Let_def split: if_splits sum.splits prod.splits)

text \<open>
  Two consecutive pages of a log, the second read where the first one ended, are the bytes of
  the log file as one read would return them: nothing is skipped or repeated, and the file is
  still the one whose identity the ledger recorded.
\<close>

theorem log_pages_join:
  assumes "read_log ev i g off n st = Inr c" "lc_data c \<noteq> []"
    and "read_log ev i g (lc_next_offset c) m st = Inr d"
  shows "\<exists>r key content. info ev i st = Inr r \<and> ev_log_file ev i = Inr (key, content)
    \<and> ld_file_identity (ri_log r) = Some key \<and> lc_data c @ lc_data d = take (n + m) (drop off content)"
proof -
  obtain r key content where r: "info ev i st = Inr r" "ld_state (ri_log r) \<notin> {LDisabled, LExpired}"
    "ev_log_file ev i = Inr (key, content)" "ld_file_identity (ri_log r) = Some key"
    and c: "lc_data c = take n (drop off content)" "lc_next_offset c = off + length (lc_data c)"
    using read_log_page [OF assms(1,2)] .
  have "lc_data d = take m (drop (lc_next_offset c) content)"
    using assms(3) r by (auto simp: read_log_def res_simps Let_def split: if_splits)
  also have "\<dots> = take m (drop (length (take n (drop off content))) (drop off content))"
    using c by (simp add: drop_drop add.commute)
  finally have "lc_data c @ lc_data d = take (n + m) (drop off content)"
    using c(1) by (simp add: take_add min_def)
  with r show ?thesis by blast
qed

definition demo_log_env :: env where
  "demo_log_env = demo_run_env\<lparr>ev_log_file := (\<lambda>_. Inr ((1, 1), ''abcdef''))\<rparr>"

lemma demo_log_facts:
  "let st = ry_registry demo_recovered in
   map_option lc_data (ok_opt (read_log demo_log_env ''r1'' 1 1 2 st)) = Some ''bc''
   \<and> map_option lc_next_offset (ok_opt (read_log demo_log_env ''r1'' 1 1 2 st)) = Some 3
   \<and> is_ok (read_log demo_log_env ''r1'' 1 3 2 st)"
  by code_simp

theorem log_pages_join_witness:
  "\<exists>c d. read_log demo_log_env ''r1'' 1 1 2 (ry_registry demo_recovered) = Inr c
    \<and> read_log demo_log_env ''r1'' 1 3 2 (ry_registry demo_recovered) = Inr d
    \<and> lc_data c @ lc_data d = ''bcde''"
proof -
  let ?r = "\<lambda>off. read_log demo_log_env ''r1'' 1 off 2 (ry_registry demo_recovered)"
  obtain c d where c: "?r 1 = Inr c" "lc_data c = ''bc''" "lc_next_offset c = 3" and d: "?r 3 = Inr d"
    using demo_log_facts by (auto simp: Let_def is_ok_iff ok_opt_def split: sum.splits)
  have "lc_data c \<noteq> []" using c(2) by simp
  from log_pages_join [OF c(1) this, of 2 d] d c show ?thesis
    by (auto simp: demo_log_env_def)
qed

end
