(* ===== verification/Git_Text.thy ===== *)
theory Git_Text
  imports Run_Registry
begin

text \<open>
  What Git prints and how it is read (\<open>git/types.rs\<close>, \<open>git/parse.rs\<close>): file names as bytes,
  object ids, the porcelain status, raw diffs and the history.  A byte string is a \<open>string\<close>; the
  few operations on characters work on the decoded code points.
\<close>

section \<open>Standard library text functions\<close>

definition strip_text :: "string \<Rightarrow> string \<Rightarrow> string option" where
  "strip_text p s = (if prefix p s then Some (drop (length p) s) else None)"

definition strip_end :: "string \<Rightarrow> string \<Rightarrow> string option" where
  "strip_end e s = (if rev e = take (length e) (rev s) then Some (take (length s - length e) s) else None)"

definition ends_with_nul :: "string \<Rightarrow> bool" where
  "ends_with_nul s = (s \<noteq> [] \<and> last s = nul)"

text \<open>\<open>splitn\<close>: at most \<open>n\<close> pieces, the last one unsplit.\<close>

fun splitn :: "nat \<Rightarrow> char \<Rightarrow> string \<Rightarrow> string list" where
  "splitn 0 c s = []"
| "splitn (Suc 0) c s = [s]"
| "splitn (Suc (Suc n)) c s = (if c \<in> set s
     then takeWhile (\<lambda>x. x \<noteq> c) s # splitn (Suc n) c (tl (dropWhile (\<lambda>x. x \<noteq> c) s)) else [s])"

text \<open>\<open>split_whitespace\<close> and integer parsing over code points.\<close>

fun words_from :: "nat list \<Rightarrow> nat list \<Rightarrow> nat list list" where
  "words_from w [] = (if w = [] then [] else [w])"
| "words_from w (c # cs) =
    (if is_whitespace c then (if w = [] then [] else [w]) @ words_from [] cs
     else words_from (w @ [c]) cs)"

definition split_whitespace :: "nat list \<Rightarrow> nat list list" where
  "split_whitespace = words_from []"

definition parse_unsigned :: "nat \<Rightarrow> nat list \<Rightarrow> nat res" where
  "parse_unsigned bound s =
    ensure (s \<noteq> []) ''cannot parse integer from empty string''
    (let ds = (if hd s = 43 then tl s else s) in
     and_then (context_opt (if ds = [] then None else digits_value 0 ds) ''invalid digit found in string'') (\<lambda>n.
     ensure (n \<le> bound) ''number too large to fit in target type'' (Inr n)))"

definition parse_u64 :: "nat list \<Rightarrow> nat res" where
  "parse_u64 = parse_unsigned u64_max"

definition parse_i64 :: "nat list \<Rightarrow> int res" where
  "parse_i64 s =
    ensure (s \<noteq> []) ''cannot parse integer from empty string''
    (let neg = (hd s = 45); ds = (if hd s \<in> {43, 45} then tl s else s) in
     and_then (context_opt (if ds = [] then None else digits_value 0 ds) ''invalid digit found in string'') (\<lambda>n.
     ensure (if neg then n \<le> 9223372036854775808 else n \<le> 9223372036854775807)
       ''number too large to fit in target type'' (Inr (if neg then - int n else int n))))"

section \<open>File names and object ids\<close>

type_synonym git_path = string

definition git_path :: "string \<Rightarrow> git_path res" where
  "git_path b =
    ensure (b \<noteq> [] \<and> length b \<le> 8192 \<and> nul \<notin> set b) ''invalid Git filename''
    (ensure (hd b \<noteq> CHR ''/''
        \<and> \<not> list_ex (\<lambda>part. part = ''..'' \<or> part = ''.'' \<or> part = []) (split_on (CHR ''/'') b))
      ''Git filename must stay inside its repository'' (Inr b))"

definition git_text :: "string \<Rightarrow> string res" where
  "git_text b = ensure (to_str b \<noteq> None \<and> nul \<notin> set b) ''Git returned an unsupported text field'' (Inr b)"

definition hex_code :: "nat \<Rightarrow> bool" where
  "hex_code c = ((48 \<le> c \<and> c \<le> 57) \<or> (65 \<le> c \<and> c \<le> 70) \<or> (97 \<le> c \<and> c \<le> 102))"

definition lower_code :: "nat \<Rightarrow> nat" where
  "lower_code c = (if 65 \<le> c \<and> c \<le> 90 then c + 32 else c)"

definition object_id_codes :: "nat list \<Rightarrow> string res" where
  "object_id_codes cs = ensure (length cs \<in> {40, 64} \<and> list_all hex_code cs) ''invalid Git object ID''
     (Inr (map (char_of \<circ> lower_code) cs))"

definition parse_object_id :: "string \<Rightarrow> string res" where
  "parse_object_id s = object_id_codes (bytes_of s)"

section \<open>Display of bytes\<close>

text \<open>
  One step of UTF-8 validation as \<open>from_utf8\<close> reports it: a character and its length, an
  invalid sequence of a given length, or an incomplete last sequence.
\<close>

datatype utf8_step = Decoded nat nat | Invalid nat | Incomplete

definition second_ok :: "nat \<Rightarrow> nat \<Rightarrow> bool" where
  "second_ok a b = (utf8_cont b \<and> (a = 224 \<longrightarrow> 160 \<le> b) \<and> (a = 237 \<longrightarrow> b < 160)
     \<and> (a = 240 \<longrightarrow> 144 \<le> b) \<and> (a = 244 \<longrightarrow> b < 144))"

fun utf8_first :: "nat list \<Rightarrow> utf8_step" where
  "utf8_first [] = Incomplete"
| "utf8_first (a # s) =
    (if a < 128 then Decoded a 1
     else if 194 \<le> a \<and> a < 224 then
       (case s of [] \<Rightarrow> Incomplete
        | b # _ \<Rightarrow> if utf8_cont b then Decoded ((a - 192) * 64 + (b - 128)) 2 else Invalid 1)
     else if 224 \<le> a \<and> a < 240 then
       (case s of [] \<Rightarrow> Incomplete
        | b # s \<Rightarrow> if \<not> second_ok a b then Invalid 1 else
          (case s of [] \<Rightarrow> Incomplete
           | c # _ \<Rightarrow> if utf8_cont c
              then Decoded ((a - 224) * 4096 + (b - 128) * 64 + (c - 128)) 3 else Invalid 2))
     else if 240 \<le> a \<and> a < 245 then
       (case s of [] \<Rightarrow> Incomplete
        | b # s \<Rightarrow> if \<not> second_ok a b then Invalid 1 else
          (case s of [] \<Rightarrow> Incomplete
           | c # s \<Rightarrow> if \<not> utf8_cont c then Invalid 2 else
             (case s of [] \<Rightarrow> Incomplete
              | d # _ \<Rightarrow> if utf8_cont d
                 then Decoded ((a - 240) * 262144 + (b - 128) * 4096 + (c - 128) * 64 + (d - 128)) 4
                 else Invalid 3)))
     else Invalid 1)"

definition hex_digit :: "nat \<Rightarrow> char" where
  "hex_digit n = ''0123456789abcdef'' ! (n mod 16)"

fun hex_number :: "nat \<Rightarrow> string" where
  "hex_number n = (if n < 16 then [hex_digit n] else hex_number (n div 16) @ [hex_digit n])"

declare hex_number.simps [simp del]

text \<open>
  \<open>char::escape_debug\<close>: the ASCII part written out, the Unicode tables beyond it a parameter.
\<close>

definition escape_debug :: "(nat \<Rightarrow> string) \<Rightarrow> nat \<Rightarrow> string" where
  "escape_debug other c =
    (if c = 0 then [CHR 0x5C, CHR ''0''] else if c = 9 then [CHR 0x5C, CHR ''t'']
     else if c = 13 then [CHR 0x5C, CHR ''r''] else if c = 10 then [CHR 0x5C, CHR ''n'']
     else if c \<in> {34, 39, 92} then [CHR 0x5C, char_of c]
     else if c < 32 \<or> c = 127 then [CHR 0x5C, CHR ''u'', CHR 0x7B] @ hex_number c @ [CHR 0x7D]
     else if c < 128 then [char_of c] else other c)"

definition hex_escape :: "nat \<Rightarrow> string" where
  "hex_escape b = [CHR 0x5C, CHR ''x'', hex_digit (b div 16), hex_digit b]"

function display_codes :: "(nat \<Rightarrow> string) \<Rightarrow> nat list \<Rightarrow> string" where
  "display_codes other bs =
    (if bs = [] then [] else
     (case utf8_first bs of
        Decoded c k \<Rightarrow> escape_debug other c @ display_codes other (drop (max 1 k) bs)
      | Invalid k \<Rightarrow> concat (map hex_escape (take (max 1 k) bs)) @ display_codes other (drop (max 1 k) bs)
      | Incomplete \<Rightarrow> concat (map hex_escape bs)))"
  by pat_completeness auto
termination by (relation "measure (\<lambda>(other, bs). length bs)") auto

declare display_codes.simps [simp del]

definition display_bytes :: "(nat \<Rightarrow> string) \<Rightarrow> string \<Rightarrow> string" where
  "display_bytes other b = display_codes other (bytes_of b)"

section \<open>Revisions and changes\<close>

datatype git_head = Unborn string | OnBranch string string | Detached string

definition head_oid :: "git_head \<Rightarrow> string option" where
  "head_oid h = (case h of Unborn _ \<Rightarrow> None | OnBranch _ oid \<Rightarrow> Some oid | Detached oid \<Rightarrow> Some oid)"

definition head_reference :: "git_head \<Rightarrow> string option" where
  "head_reference h = (case h of Unborn r \<Rightarrow> Some r | OnBranch r _ \<Rightarrow> Some r | Detached _ \<Rightarrow> None)"

record git_revision =
  gv_repository :: repository
  gv_head :: git_head
  gv_index_digest :: string

record git_change =
  gc_path :: git_path
  gc_original_path :: "git_path option"
  gc_index_status :: char
  gc_worktree_status :: char
  gc_conflict :: bool
  gc_untracked :: bool
  gc_submodule :: "string option"

datatype diff_target = IndexDiff | WorktreeDiff

definition staged :: "git_change \<Rightarrow> bool" where
  "staged e = (gc_index_status e \<notin> {CHR ''.'', CHR '' '', CHR ''?''} \<and> \<not> gc_untracked e)"

definition change_paths :: "diff_target \<Rightarrow> git_change \<Rightarrow> git_path list" where
  "change_paths target e =
    (let status = (case target of IndexDiff \<Rightarrow> gc_index_status e | WorktreeDiff \<Rightarrow> gc_worktree_status e) in
     gc_path e # (if status = CHR ''R'' then (case gc_original_path e of None \<Rightarrow> [] | Some p \<Rightarrow> [p]) else []))"

record git_snapshot =
  gn_revision :: git_revision
  gn_entries :: "git_change list"
  gn_upstream :: "string option"
  gn_ahead :: "nat option"
  gn_behind :: "nat option"
  gn_conversion_filters_disabled :: bool
  gn_submodule_worktrees_unchecked :: bool

definition snapshot_clean :: "git_snapshot \<Rightarrow> bool" where
  "snapshot_clean s = (gn_entries s = [] \<and> \<not> gn_submodule_worktrees_unchecked s)"

definition snapshot_conflicted :: "git_snapshot \<Rightarrow> bool" where
  "snapshot_conflicted s = list_ex gc_conflict (gn_entries s)"

record commit_summary =
  cs_oid :: string
  cs_parents :: "string list"
  cs_author :: string
  cs_authored_at :: int
  cs_subject :: string

section \<open>Porcelain status\<close>

record porcelain =
  po_entries :: "git_change list"
  po_upstream :: "string option"
  po_ahead :: "nat option"
  po_behind :: "nat option"

definition signed_count :: "nat \<Rightarrow> string \<Rightarrow> nat list option \<Rightarrow> nat res" where
  "signed_count sign m word =
    and_then (context_opt (Option.bind word (\<lambda>w. if w \<noteq> [] \<and> hd w = sign then Some (tl w) else None)) m) parse_u64"

definition status_header :: "string \<Rightarrow> porcelain \<Rightarrow> porcelain res" where
  "status_header r p =
    and_then (case strip_text ''# branch.upstream '' r of None \<Rightarrow> Inr p
       | Some v \<Rightarrow> and_then (git_text v) (\<lambda>u. Inr (p\<lparr>po_upstream := Some u\<rparr>))) (\<lambda>p.
    case strip_text ''# branch.ab '' r of None \<Rightarrow> Inr p
    | Some v \<Rightarrow> and_then (git_text v) (\<lambda>t. let ws = split_whitespace (chars t) in
        and_then (signed_count 43 ''invalid ahead count'' (if ws = [] then None else Some (hd ws))) (\<lambda>a.
        and_then (signed_count 45 ''invalid behind count'' (if length ws < 2 then None else Some (ws ! 1))) (\<lambda>b.
        Inr (p\<lparr>po_ahead := Some a, po_behind := Some b\<rparr>)))))"

definition untracked_entry :: "string \<Rightarrow> git_change res" where
  "untracked_entry r =
    (let name = drop 2 r; name = (case strip_end ''/'' name of None \<Rightarrow> name | Some n \<Rightarrow> n) in
     and_then (git_path name) (\<lambda>path.
     Inr \<lparr>gc_path = path, gc_original_path = None, gc_index_status = CHR ''?'',
          gc_worktree_status = CHR ''?'', gc_conflict = False, gc_untracked = True, gc_submodule = None\<rparr>))"

text \<open>The number of fields of a record, and whether it is a conflict or a rename.\<close>

definition record_kind :: "char \<Rightarrow> (nat \<times> bool \<times> bool) res" where
  "record_kind c = (if c = CHR ''1'' then Inr (9, False, False) else if c = CHR ''2'' then Inr (10, False, True)
     else if c = CHR ''u'' then Inr (11, True, False) else Inl (Bail ''unrecognized Git status record''))"

definition changed_entry :: "string list \<Rightarrow> nat \<Rightarrow> bool \<Rightarrow> git_path option \<Rightarrow> git_change res" where
  "changed_entry parts fs conflict original =
    and_then (git_path (parts ! (fs - 1))) (\<lambda>path.
    and_then (if parts ! 2 ! 0 = CHR ''S'' then map_sum id Some (git_text (parts ! 2)) else Inr None) (\<lambda>sub.
    Inr \<lparr>gc_path = path, gc_original_path = original, gc_index_status = parts ! 1 ! 0,
         gc_worktree_status = parts ! 1 ! 1, gc_conflict = conflict, gc_untracked = False,
         gc_submodule = sub\<rparr>))"

definition add_entry :: "git_change \<Rightarrow> porcelain \<Rightarrow> porcelain" where
  "add_entry e p = p\<lparr>po_entries := po_entries p @ [e]\<rparr>"

fun status_records :: "string list \<Rightarrow> porcelain \<Rightarrow> porcelain res" where
  "status_records [] p = Inr p"
| "status_records (r # rs) p =
    (if r = [] then status_records rs p
     else if hd r = CHR ''#'' then and_then (status_header r p) (status_records rs)
     else if prefix ''? '' r \<or> prefix ''! '' r then
       and_then (untracked_entry r) (\<lambda>e. status_records rs (add_entry e p))
     else and_then (record_kind (hd r)) (\<lambda>(fs, conflict, renamed).
       let parts = splitn fs (CHR '' '') r in
       ensure (length parts = fs \<and> length (parts ! 1) = 2 \<and> length (parts ! 2) = 4)
         ''invalid Git status record''
       (if renamed then
          (case rs of [] \<Rightarrow> Inl (Bail ''incomplete rename record'')
           | o' # rs' \<Rightarrow> and_then (git_path o') (\<lambda>original.
               and_then (changed_entry parts fs conflict (Some original)) (\<lambda>e.
               status_records rs' (add_entry e p))))
        else and_then (changed_entry parts fs conflict None) (\<lambda>e.
          status_records rs (add_entry e p)))))"

definition parse_status :: "string \<Rightarrow> porcelain res" where
  "parse_status b =
    ensure (b = [] \<or> ends_with_nul b) ''incomplete Git status response''
    (status_records (split_on nul b) \<lparr>po_entries = [], po_upstream = None, po_ahead = None, po_behind = None\<rparr>)"

section \<open>Raw diffs and history\<close>

definition raw_entry :: "string list \<Rightarrow> git_path \<Rightarrow> git_change" where
  "raw_entry fs path = (let status = hd (fs ! 4) in
     \<lparr>gc_path = path, gc_original_path = None, gc_index_status = status, gc_worktree_status = CHR ''.'',
      gc_conflict = (status = CHR ''U''), gc_untracked = False,
      gc_submodule = (if fs ! 0 = ''160000'' \<or> fs ! 1 = ''160000'' then Some ''S...'' else None)\<rparr>)"

fun raw_records :: "string list \<Rightarrow> git_change list res" where
  "raw_records [] = Inr []"
| "raw_records (m # rs) =
    (if m = [] then raw_records rs else
     ensure (hd m = CHR '':'') ''invalid Git raw diff header''
     (let fs = split_on (CHR '' '') (tl m) in
      ensure (length fs = 5 \<and> fs ! 4 \<noteq> []) ''invalid Git raw diff fields''
      (and_then (and_then (git_text (fs ! 2)) parse_object_id) (\<lambda>_.
       and_then (and_then (git_text (fs ! 3)) parse_object_id) (\<lambda>_.
       ensure (hd (fs ! 4) \<notin> {CHR ''R'', CHR ''C''}) ''raw diff unexpectedly enabled renames''
       (case rs of [] \<Rightarrow> Inl (Bail ''raw diff missing path'')
        | p # rs' \<Rightarrow> and_then (git_path p) (\<lambda>path.
            and_then (raw_records rs') (\<lambda>es. Inr (raw_entry fs path # es)))))))))"

definition parse_raw_diff :: "string \<Rightarrow> git_change list res" where
  "parse_raw_diff b = ensure (b = [] \<or> ends_with_nul b) ''incomplete Git raw diff'' (raw_records (split_on nul b))"

definition history_row :: "(nat \<Rightarrow> string) \<Rightarrow> string list \<Rightarrow> commit_summary res" where
  "history_row other row =
    and_then (and_then (git_text (row ! 0)) parse_object_id) (\<lambda>oid.
    and_then (and_then (git_text (row ! 1)) (\<lambda>t. map_res object_id_codes (split_whitespace (chars t)))) (\<lambda>parents.
    and_then (and_then (git_text (row ! 3)) (\<lambda>t. parse_i64 (chars t))) (\<lambda>at.
    Inr \<lparr>cs_oid = oid, cs_parents = parents, cs_author = display_bytes other (row ! 2),
         cs_authored_at = at, cs_subject = display_bytes other (row ! 4)\<rparr>)))"

fun rows :: "string list \<Rightarrow> string list list" where
  "rows (a # b # c # d # e # fs) = [a, b, c, d, e] # rows fs"
| "rows fs = []"

definition parse_history :: "(nat \<Rightarrow> string) \<Rightarrow> string \<Rightarrow> commit_summary list res" where
  "parse_history other b =
    (if b = [] then Inr [] else
     ensure (ends_with_nul b) ''incomplete history response''
     (let fs = split_on nul (butlast b) in
      ensure (length fs mod 5 = 0) ''invalid history field count''
      (map_res (history_row other) (rows fs))))"

end
