(* ===== verification/Git_Parse.thy ===== *)
theory Git_Parse
  imports Git_Text
begin

text \<open>
  Claims about the Git parsers: names stay inside the repository, object ids are canonical,
  nothing that is displayed can drive a terminal, and the status parser reads back every
  status in the documented porcelain format.
\<close>

section \<open>Names stay inside\<close>

lemma git_path_Inr:
  "git_path b = Inr p \<longleftrightarrow> p = b \<and> b \<noteq> [] \<and> length b \<le> 8192 \<and> nul \<notin> set b \<and> hd b \<noteq> CHR ''/''
    \<and> (\<forall>part\<in>set (split_on (CHR ''/'') b). part \<noteq> ''..'' \<and> part \<noteq> ''.'' \<and> part \<noteq> [])"
  by (auto simp: git_path_def res_simps list_ex_iff)

lemma git_path_components:
  assumes "git_path b = Inr p" "is_absolute root"
  shows "components (join_path root p) = components root @ map Normal (split_on (CHR ''/'') p)"
proof -
  have p: "p \<noteq> []" "hd p \<noteq> CHR ''/''" "\<forall>part\<in>set (split_on (CHR ''/'') p). part \<noteq> ''..'' \<and> part \<noteq> ''.'' \<and> part \<noteq> []"
    using assms(1) by (auto simp: git_path_Inr)
  then have na: "\<not> is_absolute p" by (cases p) (auto simp: is_absolute_def)
  have segs: "map component_of (filter (\<lambda>s. s \<noteq> [] \<and> s \<noteq> ''.'') (split_on (CHR ''/'') p))
      = map Normal (split_on (CHR ''/'') p)"
  proof -
    have "filter (\<lambda>s. s \<noteq> [] \<and> s \<noteq> ''.'') (split_on (CHR ''/'') p) = split_on (CHR ''/'') p"
      using p(3) by (intro filter_True) auto
    with p(3) show ?thesis by (auto simp: component_of_def)
  qed
  have root: "root \<noteq> []" using assms(2) by (auto simp: is_absolute_def)
  obtain d where d: "is_absolute d \<or> d = []" "join_path root p = d @ ''/'' @ p" "root = d \<or> root = d @ ''/''"
  proof (cases "last root = CHR ''/''")
    case True
    then have r: "root = butlast root @ ''/''" using root by (metis append_butlast_last_id)
    have "is_absolute (butlast root) \<or> butlast root = []"
      using assms(2) r by (cases "butlast root") (auto simp: is_absolute_def split: list.splits)
    with r na True root that [of "butlast root"] show ?thesis by (simp add: join_path_def)
  next
    case False
    with na root that [of root] assms(2) show ?thesis by (simp add: join_path_def)
  qed
  have abs: "is_absolute (join_path root p)" using d by (auto simp: is_absolute_def split: list.splits)
  have "components (d @ ''/'') = components root" if "root = d"
    using that assms(2) split_on_sep [of "CHR ''/''" d "[]"] by (simp add: components_def)
  then have "components root = RootDir # map component_of
      (filter (\<lambda>s. s \<noteq> [] \<and> s \<noteq> ''.'') (split_on (CHR ''/'') d))"
    using d(3) assms(2) split_on_sep [of "CHR ''/''" d "[]"] by (auto simp: components_def)
  with abs segs show ?thesis
    using d(2) split_on_sep [of "CHR ''/''" d p] by (simp add: components_def)
qed

definition inside :: "path \<Rightarrow> git_path \<Rightarrow> bool" where
  "inside root p \<longleftrightarrow> starts_with (join_path root p) root \<and> ParentDir \<notin> set (drop (length (components root))
     (components (join_path root p))) \<and> \<not> path_eq (join_path root p) root"

lemma git_path_inside: "git_path b = Inr p \<Longrightarrow> is_absolute root \<Longrightarrow> inside root p"
  using git_path_components [of b p root]
  by (auto simp: inside_def starts_with_def path_eq_def)

definition change_inside :: "path \<Rightarrow> git_change \<Rightarrow> bool" where
  "change_inside root e \<longleftrightarrow> inside root (gc_path e)
     \<and> (\<forall>p. gc_original_path e = Some p \<longrightarrow> inside root p)"

lemma status_header_entries: "status_header r p = Inr q \<Longrightarrow> po_entries q = po_entries p"
  by (auto simp: status_header_def res_simps Let_def split: option.splits)

lemma untracked_entry_Inr:
  assumes "untracked_entry r = Inr e"
  obtains b where "git_path b = Inr (gc_path e)" "gc_original_path e = None"
  using assms by (auto simp: untracked_entry_def res_simps Let_def)

lemma changed_entry_Inr:
  assumes "changed_entry parts n c o' = Inr e"
  obtains b where "git_path b = Inr (gc_path e)" "gc_original_path e = o'"
  using assms by (auto simp: changed_entry_def res_simps)

text \<open>One round of the loop: the rest is read with at most one more entry, which has valid names.\<close>

definition valid_names :: "git_change \<Rightarrow> bool" where
  "valid_names e \<longleftrightarrow> (\<exists>b. git_path b = Inr (gc_path e))
     \<and> (\<forall>o'. gc_original_path e = Some o' \<longrightarrow> (\<exists>b. git_path b = Inr o'))"

lemma names_inside: "valid_names e \<Longrightarrow> is_absolute root \<Longrightarrow> change_inside root e"
  unfolding valid_names_def change_inside_def by (meson git_path_inside)

definition steps_to :: "porcelain \<Rightarrow> string list \<Rightarrow> porcelain \<Rightarrow> bool" where
  "steps_to p rs q \<longleftrightarrow> (\<exists>rs' p'. length rs' \<le> length rs \<and> status_records rs' p' = Inr q
     \<and> (po_entries p' = po_entries p \<or> (\<exists>e. po_entries p' = po_entries p @ [e] \<and> valid_names e)))"

lemma steps_to_same: "status_records rs p' = Inr q \<Longrightarrow> po_entries p' = po_entries p \<Longrightarrow> steps_to p rs q"
  unfolding steps_to_def by (intro exI [of _ rs] exI [of _ p']) simp

lemma steps_to_entry:
  "status_records rs' (add_entry e p) = Inr q \<Longrightarrow> valid_names e \<Longrightarrow> length rs' \<le> length rs \<Longrightarrow> steps_to p rs q"
  unfolding steps_to_def by (intro exI [of _ rs'] exI [of _ "add_entry e p"]) (auto simp: add_entry_def)

lemma untracked_names: "untracked_entry r = Inr e \<Longrightarrow> valid_names e"
  by (auto simp: untracked_entry_def res_simps Let_def valid_names_def)

lemma changed_names:
  "changed_entry parts n c o' = Inr e \<Longrightarrow> (\<And>x. o' = Some x \<Longrightarrow> git_path x = Inr x) \<Longrightarrow> valid_names e"
  by (auto simp: changed_entry_def res_simps valid_names_def)

lemma status_step:
  assumes "status_records (r # rs) p = Inr q"
  shows "steps_to p rs q"
proof -
  consider "r = []" | "r \<noteq> []" "hd r = CHR ''#''"
    | "r \<noteq> []" "hd r \<noteq> CHR ''#''" "prefix ''? '' r \<or> prefix ''! '' r"
    | "r \<noteq> []" "hd r \<noteq> CHR ''#''" "\<not> (prefix ''? '' r \<or> prefix ''! '' r)" by blast
  then show ?thesis
  proof cases
    case 1
    with assms show ?thesis by (auto intro: steps_to_same)
  next
    case 2
    with assms show ?thesis by (auto simp: res_simps intro: steps_to_same dest: status_header_entries)
  next
    case 3
    with assms show ?thesis by (auto simp: res_simps intro: steps_to_entry untracked_names)
  next
    case 4
    with assms obtain n c d where k: "record_kind (hd r) = Inr (n, c, d)"
      by (auto simp: res_simps)
    let ?parts = "splitn n (CHR '' '') r"
    show ?thesis
    proof (cases d)
      case True
      with 4 k assms obtain o' rs' original e where "rs = o' # rs'" "git_path o' = Inr original"
        "changed_entry ?parts n c (Some original) = Inr e" "status_records rs' (add_entry e p) = Inr q"
        by (auto simp: res_simps Let_def split: list.splits)
      moreover from this have "git_path original = Inr original" by (simp add: git_path_Inr)
      ultimately show ?thesis by (intro steps_to_entry [of rs' e]) (auto intro: changed_names)
    next
      case False
      with 4 k assms obtain e where "changed_entry ?parts n c None = Inr e"
        "status_records rs (add_entry e p) = Inr q"
        by (auto simp: res_simps Let_def)
      then show ?thesis by (intro steps_to_entry [of rs e]) (auto intro: changed_names)
    qed
  qed
qed

lemma status_records_names:
  assumes "status_records rs p = Inr q" "\<forall>e\<in>set (po_entries p). valid_names e"
  shows "\<forall>e\<in>set (po_entries q). valid_names e"
  using assms
proof (induction "length rs" arbitrary: rs p rule: less_induct)
  case less
  show ?case
  proof (cases rs)
    case (Cons r rs0)
    with less.prems(1) have "steps_to p rs0 q" by (intro status_step) simp
    then obtain rs' p' where s: "length rs' \<le> length rs0" "status_records rs' p' = Inr q"
      "po_entries p' = po_entries p \<or> (\<exists>e. po_entries p' = po_entries p @ [e] \<and> valid_names e)"
      by (auto simp: steps_to_def)
    then have "\<forall>e\<in>set (po_entries p'). valid_names e" using less.prems(2) by auto
    with less.hyps [of rs' p'] s Cons show ?thesis by simp
  qed (use less.prems in simp)
qed

lemma raw_records_names: "raw_records rs = Inr es \<Longrightarrow> \<forall>e\<in>set es. valid_names e"
proof (induction "length rs" arbitrary: rs es rule: less_induct)
  case less
  show ?case
  proof (cases rs)
    case (Cons m rs0)
    show ?thesis
    proof (cases "m = []")
      case True
      with less.hyps [of rs0 es] less.prems Cons show ?thesis by simp
    next
      case False
      with less.prems Cons obtain p rs' path es' where "rs0 = p # rs'" "git_path p = Inr path"
        "raw_records rs' = Inr es'" "es = raw_entry (split_on (CHR '' '') (tl m)) path # es'"
        by (auto simp: res_simps Let_def split: list.splits)
      with less.hyps [of rs' es'] Cons show ?thesis
        by (auto simp: valid_names_def raw_entry_def Let_def)
    qed
  qed (use less.prems in simp)
qed

text \<open>
  C8 (status_paths_inside). Every file name that the status or a raw diff reports, the source of a rename
  included, joined to the repository's root stays below that root: no entry climbs out of it,
  names it itself or replaces it by an absolute path.
\<close>

theorem status_paths_inside:
  assumes "is_absolute root"
  shows "(\<forall>p. parse_status b = Inr p \<longrightarrow> (\<forall>e\<in>set (po_entries p). change_inside root e))
    \<and> (\<forall>es. parse_raw_diff b = Inr es \<longrightarrow> (\<forall>e\<in>set es. change_inside root e))"
proof -
  have "\<forall>e\<in>set (po_entries p). valid_names e" if "parse_status b = Inr p" for p
    using that status_records_names by (auto simp: parse_status_def res_simps)
  moreover have "\<forall>e\<in>set es. valid_names e" if "parse_raw_diff b = Inr es" for es
    using that raw_records_names by (auto simp: parse_raw_diff_def res_simps)
  ultimately show ?thesis using names_inside [OF _ assms] by blast
qed

theorem status_paths_inside_witness:
  "let b = ''1 M. N... 100644 100644 100644 a b src/x'' @ [nul] in
   is_absolute ''/r'' \<and> (\<exists>p. parse_status b = Inr p \<and> map gc_path (po_entries p) = [''src/x'']
     \<and> (\<forall>e\<in>set (po_entries p). change_inside ''/r'' e))"
proof -
  let ?b = "''1 M. N... 100644 100644 100644 a b src/x'' @ [nul]"
  have r: "is_absolute ''/r''" by (simp add: is_absolute_def)
  have "map_option (map gc_path \<circ> po_entries) (ok_opt (parse_status ?b)) = Some [''src/x'']" by code_simp
  then obtain p where p: "parse_status ?b = Inr p" "map gc_path (po_entries p) = [''src/x'']"
    by (auto simp: ok_opt_def split: sum.splits)
  moreover have "\<forall>e\<in>set (po_entries p). change_inside ''/r'' e"
    using status_paths_inside [OF r, of ?b] p(1) by blast
  ultimately show ?thesis
    unfolding Let_def by (intro conjI exI [of _ p]) (simp_all add: is_absolute_def)
qed

section \<open>Display\<close>

text \<open>Bytes a terminal shows and does not act on.\<close>

definition harmless :: "string \<Rightarrow> bool" where
  "harmless s \<longleftrightarrow> (\<forall>c\<in>set s. 32 \<le> (of_char c :: nat) \<and> (of_char c :: nat) \<noteq> 127)"

lemma harmless_append [simp]: "harmless (a @ b) \<longleftrightarrow> harmless a \<and> harmless b"
  by (auto simp: harmless_def)

lemma harmless_Nil [simp]: "harmless []"
  by (simp add: harmless_def)

lemma harmless_hex_digit [simp]: "harmless [hex_digit n]"
proof -
  have "n mod 16 \<in> set [0..<16]" by simp
  then show ?thesis
    unfolding hex_digit_def harmless_def
    by (auto simp: upt_rec elim!: disjE)
qed

lemma harmless_Cons: "harmless (c # s) \<longleftrightarrow> harmless [c] \<and> harmless s"
  by (auto simp: harmless_def)

lemma harmless_hex_number [simp]: "harmless (hex_number n)"
proof (induction n rule: hex_number.induct)
  case (1 n)
  then show ?case by (subst hex_number.simps) simp
qed

lemma harmless_escapes: "harmless (concat (map hex_escape bs))"
proof (induction bs)
  case (Cons b bs)
  have "harmless (hex_escape b)"
    unfolding hex_escape_def
    by (subst harmless_Cons, subst (2) harmless_Cons, subst (3) harmless_Cons) (simp, simp add: harmless_def)
  with Cons show ?case by simp
qed simp

lemma harmless_escape_debug:
  assumes "\<And>c. 128 \<le> c \<Longrightarrow> harmless (other c)"
  shows "harmless (escape_debug other c)"
  using assms [of c] harmless_hex_number [of c] by (auto simp: escape_debug_def harmless_Cons harmless_def)

lemma harmless_display_codes:
  assumes "\<And>c. 128 \<le> c \<Longrightarrow> harmless (other c)"
  shows "harmless (display_codes other bs)"
  using assms
proof (induction other bs rule: display_codes.induct)
  case (1 other bs)
  then show ?case
    by (subst display_codes.simps)
      (auto simp: harmless_escapes harmless_escape_debug split: utf8_step.splits)
qed

text \<open>
  Whatever bytes Git prints as a name, an author or a subject, invalid UTF-8 included,
  the text that is displayed contains no control byte: no escape sequence reaches the
  terminal.  For characters beyond ASCII this is what \<open>char::escape_debug\<close> is documented to do.
\<close>

theorem display_is_harmless:
  assumes "\<And>c. 128 \<le> c \<Longrightarrow> harmless (other c)"
  shows "harmless (display_bytes other b)"
  unfolding display_bytes_def using assms by (rule harmless_display_codes)

theorem display_is_harmless_witness:
  "harmless (display_bytes (\<lambda>_. ''?'') [CHR 0x1B, CHR ''['', CHR 0xFF, CHR ''a''])
   \<and> display_bytes (\<lambda>_. ''?'') [CHR 0x1B, CHR ''['', CHR 0xFF, CHR ''a'']
     = CHR 0x5C # ''u{1b}['' @ CHR 0x5C # ''xffa''"
proof
  have "harmless ''?''" by (simp add: harmless_def)
  then show "harmless (display_bytes (\<lambda>_. ''?'') [CHR 0x1B, CHR ''['', CHR 0xFF, CHR ''a''])"
    by (intro display_is_harmless)
qed code_simp


section \<open>The documented status format\<close>

text \<open>
  Git's porcelain v2 with \<open>-z\<close>: each record ends with a NUL, its words are separated by a
  space, the name comes last and may contain anything else; a rename adds its source as a
  second record.  The words between are modes and object ids, which the parser skips.
\<close>

definition change_kind :: "git_change \<Rightarrow> string" where
  "change_kind e = (if gc_conflict e then ''u'' else if gc_original_path e \<noteq> None then ''2'' else ''1'')"

definition change_words :: "git_change \<Rightarrow> string list \<Rightarrow> string list" where
  "change_words e ms = [change_kind e, [gc_index_status e, gc_worktree_status e],
     case gc_submodule e of None \<Rightarrow> ''N...'' | Some s \<Rightarrow> s] @ ms"

definition change_records :: "git_change \<times> string list \<Rightarrow> string list" where
  "change_records x = (case x of (e, ms) \<Rightarrow>
     if gc_untracked e then [''? '' @ gc_path e]
     else (concat (map (\<lambda>w. w @ [CHR '' '']) (change_words e ms)) @ gc_path e)
       # (case gc_original_path e of None \<Rightarrow> [] | Some p \<Rightarrow> [p]))"

definition print_status :: "(git_change \<times> string list) list \<Rightarrow> string" where
  "print_status xs = concat (map (\<lambda>r. r @ [nul]) (concat (map change_records xs)))"

definition plain_word :: "string \<Rightarrow> bool" where
  "plain_word w \<longleftrightarrow> CHR '' '' \<notin> set w \<and> nul \<notin> set w"

fun wf_change :: "git_change \<times> string list \<Rightarrow> bool" where
  "wf_change (e, ms) \<longleftrightarrow> git_path (gc_path e) = Inr (gc_path e)
     \<and> (case gc_original_path e of None \<Rightarrow> True | Some p \<Rightarrow> git_path p = Inr p)
     \<and> (if gc_untracked e
        then e = \<lparr>gc_path = gc_path e, gc_original_path = None, gc_index_status = CHR ''?'',
          gc_worktree_status = CHR ''?'', gc_conflict = False, gc_untracked = True, gc_submodule = None\<rparr>
        else \<not> (gc_conflict e \<and> gc_original_path e \<noteq> None)
          \<and> plain_word [gc_index_status e, gc_worktree_status e]
          \<and> (case gc_submodule e of None \<Rightarrow> True | Some s \<Rightarrow> length s = 4 \<and> hd s = CHR ''S''
              \<and> plain_word s \<and> git_text s = Inr s)
          \<and> length ms = (if gc_conflict e then 7 else if gc_original_path e \<noteq> None then 6 else 5)
          \<and> list_all plain_word ms)"

lemma splitn_words:
  "\<forall>w\<in>set ws. c \<notin> set w \<Longrightarrow> splitn (Suc (length ws)) c (concat (map (\<lambda>w. w @ [c]) ws) @ p) = ws @ [p]"
proof (induction ws)
  case (Cons w ws)
  have "takeWhile (\<lambda>x. x \<noteq> c) (w @ c # s) = w" "dropWhile (\<lambda>x. x \<noteq> c) (w @ c # s) = c # s" for s
    using Cons.prems by (subst takeWhile_append2 dropWhile_append2; fastforce)+
  with Cons show ?case by simp
qed simp

lemma split_records:
  "\<forall>r\<in>set rs. c \<notin> set r \<Longrightarrow> split_on c (concat (map (\<lambda>r. r @ [c]) rs)) = rs @ [[]]"
  by (induction rs) (simp_all add: split_on_sep split_on_plain)

lemma git_path_no_slash:
  assumes "git_path p = Inr p"
  shows "strip_end ''/'' p = None"
proof (rule ccontr)
  assume "strip_end ''/'' p \<noteq> None"
  then have "p \<noteq> []" "last p = CHR ''/''"
    using assms by (cases p rule: rev_cases; auto simp: git_path_Inr strip_end_def split: if_splits)+
  then have "p = butlast p @ CHR ''/'' # []" by (metis append_butlast_last_id)
  then have "[] \<in> set (split_on (CHR ''/'') p)"
    by (metis split_on_sep split_on.simps(1) Un_iff list.set_intros(1) set_append)
  with assms show False by (auto simp: git_path_Inr)
qed

lemma status_untracked:
  assumes "wf_change (e, ms)" "gc_untracked e"
  shows "status_records (change_records (e, ms) @ rs) p = status_records rs (add_entry e p)"
proof -
  have "untracked_entry (''? '' @ gc_path e) = Inr e"
    using assms git_path_no_slash [of "gc_path e"] by (auto simp: untracked_entry_def)
  with assms(2) show ?thesis by (simp add: change_records_def)
qed

lemma changed_words:
  assumes "wf_change (e, ms)" "\<not> gc_untracked e"
  shows "length (change_words e ms) = (if gc_conflict e then 10 else if gc_original_path e \<noteq> None then 9 else 8)"
    and "\<forall>w\<in>set (change_words e ms). CHR '' '' \<notin> set w \<and> nul \<notin> set w"
  using assms by (auto simp: change_words_def change_kind_def plain_word_def list_all_iff split: option.splits if_splits)

lemma status_changed_record:
  assumes "r \<noteq> []" "hd r \<noteq> CHR ''#''" "\<not> prefix ''? '' r" "\<not> prefix ''! '' r"
    and "record_kind (hd r) = Inr (n, conflict, renamed)" "splitn n (CHR '' '') r = ps"
    and "length ps = n" "length (ps ! 1) = 2" "length (ps ! 2) = 4"
  shows "status_records (r # rs) p =
    (if renamed then
       (case rs of [] \<Rightarrow> Inl (Bail ''incomplete rename record'')
        | o' # rs' \<Rightarrow> and_then (git_path o') (\<lambda>original.
            and_then (changed_entry ps n conflict (Some original)) (\<lambda>e.
            status_records rs' (add_entry e p))))
     else and_then (changed_entry ps n conflict None) (\<lambda>e. status_records rs (add_entry e p)))"
  using assms by (simp add: ensure_def)

lemma status_changed:
  assumes wf: "wf_change (e, ms)" "\<not> gc_untracked e"
  shows "status_records (change_records (e, ms) @ rs) p = status_records rs (add_entry e p)"
proof -
  let ?ws = "change_words e ms"
  let ?r = "concat (map (\<lambda>w. w @ [CHR '' '']) ?ws) @ gc_path e"
  let ?n = "if gc_conflict e then 11 else if gc_original_path e \<noteq> None then 10 else 9 :: nat"
  have len: "?n = Suc (length ?ws)" using changed_words(1) [OF wf] by simp
  have parts: "splitn ?n (CHR '' '') ?r = ?ws @ [gc_path e]"
    unfolding len using changed_words(2) [OF wf] by (intro splitn_words) blast
  have r: "?r \<noteq> []" "hd ?r = hd (change_kind e)" "\<not> prefix ''? '' ?r" "\<not> prefix ''! '' ?r"
    by (simp_all add: change_words_def change_kind_def)
  have kind: "record_kind (hd ?r) = Inr (?n, gc_conflict e, \<not> gc_conflict e \<and> gc_original_path e \<noteq> None)"
    unfolding r(2) by (simp add: record_kind_def change_kind_def)
  have nth: "(?ws @ [gc_path e]) ! (?n - 1) = gc_path e"
    "(?ws @ [gc_path e]) ! 1 = [gc_index_status e, gc_worktree_status e]"
    "(?ws @ [gc_path e]) ! 2 = (case gc_submodule e of None \<Rightarrow> ''N...'' | Some s \<Rightarrow> s)"
    unfolding len by (simp_all add: change_words_def)
  have S: "s ! 0 = CHR ''S''" if "gc_submodule e = Some s" for s
    using wf that by (cases s) simp_all
  have entry: "changed_entry (?ws @ [gc_path e]) ?n (gc_conflict e) (gc_original_path e) = Inr e"
    unfolding changed_entry_def nth
    using wf S by (cases "gc_submodule e") (auto intro: git_change.equality)
  have four: "length ((?ws @ [gc_path e]) ! 2) = 4" unfolding nth using wf by (auto split: option.splits)
  have hd: "hd ?r \<noteq> CHR ''#''" unfolding r(2) by (simp add: change_kind_def)
  have parts_eq: "change_records (e, ms) @ rs = ?r # (case gc_original_path e of None \<Rightarrow> [] | Some p \<Rightarrow> [p]) @ rs"
    using wf(2) by (simp add: change_records_def)
  have two: "length ((?ws @ [gc_path e]) ! 1) = 2" unfolding nth by simp
  note records = status_changed_record [OF r(1) hd r(3,4) kind parts _ two four]
  show ?thesis
    unfolding parts_eq
    by (subst records) (use wf entry len in \<open>auto split: option.splits\<close>)
qed

lemma status_record: "wf_change x \<Longrightarrow> status_records (change_records x @ rs) p = status_records rs (add_entry (fst x) p)"
  by (cases x; cases "gc_untracked (fst x)") (simp_all only: status_untracked status_changed fst_conv not_False_eq_True)

lemma change_records_nul: "wf_change x \<Longrightarrow> \<forall>r\<in>set (change_records x). nul \<notin> set r"
proof (cases x)
  case (Pair e ms)
  assume wf: "wf_change x"
  show ?thesis
  proof (cases "gc_untracked e")
    case True
    with wf Pair show ?thesis by (auto simp: change_records_def git_path_Inr)
  next
    case False
    then have "\<forall>w\<in>set (change_words e ms). nul \<notin> set w" using changed_words(2) wf Pair by blast
    with False wf Pair show ?thesis
      by (auto simp: change_records_def git_path_Inr split: option.splits)
  qed
qed

lemma status_records_print:
  "\<forall>x\<in>set xs. wf_change x \<Longrightarrow>
   status_records (concat (map change_records xs) @ [[]]) p = Inr (p\<lparr>po_entries := po_entries p @ map fst xs\<rparr>)"
proof (induction xs arbitrary: p)
  case (Cons x xs)
  then show ?case by (simp add: status_record add_entry_def del: wf_change.simps)
qed simp

text \<open>
  C9 (status_roundtrip). Whatever list of changes is written in the documented format, renames with their
  source, conflicts, submodules and untracked files included, with any names the format can
  carry (spaces, line ends, bytes that are not UTF-8), the parser reads back exactly that list
  in that order, whatever modes and object ids stand between.
\<close>

theorem status_roundtrip:
  assumes "\<forall>x\<in>set xs. wf_change x"
  shows "parse_status (print_status xs)
    = Inr \<lparr>po_entries = map fst xs, po_upstream = None, po_ahead = None, po_behind = None\<rparr>"
proof -
  let ?rs = "concat (map change_records xs)"
  have "\<forall>r\<in>set ?rs. nul \<notin> set r" using assms change_records_nul by fastforce
  then have "split_on nul (print_status xs) = ?rs @ [[]]"
    unfolding print_status_def by (rule split_records)
  moreover have "print_status xs = [] \<or> ends_with_nul (print_status xs)"
    by (cases ?rs rule: rev_cases) (auto simp: print_status_def ends_with_nul_def)
  ultimately show ?thesis
    using status_records_print [OF assms] by (simp add: parse_status_def)
qed

definition demo_changes :: "(git_change \<times> string list) list" where
  "demo_changes =
    [(\<lparr>gc_path = ''a b'', gc_original_path = Some ''old'', gc_index_status = CHR ''R'',
       gc_worktree_status = CHR ''.'', gc_conflict = False, gc_untracked = False, gc_submodule = None\<rparr>,
      [''100644'', ''100644'', ''100644'', ''1'', ''2'', ''R100'']),
     (\<lparr>gc_path = ''lib'', gc_original_path = None, gc_index_status = CHR ''.'',
       gc_worktree_status = CHR ''M'', gc_conflict = False, gc_untracked = False, gc_submodule = Some ''SC..''\<rparr>,
      [''160000'', ''160000'', ''160000'', ''1'', ''1'']),
     (\<lparr>gc_path = [CHR 0x0A, CHR 0xFF], gc_original_path = None, gc_index_status = CHR ''?'',
       gc_worktree_status = CHR ''?'', gc_conflict = False, gc_untracked = True, gc_submodule = None\<rparr>, [])]"

theorem status_roundtrip_witness:
  "list_all wf_change demo_changes \<and> length demo_changes = 3
   \<and> parse_status (print_status demo_changes)
     = Inr \<lparr>po_entries = map fst demo_changes, po_upstream = None, po_ahead = None, po_behind = None\<rparr>"
proof -
  have "list_all wf_change demo_changes \<and> length demo_changes = 3" by code_simp
  then show ?thesis using status_roundtrip [of demo_changes] by (simp add: list_all_iff del: wf_change.simps)
qed

end
