(* ===== verification/Git_Machine.thy ===== *)
theory Git_Machine
  imports Git_Text
begin

text \<open>
  Running Git (\<open>git.rs\<close>, the reading half of \<open>git/service.rs\<close>): the executable and the repository
  binding, the arguments and environment of every call, the bounded collection of its output,
  and the observations built from it: head, index, status, diff, history, branches.  The Git
  process and the filesystem are the machine, a parameter that answers every call and may change.
\<close>

section \<open>The machine\<close>

record git_call =
  gk_program :: path
  gk_args :: "string list"
  gk_cwd :: path
  gk_env :: environment

record git_output =
  go_code :: "nat option"
  go_stdout :: string
  go_stderr :: string

text \<open>The opened index: its metadata, the bytes read, and the metadata afterwards.\<close>

record index_meta =
  im_is_file :: bool
  im_len :: nat
  im_identity :: "nat \<times> nat"
  im_mtime :: "int \<times> int"

record 'g machine =
  gm_execute :: "git_call \<Rightarrow> nat \<Rightarrow> nat \<Rightarrow> ('g, git_output) op"
  gm_canonicalize :: "path \<Rightarrow> ('g, path) op"
  gm_metadata :: "path \<Rightarrow> ('g, file_meta) op"
  gm_index :: "path \<Rightarrow> ('g, index_meta \<times> string \<times> index_meta) op"
  gm_now :: "'g \<Rightarrow> nat"
  gm_host_env :: environment
  gm_sha256 :: "string \<Rightarrow> string"
  gm_escape :: "nat \<Rightarrow> string"

definition op_context :: "string \<Rightarrow> ('s, 'a) op \<Rightarrow> ('s, 'a) op" where
  "op_context m f = (\<lambda>s. case f s of (r, t) \<Rightarrow> (with_context r m, t))"

text \<open>The result as a value, as \<open>.ok()\<close> and a \<open>match\<close> on it take it.\<close>

definition op_result :: "('s, 'a) op \<Rightarrow> ('s, 'a res) op" where
  "op_result f = (\<lambda>s. case f s of (r, t) \<Rightarrow> (Inr r, t))"

fun op_each :: "('a \<Rightarrow> ('s, 'b) op) \<Rightarrow> 'a list \<Rightarrow> ('s, 'b list) op" where
  "op_each f [] = op_return []"
| "op_each f (x # xs) = op_try (f x) (\<lambda>y. op_try (op_each f xs) (\<lambda>ys. op_return (y # ys)))"

section \<open>The bounded collection of output\<close>

text \<open>
  \<open>collect\<close> as a loop over what each round observes: the clock, one read of each open pipe and,
  once both are closed, the wait.  The list of rounds is as long as the loop runs.
\<close>

datatype pipe_read = Chunk string | Eof | Again | ReadFailed

record collect_round =
  cr_now :: nat
  cr_stdout :: pipe_read
  cr_stderr :: pipe_read
  cr_wait :: "nat option option res"
  cr_poll :: "unit res"

definition read_chunk :: "pipe_read \<Rightarrow> string \<Rightarrow> (bool \<times> string) res" where
  "read_chunk r b = (case r of Eof \<Rightarrow> Inr (True, b) | Chunk s \<Rightarrow> Inr (False, b @ s)
     | Again \<Rightarrow> Inr (False, b) | ReadFailed \<Rightarrow> Inl (Bail ''read Git output''))"

fun collect :: "nat \<Rightarrow> nat \<Rightarrow> bool \<times> string \<Rightarrow> bool \<times> string \<Rightarrow> collect_round list \<Rightarrow> git_output res option" where
  "collect deadline lim p q [] = None"
| "collect deadline lim p q (r # rs) =
    (if deadline \<le> cr_now r then Some (Inl (Bail ''Git command exceeded its deadline'')) else
     case and_then (if fst p then Inr p else read_chunk (cr_stdout r) (snd p)) (\<lambda>p.
       and_then (if fst q then Inr q else read_chunk (cr_stderr r) (snd q)) (\<lambda>q.
       ensure (saturating_add (length (snd p)) (length (snd q)) \<le> lim) ''Git command exceeded its output limit''
       (if fst p \<and> fst q then and_then (with_context (cr_wait r) ''wait for Git process'') (\<lambda>w. Inr (p, q, w))
        else Inr (p, q, None)))) of
       Inl e \<Rightarrow> Some (Inl e)
     | Inr (p, q, Some code) \<Rightarrow> Some (Inr \<lparr>go_code = code, go_stdout = snd p, go_stderr = snd q\<rparr>)
     | Inr (p, q, None) \<Rightarrow> (case with_context (cr_poll r) ''poll Git output'' of
           Inl e \<Rightarrow> Some (Inl e) | Inr _ \<Rightarrow> collect deadline lim p q rs))"

section \<open>Text helpers\<close>

fun contains_text :: "string \<Rightarrow> string \<Rightarrow> bool" where
  "contains_text p [] = (p = [])"
| "contains_text p (c # s) = (prefix p (c # s) \<or> contains_text p s)"

text \<open>\<open>split_once\<close> and \<open>rsplit_once\<close> at a separator.\<close>

fun split_once_at :: "string \<Rightarrow> string \<Rightarrow> (string \<times> string) option" where
  "split_once_at p [] = (if p = [] then Some ([], []) else None)"
| "split_once_at p (c # s) = (if prefix p (c # s) then Some ([], drop (length p) (c # s))
     else map_option (\<lambda>(a, b). (c # a, b)) (split_once_at p s))"

definition split_first :: "(char \<Rightarrow> bool) \<Rightarrow> string \<Rightarrow> (string \<times> string) option" where
  "split_first f s = (case dropWhile (\<lambda>c. \<not> f c) s of [] \<Rightarrow> None | _ # b \<Rightarrow> Some (takeWhile (\<lambda>c. \<not> f c) s, b))"

definition split_last :: "char \<Rightarrow> string \<Rightarrow> (string \<times> string) option" where
  "split_last c s = map_option (\<lambda>(b, a). (rev a, rev b)) (split_first (\<lambda>x. x = c) (rev s))"

definition join_text :: "string \<Rightarrow> string list \<Rightarrow> string" where
  "join_text sep xs = concat (case xs of [] \<Rightarrow> [] | y # ys \<Rightarrow> y # map (\<lambda>s. sep @ s) ys)"

definition fingerprint :: "'g machine \<Rightarrow> string list \<Rightarrow> string" where
  "fingerprint m bs = gm_sha256 m (foldl hash_field [] bs)"

definition require_success :: "git_output \<Rightarrow> string \<Rightarrow> unit res" where
  "require_success out action = ensure (go_code out = Some 0) (''Git could not '' @ action) (Inr ())"

definition trim_line :: "string \<Rightarrow> string res" where
  "trim_line b = context_opt (strip_end newline b) ''incomplete Git line response''"

definition path_line :: "string \<Rightarrow> path \<Rightarrow> path res" where
  "path_line b root = and_then (trim_line b) (\<lambda>p.
     ensure (p \<noteq> [] \<and> nul \<notin> set p) ''invalid Git metadata path''
     (Inr (if is_absolute p then p else join_path root p)))"

definition parse_version :: "string \<Rightarrow> (nat \<times> nat) res" where
  "parse_version b =
    and_then (git_text b) (\<lambda>v.
    and_then (context_opt (strip_text ''git version '' v) ''invalid Git version response'') (\<lambda>v.
    let numbers = split_on (CHR ''.'') v in
    and_then (parse_unsigned 4294967295 (chars (hd numbers))) (\<lambda>major.
    and_then (context_opt (if length numbers < 2 then None else Some (numbers ! 1)) ''missing Git minor version'') (\<lambda>n.
    and_then (parse_unsigned 4294967295 (chars n)) (\<lambda>minor. Inr (major, minor))))))"

definition version_le :: "nat \<times> nat \<Rightarrow> nat \<times> nat \<Rightarrow> bool" where
  "version_le a b = (fst a < fst b \<or> (fst a = fst b \<and> snd a \<le> snd b))"

definition display_patch :: "(nat \<Rightarrow> string) \<Rightarrow> string \<Rightarrow> string" where
  "display_patch other b = join_text newline (map (display_bytes other) (split_on (CHR 0x0A) b))"

section \<open>The executable and the environment\<close>

definition routing_names :: "string list" where
  "routing_names = [''GIT_DIR'', ''GIT_WORK_TREE'', ''GIT_INDEX_FILE'', ''GIT_COMMON_DIR'',
     ''GIT_OBJECT_DIRECTORY'', ''GIT_ALTERNATE_OBJECT_DIRECTORIES'', ''GIT_NAMESPACE'',
     ''GIT_CEILING_DIRECTORIES'', ''GIT_DISCOVERY_ACROSS_FILESYSTEM'', ''GIT_CONFIG'',
     ''GIT_CONFIG_SYSTEM'', ''GIT_CONFIG_GLOBAL'', ''GIT_CONFIG_NOSYSTEM'', ''GIT_CONFIG_COUNT'',
     ''GIT_CONFIG_PARAMETERS'', ''GIT_REPLACE_REF_BASE'', ''GIT_SHALLOW_FILE'', ''GIT_GRAFT_FILE'',
     ''GIT_PREFIX'', ''GIT_EXEC_PATH'', ''GIT_EXTERNAL_DIFF'', ''GIT_DIFF_OPTS'', ''GIT_TEMPLATE_DIR'',
     ''GIT_FSMONITOR_TEST'']"

definition routing_name :: "string \<Rightarrow> bool" where
  "routing_name n = (n \<in> set routing_names \<or> prefix ''GIT_CONFIG_KEY_'' n
     \<or> prefix ''GIT_CONFIG_VALUE_'' n \<or> prefix ''GIT_TRACE'' n)"

definition sanitize_environment :: "environment \<Rightarrow> environment" where
  "sanitize_environment e = bt_extend (filter (\<lambda>(n, _). \<not> routing_name n) e)
     [(''GIT_PAGER'', ''cat''), (''GIT_OPTIONAL_LOCKS'', ''0''), (''GIT_TERMINAL_PROMPT'', ''0''), (''LC_ALL'', ''C'')]"

definition run_git :: "'g machine \<Rightarrow> path \<Rightarrow> path \<Rightarrow> string list \<Rightarrow> nat \<Rightarrow> nat \<Rightarrow> ('g, git_output) op" where
  "run_git m executable cwd args timeout lim = gm_execute m \<lparr>gk_program = executable, gk_args = args,
     gk_cwd = cwd, gk_env = sanitize_environment (gm_host_env m)\<rparr> timeout lim"

definition executable_file :: "file_meta \<Rightarrow> bool" where
  "executable_file f = (fm_is_file f \<and> Bit_Operations.and (fm_mode f) 73 \<noteq> 0)"

definition executable_from_path :: "'g machine \<Rightarrow> path \<Rightarrow> ('g, path) op" where
  "executable_from_path m p =
    op_ensure (is_absolute p) ''Git executable must be an absolute path''
    (op_try (op_context ''resolve Git executable'' (gm_canonicalize m p)) (\<lambda>e.
     op_try (op_context ''inspect Git executable'' (gm_metadata m e)) (\<lambda>f.
     op_ensure (executable_file f) ''Git executable must be an executable regular file''
     (op_try (run_git m e ''/'' [''--version''] 2000 4096) (\<lambda>out.
      op_ensure (go_code out = Some 0 \<and> prefix ''git version '' (go_stdout out))
        ''selected executable did not identify itself as Git'' (op_return e))))))"

text \<open>The search over the directories of \<open>PATH\<close>: the first executable match decides.\<close>

fun search_git :: "'g machine \<Rightarrow> path list \<Rightarrow> ('g, path) op" where
  "search_git m [] = op_fail (Bail ''Git executable was not found in absolute PATH directories'')"
| "search_git m (d # ds) = op_try (op_result (gm_metadata m (join_path d ''git''))) (\<lambda>r.
     if (case r of Inl _ \<Rightarrow> False | Inr f \<Rightarrow> executable_file f)
     then executable_from_path m (join_path d ''git'') else search_git m ds)"

definition discover_executable :: "'g machine \<Rightarrow> ('g, path) op" where
  "discover_executable m =
    op_try (op_lift (context_opt (map_of (gm_host_env m) ''PATH'')
      ''PATH is unavailable; select an absolute Git executable'')) (\<lambda>search.
    search_git m (filter is_absolute (split_on (CHR '':'') search)))"

section \<open>The repository binding\<close>

definition same_repository :: "repository \<Rightarrow> repository \<Rightarrow> bool" where
  "same_repository a b = (path_eq (rp_root a) (rp_root b) \<and> path_eq (rp_git_dir a) (rp_git_dir b)
     \<and> path_eq (rp_common_dir a) (rp_common_dir b))"

definition discover_rev_parse :: "'g machine \<Rightarrow> path \<Rightarrow> path \<Rightarrow> string \<Rightarrow> ('g, path) op" where
  "discover_rev_parse m executable cwd option =
    op_try (run_git m executable cwd [''--no-pager'', ''-c'', ''core.fsmonitor='', ''-c'', ''core.quotePath=false'',
      ''-c'', ''color.ui=false'', ''rev-parse'', option] 5000 65536) (\<lambda>out.
    op_ensure (go_code out = Some 0) ''Git repository discovery failed''
    (op_try (op_lift (context_opt (strip_end newline (go_stdout out)) ''Git path response is incomplete'')) (\<lambda>b.
     op_ensure (b \<noteq> [] \<and> nul \<notin> set b) ''Git returned an invalid repository path''
     (op_try (op_context ''resolve Git-reported repository path''
        (gm_canonicalize m (if is_absolute b then b else join_path cwd b))) (\<lambda>c.
      op_try (op_result (gm_metadata m c)) (\<lambda>f.
      op_ensure (case f of Inl _ \<Rightarrow> False | Inr f \<Rightarrow> fm_is_dir f)
        ''Git-reported repository path is not a directory'' (op_return c)))))))"

definition discover_repository :: "'g machine \<Rightarrow> path \<Rightarrow> path \<Rightarrow> ('g, repository) op" where
  "discover_repository m executable p =
    op_try (op_context ''resolve repository location'' (gm_canonicalize m p)) (\<lambda>cwd.
    op_try (op_result (gm_metadata m cwd)) (\<lambda>f.
    op_ensure (case f of Inl _ \<Rightarrow> False | Inr f \<Rightarrow> fm_is_dir f) ''repository location must be a directory''
    (op_try (discover_rev_parse m executable cwd ''--show-toplevel'') (\<lambda>root.
     op_try (discover_rev_parse m executable cwd ''--absolute-git-dir'') (\<lambda>git.
     op_try (discover_rev_parse m executable cwd ''--git-common-dir'') (\<lambda>common.
     op_try (discover_rev_parse m executable cwd ''--absolute-git-dir'') (\<lambda>again.
     op_ensure (path_eq again git) ''repository binding changed during discovery; retry''
     (op_return \<lparr>rp_root = root, rp_git_dir = git, rp_common_dir = common\<rparr>))))))))"

definition verify_repository :: "'g machine \<Rightarrow> path \<Rightarrow> repository \<Rightarrow> ('g, unit) op" where
  "verify_repository m executable r =
    op_ensure (is_absolute (rp_root r) \<and> is_absolute (rp_git_dir r) \<and> is_absolute (rp_common_dir r))
      ''stored repository binding must use absolute paths''
    (op_try (discover_repository m executable (rp_root r)) (\<lambda>observed.
     op_ensure (same_repository observed r)
       ''repository/worktree binding changed; review the project repository before continuing'' (op_return ())))"

section \<open>The service\<close>

record git_service =
  gs_git :: path
  gs_binding :: repository
  gs_environment :: environment
  gs_version :: "nat \<times> nat"
  gs_id :: string

definition READ_LIMIT :: nat where "READ_LIMIT = 8388608"
definition INDEX_LIMIT :: nat where "INDEX_LIMIT = 67108864"
definition DIFF_LIMIT :: nat where "DIFF_LIMIT = 1048576"
definition CONFIG_LIMIT :: nat where "CONFIG_LIMIT = 262144"
definition READ_TIMEOUT :: nat where "READ_TIMEOUT = 10000"

definition common_arguments :: "string list" where
  "common_arguments = [''--no-pager'', ''--literal-pathspecs'', ''-c'', ''core.fsmonitor='', ''-c'', ''color.ui=false'',
     ''-c'', ''log.showSignature=false'', ''-c'', ''submodule.recurse=false'', ''-c'', ''gc.auto=0'',
     ''-c'', ''maintenance.auto=false'']"

definition read_prepared :: "'g machine \<Rightarrow> git_service \<Rightarrow> string list \<Rightarrow> nat \<Rightarrow> string list \<Rightarrow> ('g, git_output) op" where
  "read_prepared m v args lim overrides = gm_execute m \<lparr>gk_program = gs_git v,
     gk_args = common_arguments @ overrides @ args, gk_cwd = rp_root (gs_binding v),
     gk_env = bt_insert ''GIT_TERMINAL_PROMPT'' ''0'' (gs_environment v)\<rparr> READ_TIMEOUT lim"

definition read_config :: "'g machine \<Rightarrow> git_service \<Rightarrow> string list \<Rightarrow> nat \<Rightarrow> ('g, git_output) op" where
  "read_config m v args lim = read_prepared m v args lim []"

text \<open>A call that must succeed, and its standard output.\<close>

definition must_read :: "('g, git_output) op \<Rightarrow> string \<Rightarrow> ('g, string) op" where
  "must_read f action = op_try f (\<lambda>out. op_try (op_lift (require_success out action)) (\<lambda>_. op_return (go_stdout out)))"

section \<open>Policies for reading\<close>

definition filter_pattern :: string where
  "filter_pattern = ''^filter'' @ [CHR 0x5C] @ ''..*'' @ [CHR 0x5C] @ ''.(clean|smudge|process|required)$''"

definition filter_driver :: "string \<Rightarrow> string res" where
  "filter_driver field =
    and_then (git_text field) (\<lambda>t.
    ensure (CHR ''='' \<notin> set t \<and> \<not> has_control t)
      ''conversion filter key cannot be safely overridden for inspection''
    (and_then (context_opt (split_last (CHR ''.'') t) ''invalid conversion filter key'') (\<lambda>(driver, _). Inr driver)))"

definition driver_overrides :: "string \<Rightarrow> string list" where
  "driver_overrides d = [''-c'', d @ ''.clean='', ''-c'', d @ ''.smudge='', ''-c'', d @ ''.process='',
     ''-c'', d @ ''.required=false'']"

text \<open>A \<open>BTreeSet\<close> of strings as its sorted list.\<close>

definition bt_set :: "string list \<Rightarrow> string list" where
  "bt_set xs = bt_keys (bt_extend [] (map (\<lambda>x. (x, ())) xs))"

definition read_filter_overrides :: "'g machine \<Rightarrow> git_service \<Rightarrow> ('g, string list) op" where
  "read_filter_overrides m v =
    op_try (read_config m v [''config'', ''--null'', ''--name-only'', ''--get-regexp'', filter_pattern] CONFIG_LIMIT) (\<lambda>out.
    if go_code out = Some 1 then op_return [] else
    op_try (op_lift (require_success out ''inspect conversion filter policy'')) (\<lambda>_.
    op_try (op_lift (map_res filter_driver (filter (\<lambda>f. f \<noteq> []) (split_on nul (go_stdout out))))) (\<lambda>ds.
    op_ensure (length (bt_set ds) \<le> 256) ''too many configured conversion filters''
    (op_return (concat (map driver_overrides (bt_set ds)))))))"

definition partial_pattern :: string where
  "partial_pattern = ''^(extensions'' @ [CHR 0x5C] @ ''.partialclone|remote'' @ [CHR 0x5C] @ ''..*'' @ [CHR 0x5C]
     @ ''.(promisor|partialclonefilter))$''"

definition split_config_entry :: "string \<Rightarrow> (string \<times> string) res" where
  "split_config_entry b =
    and_then (context_opt (split_first (\<lambda>c. c = CHR 0x0A) b) ''invalid config entry'') (\<lambda>(k, w).
    and_then (git_text k) (\<lambda>k. and_then (git_text w) (\<lambda>w. Inr (k, w))))"

text \<open>\<open>trim().to_ascii_lowercase()\<close> over code points.\<close>

definition trim_codes :: "nat list \<Rightarrow> nat list" where
  "trim_codes s = rev (dropWhile is_whitespace (rev (dropWhile is_whitespace s)))"

definition config_disabled :: "string \<Rightarrow> bool" where
  "config_disabled w = (map lower_code (trim_codes (chars w))
     \<in> set (map bytes_of [''false'', ''0'', ''off'', ''no'']))"

definition lazy_fetch_entry :: "string \<Rightarrow> unit res" where
  "lazy_fetch_entry b = and_then (split_config_entry b) (\<lambda>(k, w).
     ensure (\<not> (if strip_end ''.promisor'' k \<noteq> None then \<not> config_disabled w else w \<noteq> []))
       ''this Git version cannot suppress lazy fetch in a partial clone; object inspection is unavailable without network''
       (Inr ()))"

definition reject_unsafe_lazy_fetch :: "'g machine \<Rightarrow> git_service \<Rightarrow> ('g, unit) op" where
  "reject_unsafe_lazy_fetch m v =
    (if version_le (2, 46) (gs_version v) then op_return () else
     op_try (read_config m v [''config'', ''--null'', ''--get-regexp'', partial_pattern] CONFIG_LIMIT) (\<lambda>out.
     if go_code out = Some 1 then op_return () else
     op_try (op_lift (require_success out ''inspect partial clone policy'')) (\<lambda>_.
     op_lift (check_all lazy_fetch_entry (filter (\<lambda>e. e \<noteq> []) (split_on nul (go_stdout out)))))))"

definition git_read :: "'g machine \<Rightarrow> git_service \<Rightarrow> string list \<Rightarrow> nat \<Rightarrow> ('g, git_output) op" where
  "git_read m v args lim =
    op_try (read_filter_overrides m v) (\<lambda>filters.
    op_try (reject_unsafe_lazy_fetch m v) (\<lambda>_.
    read_prepared m v args lim filters))"

end
