(* ===== verification/Git_Observe.thy ===== *)
theory Git_Observe
  imports Git_Machine
begin

text \<open>
  What the Git service observes (\<open>git/service.rs\<close>): the binding, the head, the index, the
  snapshot with its double check and its short cache, diffs, history, branches and the checks of
  branch names and commits.
\<close>

section \<open>The binding and the head\<close>

definition rev_parse_path :: "'g machine \<Rightarrow> git_service \<Rightarrow> string \<Rightarrow> ('g, path) op" where
  "rev_parse_path m v option =
    op_try (must_read (read_config m v [''rev-parse'', option] CONFIG_LIMIT) ''verify repository binding'') (\<lambda>b.
    op_try (op_lift (path_line b (rp_root (gs_binding v)))) (\<lambda>p.
    op_context ''resolve repository binding'' (gm_canonicalize m p)))"

definition binding_changed :: string where
  "binding_changed = ''repository/worktree binding changed; reconnect explicitly before Git operations''"

definition verify_binding :: "'g machine \<Rightarrow> git_service \<Rightarrow> ('g, unit) op" where
  "verify_binding m v = (let b = gs_binding v in
    op_try (rev_parse_path m v ''--show-toplevel'') (\<lambda>p. op_ensure (path_eq p (rp_root b)) binding_changed
    (op_try (rev_parse_path m v ''--absolute-git-dir'') (\<lambda>p. op_ensure (path_eq p (rp_git_dir b)) binding_changed
    (op_try (rev_parse_path m v ''--git-common-dir'') (\<lambda>p. op_ensure (path_eq p (rp_common_dir b)) binding_changed
    (op_try (rev_parse_path m v ''--absolute-git-dir'') (\<lambda>p. op_ensure (path_eq p (rp_git_dir b))
      ''repository changed during verification'' (op_return ())))))))))"

definition git_metadata_path :: "'g machine \<Rightarrow> git_service \<Rightarrow> string \<Rightarrow> ('g, path) op" where
  "git_metadata_path m v name =
    op_try (must_read (read_config m v [''rev-parse'', ''--git-path'', name] CONFIG_LIMIT) ''locate actual Git metadata'') (\<lambda>b.
    op_lift (path_line b (rp_root (gs_binding v))))"

text \<open>A line that is an object id.\<close>

definition oid_line :: "string \<Rightarrow> string res" where
  "oid_line b = and_then (and_then (trim_line b) git_text) parse_object_id"

definition head_op :: "'g machine \<Rightarrow> git_service \<Rightarrow> ('g, git_head) op" where
  "head_op m v =
    op_try (read_config m v [''symbolic-ref'', ''--quiet'', ''HEAD''] CONFIG_LIMIT) (\<lambda>symbolic.
    op_try (if go_code symbolic = Some 0 then op_lift (map_sum id Some (and_then (trim_line (go_stdout symbolic)) git_text))
            else if go_code symbolic = Some 1 then op_return None
            else op_fail (Bail ''cannot inspect symbolic HEAD'')) (\<lambda>reference.
    op_try (git_read m v [''rev-parse'', ''--verify'', ''HEAD^{commit}''] CONFIG_LIMIT) (\<lambda>resolved.
    if go_code resolved = Some 0 then
      op_lift (and_then (oid_line (go_stdout resolved)) (\<lambda>oid.
        Inr (case reference of Some r \<Rightarrow> OnBranch r oid | None \<Rightarrow> Detached oid)))
    else
      op_try (case reference of None \<Rightarrow> op_return None
        | Some r \<Rightarrow> op_try (read_config m v [''show-ref'', ''--verify'', ''--quiet'', r] CONFIG_LIMIT) (\<lambda>exists.
            op_return (if go_code exists = Some 1 then Some (Unborn r) else None))) (\<lambda>unborn.
      op_lift (context_opt unborn ''HEAD object is unavailable or invalid; it is not assumed unborn'')))))"

section \<open>The index\<close>

definition index_file_digest :: "'g machine \<Rightarrow> path \<Rightarrow> ('g, string) op" where
  "index_file_digest m p =
    op_try (op_result (gm_index m p)) (\<lambda>r.
    case r of Inl e \<Rightarrow> if e = NotFound then op_return ''absent'' else op_fail (Bail ''open actual index'')
    | Inr (before', bytes, after) \<Rightarrow>
        op_ensure (im_is_file before' \<and> im_len before' \<le> INDEX_LIMIT) ''index is not a bounded regular file''
        (op_ensure (length bytes \<le> INDEX_LIMIT) ''index exceeded read limit''
        (op_ensure (im_identity before' = im_identity after \<and> im_len before' = im_len after
            \<and> im_mtime before' = im_mtime after) ''index changed while reading''
          (op_return (fingerprint m [bytes])))))"

definition index_entry :: "string \<Rightarrow> unit res" where
  "index_entry entry =
    and_then (context_opt (split_first (\<lambda>c. c = CHR 0x09) entry) ''invalid index entry'') (\<lambda>(header, name).
    and_then (git_path name) (\<lambda>_.
    and_then (git_text header) (\<lambda>h. let fs = split_on (CHR '' '') h in
      ensure (length fs = 3 \<and> fs ! 2 \<in> {''0'', ''1'', ''2'', ''3''}) ''invalid index stage''
      (and_then (parse_object_id (fs ! 1)) (\<lambda>_. Inr ())))))"

definition validate_index :: "string \<Rightarrow> unit res" where
  "validate_index b = ensure (b = [] \<or> ends_with_nul b) ''incomplete actual index response''
     (check_all index_entry (filter (\<lambda>e. e \<noteq> []) (split_on nul b)))"

section \<open>The snapshot\<close>

definition status_arguments :: "string list" where
  "status_arguments = [''status'', ''--porcelain=v2'', ''-z'', ''--branch'', ''--untracked-files=all'',
     ''--ignore-submodules=dirty'']"

text \<open>One inspection: \<open>None\<close> when the index or the head moved meanwhile.\<close>

definition inspect_once :: "'g machine \<Rightarrow> git_service \<Rightarrow> string list \<Rightarrow> ('g, git_snapshot option) op" where
  "inspect_once m v filters =
    op_try (head_op m v) (\<lambda>head.
    op_try (git_metadata_path m v ''index'') (\<lambda>index.
    op_try (index_file_digest m index) (\<lambda>before'.
    op_try (must_read (read_prepared m v [''ls-files'', ''--stage'', ''-z''] INDEX_LIMIT filters) ''read actual index'') (\<lambda>logical.
    op_try (op_lift (validate_index logical)) (\<lambda>_.
    op_try (must_read (read_prepared m v status_arguments READ_LIMIT filters) ''read status'') (\<lambda>status.
    op_try (op_lift (parse_status status)) (\<lambda>parsed.
    op_try (index_file_digest m index) (\<lambda>after.
    if before' \<noteq> after then op_return None else
    op_try (head_op m v) (\<lambda>head'.
    if head \<noteq> head' then op_return None else
    op_return (Some
      \<lparr>gn_revision = \<lparr>gv_repository = gs_binding v, gv_head = head,
          gv_index_digest = fingerprint m [''idk-index-v1'', after, logical]\<rparr>,
       gn_entries = po_entries parsed, gn_upstream = po_upstream parsed,
       gn_ahead = po_ahead parsed, gn_behind = po_behind parsed,
       gn_conversion_filters_disabled = (filters \<noteq> []),
       gn_submodule_worktrees_unchecked = list_ex (prefix ''160000 '') (split_on nul logical)\<rparr>))))))))))"

fun inspect_times :: "nat \<Rightarrow> 'g machine \<Rightarrow> git_service \<Rightarrow> string list \<Rightarrow> ('g, git_snapshot) op" where
  "inspect_times 0 m v filters =
    op_fail (Bail ''repository/index changed during inspection; refresh before continuing'')"
| "inspect_times (Suc n) m v filters =
    op_try (inspect_once m v filters) (\<lambda>r.
    case r of Some s \<Rightarrow> op_return s | None \<Rightarrow> inspect_times n m v filters)"

definition snapshot_op :: "'g machine \<Rightarrow> git_service \<Rightarrow> ('g, git_snapshot) op" where
  "snapshot_op m v =
    op_try (verify_binding m v) (\<lambda>_.
    op_try (read_filter_overrides m v) (\<lambda>filters.
    op_try (reject_unsafe_lazy_fetch m v) (\<lambda>_.
    inspect_times 2 m v filters)))"

text \<open>
  The state of a service and its plans: the machine, the status cache (the time it was taken),
  the source-use gate, and the one-shot state that the clones of each plan share.
\<close>

record 'g git_state =
  gt_machine :: 'g
  gt_cache :: "(nat \<times> git_snapshot) option"
  gt_gate :: source_gate
  gt_plans :: "string \<Rightarrow> nat"

definition on_machine :: "('g, 'a) op \<Rightarrow> ('g git_state, 'a) op" where
  "on_machine f = (\<lambda>s. case f (gt_machine s) of (r, g) \<Rightarrow> (r, s\<lparr>gt_machine := g\<rparr>))"

definition status_cached :: "'g machine \<Rightarrow> git_service \<Rightarrow> bool \<Rightarrow> ('g git_state, git_snapshot) op" where
  "status_cached m v force =
    op_try (op_get (\<lambda>s. case gt_cache s of None \<Rightarrow> None
      | Some (t, n) \<Rightarrow> if \<not> force \<and> gm_now m (gt_machine s) - t < 200 then Some n else None)) (\<lambda>hit.
    case hit of Some n \<Rightarrow> op_return n
    | None \<Rightarrow> op_try (on_machine (snapshot_op m v)) (\<lambda>n.
        op_try (op_modify (\<lambda>s. s\<lparr>gt_cache := Some (gm_now m (gt_machine s), n)\<rparr>)) (\<lambda>_. op_return n)))"

definition git_status :: "'g machine \<Rightarrow> git_service \<Rightarrow> ('g git_state, git_snapshot) op" where
  "git_status m v = status_cached m v False"

definition refresh :: "'g machine \<Rightarrow> git_service \<Rightarrow> ('g git_state, git_snapshot) op" where
  "refresh m v = status_cached m v True"

section \<open>Diff, history and branches\<close>

record diff_view =
  dv_text :: string
  dv_truncated :: bool
  dv_binary :: bool
  dv_conversion_filters_disabled :: bool

definition diff_arguments :: "diff_target \<Rightarrow> git_path option \<Rightarrow> string list" where
  "diff_arguments target p = [''diff'', ''--no-ext-diff'', ''--no-textconv'', ''--no-color'', ''--no-renames'',
      ''--ignore-submodules=dirty'', ''--submodule=short'', ''--ita-invisible-in-index'']
    @ (if target = IndexDiff then [''--cached''] else []) @ [''--''] @ (case p of None \<Rightarrow> [] | Some f \<Rightarrow> [f])"

definition diff_op :: "'g machine \<Rightarrow> git_service \<Rightarrow> diff_target \<Rightarrow> git_path option \<Rightarrow> ('g, diff_view) op" where
  "diff_op m v target p =
    op_try (verify_binding m v) (\<lambda>_.
    op_try (read_filter_overrides m v) (\<lambda>filters.
    op_try (reject_unsafe_lazy_fetch m v) (\<lambda>_.
    op_try (op_result (read_prepared m v (diff_arguments target p) DIFF_LIMIT filters)) (\<lambda>r.
    case r of
      Inr out \<Rightarrow> op_try (op_lift (require_success out ''read diff'')) (\<lambda>_.
        op_return \<lparr>dv_text = display_patch (gm_escape m) (go_stdout out), dv_truncated = False,
          dv_binary = contains_text ''Binary files '' (go_stdout out),
          dv_conversion_filters_disabled = (filters \<noteq> [])\<rparr>)
    | Inl e \<Rightarrow> if contains_text ''output limit'' (error_text e) then
        op_return \<lparr>dv_text = ''Diff exceeds the preview limit; select a file for a smaller view.'',
          dv_truncated = True, dv_binary = False, dv_conversion_filters_disabled = (filters \<noteq> [])\<rparr>
      else op_fail e))))"

definition history_op :: "'g machine \<Rightarrow> git_service \<Rightarrow> nat \<Rightarrow> ('g, commit_summary list) op" where
  "history_op m v n =
    op_ensure (1 \<le> n \<and> n \<le> 200) ''history limit must be 1-200''
    (op_try (verify_binding m v) (\<lambda>_.
     op_try (head_op m v) (\<lambda>h.
     if head_oid h = None then op_return [] else
     op_try (must_read (git_read m v [''log'', ''--no-show-signature'', ''-z'', ''--format=%H%x00%P%x00%an%x00%at%x00%s'',
       ''-n'' @ string_of_nat n, ''HEAD'', ''--''] READ_LIMIT) ''read history'') (\<lambda>b.
     op_lift (parse_history (gm_escape m) b)))))"

definition commit_files :: "'g machine \<Rightarrow> git_service \<Rightarrow> string \<Rightarrow> ('g, git_change list) op" where
  "commit_files m v oid =
    op_try (verify_binding m v) (\<lambda>_.
    op_try (must_read (git_read m v [''diff-tree'', ''--root'', ''-r'', ''--raw'', ''-z'', ''--no-abbrev'', ''--no-renames'',
      ''--no-commit-id'', ''--no-ext-diff'', ''--no-textconv'', oid, ''--''] READ_LIMIT) ''read commit files'') (\<lambda>b.
    op_lift (parse_raw_diff b)))"

record branch =
  br_name :: string
  br_reference :: string
  br_oid :: string
  br_current :: bool
  br_upstream :: "string option"

definition branch_line :: "string \<Rightarrow> branch res" where
  "branch_line line = (let fs = split_on nul line in
    ensure (length fs = 5 \<and> fs ! 4 = []) ''invalid branch response''
    (and_then (git_text (fs ! 0)) (\<lambda>reference.
     and_then (context_opt (strip_text ''refs/heads/'' reference) ''invalid local branch ref'') (\<lambda>name.
     and_then (and_then (git_text (fs ! 1)) parse_object_id) (\<lambda>oid.
     and_then (if fs ! 3 = [] then Inr None else map_sum id Some (git_text (fs ! 3))) (\<lambda>upstream.
     Inr \<lparr>br_name = name, br_reference = reference, br_oid = oid, br_current = (fs ! 2 = ''*''),
          br_upstream = upstream\<rparr>))))))"

definition output_lines :: "string \<Rightarrow> string list" where
  "output_lines b = filter (\<lambda>l. l \<noteq> []) (split_on (CHR 0x0A) b)"

definition branches :: "'g machine \<Rightarrow> git_service \<Rightarrow> ('g, branch list) op" where
  "branches m v =
    op_try (verify_binding m v) (\<lambda>_.
    op_try (must_read (git_read m v [''for-each-ref'', ''--format=%(refname)%00%(objectname)%00%(HEAD)%00%(upstream)%00'',
      ''refs/heads/''] READ_LIMIT) ''list branches'') (\<lambda>b.
    op_lift (map_res branch_line (output_lines b))))"

definition staged_raw :: "'g machine \<Rightarrow> git_service \<Rightarrow> ('g, string) op" where
  "staged_raw m v = must_read (git_read m v [''diff'', ''--cached'', ''--raw'', ''-z'', ''--no-abbrev'', ''--no-renames'',
     ''--no-ext-diff'', ''--no-textconv'', ''--ita-invisible-in-index'', ''--''] READ_LIMIT) ''read full staged index delta''"

definition validate_branch :: "'g machine \<Rightarrow> git_service \<Rightarrow> string \<Rightarrow> ('g, unit) op" where
  "validate_branch m v name =
    op_ensure (name \<noteq> [] \<and> length name \<le> 1024 \<and> hd name \<noteq> CHR ''-'' \<and> \<not> contains_text [CHR ''@'', CHR 0x7B] name
        \<and> \<not> has_control name) ''invalid explicit branch name''
    (op_try (must_read (read_config m v [''check-ref-format'', ''--branch'', name] CONFIG_LIMIT) ''validate branch name'')
      (\<lambda>_. op_return ()))"

definition branch_oid :: "'g machine \<Rightarrow> git_service \<Rightarrow> string \<Rightarrow> ('g, string option) op" where
  "branch_oid m v name =
    op_try (read_config m v [''show-ref'', ''--verify'', ''--hash'', ''refs/heads/'' @ name] CONFIG_LIMIT) (\<lambda>out.
    if go_code out = Some 0 then op_lift (map_sum id Some (oid_line (go_stdout out)))
    else if go_code out = Some 1 then op_return None else
    op_try (must_read (read_config m v [''for-each-ref'', ''--format=%(objectname)'', ''refs/heads/'' @ name] CONFIG_LIMIT)
      ''inspect branch'') (\<lambda>listed.
    op_ensure (listed = []) ''branch reference could not be verified'' (op_return None)))"

definition verify_commit :: "'g machine \<Rightarrow> git_service \<Rightarrow> string \<Rightarrow> ('g, unit) op" where
  "verify_commit m v oid =
    op_try (must_read (git_read m v [''cat-file'', ''-e'', oid @ ''^{commit}''] CONFIG_LIMIT) ''verify starting commit'')
      (\<lambda>_. op_return ())"

section \<open>Opening a service\<close>

definition environment_size :: "environment \<Rightarrow> nat" where
  "environment_size e = sum_list (map (\<lambda>(k, w). length k + length w + 2) e)"

definition service_environment :: "environment \<Rightarrow> environment res" where
  "service_environment e =
    ensure (length e \<le> 1024) ''Git environment exceeds 1024 entries''
    (ensure (environment_size e \<le> 262144) ''Git environment exceeds 256 KiB''
    (ensure (list_all (\<lambda>(k, w). k \<noteq> [] \<and> CHR ''='' \<notin> set k \<and> nul \<notin> set k \<and> nul \<notin> set w) e)
      ''invalid Git environment entry''
    (Inr (bt_insert ''GIT_NO_LAZY_FETCH'' ''1'' (fold bt_remove
       [''GIT_GLOB_PATHSPECS'', ''GIT_NOGLOB_PATHSPECS'', ''GIT_ICASE_PATHSPECS'', ''GIT_LITERAL_PATHSPECS'',
        ''GIT_FSMONITOR_TEST''] (sanitize_environment e))))))"

definition new_service :: "'g machine \<Rightarrow> path \<Rightarrow> repository \<Rightarrow> environment \<Rightarrow> string \<Rightarrow> ('g, git_service) op" where
  "new_service m git binding e fresh =
    op_try (op_lift (service_environment e)) (\<lambda>e.
    op_try (run_git m git ''/'' [''--version''] 2000 4096) (\<lambda>out.
    op_try (op_lift (parse_version (go_stdout out))) (\<lambda>version.
    op_ensure (version_le (2, 18) version) ''Git 2.18 or newer is required for this workflow''
    (let v = \<lparr>gs_git = git, gs_binding = binding, gs_environment = e, gs_version = version, gs_id = fresh\<rparr> in
     op_try (verify_binding m v) (\<lambda>_. op_return v)))))"

end
