(* ===== verification/Git_Remote.thy ===== *)
theory Git_Remote
  imports Git_Observe
begin

text \<open>
  Remotes (\<open>git/service.rs\<close>): the endpoints Git resolves for a configured remote, their redacted
  display and digests, the transports that are refused, and the local tracking reference of a
  branch.
\<close>

section \<open>Endpoints\<close>

definition known_schemes :: "string list" where
  "known_schemes = [''http'', ''https'', ''ssh'', ''git'', ''file'']"

definition redacted_host :: "string \<Rightarrow> string \<times> string option" where
  "redacted_host authority = (case split_last (CHR ''@'') authority of
     Some (userinfo, host) \<Rightarrow> (''[redacted]@'' @ host, Some userinfo)
   | None \<Rightarrow> (authority, None))"

text \<open>The displayed endpoint, whether it embeds credentials, whether its transport is refused.\<close>

definition redact_url :: "string \<Rightarrow> string \<Rightarrow> string \<times> bool \<times> bool" where
  "redact_url scheme rest =
    (let (rest, query) = (case split_first (\<lambda>c. c \<in> {CHR ''?'', CHR ''#''}) rest of
           None \<Rightarrow> (rest, False) | Some (p, _) \<Rightarrow> (p, True));
         (authority, path) = (case split_first (\<lambda>c. c = CHR ''/'') rest of
           None \<Rightarrow> (rest, []) | Some (host, path) \<Rightarrow> (host, path));
         (host, userinfo) = redacted_host authority;
         credentials = (case userinfo of None \<Rightarrow> False | Some u \<Rightarrow> scheme \<noteq> ''ssh'' \<or> CHR '':'' \<in> set u);
         slash = (if path = [] then [] else ''/'')
     in (scheme @ ''://'' @ host @ slash @ path @ (if query then ''[redacted parameters]'' else []),
         credentials \<or> query, False))"

definition redact_scp :: "string \<Rightarrow> string \<times> bool \<times> bool" where
  "redact_scp w =
    (case split_first (\<lambda>c. c = CHR '':'') w of
       Some (host, path) \<Rightarrow> if CHR ''/'' \<in> set host then (w, False, False)
         else (fst (redacted_host host) @ '':'' @ path, False, False)
     | None \<Rightarrow> (w, False, False))"

definition redact_endpoint :: "string \<Rightarrow> string \<times> bool \<times> bool" where
  "redact_endpoint w =
    (case split_once_at ''://'' w of
       Some (scheme, rest) \<Rightarrow> if scheme \<notin> set known_schemes then (''[unsupported transport]'', False, True)
         else redact_url scheme rest
     | None \<Rightarrow> if contains_text ''::'' w then (''[unsupported transport]'', False, True) else redact_scp w)"

record git_remote =
  rm_name :: string
  rm_fetch_urls :: "string list"
  rm_push_urls :: "string list"
  rm_embedded_credentials :: bool

record remote_target =
  rt_remote :: git_remote
  rt_destination :: "string option"
  rt_source :: "string option"
  rt_cached_remote_tip :: "string option"
  rt_ahead :: "nat option"
  rt_behind :: "nat option"

record remote_state =
  rs_view :: git_remote
  rs_fetch_digest :: string
  rs_push_digest :: string
  rs_fetch_unsafe :: bool
  rs_push_unsafe :: bool

definition summarize :: "string list \<Rightarrow> string list \<times> bool \<times> bool" where
  "summarize ws = (map (\<lambda>w. fst (redact_endpoint w)) ws,
     list_ex (\<lambda>w. fst (snd (redact_endpoint w))) ws, list_ex (\<lambda>w. snd (snd (redact_endpoint w))) ws)"

definition safe_remote :: "remote_state \<Rightarrow> bool \<Rightarrow> unit res" where
  "safe_remote s push = ensure (\<not> (if push then rs_push_unsafe s else rs_fetch_unsafe s))
     ''remote endpoint contains embedded credentials or an unsupported transport; configure a credential helper/agent and a standard endpoint before this operation''
     (Inr ())"

section \<open>The state of a remote\<close>

definition code_in :: "git_output \<Rightarrow> bool" where
  "code_in out = (go_code out = Some 0 \<or> go_code out = Some 1)"

text \<open>How many endpoints of one kind are configured, all without control characters.\<close>

definition count_endpoints :: "'g machine \<Rightarrow> git_service \<Rightarrow> string \<Rightarrow> string \<Rightarrow> ('g, nat) op" where
  "count_endpoints m v name key =
    op_try (read_config m v [''config'', ''--null'', ''--get-all'', ''remote.'' @ name @ ''.'' @ key] CONFIG_LIMIT) (\<lambda>raw.
    op_ensure (code_in raw) ''cannot read remote configuration''
    (let values = filter (\<lambda>w. w \<noteq> []) (split_on nul (go_stdout raw)) in
     op_try (op_lift (check_all (\<lambda>w. and_then (git_text w) (\<lambda>t. ensure (\<not> has_control t)
        ''remote endpoint contains unsupported control characters'' (Inr ()))) values)) (\<lambda>_.
     op_return (length values))))"

definition resolve_endpoints ::
    "'g machine \<Rightarrow> git_service \<Rightarrow> string \<Rightarrow> bool \<Rightarrow> nat \<Rightarrow> ('g, string list) op" where
  "resolve_endpoints m v name push expected =
    op_try (must_read (read_config m v ([''remote'', ''get-url'', ''--all''] @ (if push then [''--push''] else []) @ [name])
      CONFIG_LIMIT) ''resolve remote endpoints'') (\<lambda>b.
    op_try (op_lift (context_opt (strip_end newline b) ''incomplete remote endpoint response'')) (\<lambda>b.
    op_try (op_lift (map_res git_text (split_on (CHR 0x0A) b))) (\<lambda>values.
    op_ensure (length values = expected \<and> list_all (\<lambda>w. w \<noteq> [] \<and> \<not> has_control w) values)
      ''remote endpoint rewrite is ambiguous or contains control characters'' (op_return values))))"

definition state_of_endpoints :: "'g machine \<Rightarrow> string \<Rightarrow> string list \<Rightarrow> string list \<Rightarrow> remote_state" where
  "state_of_endpoints m name fetch push =
    (let (fetch_urls, fetch_credentials, fetch_unsupported) = summarize fetch;
         (push_urls, push_credentials, push_unsupported) = summarize push in
     \<lparr>rs_view = \<lparr>rm_name = name, rm_fetch_urls = fetch_urls, rm_push_urls = push_urls,
        rm_embedded_credentials = (fetch_credentials \<or> push_credentials)\<rparr>,
      rs_fetch_digest = fingerprint m fetch, rs_push_digest = fingerprint m push,
      rs_fetch_unsafe = (fetch_credentials \<or> fetch_unsupported),
      rs_push_unsafe = (push_credentials \<or> push_unsupported)\<rparr>)"

definition remote_state_op :: "'g machine \<Rightarrow> git_service \<Rightarrow> string \<Rightarrow> ('g, remote_state) op" where
  "remote_state_op m v name =
    op_ensure (name \<noteq> [] \<and> length name \<le> 1024 \<and> hd name \<noteq> CHR ''-''
        \<and> \<not> list_ex (\<lambda>c. is_control c \<or> is_whitespace c) (chars name)) ''invalid explicit remote name''
    (op_try (must_read (read_config m v [''remote''] CONFIG_LIMIT) ''list configured remotes'') (\<lambda>listed.
     op_ensure (name \<in> set (split_on (CHR 0x0A) listed)) ''configured remote not found''
     (op_try (count_endpoints m v name ''url'') (\<lambda>urls.
      op_try (count_endpoints m v name ''pushurl'') (\<lambda>pushurls.
      op_ensure (0 < urls) ''remote has no fetch endpoint''
      (op_try (resolve_endpoints m v name False urls) (\<lambda>fetch.
       op_try (resolve_endpoints m v name True (if 0 < pushurls then pushurls else urls)) (\<lambda>push.
       op_return (state_of_endpoints m name fetch push)))))))))"

definition remotes :: "'g machine \<Rightarrow> git_service \<Rightarrow> ('g, git_remote list) op" where
  "remotes m v =
    op_try (verify_binding m v) (\<lambda>_.
    op_try (must_read (read_config m v [''remote''] CONFIG_LIMIT) ''list remotes'') (\<lambda>b.
    op_each (\<lambda>name. op_try (op_lift (git_text name)) (\<lambda>name.
      op_try (remote_state_op m v name) (\<lambda>s. op_return (rs_view s)))) (output_lines b)))"

section \<open>Local tracking\<close>

text \<open>Where a fetch refspec maps a branch: exactly, or by its one wildcard on either side.\<close>

definition refspec_destination :: "string \<Rightarrow> string \<Rightarrow> string option" where
  "refspec_destination source_ref spec =
    (let spec = (case strip_text ''+'' spec of None \<Rightarrow> spec | Some s \<Rightarrow> s) in
     case split_first (\<lambda>c. c = CHR '':'') spec of None \<Rightarrow> None
     | Some (from, to) \<Rightarrow>
         if from = source_ref then Some to else
         (case (split_first (\<lambda>c. c = CHR ''*'') from, split_first (\<lambda>c. c = CHR ''*'') to) of
            (Some (pre, suf), Some (to_pre, to_suf)) \<Rightarrow>
              if CHR ''*'' \<in> set suf \<or> CHR ''*'' \<in> set to_suf then None else
              map_option (\<lambda>middle. to_pre @ middle @ to_suf)
                (Option.bind (strip_text pre source_ref) (strip_end suf))
          | _ \<Rightarrow> None))"

definition tracking_destinations :: "string \<Rightarrow> string \<Rightarrow> string list res" where
  "tracking_destinations source_ref b =
    and_then (map_res git_text (filter (\<lambda>w. w \<noteq> []) (split_on nul b))) (\<lambda>specs.
    Inr (bt_set (List.map_filter (refspec_destination source_ref) specs)))"

definition tracking_tip :: "'g machine \<Rightarrow> git_service \<Rightarrow> string list \<Rightarrow> ('g, string option) op" where
  "tracking_tip m v destinations =
    (if length destinations = 1 \<and> prefix ''refs/'' (hd destinations) \<and> \<not> has_control (hd destinations) then
       op_try (git_read m v [''rev-parse'', ''--verify'', hd destinations @ ''^{commit}''] CONFIG_LIMIT) (\<lambda>out.
       if go_code out = Some 0 then op_lift (map_sum id Some (oid_line (go_stdout out))) else op_return None)
     else op_return None)"

text \<open>Ahead and behind: the two counts, an unparsable one left out.\<close>

definition distance :: "'g machine \<Rightarrow> git_service \<Rightarrow> string option \<Rightarrow> string option
    \<Rightarrow> ('g, nat option \<times> nat option) op" where
  "distance m v tip source =
    (case (tip, source) of (Some t, Some s) \<Rightarrow>
       op_try (git_read m v [''rev-list'', ''--left-right'', ''--count'', t @ ''...'' @ s, ''--''] CONFIG_LIMIT) (\<lambda>out.
       if go_code out = Some 0 then
         op_try (op_lift (and_then (trim_line (go_stdout out)) git_text)) (\<lambda>t.
         let counts = split_whitespace (chars t) in
         op_return (if length counts = 2 then (ok_opt (parse_u64 (counts ! 1)), ok_opt (parse_u64 (counts ! 0)))
           else (None, None)))
       else op_return (None, None))
     | _ \<Rightarrow> op_return (None, None))"

definition remote_target_op ::
    "'g machine \<Rightarrow> git_service \<Rightarrow> git_remote \<Rightarrow> string \<Rightarrow> string option \<Rightarrow> ('g, remote_target) op" where
  "remote_target_op m v remote branch source =
    op_try (read_config m v [''config'', ''--null'', ''--get-all'', ''remote.'' @ rm_name remote @ ''.fetch''] CONFIG_LIMIT) (\<lambda>out.
    op_ensure (code_in out) ''cannot inspect local remote tracking configuration''
    (let source_ref = ''refs/heads/'' @ branch in
     op_try (op_lift (tracking_destinations source_ref (go_stdout out))) (\<lambda>destinations.
     op_try (tracking_tip m v destinations) (\<lambda>tip.
     op_try (distance m v tip source) (\<lambda>(ahead, behind).
     op_return \<lparr>rt_remote = remote, rt_destination = Some source_ref, rt_source = source,
       rt_cached_remote_tip = tip, rt_ahead = ahead, rt_behind = behind\<rparr>)))))"

end
