(* ===== verification/Git_Redact.thy ===== *)
theory Git_Redact
  imports Git_Remote
begin

text \<open>
  The displayed form of a remote endpoint: what stands before the last \<open>@\<close> of the authority and
  after the first \<open>?\<close> or \<open>#\<close> never reaches it, and an endpoint with such parts is flagged.
\<close>

lemma split_first_hit:
  assumes "\<forall>c\<in>set a. \<not> f c" "f d"
  shows "split_first f (a @ d # b) = Some (a, b)"
  using assms by (simp add: split_first_def)

lemma split_first_miss: "\<forall>c\<in>set a. \<not> f c \<Longrightarrow> split_first f a = None"
  by (simp add: split_first_def dropWhile_eq_Nil_conv [THEN iffD2])

lemma split_last_hit:
  assumes "c \<notin> set b"
  shows "split_last c (a @ c # b) = Some (a, b)"
proof -
  have "split_first (\<lambda>x. x = c) (rev b @ c # rev a) = Some (rev b, rev a)"
    using assms by (intro split_first_hit) auto
  then show ?thesis by (simp add: split_last_def)
qed

lemma split_once_at_scheme:
  assumes "CHR '':'' \<notin> set a"
  shows "split_once_at ''://'' (a @ ''://'' @ b) = Some (a, b)"
  using assms by (induction a) auto

text \<open>The path of an endpoint as it is displayed: a bare \<open>/\<close> is left out.\<close>

definition shown_path :: "string \<Rightarrow> string" where
  "shown_path p = (if p = ''/'' then [] else p)"

lemma redact_url_parts:
  assumes "set userinfo \<inter> {CHR ''/'', CHR ''?'', CHR ''#''} = {}"
    and "set host \<inter> {CHR ''/'', CHR ''?'', CHR ''#'', CHR ''@''} = {}"
    and "p = [] \<or> hd p = CHR ''/''" "set p \<inter> {CHR ''?'', CHR ''#''} = {}"
    and "query = [] \<or> hd query \<in> {CHR ''?'', CHR ''#''}"
  shows "redact_url scheme (userinfo @ ''@'' @ host @ p @ query)
    = (scheme @ ''://[redacted]@'' @ host @ shown_path p @ (if query = [] then [] else ''[redacted parameters]''),
       scheme \<noteq> ''ssh'' \<or> CHR '':'' \<in> set userinfo \<or> query \<noteq> [], False)"
proof -
  let ?a = "userinfo @ ''@'' @ host"
  have front: "\<forall>c\<in>set (?a @ p). \<not> (c \<in> {CHR ''?'', CHR ''#''})" "\<forall>c\<in>set ?a. \<not> c = CHR ''/''"
    using assms by auto
  have q: "split_first (\<lambda>c. c \<in> {CHR ''?'', CHR ''#''}) ((?a @ p) @ query)
      = (if query = [] then None else Some (?a @ p, tl query))"
  proof (cases query)
    case (Cons c qs)
    with assms(5) have "c \<in> {CHR ''?'', CHR ''#''}" by simp
    then have "split_first (\<lambda>c. c \<in> {CHR ''?'', CHR ''#''}) ((?a @ p) @ c # qs) = Some (?a @ p, qs)"
      using front(1) by (intro split_first_hit) blast+
    with Cons show ?thesis by simp
  next
    case Nil
    with split_first_miss [OF front(1)] show ?thesis by simp
  qed
  have s: "split_first (\<lambda>c. c = CHR ''/'') (?a @ p) = (if p = [] then None else Some (?a, tl p))"
  proof (cases p)
    case (Cons c qs)
    with assms(3) have "c = CHR ''/''" by simp
    then have "split_first (\<lambda>c. c = CHR ''/'') (?a @ c # qs) = Some (?a, qs)"
      using front(2) by (intro split_first_hit) blast+
    with Cons show ?thesis by simp
  next
    case Nil
    with split_first_miss [OF front(2)] show ?thesis by simp
  qed
  have h: "redacted_host ?a = (''[redacted]@'' @ host, Some userinfo)"
    using assms(2) split_last_hit [of "CHR ''@''" host userinfo] by (simp add: redacted_host_def)
  have path: "p = CHR ''/'' # tl p" if "p \<noteq> []" using that assms(3) by (cases p) auto
  have "redact_url scheme ((?a @ p) @ query)
    = (scheme @ ''://[redacted]@'' @ host @ shown_path p @ (if query = [] then [] else ''[redacted parameters]''),
       scheme \<noteq> ''ssh'' \<or> CHR '':'' \<in> set userinfo \<or> query \<noteq> [], False)"
    unfolding redact_url_def q
    using s h path by (cases "p = []"; cases "tl p = []"; cases "query = []") (auto simp: shown_path_def)
  then show ?thesis by simp
qed

text \<open>
  C7 (redaction_hides_secrets). The displayed form of a URL endpoint is computed from its scheme, host and path alone:
  the user information (a password, a token, even one that contains \<open>@\<close>) and the query or
  fragment do not occur in it, whatever they are.  Such an endpoint is also flagged and so
  refused for fetch, pull and push, except a plain user name of ssh.
\<close>

theorem redaction_hides_secrets:
  assumes "scheme \<in> set known_schemes"
    and "set userinfo \<inter> {CHR ''/'', CHR ''?'', CHR ''#''} = {}"
    and "set host \<inter> {CHR ''/'', CHR ''?'', CHR ''#'', CHR ''@''} = {}"
    and "p = [] \<or> hd p = CHR ''/''" "set p \<inter> {CHR ''?'', CHR ''#''} = {}"
    and "query = [] \<or> hd query \<in> {CHR ''?'', CHR ''#''}"
  shows "redact_endpoint (scheme @ ''://'' @ userinfo @ ''@'' @ host @ p @ query)
    = (scheme @ ''://[redacted]@'' @ host @ shown_path p @ (if query = [] then [] else ''[redacted parameters]''),
       scheme \<noteq> ''ssh'' \<or> CHR '':'' \<in> set userinfo \<or> query \<noteq> [], False)"
proof -
  have "CHR '':'' \<notin> set scheme" using assms(1) by (auto simp: known_schemes_def)
  then show ?thesis
    unfolding redact_endpoint_def
    using assms(1) split_once_at_scheme redact_url_parts [OF assms(2-)] by simp
qed

theorem redaction_hides_secrets_witness:
  "redact_endpoint ''https://me:pa@ss@example.com/x?token=1''
    = (''https://[redacted]@example.com/x[redacted parameters]'', True, False)"
  using redaction_hides_secrets [of "''https''" "''me:pa@ss''" "''example.com''" "''/x''" "''?token=1''"]
  by (simp add: known_schemes_def shown_path_def)

end
