(* ===== verification/Git_Plan.thy ===== *)
theory Git_Plan
  imports Git_Remote
begin

text \<open>
  Reviewed Git operations (\<open>git/service.rs\<close>): the plans that a review produces, their
  revalidation right before execution, the one command each turns into, the one-shot execution
  under the gate's lease, and the assessment of what it did.
\<close>

section \<open>Plans\<close>

datatype operation_kind = Stage | Unstage | Commit | CreateBranch | SwitchBranch | Fetch | PullFastForward | Push

datatype git_operation =
    OpStage "git_path list"
  | OpUnstage "git_path list"
  | OpCommit string string
  | OpCreateBranch string string
  | OpSwitch string string
  | OpFetch string string
  | OpPull string string string
  | OpPush string string string string

record operation_preview =
  ov_id :: string
  ov_kind :: operation_kind
  ov_repository :: repository
  ov_before :: git_revision
  ov_paths :: "git_path list"
  ov_branch :: "string option"
  ov_target_oid :: "string option"
  ov_remote :: "remote_target option"
  ov_requires_source_lease :: bool
  ov_interactive_output_sensitive :: bool

record operation_plan =
  op_preview :: operation_preview
  op_service :: string
  op_operation :: git_operation

record commit_seal =
  se_service :: string
  se_revision :: git_revision
  se_staged_digest :: string

record commit_preview =
  cp_snapshot :: git_snapshot
  cp_staged :: "git_change list"
  cp_diff :: diff_view
  cp_seal :: commit_seal

definition same_revision :: "git_revision \<Rightarrow> git_revision \<Rightarrow> bool" where
  "same_revision a b = (same_repository (gv_repository a) (gv_repository b)
     \<and> gv_head a = gv_head b \<and> gv_index_digest a = gv_index_digest b)"

definition ensure_revision :: "git_revision \<Rightarrow> git_revision \<Rightarrow> unit res" where
  "ensure_revision actual expected = ensure (same_revision actual expected)
     ''repository HEAD/index changed since review; refresh and review again'' (Inr ())"

definition ARG_LIMIT :: nat where "ARG_LIMIT = 131072"

definition validate_selection :: "git_path list \<Rightarrow> unit res" where
  "validate_selection ps = ensure (ps \<noteq> [] \<and> length ps \<le> 4096
      \<and> sum_list (map (\<lambda>p. length p + 1) ps) < ARG_LIMIT - 4096)
     ''select a bounded, nonempty set of files'' (Inr ())"

definition operation_target :: "git_operation \<Rightarrow> string option" where
  "operation_target f = (case f of OpCreateBranch _ start \<Rightarrow> Some start | OpSwitch _ oid \<Rightarrow> Some oid
     | OpPush _ _ source _ \<Rightarrow> Some source | _ \<Rightarrow> None)"

text \<open>A fresh plan; \<open>fresh\<close> is the \<open>new_id()\<close>, whose state starts at 0.\<close>

definition make_plan :: "git_service \<Rightarrow> string \<Rightarrow> git_revision \<Rightarrow> operation_kind \<Rightarrow> git_path list
    \<Rightarrow> string option \<Rightarrow> remote_target option \<Rightarrow> git_operation \<Rightarrow> ('g git_state, operation_plan) op" where
  "make_plan v fresh before' kind paths branch remote operation =
    op_try (op_modify (\<lambda>s. s\<lparr>gt_plans := (gt_plans s)(fresh := 0)\<rparr>)) (\<lambda>_.
    op_return \<lparr>op_preview = \<lparr>ov_id = fresh, ov_kind = kind, ov_repository = gs_binding v, ov_before = before',
        ov_paths = paths, ov_branch = branch, ov_target_oid = operation_target operation, ov_remote = remote,
        ov_requires_source_lease = (kind \<in> {SwitchBranch, PullFastForward}),
        ov_interactive_output_sensitive = True\<rparr>,
      op_service = gs_id v, op_operation = operation\<rparr>)"

definition commit_preview_op :: "'g machine \<Rightarrow> git_service \<Rightarrow> ('g git_state, commit_preview) op" where
  "commit_preview_op m v =
    op_try (refresh m v) (\<lambda>snapshot.
    op_ensure (\<not> snapshot_conflicted snapshot) ''resolve index conflicts before committing''
    (op_try (on_machine (staged_raw m v)) (\<lambda>raw.
     op_try (op_lift (parse_raw_diff raw)) (\<lambda>staged.
     op_try (on_machine (diff_op m v IndexDiff None)) (\<lambda>diff.
     op_try (refresh m v) (\<lambda>after.
     op_ensure (same_revision (gn_revision after) (gn_revision snapshot))
       ''index/HEAD changed while preparing commit review''
     (op_return \<lparr>cp_snapshot = snapshot, cp_staged = staged, cp_diff = diff,
        cp_seal = \<lparr>se_service = gs_id v, se_revision = gn_revision snapshot,
          se_staged_digest = fingerprint m [raw]\<rparr>\<rparr>)))))))"

definition plan_paths :: "'g machine \<Rightarrow> git_service \<Rightarrow> string \<Rightarrow> diff_target \<Rightarrow> operation_kind
    \<Rightarrow> (git_path list \<Rightarrow> git_operation) \<Rightarrow> git_path list \<Rightarrow> git_revision \<Rightarrow> ('g git_state, operation_plan) op" where
  "plan_paths m v fresh target kind operation paths expected =
    op_try (op_lift (validate_selection paths)) (\<lambda>_.
    op_try (refresh m v) (\<lambda>snapshot.
    op_try (op_lift (ensure_revision (gn_revision snapshot) expected)) (\<lambda>_.
    op_ensure (list_all (\<lambda>p. list_ex (\<lambda>e. p \<in> set (change_paths target e)) (gn_entries snapshot)) paths)
      ''selected file is not present in the reviewed status''
    (make_plan v fresh (gn_revision snapshot) kind paths None None (operation paths)))))"

definition plan_stage :: "'g machine \<Rightarrow> git_service \<Rightarrow> string \<Rightarrow> git_path list \<Rightarrow> git_revision \<Rightarrow> ('g git_state, operation_plan) op" where
  "plan_stage m v fresh = plan_paths m v fresh WorktreeDiff Stage OpStage"

definition plan_unstage :: "'g machine \<Rightarrow> git_service \<Rightarrow> string \<Rightarrow> git_path list \<Rightarrow> git_revision \<Rightarrow> ('g git_state, operation_plan) op" where
  "plan_unstage m v fresh = plan_paths m v fresh IndexDiff Unstage OpUnstage"

definition plan_commit :: "'g machine \<Rightarrow> git_service \<Rightarrow> string \<Rightarrow> commit_preview \<Rightarrow> string \<Rightarrow> ('g git_state, operation_plan) op" where
  "plan_commit m v fresh preview message =
    op_ensure (se_service (cp_seal preview) = gs_id v) ''commit review belongs to another service''
    (op_ensure (\<not> trim_is_empty message \<and> length message \<le> 65536 \<and> nul \<notin> set message)
      ''commit message must be nonempty and at most 64 KiB''
    (op_try (refresh m v) (\<lambda>snapshot.
     op_try (op_lift (ensure_revision (gn_revision snapshot) (se_revision (cp_seal preview)))) (\<lambda>_.
     op_try (on_machine (staged_raw m v)) (\<lambda>raw.
     op_ensure (raw \<noteq> []) ''there are no staged changes to commit''
     (op_ensure (fingerprint m [raw] = se_staged_digest (cp_seal preview)) ''staged contents changed since review''
     (make_plan v fresh (gn_revision snapshot) Commit [] None None
        (OpCommit message (se_staged_digest (cp_seal preview))))))))))"

definition plan_branch_create :: "'g machine \<Rightarrow> git_service \<Rightarrow> string \<Rightarrow> string \<Rightarrow> string option \<Rightarrow> ('g git_state, operation_plan) op" where
  "plan_branch_create m v fresh name start =
    op_try (on_machine (validate_branch m v name)) (\<lambda>_.
    op_try (on_machine (branch_oid m v name)) (\<lambda>existing.
    op_ensure (existing = None) ''branch already exists''
    (op_try (refresh m v) (\<lambda>snapshot.
     op_try (op_lift (context_opt (case start of Some c \<Rightarrow> Some c | None \<Rightarrow> head_oid (gv_head (gn_revision snapshot)))
       ''an unborn branch has no starting commit'')) (\<lambda>start.
     op_try (on_machine (verify_commit m v start)) (\<lambda>_.
     make_plan v fresh (gn_revision snapshot) CreateBranch [] (Some name) None (OpCreateBranch name start)))))))"

definition plan_switch :: "'g machine \<Rightarrow> git_service \<Rightarrow> string \<Rightarrow> string \<Rightarrow> git_revision \<Rightarrow> ('g git_state, operation_plan) op" where
  "plan_switch m v fresh name expected =
    op_try (on_machine (validate_branch m v name)) (\<lambda>_.
    op_try (on_machine (branch_oid m v name)) (\<lambda>found.
    op_try (op_lift (context_opt found ''local branch not found; remote branch guessing is disabled'')) (\<lambda>oid.
    op_try (refresh m v) (\<lambda>snapshot.
    op_try (op_lift (ensure_revision (gn_revision snapshot) expected)) (\<lambda>_.
    op_ensure (snapshot_clean snapshot)
      ''working tree/index must be clean before switching branches; no stash or discard is performed''
    (make_plan v fresh (gn_revision snapshot) SwitchBranch [] (Some name) None (OpSwitch name oid)))))))"

definition plan_fetch :: "'g machine \<Rightarrow> git_service \<Rightarrow> string \<Rightarrow> string \<Rightarrow> ('g git_state, operation_plan) op" where
  "plan_fetch m v fresh remote =
    op_try (on_machine (remote_state_op m v remote)) (\<lambda>state.
    op_try (op_lift (safe_remote state False)) (\<lambda>_.
    op_try (refresh m v) (\<lambda>snapshot.
    make_plan v fresh (gn_revision snapshot) Fetch [] None
      (Some \<lparr>rt_remote = rs_view state, rt_destination = None, rt_source = None,
        rt_cached_remote_tip = None, rt_ahead = None, rt_behind = None\<rparr>)
      (OpFetch remote (rs_fetch_digest state)))))"

definition plan_pull_ff_only :: "'g machine \<Rightarrow> git_service \<Rightarrow> string \<Rightarrow> string \<Rightarrow> string \<Rightarrow> git_revision
    \<Rightarrow> ('g git_state, operation_plan) op" where
  "plan_pull_ff_only m v fresh remote branch expected =
    op_try (on_machine (validate_branch m v branch)) (\<lambda>_.
    op_try (on_machine (remote_state_op m v remote)) (\<lambda>state.
    op_try (op_lift (safe_remote state False)) (\<lambda>_.
    op_try (refresh m v) (\<lambda>snapshot.
    op_try (op_lift (ensure_revision (gn_revision snapshot) expected)) (\<lambda>_.
    op_ensure (case gv_head (gn_revision snapshot) of OnBranch _ _ \<Rightarrow> True | _ \<Rightarrow> False)
      ''fast-forward pull requires an existing local branch''
    (op_ensure (snapshot_clean snapshot)
      ''working tree/index must be clean before pull; no automatic stash is performed''
    (op_try (on_machine (remote_target_op m v (rs_view state) branch (head_oid (gv_head (gn_revision snapshot))))) (\<lambda>target.
     make_plan v fresh (gn_revision snapshot) PullFastForward [] (Some branch) (Some target)
       (OpPull remote branch (rs_fetch_digest state))))))))))"

definition plan_push :: "'g machine \<Rightarrow> git_service \<Rightarrow> string \<Rightarrow> string \<Rightarrow> string \<Rightarrow> git_revision
    \<Rightarrow> ('g git_state, operation_plan) op" where
  "plan_push m v fresh remote destination expected =
    op_try (on_machine (validate_branch m v destination)) (\<lambda>_.
    op_try (on_machine (remote_state_op m v remote)) (\<lambda>state.
    op_try (op_lift (safe_remote state True)) (\<lambda>_.
    op_try (refresh m v) (\<lambda>snapshot.
    op_try (op_lift (ensure_revision (gn_revision snapshot) expected)) (\<lambda>_.
    op_try (op_lift (context_opt (head_oid (gv_head (gn_revision snapshot))) ''there is no commit to push'')) (\<lambda>source.
    op_try (on_machine (remote_target_op m v (rs_view state) destination (Some source))) (\<lambda>target.
    make_plan v fresh (gn_revision snapshot) Push [] (Some destination) (Some target)
      (OpPush remote destination source (rs_push_digest state)))))))))"

section \<open>Revalidation\<close>

definition revalidate_revision :: "operation_plan \<Rightarrow> git_snapshot \<Rightarrow> unit res" where
  "revalidate_revision plan current = (let before' = ov_before (op_preview plan) in
    case op_operation plan of OpFetch _ _ \<Rightarrow> Inr ()
    | OpCreateBranch _ _ \<Rightarrow> ensure (gv_head (gn_revision current) = gv_head before') ''HEAD changed since operation review'' (Inr ())
    | OpPush _ _ _ _ \<Rightarrow> ensure (gv_head (gn_revision current) = gv_head before') ''HEAD changed since operation review'' (Inr ())
    | _ \<Rightarrow> ensure_revision (gn_revision current) before')"

definition revalidate_fetch :: "'g machine \<Rightarrow> git_service \<Rightarrow> string \<Rightarrow> string \<Rightarrow> ('g, unit) op" where
  "revalidate_fetch m v remote digest =
    op_try (remote_state_op m v remote) (\<lambda>r.
    op_try (op_lift (safe_remote r False)) (\<lambda>_.
    op_ensure (rs_fetch_digest r = digest) ''remote target changed since review'' (op_return ())))"

definition revalidate_operation :: "'g machine \<Rightarrow> git_service \<Rightarrow> git_snapshot \<Rightarrow> git_operation \<Rightarrow> ('g, unit) op" where
  "revalidate_operation m v current f = (case f of
      OpCommit _ digest \<Rightarrow>
        op_ensure (\<not> snapshot_conflicted current) ''index has unresolved conflicts''
        (op_try (staged_raw m v) (\<lambda>raw.
         op_ensure (fingerprint m [raw] = digest) ''actual staged contents changed since review'' (op_return ())))
    | OpCreateBranch name start \<Rightarrow>
        op_try (branch_oid m v name) (\<lambda>existing.
        op_ensure (existing = None) ''branch was created elsewhere'' (verify_commit m v start))
    | OpSwitch name oid \<Rightarrow>
        op_ensure (snapshot_clean current) ''working tree changed before branch switch''
        (op_try (branch_oid m v name) (\<lambda>found.
         op_ensure (found = Some oid) ''target branch changed since review'' (op_return ())))
    | OpPull remote _ digest \<Rightarrow>
        op_ensure (snapshot_clean current) ''working tree changed before pull'' (revalidate_fetch m v remote digest)
    | OpFetch remote digest \<Rightarrow> revalidate_fetch m v remote digest
    | OpPush remote _ source digest \<Rightarrow>
        op_try (remote_state_op m v remote) (\<lambda>r.
        op_try (op_lift (safe_remote r True)) (\<lambda>_.
        op_ensure (rs_push_digest r = digest) ''push endpoint changed since review'' (verify_commit m v source)))
    | _ \<Rightarrow> op_return ())"

definition revalidate :: "'g machine \<Rightarrow> git_service \<Rightarrow> operation_plan \<Rightarrow> ('g git_state, unit) op" where
  "revalidate m v plan =
    op_try (refresh m v) (\<lambda>current.
    op_try (op_lift (revalidate_revision plan current)) (\<lambda>_.
    on_machine (revalidate_operation m v current (op_operation plan))))"

end
