(* ===== verification/Git_Execute.thy ===== *)
theory Git_Execute
  imports Git_Plan
begin

text \<open>
  Executing a reviewed plan (\<open>git/service.rs\<close>: \<open>operation_command\<close>, \<open>execute_with\<close>,
  \<open>assess_effects\<close>).  The executor is a parameter: the private directories, the lock file, the
  message file, and the runner, which sees the whole state and changes the machine only.
\<close>

record command_outcome =
  oc_exit_code :: "nat option"
  oc_cancelled :: bool
  oc_output_limited :: bool

datatype execution_outcome = Succeeded | Failed | Cancelled | Unknown | ChangedAfterExecution

record operation_result =
  or_id :: string
  or_kind :: operation_kind
  or_outcome :: execution_outcome
  or_exit_code :: "nat option"
  or_after :: "git_snapshot option"
  or_commit :: "commit_summary option"
  or_warnings :: "string list"

record 'g executor =
  gx_private_dir :: "path \<Rightarrow> ('g, unit) op"
  gx_lock :: "path \<Rightarrow> ('g, unit) op"
  gx_unlock :: "path \<Rightarrow> 'g \<Rightarrow> 'g"
  gx_exists :: "path \<Rightarrow> 'g \<Rightarrow> bool"
  gx_write_new :: "path \<Rightarrow> string \<Rightarrow> ('g, unit) op"
  gx_remove_tree :: "path \<Rightarrow> 'g \<Rightarrow> 'g"
  gx_runner :: "git_call \<Rightarrow> 'g git_state \<Rightarrow> command_outcome res \<times> 'g"

text \<open>A guard that is released on every exit of the block that holds it.\<close>

definition op_bracket :: "('s, 'h) op \<Rightarrow> ('h \<Rightarrow> 's \<Rightarrow> 's) \<Rightarrow> ('h \<Rightarrow> ('s, 'a) op) \<Rightarrow> ('s, 'a) op" where
  "op_bracket acquire release body =
    op_try acquire (\<lambda>h s. case body h s of (r, t) \<Rightarrow> (r, release h t))"

definition map_machine :: "('g \<Rightarrow> 'g) \<Rightarrow> 'g git_state \<Rightarrow> 'g git_state" where
  "map_machine f s = s\<lparr>gt_machine := f (gt_machine s)\<rparr>"

section \<open>The command\<close>

definition operation_arguments :: "operation_plan \<Rightarrow> path \<Rightarrow> string list" where
  "operation_arguments plan resources = (case op_operation plan of
      OpStage paths \<Rightarrow> [''add'', ''--''] @ paths
    | OpUnstage paths \<Rightarrow>
        (if head_oid (gv_head (ov_before (op_preview plan))) \<noteq> None then [''reset'', ''--quiet'', ''HEAD'', ''--'']
         else [''update-index'', ''--force-remove'', ''--'']) @ paths
    | OpCommit _ _ \<Rightarrow> [''commit'', ''--file'', join_path resources ''message'']
    | OpCreateBranch name start \<Rightarrow> [''branch'', ''--no-track'', name, start]
    | OpSwitch name _ \<Rightarrow> [''checkout'', ''--no-guess'', ''--no-recurse-submodules'', name, ''--'']
    | OpFetch remote _ \<Rightarrow> [''fetch'', ''--no-recurse-submodules'', ''--no-prune'', ''--no-prune-tags'', ''--'', remote]
    | OpPull remote branch _ \<Rightarrow> [''-c'', ''rebase.autoStash=false'', ''-c'', ''merge.autoStash=false'', ''pull'',
        ''--ff-only'', ''--no-rebase'', ''--no-recurse-submodules'', ''--'', remote, ''refs/heads/'' @ branch]
    | OpPush remote branch source _ \<Rightarrow> [''push'', ''--porcelain'', ''--no-force'', ''--no-mirror'',
        ''--no-follow-tags'', ''--recurse-submodules=no'', ''--'', remote, source @ '':refs/heads/'' @ branch])"

definition plan_call :: "git_service \<Rightarrow> operation_plan \<Rightarrow> path \<Rightarrow> git_call" where
  "plan_call v plan resources = \<lparr>gk_program = gs_git v, gk_args = common_arguments @ operation_arguments plan resources,
     gk_cwd = rp_root (gs_binding v), gk_env = bt_insert ''GIT_TERMINAL_PROMPT'' ''1'' (gs_environment v)\<rparr>"

definition operation_command ::
    "'g executor \<Rightarrow> git_service \<Rightarrow> operation_plan \<Rightarrow> path \<Rightarrow> ('g, git_call) op" where
  "operation_command x v plan resources =
    op_try (case op_operation plan of OpCommit message _ \<Rightarrow> gx_write_new x (join_path resources ''message'') message
            | _ \<Rightarrow> op_return ()) (\<lambda>_.
    let call = plan_call v plan resources in
    op_ensure (sum_list (map (\<lambda>a. length a + 1) (gk_args call)) \<le> ARG_LIMIT)
      ''selected paths exceed argument bounds; use a smaller explicit selection'' (op_return call))"

section \<open>The assessment\<close>

definition warn :: "string \<Rightarrow> operation_result \<Rightarrow> operation_result" where
  "warn w r = r\<lparr>or_warnings := or_warnings r @ [w]\<rparr>"

definition delta_arguments :: "git_head \<Rightarrow> string \<Rightarrow> string list" where
  "delta_arguments before' oid = [''diff-tree'', ''-r'', ''--raw'', ''-z'', ''--no-abbrev'', ''--no-renames'', ''--no-commit-id'',
      ''--no-ext-diff'', ''--no-textconv''] @ [case head_oid before' of Some b \<Rightarrow> b | None \<Rightarrow> ''--root''] @ [oid, ''--'']"

definition parents_match :: "git_head \<Rightarrow> commit_summary \<Rightarrow> bool" where
  "parents_match before' c = (case head_oid before' of Some b \<Rightarrow> cs_parents c = [b] | None \<Rightarrow> cs_parents c = [])"

text \<open>The actual commit, and whether it is the reviewed one.\<close>

definition actual_commit :: "'g machine \<Rightarrow> git_service \<Rightarrow> git_head \<Rightarrow> string \<Rightarrow> ('g, commit_summary option \<times> bool) op" where
  "actual_commit m v before' digest =
    op_try (op_result (history_op m v 1)) (\<lambda>h.
    case h of Inr (c # cs) \<Rightarrow>
      (let commit = last (c # cs) in
       op_try (op_result (git_read m v (delta_arguments before' (cs_oid commit)) READ_LIMIT)) (\<lambda>out.
       op_return (Some commit, parents_match before' commit
         \<and> (case out of Inl _ \<Rightarrow> False
            | Inr out \<Rightarrow> go_code out = Some 0 \<and> fingerprint m [go_stdout out] = digest))))
    | _ \<Rightarrow> op_return (None, False))"

definition assess_commit :: "'g machine \<Rightarrow> git_service \<Rightarrow> operation_plan \<Rightarrow> git_snapshot
    \<Rightarrow> operation_result \<Rightarrow> ('g, operation_result) op" where
  "assess_commit m v plan after r = (case op_operation plan of OpCommit _ digest \<Rightarrow>
      (let before' = gv_head (ov_before (op_preview plan)) in
       if gv_head (gn_revision after) \<noteq> before' then
         op_try (actual_commit m v before' digest) (\<lambda>(commit, same).
         let r = r\<lparr>or_commit := commit\<rparr> in
         op_return (if \<not> same \<or> or_exit_code r \<noteq> Some 0
           then warn ''A commit exists, but its result differs from the reviewed index or the reported exit. Inspect the actual commit; no retry or rollback was performed.''
             (r\<lparr>or_outcome := ChangedAfterExecution\<rparr>) else r))
       else op_return (if or_exit_code r = Some 0
         then warn ''Git returned success but no new HEAD was observed.'' (r\<lparr>or_outcome := Unknown\<rparr>) else r))
    | _ \<Rightarrow> op_return r)"

definition assess_switch :: "operation_plan \<Rightarrow> git_snapshot \<Rightarrow> operation_result \<Rightarrow> operation_result" where
  "assess_switch plan after r = (case op_operation plan of OpSwitch name oid \<Rightarrow>
      if or_exit_code r = Some 0 \<and> (head_reference (gv_head (gn_revision after)) \<noteq> Some (''refs/heads/'' @ name)
          \<or> head_oid (gv_head (gn_revision after)) \<noteq> Some oid)
      then warn ''The resulting branch differs from the reviewed target.'' (r\<lparr>or_outcome := ChangedAfterExecution\<rparr>) else r
    | _ \<Rightarrow> r)"

definition remote_check :: "git_operation \<Rightarrow> (string \<times> string \<times> bool) option" where
  "remote_check f = (case f of OpFetch remote digest \<Rightarrow> Some (remote, digest, False)
     | OpPull remote _ digest \<Rightarrow> Some (remote, digest, False)
     | OpPush remote _ _ digest \<Rightarrow> Some (remote, digest, True) | _ \<Rightarrow> None)"

definition assess_remote :: "'g machine \<Rightarrow> git_service \<Rightarrow> operation_plan \<Rightarrow> operation_result \<Rightarrow> ('g, operation_result) op" where
  "assess_remote m v plan r = (case remote_check (op_operation plan) of None \<Rightarrow> op_return r
     | Some (name, expected, push) \<Rightarrow>
         op_try (op_result (remote_state_op m v name)) (\<lambda>s.
         let same = (case s of Inl _ \<Rightarrow> False
           | Inr s \<Rightarrow> (if push then rs_push_digest s else rs_fetch_digest s) = expected) in
         op_return (if same then r else
           warn ''Remote configuration changed or became unavailable during execution; inspect the destination before retrying.''
             (r\<lparr>or_outcome := Unknown\<rparr>))))"

definition assess_changed :: "operation_plan \<Rightarrow> git_snapshot \<Rightarrow> operation_result \<Rightarrow> operation_result" where
  "assess_changed plan after r =
    (if (case op_operation plan of OpCommit _ _ \<Rightarrow> False | _ \<Rightarrow> True) \<and> or_exit_code r \<noteq> Some 0
        \<and> \<not> same_revision (gn_revision after) (ov_before (op_preview plan))
     then warn ''Repository state changed despite an incomplete/failed operation. Existing changes were preserved.'' r else r)"

definition assess_effects :: "'g machine \<Rightarrow> git_service \<Rightarrow> operation_plan \<Rightarrow> operation_result \<Rightarrow> ('g, operation_result) op" where
  "assess_effects m v plan r = (case or_after r of None \<Rightarrow> op_return r
     | Some after \<Rightarrow>
         op_try (assess_commit m v plan after r) (\<lambda>r.
         op_try (assess_remote m v plan (assess_switch plan after r)) (\<lambda>r.
         op_return (assess_changed plan after r))))"

section \<open>The execution\<close>

text \<open>The outcome the executor reports, before the effects are looked at.\<close>

definition reported_result :: "operation_plan \<Rightarrow> command_outcome res \<Rightarrow> git_snapshot option \<Rightarrow> operation_result" where
  "reported_result plan execution after =
    (let r = \<lparr>or_id = ov_id (op_preview plan), or_kind = ov_kind (op_preview plan), or_outcome = Unknown,
              or_exit_code = None, or_after = after, or_commit = None, or_warnings = []\<rparr>;
         r = (case execution of
             Inr outcome \<Rightarrow>
               (let r = r\<lparr>or_exit_code := oc_exit_code outcome,
                  or_outcome := (if oc_cancelled outcome then Cancelled
                    else if oc_exit_code outcome = Some 0 then Succeeded
                    else if oc_exit_code outcome \<noteq> None then Failed else Unknown)\<rparr> in
                if oc_output_limited outcome then warn ''Operation output was limited; no full transcript is claimed.'' r else r)
           | Inl _ \<Rightarrow> warn ''Executor could not confirm an outcome. Do not automatically retry this operation.'' r)
     in if after = None then warn ''Post-operation repository state could not be verified.'' (r\<lparr>or_outcome := Unknown\<rparr>) else r)"

definition set_plan :: "string \<Rightarrow> nat \<Rightarrow> 'g git_state \<Rightarrow> 'g git_state" where
  "set_plan i n s = s\<lparr>gt_plans := (gt_plans s)(i := n)\<rparr>"

text \<open>From the exchange \<open>0 \<rightarrow> 1\<close> of the plan's state on.\<close>

definition run_plan :: "'g machine \<Rightarrow> 'g executor \<Rightarrow> git_service \<Rightarrow> operation_plan \<Rightarrow> git_call \<Rightarrow> ('g git_state, operation_result) op" where
  "run_plan m x v plan call = (let i = ov_id (op_preview plan) in
    op_try (op_get (\<lambda>s. gt_plans s i = 0)) (\<lambda>free.
    op_ensure free ''operation already started''
    (op_try (op_modify (set_plan i 1)) (\<lambda>_.
     op_try (\<lambda>s. case gx_runner x call s of (r, g) \<Rightarrow> (Inr r, s\<lparr>gt_machine := g\<rparr>)) (\<lambda>execution.
     op_try (op_modify (\<lambda>s. (set_plan i 2 s)\<lparr>gt_cache := None\<rparr>)) (\<lambda>_.
     op_try (op_result (refresh m v)) (\<lambda>after.
     on_machine (assess_effects m v plan (reported_result plan execution (ok_opt after))))))))))"

definition lock_path :: "'g machine \<Rightarrow> git_service \<Rightarrow> path \<Rightarrow> path" where
  "lock_path m v root = join_path root (''git-'' @ fingerprint m [rp_git_dir (gs_binding v)] @ ''.lock'')"

definition with_gate :: "(source_gate, 'a) op \<Rightarrow> ('g git_state, 'a) op" where
  "with_gate f = (\<lambda>s. case f (gt_gate s) of (r, g) \<Rightarrow> (r, s\<lparr>gt_gate := g\<rparr>))"

definition acquire_lease :: "git_service \<Rightarrow> operation_plan \<Rightarrow> ('g git_state, gate_lease option) op" where
  "acquire_lease v plan =
    (if ov_requires_source_lease (op_preview plan)
     then op_try (with_gate (gate_reserve_mutation (repository_identity (gs_binding v)) (ov_id (op_preview plan))))
       (\<lambda>l. op_return (Some l))
     else op_return None)"

definition release_lease :: "gate_lease option \<Rightarrow> 'g git_state \<Rightarrow> 'g git_state" where
  "release_lease l s = (case l of None \<Rightarrow> s | Some l \<Rightarrow> s\<lparr>gt_gate := gate_drop l (gt_gate s)\<rparr>)"

definition operation_resources :: "path \<Rightarrow> operation_plan \<Rightarrow> path" where
  "operation_resources root plan = join_path root (''git-operation-'' @ ov_id (op_preview plan))"

definition execute_locked :: "'g machine \<Rightarrow> 'g executor \<Rightarrow> git_service \<Rightarrow> operation_plan \<Rightarrow> path \<Rightarrow> ('g git_state, operation_result) op" where
  "execute_locked m x v plan root =
    op_try (revalidate m v plan) (\<lambda>_.
    let resources = operation_resources root plan in
    op_try (op_get (\<lambda>s. gx_exists x resources (gt_machine s))) (\<lambda>exists.
    op_ensure (\<not> exists) ''operation resources already exist; inspect prior outcome''
    (op_bracket (on_machine (gx_private_dir x resources)) (\<lambda>_. map_machine (gx_remove_tree x resources)) (\<lambda>_.
      op_try (on_machine (operation_command x v plan resources)) (run_plan m x v plan)))))"

definition execute_with :: "'g machine \<Rightarrow> 'g executor \<Rightarrow> git_service \<Rightarrow> operation_plan \<Rightarrow> path \<Rightarrow> ('g git_state, operation_result) op" where
  "execute_with m x v plan root =
    op_ensure (op_service plan = gs_id v) ''operation plan belongs to another repository service''
    (op_try (op_get (\<lambda>s. gt_plans s (ov_id (op_preview plan)) = 0)) (\<lambda>fresh.
     op_ensure fresh ''operation already started; inspect its result instead of retrying''
     (op_try (on_machine (gx_private_dir x root)) (\<lambda>_.
      op_bracket (on_machine (gx_lock x (lock_path m v root))) (\<lambda>_. map_machine (gx_unlock x (lock_path m v root))) (\<lambda>_.
      op_bracket (acquire_lease v plan) release_lease (\<lambda>_.
      execute_locked m x v plan root))))))"

end
