(* ===== verification/Git_Safety.thy ===== *)
theory Git_Safety
  imports Git_Execute
begin

text \<open>
  What a reviewed Git operation promises: the runner is started only for the reviewed plan, with
  the lease and an unchanged revision, at most once; an error means that it was not started; the
  lease is given back; a reported success has been verified.
\<close>

section \<open>Frames\<close>

lemma op_result_Inr [op_simps]: "(op_result f s = (Inr r, t)) = (f s = (r, t))"
  by (auto simp: op_result_def split: prod.splits)

lemma op_result_ok [op_simps]: "op_result f s \<noteq> (Inl e, t)"
  by (auto simp: op_result_def split: prod.splits)

lemma on_machine_eq [op_simps]:
  "(on_machine f s = (r, t)) = (\<exists>g. f (gt_machine s) = (r, g) \<and> t = s\<lparr>gt_machine := g\<rparr>)"
  by (auto simp: on_machine_def split: prod.splits)

lemma op_get_Inr [op_simps]: "(op_get f s = (Inr x, t)) = (x = f s \<and> t = s)"
  by (auto simp: op_get_def)

lemma op_get_ok [op_simps]: "op_get f s \<noteq> (Inl e, t)"
  by (simp add: op_get_def)

lemma op_modify_Inr [op_simps]: "(op_modify f s = (Inr x, t)) = (t = f s)"
  by (auto simp: op_modify_def)

lemma op_modify_ok [op_simps]: "op_modify f s \<noteq> (Inl e, t)"
  by (simp add: op_modify_def)

lemma op_try_cong:
  "(\<And>x t. m s = (Inr x, t) \<Longrightarrow> f x t = g x t) \<Longrightarrow> op_try m f s = op_try m g s"
  by (auto simp: op_try_def split: prod.splits sum.splits)

lemma op_ensure_cong: "(c \<Longrightarrow> f s = g s) \<Longrightarrow> op_ensure c m f s = op_ensure c m g s"
  by (simp add: op_ensure_def)

lemma op_bracket_cong:
  "(\<And>h t. acq s = (Inr h, t) \<Longrightarrow> f h t = g h t) \<Longrightarrow> op_bracket acq rel f s = op_bracket acq rel g s"
  unfolding op_bracket_def by (rule op_try_cong) simp

lemma op_bracket_Inr:
  "(op_bracket acq rel f s = (Inr r, t)) = (\<exists>h u w. acq s = (Inr h, u) \<and> f h u = (Inr r, w) \<and> t = rel h w)"
  by (auto simp: op_bracket_def op_try_def split: prod.splits sum.splits)

lemma op_bracket_Inl:
  "(op_bracket acq rel f s = (Inl e, t)) = (acq s = (Inl e, t)
    \<or> (\<exists>h u w. acq s = (Inr h, u) \<and> f h u = (Inl e, w) \<and> t = rel h w))"
  by (auto simp: op_bracket_def op_try_def split: prod.splits sum.splits)

lemmas bracket_simps = op_bracket_Inr op_bracket_Inl

text \<open>Operations that touch the machine and the cache only.\<close>

definition keeps_control :: "'g git_state \<Rightarrow> 'g git_state \<Rightarrow> bool" where
  "keeps_control s t \<longleftrightarrow> gt_gate t = gt_gate s \<and> gt_plans t = gt_plans s"

lemma refresh_eq:
  "refresh m v = op_try (on_machine (snapshot_op m v)) (\<lambda>n.
     op_try (op_modify (\<lambda>s. s\<lparr>gt_cache := Some (gm_now m (gt_machine s), n)\<rparr>)) (\<lambda>_. op_return n))"
proof -
  have miss: "(case gt_cache s of None \<Rightarrow> None
      | Some (t, n) \<Rightarrow> if \<not> True \<and> gm_now m (gt_machine s) - t < 200 then Some n else None) = None" for s :: "'a git_state"
    by (simp split: option.split)
  show ?thesis unfolding refresh_def status_cached_def miss by (rule ext) (simp add: op_try_def)
qed

lemma refresh_keeps: "refresh m v s = (r, t) \<Longrightarrow> keeps_control s t"
  by (cases r) (auto simp: refresh_eq op_simps keeps_control_def)

lemma refresh_cache: "refresh m v s = (Inr n, t) \<Longrightarrow> \<exists>k. gt_cache t = Some (k, n)"
  by (auto simp: refresh_eq op_simps)

lemma revalidate_Inr:
  assumes "revalidate m v plan s = (Inr u, t)"
  shows "keeps_control s t" "\<exists>k n. gt_cache t = Some (k, n) \<and> revalidate_revision plan n = Inr ()"
  using assms refresh_keeps [of m v s] refresh_cache [of m v s]
  by (force simp: revalidate_def op_simps keeps_control_def)+

lemma revalidate_keeps: "revalidate m v plan s = (r, t) \<Longrightarrow> keeps_control s t"
  using refresh_keeps [of m v s]
  by (cases r) (auto simp: revalidate_def op_simps keeps_control_def)

section \<open>The runner\<close>

text \<open>What the observation directly before the start must show: nothing local for a fetch, the reviewed head for a
  new branch or a push, otherwise the whole reviewed revision; then the conditions of the operation itself.\<close>

definition reviewed_revision :: "operation_plan \<Rightarrow> git_snapshot \<Rightarrow> bool" where
  "reviewed_revision plan n = (let before' = ov_before (op_preview plan) in case op_operation plan of
       OpFetch _ _ \<Rightarrow> True
     | OpCreateBranch _ _ \<Rightarrow> gv_head (gn_revision n) = gv_head before'
     | OpPush _ _ _ _ \<Rightarrow> gv_head (gn_revision n) = gv_head before'
     | _ \<Rightarrow> same_revision (gn_revision n) before')"

definition observed_reviewed :: "'g machine \<Rightarrow> git_service \<Rightarrow> operation_plan \<Rightarrow> 'g git_state \<Rightarrow> 'g git_state \<Rightarrow> bool" where
  "observed_reviewed m v plan s t \<longleftrightarrow> (\<exists>n u g. refresh m v s = (Inr n, u) \<and> reviewed_revision plan n
     \<and> revalidate_operation m v n (op_operation plan) (gt_machine u) = (Inr (), g) \<and> t = u\<lparr>gt_machine := g\<rparr>)"

definition cleared :: "'g machine \<Rightarrow> 'g executor \<Rightarrow> git_service \<Rightarrow> operation_plan \<Rightarrow> path \<Rightarrow> git_call \<Rightarrow> 'g git_state \<Rightarrow> bool" where
  "cleared m x v plan root call s \<longleftrightarrow>
     call = plan_call v plan (operation_resources root plan)
     \<and> op_service plan = gs_id v \<and> gt_plans s (ov_id (op_preview plan)) = 1
     \<and> (ov_requires_source_lease (op_preview plan) \<longrightarrow>
          gs_mutation (gate_entry (gt_gate s) (repository_identity (gs_binding v))) = Some (ov_id (op_preview plan)))
     \<and> (\<exists>s1 s2 s3 s4. observed_reviewed m v plan s1 s2
          \<and> on_machine (gx_private_dir x (operation_resources root plan)) s2 = (Inr (), s3)
          \<and> on_machine (operation_command x v plan (operation_resources root plan)) s3 = (Inr call, s4)
          \<and> s = set_plan (ov_id (op_preview plan)) 1 s4)"

lemma revision_reviewed: "revalidate_revision plan n = Inr u \<Longrightarrow> reviewed_revision plan n"
  by (cases "op_operation plan") (simp_all add: revalidate_revision_def reviewed_revision_def ensure_revision_def Let_def res_simps)

lemma revalidate_observed:
  assumes "revalidate m v plan s = (Inr u, t)"
  shows "observed_reviewed m v plan s t"
proof -
  from assms obtain n w g y where "refresh m v s = (Inr n, w)" "revalidate_revision plan n = Inr y"
    "revalidate_operation m v n (op_operation plan) (gt_machine w) = (Inr u, g)" "t = w\<lparr>gt_machine := g\<rparr>"
    unfolding revalidate_def op_try_Inr on_machine_eq op_lift_simps prod.inject by blast
  with revision_reviewed show ?thesis unfolding observed_reviewed_def by (metis old.unit.exhaust)
qed

lemma acquire_lease_Inr:
  assumes "acquire_lease v plan s = (Inr l, t)"
  shows "gt_plans t = gt_plans s" "gt_machine t = gt_machine s" "(l = None) = (\<not> ov_requires_source_lease (op_preview plan))"
    and "ov_requires_source_lease (op_preview plan) \<Longrightarrow>
      gs_mutation (gate_entry (gt_gate t) (repository_identity (gs_binding v))) = Some (ov_id (op_preview plan))"
  using assms
  by (auto simp: acquire_lease_def with_gate_def op_simps gate_reserve_mutation_def gate_reserve_def Let_def path_eq_def
      split: if_splits prod.splits)

lemma operation_command_Inr:
  "operation_command x v plan resources g = (Inr call, g') \<Longrightarrow> call = plan_call v plan resources"
  by (auto simp: operation_command_def op_simps Let_def)

definition guarded_runner :: "(git_call \<Rightarrow> 'g git_state \<Rightarrow> bool) \<Rightarrow> 'g executor \<Rightarrow> 'g executor
    \<Rightarrow> (git_call \<Rightarrow> 'g git_state \<Rightarrow> command_outcome res \<times> 'g)" where
  "guarded_runner P x y = (\<lambda>call s. if P call s then gx_runner x call s else gx_runner y call s)"

lemma run_plan_runner:
  assumes "gx_runner x call (set_plan (ov_id (op_preview plan)) 1 s) = gx_runner y call (set_plan (ov_id (op_preview plan)) 1 s)"
  shows "run_plan m x v plan call s = run_plan m y v plan call s"
  unfolding run_plan_def Let_def
  by (rule op_try_cong, rule op_ensure_cong, rule op_try_cong) (use assms in \<open>auto simp: op_simps op_try_def split: prod.splits\<close>)


lemma cleared_before_run:
  assumes "op_service plan = gs_id v" "acquire_lease v plan s0 = (Inr l, s1)"
    and "revalidate m v plan s1 = (Inr u, s2)"
    and "on_machine (gx_private_dir x (operation_resources root plan)) s2 = (Inr h, s3)"
    and "on_machine (operation_command x v plan (operation_resources root plan)) s3 = (Inr call, s4)"
  shows "cleared m x v plan root call (set_plan (ov_id (op_preview plan)) 1 s4)"
proof -
  have k: "keeps_control s1 s4" using revalidate_keeps [OF assms(3)] assms(4,5) by (auto simp: keeps_control_def op_simps)
  have c: "call = plan_call v plan (operation_resources root plan)"
    using assms(5) operation_command_Inr by (fastforce simp: op_simps)
  have "observed_reviewed m v plan s1 s2" by (rule revalidate_observed [OF assms(3)])
  then have e: "\<exists>s1 s2 s3 s4'. observed_reviewed m v plan s1 s2
          \<and> on_machine (gx_private_dir x (operation_resources root plan)) s2 = (Inr (), s3)
          \<and> on_machine (operation_command x v plan (operation_resources root plan)) s3 = (Inr call, s4')
          \<and> set_plan (ov_id (op_preview plan)) 1 s4 = set_plan (ov_id (op_preview plan)) 1 s4'"
    using assms(4,5) by (metis old.unit.exhaust)
  with c k show ?thesis unfolding cleared_def using assms(1) acquire_lease_Inr [OF assms(2)]
    by (simp add: keeps_control_def set_plan_def)
qed

text \<open>
  C1 (runner_is_cleared). Git is started for an operation only in a cleared situation: with exactly the command of
  the reviewed plan, by the service that made the plan, the plan marked as started, the gate's mutation lease held
  for it where the operation needs one, and the repository just observed, with only the private directory and the
  message file made since.  What was observed passed the check of the operation: a fetch needs its reviewed remote
  endpoint; a push and a new branch the reviewed head, with the reviewed endpoint and an absent branch; every other
  operation the whole reviewed revision.  Said extensionally: replacing the runner by any other runner wherever the
  situation is not cleared changes nothing about the execution.
\<close>

theorem runner_is_cleared:
  "execute_with m x v plan root s
    = execute_with m (x\<lparr>gx_runner := guarded_runner (cleared m x v plan root) x y\<rparr>) v plan root s"
  unfolding execute_with_def execute_locked_def
proof (rule op_ensure_cong, rule op_try_cong, rule op_ensure_cong, simp, rule op_try_cong, rule op_bracket_cong,
    rule op_bracket_cong, rule op_try_cong, simp add: Let_def, rule op_try_cong, rule op_ensure_cong, rule op_bracket_cong)
  fix l s0 s1 u s2 s3 s4 b h
  let ?resources = "operation_resources root plan"
  let ?y = "x\<lparr>gx_runner := guarded_runner (cleared m x v plan root) x y\<rparr>"
  assume service: "op_service plan = gs_id v" and lease: "acquire_lease v plan s0 = (Inr l, s1)"
    and re: "revalidate m v plan s1 = (Inr u, s2)"
    and free: "op_get (\<lambda>s. gx_exists x ?resources (gt_machine s)) s2 = (Inr b, s3)"
    and dir: "on_machine (gx_private_dir x ?resources) s3 = (Inr h, s4)"
  from free have "s3 = s2" by (simp add: op_simps)
  note dir = dir [unfolded this]
  have "operation_command ?y v plan ?resources = operation_command x v plan ?resources"
    by (rule ext) (simp add: operation_command_def split: git_operation.split)
  moreover have "run_plan m x v plan call s5 = run_plan m ?y v plan call s5"
    if "on_machine (operation_command x v plan ?resources) s4 = (Inr call, s5)" for call s5
    using cleared_before_run [OF service lease re dir that] by (intro run_plan_runner) (simp add: guarded_runner_def)
  ultimately show "op_try (on_machine (operation_command x v plan ?resources)) (run_plan m x v plan) s4
      = op_try (on_machine (operation_command ?y v plan ?resources)) (run_plan m ?y v plan) s4"
    by (auto intro: op_try_cong)
qed

section \<open>A reported success\<close>

text \<open>
  What has to be seen after the run, from the machine as the observation after it left it: a commit is read from the
  history, with its delta, and the endpoint of a remote once more.
\<close>

definition reviewed_commit :: "'g machine \<Rightarrow> git_service \<Rightarrow> git_head \<Rightarrow> string \<Rightarrow> commit_summary \<Rightarrow> 'g \<Rightarrow> bool" where
  "reviewed_commit m v before' digest c g \<longleftrightarrow> (\<exists>cs g1 out g2. history_op m v 1 g = (Inr cs, g1) \<and> cs \<noteq> [] \<and> c = last cs
     \<and> parents_match before' c \<and> git_read m v (delta_arguments before' (cs_oid c)) READ_LIMIT g1 = (Inr out, g2)
     \<and> go_code out = Some 0 \<and> fingerprint m [go_stdout out] = digest)"

definition same_endpoint :: "'g machine \<Rightarrow> git_service \<Rightarrow> git_operation \<Rightarrow> 'g \<Rightarrow> bool" where
  "same_endpoint m v f g = (case remote_check f of None \<Rightarrow> True | Some (remote, digest, push) \<Rightarrow>
     (\<exists>s g'. remote_state_op m v remote g = (Inr s, g') \<and> (if push then rs_push_digest s else rs_fetch_digest s) = digest))"

definition verified_effect :: "'g machine \<Rightarrow> git_service \<Rightarrow> operation_plan \<Rightarrow> git_snapshot \<Rightarrow> operation_result \<Rightarrow> 'g \<Rightarrow> bool" where
  "verified_effect m v plan after r g \<longleftrightarrow>
     (case op_operation plan of
        OpCommit _ digest \<Rightarrow> gv_head (gn_revision after) \<noteq> gv_head (ov_before (op_preview plan))
          \<and> (\<exists>c. or_commit r = Some c \<and> reviewed_commit m v (gv_head (ov_before (op_preview plan))) digest c g)
      | OpSwitch name oid \<Rightarrow> gv_head (gn_revision after) = OnBranch (''refs/heads/'' @ name) oid
      | _ \<Rightarrow> True)
     \<and> same_endpoint m v (op_operation plan) g"

text \<open>The runner returned \<open>outcome\<close>, and the observation after it was \<open>after\<close> and left the machine \<open>g\<close>.\<close>

definition run_observed :: "'g machine \<Rightarrow> 'g executor \<Rightarrow> git_service \<Rightarrow> operation_plan \<Rightarrow> command_outcome \<Rightarrow> git_snapshot \<Rightarrow> 'g \<Rightarrow> bool" where
  "run_observed m x v plan outcome after g \<longleftrightarrow> (\<exists>call s g0 t t'. gx_runner x call s = (Inr outcome, g0)
     \<and> gt_machine t = g0 \<and> gt_cache t = None \<and> refresh m v t = (Inr after, t') \<and> g = gt_machine t')"

definition verified_success :: "'g machine \<Rightarrow> 'g executor \<Rightarrow> git_service \<Rightarrow> operation_plan \<Rightarrow> operation_result \<Rightarrow> bool" where
  "verified_success m x v plan r \<longleftrightarrow> or_exit_code r = Some 0
     \<and> (\<exists>outcome after g. run_observed m x v plan outcome after g \<and> oc_exit_code outcome = Some 0 \<and> \<not> oc_cancelled outcome
          \<and> or_after r = Some after \<and> verified_effect m v plan after r g)"

lemma warn_fields [simp]:
  "or_outcome (warn w r) = or_outcome r" "or_exit_code (warn w r) = or_exit_code r"
  "or_after (warn w r) = or_after r" "or_commit (warn w r) = or_commit r" "or_id (warn w r) = or_id r"
  by (simp_all add: warn_def)

lemma reported_success:
  "or_outcome (reported_result plan ex after) = Succeeded \<Longrightarrow> or_exit_code (reported_result plan ex after) = Some 0"
  by (auto simp: reported_result_def Let_def split: if_splits sum.splits)

lemma reported_after [simp]: "or_after (reported_result plan ex after) = after"
  by (auto simp: reported_result_def Let_def split: sum.splits)

lemma actual_commit_Inr:
  assumes "actual_commit m v before' digest g = (Inr (c, same), g')"
  shows "same \<longrightarrow> (\<exists>k. c = Some k \<and> reviewed_commit m v before' digest k g)"
proof -
  obtain h u where h: "history_op m v 1 g = (h, u)" by fastforce
  show ?thesis
  proof (cases h)
    case (Inr cs)
    show ?thesis
    proof (cases cs)
      case Nil
      with assms h Inr show ?thesis by (simp add: actual_commit_def op_try_def op_result_def)
    next
      case (Cons k ks)
      obtain out w where w: "git_read m v (delta_arguments before' (cs_oid (last (k # ks)))) READ_LIMIT u = (out, w)"
        by fastforce
      with assms h Inr Cons show ?thesis
        unfolding actual_commit_def op_try_def op_result_def Let_def reviewed_commit_def
        by (cases out) (auto simp del: last.simps)
    qed
  qed (use assms h in \<open>simp add: actual_commit_def op_try_def op_result_def\<close>)
qed

lemma assess_commit_Inr:
  assumes "assess_commit m v plan after r g = (Inr r', g')"
  shows "or_exit_code r' = or_exit_code r \<and> or_after r' = or_after r
    \<and> (or_outcome r' = Succeeded \<longrightarrow> or_outcome r = Succeeded)
    \<and> (\<forall>msg digest. op_operation plan = OpCommit msg digest \<longrightarrow> or_outcome r' = Succeeded \<longrightarrow> or_exit_code r = Some 0 \<longrightarrow>
         gv_head (gn_revision after) \<noteq> gv_head (ov_before (op_preview plan))
         \<and> (\<exists>c. or_commit r' = Some c \<and> reviewed_commit m v (gv_head (ov_before (op_preview plan))) digest c g))
    \<and> ((\<forall>msg digest. op_operation plan \<noteq> OpCommit msg digest) \<longrightarrow> g' = g)"
  using assms
  by (auto simp: assess_commit_def op_simps Let_def dest!: actual_commit_Inr split: git_operation.splits if_splits)

lemma assess_switch_fields:
  "or_exit_code (assess_switch plan after r) = or_exit_code r" "or_after (assess_switch plan after r) = or_after r"
  "or_commit (assess_switch plan after r) = or_commit r"
  by (auto simp: assess_switch_def split: git_operation.splits)

lemma assess_switch_success:
  assumes "or_outcome (assess_switch plan after r) = Succeeded"
  shows "or_outcome r = Succeeded"
    and "op_operation plan = OpSwitch name oid \<Longrightarrow> or_exit_code r = Some 0
      \<Longrightarrow> gv_head (gn_revision after) = OnBranch (''refs/heads/'' @ name) oid"
  using assms
  by (auto simp: assess_switch_def head_reference_def head_oid_def split: git_operation.splits if_splits git_head.splits)

lemma assess_remote_Inr:
  assumes "assess_remote m v plan r g = (Inr r', g')"
  shows "or_exit_code r' = or_exit_code r \<and> or_after r' = or_after r \<and> or_commit r' = or_commit r
    \<and> (or_outcome r' = Succeeded \<longrightarrow> or_outcome r = Succeeded \<and> same_endpoint m v (op_operation plan) g)"
proof (cases "remote_check (op_operation plan)")
  case (Some a)
  then obtain name digest push where a: "remote_check (op_operation plan) = Some (name, digest, push)"
    by (cases a) auto
  obtain st u where u: "remote_state_op m v name g = (st, u)" by fastforce
  have "same_endpoint m v (op_operation plan) g" if "st = Inr st'" "(if push then rs_push_digest st' else rs_fetch_digest st') = digest" for st'
    using that a u unfolding same_endpoint_def by (cases push) auto
  with assms a u show ?thesis
    by (cases st) (auto simp: assess_remote_def op_try_def op_result_def Let_def split: if_splits)
qed (use assms in \<open>simp_all add: assess_remote_def same_endpoint_def\<close>)

lemma assess_changed_fields [simp]:
  "or_exit_code (assess_changed plan after r) = or_exit_code r" "or_after (assess_changed plan after r) = or_after r"
  "or_commit (assess_changed plan after r) = or_commit r" "or_outcome (assess_changed plan after r) = or_outcome r"
  by (auto simp: assess_changed_def)

lemma remote_no_commit: "remote_check f = Some y \<Longrightarrow> f \<noteq> OpCommit msg digest"
  by (auto simp: remote_check_def)

lemma assess_effects_success:
  assumes "assess_effects m v plan r g = (Inr r', g')" "or_outcome r' = Succeeded"
    and "or_outcome r = Succeeded \<Longrightarrow> or_exit_code r = Some 0" "or_after r = Some after"
  shows "or_outcome r = Succeeded \<and> or_exit_code r' = Some 0 \<and> or_after r' = Some after \<and> verified_effect m v plan after r' g"
proof -
  obtain r1 g1 r2 where 1: "assess_commit m v plan after r g = (Inr r1, g1)"
    and 2: "assess_remote m v plan (assess_switch plan after r1) g1 = (Inr r2, g')" "r' = assess_changed plan after r2"
    using assms(1,4) by (auto simp: assess_effects_def op_simps)
  note c = assess_commit_Inr [OF 1] and e = assess_remote_Inr [OF 2(1)]
  have s: "or_outcome (assess_switch plan after r1) = Succeeded" "same_endpoint m v (op_operation plan) g1"
    using assms(2) e 2(2) by auto
  with c have r: "or_outcome r = Succeeded" "or_exit_code r = Some 0" "or_outcome r1 = Succeeded"
    using assess_switch_success(1) assms(3) by auto
  have f: "or_exit_code r' = Some 0" "or_after r' = Some after" "or_commit r' = or_commit r1"
    using c e r 2(2) assms(4) by (simp_all add: assess_switch_fields)
  have "same_endpoint m v (op_operation plan) g"
  proof (cases "remote_check (op_operation plan)")
    case (Some y)
    with c remote_no_commit have "g1 = g" by blast
    with s(2) show ?thesis by simp
  qed (simp add: same_endpoint_def)
  with c r s(1) f assess_switch_success(2) [OF s(1)] show ?thesis
    by (auto simp: verified_effect_def split: git_operation.split)
qed

lemma assess_effects_none: "or_after r = None \<Longrightarrow> assess_effects m v plan r g = (Inr r, g)"
  by (simp add: assess_effects_def)

lemma run_plan_Inr:
  assumes "run_plan m x v plan call s = (Inr r, t)"
  obtains ex g after w where "gx_runner x call (set_plan (ov_id (op_preview plan)) 1 s) = (ex, g)"
    "refresh m v ((set_plan (ov_id (op_preview plan)) 2 (set_plan (ov_id (op_preview plan)) 1 s\<lparr>gt_machine := g\<rparr>))\<lparr>gt_cache := None\<rparr>)
      = (after, w)"
    "assess_effects m v plan (reported_result plan ex (ok_opt after)) (gt_machine w) = (Inr r, gt_machine t)"
    "gt_plans s (ov_id (op_preview plan)) = 0" "gt_plans t (ov_id (op_preview plan)) = 2" "gt_gate t = gt_gate s"
proof -
  let ?i = "ov_id (op_preview plan)"
  obtain ex g where g: "gx_runner x call (set_plan ?i 1 s) = (ex, g)" by fastforce
  obtain after w where w: "refresh m v ((set_plan ?i 2 (set_plan ?i 1 s\<lparr>gt_machine := g\<rparr>))\<lparr>gt_cache := None\<rparr>) = (after, w)"
    by fastforce
  have free: "gt_plans s ?i = 0" using assms by (auto simp: run_plan_def op_simps Let_def)
  have a: "on_machine (assess_effects m v plan (reported_result plan ex (ok_opt after))) w = (Inr r, t)"
    using assms free g w by (simp add: run_plan_def op_try_def op_result_def Let_def)
  from a refresh_keeps [OF w] have "gt_plans t ?i = 2" "gt_gate t = gt_gate s"
    by (auto simp: op_simps keeps_control_def set_plan_def)
  with a free g w show ?thesis by (auto simp: op_simps intro: that)
qed

lemma reported_run:
  "or_outcome (reported_result plan ex after) = Succeeded \<Longrightarrow>
   \<exists>outcome. ex = Inr outcome \<and> oc_exit_code outcome = Some 0 \<and> \<not> oc_cancelled outcome"
  by (auto simp: reported_result_def Let_def split: if_splits sum.splits)

lemma run_plan_success:
  assumes "run_plan m x v plan call s = (Inr r, t)" and o: "or_outcome r = Succeeded"
  shows "verified_success m x v plan r"
  using assms(1)
proof (rule run_plan_Inr)
  let ?i = "ov_id (op_preview plan)"
  fix ex g after w
  let ?t = "(set_plan ?i 2 (set_plan ?i 1 s\<lparr>gt_machine := g\<rparr>))\<lparr>gt_cache := None\<rparr>"
  assume g: "gx_runner x call (set_plan ?i 1 s) = (ex, g)" and w: "refresh m v ?t = (after, w)"
    and a: "assess_effects m v plan (reported_result plan ex (ok_opt after)) (gt_machine w) = (Inr r, gt_machine t)"
  show ?thesis
  proof (cases after)
    case (Inl e)
    with a have "r = reported_result plan ex None" by (simp add: assess_effects_none ok_opt_def)
    with o show ?thesis by (auto simp: reported_result_def Let_def)
  next
    case (Inr n)
    then have "ok_opt after = Some n" by (simp add: ok_opt_def)
    have e: "or_outcome (reported_result plan ex (ok_opt after)) = Succeeded \<and> or_exit_code r = Some 0 \<and> or_after r = Some n
        \<and> verified_effect m v plan n r (gt_machine w)"
      by (rule assess_effects_success [OF a o reported_success]) (use \<open>ok_opt after = Some n\<close> in simp_all)
    from e reported_run obtain outcome where out: "ex = Inr outcome" "oc_exit_code outcome = Some 0" "\<not> oc_cancelled outcome"
      by blast
    have "run_observed m x v plan outcome n (gt_machine w)"
      unfolding run_observed_def using g w out(1) Inr
      by (intro exI [of _ call] exI [of _ "set_plan ?i 1 s"] exI [of _ g] exI [of _ ?t] exI [of _ w]) (simp add: set_plan_def)
    with e out show ?thesis unfolding verified_success_def by blast
  qed
qed

lemma execute_locked_Inr:
  assumes "execute_locked m x v plan root s = (Inr r, t)"
  obtains call u w where "run_plan m x v plan call u = (Inr r, w)" "keeps_control s u" "keeps_control w t"
proof -
  from assms obtain s2 b s3 h s4 call u w where
    "revalidate m v plan s = (Inr b, s2)" "on_machine (gx_private_dir x (operation_resources root plan)) s2 = (Inr h, s4)"
    "on_machine (operation_command x v plan (operation_resources root plan)) s4 = (Inr call, u)"
    "run_plan m x v plan call u = (Inr r, w)" "t = map_machine (gx_remove_tree x (operation_resources root plan)) w"
    by (auto simp: execute_locked_def op_simps bracket_simps Let_def)
  moreover from this have "keeps_control s u" "keeps_control w t"
    using revalidate_Inr(1) by (fastforce simp: keeps_control_def op_simps map_machine_def)+
  ultimately show ?thesis using that by blast
qed

lemma execute_with_Inr:
  assumes "execute_with m x v plan root s = (Inr r, t)"
  obtains l s0 s1 w call u w' where "gt_plans s (ov_id (op_preview plan)) = 0" "op_service plan = gs_id v"
    "keeps_control s s0" "acquire_lease v plan s0 = (Inr l, s1)" "keeps_control s1 u"
    "run_plan m x v plan call u = (Inr r, w')" "keeps_control w' w" "keeps_control (release_lease l w) t"
proof -
  let ?lock = "lock_path m v root"
  from assms obtain z sa y s0 l s1 w where
    a: "gt_plans s (ov_id (op_preview plan)) = 0" "op_service plan = gs_id v"
    "acquire_lease v plan s0 = (Inr l, s1)" "execute_locked m x v plan root s1 = (Inr r, w)"
    and f: "on_machine (gx_private_dir x root) s = (Inr z, sa)" "on_machine (gx_lock x ?lock) sa = (Inr y, s0)"
      "t = map_machine (gx_unlock x ?lock) (release_lease l w)"
    unfolding execute_with_def by (auto simp only: op_ensure_Inr op_try_Inr op_get_Inr op_bracket_Inr)
  from f have k: "keeps_control s s0" "keeps_control (release_lease l w) t"
    by (auto simp: keeps_control_def map_machine_def op_simps)
  from execute_locked_Inr [OF a(4)] obtain call u w' where
    "run_plan m x v plan call u = (Inr r, w')" "keeps_control s1 u" "keeps_control w' w" by blast
  with a k that show ?thesis by blast
qed

text \<open>
  C2 (success_is_verified). An operation is reported as succeeded only when the runner returned exit code 0 without
  being cancelled, the repository could be observed afterwards, and what is read after that observation shows the
  reviewed effect: for a commit, the observed head differs from the reviewed one and the newest commit of the history
  has the reviewed head as its only parent and a delta with the digest of the staged contents that were reviewed; for
  a switch, the observed head is the reviewed branch at the reviewed commit; for a fetch, pull or push, the remote's
  endpoint read once more is the reviewed one.
\<close>

theorem success_is_verified:
  assumes "execute_with m x v plan root s = (Inr r, t)" "or_outcome r = Succeeded"
  shows "verified_success m x v plan r"
proof -
  obtain call u w where "run_plan m x v plan call u = (Inr r, w)"
    using execute_with_Inr [OF assms(1)] by blast
  from run_plan_success [OF this assms(2)] show ?thesis .
qed

section \<open>At most once\<close>

lemma assess_effects_total: "assess_effects m v plan r g \<noteq> (Inl e, g')"
proof
  assume "assess_effects m v plan r g = (Inl e, g')"
  moreover have "actual_commit m v b d g1 \<noteq> (Inl e1, g2)" for b d g1 e1 g2
    by (auto simp: actual_commit_def op_simps Let_def split: sum.splits list.splits)
  ultimately show False
    by (auto simp: assess_effects_def assess_commit_def assess_remote_def op_simps Let_def
        split: option.splits git_operation.splits if_splits)
qed

lemma run_plan_Inl:
  assumes "run_plan m x v plan call s = (Inl e, t)"
  shows "gt_plans s (ov_id (op_preview plan)) \<noteq> 0 \<and> e = Bail ''operation already started'' \<and> t = s"
  using assms by (auto simp: run_plan_def op_simps Let_def assess_effects_total split: prod.splits)

text \<open>An operation that fails whenever another fails, in the same way.\<close>

definition fails_like :: "('s, 'a) op \<Rightarrow> ('s, 'a) op \<Rightarrow> bool" where
  "fails_like f g \<longleftrightarrow> (\<forall>s e t. f s = (Inl e, t) \<longrightarrow> g s = (Inl e, t))"

lemma fails_like_refl [simp]: "fails_like f f"
  by (simp add: fails_like_def)

lemma fails_like_try: "(\<And>a. fails_like (f a) (g a)) \<Longrightarrow> fails_like (op_try k f) (op_try k g)"
  unfolding fails_like_def by (auto simp: op_simps)

lemma fails_like_ensure: "fails_like f g \<Longrightarrow> fails_like (op_ensure c w f) (op_ensure c w g)"
  unfolding fails_like_def by (auto simp: op_simps)

lemma fails_like_bracket: "(\<And>a. fails_like (f a) (g a)) \<Longrightarrow> fails_like (op_bracket k rel f) (op_bracket k rel g)"
  unfolding fails_like_def by (auto simp: bracket_simps)

lemma fails_like_run: "fails_like (run_plan m x v plan call) (run_plan m y v plan call)"
  unfolding fails_like_def
proof (intro allI impI)
  fix s e t assume "run_plan m x v plan call s = (Inl e, t)"
  from run_plan_Inl [OF this] show "run_plan m y v plan call s = (Inl e, t)"
    by (auto simp: run_plan_def op_try_def Let_def)
qed

lemma fails_like_execute: "fails_like (execute_with m x v plan root) (execute_with m (x\<lparr>gx_runner := r\<rparr>) v plan root)"
proof -
  have "operation_command (x\<lparr>gx_runner := r\<rparr>) v plan p = operation_command x v plan p" for p
    by (rule ext) (simp add: operation_command_def split: git_operation.split)
  then show ?thesis
    unfolding execute_with_def execute_locked_def Let_def
    by (auto intro!: fails_like_try fails_like_ensure fails_like_bracket fails_like_run)
qed

text \<open>
  C26 (plan_runs_once). A reviewed operation runs at most once.  An execution that returns a result found the plan
  unstarted and leaves it finished; every attempt with a plan that was started, on any machine
  and with any executor, fails without touching anything; and an execution that returns an error
  never ran the reviewed command: its outcome is the same for every runner.
\<close>

theorem plan_runs_once:
  "(\<forall>r t. execute_with m x v plan root s = (Inr r, t) \<longrightarrow>
      gt_plans s (ov_id (op_preview plan)) = 0 \<and> gt_plans t (ov_id (op_preview plan)) = 2)
   \<and> (gt_plans s (ov_id (op_preview plan)) \<noteq> 0 \<longrightarrow>
      (\<exists>e. \<forall>m x root. execute_with m x v plan root s = (Inl e, s)))
   \<and> (\<forall>e t. execute_with m x v plan root s = (Inl e, t) \<longrightarrow>
      (\<forall>r. execute_with m (x\<lparr>gx_runner := r\<rparr>) v plan root s = (Inl e, t)))"
proof (intro conjI allI impI)
  fix r t assume "execute_with m x v plan root s = (Inr r, t)"
  then show "gt_plans s (ov_id (op_preview plan)) = 0" by (rule execute_with_Inr)
next
  fix r t assume "execute_with m x v plan root s = (Inr r, t)"
  then show "gt_plans t (ov_id (op_preview plan)) = 2"
  proof (rule execute_with_Inr)
    fix l w call u w'
    assume "run_plan m x v plan call u = (Inr r, w')" and k: "keeps_control w' w" "keeps_control (release_lease l w) t"
    then have "gt_plans w' (ov_id (op_preview plan)) = 2" by (auto elim: run_plan_Inr)
    with k show ?thesis by (auto simp: keeps_control_def release_lease_def split: option.splits)
  qed
next
  assume "gt_plans s (ov_id (op_preview plan)) \<noteq> 0"
  then show "\<exists>e. \<forall>m x root. execute_with m x v plan root s = (Inl e, s)"
    by (cases "op_service plan = gs_id v") (auto simp: execute_with_def op_try_def)
next
  fix e t r assume "execute_with m x v plan root s = (Inl e, t)"
  with fails_like_execute [of m x v plan root r] show "execute_with m (x\<lparr>gx_runner := r\<rparr>) v plan root s = (Inl e, t)"
    by (simp add: fails_like_def)
qed


section \<open>The lease\<close>

text \<open>The gate before and after: the same, or one more generation of the repository's entry.\<close>

definition same_gate :: "source_gate \<Rightarrow> source_gate \<Rightarrow> bool" where
  "same_gate g h \<longleftrightarrow> (\<forall>j. gate_entry h j = gate_entry g j)"

definition next_generation :: "path \<Rightarrow> source_gate \<Rightarrow> source_gate \<Rightarrow> bool" where
  "next_generation i g h \<longleftrightarrow> (\<forall>j. gate_entry h j = (if path_eq i j
     then (gate_entry g j)\<lparr>gs_generation := gs_generation (gate_entry g j) + 1\<rparr> else gate_entry g j))"

lemma reserve_and_drop:
  assumes "gate_reserve_mutation i operation g = (Inr l, h)"
  shows "next_generation i g (gate_drop l h)" "gs_mutation (gate_entry g i) = None \<and> gs_runs (gate_entry g i) = []"
proof -
  have r: "\<not> sg_poisoned g" "grantable (gate_entry g i) operation None"
    "l = \<lparr>gl_identity = i, gl_operation = operation, gl_mutation = True\<rparr>"
    "h = gate_put i ((gate_entry g i)\<lparr>gs_mutation := Some operation\<rparr>) g"
    using assms by (auto simp: gate_reserve_mutation_def gate_reserve_Inr granted_def)
  then show idle: "gs_mutation (gate_entry g i) = None \<and> gs_runs (gate_entry g i) = []"
    by (auto simp: grantable_def)
  show "next_generation i g (gate_drop l h)"
    unfolding next_generation_def
  proof
    fix j
    show "gate_entry (gate_drop l h) j = (if path_eq i j
        then (gate_entry g j)\<lparr>gs_generation := gs_generation (gate_entry g j) + 1\<rparr> else gate_entry g j)"
      using r idle by (cases "path_eq i j")
        (auto simp: gate_drop_entry released_def dest: gate_entry_cong [of _ _ g])
  qed
qed

lemma acquire_and_release:
  assumes "acquire_lease v plan s = (Inr l, t)" "gt_gate w = gt_gate t"
  shows "if ov_requires_source_lease (op_preview plan)
    then next_generation (repository_identity (gs_binding v)) (gt_gate s) (gt_gate (release_lease l w))
      \<and> gs_runs (gate_entry (gt_gate s) (repository_identity (gs_binding v))) = []
    else same_gate (gt_gate s) (gt_gate (release_lease l w))"
proof (cases "ov_requires_source_lease (op_preview plan)")
  case True
  with assms obtain k h where "l = Some k"
    "gate_reserve_mutation (repository_identity (gs_binding v)) (ov_id (op_preview plan)) (gt_gate s) = (Inr k, h)"
    "gt_gate w = h"
    by (auto simp: acquire_lease_def with_gate_def op_simps split: prod.splits)
  with True reserve_and_drop show ?thesis by (auto simp: release_lease_def)
next
  case False
  with assms show ?thesis by (auto simp: acquire_lease_def same_gate_def release_lease_def)
qed

lemma acquire_lease_Inl: "acquire_lease v plan s = (Inl e, t) \<Longrightarrow> same_gate (gt_gate s) (gt_gate t)"
  by (auto simp: acquire_lease_def with_gate_def op_simps same_gate_def gate_reserve_mutation_def gate_reserve_Inl_entry
      split: if_splits prod.splits)

lemma on_machine_gate: "on_machine f s = (r, t) \<Longrightarrow> gt_gate t = gt_gate s"
  by (auto simp: op_simps)

definition gate_kept :: "'g git_state \<Rightarrow> 'g git_state \<Rightarrow> bool" where
  "gate_kept s t \<longleftrightarrow> gt_gate t = gt_gate s"

lemma gate_kept_order: "reflp gate_kept" "transp gate_kept"
  by (auto simp: gate_kept_def reflp_def transp_def)

lemma gate_kept_intros:
  "op_rel gate_kept (on_machine h)" "op_rel gate_kept f \<Longrightarrow> op_rel gate_kept (op_result f)"
  "(\<And>s. gt_gate (g s) = gt_gate s) \<Longrightarrow> op_rel gate_kept (op_modify g)"
  "op_rel gate_kept (\<lambda>s. case gx_runner x call s of (r, g) \<Rightarrow> (Inr r, s\<lparr>gt_machine := g\<rparr>))"
  by (auto simp: op_rel_def gate_kept_def on_machine_def op_result_def split: prod.splits) (metis snd_conv)

lemma gate_kept_bracket:
  assumes "op_rel gate_kept f" "\<And>h s. gt_gate (rel h s) = gt_gate s" "\<And>x. op_rel gate_kept (k x)"
  shows "op_rel gate_kept (op_bracket f rel k)"
  unfolding op_bracket_def
proof (rule op_rel_try [OF gate_kept_order(2) assms(1)])
  show "op_rel gate_kept (\<lambda>s. case k h s of (r, t) \<Rightarrow> (r, rel h t))" for h
    unfolding op_rel_def gate_kept_def
    using assms(2) op_relD [OF assms(3) [of h]] by (auto simp: gate_kept_def split: prod.splits)
qed

lemma execute_locked_gate: "execute_locked m x v plan root s = (r, t) \<Longrightarrow> gt_gate t = gt_gate s"
proof -
  have re: "op_rel gate_kept (refresh m v)" "op_rel gate_kept (revalidate m v plan)"
    using refresh_keeps revalidate_keeps unfolding op_rel_def gate_kept_def keeps_control_def by (metis prod.collapse)+
  have "op_rel gate_kept (execute_locked m x v plan root)"
    unfolding execute_locked_def run_plan_def Let_def
    by (intro gate_kept_intros op_rel_try op_rel_ensure op_rel_pure gate_kept_bracket gate_kept_order re)
      (simp_all add: map_machine_def set_plan_def)
  moreover assume "execute_locked m x v plan root s = (r, t)"
  ultimately show ?thesis by (auto dest: op_relD simp: gate_kept_def)
qed

text \<open>
  C6 (lease_returned). Whatever an execution returns and however Git ends, the gate is left as it was found except
  for the generation: a switch or pull that was executed had the repository to itself, with no
  run using the sources, gives its lease back and leaves exactly one more generation at that
  repository, so that runs can tell that the sources changed; every other operation leaves every
  entry untouched, and a failed attempt leaves no lease behind either.
\<close>

theorem lease_returned:
  "\<forall>r t. execute_with m x v plan root s = (r, t) \<longrightarrow>
    (let i = repository_identity (gs_binding v); lease = ov_requires_source_lease (op_preview plan) in
     (same_gate (gt_gate s) (gt_gate t) \<or> (lease \<and> next_generation i (gt_gate s) (gt_gate t)))
     \<and> (is_ok r \<longrightarrow> lease \<longrightarrow> next_generation i (gt_gate s) (gt_gate t) \<and> gs_runs (gate_entry (gt_gate s) i) = []))"
proof (intro allI impI)
  fix r t assume e: "execute_with m x v plan root s = (r, t)"
  let ?i = "repository_identity (gs_binding v)"
  let ?lease = "ov_requires_source_lease (op_preview plan)"
  have "same_gate (gt_gate s) (gt_gate t) \<and> \<not> is_ok r
    \<or> (\<exists>l s0 s1 (w :: 'a git_state). gt_gate (s0 :: 'a git_state) = gt_gate s \<and> acquire_lease v plan s0 = (Inr l, s1) \<and> gt_gate w = gt_gate s1
         \<and> gt_gate t = gt_gate (release_lease l w))"
    (is "?idle \<or> ?leased")
  proof -
    obtain r1 sa where dir: "on_machine (gx_private_dir x root) s = (r1, sa)" by fastforce
    obtain r2 s0 where lock: "on_machine (gx_lock x (lock_path m v root)) sa = (r2, s0)" by fastforce
    obtain r3 s1 where lease: "acquire_lease v plan s0 = (r3, s1)" by fastforce
    obtain r4 w where locked: "execute_locked m x v plan root s1 = (r4, w)" by fastforce
    note g = on_machine_gate [OF dir] on_machine_gate [OF lock] execute_locked_gate [OF locked]
    consider "t = s" "\<not> is_ok r" | "t = sa" "\<not> is_ok r" | "t = s0" "\<not> is_ok r"
      | e' where "r3 = Inl e'" "t = map_machine (gx_unlock x (lock_path m v root)) s1" "\<not> is_ok r"
      | l where "r3 = Inr l" "t = map_machine (gx_unlock x (lock_path m v root)) (release_lease l w)"
      using e dir lock lease locked
      by (cases r1; cases r2; cases r3; cases r4)
        (auto simp: execute_with_def op_try_def op_bracket_def op_ensure_def is_ok_def split: if_splits)
    then show ?thesis
    proof cases
      case 4
      with g acquire_lease_Inl lease show ?thesis by (fastforce simp: map_machine_def same_gate_def)
    next
      case (5 l)
      then have "gt_gate t = gt_gate (release_lease l w)" by (simp add: map_machine_def)
      with g lease 5(1) have "gt_gate s0 = gt_gate s \<and> acquire_lease v plan s0 = (Inr l, s1) \<and> gt_gate w = gt_gate s1
          \<and> gt_gate t = gt_gate (release_lease l w)" by simp
      then have ?leased by (rule_tac x = l in exI, rule_tac x = s0 in exI, rule_tac x = s1 in exI, rule_tac x = w in exI)
      then show ?thesis ..
    qed (use g in \<open>simp_all add: same_gate_def\<close>)
  qed
  then show "let i = ?i; lease = ?lease in
      (same_gate (gt_gate s) (gt_gate t) \<or> (lease \<and> next_generation i (gt_gate s) (gt_gate t)))
      \<and> (is_ok r \<longrightarrow> lease \<longrightarrow> next_generation i (gt_gate s) (gt_gate t) \<and> gs_runs (gate_entry (gt_gate s) i) = [])"
  proof
    assume "\<exists>l s0 s1 (w :: 'a git_state). gt_gate (s0 :: 'a git_state) = gt_gate s \<and> acquire_lease v plan s0 = (Inr l, s1) \<and> gt_gate w = gt_gate s1
         \<and> gt_gate t = gt_gate (release_lease l w)"
    then obtain l and s0 s1 w :: "'a git_state" where "gt_gate s0 = gt_gate s" "acquire_lease v plan s0 = (Inr l, s1)" "gt_gate w = gt_gate s1"
      "gt_gate t = gt_gate (release_lease l w)" by blast
    with acquire_and_release [of v plan s0 l s1 w] show ?thesis by (auto simp: Let_def split: if_splits)
  qed (simp add: Let_def)
qed

end
