(* ===== verification/Git_Demo.thy ===== *)
theory Git_Demo
  imports Git_Safety
begin

text \<open>
  A small concrete machine: one repository with one branch, a staged change, and a Git that
  commits it.  The whole flow (review, plan, execution) runs on it.
\<close>

definition demo_oid :: "char \<Rightarrow> string" where
  "demo_oid c = replicate 40 c"

definition demo_delta :: string where
  "demo_delta = '':100644 100644 '' @ demo_oid (CHR ''1'') @ '' '' @ demo_oid (CHR ''2'') @ '' M'' @ [nul] @ ''f'' @ [nul]"

definition demo_answer :: "bool \<Rightarrow> string list \<Rightarrow> git_output" where
  "demo_answer committed args = (let out = (\<lambda>c b. \<lparr>go_code = Some c, go_stdout = b, go_stderr = []\<rparr>) in
    if args ! 0 = ''rev-parse'' then
      (if args ! 1 = ''--show-toplevel'' then out 0 (''/r'' @ newline)
       else if args ! 1 = ''--verify'' then out 0 (demo_oid (if committed then CHR ''b'' else CHR ''a'') @ newline)
       else out 0 (''/r/.git'' @ newline))
    else if args ! 0 = ''config'' then out 1 []
    else if args ! 0 = ''symbolic-ref'' then out 0 (''refs/heads/main'' @ newline)
    else if args ! 0 = ''diff'' \<or> args ! 0 = ''diff-tree'' then out 0 demo_delta
    else if args ! 0 = ''log'' then
      out 0 (demo_oid (CHR ''b'') @ [nul] @ demo_oid (CHR ''a'') @ [nul] @ ''me'' @ [nul] @ ''7'' @ [nul] @ ''s'' @ [nul])
    else out 0 [])"

definition git_demo_machine :: "bool machine" where
  "git_demo_machine = \<lparr>gm_execute = (\<lambda>c _ _ g. (Inr (demo_answer g (drop 14 (gk_args c))), g)),
     gm_canonicalize = (\<lambda>p g. (Inr p, g)), gm_metadata = (\<lambda>p g. (Inl NotFound, g)),
     gm_index = (\<lambda>p g. (Inl NotFound, g)), gm_now = (\<lambda>_. 0), gm_host_env = [], gm_sha256 = (\<lambda>b. b),
     gm_escape = (\<lambda>_. ''?'')\<rparr>"

definition demo_executor :: "bool executor" where
  "demo_executor = \<lparr>gx_private_dir = (\<lambda>_. op_return ()), gx_lock = (\<lambda>_. op_return ()), gx_unlock = (\<lambda>_ g. g),
     gx_exists = (\<lambda>_ _. False), gx_write_new = (\<lambda>_ _. op_return ()), gx_remove_tree = (\<lambda>_ g. g),
     gx_runner = (\<lambda>_ _. (Inr \<lparr>oc_exit_code = Some 0, oc_cancelled = False, oc_output_limited = False\<rparr>, True))\<rparr>"

definition demo_service :: git_service where
  "demo_service = \<lparr>gs_git = ''/usr/bin/git'', gs_binding = \<lparr>rp_root = ''/r'', rp_git_dir = ''/r/.git'', rp_common_dir = ''/r/.git''\<rparr>,
     gs_environment = [], gs_version = (2, 46), gs_id = ''s''\<rparr>"

definition demo_state :: "bool git_state" where
  "demo_state = \<lparr>gt_machine = False, gt_cache = None, gt_gate = new_gate, gt_plans = (\<lambda>_. 0)\<rparr>"

definition git_demo_plan :: "operation_plan res \<times> bool git_state" where
  "git_demo_plan = op_try (commit_preview_op git_demo_machine demo_service)
     (\<lambda>p. plan_commit git_demo_machine demo_service ''p'' p ''msg'') demo_state"

definition demo_commit :: "(operation_plan \<times> operation_result) res" where
  "demo_commit = (case git_demo_plan of (Inl e, _) \<Rightarrow> Inl e
     | (Inr plan, s) \<Rightarrow> map_sum id (Pair plan) (fst (execute_with git_demo_machine demo_executor demo_service plan ''/x'' s)))"

lemma demo_commit_succeeds:
  "map_sum id (\<lambda>(plan, r). (or_outcome r, map_option cs_oid (or_commit r))) demo_commit
    = Inr (Succeeded, Some (demo_oid (CHR ''b'')))"
  by code_simp


lemma map_sum_Inr: "map_sum id f x = Inr y \<longleftrightarrow> (\<exists>z. x = Inr z \<and> f z = y)"
  by (cases x) auto

theorem success_is_verified_witness:
  "\<exists>plan s r t. execute_with git_demo_machine demo_executor demo_service plan ''/x'' s = (Inr r, t)
     \<and> or_outcome r = Succeeded \<and> verified_success git_demo_machine demo_executor demo_service plan r"
proof -
  obtain plan r where c: "demo_commit = Inr (plan, r)" and out: "or_outcome r = Succeeded"
    using demo_commit_succeeds by (auto simp: map_sum_Inr)
  from c obtain s where "fst (execute_with git_demo_machine demo_executor demo_service plan ''/x'' s) = Inr r"
    by (auto simp: demo_commit_def map_sum_Inr split: prod.splits sum.splits)
  then obtain t where "execute_with git_demo_machine demo_executor demo_service plan ''/x'' s = (Inr r, t)"
    by (metis prod.collapse)
  with out success_is_verified [OF this out] show ?thesis by blast
qed

theorem plan_runs_once_witness:
  "\<exists>plan s r t e. execute_with git_demo_machine demo_executor demo_service plan ''/x'' s = (Inr r, t)
     \<and> gt_plans t (ov_id (op_preview plan)) = 2
     \<and> execute_with git_demo_machine demo_executor demo_service plan ''/x'' t = (Inl e, t)"
proof -
  obtain plan r where c: "demo_commit = Inr (plan, r)"
    using demo_commit_succeeds by (auto simp: map_sum_Inr)
  then obtain s where "fst (execute_with git_demo_machine demo_executor demo_service plan ''/x'' s) = Inr r"
    by (auto simp: demo_commit_def map_sum_Inr split: prod.splits sum.splits)
  then obtain t where run: "execute_with git_demo_machine demo_executor demo_service plan ''/x'' s = (Inr r, t)"
    by (metis prod.collapse)
  from plan_runs_once [of git_demo_machine demo_executor demo_service plan "''/x''" s] run
  have twice: "gt_plans t (ov_id (op_preview plan)) = 2" by simp
  with plan_runs_once [of git_demo_machine demo_executor demo_service plan "''/x''" t]
  obtain e where "execute_with git_demo_machine demo_executor demo_service plan ''/x'' t = (Inl e, t)" by auto
  with run twice show ?thesis by blast
qed

text \<open>The same repository, switched to another branch at the same commit.\<close>

definition switch_answer :: "bool \<Rightarrow> string list \<Rightarrow> git_output" where
  "switch_answer switched args = (if switched \<and> args ! 0 = ''symbolic-ref''
     then \<lparr>go_code = Some 0, go_stdout = ''refs/heads/topic'' @ newline, go_stderr = []\<rparr>
     else if args ! 0 = ''show-ref'' then \<lparr>go_code = Some 0, go_stdout = demo_oid (CHR ''a'') @ newline, go_stderr = []\<rparr>
     else if args ! 0 = ''diff'' then \<lparr>go_code = Some 0, go_stdout = [], go_stderr = []\<rparr>
     else demo_answer False args)"

definition switch_machine :: "bool machine" where
  "switch_machine = git_demo_machine\<lparr>gm_execute := (\<lambda>c _ _ g. (Inr (switch_answer g (drop 14 (gk_args c))), g))\<rparr>"

definition switch_plan :: "operation_plan res \<times> bool git_state" where
  "switch_plan = op_try (refresh switch_machine demo_service)
     (\<lambda>n. plan_switch switch_machine demo_service ''p'' ''topic'' (gn_revision n))
     (demo_state\<lparr>gt_gate := snd (gate_ready (repository_identity (gs_binding demo_service)) new_gate)\<rparr>)"

definition demo_switch :: "(operation_plan \<times> operation_result) res" where
  "demo_switch = (case switch_plan of (Inl e, _) \<Rightarrow> Inl e
     | (Inr plan, s) \<Rightarrow> map_sum id (Pair plan) (fst (execute_with switch_machine demo_executor demo_service plan ''/x'' s)))"

lemma demo_switch_succeeds:
  "map_sum id (\<lambda>(plan, r). (ov_requires_source_lease (op_preview plan), or_outcome r)) demo_switch = Inr (True, Succeeded)"
  by code_simp

theorem lease_returned_witness:
  "\<exists>plan s r t. execute_with switch_machine demo_executor demo_service plan ''/x'' s = (Inr r, t)
     \<and> ov_requires_source_lease (op_preview plan)
     \<and> next_generation (repository_identity (gs_binding demo_service)) (gt_gate s) (gt_gate t)"
proof -
  obtain plan r where c: "demo_switch = Inr (plan, r)" and lease: "ov_requires_source_lease (op_preview plan)"
    using demo_switch_succeeds by (auto simp: map_sum_Inr)
  from c obtain s where "fst (execute_with switch_machine demo_executor demo_service plan ''/x'' s) = Inr r"
    by (auto simp: demo_switch_def map_sum_Inr split: prod.splits sum.splits)
  then obtain t where run: "execute_with switch_machine demo_executor demo_service plan ''/x'' s = (Inr r, t)"
    by (metis prod.collapse)
  from lease_returned [of switch_machine demo_executor demo_service plan "''/x''" s] run lease
  have "next_generation (repository_identity (gs_binding demo_service)) (gt_gate s) (gt_gate t)"
    by (simp add: Let_def is_ok_def)
  with run lease show ?thesis by blast
qed

end
