(* ===== verification/Text_Encode.thy ===== *)
theory Text_Encode
  imports Git_Machine
begin

text \<open>Text back to bytes, and the bounded texts that are shown or sent.\<close>

definition utf8_encode :: "nat \<Rightarrow> string" where
  "utf8_encode c = map char_of (if c < 128 then [c]
     else if c < 2048 then [192 + c div 64, 128 + c mod 64]
     else if c < 65536 then [224 + c div 4096, 128 + c div 64 mod 64, 128 + c mod 64]
     else [240 + c div 262144, 128 + c div 4096 mod 64, 128 + c div 64 mod 64, 128 + c mod 64])"

definition visible_codes :: "string \<Rightarrow> nat list" where
  "visible_codes s = filter (\<lambda>c. \<not> is_control c) (chars s)"

text \<open>\<open>structured_result::safe\<close>: at most \<open>n\<close> visible characters.\<close>

definition safe_text :: "nat \<Rightarrow> string \<Rightarrow> string" where
  "safe_text n s = concat (map utf8_encode (take n (visible_codes s)))"

fun take_text :: "nat \<Rightarrow> nat list \<Rightarrow> string" where
  "take_text n [] = []"
| "take_text n (c # cs) = (if n < length (utf8_encode c) then []
     else utf8_encode c @ take_text (n - length (utf8_encode c)) cs)"

text \<open>\<open>protocol::safe_error\<close>: visible characters of at most 512 bytes.\<close>

definition safe_error :: "string \<Rightarrow> string" where
  "safe_error e = take_text 512 (visible_codes e)"

end
