(* ===== verification/Wire_Requests.thy ===== *)
theory Wire_Requests
  imports Text_Encode
begin

text \<open>
  The requests of the local protocol and their validation (\<open>protocol.rs\<close>, \<open>run_wire.rs\<close>,
  \<open>git_wire.rs\<close>): every identifier, size, dimension and environment a client can send.
\<close>

section \<open>Requests\<close>

datatype run_request =
    RTasks string
  | RList "string option"
  | RReviewTask string string environment
  | RApproveTask nat string string string environment
  | RSaveTask nat string task_definition
  | RStart string string string "string option" environment bool nat nat
  | RInfo string
  | RCancel string bool
  | RReconcile string
  | RLog string nat nat nat
  | RSearch string nat string
  | RProblems string
  | RResultRaw string nat nat
  | RFindings string nat nat
  | RResultPin string bool
  | RResultExport string path
  | RCompare string string
  | REvents string
  | RFindingEditorReview string string nat
  | REditorReview string string nat
  | REditorOpen string environment nat nat
  | RSaveEditor nat string editor_config
  | RJob string
  | RCancelJob string

datatype git_task =
    TOpen string "path option" environment
  | TStatus string bool
  | TDiff string string "nat option" diff_target
  | THistory string nat
  | TCommitFiles string string
  | TBranches string
  | TRemotes string
  | TCommitReview string
  | TStage string string "nat list"
  | TUnstage string string "nat list"
  | TCommit string string string
  | TCreateBranch string string "string option"
  | TSwitch string string string
  | TFetch string string
  | TPull string string string string
  | TPush string string string string

datatype request =
    Run run_request
  | GitSubmit git_task
  | GitJob string
  | GitExecute string nat nat
  | GitOperations "string option"
  | GitOperationAttach string bool
  | GitOperationDetach string nat
  | GitOperationSnapshot string "nat option"
  | GitOperationInput string nat string
  | GitOperationResize string nat nat nat
  | GitOperationReconcile string repository
  | GitOperationCancel string nat bool
  | Hello
  | ListSessions "string option"
  | Definition string
  | StartTerminal string string nat nat environment bool
  | StartTransient string terminal_definition nat nat environment bool
  | StartDefaults string nat nat environment
  | Batch string
  | ContinueDefaults string
  | CancelDefaults string
  | Attach string bool
  | Detach string nat
  | Snapshot string "nat option"
  | Input string string nat
  | Resize string nat nat nat
  | Scroll string int nat
  | Search string string bool nat
  | Close string nat bool
  | PreviewClose "string option"
  | CloseProject string "string list" bool
  | Shutdown "string list" bool

definition is_mutating :: "request \<Rightarrow> bool" where
  "is_mutating q = (case q of Run (RJob _) \<Rightarrow> False | Hello \<Rightarrow> False | ListSessions _ \<Rightarrow> False
     | Definition _ \<Rightarrow> False | Snapshot _ _ \<Rightarrow> False | Batch _ \<Rightarrow> False | PreviewClose _ \<Rightarrow> False
     | GitJob _ \<Rightarrow> False | GitOperations _ \<Rightarrow> False | GitOperationSnapshot _ _ \<Rightarrow> False | _ \<Rightarrow> True)"

section \<open>Parts\<close>

definition MAX_TERMINAL_CELLS :: nat where "MAX_TERMINAL_CELLS = 12000"
definition MAX_INPUT_PACKET :: nat where "MAX_INPUT_PACKET = 65536"
definition MAX_SEARCH_BYTES :: nat where "MAX_SEARCH_BYTES = 256"

definition validate_dimensions :: "nat \<Rightarrow> nat \<Rightarrow> unit res" where
  "validate_dimensions height width = ensure (0 < height \<and> 2 \<le> width \<and> height * width \<le> MAX_TERMINAL_CELLS)
     ''terminal viewport must have rows > 0, columns >= 2, and at most 12000 cells'' (Inr ())"

definition environment_entry :: "string \<times> string \<Rightarrow> bool" where
  "environment_entry e = (case e of (k, w) \<Rightarrow> k \<noteq> [] \<and> CHR ''='' \<notin> set k \<and> nul \<notin> set k \<and> nul \<notin> set w)"

definition entry_size :: "string \<times> string \<Rightarrow> nat" where
  "entry_size e = (case e of (k, w) \<Rightarrow> length k + length w + 2)"

text \<open>
  The loop checks each entry and the running total; lengths of strings in memory do not
  overflow a \<open>usize\<close> before the 256 KiB bound is met.
\<close>

definition environment_step :: "nat \<Rightarrow> string \<times> string \<Rightarrow> nat res" where
  "environment_step n e =
    ensure (environment_entry e) ''invalid launch environment entry''
    (ensure (n + entry_size e \<le> 262144) ''launch environment exceeds 256 KiB'' (Inr (n + entry_size e)))"

definition validate_environment :: "environment \<Rightarrow> unit res" where
  "validate_environment env =
    ensure (length env \<le> 1024) ''launch environment exceeds 1024 entries''
    (and_then (fold_res environment_step 0 env) (\<lambda>_.
     and_then (context_opt (map_of env ''HOME'') ''launch environment needs HOME'') (\<lambda>home.
     ensure (is_absolute home) ''launch HOME must be absolute'' (Inr ()))))"

text \<open>\<open>LaunchEnvironment::from_variables\<close>, whose value is not used here.\<close>

definition launch_variables :: "environment \<Rightarrow> unit res" where
  "launch_variables env = and_then (from_variables env) (\<lambda>_. Inr ())"

definition hex_digest :: "string \<Rightarrow> string \<Rightarrow> unit res" where
  "hex_digest m d = ensure (length d = 64 \<and> list_all is_ascii_hexdigit d) m (Inr ())"

definition visible_text :: "string \<Rightarrow> nat \<Rightarrow> string \<Rightarrow> unit res" where
  "visible_text m n t = ensure (t \<noteq> [] \<and> length t \<le> n \<and> \<not> has_control t) m (Inr ())"

definition validate_targets :: "ext \<Rightarrow> string list \<Rightarrow> unit res" where
  "validate_targets x sessions =
    ensure (length sessions \<le> MAX_TERMINALS) ''too many close targets''
    (and_then (fold_res (\<lambda>seen s. and_then (valid_id x s) (\<lambda>_.
       insert_new ''duplicate close target'' seen s)) [] sessions) (\<lambda>_. Inr ()))"

text \<open>Checks one after the other; the first failure is the result.\<close>

fun checks :: "unit res list \<Rightarrow> unit res" where
  "checks [] = Inr ()"
| "checks (c # cs) = and_then c (\<lambda>_. checks cs)"

section \<open>Validation\<close>

definition validate_run_request :: "ext \<Rightarrow> run_request \<Rightarrow> unit res" where
  "validate_run_request x q = (case q of
      RTasks p \<Rightarrow> valid_id x p
    | RSaveTask _ p _ \<Rightarrow> valid_id x p
    | RSaveEditor _ p _ \<Rightarrow> valid_id x p
    | RList p \<Rightarrow> check_opt (valid_id x) p
    | RReviewTask p t env \<Rightarrow> checks [valid_id x p, valid_id x t, launch_variables env]
    | RApproveTask _ p t d env \<Rightarrow> checks [valid_id x p, valid_id x t, launch_variables env,
        hex_digest ''invalid task approval digest'' d]
    | RStart p t i d env _ height width \<Rightarrow> checks [valid_id x p, valid_id x t, valid_id x i,
        check_opt (hex_digest ''invalid expected task digest'') d, launch_variables env, validate_dimensions height width]
    | RInfo r \<Rightarrow> valid_id x r
    | RCancel r _ \<Rightarrow> valid_id x r
    | RReconcile r \<Rightarrow> valid_id x r
    | RProblems r \<Rightarrow> valid_id x r
    | RResultPin r _ \<Rightarrow> valid_id x r
    | REvents r \<Rightarrow> valid_id x r
    | RResultRaw r _ n \<Rightarrow> checks [valid_id x r,
        ensure (1 \<le> n \<and> n \<le> 65536) ''result raw page limit must be 1-65536'' (Inr ())]
    | RFindings r _ n \<Rightarrow> checks [valid_id x r, ensure (1 \<le> n \<and> n \<le> 100) ''finding page limit must be 1-100'' (Inr ())]
    | RResultExport r p \<Rightarrow> checks [valid_id x r, absolute_path p]
    | RCompare b r \<Rightarrow> checks [valid_id x b, valid_id x r]
    | RLog r _ _ n \<Rightarrow> checks [valid_id x r, ensure (0 < n \<and> n \<le> 65536) ''log read limit must be 1-65536'' (Inr ())]
    | RSearch r _ t \<Rightarrow> checks [valid_id x r, visible_text ''invalid log search query'' 1024 t]
    | RFindingEditorReview r d _ \<Rightarrow> checks [valid_id x r, hex_digest ''invalid finding body digest'' d]
    | REditorReview r p _ \<Rightarrow> checks [valid_id x r, ensure (length p \<le> 128 \<and> p \<noteq> []) ''invalid problem ID'' (Inr ())]
    | REditorOpen r env height width \<Rightarrow> checks [valid_id x r, launch_variables env, validate_dimensions height width]
    | RJob j \<Rightarrow> valid_id x j
    | RCancelJob j \<Rightarrow> valid_id x j)"

definition git_task_context :: "git_task \<Rightarrow> string option" where
  "git_task_context t = (case t of TOpen _ _ _ \<Rightarrow> None
     | TStatus c _ \<Rightarrow> Some c | TDiff c _ _ _ \<Rightarrow> Some c | THistory c _ \<Rightarrow> Some c | TCommitFiles c _ \<Rightarrow> Some c
     | TBranches c \<Rightarrow> Some c | TRemotes c \<Rightarrow> Some c | TCommitReview c \<Rightarrow> Some c | TStage c _ _ \<Rightarrow> Some c
     | TUnstage c _ _ \<Rightarrow> Some c | TCommit c _ _ \<Rightarrow> Some c | TCreateBranch c _ _ \<Rightarrow> Some c | TSwitch c _ _ \<Rightarrow> Some c
     | TFetch c _ \<Rightarrow> Some c | TPull c _ _ _ \<Rightarrow> Some c | TPush c _ _ _ \<Rightarrow> Some c)"

definition git_field :: "nat \<Rightarrow> string \<Rightarrow> unit res" where
  "git_field n t = visible_text ''Git field exceeds its visible-text limit'' n t"

definition git_oid :: "string \<Rightarrow> unit res" where
  "git_oid o' = and_then (parse_object_id o') (\<lambda>_. Inr ())"

definition git_selection :: "nat list \<Rightarrow> unit res" where
  "git_selection es =
    ensure (es \<noteq> [] \<and> length es \<le> 4096 \<and> list_all (\<lambda>e. e < 100000) es) ''select 1-4096 bounded Git entries''
    (ensure (distinct es) ''duplicate Git entry selection'' (Inr ()))"

definition git_message :: "string \<Rightarrow> unit res" where
  "git_message t = ensure (\<not> trim_is_empty t \<and> length t \<le> 65536 \<and> nul \<notin> set t)
     ''commit message must be nonempty and at most 64 KiB'' (Inr ())"

definition validate_git_task :: "ext \<Rightarrow> git_task \<Rightarrow> unit res" where
  "validate_git_task x t = and_then (check_opt (valid_id x) (git_task_context t)) (\<lambda>_. case t of
      TOpen p r env \<Rightarrow> checks [valid_id x p, check_opt absolute_path r, validate_environment env]
    | TDiff _ s e _ \<Rightarrow> checks [valid_id x s,
        ensure (case e of None \<Rightarrow> True | Some e \<Rightarrow> e < 100000) ''Git entry index exceeds limit'' (Inr ())]
    | THistory _ n \<Rightarrow> ensure (1 \<le> n \<and> n \<le> 200) ''history limit must be 1-200'' (Inr ())
    | TCommitFiles _ c \<Rightarrow> git_oid c
    | TStage _ s es \<Rightarrow> checks [valid_id x s, git_selection es]
    | TUnstage _ s es \<Rightarrow> checks [valid_id x s, git_selection es]
    | TCommit _ r m \<Rightarrow> checks [valid_id x r, git_message m]
    | TCreateBranch _ n s \<Rightarrow> checks [git_field 1024 n, check_opt git_oid s]
    | TSwitch _ s n \<Rightarrow> checks [valid_id x s, git_field 1024 n]
    | TFetch _ r \<Rightarrow> git_field 256 r
    | TPull _ s r b \<Rightarrow> checks [valid_id x s, git_field 256 r, git_field 1024 b]
    | TPush _ s r b \<Rightarrow> checks [valid_id x s, git_field 256 r, git_field 1024 b]
    | _ \<Rightarrow> Inr ())"

text \<open>The base64 form of an input packet.\<close>

definition input_packet :: "string \<Rightarrow> string \<Rightarrow> unit res" where
  "input_packet m d = ensure (length d \<le> (MAX_INPUT_PACKET + 2) div 3 * 4) m (Inr ())"

definition validate_request :: "ext \<Rightarrow> request \<Rightarrow> unit res" where
  "validate_request x q = (case q of
      Run r \<Rightarrow> validate_run_request x r
    | GitSubmit t \<Rightarrow> validate_git_task x t
    | GitJob j \<Rightarrow> valid_id x j
    | GitOperationReconcile i r \<Rightarrow> checks [valid_id x i, absolute_path (rp_root r), absolute_path (rp_git_dir r),
        absolute_path (rp_common_dir r)]
    | GitExecute p height width \<Rightarrow> checks [valid_id x p, validate_dimensions height width]
    | GitOperations p \<Rightarrow> check_opt (valid_id x) p
    | GitOperationAttach i _ \<Rightarrow> valid_id x i
    | GitOperationDetach i _ \<Rightarrow> valid_id x i
    | GitOperationSnapshot i _ \<Rightarrow> valid_id x i
    | GitOperationCancel i _ _ \<Rightarrow> valid_id x i
    | GitOperationInput i _ d \<Rightarrow> checks [valid_id x i, input_packet ''Git operation input packet exceeds 64 KiB'' d]
    | GitOperationResize i _ height width \<Rightarrow> checks [valid_id x i, validate_dimensions height width]
    | Hello \<Rightarrow> Inr ()
    | ListSessions p \<Rightarrow> check_opt (valid_id x) p
    | PreviewClose p \<Rightarrow> check_opt (valid_id x) p
    | StartTerminal p t height width env _ \<Rightarrow> checks [valid_id x p, valid_id x t, validate_dimensions height width,
        validate_environment env]
    | StartTransient p t height width env _ \<Rightarrow> checks [valid_id x p, valid_id x (td_id t), validate_dimensions height width,
        validate_environment env, ensure (\<not> td_persistent t) ''transient terminal must not be persistent'' (Inr ())]
    | StartDefaults p height width env \<Rightarrow> checks [valid_id x p, validate_dimensions height width, validate_environment env]
    | Batch b \<Rightarrow> valid_id x b
    | ContinueDefaults b \<Rightarrow> valid_id x b
    | CancelDefaults b \<Rightarrow> valid_id x b
    | Definition s \<Rightarrow> valid_id x s
    | Attach s _ \<Rightarrow> valid_id x s
    | Detach s _ \<Rightarrow> valid_id x s
    | Snapshot s _ \<Rightarrow> valid_id x s
    | Scroll s _ _ \<Rightarrow> valid_id x s
    | Close s _ _ \<Rightarrow> valid_id x s
    | Resize s height width _ \<Rightarrow> checks [valid_id x s, validate_dimensions height width]
    | Input s d _ \<Rightarrow> checks [valid_id x s, input_packet ''terminal input packet exceeds 64 KiB'' d]
    | Search s t _ _ \<Rightarrow> checks [valid_id x s, visible_text ''search needs 1-256 bytes of visible text'' MAX_SEARCH_BYTES t]
    | CloseProject p ss _ \<Rightarrow> checks [valid_id x p, validate_targets x ss]
    | Shutdown ss _ \<Rightarrow> validate_targets x ss)"

section \<open>Envelopes and responses\<close>

definition PROTOCOL :: nat where "PROTOCOL = 3"
definition MAX_REQUEST_MS :: nat where "MAX_REQUEST_MS = 5000"

record envelope =
  en_protocol :: nat
  en_request_id :: string
  en_client_id :: string
  en_host_instance :: "string option"
  en_deadline_ms :: nat
  en_request :: request

definition new_envelope :: "string \<Rightarrow> nat \<Rightarrow> string \<Rightarrow> request \<Rightarrow> envelope" where
  "new_envelope fresh now client q = \<lparr>en_protocol = PROTOCOL, en_request_id = fresh, en_client_id = client,
     en_host_instance = None, en_deadline_ms = saturating_add now MAX_REQUEST_MS, en_request = q\<rparr>"

definition validate_envelope :: "ext \<Rightarrow> nat \<Rightarrow> envelope \<Rightarrow> unit res" where
  "validate_envelope x now e =
    ensure (en_protocol e = PROTOCOL) ''protocol mismatch; use a compatible binary''
    (checks [valid_id x (en_request_id e), valid_id x (en_client_id e),
      ensure (now < en_deadline_ms e \<and> en_deadline_ms e \<le> saturating_add now MAX_REQUEST_MS)
        ''request deadline expired or exceeds five seconds'' (Inr ()),
      (if en_request e = Hello then Inr () else
        and_then (context_opt (en_host_instance e) ''request needs a host instance'') (valid_id x)),
      validate_request x (en_request e)])"

record 'j response =
  rp_protocol :: nat
  rp_request_id :: string
  rp_host_instance :: string
  rp_data :: "'j option"
  rp_error :: "string option"

definition response_success :: "string \<Rightarrow> 'j \<Rightarrow> 'j response" where
  "response_success i d = \<lparr>rp_protocol = PROTOCOL, rp_request_id = i, rp_host_instance = [], rp_data = Some d, rp_error = None\<rparr>"

definition response_failure :: "string \<Rightarrow> string \<Rightarrow> 'j response" where
  "response_failure i e = \<lparr>rp_protocol = PROTOCOL, rp_request_id = i, rp_host_instance = [], rp_data = None,
     rp_error = Some (safe_error e)\<rparr>"

definition with_host :: "string \<Rightarrow> 'j response \<Rightarrow> 'j response" where
  "with_host h r = r\<lparr>rp_host_instance := h\<rparr>"

definition validate_response :: "ext \<Rightarrow> envelope \<Rightarrow> 'j response \<Rightarrow> unit res" where
  "validate_response x e r =
    ensure (rp_protocol r = PROTOCOL) ''host protocol changed; no request was replayed''
    (ensure (rp_request_id r = en_request_id e) ''host response request ID mismatch''
    (and_then (valid_id x (rp_host_instance r)) (\<lambda>_.
     ensure (case en_host_instance e of None \<Rightarrow> True | Some h \<Rightarrow> h = rp_host_instance r)
       ''host instance changed; reconnect explicitly; no request was replayed'' (Inr ()))))"

definition decode_response :: "('j \<Rightarrow> 'v res) \<Rightarrow> 'j response \<Rightarrow> 'v res" where
  "decode_response dec r = (case rp_error r of Some e \<Rightarrow> Inl (Bail e)
     | None \<Rightarrow> and_then (context_opt (rp_data r) ''missing response payload'') (\<lambda>d.
         with_context (dec d) ''invalid response payload''))"

end
