(* ===== verification/Wire_Bounds.thy ===== *)
theory Wire_Bounds
  imports Wire_Requests
begin

text \<open>
  What a validated request guarantees the host: the identifiers, viewports and environments it
  carries are well formed and bounded, whatever the client sent.
\<close>

section \<open>Projections\<close>










section \<open>The parts\<close>

declare checks.simps [simp del]

lemma checks_Inr [simp]: "checks cs = Inr () \<longleftrightarrow> (\<forall>c\<in>set cs. c = Inr ())"
  by (induction cs) (auto simp: checks.simps and_then_def split: sum.splits)

lemma request_id_Inr [simp]: "valid_id x i = Inr () \<longleftrightarrow> uuid_ok x i"
  by (auto simp: valid_id_def ensure_def)

lemma validate_dimensions_Inr [simp]:
  "validate_dimensions h w = Inr () \<longleftrightarrow> 0 < h \<and> 2 \<le> w \<and> h * w \<le> MAX_TERMINAL_CELLS"
  by (auto simp: validate_dimensions_def ensure_def)

lemma check_opt_id [simp]: "check_opt f p = Inr () \<longleftrightarrow> (\<forall>v. p = Some v \<longrightarrow> f v = Inr ())"
  by (cases p) (auto simp: check_opt_def)











end
