(* ===== verification/Wire_Frames.thy ===== *)
theory Wire_Frames
  imports Wire_Requests
begin

text \<open>
  Frames on the local socket (\<open>protocol.rs\<close>): a length in four bytes and a JSON body, read whole
  or in pieces under one absolute deadline; the identity of an executable and its cache.  JSON is
  a pair of functions, a socket the list of what its reads and writes observe.
\<close>

section \<open>Whole frames\<close>

definition be32 :: "nat \<Rightarrow> string" where
  "be32 n = map (\<lambda>i. char_of (n div 256 ^ (3 - i))) [0..<4]"

definition be32_value :: "string \<Rightarrow> nat" where
  "be32_value h = foldl (\<lambda>n c. n * 256 + of_char c) 0 h"

definition read_exact :: "nat \<Rightarrow> string \<Rightarrow> (string \<times> string) res" where
  "read_exact n b = (if length b < n then Inl (Os ''failed to fill whole buffer'') else Inr (take n b, drop n b))"

definition frame_size :: "string \<Rightarrow> nat res" where
  "frame_size header = (let size = be32_value header in
     ensure (0 < size \<and> size \<le> MAX_MESSAGE) ''IPC message exceeds allowed size'' (Inr size))"

definition read_frame :: "(string \<Rightarrow> 'v res) \<Rightarrow> string \<Rightarrow> ('v \<times> string) res" where
  "read_frame dec b =
    and_then (read_exact 4 b) (\<lambda>(header, b).
    and_then (frame_size header) (\<lambda>size.
    and_then (read_exact size b) (\<lambda>(body, b).
    and_then (with_context (dec body) ''invalid IPC message'') (\<lambda>v. Inr (v, b)))))"

definition write_frame :: "('v \<Rightarrow> string res) \<Rightarrow> 'v \<Rightarrow> string res" where
  "write_frame enc v =
    and_then (enc v) (\<lambda>bytes.
    ensure (length bytes \<le> MAX_MESSAGE) ''IPC response exceeds allowed size; reduce terminal dimensions''
    (Inr (be32 (length bytes) @ bytes)))"

section \<open>Under a deadline\<close>

text \<open>
  What a read observes: the time it is started, and bytes that have arrived, the end of the
  stream, an interruption or an error (the timeout is one).  A read takes at most what it asks
  for; what is left is still there for the next read.  No more observations: the read times out.
\<close>

datatype arrival = Arrived nat string | Ended nat | Interrupted nat | Broken nat

fun arrival_time :: "arrival \<Rightarrow> nat" where
  "arrival_time (Arrived t _) = t"
| "arrival_time (Ended t) = t"
| "arrival_time (Interrupted t) = t"
| "arrival_time (Broken t) = t"

definition leftover :: "nat \<Rightarrow> string \<Rightarrow> arrival list \<Rightarrow> arrival list" where
  "leftover t s es = (if s = [] then es else Arrived t s # es)"

function read_until :: "nat \<Rightarrow> nat \<Rightarrow> string \<Rightarrow> arrival list \<Rightarrow> (string \<times> arrival list) res" where
  "read_until deadline n acc es =
    (if n = 0 then Inr (acc, es) else
     case es of [] \<Rightarrow> Inl (Bail ''read IPC frame before deadline'')
     | e # rest \<Rightarrow>
         ensure (arrival_time e < deadline) ''IPC absolute deadline exceeded''
         (case e of
            Ended _ \<Rightarrow> Inl (Bail ''IPC peer disconnected before the frame completed'')
          | Broken _ \<Rightarrow> Inl (Bail ''read IPC frame before deadline'')
          | Interrupted _ \<Rightarrow> read_until deadline n acc rest
          | Arrived t s \<Rightarrow>
              if s = [] then Inl (Bail ''IPC peer disconnected before the frame completed'')
              else read_until deadline (n - length s) (acc @ take n s) (leftover t (drop n s) rest)))"
  by pat_completeness auto
termination by (relation "measures [\<lambda>(d, n, acc, es). n, \<lambda>(d, n, acc, es). length es]") auto

declare read_until.simps [simp del]

definition read_frame_deadline :: "(string \<Rightarrow> 'v res) \<Rightarrow> nat \<Rightarrow> arrival list \<Rightarrow> ('v \<times> arrival list) res" where
  "read_frame_deadline dec deadline es =
    and_then (read_until deadline 4 [] es) (\<lambda>(header, es).
    and_then (frame_size header) (\<lambda>size.
    and_then (read_until deadline size [] es) (\<lambda>(body, es).
    and_then (with_context (dec body) ''invalid IPC message'') (\<lambda>v. Inr (v, es)))))"

text \<open>What a write observes: its start, and how many bytes the peer's buffer took.\<close>

datatype departure = Took nat nat | WriteInterrupted nat | WriteBroken nat

fun write_until :: "nat \<Rightarrow> string \<Rightarrow> departure list \<Rightarrow> string \<Rightarrow> unit res \<times> string \<times> departure list" where
  "write_until deadline [] ds sent = (Inr (), sent, ds)"
| "write_until deadline b [] sent = (Inl (Bail ''write IPC frame before deadline''), sent, [])"
| "write_until deadline b (Took t n # ds) sent =
    (if deadline \<le> t then (Inl (Bail ''IPC absolute deadline exceeded''), sent, Took t n # ds)
     else if n = 0 then (Inl (Bail ''IPC peer stopped reading''), sent, ds)
     else write_until deadline (drop n b) ds (sent @ take n b))"
| "write_until deadline b (WriteInterrupted t # ds) sent =
    (if deadline \<le> t then (Inl (Bail ''IPC absolute deadline exceeded''), sent, WriteInterrupted t # ds)
     else write_until deadline b ds sent)"
| "write_until deadline b (WriteBroken t # ds) sent =
    (if deadline \<le> t then (Inl (Bail ''IPC absolute deadline exceeded''), sent, WriteBroken t # ds)
     else (Inl (Bail ''write IPC frame before deadline''), sent, ds))"

definition write_frame_deadline ::
    "('v \<Rightarrow> string res) \<Rightarrow> nat \<Rightarrow> 'v \<Rightarrow> departure list \<Rightarrow> unit res \<times> string" where
  "write_frame_deadline enc deadline v ds =
    (case and_then (enc v) (\<lambda>bytes. ensure (length bytes \<le> MAX_MESSAGE)
        ''IPC response exceeds allowed size; reduce terminal dimensions'' (Inr bytes)) of
       Inl e \<Rightarrow> (Inl e, [])
     | Inr bytes \<Rightarrow> (case write_until deadline (be32 (length bytes)) ds [] of
           (Inl e, sent, _) \<Rightarrow> (Inl e, sent)
         | (Inr _, sent, ds) \<Rightarrow> (case write_until deadline bytes ds sent of (r, sent, _) \<Rightarrow> (r, sent))))"

section \<open>The peer\<close>

record peer =
  pc_uid :: nat
  pc_pid :: nat

text \<open>\<open>SO_PEERCRED\<close> with the length it filled in, against this process's user.\<close>

definition peer_credentials :: "nat \<Rightarrow> (nat \<times> int \<times> bool) res \<Rightarrow> peer res" where
  "peer_credentials euid credentials =
    and_then (with_context credentials ''cannot verify local peer'') (\<lambda>(uid, pid, whole).
    ensure (whole \<and> 0 < pid) ''invalid local peer credentials''
    (ensure (uid = euid) ''IPC peer belongs to another user''
    (Inr \<lparr>pc_uid = uid, pc_pid = nat pid\<rparr>)))"

section \<open>The identity of an executable\<close>

record binary_identity =
  bi_device :: nat
  bi_inode :: nat
  bi_length :: nat
  bi_modified :: "int \<times> int"
  bi_changed :: "int \<times> int"

text \<open>An opened executable: its kind, identity before, contents, and identity at a later check.\<close>

record opened_binary =
  ob_is_file :: bool
  ob_identity :: binary_identity
  ob_bytes :: string
  ob_after :: binary_identity

definition BINARY_LIMIT :: nat where "BINARY_LIMIT = 536870912"

type_synonym binary_cache = "(binary_identity \<times> string) list"

definition remember_binary :: "binary_identity \<Rightarrow> string \<Rightarrow> binary_cache \<Rightarrow> binary_cache" where
  "remember_binary i d c = (if map_of c i \<noteq> None then c else (if length c = 16 then tl c else c) @ [(i, d)])"

definition executable_build_id :: "(string \<Rightarrow> string) \<Rightarrow> opened_binary res \<Rightarrow> (binary_cache, string) op" where
  "executable_build_id sha opened =
    op_try (op_lift (with_context opened ''read selected binary identity'')) (\<lambda>b.
    op_ensure (ob_is_file b \<and> bi_length (ob_identity b) \<le> BINARY_LIMIT)
      ''binary identity needs a regular executable of at most 512 MiB''
    (op_try (op_get (\<lambda>c. map_of c (ob_identity b))) (\<lambda>cached.
     case cached of Some d \<Rightarrow>
       op_ensure (ob_after b = ob_identity b) ''selected executable changed while checking its identity'' (op_return d)
     | None \<Rightarrow>
       op_ensure (length (ob_bytes b) \<le> BINARY_LIMIT) ''selected executable exceeds identity size limit''
       (op_ensure (ob_after b = ob_identity b \<and> length (ob_bytes b) = bi_length (ob_identity b))
         ''selected executable changed while checking its identity''
       (op_try (op_modify (remember_binary (ob_identity b) (sha (ob_bytes b)))) (\<lambda>_. op_return (sha (ob_bytes b))))))))"

section \<open>Round trips\<close>

lemma be32_value_be32:
  assumes "n < 4294967296"
  shows "be32_value (be32 n) = n"
proof -
  let ?a = "n div 256" let ?b = "?a div 256" let ?c = "?b div 256"
  have list: "[0..<4] = [0, 1, 2, 3::nat]" by (simp add: upt_rec)
  have div: "n div 256 ^ 2 = ?b" "n div 256 ^ 3 = ?c"
    by (simp_all add: div_mult2_eq [symmetric] power2_eq_square power3_eq_cube)
  have "?c < 256" using assms by (simp add: div_mult2_eq [symmetric] less_mult_imp_div_less)
  have "be32_value (be32 n) = ((?c mod 256 * 256 + ?b mod 256) * 256 + ?a mod 256) * 256 + n mod 256"
    using div by (simp add: be32_value_def be32_def list)
  also have "?c mod 256 * 256 + ?b mod 256 = ?b" using \<open>?c < 256\<close> div_mult_mod_eq [of ?b 256] by simp
  also have "?b * 256 + ?a mod 256 = ?a" by (rule div_mult_mod_eq)
  also have "?a * 256 + n mod 256 = n" by (rule div_mult_mod_eq)
  finally show ?thesis .
qed

lemma be32_length [simp]: "length (be32 n) = 4"
  by (simp add: be32_def)

lemma frame_size_be32: "0 < n \<Longrightarrow> n \<le> MAX_MESSAGE \<Longrightarrow> frame_size (be32 n) = Inr n"
  by (simp add: frame_size_def be32_value_be32 MAX_MESSAGE_def)

lemma frame_roundtrip:
  assumes "write_frame enc v = Inr bytes"
    and "\<And>body. enc v = Inr body \<Longrightarrow> body \<noteq> [] \<and> dec body = Inr v"
  shows "read_frame dec (bytes @ further) = Inr (v, further)"
proof -
  from assms(1) obtain body where b: "enc v = Inr body" "length body \<le> MAX_MESSAGE" "bytes = be32 (length body) @ body"
    by (auto simp: write_frame_def res_simps)
  with assms(2) have "0 < length body" "dec body = Inr v" by auto
  with b show ?thesis by (simp add: read_frame_def read_exact_def frame_size_be32 with_context_def)
qed

section \<open>Pieces\<close>

text \<open>The bytes of arrivals that are in time and nonempty, between interruptions.\<close>

fun timely :: "nat \<Rightarrow> arrival \<Rightarrow> bool" where
  "timely deadline (Arrived t s) \<longleftrightarrow> t < deadline \<and> s \<noteq> []"
| "timely deadline (Interrupted t) \<longleftrightarrow> t < deadline"
| "timely deadline (Ended t) \<longleftrightarrow> False"
| "timely deadline (Broken t) \<longleftrightarrow> False"

fun arrived :: "arrival \<Rightarrow> string" where
  "arrived (Arrived t s) = s"
| "arrived e = []"

definition stream_of :: "arrival list \<Rightarrow> string" where
  "stream_of es = concat (map arrived es)"

lemma read_until_timely:
  assumes "\<forall>e\<in>set es. timely deadline e" "n \<le> length (stream_of es)"
  shows "\<exists>rest. read_until deadline n acc es = Inr (acc @ take n (stream_of es), rest)
    \<and> stream_of rest = drop n (stream_of es) \<and> (\<forall>e\<in>set rest. timely deadline e)"
  using assms
proof (induction deadline n acc es rule: read_until.induct)
  case (1 deadline n acc es)
  show ?case
  proof (cases "n = 0")
    case True
    with 1 show ?thesis by (simp add: read_until.simps)
  next
    case False
    with 1(4) obtain e rest where es: "es = e # rest" by (cases es) (auto simp: stream_of_def)
    show ?thesis
    proof (cases e)
      case (Arrived t s)
      let ?rest = "leftover t (drop n s) rest"
      have stream: "stream_of ?rest = drop (length s - length (drop n s)) s @ stream_of rest"
        by (auto simp: leftover_def stream_of_def)
      have t: "t < deadline" "s \<noteq> []" using 1(3) es Arrived by auto
      have "\<exists>r. read_until deadline (n - length s) (acc @ take n s) ?rest
          = Inr ((acc @ take n s) @ take (n - length s) (stream_of ?rest), r)
          \<and> stream_of r = drop (n - length s) (stream_of ?rest) \<and> (\<forall>e\<in>set r. timely deadline e)"
        using False es Arrived t 1(3,4)
        by (intro 1(1)) (auto simp: leftover_def stream_of_def split: if_splits)
      moreover have "read_until deadline n acc es = read_until deadline (n - length s) (acc @ take n s) ?rest"
        using False es Arrived t by (simp add: read_until.simps [of deadline n])
      moreover have "take n s @ take (n - length s) (stream_of ?rest) = take n (stream_of es)"
        "drop (n - length s) (stream_of ?rest) = drop n (stream_of es)"
        using es Arrived by (cases "length s \<le> n"; auto simp: leftover_def stream_of_def)+
      ultimately show ?thesis by auto
    next
      case (Interrupted t)
      with 1 False es show ?thesis by (auto simp: read_until.simps [of deadline n] stream_of_def)
    qed (use 1(3) es in auto)
  qed
qed


lemma read_until_short:
  assumes "length (stream_of es) < n" "\<forall>e\<in>set es. timely deadline e"
  shows "\<exists>m. read_until deadline n acc es = Inl (Bail m)"
  using assms
proof (induction deadline n acc es rule: read_until.induct)
  case (1 deadline n acc es)
  show ?case
  proof (cases es)
    case Nil
    with 1 show ?thesis by (simp add: read_until.simps)
  next
    case (Cons e rest)
    show ?thesis
    proof (cases e)
      case (Arrived t s)
      have t: "t < deadline" "s \<noteq> []" using 1(4) Cons Arrived by auto
      have "\<exists>m. read_until deadline (n - length s) (acc @ take n s) (leftover t (drop n s) rest) = Inl (Bail m)"
        using Cons Arrived t 1(3,4) by (intro 1(1)) (auto simp: leftover_def stream_of_def split: if_splits)
      moreover have "read_until deadline n acc es
          = read_until deadline (n - length s) (acc @ take n s) (leftover t (drop n s) rest)"
        using Cons Arrived t 1(3) by (simp add: read_until.simps [of deadline n])
      ultimately show ?thesis by simp
    next
      case (Interrupted t)
      with 1 Cons show ?thesis by (auto simp: read_until.simps [of deadline n] stream_of_def)
    qed (use 1(4) Cons in auto)
  qed
qed

lemma read_until_exact:
  assumes "\<forall>e\<in>set es. timely deadline e"
  obtains b rest where "read_exact n (stream_of es) = Inr (b, stream_of rest)" "read_until deadline n [] es = Inr (b, rest)"
      "\<forall>e\<in>set rest. timely deadline e"
    | m where "read_exact n (stream_of es) = Inl (Os ''failed to fill whole buffer'')" "read_until deadline n [] es = Inl (Bail m)"
proof (cases "n \<le> length (stream_of es)")
  case True
  with read_until_timely [OF assms True, of "[]"] obtain rest where
    "read_until deadline n [] es = Inr (take n (stream_of es), rest)" "stream_of rest = drop n (stream_of es)"
    "\<forall>e\<in>set rest. timely deadline e" by auto
  with True show ?thesis by (intro that(1) [of "take n (stream_of es)" rest]) (simp_all add: read_exact_def)
next
  case False
  with read_until_short [of es n deadline "[]"] assms show ?thesis
    by (auto simp: read_exact_def intro: that(2))
qed

lemma read_pieces:
  assumes "\<forall>e\<in>set es. timely deadline e"
  shows "case read_frame dec (stream_of es) of
      Inr (v, rest) \<Rightarrow> \<exists>es'. read_frame_deadline dec deadline es = Inr (v, es') \<and> stream_of es' = rest
    | Inl e \<Rightarrow> if e = Os ''failed to fill whole buffer'' then \<exists>m. read_frame_deadline dec deadline es = Inl (Bail m)
        else read_frame_deadline dec deadline es = Inl e"
  using assms
proof (rule read_until_exact [of es deadline 4])
  fix h es1 assume h: "read_exact 4 (stream_of es) = Inr (h, stream_of es1)" "read_until deadline 4 [] es = Inr (h, es1)"
    and t: "\<forall>e\<in>set es1. timely deadline e"
  show ?thesis
  proof (cases "frame_size h")
    case (Inl e)
    with h show ?thesis by (auto simp: read_frame_def read_frame_deadline_def frame_size_def Let_def ensure_def split: if_splits)
  next
    case (Inr size)
    from t show ?thesis
    proof (rule read_until_exact [of es1 deadline size])
      fix b es2 assume "read_exact size (stream_of es1) = Inr (b, stream_of es2)" "read_until deadline size [] es1 = Inr (b, es2)"
      with h Inr show ?thesis
        by (auto simp: read_frame_def read_frame_deadline_def with_context_def split: sum.splits)
    qed (use h Inr in \<open>auto simp: read_frame_def read_frame_deadline_def\<close>)
  qed
qed (auto simp: read_frame_def read_frame_deadline_def)

text \<open>
  Reading a frame from a socket gives what reading it from the whole byte stream would
  give, however the kernel cuts the stream into reads and interrupts them, as long as the pieces
  arrive before the one absolute deadline: the same value with the same bytes left over, the same
  rejection of a bad length or body, and an error exactly when the stream ends too early.
\<close>

theorem pieces_equal_stream:
  assumes "\<forall>e\<in>set es. timely deadline e"
  shows "case read_frame dec (stream_of es) of
      Inr (v, rest) \<Rightarrow> \<exists>es'. read_frame_deadline dec deadline es = Inr (v, es') \<and> stream_of es' = rest
    | Inl e \<Rightarrow> if e = Os ''failed to fill whole buffer'' then \<exists>m. read_frame_deadline dec deadline es = Inl (Bail m)
        else read_frame_deadline dec deadline es = Inl e"
  using assms by (rule read_pieces)

theorem pieces_equal_stream_witness:
  "\<exists>es'. read_frame_deadline (\<lambda>b. Inr b) 100
      [Arrived 1 [nul, nul], Interrupted 2, Arrived 3 [nul, CHR 0x03, CHR ''a''], Arrived 4 ''bcd''] = Inr (''abc'', es')
    \<and> stream_of es' = ''d''"
proof -
  let ?es = "[Arrived 1 [nul, nul], Interrupted 2, Arrived 3 [nul, CHR 0x03, CHR ''a''], Arrived 4 ''bcd'']"
  have "read_frame (\<lambda>b. Inr b :: string res) (stream_of ?es) = Inr (''abc'', ''d'')" by code_simp
  with pieces_equal_stream [of ?es 100 "\<lambda>b. Inr b"] show ?thesis by auto
qed

section \<open>Delivery\<close>

lemma write_until_prefix:
  "write_until deadline b ds sent = (r, sent', ds') \<Longrightarrow>
    (\<exists>k. sent' = sent @ take k b) \<and> (r = Inr () \<longrightarrow> sent' = sent @ b)"
proof (induction deadline b ds sent arbitrary: r sent' ds' rule: write_until.induct)
  case (3 deadline c b t n ds sent)
  show ?case
  proof (cases "deadline \<le> t \<or> n = 0")
    case True
    with 3(2) show ?thesis by (auto split: if_splits intro: exI [of _ 0])
  next
    case False
    with 3 obtain k where "sent' = (sent @ take n (c # b)) @ take k (drop n (c # b))"
      "r = Inr () \<longrightarrow> sent' = (sent @ take n (c # b)) @ drop n (c # b)" by fastforce
    then show ?thesis by (intro conjI exI [of _ "n + k"]) (simp_all add: take_add)
  qed
qed (auto split: if_splits intro: exI [of _ 0])

lemma write_frame_deadline_sends:
  assumes "write_frame_deadline enc deadline v ds = (r, sent)"
  shows "(\<forall>bytes. write_frame enc v = Inr bytes \<longrightarrow> prefix sent bytes \<and> (r = Inr () \<longrightarrow> sent = bytes))
    \<and> (\<forall>e. write_frame enc v = Inl e \<longrightarrow> r = Inl e \<and> sent = [])"
proof (cases "and_then (enc v) (\<lambda>bytes. ensure (length bytes \<le> MAX_MESSAGE)
        ''IPC response exceeds allowed size; reduce terminal dimensions'' (Inr bytes))")
  case (Inl e)
  then have "write_frame enc v = Inl e" by (cases "enc v") (auto simp: write_frame_def ensure_def split: if_splits)
  with Inl assms show ?thesis by (simp add: write_frame_deadline_def)
next
  case (Inr bytes)
  then have w: "write_frame enc v = Inr (be32 (length bytes) @ bytes)"
    by (cases "enc v") (auto simp: write_frame_def ensure_def split: if_splits)
  obtain r1 s1 d1 where 1: "write_until deadline (be32 (length bytes)) ds [] = (r1, s1, d1)" by (metis prod_cases3)
  obtain r2 s2 d2 where 2: "write_until deadline bytes d1 s1 = (r2, s2, d2)" by (metis prod_cases3)
  note p = write_until_prefix [OF 1] write_until_prefix [OF 2]
  show ?thesis
  proof (cases r1)
    case (Inl e)
    with assms Inr 1 p have "r = Inl e \<and> prefix sent (be32 (length bytes) @ bytes)"
      by (auto simp: write_frame_deadline_def take_is_prefix intro: prefix_prefix)
    with w show ?thesis by simp
  next
    case (Inr u)
    with assms \<open>_ = Inr bytes\<close> 1 2 p have "r = r2" "sent = s2" "s1 = be32 (length bytes)"
      by (simp_all add: write_frame_deadline_def)
    with w p show ?thesis by (auto simp: take_is_prefix)
  qed
qed

text \<open>
  C19 (frame_delivery). A frame that one side could send before its deadline, in however many partial writes, is read
  by the other side as the same value, in however many partial reads before its own deadline,
  and the bytes behind it are left for the next frame; a failed send never leaves more than a
  prefix of the frame on the wire.
\<close>

theorem frame_delivery:
  assumes "write_frame_deadline enc deadline v ds = (r, sent)"
    and "\<And>body. enc v = Inr body \<Longrightarrow> body \<noteq> [] \<and> dec body = Inr v"
  shows "(r = Inr () \<longrightarrow> (\<forall>es limit further. stream_of es = sent @ further \<longrightarrow> (\<forall>e\<in>set es. timely limit e) \<longrightarrow>
      (\<exists>es'. read_frame_deadline dec limit es = Inr (v, es') \<and> stream_of es' = further)))
    \<and> (\<forall>bytes. write_frame enc v = Inr bytes \<longrightarrow> prefix sent bytes)"
proof (intro conjI allI impI)
  note sends = write_frame_deadline_sends [OF assms(1)]
  show "prefix sent bytes" if "write_frame enc v = Inr bytes" for bytes using sends that by blast
  fix es limit further
  assume r: "r = Inr ()" and es: "stream_of es = sent @ further" and t: "\<forall>e\<in>set es. timely limit e"
  from r sends have "write_frame enc v = Inr sent" by (cases "write_frame enc v") auto
  with assms(2) have "read_frame dec (stream_of es) = Inr (v, further)" unfolding es by (intro frame_roundtrip)
  with read_pieces [OF t, of dec]
  show "\<exists>es'. read_frame_deadline dec limit es = Inr (v, es') \<and> stream_of es' = further" by simp
qed

theorem frame_delivery_witness:
  "\<exists>sent es'. write_frame_deadline (\<lambda>s. Inr (CHR 0x22 # s)) 9 ''hi'' [Took 1 2, WriteInterrupted 1, Took 2 9, Took 3 9] = (Inr (), sent)
    \<and> read_frame_deadline (\<lambda>b. Inr (tl b)) 50 [Arrived 20 sent] = Inr (''hi'', es') \<and> stream_of es' = []"
proof -
  let ?w = "write_frame_deadline (\<lambda>s. Inr (CHR 0x22 # s)) 9 ''hi'' [Took 1 2, WriteInterrupted 1, Took 2 9, Took 3 9]"
  have w: "?w = (Inr (), [nul, nul, nul, CHR 0x03, CHR 0x22] @ ''hi'')" by code_simp
  have "\<exists>es'. read_frame_deadline (\<lambda>b. Inr (tl b)) 50 [Arrived 20 ([nul, nul, nul, CHR 0x03, CHR 0x22] @ ''hi'')] = Inr (''hi'', es')
      \<and> stream_of es' = []"
    by (rule frame_delivery [OF w, of "\<lambda>b. Inr (tl b)", THEN conjunct1, rule_format])
      (auto simp: stream_of_def)
  with w show ?thesis by blast
qed

end
