(* ===== verification/Result_Format.thy ===== *)
theory Result_Format
  imports Text_Encode
begin

text \<open>
  Structured results (\<open>structured_result.rs\<close>): the JSON values they are made of, the one
  consistent reading of the producer's file, the schemas that are supported and the summary.
  Parsing and printing JSON and SHA-256 are parameters.
\<close>

section \<open>JSON values\<close>

datatype json_value =
    JNull
  | JBool bool
  | JInt int
  | JFloat string
  | JText string
  | JArray "json_value list"
  | JObject "(string \<times> json_value) list"

record formats =
  rx_parse :: "string \<Rightarrow> json_value res"
  rx_print :: "json_value \<Rightarrow> string"
  rx_sha :: "string \<Rightarrow> string"

definition get :: "string \<Rightarrow> json_value \<Rightarrow> json_value option" where
  "get k v = (case v of JObject m \<Rightarrow> map_of m k | _ \<Rightarrow> None)"

definition as_text :: "json_value \<Rightarrow> string option" where
  "as_text v = (case v of JText s \<Rightarrow> Some s | _ \<Rightarrow> None)"

definition as_u64 :: "json_value \<Rightarrow> nat option" where
  "as_u64 v = (case v of JInt n \<Rightarrow> if 0 \<le> n \<and> n \<le> int u64_max then Some (nat n) else None | _ \<Rightarrow> None)"

definition as_bool :: "json_value \<Rightarrow> bool option" where
  "as_bool v = (case v of JBool b \<Rightarrow> Some b | _ \<Rightarrow> None)"

definition as_array :: "json_value \<Rightarrow> json_value list option" where
  "as_array v = (case v of JArray vs \<Rightarrow> Some vs | _ \<Rightarrow> None)"

definition is_object :: "json_value \<Rightarrow> bool" where
  "is_object v = (case v of JObject _ \<Rightarrow> True | _ \<Rightarrow> False)"

text \<open>A pointer as its names; the pointers of the program name members of objects only.\<close>

fun pointer :: "string list \<Rightarrow> json_value \<Rightarrow> json_value option" where
  "pointer [] v = Some v"
| "pointer (k # ks) v = Option.bind (get k v) (pointer ks)"

definition pointer_text :: "string list \<Rightarrow> json_value \<Rightarrow> string option" where
  "pointer_text ks v = Option.bind (pointer ks v) as_text"

text \<open>\<open>json!\<close> with optional members, and indexing by a name.\<close>

definition or_null :: "json_value option \<Rightarrow> json_value" where
  "or_null v = (case v of None \<Rightarrow> JNull | Some v \<Rightarrow> v)"

definition json_object :: "(string \<times> json_value) list \<Rightarrow> json_value" where
  "json_object kvs = JObject (bt_extend [] kvs)"

definition json_digest :: "formats \<Rightarrow> json_value \<Rightarrow> string" where
  "json_digest f v = rx_sha f (rx_print f v)"

text \<open>\<open>structured_result::text\<close>: a nonempty string at a pointer.\<close>

definition need_text :: "string list \<Rightarrow> json_value \<Rightarrow> string res" where
  "need_text ks v = context_opt (case pointer_text ks v of None \<Rightarrow> None | Some t \<Rightarrow> if t = [] then None else Some t)
     (''missing nonempty string '' @ concat (map (\<lambda>k. ''/'' @ k) ks))"

section \<open>The producer's file\<close>

record file_stamp =
  fs_is_file :: bool
  fs_len :: nat
  fs_identity :: "nat \<times> nat"
  fs_times :: "int list"

text \<open>What is seen of it: the opened file before and after reading, its bytes, and the path again.\<close>

record producer_file =
  pf_before :: file_stamp
  pf_bytes :: string
  pf_after :: file_stamp
  pf_current :: "file_stamp res"

datatype input_file = InputMissing | InputOversize nat | InputBytes string

definition same_stamp :: "file_stamp \<Rightarrow> file_stamp \<Rightarrow> bool" where
  "same_stamp a b = (fs_identity a = fs_identity b \<and> fs_len a = fs_len b \<and> fs_times a = fs_times b)"

definition read_input :: "producer_file res \<Rightarrow> nat \<Rightarrow> input_file res" where
  "read_input opened limit = (case opened of
      Inl e \<Rightarrow> if e = NotFound then Inr InputMissing else Inl (Bail ''open producer result'')
    | Inr p \<Rightarrow>
        ensure (fs_is_file (pf_before p)) ''producer result must be a regular file''
        (if limit < fs_len (pf_before p) then Inr (InputOversize (fs_len (pf_before p))) else
         let bytes = take (limit + 1) (pf_bytes p) in
         if limit < length bytes then Inr (InputOversize (length bytes)) else
         and_then (with_context (pf_current p) ''producer result path changed while reading'') (\<lambda>current.
         ensure (fs_is_file (pf_after p) \<and> fs_is_file current \<and> same_stamp (pf_before p) (pf_after p)
             \<and> same_stamp (pf_after p) current)
           ''producer result changed while reading; snapshot unavailable'' (Inr (InputBytes bytes)))))"

section \<open>Schemas\<close>

definition supported_schema :: "string \<Rightarrow> nat \<Rightarrow> bool" where
  "supported_schema schema version = ((schema, version) \<in> {(''ici.next.run'', 2), (''lens.result'', 1)})"

definition unsupported :: "json_value \<Rightarrow> (string \<times> nat) option" where
  "unsupported document =
    Option.bind (Option.bind (get ''schema_id'' document) as_text) (\<lambda>schema.
    Option.bind (Option.bind (get ''schema_version'' document) as_u64) (\<lambda>version.
    if supported_schema schema version then None else Some (safe_text 128 schema, version)))"

definition need_object :: "json_value \<Rightarrow> string \<Rightarrow> unit res" where
  "need_object document k = ensure (case get k document of None \<Rightarrow> False | Some v \<Rightarrow> is_object v)
     (''missing '' @ k @ '' object'') (Inr ())"

text \<open>The producer, its version, completeness, and the identity and scope that are digested.\<close>

type_synonym producer_facts = "string \<times> string \<times> bool option \<times> json_value \<times> json_value"

definition ici_facts :: "json_value \<Rightarrow> producer_facts res" where
  "ici_facts d =
    and_then (need_text [''run_id''] d) (\<lambda>_.
    and_then (check_all (need_object d) [''identity'', ''scope'', ''execution'', ''gate'', ''publication'']) (\<lambda>_.
    ensure (case get ''checks'' d of Some JNull \<Rightarrow> True | Some (JArray _) \<Rightarrow> True | _ \<Rightarrow> False)
      ''ici v2 requires checks; null means unknown check scope''
    (and_then (need_text [''producer'', ''ici_version''] d) (\<lambda>version.
     Inr (''ici'', version, Option.bind (pointer [''execution'', ''required_complete''] d) as_bool,
       json_object [(''policy'', or_null (pointer [''identity'', ''policy_digest''] d)),
         (''toolchain'', or_null (pointer [''identity'', ''toolchain_digest''] d)),
         (''fingerprint'', or_null (pointer [''identity'', ''fingerprint_version''] d)),
         (''producer'', or_null (get ''producer'' d))],
       or_null (get ''scope'' d))))))"

definition lens_facts :: "json_value \<Rightarrow> string \<Rightarrow> producer_facts res" where
  "lens_facts d run_id =
    and_then (need_text [''producer'', ''name''] d) (\<lambda>name.
    ensure (name = ''lens'') ''unexpected Lens producer''
    (ensure (case get ''complete'' d of Some (JBool _) \<Rightarrow> True | _ \<Rightarrow> False) ''Lens complete must be boolean''
    (and_then (check_all (need_object d) [''execution'', ''source'']) (\<lambda>_.
     ensure (case get ''run_id'' d of Some JNull \<Rightarrow> True | Some (JText _) \<Rightarrow> True | _ \<Rightarrow> False)
       ''Lens run_id must be string or null''
     (ensure (case Option.bind (get ''run_id'' d) as_text of None \<Rightarrow> True | Some i \<Rightarrow> i = run_id)
       ''Lens run_id differs from owning idk invocation''
     (and_then (need_text [''producer'', ''version''] d) (\<lambda>version.
      Inr (''lens'', version, as_bool (or_null (get ''complete'' d)),
        json_object [(''producer'', or_null (get ''producer'' d)), (''source'', or_null (get ''source'' d)),
          (''cwd'', or_null (pointer [''execution'', ''cwd''] d))],
        json_object [(''source'', or_null (get ''source'' d)),
          (''domain_schema'', or_null (pointer [''data'', ''schema''] d))]))))))))"

definition summarize_result :: "formats \<Rightarrow> json_value \<Rightarrow> string \<Rightarrow> result_summary res" where
  "summarize_result f d run_id =
    and_then (need_text [''schema_id''] d) (\<lambda>schema.
    and_then (context_opt (Option.bind (get ''schema_version'' d) as_u64) ''missing schema_version'') (\<lambda>version.
    and_then (if schema = ''ici.next.run'' \<and> version = 2 then ici_facts d
        else if schema = ''lens.result'' \<and> version = 1 then lens_facts d run_id
        else Inl (Bail ''unsupported result schema'')) (\<lambda>(producer, producer_version, complete, identity, scope).
    ensure (length producer_version \<le> 256) ''producer version exceeds limit''
    (let producer_run_id = Option.bind (get ''run_id'' d) as_text in
     ensure (case producer_run_id of None \<Rightarrow> True | Some i \<Rightarrow> length i \<le> 256) ''producer run ID exceeds limit''
     (and_then (context_opt (Option.bind (get ''findings'' d) as_array) ''missing findings array'') (\<lambda>findings.
      and_then (check_all (\<lambda>finding. and_then (need_text [''message''] finding) (\<lambda>_.
          and_then (need_text [''severity''] finding) (\<lambda>_. Inr ()))) findings) (\<lambda>_.
      Inr \<lparr>rs_schema_id = schema, rs_schema_version = version, rs_producer = producer,
           rs_producer_version = producer_version, rs_producer_run_id = producer_run_id,
           rs_findings_count = length findings, rs_complete = complete,
           rs_selected_gate = map_option (safe_text 64) (pointer_text [''gate'', ''selected''] d),
           rs_workspace_gate = map_option (safe_text 64) (pointer_text [''gate'', ''workspace''] d),
           rs_scope_kind = map_option (safe_text 64) (pointer_text [''scope'', ''kind''] d),
           rs_identity_digest = json_digest f identity, rs_scope_digest = json_digest f scope\<rparr>)))))))"

text \<open>The standalone reader: the whole document inline.\<close>

definition read_result :: "formats \<Rightarrow> path \<Rightarrow> producer_file res \<Rightarrow> string \<Rightarrow> structured_result res" where
  "read_result f p opened run_id =
    and_then (read_input opened MAX_RESULT_BYTES) (\<lambda>i. case i of
      InputMissing \<Rightarrow> Inr ResultMissing
    | InputOversize n \<Rightarrow> Inr (ResultOversize MAX_RESULT_BYTES n)
    | InputBytes bytes \<Rightarrow>
        and_then (with_context (rx_parse f bytes) ''malformed structured result JSON'') (\<lambda>d.
        case unsupported d of
          Some (schema, version) \<Rightarrow> Inr (ResultUnsupported schema version None)
        | None \<Rightarrow> and_then (summarize_result f d run_id) (\<lambda>s.
            Inr (ResultAvailable run_id p (rx_sha f bytes) (rs_schema_id s) (rs_schema_version s)
              (rs_producer_version s) (rs_producer_run_id s) (rx_print f d)))))"

definition inspect_result :: "formats \<Rightarrow> path \<Rightarrow> producer_file res \<Rightarrow> string \<Rightarrow> structured_result" where
  "inspect_result f p opened run_id = (case read_result f p opened run_id of
     Inl e \<Rightarrow> ResultInvalid (safe_text 512 (error_text e)) None | Inr r \<Rightarrow> r)"

end
