(* ===== verification/Result_Store.thy ===== *)
theory Result_Store
  imports Result_Format
begin

text \<open>
  The private store of result bodies (\<open>result_store.rs\<close>): immutable files named by run and
  digest under a byte budget, their capture, verification, pages, export and removal.  It works
  on the filesystem of \<open>Store\<close>, whose calls can fail; the names that a directory lists are a
  parameter.
\<close>

definition TOTAL_RESULT_BYTES :: nat where "TOTAL_RESULT_BYTES = 268435456"
definition RAW_PAGE_BYTES :: nat where "RAW_PAGE_BYTES = 65536"
definition FINDING_PAGE_ITEMS :: nat where "FINDING_PAGE_ITEMS = 100"
definition FINDING_PAGE_BYTES :: nat where "FINDING_PAGE_BYTES = 65536"

record result_store =
  sr_root :: path
  sr_limit :: nat

record results =
  rz_ext :: ext
  rz_formats :: formats
  rz_list :: "path \<Rightarrow> world \<Rightarrow> string list"

section \<open>Bodies\<close>

definition body_path :: "results \<Rightarrow> result_store \<Rightarrow> body_reference \<Rightarrow> bool \<Rightarrow> path res" where
  "body_path z st b events =
    and_then (valid_id (rz_ext z) (bd_run_id b)) (\<lambda>_.
    ensure (length (bd_sha256 b) = 64 \<and> list_all is_ascii_hexdigit (bd_sha256 b)) ''invalid result digest''
    (ensure (bd_bytes b \<le> (if events then MAX_EVENT_BYTES else MAX_RESULT_BYTES)) ''invalid result body length''
    (Inr (join_path (sr_root st) (bd_run_id b @ ''.'' @ bd_sha256 b @ ''.''
      @ (if events then ''events'' else ''json''))))))"

definition lock_file :: "result_store \<Rightarrow> path" where
  "lock_file st = join_path (sr_root st) ''result.lock''"

fun sum_bytes :: "result_store \<Rightarrow> string list \<Rightarrow> nat \<Rightarrow> (world, nat) op" where
  "sum_bytes st [] n = op_return n"
| "sum_bytes st (f # fs) n =
    op_try syscall (\<lambda>_.
    op_try (op_get (\<lambda>w. (fw_euid w, fw_files w (components (join_path (sr_root st) f))))) (\<lambda>(uid, i).
    case i of None \<Rightarrow> op_fail NotFound
    | Some i \<Rightarrow>
        op_ensure (is_regular i \<and> fi_uid i = uid) ''unexpected file in managed result storage; preserved''
        (op_try (op_lift (context_opt (checked_add n (length (fi_bytes i))) ''result storage size overflow'')) (\<lambda>n.
         sum_bytes st fs n))))"

definition bytes_used :: "results \<Rightarrow> result_store \<Rightarrow> (world, nat) op" where
  "bytes_used z st =
    op_try syscall (\<lambda>_.
    op_try (op_get (rz_list z (sr_root st))) (\<lambda>fs.
    sum_bytes st (filter (\<lambda>f. f \<noteq> ''result.lock'') fs) 0))"

text \<open>\<open>symlink_metadata().is_ok()\<close>: any error counts as absent.\<close>

definition entry_exists :: "path \<Rightarrow> (world, bool) op" where
  "entry_exists p w = (case syscall w of
      (Inl _, w') \<Rightarrow> (Inr False, w') | (Inr _, w') \<Rightarrow> (Inr (file_at p w' \<noteq> None), w'))"

text \<open>The new file: created with mode 0400, written, and synced with its directory.\<close>

definition body_inode :: "world \<Rightarrow> string \<Rightarrow> inode" where
  "body_inode w b = \<lparr>fi_kind = RegularFile, fi_uid = fw_euid w, fi_mode = 256, fi_bytes = b\<rparr>"

definition create_body :: "component list \<Rightarrow> (world, unit) op" where
  "create_body k = op_try syscall (\<lambda>_.
     op_try (op_get (\<lambda>w. fw_files w k)) (\<lambda>f.
     if f \<noteq> None then op_fail (Os ''EEXIST'') else op_modify (\<lambda>w. put_file k (body_inode w []) w)))"

definition fill_body :: "component list \<Rightarrow> string \<Rightarrow> (world, unit) op" where
  "fill_body k bytes w = (case take_fault w of
      (None, w') \<Rightarrow> (Inr (), put_file k (body_inode w' bytes) w')
    | (Some (n, e), w') \<Rightarrow> (Inl (Os e), put_file k (body_inode w' (take n bytes)) w'))"

text \<open>
  The clean-up after a failed write removes the file it created, when it can look at it; no one
  else writes here, so the inode at the path is the one that was opened.
\<close>

definition clean_body :: "component list \<Rightarrow> world \<Rightarrow> world" where
  "clean_body k w = (case run_ops [syscall, syscall] w of
      (Inl _, w') \<Rightarrow> w' | (Inr _, w') \<Rightarrow> snd (syscall (remove_file k w')))"

definition write_body :: "component list \<Rightarrow> string \<Rightarrow> (world, unit) op" where
  "write_body k bytes w = (case run_ops [fill_body k bytes, syscall, syscall] w of
      (Inr u, w') \<Rightarrow> (Inr u, w') | (Inl e, w') \<Rightarrow> (Inl e, clean_body k w'))"

definition put_body :: "results \<Rightarrow> result_store \<Rightarrow> string \<Rightarrow> string \<Rightarrow> bool
    \<Rightarrow> (world, body_reference + structured_result) op" where
  "put_body z st run_id bytes events =
    op_try (op_lift (valid_id (rz_ext z) run_id)) (\<lambda>_.
    let body = \<lparr>bd_run_id = run_id, bd_sha256 = rx_sha (rz_formats z) bytes, bd_bytes = length bytes\<rparr> in
    op_try (op_lift (body_path z st body events)) (\<lambda>p.
    op_try (acquire_lock (lock_file st)) (\<lambda>_.
    op_try (entry_exists p) (\<lambda>exists.
    if exists then
      op_try (read_private p (length bytes)) (\<lambda>existing.
      op_ensure (existing = bytes) ''existing immutable result differs; preserved''
      (op_try syscall (\<lambda>_. op_return (Inl body))))
    else
      op_try (bytes_used z st) (\<lambda>used.
      if sr_limit st < saturating_add used (length bytes)
      then op_return (Inr (ResultLimited (sr_limit st) (length bytes)))
      else op_try (create_body (components p)) (\<lambda>_.
        op_try (write_body (components p) bytes) (\<lambda>_. op_return (Inl body))))))))"

section \<open>Capture\<close>

definition classify :: "formats \<Rightarrow> string \<Rightarrow> string \<Rightarrow> body_reference \<Rightarrow> structured_result" where
  "classify f run_id bytes body = (case rx_parse f bytes of
      Inl e \<Rightarrow> ResultInvalid (safe_text 512 (error_text e)) (Some body)
    | Inr d \<Rightarrow> (case unsupported d of
        Some (schema, version) \<Rightarrow> ResultUnsupported schema version (Some body)
      | None \<Rightarrow> (case summarize_result f d run_id of
          Inr s \<Rightarrow> ResultStored s body
        | Inl e \<Rightarrow> ResultInvalid (safe_text 512 (error_text e)) (Some body))))"

definition capture_bytes :: "results \<Rightarrow> result_store \<Rightarrow> string \<Rightarrow> string \<Rightarrow> world \<Rightarrow> structured_result \<times> world" where
  "capture_bytes z st run_id bytes w =
    (if MAX_RESULT_BYTES < length bytes then (ResultOversize MAX_RESULT_BYTES (length bytes), w) else
     case put_body z st run_id bytes False w of
       (Inr (Inl body), w') \<Rightarrow> (classify (rz_formats z) run_id bytes body, w')
     | (Inr (Inr state), w') \<Rightarrow> (state, w')
     | (Inl e, w') \<Rightarrow> (ResultStorageFailed (safe_text 512 (error_text e)), w'))"

definition capture :: "results \<Rightarrow> result_store \<Rightarrow> string \<Rightarrow> producer_file res \<Rightarrow> world \<Rightarrow> structured_result \<times> world" where
  "capture z st run_id opened w = (case read_input opened MAX_RESULT_BYTES of
      Inr InputMissing \<Rightarrow> (ResultMissing, w)
    | Inr (InputOversize n) \<Rightarrow> (ResultOversize MAX_RESULT_BYTES n, w)
    | Inr (InputBytes bytes) \<Rightarrow> capture_bytes z st run_id bytes w
    | Inl e \<Rightarrow> (ResultInvalid (safe_text 512 (error_text e)) None, w))"

text \<open>The old inline form is a document; its print is the body from now on.\<close>

definition migrate :: "results \<Rightarrow> result_store \<Rightarrow> string \<Rightarrow> structured_result \<Rightarrow> world \<Rightarrow> structured_result \<times> world" where
  "migrate z st run_id r w = (case r of
      ResultAvailable _ _ _ _ _ _ _ document \<Rightarrow> capture_bytes z st run_id document w
    | _ \<Rightarrow> (r, w))"

section \<open>Verification\<close>

definition verify_body :: "results \<Rightarrow> result_store \<Rightarrow> structured_result \<Rightarrow> body_reference \<Rightarrow> (world, string) op" where
  "verify_body z st r body =
    op_try (op_lift (body_path z st body False)) (\<lambda>p.
    op_try (read_private p MAX_RESULT_BYTES) (\<lambda>bytes.
    op_ensure (length bytes = bd_bytes body \<and> rx_sha (rz_formats z) bytes = bd_sha256 body)
      ''stored result digest or byte length changed''
    (op_try (op_lift (case r of
        ResultStored s _ \<Rightarrow> and_then (rx_parse (rz_formats z) bytes) (\<lambda>d.
          and_then (summarize_result (rz_formats z) d (bd_run_id body)) (\<lambda>s'.
          ensure (s' = s) ''stored summary differs from immutable result body'' (Inr ())))
      | _ \<Rightarrow> Inr ())) (\<lambda>_. op_return bytes))))"

definition verified :: "results \<Rightarrow> result_store \<Rightarrow> structured_result \<Rightarrow> world
    \<Rightarrow> (structured_result \<times> string option) \<times> world" where
  "verified z st r w = (case result_body r of
      None \<Rightarrow> ((r, None), w)
    | Some body \<Rightarrow>
        if (case r of ResultExpired _ \<Rightarrow> True | ResultTampered _ _ \<Rightarrow> True | _ \<Rightarrow> False) then ((r, None), w) else
        (case verify_body z st r body w of
           (Inr bytes, w') \<Rightarrow> ((r, Some bytes), w')
         | (Inl e, w') \<Rightarrow> ((if e = NotFound then ResultExpired body
             else ResultTampered body (safe_text 512 (error_text e)), None), w')))"

text \<open>\<open>verified\<close> inside the methods that can fail.\<close>

definition verified_op :: "results \<Rightarrow> result_store \<Rightarrow> structured_result \<Rightarrow> (world, structured_result \<times> string option) op" where
  "verified_op z st r w = (case verified z st r w of (x, w') \<Rightarrow> (Inr x, w'))"

section \<open>Pages\<close>

record raw_page =
  rw_result :: structured_result
  rw_offset :: nat
  rw_next_offset :: nat
  rw_data :: string
  rw_eof :: bool

text \<open>The bytes of the page; on the wire they are in base64.\<close>

definition raw_result :: "results \<Rightarrow> result_store \<Rightarrow> structured_result \<Rightarrow> nat \<Rightarrow> nat \<Rightarrow> (world, raw_page) op" where
  "raw_result z st r offset limit =
    op_ensure (1 \<le> limit \<and> limit \<le> RAW_PAGE_BYTES) ''raw result page limit must be 1-65536''
    (op_try (verified_op z st r) (\<lambda>(r, bytes).
     let b = (case bytes of None \<Rightarrow> [] | Some b \<Rightarrow> b) in
     op_ensure (offset \<le> length b \<or> b = []) ''result offset exceeds body length''
     (let start = min offset (length b); stop = min (saturating_add start limit) (length b) in
      op_return \<lparr>rw_result = r, rw_offset = offset, rw_next_offset = stop,
        rw_data = take (stop - start) (drop start b), rw_eof = (stop = length b)\<rparr>)))"

record finding_location =
  fl_path :: string
  fl_start_line :: "nat option"
  fl_start_column :: "nat option"
  fl_end_line :: "nat option"
  fl_end_column :: "nat option"

record structured_finding =
  sf_body_sha256 :: string
  sf_index :: nat
  sf_severity :: string
  sf_code :: "string option"
  sf_provider :: "string option"
  sf_message :: string
  sf_location :: "finding_location option"
  sf_evidence_object :: "string option"
  sf_data_pointer :: "string option"
  sf_truncated :: bool

text \<open>A bounded field and whether bounding changed its length.\<close>

definition bounded_field :: "nat \<Rightarrow> string \<Rightarrow> string \<times> bool" where
  "bounded_field n t = (safe_text n t, length (safe_text n t) \<noteq> length t)"

definition bounded_option :: "nat \<Rightarrow> string option \<Rightarrow> string option \<times> bool" where
  "bounded_option n t = (case t of None \<Rightarrow> (None, False)
     | Some t \<Rightarrow> (Some (fst (bounded_field n t)), snd (bounded_field n t)))"

definition text_or :: "string \<Rightarrow> string option \<Rightarrow> string" where
  "text_or d t = (case t of None \<Rightarrow> d | Some t \<Rightarrow> t)"

definition finding_of :: "json_value \<Rightarrow> string \<Rightarrow> nat \<Rightarrow> structured_finding" where
  "finding_of v sha index =
    (let (message, t1) = bounded_field 8192 (text_or [] (pointer_text [''message''] v));
         (severity, t2) = bounded_field 64 (text_or ''unknown'' (pointer_text [''severity''] v));
         (code, t3) = bounded_option 256 (Option.bind
            (case get ''rule_id'' v of None \<Rightarrow> get ''code'' v | Some r \<Rightarrow> Some r) as_text);
         (provider, t4) = bounded_option 256 (pointer_text [''provider''] v);
         primary = get ''primary_location'' v;
         number = (\<lambda>k. Option.bind primary (\<lambda>p. Option.bind (get k p) as_u64));
         path = Option.bind (case Option.bind primary (get ''path'') of
             None \<Rightarrow> pointer [''evidence'', ''path''] v | Some p \<Rightarrow> Some p) as_text;
         location = (case path of None \<Rightarrow> None
           | Some p \<Rightarrow> if p \<noteq> [] \<and> length p \<le> 4096 \<and> \<not> has_control p
               then Some \<lparr>fl_path = p, fl_start_line = number ''start_line'', fl_start_column = number ''start_column'',
                 fl_end_line = number ''end_line'', fl_end_column = number ''end_column''\<rparr> else None);
         (object, t5) = bounded_option 512 (pointer_text [''evidence'', ''object''] v);
         (data, t6) = bounded_option 1024 (pointer_text [''evidence'', ''data_pointer''] v)
     in \<lparr>sf_body_sha256 = sha, sf_index = index, sf_severity = severity, sf_code = code, sf_provider = provider,
         sf_message = message, sf_location = location, sf_evidence_object = object, sf_data_pointer = data,
         sf_truncated = (t1 \<or> t2 \<or> t3 \<or> t4 \<or> t5 \<or> t6 \<or> (path \<noteq> None \<and> location = None))\<rparr>)"

record finding_page =
  fp_result :: structured_result
  fp_offset :: nat
  fp_next_offset :: nat
  fp_total :: nat
  fp_findings :: "structured_finding list"
  fp_more :: bool

text \<open>The loop over the page: it stops before the finding that would exceed the bytes of a page.\<close>

fun collect_findings :: "(structured_finding \<Rightarrow> nat) \<Rightarrow> string \<Rightarrow> nat \<Rightarrow> nat \<Rightarrow> json_value list
    \<Rightarrow> structured_finding list \<times> nat" where
  "collect_findings cost sha charged index [] = ([], index)"
| "collect_findings cost sha charged index (v # vs) =
    (let f = finding_of v sha index in
     if FINDING_PAGE_BYTES - 4096 < charged + cost f then ([], index)
     else (case collect_findings cost sha (charged + cost f) (index + 1) vs of (fs, next) \<Rightarrow> (f # fs, next)))"

definition result_findings :: "results \<Rightarrow> (structured_finding \<Rightarrow> nat) \<Rightarrow> result_store \<Rightarrow> structured_result
    \<Rightarrow> nat \<Rightarrow> nat \<Rightarrow> (world, finding_page) op" where
  "result_findings z cost st r offset limit =
    op_ensure (1 \<le> limit \<and> limit \<le> FINDING_PAGE_ITEMS) ''finding page limit must be 1-100''
    (op_try (verified_op z st r) (\<lambda>(r, bytes).
     let page = \<lparr>fp_result = r, fp_offset = offset, fp_next_offset = offset, fp_total = 0,
       fp_findings = [], fp_more = False\<rparr> in
     case (result_summary_of r, result_body r, bytes) of
       (Some _, Some body, Some b) \<Rightarrow>
         op_try (op_lift (rx_parse (rz_formats z) b)) (\<lambda>d.
         op_try (op_lift (context_opt (as_array (or_null (get ''findings'' d))) ''stored findings unavailable'')) (\<lambda>vs.
         op_ensure (offset \<le> length vs) ''finding offset exceeds result''
         (let (fs, next) = collect_findings cost (bd_sha256 body) 0 offset (take limit (drop offset vs)) in
          op_return (page\<lparr>fp_next_offset := next, fp_total := length vs, fp_findings := fs,
            fp_more := (next < length vs)\<rparr>))))
     | _ \<Rightarrow> op_return page))"

section \<open>Export and removal\<close>

record exported_result =
  er_path :: path
  er_sha256 :: string
  er_bytes :: nat

definition create_export :: "component list \<Rightarrow> (world, unit) op" where
  "create_export k w = (case create_new k w of
      (Inl e, w') \<Rightarrow> (Inl (Bail ''export requires a new file; existing destinations are preserved''), w')
    | (Inr u, w') \<Rightarrow> (Inr u, w'))"

definition export_result :: "results \<Rightarrow> result_store \<Rightarrow> structured_result \<Rightarrow> path \<Rightarrow> (world, exported_result) op" where
  "export_result z st r p =
    op_ensure (is_absolute p) ''export destination must be absolute''
    (op_try (verified_op z st r) (\<lambda>(state, bytes).
     op_try (op_lift (context_opt bytes (''cannot export '' @ result_status_label state @ '' result''))) (\<lambda>b.
     op_try (create_export (components p)) (\<lambda>_.
     op_try (write_all (components p) b) (\<lambda>_.
     op_try syscall (\<lambda>_.
     op_ensure (has_parent (components p)) ''export parent missing''
     (op_try syscall (\<lambda>_.
      op_return \<lparr>er_path = p, er_sha256 = rx_sha (rz_formats z) b, er_bytes = length b\<rparr>))))))))"

definition remove_body :: "results \<Rightarrow> result_store \<Rightarrow> body_reference \<Rightarrow> bool \<Rightarrow> (world, unit) op" where
  "remove_body z st body events =
    op_try (acquire_lock (lock_file st)) (\<lambda>_.
    op_try (op_lift (body_path z st body events)) (\<lambda>p.
    op_try syscall (\<lambda>_.
    op_try (op_get (\<lambda>w. (fw_euid w, file_at p w))) (\<lambda>(uid, f).
    case f of None \<Rightarrow> op_return ()
    | Some i \<Rightarrow>
        op_ensure (is_regular i \<and> fi_uid i = uid) ''unexpected retained result file; preserved''
        (op_try (read_private p (if events then MAX_EVENT_BYTES else MAX_RESULT_BYTES)) (\<lambda>bytes.
         op_ensure (length bytes = bd_bytes body \<and> rx_sha (rz_formats z) bytes = bd_sha256 body)
           ''retired result bytes changed; preserved with cleanup intent''
         (op_try syscall (\<lambda>_.
          op_try (op_modify (drop_file (components p))) (\<lambda>_. syscall)))))))))"

end
