(* ===== verification/Result_Compare.thy ===== *)
theory Result_Compare
  imports Result_Store Git_Machine
begin

text \<open>
  The two bounded views of result evidence (\<open>result_store.rs\<close>): the progress that an event stream
  shows, and the comparison of two results of the same task.
\<close>

section \<open>Events\<close>

fun split_inclusive :: "string \<Rightarrow> string list" where
  "split_inclusive [] = []"
| "split_inclusive (c # cs) =
    (if c = CHR 0x0A then [c] # split_inclusive cs else
     case split_inclusive cs of [] \<Rightarrow> [[c]] | l # ls \<Rightarrow> (c # l) # ls)"

text \<open>One line, with the sequence number and the producer that came before it.\<close>

definition parse_event :: "formats \<Rightarrow> nat option \<Rightarrow> string option \<Rightarrow> string \<Rightarrow> progress_event res" where
  "parse_event f previous producer_id raw =
    ensure (length raw \<le> 65536) ''event line exceeds limit''
    (and_then (rx_parse f raw) (\<lambda>v.
     ensure (Option.bind (get ''schema_id'' v) as_text = Some ''ici.next.event''
         \<and> Option.bind (get ''schema_version'' v) as_u64 = Some 1) ''unsupported event schema''
     (and_then (need_text [''run_id''] v) (\<lambda>i.
      ensure (length i \<le> 256) ''event run ID exceeds limit''
      (ensure (case producer_id of None \<Rightarrow> True | Some expected \<Rightarrow> expected = i)
        ''event run ID differs from result or preceding events''
      (and_then (context_opt (Option.bind (get ''seq'' v) as_u64) ''event seq missing'') (\<lambda>sequence.
       ensure (case previous of None \<Rightarrow> True | Some prior \<Rightarrow> prior < sequence) ''event sequence repeated or decreased''
       (and_then (need_text [''timestamp''] v) (\<lambda>_.
        and_then (need_text [''event_type''] v) (\<lambda>event_type.
        ensure (length event_type \<le> 128) ''event type exceeds limit''
        (Inr \<lparr>pe_seq = sequence, pe_event_type = safe_text 128 event_type, pe_producer_run_id = i,
           pe_task_id = map_option (safe_text 256) (Option.bind (get ''task_id'' v) as_text),
           pe_message = safe_text 1024 (text_or [] (Option.bind (get ''message'' v) as_text))\<rparr>)))))))))))"

definition accept_event :: "nat option \<Rightarrow> progress_event \<Rightarrow> event_progress \<Rightarrow> event_progress" where
  "accept_event previous e p =
    (let gap = (case previous of None \<Rightarrow> 1 < pe_seq e | Some prior \<Rightarrow> saturating_add prior 1 < pe_seq e) in
     p\<lparr>ep_sequence_gaps := ep_sequence_gaps p + (if gap then 1 else 0),
       ep_events_observed := ep_events_observed p + 1, ep_latest := Some e\<rparr>)"

definition reject_event :: "error \<Rightarrow> event_progress \<Rightarrow> event_progress" where
  "reject_event e p = p\<lparr>ep_invalid_events := ep_invalid_events p + 1, ep_error := Some (safe_text 512 (error_text e))\<rparr>"

text \<open>The loop over the lines; an unfinished line ends it.\<close>

fun observe_lines :: "formats \<Rightarrow> nat option \<Rightarrow> string option \<Rightarrow> string list \<Rightarrow> event_progress \<Rightarrow> event_progress" where
  "observe_lines f previous producer_id [] p = p"
| "observe_lines f previous producer_id (raw # ls) p =
    (if raw = [] \<or> last raw \<noteq> CHR 0x0A then p\<lparr>ep_truncated_tail := True\<rparr> else
     case parse_event f previous producer_id raw of
       Inr e \<Rightarrow> observe_lines f (Some (pe_seq e)) (Some (pe_producer_run_id e)) ls (accept_event previous e p)
     | Inl err \<Rightarrow> observe_lines f previous producer_id ls (reject_event err p))"

definition settle_events :: "event_progress \<Rightarrow> event_progress" where
  "settle_events p = (if 0 < ep_invalid_events p \<or> 0 < ep_sequence_gaps p \<or> ep_truncated_tail p
     then p\<lparr>ep_state := EvPartial\<rparr> else p)"

definition observe_bytes :: "formats \<Rightarrow> string option \<Rightarrow> string \<Rightarrow> event_progress" where
  "observe_bytes f expected bytes = settle_events (observe_lines f None expected (split_inclusive bytes)
     (default_events\<lparr>ep_bytes_observed := length bytes, ep_state := EvObserved\<rparr>))"

definition events :: "results \<Rightarrow> result_store \<Rightarrow> string \<Rightarrow> producer_file res \<Rightarrow> string option \<Rightarrow> bool
    \<Rightarrow> world \<Rightarrow> event_progress \<times> world" where
  "events z st run_id opened expected retain w = (case read_input opened MAX_EVENT_BYTES of
      Inr InputMissing \<Rightarrow> (default_events, w)
    | Inr (InputOversize n) \<Rightarrow> (default_events\<lparr>ep_state := EvOversize, ep_bytes_observed := n,
        ep_error := Some ''events exceed 8 MiB observation limit''\<rparr>, w)
    | Inl e \<Rightarrow> (default_events\<lparr>ep_state := EvInvalid, ep_error := Some (safe_text 512 (error_text e))\<rparr>, w)
    | Inr (InputBytes bytes) \<Rightarrow>
        (let p = observe_bytes (rz_formats z) expected bytes in
         if retain \<and> bytes \<noteq> [] then
           (case put_body z st run_id bytes True w of
              (Inr (Inl body), w') \<Rightarrow> (p\<lparr>ep_body := Some body\<rparr>, w')
            | (Inr (Inr _), w') \<Rightarrow> (p\<lparr>ep_state := EvStorageFailed,
                ep_error := Some ''result storage budget cannot retain events''\<rparr>, w')
            | (Inl e, w') \<Rightarrow> (p\<lparr>ep_state := EvStorageFailed, ep_error := Some (safe_text 512 (error_text e))\<rparr>, w'))
         else (p, w)))"

definition retained_events :: "results \<Rightarrow> result_store \<Rightarrow> event_progress \<Rightarrow> world \<Rightarrow> event_progress \<times> world" where
  "retained_events z st p w = (case ep_body p of
      None \<Rightarrow> (p, w)
    | Some body \<Rightarrow> (case op_try (op_lift (body_path z st body True)) (\<lambda>q. read_private q MAX_EVENT_BYTES) w of
        (Inr bytes, w') \<Rightarrow>
          (if length bytes = bd_bytes body \<and> rx_sha (rz_formats z) bytes = bd_sha256 body then p
           else p\<lparr>ep_state := EvTampered, ep_error := Some ''retained event bytes changed''\<rparr>, w')
      | (Inl e, w') \<Rightarrow>
          (if e = NotFound then p\<lparr>ep_state := EvExpired, ep_error := Some ''retained events expired''\<rparr>
           else p\<lparr>ep_state := EvTampered, ep_error := Some (safe_text 512 (error_text e))\<rparr>, w')))"

section \<open>Comparison\<close>

datatype comparison_state = CmpComparable | CmpPartial | CmpIncompatible | CmpUnavailable | CmpUnsupported

record result_comparison =
  rc_state :: comparison_state
  rc_baseline_run_id :: string
  rc_run_id :: string
  rc_reason :: string
  rc_new_count :: nat
  rc_unchanged_count :: nat
  rc_resolved_count :: nat
  rc_carried_count :: nat
  rc_new_sample :: "string list"
  rc_resolved_sample :: "string list"

record result_delta =
  dl_new :: "string list"
  dl_unchanged :: "string list"
  dl_resolved :: "string list"
  dl_carried :: "string list"
  dl_complete :: bool

definition set_minus :: "string list \<Rightarrow> string list \<Rightarrow> string list" where
  "set_minus a b = filter (\<lambda>x. x \<notin> set b) a"

definition set_both :: "string list \<Rightarrow> string list \<Rightarrow> string list" where
  "set_both a b = filter (\<lambda>x. x \<in> set b) a"

definition check_key :: "formats \<Rightarrow> json_value \<Rightarrow> string option" where
  "check_key f check =
    (let texts = map (\<lambda>k. Option.bind (get k check) as_text)
       [''task_id'', ''check_id'', ''component_id'', ''language'', ''scope_digest''] in
     if list_all (\<lambda>t. t \<noteq> None \<and> t \<noteq> Some []) texts
     then Some (json_digest f (JArray (map (\<lambda>t. JText (the t)) texts
       @ map (\<lambda>k. or_null (get k check)) [''analysis_unit_id'', ''variant''])))
     else None)"

definition fingerprints :: "json_value list \<Rightarrow> string list res" where
  "fingerprints findings = and_then (map_res (need_text [''fingerprint'']) findings) (\<lambda>fs. Inr (bt_set fs))"

definition check_completed :: "json_value \<Rightarrow> bool" where
  "check_completed c = (Option.bind (get ''evidence_complete'' c) as_bool = Some True
     \<and> Option.bind (get ''state'' c) as_text = Some ''SUCCEEDED'')"

text \<open>The checks of the baseline that could have found it, and whether the current run completed each.\<close>

definition finding_checks :: "json_value list \<Rightarrow> json_value \<Rightarrow> json_value list" where
  "finding_checks old_checks finding = filter (\<lambda>c. get ''task_id'' c \<noteq> None
     \<and> get ''task_id'' c = get ''task_id'' finding \<and> get ''component_id'' c = get ''component_id'' finding) old_checks"

definition covered_by :: "formats \<Rightarrow> string list \<Rightarrow> json_value list \<Rightarrow> bool" where
  "covered_by f completed matching = (matching \<noteq> []
     \<and> list_all (\<lambda>c. case check_key f c of None \<Rightarrow> False | Some k \<Rightarrow> k \<in> set completed) matching)"

fun resolve_findings :: "formats \<Rightarrow> string list \<Rightarrow> string list \<Rightarrow> json_value list \<Rightarrow> json_value list
    \<Rightarrow> string list \<Rightarrow> string list res" where
  "resolve_findings f completed current old_checks [] resolved = Inr resolved"
| "resolve_findings f completed current old_checks (v # vs) resolved =
    and_then (need_text [''fingerprint''] v) (\<lambda>fp.
    resolve_findings f completed current old_checks vs
      (if fp \<notin> set current \<and> covered_by f completed (finding_checks old_checks v)
       then bt_set (fp # resolved) else resolved))"

definition compare_ici :: "formats \<Rightarrow> json_value \<Rightarrow> json_value \<Rightarrow> result_summary \<Rightarrow> result_summary \<Rightarrow> result_delta res" where
  "compare_ici f old new s t =
    ensure (pointer_text [''identity'', ''fingerprint_version''] old = Some ''ici.next.fingerprint.v3'')
      ''unsupported or unknown ici fingerprint normalization''
    (and_then (check_all (\<lambda>k. and_then (need_text [''identity'', k] old) (\<lambda>_.
       and_then (need_text [''identity'', k] new) (\<lambda>_. Inr ()))) [''policy_digest'', ''toolchain_digest'']) (\<lambda>_.
     and_then (context_opt (Option.bind (get ''checks'' old) as_array) ''baseline completed check scope is unknown'') (\<lambda>old_checks.
     and_then (context_opt (Option.bind (get ''checks'' new) as_array) ''current completed check scope is unknown'') (\<lambda>new_checks.
     let completed = bt_set (List.map_filter (check_key f) (filter check_completed new_checks)) in
     and_then (context_opt (as_array (or_null (get ''findings'' old))) ''baseline findings missing'') (\<lambda>old_findings.
     and_then (context_opt (as_array (or_null (get ''findings'' new))) ''current findings missing'') (\<lambda>new_findings.
     and_then (fingerprints old_findings) (\<lambda>previous.
     and_then (fingerprints new_findings) (\<lambda>current.
     let complete = (rs_complete s = Some True \<and> rs_complete t = Some True
       \<and> Option.bind (pointer [''execution'', ''cancelled''] old) as_bool = Some False
       \<and> Option.bind (pointer [''execution'', ''cancelled''] new) as_bool = Some False) in
     and_then (if complete then resolve_findings f completed current old_checks old_findings [] else Inr []) (\<lambda>resolved.
     let absent = set_minus previous current; carried = set_minus absent resolved in
     Inr \<lparr>dl_new = set_minus current previous, dl_unchanged = set_both current previous,
          dl_resolved = resolved, dl_carried = carried, dl_complete = (complete \<and> carried = [])\<rparr>)))))))))"

text \<open>Lens has no fingerprint: the object and path of the evidence stand for it, and the message only without them.\<close>

definition lens_key :: "formats \<Rightarrow> json_value \<Rightarrow> (string \<times> bool) res" where
  "lens_key f finding =
    and_then (need_text [''code''] finding) (\<lambda>code.
    let object = pointer_text [''evidence'', ''object''] finding; path = pointer_text [''evidence'', ''path''] finding;
        unknown = (object = None \<and> path = None);
        opt = (\<lambda>t. or_null (map_option JText t)) in
    Inr (json_digest f (json_object [(''code'', JText code), (''object'', opt object), (''path'', opt path),
      (''message_if_no_identity'', if unknown then or_null (get ''message'' finding) else JNull)]), \<not> unknown))"

definition lens_keys :: "formats \<Rightarrow> json_value \<Rightarrow> (string list \<times> bool) res" where
  "lens_keys f document =
    and_then (context_opt (as_array (or_null (get ''findings'' document))) ''Lens findings missing'') (\<lambda>vs.
    and_then (map_res (lens_key f) vs) (\<lambda>ks. Inr (bt_set (map fst ks), list_all snd ks)))"

definition compare_lens :: "formats \<Rightarrow> json_value \<Rightarrow> json_value \<Rightarrow> result_summary \<Rightarrow> result_summary \<Rightarrow> result_delta res" where
  "compare_lens f old new s t =
    and_then (need_text [''source'', ''kind''] old) (\<lambda>_.
    and_then (need_text [''source'', ''kind''] new) (\<lambda>_.
    ensure (or_null (pointer [''source'', ''identity''] old) \<notin> {JNull, JArray [], JText [], JObject []})
      ''Lens source identity is unknown''
    (and_then (lens_keys f old) (\<lambda>(previous, old_stable).
     and_then (lens_keys f new) (\<lambda>(current, new_stable).
     let complete = (rs_complete s = Some True \<and> rs_complete t = Some True \<and> old_stable \<and> new_stable);
         absent = set_minus previous current in
     Inr \<lparr>dl_new = set_minus current previous, dl_unchanged = set_both current previous,
          dl_resolved = (if complete then absent else []), dl_carried = (if complete then [] else absent),
          dl_complete = complete\<rparr>)))))"

definition empty_comparison :: "string \<Rightarrow> string \<Rightarrow> result_comparison" where
  "empty_comparison baseline_id run_id = \<lparr>rc_state = CmpUnavailable, rc_baseline_run_id = baseline_id,
     rc_run_id = run_id, rc_reason = [], rc_new_count = 0, rc_unchanged_count = 0, rc_resolved_count = 0,
     rc_carried_count = 0, rc_new_sample = [], rc_resolved_sample = []\<rparr>"

definition same_producer :: "result_summary \<Rightarrow> result_summary \<Rightarrow> bool" where
  "same_producer s t = (rs_schema_id s = rs_schema_id t \<and> rs_schema_version s = rs_schema_version t
     \<and> rs_producer s = rs_producer t \<and> rs_producer_version s = rs_producer_version t
     \<and> rs_identity_digest s = rs_identity_digest t \<and> rs_scope_digest s = rs_scope_digest t)"

definition report_delta :: "result_delta \<Rightarrow> result_comparison \<Rightarrow> result_comparison" where
  "report_delta d c = c\<lparr>rc_state := (if dl_complete d then CmpComparable else CmpPartial),
     rc_reason := (if dl_complete d then ''matching producer identities and completed evidence scope''
       else ''incomplete or unknown evidence: absent observations are carried, not resolved''),
     rc_new_count := length (dl_new d), rc_unchanged_count := length (dl_unchanged d),
     rc_resolved_count := length (dl_resolved d), rc_carried_count := length (dl_carried d),
     rc_new_sample := map (safe_text 256) (take 100 (dl_new d)),
     rc_resolved_sample := map (safe_text 256) (take 100 (dl_resolved d))\<rparr>"

definition compare_documents :: "formats \<Rightarrow> result_summary \<Rightarrow> string \<Rightarrow> result_summary \<Rightarrow> string
    \<Rightarrow> result_comparison \<Rightarrow> result_comparison" where
  "compare_documents f s old t new c =
    (if \<not> same_producer s t then c\<lparr>rc_state := CmpIncompatible,
       rc_reason := ''producer, schema, tool/policy identity or declared scope differs''\<rparr> else
     case (rx_parse f old, rx_parse f new) of
       (Inr old, Inr new) \<Rightarrow>
         (case (if rs_producer s = ''ici'' then compare_ici f old new s t else compare_lens f old new s t) of
            Inr d \<Rightarrow> report_delta d c
          | Inl e \<Rightarrow> c\<lparr>rc_state := CmpIncompatible, rc_reason := safe_text 512 (error_text e)\<rparr>)
     | _ \<Rightarrow> c\<lparr>rc_reason := ''stored document could not be decoded''\<rparr>)"

definition compare_stored :: "results \<Rightarrow> result_store \<Rightarrow> string \<Rightarrow> structured_result \<Rightarrow> string \<Rightarrow> structured_result
    \<Rightarrow> world \<Rightarrow> result_comparison \<times> world" where
  "compare_stored z st baseline_id baseline run_id current w =
    (case verified z st baseline w of ((old_state, old), w') \<Rightarrow>
     case verified z st current w' of ((new_state, new), w'') \<Rightarrow>
     let c = empty_comparison baseline_id run_id in
     case (result_summary_of old_state, result_summary_of new_state, old, new) of
       (Some s, Some t, Some old, Some new) \<Rightarrow> (compare_documents (rz_formats z) s old t new c, w'')
     | _ \<Rightarrow> (c\<lparr>rc_reason := ''results unavailable: baseline '' @ result_status_label old_state
               @ '', current '' @ result_status_label new_state\<rparr>, w''))"

end
