(* ===== verification/Result_Safety.thy ===== *)
theory Result_Safety
  imports Result_Compare
begin

text \<open>
  What the store keeps: no operation changes a file that exists, except the removal of a retired
  body, so that the bytes of a captured result are read back whole or not at all.
\<close>

section \<open>Existing files are kept\<close>

definition kept :: "component list set \<Rightarrow> world \<Rightarrow> world \<Rightarrow> bool" where
  "kept K w w' = (fw_euid w' = fw_euid w
     \<and> (\<forall>k i. k \<notin> K \<longrightarrow> fw_files w k = Some i \<longrightarrow> fw_files w' k = Some i))"

lemma kept_file_refl [simp]: "kept K w w"
  by (simp add: kept_def)

lemma kept_reflp: "reflp (kept K)"
  by (simp add: reflp_def)

lemma kept_transp: "transp (kept K)"
  by (auto simp: kept_def transp_def)

lemma kept_file_trans: "kept K w w' \<Longrightarrow> kept K w' w'' \<Longrightarrow> kept K w w''"
  by (auto simp: kept_def)

lemma kept_mono: "kept K w w' \<Longrightarrow> K \<subseteq> L \<Longrightarrow> kept L w w'"
  by (auto simp: kept_def)

lemma kept_files: "fw_files w' = fw_files w \<Longrightarrow> fw_euid w' = fw_euid w \<Longrightarrow> kept K w w'"
  by (simp add: kept_def)

lemma kept_put: "kept K w w' \<Longrightarrow> k \<in> K \<or> fw_files w k = None \<Longrightarrow> kept K w (put_file k i w')"
  by (auto simp: kept_def put_file_def)

lemma kept_drop: "kept K w w' \<Longrightarrow> k \<in> K \<or> fw_files w k = None \<Longrightarrow> kept K w (drop_file k w')"
  by (auto simp: kept_def drop_file_def)

lemma kept_absent: "kept (insert k K) w w' \<Longrightarrow> fw_files w k = None \<Longrightarrow> kept K w w'"
  unfolding kept_def by (metis insertE option.distinct(1))

lemma kept_syscall: "op_rel (kept K) syscall"
  unfolding op_rel_def by (metis kept_files prod.collapse syscall_frame)

lemmas kept_ops = op_rel_try [OF kept_transp] op_rel_pure [OF kept_reflp] op_rel_ensure [OF kept_reflp]
  kept_syscall

lemma kept_read: "op_rel (kept K) (read_private p limit)"
  unfolding op_rel_def by (metis kept_files prod.collapse read_private_files)

lemma kept_get_modify:
  "(\<And>w. kept K w (f (g w) w)) \<Longrightarrow> op_rel (kept K) (op_try (op_get g) (\<lambda>x. op_modify (f x)))"
  by (simp add: op_rel_def op_try_def)

lemma kept_lock: "op_rel (kept K) (acquire_lock p)"
proof -
  have step: "op_rel (kept K) (op_try (op_get (file_at p)) (\<lambda>f.
      op_try (case f of None \<Rightarrow> op_modify (\<lambda>w. put_file (components p) (new_inode (fw_euid w) []) w)
        | Some i \<Rightarrow> if is_symlink i then op_fail (Os ''ELOOP'') else op_return ()) m))"
    if m: "op_rel (kept K) (m ())" for m
    unfolding op_rel_def
  proof
    fix w
    show "kept K w (snd (op_try (op_get (file_at p)) (\<lambda>f.
      op_try (case f of None \<Rightarrow> op_modify (\<lambda>w. put_file (components p) (new_inode (fw_euid w) []) w)
        | Some i \<Rightarrow> if is_symlink i then op_fail (Os ''ELOOP'') else op_return ()) m) w))"
      using m by (auto simp: op_try_def op_rel_def file_at_def intro: kept_file_trans [OF kept_put [OF kept_file_refl]]
          split: option.splits)
  qed
  show ?thesis
    unfolding acquire_lock_def by (intro kept_ops step)
qed

lemma kept_take_fault: "take_fault w = (f, w') \<Longrightarrow> kept K w w'"
  by (simp add: kept_files)

lemma kept_fill: "k \<in> K \<Longrightarrow> op_rel (kept K) (fill_body k bytes)"
  by (auto simp: op_rel_def fill_body_def simp del: take_fault_frame intro: kept_put kept_take_fault
      split: prod.splits option.splits)

lemma kept_write_all: "k \<in> K \<Longrightarrow> op_rel (kept K) (write_all k bytes)"
  by (auto simp: op_rel_def write_all_def simp del: take_fault_frame intro: kept_put kept_take_fault
      split: prod.splits option.splits)

lemma kept_run_ops: "(\<And>m. m \<in> set ms \<Longrightarrow> op_rel (kept K) m) \<Longrightarrow> op_rel (kept K) (run_ops ms)"
  by (induction ms) (auto intro!: kept_ops)

lemma kept_remove_file: "k \<in> K \<Longrightarrow> kept K w (remove_file k w)"
  by (auto simp: remove_file_def simp del: take_fault_frame intro: kept_drop kept_take_fault
      split: prod.splits option.splits)

lemma kept_clean: "k \<in> K \<Longrightarrow> kept K w (clean_body k w)"
proof -
  assume k: "k \<in> K"
  obtain r w' where s: "run_ops [syscall, syscall] w = (r, w')" by fastforce
  have "op_rel (kept K) (run_ops [syscall, syscall])" by (rule kept_run_ops) (auto simp: kept_syscall)
  then have w': "kept K w w'" using s by (rule op_relD)
  moreover have "kept K (remove_file k w') (snd (syscall (remove_file k w')))"
    using kept_syscall by (simp add: op_rel_def)
  ultimately have "kept K w (snd (syscall (remove_file k w')))"
    using kept_remove_file [OF k] by (blast intro: kept_file_trans)
  then show ?thesis using s w' by (simp add: clean_body_def split: sum.splits)
qed

lemma kept_write_body: "k \<in> K \<Longrightarrow> op_rel (kept K) (write_body k bytes)"
  unfolding op_rel_def
proof
  fix w
  assume k: "k \<in> K"
  obtain r w' where s: "run_ops [fill_body k bytes, syscall, syscall] w = (r, w')" by fastforce
  moreover have "op_rel (kept K) (run_ops [fill_body k bytes, syscall, syscall])"
    using k by (intro kept_run_ops) (auto simp: kept_fill kept_syscall)
  ultimately have "kept K w w'" by (metis op_relD)
  then show "kept K w (snd (write_body k bytes w))"
    using s k by (auto simp: write_body_def intro: kept_file_trans kept_clean split: sum.splits)
qed

text \<open>A file that is created and then written: nothing that existed is touched.\<close>

lemma create_body_new:
  "create_body k w = (r, w') \<Longrightarrow> kept K w w' \<and> (r = Inr () \<longrightarrow> fw_files w k = None)"
  by (auto simp: create_body_def op_try_def kept_def put_file_def dest!: syscall_frame
      split: prod.splits sum.splits if_splits)

lemma create_new_new:
  "create_new k w = (r, w') \<Longrightarrow> kept K w w' \<and> (r = Inr () \<longrightarrow> fw_files w k = None)"
  by (auto simp: create_new_def op_try_def kept_def put_file_def dest!: syscall_frame
      split: prod.splits sum.splits if_splits)

lemma kept_created:
  assumes create: "\<And>w r w'. c w = (r, w') \<Longrightarrow> kept K w w' \<and> (r = Inr () \<longrightarrow> fw_files w k = None)"
    and rest: "op_rel (kept (insert k K)) (m ())"
  shows "op_rel (kept K) (op_try c m)"
  unfolding op_rel_def
proof
  fix w
  obtain r w1 where c: "c w = (r, w1)" by fastforce
  have "kept K w (snd (m () w1))" if "r = Inr ()"
  proof (rule kept_absent [OF kept_file_trans])
    show "kept (insert k K) w w1" using create [OF c] by (blast intro: kept_mono)
    show "kept (insert k K) w1 (snd (m () w1))" using rest by (simp add: op_rel_def)
    show "fw_files w k = None" using create [OF c] that by blast
  qed
  then show "kept K w (snd (op_try c m w))"
    using c create [OF c] by (auto simp: op_try_def split: sum.splits)
qed

lemma kept_new_body: "op_rel (kept K) (op_try (create_body k) (\<lambda>_. op_try (write_body k bytes) (\<lambda>_. op_return x)))"
  by (rule kept_created [where k = k]) (simp add: create_body_new, intro kept_ops kept_write_body insertI1)

lemma kept_sum_bytes: "op_rel (kept K) (sum_bytes st fs n)"
  by (induction fs arbitrary: n) (auto intro!: kept_ops split: option.splits)

lemma kept_bytes_used: "op_rel (kept K) (bytes_used z st)"
  unfolding bytes_used_def by (intro kept_ops kept_sum_bytes)

lemma entry_exists_frame: "entry_exists p w = (x, w') \<Longrightarrow> fw_files w' = fw_files w \<and> fw_euid w' = fw_euid w"
  by (auto simp: entry_exists_def dest!: syscall_frame split: prod.splits sum.splits)

lemma kept_entry_exists: "op_rel (kept K) (entry_exists p)"
  unfolding op_rel_def by (metis kept_files prod.collapse entry_exists_frame)

lemma kept_put_body: "op_rel (kept K) (put_body z st i bytes ev)"
  unfolding put_body_def Let_def
  by (intro kept_ops kept_lock kept_entry_exists)
    (auto intro!: kept_ops kept_read kept_bytes_used kept_new_body)

lemma kept_verify_body: "op_rel (kept K) (verify_body z st r body)"
  unfolding verify_body_def by (intro kept_ops kept_read)

lemma kept_verified: "verified z st r w = (x, w') \<Longrightarrow> kept K w w'"
  by (auto simp: verified_def split: option.splits if_splits sum.splits prod.splits
      dest!: op_relD [OF kept_verify_body])

lemma kept_verified_op: "op_rel (kept K) (verified_op z st r)"
  by (auto simp: op_rel_def verified_op_def split: prod.splits intro: kept_verified)

lemma kept_raw: "op_rel (kept K) (raw_result z st r offset lim)"
  unfolding raw_result_def Let_def by (intro kept_ops kept_verified_op) (auto intro!: kept_ops)

lemma kept_findings: "op_rel (kept K) (result_findings z cost st r offset lim)"
  unfolding result_findings_def Let_def
  by (intro kept_ops kept_verified_op) (auto intro!: kept_ops split: option.splits prod.splits)

lemma kept_capture_bytes: "capture_bytes z st i bytes w = (r, w') \<Longrightarrow> kept K w w'"
  by (auto simp: capture_bytes_def split: if_splits sum.splits prod.splits
      dest!: op_relD [OF kept_put_body])

lemma kept_capture: "capture z st i opened w = (r, w') \<Longrightarrow> kept K w w'"
  by (auto simp: capture_def split: sum.splits input_file.splits dest: kept_capture_bytes)

lemma kept_migrate: "migrate z st i r0 w = (r, w') \<Longrightarrow> kept K w w'"
  by (auto simp: migrate_def split: structured_result.splits dest: kept_capture_bytes)

lemma kept_events: "events z st i opened expected retain w = (p, w') \<Longrightarrow> kept K w w'"
  by (auto simp: events_def Let_def split: sum.splits input_file.splits if_splits prod.splits
      dest!: op_relD [OF kept_put_body])

lemma kept_retained: "retained_events z st p w = (q, w') \<Longrightarrow> kept K w w'"
proof -
  have "op_rel (kept K) (op_try (op_lift (body_path z st b True)) (\<lambda>q. read_private q MAX_EVENT_BYTES))" for b
    by (intro kept_ops kept_read)
  then show "retained_events z st p w = (q, w') \<Longrightarrow> kept K w w'"
    by (auto simp: retained_events_def split: option.splits sum.splits prod.splits dest!: op_relD)
qed

lemma kept_compare: "compare_stored z st i r j r' w = (c, w') \<Longrightarrow> kept K w w'"
  by (auto simp: compare_stored_def Let_def split: prod.splits option.splits dest!: kept_verified [where K = K]
      intro: kept_file_trans)

lemma create_export_new:
  "create_export k w = (r, w') \<Longrightarrow> kept K w w' \<and> (r = Inr () \<longrightarrow> fw_files w k = None)"
  by (auto simp: create_export_def split: prod.splits sum.splits dest!: create_new_new [where K = K])

lemma kept_exported:
  "op_rel (kept (insert k K)) (m ()) \<Longrightarrow> op_rel (kept K) (op_try (create_export k) m)"
  by (rule kept_created [where k = k]) (simp_all add: create_export_new)

lemma kept_export: "op_rel (kept K) (export_result z st r p)"
  unfolding export_result_def
  by (intro kept_ops kept_verified_op) (auto intro!: kept_exported kept_write_all kept_ops(1,2,3,4,5,6,7))

text \<open>The key of a body's file; its removal touches that file only.\<close>

definition body_key :: "results \<Rightarrow> result_store \<Rightarrow> body_reference \<Rightarrow> bool \<Rightarrow> component list option" where
  "body_key z st b ev = (case body_path z st b ev of Inl _ \<Rightarrow> None | Inr p \<Rightarrow> Some (components p))"

lemma kept_lift: "(\<And>x. r = Inr x \<Longrightarrow> op_rel (kept K) (f x)) \<Longrightarrow> op_rel (kept K) (op_try (op_lift r) f)"
  by (cases r) (simp_all add: op_rel_def op_try_def)

lemma kept_drop_file: "op_rel (kept (insert k K)) (op_modify (drop_file k))"
  by (simp add: op_rel_def kept_drop)

lemma kept_remove: "op_rel (kept (set_option (body_key z st b ev))) (remove_body z st b ev)"
  unfolding remove_body_def
proof (rule kept_ops(1), rule kept_lock, rule kept_lift, rule kept_ops(1), rule kept_syscall, rule kept_ops(1), rule kept_ops(5))
  fix p x
  assume "body_path z st b ev = Inr p"
  then show "op_rel (kept (set_option (body_key z st b ev))) (case x of (uid, f) \<Rightarrow>
      (case f of None \<Rightarrow> op_return ()
      | Some i \<Rightarrow>
        op_ensure (is_regular i \<and> fi_uid i = uid) ''unexpected retained result file; preserved''
        (op_try (read_private p (if ev then MAX_EVENT_BYTES else MAX_RESULT_BYTES)) (\<lambda>bytes.
         op_ensure (length bytes = bd_bytes b \<and> rx_sha (rz_formats z) bytes = bd_sha256 b)
           ''retired result bytes changed; preserved with cleanup intent''
         (op_try syscall (\<lambda>_.
          op_try (op_modify (drop_file (components p))) (\<lambda>_. syscall)))))))"
    by (simp add: body_key_def split: prod.splits option.splits)
      (auto intro!: kept_ops kept_read kept_drop_file)
qed

section \<open>A captured body\<close>

definition stored_body :: "results \<Rightarrow> result_store \<Rightarrow> body_reference \<Rightarrow> string \<Rightarrow> bool \<Rightarrow> world \<Rightarrow> bool" where
  "stored_body z st b bytes ev w = (length bytes = bd_bytes b \<and> rx_sha (rz_formats z) bytes = bd_sha256 b
     \<and> (case body_path z st b ev of Inl _ \<Rightarrow> False | Inr p \<Rightarrow> (case file_at p w of None \<Rightarrow> False
         | Some i \<Rightarrow> private_file (fw_euid w) i \<and> fi_bytes i = bytes)))"

lemma stored_kept:
  assumes "kept K w w'" "stored_body z st b bytes ev w"
    and "K \<inter> set_option (body_key z st b ev) = {}"
  shows "stored_body z st b bytes ev w'"
  using assms by (auto simp: stored_body_def kept_def body_key_def file_at_def split: sum.splits option.splits)

lemma body_path_limit: "body_path z st b ev = Inr p \<Longrightarrow> bd_bytes b \<le> (if ev then MAX_EVENT_BYTES else MAX_RESULT_BYTES)"
  by (simp add: body_path_def res_simps)

lemma fill_body_written:
  "fill_body k bytes w = (Inr u, w') \<Longrightarrow> fw_files w' k = Some (body_inode w bytes) \<and> fw_euid w' = fw_euid w"
  by (auto simp: fill_body_def put_file_def body_inode_def split: prod.splits option.splits)

lemma write_body_written:
  "write_body k bytes w = (Inr u, w') \<Longrightarrow> fw_files w' k = Some (body_inode w bytes) \<and> fw_euid w' = fw_euid w"
  by (auto simp: write_body_def op_simps split: prod.splits sum.splits
      dest!: fill_body_written syscall_frame)

lemma body_inode_private: "private_file (fw_euid w) (body_inode w b)"
  by (simp add: private_file_def body_inode_def is_regular_def)

lemma put_body_stored:
  assumes "put_body z st i bytes ev w = (Inr (Inl b), w')"
  shows "stored_body z st b bytes ev w' \<and> bd_run_id b = i"
proof -
  define b' where "b' = \<lparr>bd_run_id = i, bd_sha256 = rx_sha (rz_formats z) bytes, bd_bytes = length bytes\<rparr>"
  obtain p u where p: "body_path z st b' ev = Inr p" and rest: "op_try (entry_exists p) (\<lambda>exists.
    if exists then
      op_try (read_private p (length bytes)) (\<lambda>existing.
      op_ensure (existing = bytes) ''existing immutable result differs; preserved''
      (op_try syscall (\<lambda>_. op_return (Inl b'))))
    else
      op_try (bytes_used z st) (\<lambda>used.
      if sr_limit st < saturating_add used (length bytes)
      then op_return (Inr (ResultLimited (sr_limit st) (length bytes)))
      else op_try (create_body (components p)) (\<lambda>_.
        op_try (write_body (components p) bytes) (\<lambda>_. op_return (Inl b'))))) u = (Inr (Inl b), w')"
    using assms unfolding put_body_def Let_def b'_def [symmetric] op_try_Inr op_lift_simps by blast
  have "b = b' \<and> (\<exists>j. file_at p w' = Some j \<and> private_file (fw_euid w') j \<and> fi_bytes j = bytes)"
  proof -
    from rest obtain x u' where "entry_exists p u = (Inr x, u')" by (auto simp: op_try_Inr)
    show ?thesis
    proof (cases x)
      case False
      with rest \<open>entry_exists p u = (Inr x, u')\<close> obtain v where "b = b'" and "write_body (components p) bytes v = (Inr (), w')"
        by (auto simp: op_simps split: if_splits)
      from this(1) write_body_written [OF this(2)] body_inode_private [of v bytes] show ?thesis
        by (simp add: file_at_def body_inode_def)
    next
      case True
      with rest \<open>entry_exists p u = (Inr x, u')\<close> obtain v where "b = b'"
        and "read_private p (length bytes) u' = (Inr bytes, v)" "syscall v = (Inr (), w')"
        by (auto simp: op_simps)
      from this(1) read_private_Inr [OF this(2)] read_private_files [OF this(2)] syscall_frame [OF this(3)]
      show ?thesis by (auto simp: file_at_def)
    qed
  qed
  then have b: "b = b'" and "\<exists>j. file_at p w' = Some j \<and> private_file (fw_euid w') j \<and> fi_bytes j = bytes"
    by simp_all
  with p b show ?thesis by (auto simp: stored_body_def b'_def)
qed

lemma capture_stored:
  assumes "capture_bytes z st i bytes w = (r, w')" and "result_body r = Some b"
  shows "stored_body z st b bytes False w' \<and> r = classify (rz_formats z) i bytes b \<and> bd_run_id b = i"
proof -
  have b: "result_body (classify f j bytes b') = Some b'" for f j b'
    by (auto simp: classify_def result_body_def split: sum.splits option.splits)
  have limited: "result_body q = None" if "put_body z st i bytes False w = (Inr (Inr q), u)" for q u
    using that by (auto simp: put_body_def Let_def op_simps result_body_def split: if_splits)
  obtain x u where x: "put_body z st i bytes False w = (x, u)" by fastforce
  have "put_body z st i bytes False w = (Inr (Inl b), w') \<and> r = classify (rz_formats z) i bytes b"
    using assms b x limited
    by (auto simp: capture_bytes_def result_body_def [of "ResultOversize _ _"]
        result_body_def [of "ResultStorageFailed _"] split: if_splits sum.splits)
  then show ?thesis by (auto dest: put_body_stored)
qed

text \<open>What was captured passes every check of a later reading.\<close>

definition intact_result :: "results \<Rightarrow> structured_result \<Rightarrow> body_reference \<Rightarrow> string \<Rightarrow> bool" where
  "intact_result z r b bytes = (result_body r = Some b
     \<and> (\<forall>b' m. r \<noteq> ResultExpired b' \<and> r \<noteq> ResultTampered b' m)
     \<and> (\<forall>s b'. r = ResultStored s b' \<longrightarrow> (\<exists>d. rx_parse (rz_formats z) bytes = Inr d
          \<and> summarize_result (rz_formats z) d (bd_run_id b) = Inr s)))"

lemma classify_intact: "bd_run_id b = i \<Longrightarrow> intact_result z (classify (rz_formats z) i bytes b) b bytes"
  by (auto simp: intact_result_def classify_def result_body_def split: sum.splits option.splits)

lemma verify_body_intact:
  assumes "stored_body z st b bytes False w" "intact_result z r b bytes" "verify_body z st r b w = (x, w')"
  shows "x = Inr bytes \<or> (\<exists>e. x = Inl e \<and> e \<noteq> NotFound)"
proof (cases x)
  case (Inl e)
  obtain p i where p: "body_path z st b False = Inr p" "file_at p w = Some i" "fi_bytes i = bytes"
    using assms(1) by (auto simp: stored_body_def split: sum.splits option.splits)
  have "e \<noteq> NotFound"
    using assms(2,3) p Inl
    by (cases r) (auto simp: verify_body_def op_simps intact_result_def ensure_def dest!: read_private_NotFound read_private_Inr)
  with Inl show ?thesis by blast
next
  case (Inr y)
  with assms show ?thesis
    by (auto simp: verify_body_def op_simps stored_body_def dest!: read_private_Inr split: sum.splits option.splits)
qed

lemma quiet_syscall: "fw_faults w = [] \<Longrightarrow> syscall w = (Inr (), w)"
  by (simp add: syscall_def take_fault_def)

lemma quiet_read:
  "fw_faults w = [] \<Longrightarrow> file_at p w = Some i \<Longrightarrow> private_file (fw_euid w) i \<Longrightarrow> length (fi_bytes i) \<le> limit \<Longrightarrow>
   read_private p limit w = (Inr (fi_bytes i), w)"
  using private_not_symlink [of "fw_euid w" i]
  by (simp add: read_private_def op_try_def quiet_syscall Let_def)

lemma verify_body_quiet:
  assumes "stored_body z st b bytes False w" "intact_result z r b bytes" "fw_faults w = []"
  shows "verify_body z st r b w = (Inr bytes, w)"
proof -
  obtain p i where p: "body_path z st b False = Inr p" "file_at p w = Some i"
    "private_file (fw_euid w) i" "fi_bytes i = bytes"
    using assms(1) by (auto simp: stored_body_def split: sum.splits option.splits)
  have "length bytes \<le> MAX_RESULT_BYTES"
    using body_path_limit [OF p(1)] assms(1) by (simp add: stored_body_def)
  with quiet_read [OF assms(3) p(2,3)] p have "read_private p MAX_RESULT_BYTES w = (Inr bytes, w)" by simp
  with p(1) assms(1,2) show ?thesis
    by (cases r) (auto simp: verify_body_def stored_body_def intact_result_def op_try_def ensure_def)
qed

lemma verified_intact:
  assumes "stored_body z st b bytes False w" "intact_result z r b bytes" "verified z st r w = ((r', c), w')"
  shows "(r' = r \<and> c = Some bytes) \<or> (\<exists>m. r' = ResultTampered b m \<and> c = None)"
proof -
  obtain x w1 where v: "verify_body z st r b w = (x, w1)" by fastforce
  show ?thesis
    using assms(2,3) v verify_body_intact [OF assms(1,2) v]
    by (auto simp: verified_def intact_result_def split: structured_result.splits if_splits)
qed

section \<open>Later operations\<close>

text \<open>
  Anything the store does while it still refers to \<open>b\<close>, other files changing, and calls starting
  to fail.  Retention removes other bodies.
\<close>

inductive store_step :: "results \<Rightarrow> result_store \<Rightarrow> body_reference \<Rightarrow> world \<Rightarrow> world \<Rightarrow> bool"
  for z st b where
  step_capture: "store_step z st b w (snd (capture z st i opened w))"
| step_migrate: "store_step z st b w (snd (migrate z st i r w))"
| step_events: "store_step z st b w (snd (events z st i opened expected retain w))"
| step_verified: "store_step z st b w (snd (verified z st r w))"
| step_raw: "store_step z st b w (snd (raw_result z st r offset lim w))"
| step_findings: "store_step z st b w (snd (result_findings z cost st r offset lim w))"
| step_retained: "store_step z st b w (snd (retained_events z st p w))"
| step_compare: "store_step z st b w (snd (compare_stored z st i r j r' w))"
| step_export: "store_step z st b w (snd (export_result z st r q w))"
| step_remove: "body_key z st b' ev \<noteq> body_key z st b False \<Longrightarrow> store_step z st b w (snd (remove_body z st b' ev w))"
| step_elsewhere: "Some k \<noteq> body_key z st b False \<Longrightarrow> store_step z st b w (w\<lparr>fw_files := (fw_files w)(k := i)\<rparr>)"
| step_faults: "store_step z st b w (w\<lparr>fw_faults := fs\<rparr>)"

lemma store_step_keeps:
  assumes "store_step z st b w w'" "stored_body z st b bytes False w"
  shows "stored_body z st b bytes False w'"
proof -
  have "\<exists>K. kept K w w' \<and> K \<inter> set_option (body_key z st b False) = {}"
    using assms(1)
  proof cases
    case (step_remove b' ev)
    then have "kept (set_option (body_key z st b' ev)) w w'"
      using kept_remove by (simp add: op_rel_def)
    with step_remove show ?thesis by (intro exI conjI) (auto elim: option.set_cases)
  next
    case (step_elsewhere k i)
    then show ?thesis by (intro exI [of _ "{k}"]) (auto simp: kept_def)
  next
    case (step_faults fs)
    then show ?thesis by (intro exI [of _ "{}"]) (simp add: kept_def)
  qed (rule exI [of _ "{}"], simp,
      metis prod.collapse kept_capture kept_migrate kept_events kept_verified kept_raw kept_findings
        kept_retained kept_compare kept_export op_relD)+
  then show ?thesis using assms(2) by (blast intro: stored_kept)
qed

lemma store_steps_keep:
  "(store_step z st b)\<^sup>*\<^sup>* w w' \<Longrightarrow> stored_body z st b bytes False w \<Longrightarrow> stored_body z st b bytes False w'"
  by (induction rule: rtranclp_induct) (auto intro: store_step_keeps)

end
