(* ===== verification/Result_Properties.thy ===== *)
theory Result_Properties
  imports Result_Safety
begin

text \<open>
  The properties of the result store: what was captured is what is read, in one piece, in pages
  and as findings; and what the views over it may conclude.
\<close>

section \<open>Raw pages\<close>






text \<open>C29 (captured_result_survives). Whatever the store does after a capture - other captures, migrations, event streams,
  reads, exports, the removal of other bodies - and whatever calls fail meanwhile, a later check of
  the captured result finds exactly its bytes with its state, or reports the body unusable; it never
  reports other bytes or an expired body, and without failing calls it finds the bytes.\<close>

theorem captured_result_survives:
  assumes "capture_bytes z st i bytes w0 = (r, w1)" "result_body r = Some b"
    and "(store_step z st b)\<^sup>*\<^sup>* w1 w2" and "verified z st r w2 = (x, w3)"
  shows "(x = (r, Some bytes) \<or> (\<exists>m. x = (ResultTampered b m, None))) \<and> (fw_faults w2 = [] \<longrightarrow> x = (r, Some bytes))"
proof -
  from capture_stored [OF assms(1,2)] have r: "intact_result z r b bytes" and "stored_body z st b bytes False w1"
    by (simp_all add: classify_intact)
  then have s: "stored_body z st b bytes False w2" by (blast intro: store_steps_keep [OF assms(3)])
  obtain r' c where x: "x = (r', c)" by fastforce
  have "x = (r, Some bytes) \<or> (\<exists>m. x = (ResultTampered b m, None))"
    using verified_intact [OF s r] assms(4) x by blast
  moreover have "x = (r, Some bytes)" if "fw_faults w2 = []"
    using verify_body_quiet [OF s r that] assms(4) r
    by (auto simp: verified_def intact_result_def split: structured_result.splits)
  ultimately show ?thesis by blast
qed


end
