(* ===== verification/Result_Views.thy ===== *)
theory Result_Views
  imports Result_Safety
begin

text \<open>
  What the views of result evidence may conclude: the comparison sorts every identity into exactly
  one class and resolves nothing without completed evidence, a stream counts as observed only when
  it is complete and gapless, and pages of findings cover the findings in order.
\<close>

section \<open>Sets of identities\<close>

lemma bt_extend_keys: "fst ` set (bt_extend m n) = fst ` set m \<union> fst ` set n"
  unfolding bt_extend_def by (induction n arbitrary: m) (simp_all add: case_prod_beta)

lemma bt_extend_sorted: "bt_sorted m \<Longrightarrow> bt_sorted (bt_extend m n)"
  unfolding bt_extend_def by (induction n arbitrary: m) (auto simp: bt_sorted_insert)

lemma set_bt_set [simp]: "set (bt_set xs) = set xs"
  using bt_extend_keys [of "[]" "map (\<lambda>x. (x, ())) xs"]
  by (simp add: bt_set_def bt_keys_def image_image)

lemma distinct_bt_set [simp]: "distinct (bt_set xs)"
  unfolding bt_set_def by (rule btree.distinct_keys, rule bt_extend_sorted) (simp add: bt_sorted_def)

lemma set_minus_set [simp]: "set (set_minus a b) = set a - set b"
  by (auto simp: set_minus_def)

lemma set_both_set [simp]: "set (set_both a b) = set a \<inter> set b"
  by (auto simp: set_both_def)

lemma distinct_sets [simp]: "distinct a \<Longrightarrow> distinct (set_minus a b)" "distinct a \<Longrightarrow> distinct (set_both a b)"
  by (simp_all add: set_minus_def set_both_def)

text \<open>A set of identities has one ordered list: a \<open>BTreeSet\<close> is that list.\<close>

lemma sorted_bt_set [simp]: "sorted (bt_set xs)"
  unfolding bt_set_def bt_keys_def by (rule strict_sorted_imp_sorted)
    (use bt_extend_sorted [of "[]" "map (\<lambda>x. (x, ())) xs"] in \<open>simp add: bt_sorted_def\<close>)

lemma sorted_sets [simp]: "sorted a \<Longrightarrow> sorted (set_minus a b)" "sorted a \<Longrightarrow> sorted (set_both a b)"
  by (simp_all add: set_minus_def set_both_def sorted_wrt_filter)

lemma ordered_list: "sorted xs \<Longrightarrow> distinct xs \<Longrightarrow> set xs = A \<Longrightarrow> xs = sorted_list_of_set A"
  by (metis List.finite_set sorted_distinct_set_unique sorted_list_of_set.distinct_sorted_key_list_of_set
      sorted_list_of_set.set_sorted_key_list_of_set sorted_list_of_set.sorted_sorted_key_list_of_set)

section \<open>The comparison of identities\<close>

text \<open>The identities that a document reports.\<close>

definition finding_ids :: "formats \<Rightarrow> string \<Rightarrow> json_value \<Rightarrow> string set" where
  "finding_ids f producer d = (case as_array (or_null (get ''findings'' d)) of None \<Rightarrow> {}
     | Some vs \<Rightarrow> if producer = ''ici''
         then {fp. \<exists>v\<in>set vs. need_text [''fingerprint''] v = Inr fp}
         else {k. \<exists>v\<in>set vs. \<exists>b. lens_key f v = Inr (k, b)})"

lemma map_res_set: "map_res g xs = Inr ys \<Longrightarrow> set ys = {y. \<exists>x\<in>set xs. g x = Inr y}"
  by (auto simp: map_res_Inr_iff list_all2_conv_all_nth set_conv_nth)

lemma fingerprints_set:
  "fingerprints vs = Inr fs \<Longrightarrow> sorted fs \<and> distinct fs \<and> set fs = {fp. \<exists>v\<in>set vs. need_text [''fingerprint''] v = Inr fp}"
proof -
  assume "fingerprints vs = Inr fs"
  then obtain xs where "map_res (need_text [''fingerprint'']) vs = Inr xs" "fs = bt_set xs"
    by (auto simp: fingerprints_def res_simps)
  with map_res_set [OF this(1)] show ?thesis by simp
qed

text \<open>Every Lens finding names an object or a path.\<close>

definition lens_located :: "formats \<Rightarrow> json_value \<Rightarrow> bool" where
  "lens_located f d = (\<forall>vs. as_array (or_null (get ''findings'' d)) = Some vs \<longrightarrow>
     (\<forall>v\<in>set vs. \<forall>k b. lens_key f v = Inr (k, b) \<longrightarrow> b))"

lemma lens_keys_set:
  assumes "lens_keys f d = Inr (ks, known)"
  shows "sorted ks \<and> distinct ks \<and> set ks = finding_ids f ''lens'' d \<and> known = lens_located f d"
proof -
  from assms obtain vs xs where vs: "as_array (or_null (get ''findings'' d)) = Some vs"
    and xs: "map_res (lens_key f) vs = Inr xs" and ks: "ks = bt_set (map fst xs)" and known: "known = list_all snd xs"
    by (auto simp: lens_keys_def res_simps context_opt_Inr)
  have "set (map fst xs) = {k. \<exists>v\<in>set vs. \<exists>b. lens_key f v = Inr (k, b)}"
    using map_res_set [OF xs] by force
  moreover have "list_all snd xs = lens_located f d"
    using map_res_set [OF xs] vs by (force simp: lens_located_def list_all_iff)
  ultimately show ?thesis using vs ks known by (simp add: finding_ids_def)
qed

text \<open>What resolves a finding of the baseline.\<close>

definition resolving :: "formats \<Rightarrow> string list \<Rightarrow> string list \<Rightarrow> json_value list \<Rightarrow> json_value list \<Rightarrow> string \<Rightarrow> bool" where
  "resolving f completed current old_checks vs fp = (fp \<notin> set current \<and> (\<exists>v\<in>set vs.
     need_text [''fingerprint''] v = Inr fp \<and> covered_by f completed (finding_checks old_checks v)))"

lemma resolve_findings_set:
  "resolve_findings f completed current old_checks vs acc = Inr out \<Longrightarrow> sorted acc \<Longrightarrow> distinct acc \<Longrightarrow>
   sorted out \<and> distinct out \<and> set out = set acc \<union> {fp. resolving f completed current old_checks vs fp}"
proof (induction vs arbitrary: acc)
  case Nil
  then show ?case by (simp add: resolving_def)
next
  case (Cons v vs)
  from Cons.prems(1) obtain fp where fp: "need_text [''fingerprint''] v = Inr fp"
    and rest: "resolve_findings f completed current old_checks vs
      (if fp \<notin> set current \<and> covered_by f completed (finding_checks old_checks v)
       then bt_set (fp # acc) else acc) = Inr out" by (auto simp: res_simps)
  from Cons.IH [OF rest] Cons.prems(2,3) fp show ?case
    by (auto simp: resolving_def split: if_splits)
qed

definition evidence_complete :: "json_value \<Rightarrow> json_value \<Rightarrow> result_summary \<Rightarrow> result_summary \<Rightarrow> bool" where
  "evidence_complete old new s t = (rs_complete s = Some True \<and> rs_complete t = Some True
     \<and> Option.bind (pointer [''execution'', ''cancelled''] old) as_bool = Some False
     \<and> Option.bind (pointer [''execution'', ''cancelled''] new) as_bool = Some False)"

lemma compare_ici_cases:
  assumes "compare_ici f old new s t = Inr d"
  obtains old_checks new_checks vs ws previous current resolved where
    "get ''checks'' old = Some (JArray old_checks)" "get ''checks'' new = Some (JArray new_checks)"
    "get ''findings'' old = Some (JArray vs)" "get ''findings'' new = Some (JArray ws)"
    "fingerprints vs = Inr previous" "fingerprints ws = Inr current"
    "(if evidence_complete old new s t then resolve_findings f (bt_set (List.map_filter (check_key f) (filter check_completed new_checks)))
        current old_checks vs [] else Inr []) = Inr resolved"
    "d = \<lparr>dl_new = set_minus current previous, dl_unchanged = set_both current previous,
       dl_resolved = resolved, dl_carried = set_minus (set_minus previous current) resolved,
       dl_complete = (evidence_complete old new s t \<and> set_minus (set_minus previous current) resolved = [])\<rparr>"
proof -
  have arr: "as_array (or_null v) = Some xs \<longleftrightarrow> v = Some (JArray xs)" for v xs
    by (cases v) (auto simp: or_null_def as_array_def split: json_value.splits)
  have arr2: "Option.bind v as_array = Some xs \<longleftrightarrow> v = Some (JArray xs)" for v xs
    by (cases v) (auto simp: as_array_def split: json_value.splits)
  show thesis
    using assms unfolding compare_ici_def Let_def evidence_complete_def [symmetric]
    by (auto simp only: ensure_Inr and_then_Inr context_opt_Inr arr arr2 sum.inject intro: that)
qed

section \<open>The identities behind a comparison\<close>

text \<open>Every check that could have found it was completed again.\<close>

definition covered_finding :: "formats \<Rightarrow> json_value \<Rightarrow> json_value \<Rightarrow> string \<Rightarrow> bool" where
  "covered_finding f old new fp = (\<exists>oc nc vs v. get ''checks'' old = Some (JArray oc)
     \<and> get ''checks'' new = Some (JArray nc) \<and> get ''findings'' old = Some (JArray vs) \<and> v \<in> set vs
     \<and> need_text [''fingerprint''] v = Inr fp
     \<and> covered_by f (bt_set (List.map_filter (check_key f) (filter check_completed nc))) (finding_checks oc v))"

definition whole_evidence :: "formats \<Rightarrow> json_value \<Rightarrow> json_value \<Rightarrow> result_summary \<Rightarrow> result_summary \<Rightarrow> bool" where
  "whole_evidence f old new s t = (if rs_producer s = ''ici'' then evidence_complete old new s t
     else rs_complete s = Some True \<and> rs_complete t = Some True \<and> lens_located f old \<and> lens_located f new)"

definition producer_kind :: "result_summary \<Rightarrow> string" where
  "producer_kind s = (if rs_producer s = ''ici'' then ''ici'' else ''lens'')"

definition resolved_ids :: "formats \<Rightarrow> json_value \<Rightarrow> json_value \<Rightarrow> result_summary \<Rightarrow> result_summary \<Rightarrow> string set" where
  "resolved_ids f old new s t = {i. i \<in> finding_ids f (producer_kind s) old \<and> i \<notin> finding_ids f (producer_kind s) new
     \<and> whole_evidence f old new s t \<and> (rs_producer s = ''ici'' \<longrightarrow> covered_finding f old new i)}"

text \<open>What a comparison of the sets \<open>P\<close> and \<open>C\<close> must report when the identities \<open>R\<close> are resolved.\<close>

definition delta_of :: "string set \<Rightarrow> string set \<Rightarrow> string set \<Rightarrow> bool \<Rightarrow> result_delta" where
  "delta_of P C R whole = \<lparr>dl_new = sorted_list_of_set (C - P), dl_unchanged = sorted_list_of_set (C \<inter> P),
     dl_resolved = sorted_list_of_set R, dl_carried = sorted_list_of_set (P - C - R),
     dl_complete = (whole \<and> P - C - R = {})\<rparr>"

lemma compare_ici_exact:
  assumes "compare_ici f old new s t = Inr d" and p: "rs_producer s = ''ici''"
  shows "d = delta_of (finding_ids f ''ici'' old) (finding_ids f ''ici'' new)
    (resolved_ids f old new s t) (whole_evidence f old new s t)"
  using assms(1)
proof (rule compare_ici_cases)
  fix oc nc vs ws previous current resolved
  assume c: "get ''checks'' old = Some (JArray oc)" "get ''checks'' new = Some (JArray nc)"
      "get ''findings'' old = Some (JArray vs)" "get ''findings'' new = Some (JArray ws)"
      "fingerprints vs = Inr previous" "fingerprints ws = Inr current"
    and r: "(if evidence_complete old new s t then resolve_findings f (bt_set (List.map_filter (check_key f) (filter check_completed nc)))
        current oc vs [] else Inr []) = Inr resolved"
    and d: "d = \<lparr>dl_new = set_minus current previous, dl_unchanged = set_both current previous,
       dl_resolved = resolved, dl_carried = set_minus (set_minus previous current) resolved,
       dl_complete = (evidence_complete old new s t \<and> set_minus (set_minus previous current) resolved = [])\<rparr>"
  let ?done = "bt_set (List.map_filter (check_key f) (filter check_completed nc))"
  have ids: "set previous = finding_ids f ''ici'' old" "set current = finding_ids f ''ici'' new"
    and sd: "sorted previous" "sorted current" "distinct previous" "distinct current"
    using fingerprints_set [OF c(5)] fingerprints_set [OF c(6)] c(3,4)
    by (simp_all add: finding_ids_def or_null_def as_array_def)
  have "sorted resolved \<and> distinct resolved
      \<and> set resolved = (if evidence_complete old new s t then {fp. resolving f ?done current oc vs fp} else {})"
    using r resolve_findings_set [of f ?done current oc vs "[]" resolved] by (auto split: if_splits)
  moreover have "{fp. resolving f ?done current oc vs fp}
      = {i. i \<in> finding_ids f ''ici'' old \<and> i \<notin> finding_ids f ''ici'' new \<and> covered_finding f old new i}"
    using c fingerprints_set [OF c(5)] ids by (auto simp: resolving_def covered_finding_def)
  ultimately have res: "sorted resolved" "distinct resolved" "set resolved = resolved_ids f old new s t"
    using p by (auto simp: resolved_ids_def whole_evidence_def producer_kind_def)
  have none: "set_minus a b = [] \<longleftrightarrow> set a - set b = {}" for a b :: "string list"
    by (metis set_empty set_minus_set)
  show ?thesis unfolding d delta_of_def
    using sd res p by (simp add: ids none whole_evidence_def ordered_list)
qed

lemma compare_lens_exact:
  assumes "compare_lens f old new s t = Inr d" and p: "rs_producer s \<noteq> ''ici''"
  shows "d = delta_of (finding_ids f ''lens'' old) (finding_ids f ''lens'' new)
    (resolved_ids f old new s t) (whole_evidence f old new s t)"
proof -
  obtain previous current a b where keys: "lens_keys f old = Inr (previous, a)" "lens_keys f new = Inr (current, b)"
    and d: "d = (let complete = (rs_complete s = Some True \<and> rs_complete t = Some True \<and> a \<and> b) in
       \<lparr>dl_new = set_minus current previous, dl_unchanged = set_both current previous,
       dl_resolved = (if complete then set_minus previous current else []),
       dl_carried = (if complete then [] else set_minus previous current), dl_complete = complete\<rparr>)"
    using assms(1) unfolding compare_lens_def Let_def by (auto simp: res_simps)
  note ids = keys [THEN lens_keys_set]
  have whole: "(rs_complete s = Some True \<and> rs_complete t = Some True \<and> a \<and> b) = whole_evidence f old new s t"
    using ids p by (simp add: whole_evidence_def)
  have R: "resolved_ids f old new s t = (if whole_evidence f old new s t
      then finding_ids f ''lens'' old - finding_ids f ''lens'' new else {})"
    using p by (auto simp: resolved_ids_def producer_kind_def)
  show ?thesis unfolding d Let_def whole delta_of_def R
    using ids by (simp add: ordered_list)
qed

section \<open>The size of a finding\<close>

text \<open>The bytes of a text inside a JSON document without its quotes.\<close>

definition json_cost :: "string \<Rightarrow> nat" where
  "json_cost s = sum_list (map (\<lambda>c. if c = CHR 0x22 \<or> c = CHR 0x5C then 2 else if (of_char c :: nat) < 32 then 6 else 1) s)"

definition option_cost :: "string option \<Rightarrow> nat" where
  "option_cost t = (case t of None \<Rightarrow> 0 | Some t \<Rightarrow> json_cost t)"

definition finding_cost :: "structured_finding \<Rightarrow> nat" where
  "finding_cost f = json_cost (sf_body_sha256 f) + json_cost (sf_severity f) + option_cost (sf_code f)
     + option_cost (sf_provider f) + json_cost (sf_message f) + option_cost (map_option fl_path (sf_location f))
     + option_cost (sf_evidence_object f) + option_cost (sf_data_pointer f)"

text \<open>Strings of a JSON document are UTF-8.\<close>

fun json_utf8 :: "json_value \<Rightarrow> bool" where
  "json_utf8 (JText s) = (to_str s \<noteq> None)"
| "json_utf8 (JArray vs) = list_all json_utf8 vs"
| "json_utf8 (JObject m) = list_all (\<lambda>(k, v). json_utf8 v) m"
| "json_utf8 _ = True"

lemma utf8_decode_bound:
  "utf8_decode bs = Some cs \<Longrightarrow> c \<in> set cs \<Longrightarrow> c < 1114112"
proof (induction bs arbitrary: cs rule: utf8_decode.induct)
  case 1
  then show ?case by simp
next
  case (2 b bs)
  then show ?case
    by (auto simp: utf8_cont_def split: if_splits list.splits)
qed

lemma utf8_decode_controls:
  "utf8_decode bs = Some cs \<Longrightarrow> b \<in> set bs \<Longrightarrow> b < 32 \<Longrightarrow> b \<in> set cs"
proof (induction bs arbitrary: cs rule: utf8_decode.induct)
  case 1
  then show ?case by simp
next
  case (2 x bs)
  show ?case
  proof (cases "b = x")
    case True
    with "2.prems" show ?thesis by auto
  next
    case False
    with "2.prems" have b: "b \<in> set bs" "\<not> utf8_cont b" by (auto simp: utf8_cont_def)
    with "2.prems"(1,3) "2.IH" show ?thesis
      by (simp split: if_splits list.split_asm) (auto split: if_splits)
  qed
qed

lemma json_cost_append [simp]: "json_cost (a @ b) = json_cost a + json_cost b"
  by (simp add: json_cost_def)

definition char_cost :: "char \<Rightarrow> nat" where
  "char_cost c = (if c = CHR 0x22 \<or> c = CHR 0x5C then 2 else if (of_char c :: nat) < 32 then 6 else 1)"

lemma json_cost_Cons [simp]: "json_cost [] = 0" "json_cost (c # s) = char_cost c + json_cost s"
  by (simp_all add: json_cost_def char_cost_def)

lemma char_cost_nat:
  "n < 256 \<Longrightarrow> char_cost (char_of (n :: nat)) = (if n = 34 \<or> n = 92 then 2 else if n < 32 then 6 else 1)"
proof -
  assume "n < 256"
  then have n: "(of_char (char_of n :: char) :: nat) = n" by simp
  have "char_of n = c \<longleftrightarrow> n = of_char c" for c :: char using n by (metis char_of_char)
  from this [of "CHR 0x22"] this [of "CHR 0x5C"] n show ?thesis by (simp add: char_cost_def)
qed

lemma char_cost_high: "128 \<le> n \<Longrightarrow> n < 256 \<Longrightarrow> char_cost (char_of (n :: nat)) = 1"
  by (simp add: char_cost_nat)

lemma char_cost_low: "32 \<le> n \<Longrightarrow> n < 128 \<Longrightarrow> char_cost (char_of (n :: nat)) \<le> 2"
  by (simp add: char_cost_nat)

lemma json_cost_code:
  assumes "\<not> is_control c" "c < 1114112"
  shows "json_cost (utf8_encode c) \<le> 4"
proof -
  have d: "c div 64 < 32" if "c < 2048" using that by auto
  have e: "c div 4096 < 16" if "c < 65536" using that by auto
  have g: "c div 262144 < 5" using assms(2) by auto
  have h: "char_cost (char_of (128 + x mod 64)) = 1" for x :: nat
    by (rule char_cost_high) (simp_all add: order.strict_trans1 [of _ "128 + 63"])
  consider "c < 128" | "128 \<le> c" "c < 2048" | "2048 \<le> c" "c < 65536" | "65536 \<le> c" by linarith
  then show ?thesis
  proof cases
    case 1
    with assms(1) char_cost_low [of c] show ?thesis by (simp add: utf8_encode_def is_control_def)
  next
    case 2
    with d char_cost_high [of "192 + c div 64"] show ?thesis by (simp add: utf8_encode_def h)
  next
    case 3
    with e char_cost_high [of "224 + c div 4096"] show ?thesis by (simp add: utf8_encode_def h)
  next
    case 4
    with g char_cost_high [of "240 + c div 262144"] show ?thesis by (simp add: utf8_encode_def h)
  qed
qed

lemma json_cost_codes:
  "list_all (\<lambda>c. \<not> is_control c \<and> c < 1114112) cs \<Longrightarrow> json_cost (concat (map utf8_encode cs)) \<le> 4 * length cs"
proof (induction cs)
  case (Cons c cs)
  then show ?case using json_cost_code [of c] by simp
qed simp

lemma json_cost_safe: "json_cost (safe_text n t) \<le> 4 * n"
proof -
  have "c < 1114112" if "c \<in> set (chars t)" for c
    using that utf8_decode_bound [of "bytes_of t"] by (cases "utf8_decode (bytes_of t)") (auto simp: chars_def to_str_def)
  then have "list_all (\<lambda>c. \<not> is_control c \<and> c < 1114112) (take n (visible_codes t))"
    by (auto simp: list_all_iff visible_codes_def dest: in_set_takeD)
  from json_cost_codes [OF this] show ?thesis by (simp add: safe_text_def)
qed

lemma json_cost_visible:
  assumes "to_str p \<noteq> None" "\<not> has_control p"
  shows "json_cost p \<le> 2 * length p"
proof -
  have "char_cost c \<le> 2" if "c \<in> set p" for c
  proof -
    have "\<not> (of_char c :: nat) < 32"
    proof
      assume low: "(of_char c :: nat) < 32"
      obtain cs where cs: "utf8_decode (bytes_of p) = Some cs" using assms(1) by (auto simp: to_str_def)
      have "of_char c \<in> set cs"
        by (rule utf8_decode_controls [OF cs]) (use that low in \<open>auto simp: bytes_of_def\<close>)
      with assms(2) cs low show False by (auto simp: has_control_def chars_def to_str_def list_ex_iff is_control_def)
    qed
    then show ?thesis by (simp add: char_cost_def)
  qed
  then show ?thesis
  proof (induction p)
    case (Cons a p)
    then have "char_cost a \<le> 2" "json_cost p \<le> 2 * length p" by simp_all
    then show ?case by simp
  qed simp
qed

section \<open>Pages of findings\<close>

lemma bounded_field_cost: "json_cost (fst (bounded_field n t)) \<le> 4 * n"
  by (simp add: bounded_field_def json_cost_safe)

lemma bounded_option_cost: "option_cost (fst (bounded_option n t)) \<le> 4 * n"
  using bounded_field_cost by (auto simp: option_cost_def bounded_option_def split: option.splits)

lemma json_utf8_get: "json_utf8 v \<Longrightarrow> get k v = Some x \<Longrightarrow> json_utf8 x"
  by (cases v) (auto simp: get_def list_all_iff dest: map_of_SomeD)

lemma json_utf8_pointer: "json_utf8 v \<Longrightarrow> pointer ks v = Some x \<Longrightarrow> json_utf8 x"
  by (induction ks arbitrary: v) (auto simp: bind_eq_Some_conv dest: json_utf8_get)

lemma json_utf8_text: "json_utf8 v \<Longrightarrow> as_text v = Some t \<Longrightarrow> to_str t \<noteq> None"
  by (cases v) (auto simp: as_text_def)

lemma finding_location_cost:
  assumes "json_utf8 v"
  shows "option_cost (map_option fl_path (sf_location (finding_of v sha index))) \<le> 8192"
proof -
  let ?path = "Option.bind (case Option.bind (get ''primary_location'' v) (get ''path'') of
      None \<Rightarrow> pointer [''evidence'', ''path''] v | Some p \<Rightarrow> Some p) as_text"
  have "to_str p \<noteq> None" if "?path = Some p" for p
  proof -
    from that obtain y where y: "as_text y = Some p"
      and src: "Option.bind (get ''primary_location'' v) (get ''path'') = Some y \<or> pointer [''evidence'', ''path''] v = Some y"
      by (auto simp del: pointer.simps simp: bind_eq_Some_conv split: option.splits)
    have "json_utf8 y"
      using src by (auto simp del: pointer.simps simp: bind_eq_Some_conv dest: json_utf8_get [OF assms]
          json_utf8_pointer [OF assms] intro: json_utf8_get)
    then show ?thesis using y by (rule json_utf8_text)
  qed
  then have "option_cost (map_option fl_path (case ?path of None \<Rightarrow> None
      | Some p \<Rightarrow> if p \<noteq> [] \<and> length p \<le> 4096 \<and> \<not> has_control p
          then Some \<lparr>fl_path = p, fl_start_line = a, fl_start_column = b, fl_end_line = c, fl_end_column = d\<rparr> else None)) \<le> 8192" for a b c d
    using json_cost_visible by (fastforce simp: option_cost_def split: option.splits)
  then show ?thesis by (simp add: finding_of_def Let_def split_beta del: pointer.simps)
qed

lemma finding_of_cost:
  assumes "json_utf8 v" "json_cost sha \<le> 384"
  shows "finding_cost (finding_of v sha index) \<le> 49792"
proof -
  let ?f = "finding_of v sha index"
  have "json_cost (sf_message ?f) \<le> 4 * 8192" "json_cost (sf_severity ?f) \<le> 4 * 64"
    "option_cost (sf_code ?f) \<le> 4 * 256" "option_cost (sf_provider ?f) \<le> 4 * 256"
    "option_cost (sf_evidence_object ?f) \<le> 4 * 512" "option_cost (sf_data_pointer ?f) \<le> 4 * 1024"
    "sf_body_sha256 ?f = sha"
    by (simp_all only: finding_of_def Let_def split_beta structured_finding.simps bounded_field_cost bounded_option_cost)
  with finding_location_cost [OF assms(1), of sha index] assms(2) show ?thesis
    by (simp add: finding_cost_def)
qed

lemma collect_findings_exact:
  "collect_findings cost sha charged index vs = (fs, n) \<Longrightarrow>
   index \<le> n \<and> n \<le> index + length vs
   \<and> fs = map (\<lambda>i. finding_of (vs ! (i - index)) sha i) [index..<n]"
proof (induction vs arbitrary: charged index fs n)
  case (Cons v vs)
  show ?case
  proof (cases "FINDING_PAGE_BYTES - 4096 < charged + cost (finding_of v sha index)")
    case True
    with Cons.prems show ?thesis by (simp add: Let_def)
  next
    case False
    with Cons.prems obtain gs where c: "collect_findings cost sha (charged + cost (finding_of v sha index)) (index + 1) vs = (gs, n)"
      and fs: "fs = finding_of v sha index # gs" by (auto simp: Let_def split: prod.splits)
    from Cons.IH [OF c] have b: "index + 1 \<le> n" "n \<le> index + 1 + length vs"
      and gs: "gs = map (\<lambda>i. finding_of (vs ! (i - (index + 1))) sha i) [index + 1..<n]" by auto
    have "[index..<n] = index # [index + 1..<n]" using b(1) by (simp add: upt_conv_Cons)
    moreover have "map (\<lambda>i. finding_of ((v # vs) ! (i - index)) sha i) [index + 1..<n] = gs"
      unfolding gs by (rule map_cong) (auto simp: nth_Cons' Suc_diff_le)
    ultimately show ?thesis using b fs by simp
  qed
qed simp

lemma collect_findings_progress:
  "vs \<noteq> [] \<Longrightarrow> cost (finding_of (hd vs) sha index) \<le> FINDING_PAGE_BYTES - 4096 \<Longrightarrow>
   collect_findings cost sha 0 index vs = (fs, n) \<Longrightarrow> index < n"
  by (cases vs) (auto simp: Let_def split: prod.splits dest: collect_findings_exact)

lemma char_cost_le: "char_cost c \<le> 6"
  by (simp add: char_cost_def)

lemma json_cost_hex: "length s = 64 \<Longrightarrow> json_cost s \<le> 384"
proof -
  have "json_cost s \<le> 6 * length s"
  proof (induction s)
    case (Cons c s)
    then show ?case using char_cost_le [of c] by simp
  qed simp
  then show "length s = 64 \<Longrightarrow> json_cost s \<le> 384" by simp
qed

lemma verify_body_digest: "verify_body z st r body w = (Inr b, w') \<Longrightarrow> length (bd_sha256 body) = 64"
  by (auto simp: verify_body_def op_simps body_path_def ensure_Inr and_then_Inr)

lemma verified_bytes:
  "verified z st r w = ((r', Some b), w') \<Longrightarrow>
   \<exists>body. verify_body z st r body w = (Inr b, w') \<and> result_body r = Some body \<and> r' = r"
  by (auto simp: verified_def split: option.splits if_splits prod.splits sum.splits)

lemma verified_digest:
  assumes "verified z st r w = ((r', Some b), w')" "result_body r' = Some body"
  shows "length (bd_sha256 body) = 64"
  using verified_bytes [OF assms(1)] assms(2) verify_body_digest by fastforce

lemma result_findings_Inr:
  assumes "result_findings z cost st r offset limit w = (Inr page, w')"
  obtains (empty) r' where "page = \<lparr>fp_result = r', fp_offset = offset, fp_next_offset = offset, fp_total = 0,
          fp_findings = [], fp_more = False\<rparr>"
  | (slice) r' b w1 body d vs fs n where "1 \<le> limit" "verified z st r w = ((r', Some b), w1)"
      "result_body r' = Some body" "rx_parse (rz_formats z) b = Inr d"
      "as_array (or_null (get ''findings'' d)) = Some vs" "offset \<le> length vs"
      "collect_findings cost (bd_sha256 body) 0 offset (take limit (drop offset vs)) = (fs, n)"
      "page = \<lparr>fp_result = r', fp_offset = offset, fp_next_offset = n, fp_total = length vs,
            fp_findings = fs, fp_more = (n < length vs)\<rparr>"
proof -
  obtain r' c w1 where v: "verified z st r w = ((r', c), w1)" by (metis prod.collapse)
  have limit: "1 \<le> limit" using assms by (simp add: result_findings_def op_ensure_Inr)
  show thesis
  proof (cases "result_summary_of r' = None \<or> result_body r' = None \<or> c = None")
    case True
    with assms v show ?thesis
      by (auto simp: result_findings_def op_ensure_Inr op_try_Inr verified_op_def Let_def split: option.splits intro: empty)
  next
    case False
    then obtain s body b where c: "result_summary_of r' = Some s" "result_body r' = Some body" "c = Some b" by auto
    from assms v c obtain d vs where d: "rx_parse (rz_formats z) b = Inr d"
      and vs: "as_array (or_null (get ''findings'' d)) = Some vs" "offset \<le> length vs"
      and rest: "(let (fs, next) = collect_findings cost (bd_sha256 body) 0 offset (take limit (drop offset vs)) in
          op_return (\<lparr>fp_result = r', fp_offset = offset, fp_next_offset = offset, fp_total = 0,
            fp_findings = [], fp_more = False\<rparr>\<lparr>fp_next_offset := next, fp_total := length vs, fp_findings := fs,
            fp_more := (next < length vs)\<rparr>)) w1 = (Inr page, w')"
      by (simp add: result_findings_def op_ensure_Inr op_try_Inr verified_op_def context_opt_Inr Let_def) blast
    obtain fs n where l: "collect_findings cost (bd_sha256 body) 0 offset (take limit (drop offset vs)) = (fs, n)"
      by fastforce
    with rest have "page = \<lparr>fp_result = r', fp_offset = offset, fp_next_offset = n, fp_total = length vs,
            fp_findings = fs, fp_more = (n < length vs)\<rparr>" by simp
    then show ?thesis using v c d vs l limit by (intro slice) simp_all
  qed
qed

section \<open>Event streams\<close>

text \<open>The events of a gapless stream after \<open>previous\<close>, all by one producer.\<close>

fun event_chain :: "formats \<Rightarrow> nat option \<Rightarrow> string option \<Rightarrow> string list \<Rightarrow> progress_event list \<Rightarrow> bool" where
  "event_chain f previous producer [] es = (es = [])"
| "event_chain f previous producer (l # ls) es = (case es of [] \<Rightarrow> False
     | e # es' \<Rightarrow> l \<noteq> [] \<and> List.last l = CHR 0x0A \<and> parse_event f previous producer l = Inr e
         \<and> (case previous of None \<Rightarrow> pe_seq e \<le> 1 | Some k \<Rightarrow> pe_seq e = Suc k)
         \<and> event_chain f (Some (pe_seq e)) (Some (pe_producer_run_id e)) ls es')"

definition flawless :: "event_progress \<Rightarrow> bool" where
  "flawless p = (ep_invalid_events p = 0 \<and> ep_sequence_gaps p = 0 \<and> \<not> ep_truncated_tail p)"

lemma as_u64_bound: "as_u64 v = Some n \<Longrightarrow> n \<le> u64_max"
  by (cases v) (auto simp: as_u64_def split: if_splits)

lemma parse_event_Inr:
  assumes "parse_event f previous producer l = Inr e"
  shows "(case producer of None \<Rightarrow> True | Some i \<Rightarrow> pe_producer_run_id e = i) \<and> pe_seq e \<le> u64_max \<and>
    (case previous of None \<Rightarrow> True | Some k \<Rightarrow> k < pe_seq e)"
  using assms unfolding parse_event_def ensure_Inr and_then_Inr context_opt_Inr bind_eq_Some_conv sum.inject
proof (elim conjE exE)
  fix v i sq t ty y
  assume a: "case producer of None \<Rightarrow> True | Some expected \<Rightarrow> expected = i" 
    "case previous of None \<Rightarrow> True | Some prior \<Rightarrow> prior < sq" and e: "\<lparr>pe_seq = sq, pe_event_type = safe_text 128 ty, pe_producer_run_id = i,
           pe_task_id = map_option (safe_text 256) (Option.bind (get ''task_id'' v) as_text),
           pe_message = safe_text 1024 (text_or [] (Option.bind (get ''message'' v) as_text))\<rparr> = e"
   and y: "as_u64 y = Some sq"
  have "pe_seq e = sq" "pe_producer_run_id e = i" using e by auto
  then show ?thesis using a y as_u64_bound by (auto split: option.splits)
qed

lemma parse_event_facts:
  assumes "parse_event f previous producer l = Inr e"
  shows "(case previous of None \<Rightarrow> True | Some k \<Rightarrow> k < pe_seq e)" and "pe_seq e \<le> u64_max"
    and "(case producer of None \<Rightarrow> True | Some i \<Rightarrow> pe_producer_run_id e = i)"
  using parse_event_Inr [OF assms] by blast+

lemma accept_event_flaws: "flawless (accept_event previous e p) \<Longrightarrow> flawless p"
  by (simp add: flawless_def accept_event_def Let_def)

lemma reject_event_flaws: "\<not> flawless (reject_event e p)"
  by (simp add: flawless_def reject_event_def)

lemma observe_lines_flaws: "flawless (observe_lines f previous producer ls p) \<Longrightarrow> flawless p"
proof (induction ls arbitrary: previous producer p)
  case (Cons l ls)
  show ?case
  proof (cases "l = [] \<or> List.last l \<noteq> CHR 0x0A")
    case True
    with Cons.prems show ?thesis by (simp add: flawless_def)
  next
    case False
    with Cons.prems Cons.IH show ?thesis
      by (cases "parse_event f previous producer l") (auto dest: accept_event_flaws simp: reject_event_flaws dest!: Cons.IH)
  qed
qed simp

lemma observe_lines_chain:
  assumes "flawless (observe_lines f previous producer ls p)"
  shows "\<exists>es. event_chain f previous producer ls es
    \<and> ep_events_observed (observe_lines f previous producer ls p) = ep_events_observed p + length es
    \<and> ep_latest (observe_lines f previous producer ls p) = (if es = [] then ep_latest p else Some (List.last es))"
  using assms
proof (induction ls arbitrary: previous producer p)
  case Nil
  then show ?case by simp
next
  case (Cons l ls)
  from Cons.prems have line: "l \<noteq> []" "List.last l = CHR 0x0A" by (auto simp: flawless_def split: if_splits)
  show ?case
  proof (cases "parse_event f previous producer l")
    case (Inl err)
    with Cons.prems line have "flawless (reject_event err p)" by (auto dest: observe_lines_flaws)
    then show ?thesis by (simp add: flawless_def reject_event_def)
  next
    case (Inr e)
    let ?p = "accept_event previous e p"
    from Cons.prems line Inr have rest: "flawless (observe_lines f (Some (pe_seq e)) (Some (pe_producer_run_id e)) ls ?p)"
      by simp
    from observe_lines_flaws [OF this] parse_event_facts(1,2) [OF Inr]
    have "case previous of None \<Rightarrow> pe_seq e \<le> 1 | Some k \<Rightarrow> pe_seq e = Suc k"
      by (auto simp: flawless_def accept_event_def Let_def saturating_add_def split: option.splits if_splits)
    moreover from Cons.IH [OF rest] obtain es where "event_chain f (Some (pe_seq e)) (Some (pe_producer_run_id e)) ls es"
      "ep_events_observed (observe_lines f (Some (pe_seq e)) (Some (pe_producer_run_id e)) ls ?p) = ep_events_observed ?p + length es"
      "ep_latest (observe_lines f (Some (pe_seq e)) (Some (pe_producer_run_id e)) ls ?p) = (if es = [] then ep_latest ?p else Some (List.last es))"
      by blast
    ultimately show ?thesis using Inr line
      by (intro exI [of _ "e # es"]) (auto simp: accept_event_def Let_def)
  qed
qed

lemma event_chain_seqs:
  "event_chain f previous producer ls es \<Longrightarrow> es \<noteq> [] \<Longrightarrow>
   \<exists>k. (case previous of None \<Rightarrow> k \<le> 1 | Some j \<Rightarrow> k = Suc j) \<and> map pe_seq es = [k..<k + length es]
     \<and> length es = length ls \<and> (\<forall>e\<in>set es. pe_producer_run_id e = pe_producer_run_id (hd es))
     \<and> (case producer of None \<Rightarrow> True | Some i \<Rightarrow> pe_producer_run_id (hd es) = i)"
proof (induction ls arbitrary: previous producer es)
  case (Cons l ls)
  from Cons.prems obtain e es' where es: "es = e # es'" and p: "parse_event f previous producer l = Inr e"
    and s: "case previous of None \<Rightarrow> pe_seq e \<le> 1 | Some k \<Rightarrow> pe_seq e = Suc k"
    and rest: "event_chain f (Some (pe_seq e)) (Some (pe_producer_run_id e)) ls es'"
    by (auto split: list.splits)
  note i = parse_event_facts(3) [OF p]
  show ?case
  proof (cases "es' = []")
    case True
    with rest have "ls = []" by (cases ls) auto
    with True es s i show ?thesis by (intro exI [of _ "pe_seq e"]) (auto split: option.splits)
  next
    case False
    from Cons.IH [OF rest this] have m: "map pe_seq es' = [Suc (pe_seq e)..<Suc (pe_seq e) + length es']"
      and l: "length es' = length ls" "\<forall>x\<in>set es'. pe_producer_run_id x = pe_producer_run_id (hd es')"
      "pe_producer_run_id (hd es') = pe_producer_run_id e" by auto
    have "map pe_seq es = [pe_seq e..<pe_seq e + length es]"
      unfolding es by (simp add: m upt_conv_Cons del: upt_Suc)
    with l es s i show ?thesis by (intro exI [of _ "pe_seq e"]) (auto split: option.splits)
  qed
qed simp

lemma split_inclusive_concat: "concat (split_inclusive s) = s"
  by (induction s rule: split_inclusive.induct) (auto split: list.splits)

section \<open>Properties\<close>

text \<open>C30 (comparison_partitions). A comparison that is reported is the difference of two sets of
  identities, those of the baseline and those of the current document. Of the new ones, the current
  without the baseline, it gives the number and the first hundred in order; of the resolved ones,
  which are gone from the current document with the evidence for it (the evidence is whole and, for an
  ici finding, every check that could have found it was completed again), likewise. It counts the
  unchanged ones, which both have, and as carried exactly those that are gone but not resolved. It
  calls itself comparable exactly when the evidence is whole and everything gone is resolved.\<close>

theorem comparison_partitions:
  assumes "compare_documents f s old t new (empty_comparison i j) = c"
    and "rc_state c = CmpComparable \<or> rc_state c = CmpPartial"
  shows "\<exists>u v. rx_parse f old = Inr u \<and> rx_parse f new = Inr v \<and> same_producer s t
    \<and> (let P = finding_ids f (producer_kind s) u; C = finding_ids f (producer_kind s) v;
           R = resolved_ids f u v s t in
       R \<subseteq> P - C
       \<and> rc_new_count c = card (C - P)
       \<and> rc_new_sample c = map (safe_text 256) (take 100 (sorted_list_of_set (C - P)))
       \<and> rc_unchanged_count c = card (C \<inter> P)
       \<and> rc_resolved_count c = card R
       \<and> rc_resolved_sample c = map (safe_text 256) (take 100 (sorted_list_of_set R))
       \<and> rc_carried_count c = card (P - C - R)
       \<and> (rc_state c = CmpComparable) = (whole_evidence f u v s t \<and> R = P - C))"
proof -
  from assms obtain u v d where parse: "rx_parse f old = Inr u" "rx_parse f new = Inr v" "same_producer s t"
    and d: "(if rs_producer s = ''ici'' then compare_ici f u v s t else compare_lens f u v s t) = Inr d"
    and c: "c = report_delta d (empty_comparison i j)"
    by (auto simp: compare_documents_def empty_comparison_def split: if_splits sum.splits)
  let ?P = "finding_ids f (producer_kind s) u" and ?C = "finding_ids f (producer_kind s) v"
    and ?R = "resolved_ids f u v s t"
  have d: "d = delta_of ?P ?C ?R (whole_evidence f u v s t)"
    using d compare_ici_exact compare_lens_exact by (auto simp: producer_kind_def split: if_splits)
  have R: "?R \<subseteq> ?P - ?C" by (auto simp: resolved_ids_def)
  then have "?P - ?C - ?R = {} \<longleftrightarrow> ?R = ?P - ?C" by blast
  with parse R show ?thesis unfolding c d
    by (intro exI [of _ u] exI [of _ v]) (simp add: report_delta_def delta_of_def Let_def)
qed

text \<open>C31 (resolved_needs_evidence). An ici finding counts as resolved only with the evidence for it: both runs
  complete and not cancelled, the finding gone from the current document, checks of the baseline
  that could have found it, and for every one of them a check of the current run with the same
  key that succeeded with complete evidence.\<close>

theorem resolved_needs_evidence:
  assumes "compare_ici f old new s t = Inr d" and "fp \<in> set (dl_resolved d)"
  shows "evidence_complete old new s t \<and> fp \<notin> finding_ids f ''ici'' new
    \<and> (\<exists>vs oc nc v. get ''findings'' old = Some (JArray vs) \<and> get ''checks'' old = Some (JArray oc)
        \<and> get ''checks'' new = Some (JArray nc) \<and> v \<in> set vs \<and> need_text [''fingerprint''] v = Inr fp
        \<and> finding_checks oc v \<noteq> []
        \<and> (\<forall>k\<in>set (finding_checks oc v). \<exists>n\<in>set nc. check_completed n \<and> check_key f k \<noteq> None
             \<and> check_key f n = check_key f k))"
  using assms(1)
proof (rule compare_ici_cases)
  fix oc nc vs ws previous current resolved
  assume g: "get ''checks'' old = Some (JArray oc)" "get ''checks'' new = Some (JArray nc)"
      "get ''findings'' old = Some (JArray vs)" "get ''findings'' new = Some (JArray ws)"
      "fingerprints ws = Inr current"
    and r: "(if evidence_complete old new s t then resolve_findings f (bt_set (List.map_filter (check_key f) (filter check_completed nc)))
        current oc vs [] else Inr []) = Inr resolved"
    and d: "d = \<lparr>dl_new = set_minus current previous, dl_unchanged = set_both current previous,
       dl_resolved = resolved, dl_carried = set_minus (set_minus previous current) resolved,
       dl_complete = (evidence_complete old new s t \<and> set_minus (set_minus previous current) resolved = [])\<rparr>"
  let ?done = "bt_set (List.map_filter (check_key f) (filter check_completed nc))"
  from r d assms(2) have e: "evidence_complete old new s t" by (auto split: if_splits)
  with r d assms(2) resolve_findings_set [of f ?done current oc vs "[]" resolved]
  have "resolving f ?done current oc vs fp" by simp
  then obtain v where gone: "fp \<notin> set current" and v: "v \<in> set vs" "need_text [''fingerprint''] v = Inr fp"
    and cov: "covered_by f ?done (finding_checks oc v)" by (auto simp: resolving_def)
  have "\<exists>n\<in>set nc. check_completed n \<and> check_key f k \<noteq> None \<and> check_key f n = check_key f k"
    if "k \<in> set (finding_checks oc v)" for k
  proof -
    from cov that obtain key where "check_key f k = Some key" "key \<in> set ?done"
      by (auto simp: covered_by_def list_all_iff split: option.splits)
    then show ?thesis by (auto simp: map_filter_def)
  qed
  moreover have "fp \<notin> finding_ids f ''ici'' new"
    using gone fingerprints_set [OF g(5)] g(4) by (simp add: finding_ids_def or_null_def as_array_def)
  ultimately show ?thesis
    using e g v cov by (intro conjI exI [of _ vs] exI [of _ oc] exI [of _ nc] exI [of _ v]) (simp_all add: covered_by_def)
qed

text \<open>C32 (observed_stream_is_gapless). A stream whose progress is reported as observed, not partial, is whole: every
  line ends and is a valid event, the sequence numbers are consecutive from 0 or 1, one producer
  wrote them all (the expected one, when one is expected), and the counts and the latest event
  are those of the stream.\<close>

theorem observed_stream_is_gapless:
  assumes "observe_bytes f expected bytes = p" and "ep_state p = EvObserved"
  shows "\<exists>es. event_chain f None expected (split_inclusive bytes) es
    \<and> ep_events_observed p = length es \<and> length es = length (split_inclusive bytes)
    \<and> ep_latest p = (if es = [] then None else Some (List.last es))
    \<and> (\<exists>k\<le>1. map pe_seq es = [k..<k + length es])
    \<and> (\<forall>e\<in>set es. \<forall>e'\<in>set es. pe_producer_run_id e = pe_producer_run_id e')
    \<and> (\<forall>i. expected = Some i \<longrightarrow> (\<forall>e\<in>set es. pe_producer_run_id e = i))"
proof -
  let ?q = "observe_lines f None expected (split_inclusive bytes)
     (default_events\<lparr>ep_bytes_observed := length bytes, ep_state := EvObserved\<rparr>)"
  have p: "p = ?q" and "flawless ?q"
    using assms by (auto simp: observe_bytes_def settle_events_def flawless_def split: if_splits)
  from observe_lines_chain [OF this(2)] obtain es where es: "event_chain f None expected (split_inclusive bytes) es"
    "ep_events_observed ?q = length es" "ep_latest ?q = (if es = [] then None else Some (List.last es))"
    by (auto simp: default_events_def)
  show ?thesis
  proof (cases "es = []")
    case True
    with es(1) have "split_inclusive bytes = []" by (cases "split_inclusive bytes") auto
    with True es p show ?thesis by (intro exI [of _ "[]"]) auto
  next
    case False
    from event_chain_seqs [OF es(1) False] obtain k where k: "k \<le> 1" "map pe_seq es = [k..<k + length es]"
      and len: "length es = length (split_inclusive bytes)"
      and one: "\<forall>e\<in>set es. pe_producer_run_id e = pe_producer_run_id (hd es)"
      and expected: "\<forall>i. expected = Some i \<longrightarrow> pe_producer_run_id (hd es) = i"
      by (cases expected) auto
    from es p len k one expected show ?thesis
      by (intro exI [of _ es] conjI) (simp_all, blast)
  qed
qed

text \<open>A page of findings is exactly the next slice of the document's findings in order,
  each under its index; it says whether more follow; and since bounded fields keep every finding
  below the size of a page, a page that starts before the end always advances, so that reading
  page by page ends.\<close>

theorem findings_pages_advance:
  assumes "result_findings z cost st r offset limit w = (Inr page, w')"
    and "\<forall>x. cost x \<le> 2048 + finding_cost x"
    and "\<forall>b d. rx_parse (rz_formats z) b = Inr d \<longrightarrow> json_utf8 d"
  shows "\<exists>vs sha. fp_total page = length vs \<and> fp_offset page = offset \<and> offset \<le> fp_next_offset page
    \<and> fp_next_offset page \<le> offset + limit
    \<and> fp_findings page = map (\<lambda>i. finding_of (vs ! i) sha i) [offset..<fp_next_offset page]
    \<and> fp_more page = (fp_next_offset page < length vs \<and> vs \<noteq> [])
    \<and> (offset < length vs \<longrightarrow> offset < fp_next_offset page \<and> fp_next_offset page \<le> length vs)"
  using assms(1)
proof (cases rule: result_findings_Inr)
  case (empty r')
  then show ?thesis by (intro exI [of _ "[]"]) simp
next
  case (slice r' b w1 body d vs fs n)
  note limit = slice(1) and v = slice(2) and c = slice(2,3,4,5,6) and l = slice(7) and page = slice(8)
    from collect_findings_exact [OF l] c(5) have n: "offset \<le> n" "n \<le> offset + limit" "n \<le> length vs"
      and fs: "fs = map (\<lambda>i. finding_of (take limit (drop offset vs) ! (i - offset)) (bd_sha256 body) i) [offset..<n]"
      by auto
    have "fs = map (\<lambda>i. finding_of (vs ! i) (bd_sha256 body) i) [offset..<n]"
      unfolding fs using n by (intro map_cong) auto
    moreover have "offset < n" if "offset < length vs"
    proof (rule collect_findings_progress [OF _ _ l])
      show "take limit (drop offset vs) \<noteq> []" using that limit by simp
      have hd: "hd (take limit (drop offset vs)) = vs ! offset" using that limit by (simp add: hd_drop_conv_nth)
      have "json_utf8 d" using assms(3) c(3) by blast
      then have "json_utf8 (vs ! offset)"
        using c(4) that by (auto simp: or_null_def as_array_def list_all_iff split: option.splits json_value.splits
            dest: json_utf8_get)
      moreover have "json_cost (bd_sha256 body) \<le> 384"
        using verified_digest [OF v] c(2) by (auto intro: json_cost_hex)
      ultimately have "finding_cost (finding_of (vs ! offset) (bd_sha256 body) offset) \<le> 49792"
        by (rule finding_of_cost)
      moreover have "cost (finding_of (vs ! offset) (bd_sha256 body) offset)
          \<le> 2048 + finding_cost (finding_of (vs ! offset) (bd_sha256 body) offset)" using assms(2) by blast
      ultimately show "cost (finding_of (hd (take limit (drop offset vs))) (bd_sha256 body) offset)
          \<le> FINDING_PAGE_BYTES - 4096"
        unfolding hd FINDING_PAGE_BYTES_def by linarith
    qed
    ultimately show ?thesis using n page by (intro exI [of _ vs] exI [of _ "bd_sha256 body"]) auto
qed

end
