(* ===== verification/Result_Demo.thy ===== *)
theory Result_Demo
  imports Result_Properties Result_Views
begin

text \<open>A small result store: two ici documents of one task, captured, read and compared.\<close>

definition demo_check :: json_value where
  "demo_check = JObject [(''task_id'', JText ''t''), (''check_id'', JText ''c''), (''component_id'', JText ''k''),
     (''language'', JText ''rust''), (''scope_digest'', JText ''s''), (''evidence_complete'', JBool True),
     (''state'', JText ''SUCCEEDED'')]"

definition demo_finding :: "string \<Rightarrow> json_value" where
  "demo_finding fp = JObject [(''fingerprint'', JText fp), (''task_id'', JText ''t''), (''component_id'', JText ''k''),
     (''message'', JText ''bad''), (''severity'', JText ''error'')]"

definition demo_document :: "string list \<Rightarrow> json_value" where
  "demo_document fps = JObject [(''schema_id'', JText ''ici.next.run''), (''schema_version'', JInt 2),
     (''run_id'', JText ''p1''), (''producer'', JObject [(''ici_version'', JText ''1'')]),
     (''identity'', JObject [(''fingerprint_version'', JText ''ici.next.fingerprint.v3''),
        (''policy_digest'', JText ''a''), (''toolchain_digest'', JText ''b'')]),
     (''scope'', JObject []), (''execution'', JObject [(''cancelled'', JBool False), (''required_complete'', JBool True)]),
     (''gate'', JObject []), (''publication'', JObject []), (''checks'', JArray [demo_check]),
     (''findings'', JArray (map demo_finding fps))]"

definition demo_event :: "int \<Rightarrow> json_value" where
  "demo_event n = JObject [(''schema_id'', JText ''ici.next.event''), (''schema_version'', JInt 1), (''run_id'', JText ''p1''),
     (''seq'', JInt n), (''timestamp'', JText ''now''), (''event_type'', JText ''tick'')]"

definition demo_formats :: formats where
  "demo_formats = \<lparr>rx_parse = (\<lambda>b. if b = ''old'' then Inr (demo_document [''F'', ''G''])
      else if b = ''new'' then Inr (demo_document [''G'', ''H''])
      else if b = ''e1'' @ [CHR 0x0A] then Inr (demo_event 1) else if b = ''e2'' @ [CHR 0x0A] then Inr (demo_event 2)
      else Inl (Bail ''json'')),
     rx_print = (\<lambda>_. ''x''), rx_sha = (\<lambda>_. replicate 64 (CHR ''a''))\<rparr>"

definition demo_results :: results where
  "demo_results = \<lparr>rz_ext = demo_ext, rz_formats = demo_formats, rz_list = (\<lambda>_ _. [])\<rparr>"

definition demo_result_store :: result_store where
  "demo_result_store = \<lparr>sr_root = ''/s'', sr_limit = 1000\<rparr>"

definition demo_capture :: "structured_result \<times> world" where
  "demo_capture = capture_bytes demo_results demo_result_store ''r1'' ''new'' demo_world"

definition demo_summary :: "json_value \<Rightarrow> result_summary res" where
  "demo_summary d = summarize_result demo_formats d ''r1''"

lemma demo_captured: "map_option bd_run_id (result_body (fst demo_capture)) = Some ''r1'' \<and> fw_faults (snd demo_capture) = []"
  by code_simp

theorem captured_result_survives_witness:
  "\<exists>r b w1 w3. capture_bytes demo_results demo_result_store ''r1'' ''new'' demo_world = (r, w1)
     \<and> result_body r = Some b \<and> verified demo_results demo_result_store r w1 = ((r, Some ''new''), w3)"
proof -
  obtain r w1 where c: "capture_bytes demo_results demo_result_store ''r1'' ''new'' demo_world = (r, w1)" by fastforce
  with demo_captured obtain b where b: "result_body r = Some b" and quiet: "fw_faults w1 = []"
    by (auto simp: demo_capture_def)
  obtain x w3 where v: "verified demo_results demo_result_store r w1 = (x, w3)" by fastforce
  from captured_result_survives [OF c b rtranclp.rtrancl_refl v] quiet have "x = (r, Some ''new'')" by blast
  with c b v show ?thesis by blast
qed


definition demo_comparison :: "result_comparison res" where
  "demo_comparison = and_then (demo_summary (demo_document [''F'', ''G''])) (\<lambda>s.
     and_then (demo_summary (demo_document [''G'', ''H''])) (\<lambda>t.
     Inr (compare_documents demo_formats s ''old'' t ''new'' (empty_comparison ''r0'' ''r1''))))"

lemma demo_compared:
  "(case demo_comparison of Inr c \<Rightarrow> rc_state c = CmpComparable \<and> rc_new_sample c = [''H''] \<and> rc_resolved_sample c = [''F'']
     | _ \<Rightarrow> False)"
  by code_simp

theorem comparison_partitions_witness:
  "\<exists>s t c u v. compare_documents demo_formats s ''old'' t ''new'' (empty_comparison ''r0'' ''r1'') = c
     \<and> rc_state c = CmpComparable \<and> rc_resolved_sample c = [''F''] \<and> whole_evidence demo_formats u v s t
     \<and> rx_parse demo_formats ''old'' = Inr u \<and> rx_parse demo_formats ''new'' = Inr v"
proof -
  obtain s t c where c: "compare_documents demo_formats s ''old'' t ''new'' (empty_comparison ''r0'' ''r1'') = c"
    and st: "rc_state c = CmpComparable" and r: "rc_resolved_sample c = [''F'']"
    using demo_compared by (auto simp: demo_comparison_def and_then_def split: sum.splits)
  from st have "rc_state c = CmpComparable \<or> rc_state c = CmpPartial" by simp
  from comparison_partitions [OF c this] st c r show ?thesis unfolding Let_def by metis
qed

definition demo_delta_of :: "result_delta res" where
  "demo_delta_of = and_then (demo_summary (demo_document [''F'', ''G''])) (\<lambda>s.
     and_then (demo_summary (demo_document [''G'', ''H''])) (\<lambda>t.
     compare_ici demo_formats (demo_document [''F'', ''G'']) (demo_document [''G'', ''H'']) s t))"

lemma demo_resolves: "(case demo_delta_of of Inr d \<Rightarrow> dl_resolved d = [''F''] | _ \<Rightarrow> False)"
  by code_simp

theorem resolved_needs_evidence_witness:
  "\<exists>s t d. compare_ici demo_formats (demo_document [''F'', ''G'']) (demo_document [''G'', ''H'']) s t = Inr d
     \<and> ''F'' \<in> set (dl_resolved d)
     \<and> evidence_complete (demo_document [''F'', ''G'']) (demo_document [''G'', ''H'']) s t"
proof -
  obtain s t d where c: "compare_ici demo_formats (demo_document [''F'', ''G'']) (demo_document [''G'', ''H'']) s t = Inr d"
    and "dl_resolved d = [''F'']"
    using demo_resolves by (auto simp: demo_delta_of_def and_then_def split: sum.splits)
  then have f: "''F'' \<in> set (dl_resolved d)" by simp
  from resolved_needs_evidence [OF c f] c f show ?thesis by blast
qed

definition demo_stream :: string where
  "demo_stream = ''e1'' @ [CHR 0x0A] @ ''e2'' @ [CHR 0x0A]"

lemma demo_observed: "ep_state (observe_bytes demo_formats (Some ''p1'') demo_stream) = EvObserved
    \<and> ep_events_observed (observe_bytes demo_formats (Some ''p1'') demo_stream) = 2"
  by code_simp

theorem observed_stream_is_gapless_witness:
  "ep_state (observe_bytes demo_formats (Some ''p1'') demo_stream) = EvObserved
   \<and> (\<exists>es. event_chain demo_formats None (Some ''p1'') (split_inclusive demo_stream) es \<and> length es = 2)"
  using demo_observed observed_stream_is_gapless [OF refl, of demo_formats "Some ''p1''" demo_stream] by auto

lemma demo_formats_utf8: "rx_parse demo_formats b = Inr d \<Longrightarrow> json_utf8 d"
proof -
  have docs: "json_utf8 (demo_document [''F'', ''G''])" "json_utf8 (demo_document [''G'', ''H''])" "json_utf8 (demo_event 1)"
    "json_utf8 (demo_event 2)" by code_simp+
  show "rx_parse demo_formats b = Inr d \<Longrightarrow> json_utf8 d"
    using docs by (auto simp: demo_formats_def split: if_splits)
qed

lemma demo_page: "(case result_findings demo_results finding_cost demo_result_store (fst demo_capture) 0 1 (snd demo_capture) of
    (Inr p, _) \<Rightarrow> fp_total p = 2 | _ \<Rightarrow> False)"
  by code_simp

theorem findings_pages_advance_witness:
  "\<exists>page w'. result_findings demo_results finding_cost demo_result_store (fst demo_capture) 0 1 (snd demo_capture) = (Inr page, w')
     \<and> fp_total page = 2 \<and> 0 < fp_next_offset page"
proof -
  obtain page w' where p: "result_findings demo_results finding_cost demo_result_store (fst demo_capture) 0 1 (snd demo_capture) = (Inr page, w')"
    and total: "fp_total page = 2"
    using demo_page by (auto split: prod.splits sum.splits)
  have "\<forall>b d. rx_parse (rz_formats demo_results) b = Inr d \<longrightarrow> json_utf8 d"
    by (simp add: demo_results_def demo_formats_utf8)
  from findings_pages_advance [OF p _ this] total have "0 < fp_next_offset page" by fastforce
  with p total show ?thesis by blast
qed

end
