(* ===== verification/Problems.thy ===== *)
theory Problems
  imports Text_Encode Run_Registry
begin

text \<open>
  Diagnostics from the logs of runs (\<open>problems.rs\<close>): the filter that removes terminal control
  sequences, the bounded texts, and the incremental parser.  The regular expressions are those of
  the \<open>regex\<close> crate: what each captures on a line is a parameter.
\<close>

definition MAX_LINE :: nat where "MAX_LINE = 16384"
definition MAX_PROBLEMS :: nat where "MAX_PROBLEMS = 256"
definition MAX_RETAINED_TEXT :: nat where "MAX_RETAINED_TEXT = 524288"

section \<open>Control sequences\<close>

datatype escape = EscPlain | EscStart | EscIntermediate | EscCsi | EscOsc | EscOscTerminator | EscString
  | EscStringTerminator

record controls =
  ct_state :: escape
  ct_removed :: bool

definition new_controls :: controls where
  "new_controls = \<lparr>ct_state = EscPlain, ct_removed = False\<rparr>"

definition next_escape :: "escape \<Rightarrow> nat \<Rightarrow> escape" where
  "next_escape s b = (case s of
      EscPlain \<Rightarrow> if b = 27 then EscStart else EscPlain
    | EscStart \<Rightarrow> if b = 91 then EscCsi else if b = 93 then EscOsc
        else if b \<in> {80, 88, 94, 95} then EscString
        else if 32 \<le> b \<and> b \<le> 47 then EscIntermediate else if b = 27 then EscStart else EscPlain
    | EscIntermediate \<Rightarrow> if 48 \<le> b \<and> b \<le> 126 then EscPlain else EscIntermediate
    | EscCsi \<Rightarrow> if 64 \<le> b \<and> b \<le> 126 then EscPlain else if b = 27 then EscStart else EscCsi
    | EscOsc \<Rightarrow> if b = 7 then EscPlain else if b = 27 then EscOscTerminator else EscOsc
    | EscOscTerminator \<Rightarrow> if b = 92 then EscPlain else if b = 27 then EscOscTerminator else EscOsc
    | EscString \<Rightarrow> if b = 27 then EscStringTerminator else EscString
    | EscStringTerminator \<Rightarrow> if b = 92 then EscPlain else if b = 27 then EscStringTerminator else EscString)"

text \<open>Only plain bytes pass; a carriage return becomes a line end.\<close>

definition passes :: "nat \<Rightarrow> bool" where
  "passes b = (b = 10 \<or> b = 9 \<or> (32 \<le> b \<and> b \<le> 126) \<or> 128 \<le> b)"

definition consume :: "char \<Rightarrow> controls \<Rightarrow> char option \<times> controls" where
  "consume c t = (let b = of_char c in
    if ct_state t = EscPlain then
      (if b = 13 then (Some (CHR 0x0A), t) else if passes b then (Some c, t)
       else (None, t\<lparr>ct_state := next_escape EscPlain b, ct_removed := True\<rparr>))
    else (None, t\<lparr>ct_state := next_escape (ct_state t) b\<rparr>))"

fun plain_bytes :: "controls \<Rightarrow> string \<Rightarrow> string" where
  "plain_bytes t [] = []"
| "plain_bytes t (c # cs) = (case consume c t of
     (None, t') \<Rightarrow> plain_bytes t' cs | (Some d, t') \<Rightarrow> d # plain_bytes t' cs)"

section \<open>Bounded text\<close>

text \<open>\<open>String::from_utf8_lossy\<close>: each maximal broken prefix of a sequence becomes U+FFFD.\<close>

function lossy_codes :: "nat list \<Rightarrow> nat list" where
  "lossy_codes [] = []"
| "lossy_codes (b # bs) = (case utf8_first (b # bs) of
     Decoded c n \<Rightarrow> c # lossy_codes (drop (n - 1) bs)
   | Invalid n \<Rightarrow> 65533 # lossy_codes (drop (n - 1) bs)
   | Incomplete \<Rightarrow> [65533])"
  by pat_completeness auto
termination by (relation "measure length") auto

definition forbidden_character :: "nat \<Rightarrow> bool" where
  "forbidden_character c = ((is_control c \<and> c \<noteq> 10 \<and> c \<noteq> 9)
     \<or> (8234 \<le> c \<and> c \<le> 8238) \<or> (8294 \<le> c \<and> c \<le> 8297))"

definition safe_utf8 :: "string \<Rightarrow> nat \<Rightarrow> string" where
  "safe_utf8 bytes maximum =
    take_text maximum (filter (\<lambda>c. \<not> forbidden_character c) (lossy_codes (bytes_of bytes)))"

definition display_text :: "string \<Rightarrow> nat \<Rightarrow> string" where
  "display_text bytes maximum = safe_utf8 (take (min (maximum * 4) u64_max) (plain_bytes new_controls bytes)) maximum"

section \<open>Problems\<close>

datatype severity = SevError | SevWarning | SevNote

record source_range =
  sg_line :: nat
  sg_column :: "nat option"

record problem =
  pm_id :: string
  pm_run_id :: string
  pm_project_id :: string
  pm_file :: "path option"
  pm_range :: "source_range option"
  pm_severity :: severity
  pm_message :: string
  pm_details :: "string list"
  pm_log_offset :: nat
  pm_log_generation :: nat
  pm_source_generation :: "64 word option"

record problem_set =
  pq_run_id :: string
  pq_project_id :: string
  pq_definition_revision :: nat
  pq_source_generation :: "64 word option"
  pq_source_changed :: "bool option"
  pq_log_generation :: nat
  pq_parsed_bytes :: nat
  pq_problems :: "problem list"
  pq_limited :: bool
  pq_partial :: bool
  pq_control_sequences_removed :: bool

definition problem_count :: "problem_set \<Rightarrow> severity \<Rightarrow> nat" where
  "problem_count s v = length (filter (\<lambda>p. pm_severity p = v) (pq_problems s))"

text \<open>The named groups of each expression, by expression.\<close>

record captures =
  cg_compiler :: "string \<Rightarrow> (string \<times> string \<times> string option \<times> string \<times> string) option"
  cg_cmake :: "string \<Rightarrow> (string \<times> string \<times> string \<times> string) option"
  cg_make :: "string \<Rightarrow> (string \<times> string \<times> string) option"
  cg_pytest :: "string \<Rightarrow> (string \<times> string \<times> string) option"
  cg_python_frame :: "string \<Rightarrow> (string \<times> string) option"
  cg_python_error :: "string \<Rightarrow> bool"
  cg_uic_error :: "string \<Rightarrow> (string \<times> string option \<times> string) option"
  cg_uic_file :: "string \<Rightarrow> string option"

record grammar =
  gr_captures :: captures
  gr_sha :: "string \<Rightarrow> string"

record problem_parser =
  pp_result :: problem_set
  pp_line :: string
  pp_line_offset :: nat
  pp_next_offset :: nat
  pp_line_limited :: bool
  pp_line_ambiguous :: bool
  pp_controls :: controls
  pp_retained :: nat
  pp_last_problem :: "nat option"
  pp_python_frame :: "(path \<times> nat \<times> nat) option"
  pp_uic_error :: "(nat \<times> nat option \<times> string \<times> nat) option"

definition new_parser :: "run_info \<Rightarrow> problem_parser" where
  "new_parser r = \<lparr>pp_result = \<lparr>pq_run_id = ri_run_id r, pq_project_id = ri_project_id r,
       pq_definition_revision = ri_definition_revision r, pq_source_generation = so_generation (ri_source_start r),
       pq_source_changed = ri_source_changed r, pq_log_generation = ld_generation (ri_log r), pq_parsed_bytes = 0,
       pq_problems = [], pq_limited = False, pq_partial = False, pq_control_sequences_removed = False\<rparr>,
     pp_line = [], pp_line_offset = 0, pp_next_offset = 0, pp_line_limited = False, pp_line_ambiguous = False,
     pp_controls = new_controls, pp_retained = 0, pp_last_problem = None, pp_python_frame = None, pp_uic_error = None\<rparr>"

definition position_number :: "string \<Rightarrow> nat option" where
  "position_number t = (case parse_unsigned 4294967295 (chars t) of Inl _ \<Rightarrow> None
     | Inr n \<Rightarrow> if 0 < n \<and> n \<le> 1000000000 then Some n else None)"

definition unquote_name :: "string \<Rightarrow> string" where
  "unquote_name t = (if t \<noteq> [] \<and> hd t = CHR 0x22 \<and> tl t \<noteq> [] \<and> List.last t = CHR 0x22 then butlast (tl t) else t)"

definition le64 :: "nat \<Rightarrow> string" where
  "le64 n = map (\<lambda>i. char_of (n div 256 ^ i)) [0..<8]"

definition problem_id :: "grammar \<Rightarrow> problem_set \<Rightarrow> nat \<Rightarrow> string \<Rightarrow> string" where
  "problem_id g s offset message = gr_sha g (concat (map (\<lambda>f. le64 (length f) @ f)
     [pq_run_id s, le64 (pq_log_generation s), le64 offset, message]))"

definition add_problem :: "grammar \<Rightarrow> path option \<Rightarrow> source_range option \<Rightarrow> severity \<Rightarrow> string \<Rightarrow> nat
    \<Rightarrow> problem_parser \<Rightarrow> problem_parser" where
  "add_problem g file place sev message offset p =
    (let message = safe_utf8 message 2048;
         file = (case file of None \<Rightarrow> None | Some f \<Rightarrow> if length f \<le> 4096 then Some f else None);
         cost = length message + (case file of None \<Rightarrow> 0 | Some f \<Rightarrow> length f);
         s = pp_result p in
     if MAX_PROBLEMS \<le> length (pq_problems s) \<or> MAX_RETAINED_TEXT < pp_retained p + cost
     then p\<lparr>pp_result := s\<lparr>pq_limited := True\<rparr>, pp_last_problem := None\<rparr>
     else p\<lparr>pp_result := s\<lparr>pq_problems := pq_problems s @ [\<lparr>pm_id = problem_id g s offset message,
         pm_run_id = pq_run_id s, pm_project_id = pq_project_id s, pm_file = file, pm_range = place,
         pm_severity = sev, pm_message = message, pm_details = [], pm_log_offset = offset,
         pm_log_generation = pq_log_generation s, pm_source_generation = pq_source_generation s\<rparr>]\<rparr>,
       pp_retained := pp_retained p + cost, pp_last_problem := Some (length (pq_problems s))\<rparr>)"

definition at_line :: "nat \<Rightarrow> source_range" where
  "at_line n = \<lparr>sg_line = n, sg_column = None\<rparr>"

section \<open>One line\<close>

text \<open>Each rule in turn; the first that applies decides.\<close>

definition rule_compiler :: "grammar \<Rightarrow> string \<Rightarrow> problem_parser \<Rightarrow> problem_parser option" where
  "rule_compiler g line p =
    Option.bind (cg_compiler (gr_captures g) line) (\<lambda>(file, number, column, sev, message).
    Option.bind (position_number number) (\<lambda>n.
    Some (add_problem g (Some (unquote_name file))
      (Some \<lparr>sg_line = n, sg_column = Option.bind column position_number\<rparr>)
      (let l = map lower_code (bytes_of sev) in if l = bytes_of ''warning'' then SevWarning
       else if l = bytes_of ''note'' then SevNote else SevError)
      message (pp_line_offset p) p)))"

definition rule_cmake :: "grammar \<Rightarrow> string \<Rightarrow> problem_parser \<Rightarrow> problem_parser option" where
  "rule_cmake g line p =
    Option.bind (cg_cmake (gr_captures g) line) (\<lambda>(sev, file, number, command).
    Option.bind (position_number number) (\<lambda>n.
    Some (add_problem g (Some file) (Some (at_line n))
      (if prefix ''Warning'' sev then SevWarning else SevError)
      (''CMake '' @ sev @ '' ('' @ command @ '')'') (pp_line_offset p) p)))"

definition rule_make :: "grammar \<Rightarrow> string \<Rightarrow> problem_parser \<Rightarrow> problem_parser option" where
  "rule_make g line p =
    Option.bind (cg_make (gr_captures g) line) (\<lambda>(file, number, message).
    Some (add_problem g (Some file) (map_option at_line (position_number number)) SevError message
      (pp_line_offset p) p))"

definition rule_pytest :: "grammar \<Rightarrow> string \<Rightarrow> problem_parser \<Rightarrow> problem_parser option" where
  "rule_pytest g line p =
    Option.bind (cg_pytest (gr_captures g) line) (\<lambda>(file, number, message).
    Option.bind (position_number number) (\<lambda>n.
    Some (add_problem g (Some file) (Some (at_line n)) SevError message (pp_line_offset p) p)))"

definition rule_python_frame :: "grammar \<Rightarrow> string \<Rightarrow> problem_parser \<Rightarrow> problem_parser option" where
  "rule_python_frame g line p =
    Option.bind (cg_python_frame (gr_captures g) line) (\<lambda>(file, number).
    Some (p\<lparr>pp_python_frame := map_option (\<lambda>n. (file, n, pp_line_offset p)) (position_number number)\<rparr>))"

definition rule_traceback :: "string \<Rightarrow> problem_parser \<Rightarrow> problem_parser option" where
  "rule_traceback line p = (if prefix ''Traceback (most recent call last)'' line
     then Some (p\<lparr>pp_python_frame := None, pp_last_problem := None\<rparr>) else None)"

definition trim_text :: "string \<Rightarrow> string" where
  "trim_text s = concat (map utf8_encode (trim_codes (chars s)))"

definition rule_python_error :: "grammar \<Rightarrow> string \<Rightarrow> problem_parser \<Rightarrow> problem_parser option" where
  "rule_python_error g line p =
    (if \<not> cg_python_error (gr_captures g) (trim_text line) then None else
     Option.bind (pp_python_frame p) (\<lambda>(file, n, offset).
     Some (add_problem g (Some file) (Some (at_line n)) SevError (trim_text line) offset
       (p\<lparr>pp_python_frame := None\<rparr>))))"

definition rule_uic_error :: "grammar \<Rightarrow> string \<Rightarrow> problem_parser \<Rightarrow> problem_parser option" where
  "rule_uic_error g line p =
    Option.bind (cg_uic_error (gr_captures g) line) (\<lambda>(number, column, message).
    Some (p\<lparr>pp_uic_error := map_option (\<lambda>n. (n, Option.bind column position_number, message, pp_line_offset p))
      (position_number number)\<rparr>))"

definition rule_uic_file :: "grammar \<Rightarrow> string \<Rightarrow> problem_parser \<Rightarrow> problem_parser option" where
  "rule_uic_file g line p =
    Option.bind (cg_uic_file (gr_captures g) line) (\<lambda>file.
    Option.bind (pp_uic_error p) (\<lambda>(n, column, message, offset).
    Some (add_problem g (Some file) (Some \<lparr>sg_line = n, sg_column = column\<rparr>) SevError message offset
      (p\<lparr>pp_uic_error := None\<rparr>))))"

definition rule_general :: "grammar \<Rightarrow> string \<Rightarrow> problem_parser \<Rightarrow> problem_parser option" where
  "rule_general g line p = (if prefix ''Project ERROR:'' line \<or> prefix ''CMake Error:'' line
     then Some (add_problem g None None SevError line (pp_line_offset p) p) else None)"

text \<open>A line that starts with a space belongs to the problem before it.\<close>

definition add_detail :: "nat \<Rightarrow> string \<Rightarrow> problem_parser \<Rightarrow> problem_parser" where
  "add_detail i line p = (let d = safe_utf8 line 512; s = pp_result p; q = pq_problems s ! i in
     if length (pm_details q) < 4 \<and> pp_retained p + length d \<le> MAX_RETAINED_TEXT
     then p\<lparr>pp_retained := pp_retained p + length d,
       pp_result := s\<lparr>pq_problems := (pq_problems s)[i := q\<lparr>pm_details := pm_details q @ [d]\<rparr>]\<rparr>\<rparr>
     else p\<lparr>pp_result := s\<lparr>pq_limited := True\<rparr>\<rparr>)"

definition rule_detail :: "string \<Rightarrow> problem_parser \<Rightarrow> problem_parser" where
  "rule_detail line p = (let cs = chars line in
     if cs \<noteq> [] \<and> is_whitespace (hd cs) \<and> \<not> trim_is_empty line then
       (case pp_last_problem p of None \<Rightarrow> p | Some i \<Rightarrow> add_detail i line p)
     else if \<not> trim_is_empty line then p\<lparr>pp_last_problem := None\<rparr> else p)"

fun first_rule :: "(problem_parser \<Rightarrow> problem_parser option) list \<Rightarrow> (problem_parser \<Rightarrow> problem_parser)
    \<Rightarrow> problem_parser \<Rightarrow> problem_parser" where
  "first_rule [] d p = d p"
| "first_rule (r # rs) d p = (case r p of Some q \<Rightarrow> q | None \<Rightarrow> first_rule rs d p)"

definition parse_line :: "grammar \<Rightarrow> string \<Rightarrow> problem_parser \<Rightarrow> problem_parser" where
  "parse_line g line = first_rule [rule_compiler g line, rule_cmake g line, rule_make g line, rule_pytest g line,
     rule_python_frame g line, rule_traceback line, rule_python_error g line, rule_uic_error g line,
     rule_uic_file g line, rule_general g line] (rule_detail line)"

section \<open>The stream\<close>

definition complete_line :: "grammar \<Rightarrow> problem_parser \<Rightarrow> problem_parser" where
  "complete_line g p0 =
    (let bytes = pp_line p0;
         hidden = (case to_str bytes of None \<Rightarrow> False | Some cs \<Rightarrow> list_ex forbidden_character cs);
         p = p0\<lparr>pp_line := [], pp_controls := (if hidden then (pp_controls p0)\<lparr>ct_removed := True\<rparr> else pp_controls p0)\<rparr> in
     if pp_line_limited p \<or> pp_line_ambiguous p \<or> hidden \<or> to_str bytes = None
     then p\<lparr>pp_result := (pp_result p)\<lparr>pq_partial := True\<rparr>, pp_python_frame := None, pp_uic_error := None,
       pp_last_problem := None, pp_line_limited := False, pp_line_ambiguous := False\<rparr>
     else (parse_line g (safe_utf8 bytes MAX_LINE) p)\<lparr>pp_line_limited := False\<rparr>)"

text \<open>One byte, with the log position after it: a control character outside a sequence makes the
  line ambiguous, then the filter decides.\<close>

definition mark_ambiguous :: "char \<Rightarrow> problem_parser \<Rightarrow> problem_parser" where
  "mark_ambiguous c p = (let b = (of_char c :: nat) in
    if ct_state (pp_controls p) = EscPlain \<and> (b < 32 \<or> b = 127) \<and> b \<notin> {10, 13, 9, 27}
    then p\<lparr>pp_line_ambiguous := True\<rparr> else p)"

definition take_byte :: "grammar \<Rightarrow> nat \<Rightarrow> char \<Rightarrow> problem_parser \<Rightarrow> problem_parser" where
  "take_byte g stop c p = (case consume c (pp_controls p) of
      (None, t) \<Rightarrow> p\<lparr>pp_controls := t\<rparr>
    | (Some d, t) \<Rightarrow>
        (let p = p\<lparr>pp_controls := t\<rparr> in
         if d = CHR 0x0A then (complete_line g p)\<lparr>pp_line_offset := stop\<rparr>
         else if length (pp_line p) < MAX_LINE then p\<lparr>pp_line := pp_line p @ [d]\<rparr>
         else p\<lparr>pp_line_limited := True, pp_result := (pp_result p)\<lparr>pq_limited := True\<rparr>\<rparr>))"

definition push_byte :: "grammar \<Rightarrow> nat \<times> char \<Rightarrow> problem_parser \<Rightarrow> problem_parser" where
  "push_byte g ec p = (case ec of (stop, c) \<Rightarrow> take_byte g stop c (mark_ambiguous c p))"

definition parse_data :: "grammar \<Rightarrow> log_chunk \<Rightarrow> problem_parser \<Rightarrow> problem_parser" where
  "parse_data g k p = (let q = fold (push_byte g) (enumerate (Suc (lc_offset k)) (lc_data k)) p in
     q\<lparr>pp_next_offset := lc_next_offset k, pp_result := (pp_result q)\<lparr>pq_parsed_bytes := lc_next_offset k\<rparr>\<rparr>)"

text \<open>The data of a chunk after the base64 decoding; its encoded length is checked.\<close>

definition push_chunk :: "grammar \<Rightarrow> log_chunk \<Rightarrow> (problem_parser, unit) op" where
  "push_chunk g k p =
    (if \<not> (ld_run_id (lc_descriptor k) = pq_run_id (pp_result p)
        \<and> ld_generation (lc_descriptor k) = pq_log_generation (pp_result p))
     then (Inl (Bail ''log belongs to another run or generation; start a new diagnostic parser''), p)
     else if lc_offset k \<noteq> pp_next_offset p
     then (Inl (Bail ''log has a gap or repeated chunk; diagnostics were not combined''), p)
     else if 131072 < 4 * ((length (lc_data k) + 2) div 3)
     then (Inl (Bail ''diagnostic input chunk exceeds bound''), p)
     else if checked_add (lc_offset k) (length (lc_data k)) \<noteq> Some (lc_next_offset k)
        \<or> ld_bytes (lc_descriptor k) < lc_next_offset k
     then (Inl (Bail ''invalid raw log position''), p)
     else (Inr (), parse_data g k p))"

definition finish_problems :: "grammar \<Rightarrow> log_descriptor \<Rightarrow> problem_parser \<Rightarrow> problem_set res" where
  "finish_problems g d p =
    ensure (ld_run_id d = pq_run_id (pp_result p) \<and> ld_generation d = pq_log_generation (pp_result p))
      ''log changed while diagnostics were collected''
    (let q = complete_line g p; s = pp_result q in
     Inr (s\<lparr>pq_partial := (pq_partial s \<or> pp_next_offset q < ld_bytes d \<or> ct_state (pp_controls q) \<noteq> EscPlain
          \<or> ld_state d \<in> {LDisabled, LRecording, LWriteFailed, LExpired, LPartial}),
       pq_limited := (pq_limited s \<or> ld_state d = LLimited \<or> ld_bytes d < ld_observed_bytes d),
       pq_control_sequences_removed := ct_removed (pp_controls q)\<rparr>))"

end
