(* ===== verification/Discovery.thy ===== *)
theory Discovery
  imports Run_Registry Result_Format Text_Encode
begin

text \<open>
  Read-only discovery (\<open>discovery.rs\<close>): task candidates from manifests, the executable a program
  name selects, artifact snapshots, the bounded version check of an optional tool with the cleanup
  of its session, and the task drafts made for it.  What one call of the operating system answers
  is part of the arguments, so that files and processes may change between calls.
\<close>

definition MAX_MANIFEST :: nat where "MAX_MANIFEST = 1048576"
definition MAX_CANDIDATES :: nat where "MAX_CANDIDATES = 128"
definition MAX_ARTIFACT_BYTES :: nat where "MAX_ARTIFACT_BYTES = 1073741824"

section \<open>Files\<close>

definition identity_of :: "file_meta \<Rightarrow> file_identity" where
  "identity_of m = \<lparr>fk_device = fst (fm_identity m), fk_inode = snd (fm_identity m), fk_size = fm_len m,
     fk_times = fm_times m\<rparr>"

text \<open>An opened file: its metadata, what the reads return, its metadata and the path's afterwards.\<close>

record file_reading =
  rd_before :: file_meta
  rd_link :: "file_meta res"
  rd_chunks :: "string res list"
  rd_after :: "file_meta res"
  rd_link_after :: "file_meta res"

record probe =
  pv_os :: os
  pv_access :: "path \<Rightarrow> bool"
  pv_read :: "path \<Rightarrow> file_reading res"
  pv_uid :: nat
  pv_toml_tables :: "string \<Rightarrow> bool option"
  pv_json :: "string \<Rightarrow> json_value res"
  pv_new_id :: "string \<Rightarrow> string"

text \<open>Reading up to \<open>n\<close> bytes; an empty read is the end of the file.\<close>

fun read_up_to :: "nat \<Rightarrow> string res list \<Rightarrow> string res" where
  "read_up_to n [] = Inr []"
| "read_up_to n (Inl e # rs) = Inl e"
| "read_up_to n (Inr c # rs) = (if n = 0 \<or> c = [] then Inr []
     else and_then (read_up_to (n - length c) rs) (\<lambda>b. Inr (take n c @ b)))"

definition same_identity :: "file_meta \<Rightarrow> file_meta res \<Rightarrow> string \<Rightarrow> unit res" where
  "same_identity m r e = and_then r (\<lambda>a. ensure (identity_of m = identity_of a) e (Inr ()))"

definition read_manifest :: "probe \<Rightarrow> path \<Rightarrow> string option res" where
  "read_manifest pv p = (case pv_read pv p of
      Inl e \<Rightarrow> if e = NotFound then Inr None else Inl e
    | Inr r \<Rightarrow>
      ensure (fm_is_file (rd_before r) \<and> fm_len (rd_before r) \<le> MAX_MANIFEST)
        ''manifest must be an ordinary file of at most 1 MiB''
      (and_then (read_up_to (MAX_MANIFEST + 1) (rd_chunks r)) (\<lambda>bytes.
       ensure (length bytes = fm_len (rd_before r)) ''manifest changed while reading''
       (and_then (same_identity (rd_before r) (rd_after r) ''manifest changed while reading'') (\<lambda>_.
        and_then (same_identity (rd_before r) (rd_link_after r) ''manifest changed while reading'') (\<lambda>_.
        Inr (Some bytes)))))))"

section \<open>Programs\<close>

definition program_candidates :: "string \<Rightarrow> path \<Rightarrow> environment \<Rightarrow> path list" where
  "program_candidates program cwd env =
    (if is_absolute program then [program]
     else if CHR ''/'' \<in> set program then [join_path cwd program]
     else (case map_of env ''PATH'' of None \<Rightarrow> []
       | Some search \<Rightarrow> map (\<lambda>entry. if is_absolute entry then join_path entry program
           else join_path (join_path cwd entry) program) (split_on (CHR '':'') search)))"

definition runnable :: "probe \<Rightarrow> path \<Rightarrow> bool" where
  "runnable pv p = (case os_metadata (pv_os pv) p of Inl _ \<Rightarrow> False
     | Inr m \<Rightarrow> fm_is_file m \<and> Bit_Operations.and (fm_mode m) 73 \<noteq> 0 \<and> pv_access pv p)"

definition resolve_program :: "probe \<Rightarrow> string \<Rightarrow> path \<Rightarrow> environment \<Rightarrow> path res" where
  "resolve_program pv program cwd env =
    ensure (program \<noteq> [] \<and> nul \<notin> set program) ''empty or invalid executable''
    (case find (runnable pv) (program_candidates program cwd env) of
       None \<Rightarrow> Inl (Bail (''selected executable is unavailable: '' @ program))
     | Some p \<Rightarrow> with_context (os_canonicalize (pv_os pv) p) ''resolve executable'')"

section \<open>Task candidates\<close>

record task_candidate =
  tc_name :: string
  tc_program :: string
  tc_resolved_program :: "path option"
  tc_args :: "string list"
  tc_cwd :: path
  tc_origin :: path
  tc_available :: bool
  tc_missing_tool :: "string option"

record discovery_report =
  dr_candidates :: "task_candidate list"
  dr_warnings :: "string list"

definition process_task :: "string \<Rightarrow> string \<Rightarrow> path \<Rightarrow> path \<Rightarrow> string list \<Rightarrow> task_definition" where
  "process_task i name cwd program args = \<lparr>ta_execution = Some (Process program args []), ta_id = i,
     ta_name = name, ta_command = [], ta_cwd = cwd, ta_sources = [], ta_artifact = None,
     ta_approved_digest = None, ta_steps = [], ta_failure_policy = StopOnFailure, ta_logging = RawLogging,
     ta_interactive = False, ta_build_outputs = [], ta_artifact_from_task = None, ta_timeout_seconds = None\<rparr>"

definition candidate_task :: "string \<Rightarrow> task_candidate \<Rightarrow> task_definition res" where
  "candidate_task i c =
    ensure (tc_available c) ''candidate tool is unavailable''
    (and_then (context_opt (tc_resolved_program c) ''candidate has no resolved executable'') (\<lambda>program.
     Inr (process_task i (tc_name c) (tc_cwd c) program (tc_args c))))"

definition candidate :: "probe \<Rightarrow> string \<Rightarrow> string \<Rightarrow> string list \<Rightarrow> path \<Rightarrow> path \<Rightarrow> environment \<Rightarrow> task_candidate" where
  "candidate pv name program args cwd origin env =
    (let resolved = ok_opt (resolve_program pv program cwd env) in
     \<lparr>tc_name = name, tc_program = program, tc_resolved_program = resolved, tc_args = args, tc_cwd = cwd,
       tc_origin = origin, tc_available = (resolved \<noteq> None),
       tc_missing_tool = (if resolved = None then Some program else None)\<rparr>)"

definition dr_add :: "task_candidate \<Rightarrow> discovery_report \<Rightarrow> discovery_report" where
  "dr_add c r = r\<lparr>dr_candidates := dr_candidates r @ [c]\<rparr>"

definition dr_warn :: "string \<Rightarrow> discovery_report \<Rightarrow> discovery_report" where
  "dr_warn m r = r\<lparr>dr_warnings := dr_warnings r @ [m]\<rparr>"

text \<open>\<open>pv_toml_tables\<close> is \<open>None\<close> on malformed TOML, else whether a package or workspace table is there.\<close>

definition discover_cargo :: "probe \<Rightarrow> path \<Rightarrow> environment \<Rightarrow> discovery_report \<Rightarrow> discovery_report" where
  "discover_cargo pv root env r =
    (let cargo = join_path root ''Cargo.toml'' in
     case read_manifest pv cargo of
       Inr (Some bytes) \<Rightarrow>
         if to_str bytes \<noteq> None \<and> pv_toml_tables pv bytes = Some True
         then fold (\<lambda>verb. dr_add (candidate pv (''cargo '' @ verb) ''cargo''
             [verb, ''--manifest-path'', ''Cargo.toml''] root cargo env)) [''build'', ''test''] r
         else dr_warn ''Cargo.toml is malformed or has no package/workspace table'' r
     | Inr None \<Rightarrow> r
     | Inl e \<Rightarrow> dr_warn (''Cargo.toml: '' @ error_text e) r)"

definition manager_of :: "json_value \<Rightarrow> string" where
  "manager_of d = (case get ''packageManager'' d of None \<Rightarrow> ''npm''
     | Some v \<Rightarrow> (case as_text v of None \<Rightarrow> [] | Some t \<Rightarrow> hd (split_on (CHR ''@'') t)))"

definition script_ok :: "string \<Rightarrow> string \<Rightarrow> json_value \<Rightarrow> bool" where
  "script_ok manager name script = (as_text script \<noteq> None \<and> name \<noteq> [] \<and> hd name \<noteq> CHR ''-''
     \<and> length name + length manager + 1 \<le> 100 \<and> \<not> has_control name)"

fun discover_scripts :: "probe \<Rightarrow> path \<Rightarrow> path \<Rightarrow> environment \<Rightarrow> string \<Rightarrow> (string \<times> json_value) list
    \<Rightarrow> discovery_report \<Rightarrow> discovery_report" where
  "discover_scripts pv root package env manager [] r = r"
| "discover_scripts pv root package env manager ((name, script) # rest) r =
    (if MAX_CANDIDATES \<le> length (dr_candidates r)
     then dr_warn ''task discovery reached the 128-candidate limit'' r
     else discover_scripts pv root package env manager rest
       (if script_ok manager name script
        then dr_add (candidate pv (manager @ '' '' @ name) manager [''run'', name] root package env) r
        else dr_warn ''package.json contains an unsupported script name/value'' r))"

definition discover_package :: "probe \<Rightarrow> path \<Rightarrow> environment \<Rightarrow> discovery_report \<Rightarrow> discovery_report" where
  "discover_package pv root env r =
    (let package = join_path root ''package.json'' in
     case read_manifest pv package of
       Inr (Some bytes) \<Rightarrow> (case pv_json pv bytes of
           Inl _ \<Rightarrow> dr_warn ''package.json is malformed JSON'' r
         | Inr d \<Rightarrow>
           if manager_of d \<notin> {''npm'', ''pnpm'', ''yarn''}
           then dr_warn ''package.json declares an unsupported package manager'' r
           else (case get ''scripts'' d of
               None \<Rightarrow> r
             | Some (JObject scripts) \<Rightarrow> discover_scripts pv root package env (manager_of d) scripts r
             | Some _ \<Rightarrow> dr_warn ''package.json scripts must be an object'' r))
     | Inr None \<Rightarrow> r
     | Inl e \<Rightarrow> dr_warn (''package.json: '' @ error_text e) r)"

definition is_directory :: "probe \<Rightarrow> path \<Rightarrow> bool" where
  "is_directory pv p = (case os_metadata (pv_os pv) p of Inl _ \<Rightarrow> False | Inr m \<Rightarrow> fm_is_dir m)"

definition is_plain_file :: "probe \<Rightarrow> path \<Rightarrow> bool" where
  "is_plain_file pv p = (case os_metadata (pv_os pv) p of Inl _ \<Rightarrow> False | Inr m \<Rightarrow> fm_is_file m)"

definition project_directory :: "probe \<Rightarrow> path \<Rightarrow> path res" where
  "project_directory pv root =
    and_then (with_context (os_canonicalize (pv_os pv) root) ''project directory unavailable'') (\<lambda>root.
    ensure (is_directory pv root) ''project root must be a directory'' (Inr root))"

definition discover_tasks :: "probe \<Rightarrow> path \<Rightarrow> environment \<Rightarrow> discovery_report res" where
  "discover_tasks pv root env =
    and_then (project_directory pv root) (\<lambda>root.
    Inr (discover_package pv root env (discover_cargo pv root env \<lparr>dr_candidates = [], dr_warnings = []\<rparr>)))"

section \<open>Artifact snapshots\<close>

text \<open>The loop of reads within the budget.\<close>

fun measure_reads :: "nat \<Rightarrow> string \<Rightarrow> string res list \<Rightarrow> string res" where
  "measure_reads budget acc [] = Inr acc"
| "measure_reads budget acc (Inl e # rs) = Inl e"
| "measure_reads budget acc (Inr c # rs) = (if c = [] then Inr acc
     else ensure (length acc + length c \<le> budget) ''artifact grew beyond measurement budget''
       (measure_reads budget (acc @ c) rs))"

definition snapshot_artifact :: "(string \<Rightarrow> string) \<Rightarrow> probe \<Rightarrow> path \<Rightarrow> nat \<Rightarrow> artifact_snapshot res" where
  "snapshot_artifact sha pv p budget =
    ensure (is_absolute p) ''artifact path must be absolute''
    (ensure (1 \<le> budget \<and> budget \<le> MAX_ARTIFACT_BYTES) ''artifact budget must be 1 byte to 1 GiB''
    (and_then (with_context (pv_read pv p) ''open registered artifact'') (\<lambda>r.
     ensure (fm_is_file (rd_before r)) ''artifact must be an ordinary file, not a link or device''
     (ensure (fm_len (rd_before r) \<le> budget) ''artifact exceeds measurement budget''
     (and_then (same_identity (rd_before r) (rd_link r) ''artifact path changed while opening'') (\<lambda>_.
      and_then (measure_reads budget [] (rd_chunks r)) (\<lambda>bytes.
      ensure (length bytes = fm_len (rd_before r)) ''artifact changed during measurement''
      (and_then (same_identity (rd_before r) (rd_after r) ''artifact changed during measurement'') (\<lambda>_.
       and_then (same_identity (rd_before r) (rd_link_after r) ''artifact changed during measurement'') (\<lambda>_.
       Inr \<lparr>as_path = p, as_sha256 = sha bytes, as_size = length bytes,
         as_identity = identity_of (rd_before r)\<rparr>))))))))))"

end
