(* ===== verification/Tool_Check.thy ===== *)
theory Tool_Check
  imports Discovery
begin

text \<open>
  Optional tools (\<open>discovery.rs\<close>): the bounded version check of a selected executable, the cleanup
  of the session it ran in, and the task draft made for an inspected tool.  The version process
  and the process table answer the calls; their answers are arguments, one record per turn of a
  loop.
\<close>

datatype optional_tool = Ici | Lens

definition tool_name :: "optional_tool \<Rightarrow> string" where
  "tool_name k = (case k of Ici \<Rightarrow> ''ici'' | Lens \<Rightarrow> ''lens'')"

record tool_inspection =
  ti_kind :: optional_tool
  ti_requested_path :: path
  ti_resolved_path :: "path option"
  ti_version :: "string option"
  ti_supported :: bool
  ti_reason :: "string option"
  ti_executable_identity :: "file_identity option"

section \<open>The output of the version check\<close>

text \<open>One turn: the clock, \<open>poll\<close>, a read when ready (\<open>None\<close>: would block), and \<open>waitid\<close>.\<close>

record version_turn =
  vt_late :: bool
  vt_poll :: "error option"
  vt_ready :: bool
  vt_read :: "string res option"
  vt_wait :: "unit res"
  vt_exit :: "(bool \<times> int) option"

definition read_turn :: "string \<Rightarrow> bool \<Rightarrow> version_turn \<Rightarrow> (string \<times> bool) res" where
  "read_turn bytes eof t =
    (if eof \<or> \<not> vt_ready t then Inr (bytes, eof) else
     (case vt_read t of
        None \<Rightarrow> Inr (bytes, eof)
      | Some (Inl e) \<Rightarrow> Inl e
      | Some (Inr c) \<Rightarrow> if c = [] then Inr (bytes, True)
          else ensure (length bytes + length c \<le> 8192) ''optional tool version output exceeds 8 KiB''
            (Inr (bytes @ c, eof))))"

fun version_loop :: "string \<Rightarrow> bool \<Rightarrow> version_turn list \<Rightarrow> string res option" where
  "version_loop bytes eof [] = None"
| "version_loop bytes eof (t # ts) =
    (if vt_late t then Some (Inl (Bail ''optional tool version check timed out''))
     else (case vt_poll t of Some e \<Rightarrow> Some (Inl e) | None \<Rightarrow>
       (case read_turn bytes eof t of
          Inl e \<Rightarrow> Some (Inl e)
        | Inr (bytes', eof') \<Rightarrow>
          (case vt_wait t of Inl e \<Rightarrow> Some (Inl e) | Inr _ \<Rightarrow>
            (case vt_exit t of
               Some (exited, status) \<Rightarrow> if eof'
                 then Some (ensure (exited \<and> status = 0) ''optional tool version check failed''
                   (ensure (to_str bytes' \<noteq> None) ''optional tool version is not UTF-8'' (Inr bytes')))
                 else version_loop bytes' eof' ts
             | None \<Rightarrow> version_loop bytes' eof' ts)))))"

section \<open>Cleaning up its session\<close>

text \<open>One entry of \<open>/proc\<close> and what the calls on it answer; \<open>CallGone\<close> is \<open>ESRCH\<close>.\<close>

datatype process_call = CallDone | CallGone | CallFailed string

record proc_entry =
  px_name :: string
  px_stat :: "string res"
  px_pidfd :: process_call
  px_restat :: "string res"
  px_kill :: process_call

fun after_last :: "string \<Rightarrow> string \<Rightarrow> string option" where
  "after_last pat [] = None"
| "after_last pat (c # s) = (case after_last pat s of Some r \<Rightarrow> Some r
     | None \<Rightarrow> if prefix pat (c # s) then Some (drop (length pat) (c # s)) else None)"

definition stat_fields :: "string \<Rightarrow> string \<Rightarrow> nat list list res" where
  "stat_fields m s = and_then (context_opt (after_last '') '' s) m) (\<lambda>rest. Inr (split_whitespace (chars rest)))"

definition stat_session :: "string \<Rightarrow> nat list list \<Rightarrow> int res" where
  "stat_session m fs = and_then (context_opt (if length fs \<le> 3 then None else Some (fs ! 3)) m) (\<lambda>f.
     context_opt (parse_i32 f) ''invalid digit found in string'')"

definition entry_pid :: "proc_entry \<Rightarrow> int option" where
  "entry_pid x = Option.bind (to_str (px_name x)) parse_i32"

text \<open>The state of the cleanup is the processes it has signalled, also when it fails.\<close>

definition signal_entry :: "int \<Rightarrow> int \<Rightarrow> proc_entry \<Rightarrow> (int list, unit) op" where
  "signal_entry leader pid x = (case px_pidfd x of
      CallGone \<Rightarrow> op_return ()
    | CallFailed m \<Rightarrow> op_fail (Bail ''pin version child identity'')
    | CallDone \<Rightarrow> (case px_restat x of
        Inl e \<Rightarrow> if e = NotFound then op_return () else op_fail e
      | Inr s \<Rightarrow>
        op_try (op_lift (stat_fields ''invalid child identity'' s)) (\<lambda>fs.
        op_try (op_lift (stat_session ''missing child session'' fs)) (\<lambda>sid.
        if sid \<noteq> leader then op_return ()
        else op_try (op_modify (\<lambda>sent. sent @ [pid])) (\<lambda>_.
          (case px_kill x of CallFailed m \<Rightarrow> op_fail (Bail ''stop version child'') | _ \<Rightarrow> op_return ()))))))"

definition not_a_directory :: error where "not_a_directory = Os ''not a directory''"

text \<open>One entry; the result counts the remaining processes of the session.\<close>

definition clean_entry :: "int \<Rightarrow> nat \<Rightarrow> proc_entry \<Rightarrow> (int list, nat) op" where
  "clean_entry leader n x = (case entry_pid x of
      None \<Rightarrow> op_return n
    | Some pid \<Rightarrow> if pid = leader then op_return n else
      (case px_stat x of
         Inl e \<Rightarrow> if e = NotFound \<or> e = not_a_directory then op_return n
           else op_fail (Bail ''read version child session identity'')
       | Inr s \<Rightarrow>
         op_try (op_lift (stat_fields ''invalid process identity'' s)) (\<lambda>fs.
         op_try (op_lift (stat_session ''missing process session'' fs)) (\<lambda>session.
         if session \<noteq> leader then op_return n
         else if hd fs = [90] then op_return (n + 1)
         else op_try (signal_entry leader pid x) (\<lambda>_. op_return (n + 1))))))"

text \<open>The entries are read one after the other; one that cannot be read ends the cleanup there.\<close>

fun clean_entries :: "int \<Rightarrow> nat \<Rightarrow> proc_entry res list \<Rightarrow> (int list, nat) op" where
  "clean_entries leader n [] sent = (Inr n, sent)"
| "clean_entries leader n (Inl e # xs) sent = (Inl e, sent)"
| "clean_entries leader n (Inr x # xs) sent = (case clean_entry leader n x sent of
     (Inl e, sent') \<Rightarrow> (Inl e, sent') | (Inr m, sent') \<Rightarrow> clean_entries leader m xs sent')"

text \<open>The passes, each with its listing and whether the deadline has come after it.\<close>

fun session_loop :: "int \<Rightarrow> (proc_entry res list res \<times> bool) list \<Rightarrow> int list \<Rightarrow> unit res option \<times> int list" where
  "session_loop leader [] sent = (None, sent)"
| "session_loop leader ((listing, late) # passes) sent =
    (case with_context listing ''inspect version child session'' of
       Inl e \<Rightarrow> (Some (Inl e), sent)
     | Inr entries \<Rightarrow> (case clean_entries leader 0 entries sent of
         (Inl e, sent') \<Rightarrow> (Some (Inl e), sent')
       | (Inr remaining, sent') \<Rightarrow>
         if remaining = 0 then (Some (Inr ()), sent')
         else if late then (Some (Inl (Bail ''same-session version descendants remain'')), sent')
         else session_loop leader passes sent'))"

definition cleanup_session :: "int \<Rightarrow> int \<Rightarrow> (proc_entry res list res \<times> bool) list \<Rightarrow> unit res option \<times> int list" where
  "cleanup_session sid leader passes =
    (if sid \<noteq> leader then (Some (Inl (Bail ''version process session identity changed'')), [])
     else session_loop leader passes [])"

text \<open>The check: start, read, always clean up; the cleanup must be confirmed.  What killing and reaping the
  child answer afterwards is ignored.\<close>

record version_run =
  vr_start :: "int res"
  vr_setup :: "unit res"
  vr_turns :: "version_turn list"
  vr_session :: int
  vr_passes :: "(proc_entry res list res \<times> bool) list"

definition version_output :: "version_run \<Rightarrow> string res option" where
  "version_output v = (case with_context (vr_start v) ''start selected tool version check'' of
      Inl e \<Rightarrow> Some (Inl e)
    | Inr pid \<Rightarrow>
      Option.bind (case vr_setup v of Inl e \<Rightarrow> Some (Inl e) | Inr _ \<Rightarrow> version_loop [] False (vr_turns v)) (\<lambda>result.
      Option.bind (fst (cleanup_session (vr_session v) pid (vr_passes v))) (\<lambda>cleaned.
      Some (and_then (with_context cleaned ''optional tool version cleanup is unconfirmed'') (\<lambda>_. result)))))"

section \<open>Inspection\<close>

definition split_dots :: "nat list \<Rightarrow> nat list list" where
  "split_dots cs = foldr (\<lambda>c acc. if c = 46 then [] # acc else (c # hd acc) # tl acc) cs [[]]"

definition tool_minimum :: "optional_tool \<Rightarrow> nat" where
  "tool_minimum k = (case k of Ici \<Rightarrow> 13 | Lens \<Rightarrow> 10)"

definition utf8_text :: "nat list \<Rightarrow> string" where
  "utf8_text cs = concat (map utf8_encode cs)"

text \<open>The version word: the leading letters \<open>v\<close> are dropped; three numbers from the minimum on.\<close>

definition parse_release :: "string \<Rightarrow> nat list res" where
  "parse_release version = with_context (map_res (parse_unsigned 4294967295) (split_dots (chars version)))
     ''optional tool version is not a stable numeric release''"

definition set_reason :: "tool_inspection \<Rightarrow> 'a res \<Rightarrow> tool_inspection" where
  "set_reason i r = (case r of Inl e \<Rightarrow> i\<lparr>ti_reason := Some (error_text e)\<rparr> | Inr _ \<Rightarrow> i)"

definition judge_version :: "optional_tool \<Rightarrow> nat list \<Rightarrow> unit res" where
  "judge_version k parts = ensure (parts ! 0 = 0 \<and> tool_minimum k \<le> parts ! 1)
     ''unsupported optional tool version'' (Inr ())"

text \<open>What the selected executable is before its version is asked for.\<close>

definition select_tool :: "probe \<Rightarrow> path \<Rightarrow> (path \<times> file_meta) res" where
  "select_tool pv p =
    and_then (with_context (os_canonicalize (pv_os pv) p) ''selected optional tool is missing'') (\<lambda>resolved.
    and_then (os_metadata (pv_os pv) resolved) (\<lambda>m.
    ensure (fm_is_file m \<and> Bit_Operations.and (fm_mode m) 73 \<noteq> 0 \<and> pv_access pv resolved)
      ''selected optional tool is not executable'' (Inr (resolved, m))))"

definition check_output :: "optional_tool \<Rightarrow> path \<Rightarrow> probe \<Rightarrow> file_meta \<Rightarrow> string \<Rightarrow> (string \<times> nat list) res" where
  "check_output k resolved after m output =
    and_then (same_identity m (os_metadata (pv_os after) resolved) ''optional tool changed during version inspection'') (\<lambda>_.
    let ws = split_whitespace (chars output) in
    ensure (length ws = 2 \<and> utf8_text (ws ! 0) = tool_name k) ''unexpected optional tool version response''
    (let version = utf8_text (dropWhile (\<lambda>c. c = 118) (ws ! 1)) in
     and_then (parse_release version) (\<lambda>parts.
     ensure (length parts = 3) ''optional tool version must have major.minor.patch'' (Inr (version, parts)))))"

definition inspect_tool :: "optional_tool \<Rightarrow> path \<Rightarrow> probe \<Rightarrow> (path \<Rightarrow> string res) \<Rightarrow> probe \<Rightarrow> tool_inspection res" where
  "inspect_tool k p pv run after =
    ensure (is_absolute p) ''optional tool selection must be an absolute path''
    (let i = \<lparr>ti_kind = k, ti_requested_path = p, ti_resolved_path = None, ti_version = None,
        ti_supported = False, ti_reason = None, ti_executable_identity = None\<rparr> in
     Inr (case select_tool pv p of
        Inl e \<Rightarrow> set_reason i (Inl e :: unit res)
      | Inr (resolved, m) \<Rightarrow>
        (let i = i\<lparr>ti_resolved_path := Some resolved\<rparr> in
         case and_then (run resolved) (check_output k resolved after m) of
           Inl e \<Rightarrow> set_reason i (Inl e :: unit res)
         | Inr (version, parts) \<Rightarrow>
           (let i = i\<lparr>ti_version := Some version\<rparr> in
            case judge_version k parts of
              Inl e \<Rightarrow> set_reason i (Inl e :: unit res)
            | Inr _ \<Rightarrow> i\<lparr>ti_executable_identity := Some (identity_of m), ti_supported := True\<rparr>))))"

section \<open>Drafts\<close>

fun escape_quotes :: "string \<Rightarrow> string" where
  "escape_quotes [] = []"
| "escape_quotes (c # s) = (if c = CHR 0x27 then [CHR 0x27, CHR 0x5C, CHR 0x27, CHR 0x27] else [c]) @ escape_quotes s"

definition quote_arg :: "string \<Rightarrow> string res" where
  "quote_arg v = ensure (nul \<notin> set v) ''argument contains NUL'' (Inr (CHR 0x27 # escape_quotes v @ [CHR 0x27]))"

definition managed_argument :: "string \<Rightarrow> bool" where
  "managed_argument a = (a \<in> {''--result'', ''--events'', ''--format''}
     \<or> prefix ''--result='' a \<or> prefix ''--events='' a \<or> prefix ''--format='' a)"

definition default_arguments :: "optional_tool \<Rightarrow> probe \<Rightarrow> path \<Rightarrow> string list res" where
  "default_arguments k pv root = (case k of
      Ici \<Rightarrow> Inr [''analyze'']
    | Lens \<Rightarrow> (let database = join_path root ''compile_commands.json'' in
        ensure (is_plain_file pv database) ''choose Lens report arguments; no compile_commands.json was found''
        (ensure (to_str database \<noteq> None) ''compile database path is not UTF-8''
          (Inr [''build'', ''inspect'', database]))))"

definition report_arguments :: "optional_tool \<Rightarrow> string list \<Rightarrow> unit res" where
  "report_arguments k args =
    ensure (\<not> list_ex managed_argument args) ''result/events/format arguments are managed by the integration draft''
    (case k of
       Ici \<Rightarrow> ensure ((args \<noteq> [] \<and> hd args = ''analyze'') \<or> take 2 args = [''next'', ''verify''])
         ''ici integration supports analyze or next verify'' (Inr ())
     | Lens \<Rightarrow> ensure (args \<noteq> [] \<and> hd args \<in> {''build'', ''env'', ''abi'', ''test'', ''log'', ''sys'', ''trace'', ''net'', ''bundle''})
         ''select a finite Lens report command''
         (ensure (''--follow'' \<notin> set args) ''streaming Lens reports are not supported'' (Inr ())))"

fun join_words :: "string list \<Rightarrow> string" where
  "join_words [] = []"
| "join_words [w] = w"
| "join_words (w # ws) = w @ '' '' @ join_words ws"

definition script_ending :: "optional_tool \<Rightarrow> string" where
  "script_ending k = (let result = [CHR 0x22] @ ''${IDK_RESULT_PATH:?}'' @ [CHR 0x22] in case k of
      Ici \<Rightarrow> '' --result '' @ result @ '' --events '' @ [CHR 0x22] @ ''${IDK_EVENTS_PATH:?}'' @ [CHR 0x22]
    | Lens \<Rightarrow> '' > '' @ result)"

definition draft_script :: "optional_tool \<Rightarrow> path \<Rightarrow> string list \<Rightarrow> string res" where
  "draft_script k program args =
    ensure (to_str program \<noteq> None) ''tool path is not UTF-8''
    (and_then (quote_arg program) (\<lambda>p.
     and_then (map_res quote_arg args) (\<lambda>as.
     Inr (''exec '' @ join_words (p # (case k of Lens \<Rightarrow> [''--format'', ''envelope''] | Ici \<Rightarrow> []) @ as)
       @ script_ending k @ [CHR 0x0A]))))"

definition optional_task_draft :: "probe \<Rightarrow> tool_inspection \<Rightarrow> path \<Rightarrow> string list \<Rightarrow> task_definition res" where
  "optional_task_draft pv i root args =
    ensure (ti_supported i) ''optional tool is unavailable or unsupported; inspect a selected executable first''
    (and_then (context_opt (ti_resolved_path i) ''missing inspected executable'') (\<lambda>program.
     and_then (os_metadata (pv_os pv) program) (\<lambda>m.
     ensure (ti_executable_identity i = Some (identity_of m)) ''optional tool changed; repeat explicit version inspection''
     (and_then (project_directory pv root) (\<lambda>root.
      and_then (validate_execution_arguments args []) (\<lambda>_.
      and_then (if args = [] then default_arguments (ti_kind i) pv root else Inr args) (\<lambda>args.
      and_then (report_arguments (ti_kind i) args) (\<lambda>_.
      and_then (draft_script (ti_kind i) program args) (\<lambda>script.
      let task = process_task (pv_new_id pv []) (tool_name (ti_kind i) @ '' report'') root program [] in
      Inr (task\<lparr>ta_execution := Some (Script ''/bin/sh'' [] script [])\<rparr>))))))))))"

end
