(* ===== verification/Utf8_Facts.thy ===== *)
theory Utf8_Facts
  imports Tool_Check
begin

text \<open>
  UTF-8: decoding inverts the encoding of scalar values, and encoding inverts every successful
  decoding, so a Rust \<open>str\<close> and its characters determine each other.
\<close>

definition is_scalar :: "nat \<Rightarrow> bool" where
  "is_scalar c = (c < 55296 \<or> (57344 \<le> c \<and> c < 1114112))"

lemma bytes_of_append [simp]: "bytes_of (s @ t) = bytes_of s @ bytes_of t"
  by (simp add: bytes_of_def)

section \<open>Digits to the base 64\<close>

lemma digit_div: "(y :: nat) < 64 \<Longrightarrow> (x * 64 + y) div 64 = x"
  by simp

lemma digit_mod: "(y :: nat) < 64 \<Longrightarrow> (x * 64 + y) mod 64 = y"
  by simp

lemma div_powers: "(n :: nat) div 4096 = n div 64 div 64" "n div 262144 = n div 64 div 64 div 64"
  by (simp_all add: div_mult2_eq [symmetric])

lemma two_digits: "(n :: nat) = n div 64 * 64 + n mod 64"
  by simp

lemma digit_byte: "(of_char (char_of (128 + x mod 64 :: nat) :: char) :: nat) = 128 + x mod 64"
proof -
  have "x mod 64 < 64" by simp
  then have "128 + x mod 64 < 256" by linarith
  then show ?thesis by simp
qed

lemma lead_byte: "n < 256 \<Longrightarrow> (of_char (char_of (n :: nat) :: char) :: nat) = n"
  by simp

section \<open>Decoding after encoding\<close>

lemma encode_bytes_one: "c < 128 \<Longrightarrow> bytes_of (utf8_encode c) = [c]"
  by (simp add: utf8_encode_def bytes_of_def)

lemma encode_bytes_two:
  "128 \<le> c \<Longrightarrow> c < 2048 \<Longrightarrow> bytes_of (utf8_encode c) = [192 + c div 64, 128 + c mod 64]"
proof -
  assume c: "128 \<le> c" "c < 2048"
  then have "c div 64 < 32" by auto
  then have "192 + c div 64 < 256" by linarith
  with c show ?thesis by (simp add: utf8_encode_def bytes_of_def digit_byte lead_byte del: of_char_of)
qed

lemma encode_bytes_three:
  "2048 \<le> c \<Longrightarrow> c < 65536 \<Longrightarrow>
   bytes_of (utf8_encode c) = [224 + c div 4096, 128 + c div 64 mod 64, 128 + c mod 64]"
proof -
  assume c: "2048 \<le> c" "c < 65536"
  then have "c div 4096 < 16" by auto
  then have "224 + c div 4096 < 256" by linarith
  with c show ?thesis by (simp add: utf8_encode_def bytes_of_def digit_byte lead_byte del: of_char_of)
qed

lemma encode_bytes_four:
  "65536 \<le> c \<Longrightarrow> c < 1114112 \<Longrightarrow>
   bytes_of (utf8_encode c) = [240 + c div 262144, 128 + c div 4096 mod 64, 128 + c div 64 mod 64, 128 + c mod 64]"
proof -
  assume c: "65536 \<le> c" "c < 1114112"
  then have "c div 262144 < 5" by auto
  then have "240 + c div 262144 < 256" by linarith
  with c show ?thesis by (simp add: utf8_encode_def bytes_of_def digit_byte lead_byte del: of_char_of)
qed

lemma cont_digit: "utf8_cont (128 + x mod 64)"
proof -
  have "x mod 64 < 64" by simp
  then show ?thesis unfolding utf8_cont_def by linarith
qed

lemma three_digits:
  obtains x y z :: nat where "c = (x * 64 + y) * 64 + z" "y < 64" "z < 64"
  using that [of "c div 64 div 64" "c div 64 mod 64" "c mod 64"] by simp

lemma digits_of:
  assumes "(y :: nat) < 64" "z < 64"
  shows "((x * 64 + y) * 64 + z) div 4096 = x" "((x * 64 + y) * 64 + z) div 64 = x * 64 + y"
    "((x * 64 + y) * 64 + z) mod 64 = z" "(x * 64 + y) mod 64 = y"
  using assms by (simp_all only: div_powers digit_div digit_mod)

lemma decode_three:
  assumes "2048 \<le> c" "c < 65536" "is_scalar c"
  shows "utf8_decode (bytes_of (utf8_encode c) @ bs) = map_option (Cons c) (utf8_decode bs)"
proof -
  obtain x y z where c: "c = (x * 64 + y) * 64 + z" and d: "y < 64" "z < 64" by (rule three_digits)
  have "x < 16" using c d assms(1,2) by simp
  moreover have "32 \<le> y" if "x = 0" using c d assms that by simp
  moreover have "y < 32" if "x = 13" using c d assms that by (simp add: is_scalar_def)
  ultimately show ?thesis
    using d unfolding encode_bytes_three [OF assms(1,2)] unfolding c digits_of [OF d]
    by (simp add: utf8_cont_def ac_simps)
qed

lemma decode_four:
  assumes "65536 \<le> c" "c < 1114112"
  shows "utf8_decode (bytes_of (utf8_encode c) @ bs) = map_option (Cons c) (utf8_decode bs)"
proof -
  obtain v z w where c: "c = (v * 64 + z) * 64 + w" and d: "z < 64" "w < 64" by (rule three_digits)
  have v: "v = v div 64 * 64 + v mod 64" by simp
  obtain x y where xy: "v = x * 64 + y" "y < 64" by (rule that [OF v]) simp
  have "x < 5" using c d xy assms by simp
  moreover have "16 \<le> y" if "x = 0" using c d xy assms that by simp
  moreover have "y < 16" if "x = 4" using c d xy assms that by simp
  moreover have "c div 262144 = x" "c div 4096 mod 64 = y" "c div 64 mod 64 = z" "c mod 64 = w"
    unfolding c using d xy by (simp_all only: div_powers digit_div digit_mod)
  ultimately show ?thesis
    using d xy unfolding encode_bytes_four [OF assms] by (simp add: utf8_cont_def c ac_simps)
qed

lemma decode_encode_step:
  assumes "is_scalar c"
  shows "utf8_decode (bytes_of (utf8_encode c) @ bs) = map_option (Cons c) (utf8_decode bs)"
proof -
  consider (one) "c < 128" | (two) "128 \<le> c" "c < 2048" | (three) "2048 \<le> c" "c < 65536"
    | (four) "65536 \<le> c" "c < 1114112"
    using assms by (force simp: is_scalar_def)
  then show ?thesis
  proof cases
    case one
    then show ?thesis by (simp add: encode_bytes_one)
  next
    case two
    then have "2 \<le> c div 64" "c div 64 < 32" by auto
    with two show ?thesis by (simp add: encode_bytes_two cont_digit)
  next
    case three
    then show ?thesis using assms by (rule decode_three)
  next
    case four
    then show ?thesis by (rule decode_four)
  qed
qed

lemma to_str_text: "list_all is_scalar cs \<Longrightarrow> to_str (utf8_text cs) = Some cs"
  by (induction cs) (simp_all add: to_str_def utf8_text_def decode_encode_step bytes_of_def [of "[]"])

lemma chars_text: "list_all is_scalar cs \<Longrightarrow> chars (utf8_text cs) = cs"
  by (simp add: chars_def to_str_text)

section \<open>Encoding after decoding\<close>

lemma encode_two:
  assumes "194 \<le> b" "b < 224" "utf8_cont c"
  shows "utf8_encode ((b - 192) * 64 + (c - 128)) = [char_of b, char_of c]"
    and "is_scalar ((b - 192) * 64 + (c - 128))"
proof -
  obtain x y where n: "b = x + 192" "c = y + 128" "2 \<le> x" "x < 32" "y < 64"
  proof (rule that [of "b - 192" "c - 128"])
  qed (use assms in \<open>auto simp: utf8_cont_def\<close>)
  then show "utf8_encode ((b - 192) * 64 + (c - 128)) = [char_of b, char_of c]"
    by (simp add: utf8_encode_def digit_div digit_mod add.commute)
  from n show "is_scalar ((b - 192) * 64 + (c - 128))" by (simp add: is_scalar_def)
qed

lemma encode_three:
  assumes "224 \<le> b" "b < 240" "utf8_cont c" "utf8_cont d" "b = 224 \<longrightarrow> 160 \<le> c"
  shows "utf8_encode ((b - 224) * 4096 + (c - 128) * 64 + (d - 128)) = [char_of b, char_of c, char_of d]"
    and "b = 237 \<longrightarrow> c < 160 \<Longrightarrow> is_scalar ((b - 224) * 4096 + (c - 128) * 64 + (d - 128))"
proof -
  obtain x y z where n: "b = x + 224" "c = y + 128" "d = z + 128" and r: "x < 16" "y < 64" "z < 64" "x = 0 \<longrightarrow> 32 \<le> y"
  proof (rule that [of "b - 224" "c - 128" "d - 128"])
  qed (use assms in \<open>auto simp: utf8_cont_def\<close>)
  have e: "(b - 224) * 4096 + (c - 128) * 64 + (d - 128) = (x * 64 + y) * 64 + z" by (simp add: n)
  have "2048 \<le> (x * 64 + y) * 64 + z" using r by (cases "x = 0") simp_all
  moreover have "(x * 64 + y) * 64 + z < 65536" using r by simp
  ultimately show "utf8_encode ((b - 224) * 4096 + (c - 128) * 64 + (d - 128)) = [char_of b, char_of c, char_of d]"
    unfolding e utf8_encode_def digits_of [OF r(2,3)] by (simp add: n add.commute)
  show "is_scalar ((b - 224) * 4096 + (c - 128) * 64 + (d - 128))" if s: "b = 237 \<longrightarrow> c < 160"
  proof -
    from s n have "x = 13 \<longrightarrow> y < 32" by simp
    then consider "x < 13" | "x = 13" "y < 32" | "14 \<le> x" by linarith
    then show ?thesis using r unfolding e is_scalar_def by cases simp_all
  qed
qed

lemma encode_four:
  assumes "240 \<le> b" "b < 245" "utf8_cont c" "utf8_cont d" "utf8_cont e" "b = 240 \<longrightarrow> 144 \<le> c"
  shows "utf8_encode ((b - 240) * 262144 + (c - 128) * 4096 + (d - 128) * 64 + (e - 128))
      = [char_of b, char_of c, char_of d, char_of e]"
    and "b = 244 \<longrightarrow> c < 144 \<Longrightarrow> is_scalar ((b - 240) * 262144 + (c - 128) * 4096 + (d - 128) * 64 + (e - 128))"
proof -
  obtain x y z w where n: "b = x + 240" "c = y + 128" "d = z + 128" "e = w + 128"
    and r: "x < 5" "y < 64" "z < 64" "w < 64" "x = 0 \<longrightarrow> 16 \<le> y"
  proof (rule that [of "b - 240" "c - 128" "d - 128" "e - 128"])
  qed (use assms in \<open>auto simp: utf8_cont_def\<close>)
  let ?n = "((x * 64 + y) * 64 + z) * 64 + w"
  have e: "(b - 240) * 262144 + (c - 128) * 4096 + (d - 128) * 64 + (e - 128) = ?n" by (simp add: n)
  have big: "65536 \<le> ?n" using r by (cases "x = 0") simp_all
  have d: "?n div 262144 = x" "?n div 4096 mod 64 = y" "?n div 64 mod 64 = z" "?n mod 64 = w"
    using r by (simp_all only: div_powers digit_div digit_mod)
  show "utf8_encode ((b - 240) * 262144 + (c - 128) * 4096 + (d - 128) * 64 + (e - 128))
      = [char_of b, char_of c, char_of d, char_of e]"
    unfolding e utf8_encode_def d using big by (simp add: n add.commute)
  show "is_scalar ((b - 240) * 262144 + (c - 128) * 4096 + (d - 128) * 64 + (e - 128))" if s: "b = 244 \<longrightarrow> c < 144"
  proof -
    from s n have "x = 4 \<longrightarrow> y < 16" by simp
    moreover have "57344 \<le> ?n" using big by simp
    moreover have "?n < 1114112" if "x < 4" using that r by simp
    moreover have "?n < 1114112" if "x = 4" "y < 16" using that r by simp
    ultimately show ?thesis using r(1) unfolding e is_scalar_def by (cases "x = 4") auto
  qed
qed

lemma encode_one: "b < 128 \<Longrightarrow> utf8_encode b = [char_of b]" "b < 128 \<Longrightarrow> is_scalar b"
  by (simp_all add: utf8_encode_def is_scalar_def)

definition encodes :: "nat list \<Rightarrow> nat list \<Rightarrow> bool" where
  "encodes cs bs = (utf8_text cs = map char_of bs \<and> list_all is_scalar cs)"

lemma encodes_Cons:
  "utf8_encode c = map char_of b \<Longrightarrow> is_scalar c \<Longrightarrow> encodes cs bs \<Longrightarrow> encodes (c # cs) (b @ bs)"
  by (simp add: encodes_def utf8_text_def)

lemma encodes_steps:
  "b < 128 \<Longrightarrow> encodes cs bs \<Longrightarrow> encodes (b # cs) (b # bs)"
  "194 \<le> b \<Longrightarrow> b < 224 \<Longrightarrow> utf8_cont c \<Longrightarrow> encodes cs bs \<Longrightarrow>
   encodes (((b - 192) * 64 + (c - 128)) # cs) (b # c # bs)"
  "224 \<le> b \<Longrightarrow> b < 240 \<Longrightarrow> utf8_cont c \<Longrightarrow> utf8_cont d \<Longrightarrow> b = 224 \<longrightarrow> 160 \<le> c \<Longrightarrow> b = 237 \<longrightarrow> c < 160 \<Longrightarrow>
   encodes cs bs \<Longrightarrow> encodes (((b - 224) * 4096 + (c - 128) * 64 + (d - 128)) # cs) (b # c # d # bs)"
  "240 \<le> b \<Longrightarrow> b < 245 \<Longrightarrow> utf8_cont c \<Longrightarrow> utf8_cont d \<Longrightarrow> utf8_cont e \<Longrightarrow> b = 240 \<longrightarrow> 144 \<le> c \<Longrightarrow>
   b = 244 \<longrightarrow> c < 144 \<Longrightarrow> encodes cs bs \<Longrightarrow>
   encodes (((b - 240) * 262144 + (c - 128) * 4096 + (d - 128) * 64 + (e - 128)) # cs) (b # c # d # e # bs)"
  using encodes_Cons [of b "[b]" cs bs] encodes_Cons [of "(b - 192) * 64 + (c - 128)" "[b, c]" cs bs]
    encodes_Cons [of "(b - 224) * 4096 + (c - 128) * 64 + (d - 128)" "[b, c, d]" cs bs]
    encodes_Cons [of "(b - 240) * 262144 + (c - 128) * 4096 + (d - 128) * 64 + (e - 128)" "[b, c, d, e]" cs bs]
  by (simp_all only: encode_one encode_two encode_three encode_four list.map append_Cons append_Nil)

lemma decode_cases:
  assumes "utf8_decode (b # bs) = Some cs"
  obtains ds where "b < 128" "cs = b # ds" "utf8_decode bs = Some ds"
  | c rest ds where "194 \<le> b" "b < 224" "bs = c # rest" "utf8_cont c" "cs = ((b - 192) * 64 + (c - 128)) # ds"
      "utf8_decode rest = Some ds"
  | c d rest ds where "224 \<le> b" "b < 240" "bs = c # d # rest" "utf8_cont c" "utf8_cont d"
      "b = 224 \<longrightarrow> 160 \<le> c" "b = 237 \<longrightarrow> c < 160"
      "cs = ((b - 224) * 4096 + (c - 128) * 64 + (d - 128)) # ds" "utf8_decode rest = Some ds"
  | c d e rest ds where "240 \<le> b" "b < 245" "bs = c # d # e # rest" "utf8_cont c" "utf8_cont d" "utf8_cont e"
      "b = 240 \<longrightarrow> 144 \<le> c" "b = 244 \<longrightarrow> c < 144"
      "cs = ((b - 240) * 262144 + (c - 128) * 4096 + (d - 128) * 64 + (e - 128)) # ds" "utf8_decode rest = Some ds"
  using assms unfolding utf8_decode.simps
  by (simp only: map_option_eq_Some split: if_split_asm list.split_asm) blast+

lemma encode_decode: "utf8_decode bs = Some cs \<Longrightarrow> encodes cs bs"
proof (induction "length bs" arbitrary: bs cs rule: less_induct)
  case less
  show ?case
  proof (cases bs)
    case Nil
    with less.prems show ?thesis by (simp add: encodes_def utf8_text_def)
  next
    case (Cons b rest)
    from less.prems [unfolded Cons] show ?thesis
      by (cases rule: decode_cases) (use Cons less.hyps in \<open>simp_all add: encodes_steps del: One_nat_def\<close>)
  qed
qed

lemma text_of_str:
  assumes "to_str s = Some cs"
  shows "utf8_text cs = s" and "list_all is_scalar cs"
  using encode_decode [of "bytes_of s" cs] assms by (simp_all add: encodes_def to_str_def bytes_of_def comp_def)

end
