(* ===== verification/Problems_Safety.thy ===== *)
theory Problems_Safety
  imports Problems Utf8_Facts
begin

text \<open>
  What diagnostics can be relied on for: they are the same however the log was cut into chunks,
  bounded in number and size, UTF-8, and free of direction characters and of control characters but
  the tab and the line feed.
\<close>

section \<open>Chunks\<close>

fun push_chunks :: "grammar \<Rightarrow> log_chunk list \<Rightarrow> (problem_parser, unit) op" where
  "push_chunks g [] p = (Inr (), p)"
| "push_chunks g (k # ks) p = (case push_chunk g k p of
     (Inl e, q) \<Rightarrow> (Inl e, q) | (Inr _, q) \<Rightarrow> push_chunks g ks q)"

text \<open>The parser without its position, which the bytes in between neither read nor change.\<close>

definition placed :: "nat \<Rightarrow> problem_parser \<Rightarrow> problem_parser" where
  "placed n p = p\<lparr>pp_next_offset := n, pp_result := (pp_result p)\<lparr>pq_parsed_bytes := n\<rparr>\<rparr>"

lemma placed_simps [simp]:
  "pp_line (placed n p) = pp_line p" "pp_line_offset (placed n p) = pp_line_offset p"
  "pp_line_limited (placed n p) = pp_line_limited p" "pp_line_ambiguous (placed n p) = pp_line_ambiguous p"
  "pp_controls (placed n p) = pp_controls p" "pp_retained (placed n p) = pp_retained p"
  "pp_last_problem (placed n p) = pp_last_problem p" "pp_python_frame (placed n p) = pp_python_frame p"
  "pp_uic_error (placed n p) = pp_uic_error p" "pp_next_offset (placed n p) = n"
  "pp_result (placed n p) = (pp_result p)\<lparr>pq_parsed_bytes := n\<rparr>"
  by (simp_all add: placed_def)

lemma placed_placed [simp]: "placed n (placed m p) = placed n p"
  by (simp add: placed_def)

lemma placed_updates:
  "placed n (p\<lparr>pp_line := a\<rparr>) = (placed n p)\<lparr>pp_line := a\<rparr>"
  "placed n (p\<lparr>pp_line_offset := b\<rparr>) = (placed n p)\<lparr>pp_line_offset := b\<rparr>"
  "placed n (p\<lparr>pp_line_limited := c\<rparr>) = (placed n p)\<lparr>pp_line_limited := c\<rparr>"
  "placed n (p\<lparr>pp_line_ambiguous := c\<rparr>) = (placed n p)\<lparr>pp_line_ambiguous := c\<rparr>"
  "placed n (p\<lparr>pp_controls := d\<rparr>) = (placed n p)\<lparr>pp_controls := d\<rparr>"
  "placed n (p\<lparr>pp_last_problem := e\<rparr>) = (placed n p)\<lparr>pp_last_problem := e\<rparr>"
  "placed n (p\<lparr>pp_python_frame := f\<rparr>) = (placed n p)\<lparr>pp_python_frame := f\<rparr>"
  "placed n (p\<lparr>pp_uic_error := h\<rparr>) = (placed n p)\<lparr>pp_uic_error := h\<rparr>"
  "placed n (p\<lparr>pp_retained := b\<rparr>) = (placed n p)\<lparr>pp_retained := b\<rparr>"
  "placed n (p\<lparr>pp_result := s\<rparr>) = (placed n p)\<lparr>pp_result := s\<lparr>pq_parsed_bytes := n\<rparr>\<rparr>"
  by (simp_all add: placed_def)

lemma placed_add [simp]:
  "placed n (add_problem g f r v m k p) = add_problem g f r v m k (placed n p)"
  by (simp add: add_problem_def Let_def placed_updates problem_id_def)

lemma placed_detail [simp]: "placed n (add_detail i l p) = add_detail i l (placed n p)"
  by (simp add: add_detail_def Let_def placed_updates)

lemma placed_rules:
  "rule_compiler g l (placed n p) = map_option (placed n) (rule_compiler g l p)"
  "rule_cmake g l (placed n p) = map_option (placed n) (rule_cmake g l p)"
  "rule_make g l (placed n p) = map_option (placed n) (rule_make g l p)"
  "rule_pytest g l (placed n p) = map_option (placed n) (rule_pytest g l p)"
  "rule_python_frame g l (placed n p) = map_option (placed n) (rule_python_frame g l p)"
  "rule_traceback l (placed n p) = map_option (placed n) (rule_traceback l p)"
  "rule_python_error g l (placed n p) = map_option (placed n) (rule_python_error g l p)"
  "rule_uic_error g l (placed n p) = map_option (placed n) (rule_uic_error g l p)"
  "rule_uic_file g l (placed n p) = map_option (placed n) (rule_uic_file g l p)"
  "rule_general g l (placed n p) = map_option (placed n) (rule_general g l p)"
  by (auto simp: rule_compiler_def rule_cmake_def rule_make_def rule_pytest_def rule_python_frame_def
      rule_traceback_def rule_python_error_def rule_uic_error_def rule_uic_file_def rule_general_def
      placed_updates map_option_bind comp_def split: Option.bind_splits)

lemma placed_detail_rule: "rule_detail l (placed n p) = placed n (rule_detail l p)"
  by (simp add: rule_detail_def Let_def placed_updates split: option.splits)

lemma placed_first_rule:
  "(\<And>r. r \<in> set rs \<Longrightarrow> r (placed n p) = map_option (placed n) (r p)) \<Longrightarrow>
   d (placed n p) = placed n (d p) \<Longrightarrow> first_rule rs d (placed n p) = placed n (first_rule rs d p)"
proof (induction rs)
  case (Cons r rs)
  have "r (placed n p) = map_option (placed n) (r p)" by (rule Cons.prems(1)) simp
  with Cons show ?case by (cases "r p") simp_all
qed simp

lemma placed_parse: "parse_line g l (placed n p) = placed n (parse_line g l p)"
  unfolding parse_line_def by (rule placed_first_rule) (auto simp: placed_rules placed_detail_rule)

lemma same_controls: "p\<lparr>pp_line := l, pp_controls := pp_controls p\<rparr> = p\<lparr>pp_line := l\<rparr>"
  "(placed n p)\<lparr>pp_line := l, pp_controls := pp_controls p\<rparr> = (placed n p)\<lparr>pp_line := l\<rparr>"
  by (simp_all add: placed_def)

lemma placed_complete: "complete_line g (placed n p) = placed n (complete_line g p)"
  by (cases "to_str (pp_line p) = None \<or> list_ex forbidden_character (the (to_str (pp_line p)))")
    (auto simp: complete_line_def Let_def placed_updates placed_parse [symmetric] same_controls split: option.splits)

lemma late_position:
  "s\<lparr>pq_limited := a, pq_parsed_bytes := n\<rparr> = s\<lparr>pq_parsed_bytes := n, pq_limited := a\<rparr>"
  "s\<lparr>pq_partial := a, pq_parsed_bytes := n\<rparr> = s\<lparr>pq_parsed_bytes := n, pq_partial := a\<rparr>"
  by simp_all

lemma placed_mark: "mark_ambiguous c (placed n p) = placed n (mark_ambiguous c p)"
  by (auto simp: mark_ambiguous_def Let_def placed_updates)

lemma placed_take: "take_byte g stop c (placed n p) = placed n (take_byte g stop c p)"
proof -
  obtain d t where c: "consume c (pp_controls p) = (d, t)" by force
  show ?thesis
    by (cases d) (simp_all add: take_byte_def Let_def c placed_updates late_position placed_complete [symmetric])
qed

lemma placed_byte: "push_byte g x (placed n p) = placed n (push_byte g x p)"
  by (cases x) (simp add: push_byte_def placed_mark placed_take)

lemma placed_bytes: "fold (push_byte g) xs (placed n p) = placed n (fold (push_byte g) xs p)"
  by (induction xs arbitrary: p) (simp_all add: placed_byte)

lemma push_chunk_Inr:
  assumes "push_chunk g k p = (Inr u, q)"
  shows "q = placed (pp_next_offset p + length (lc_data k))
      (fold (push_byte g) (enumerate (Suc (pp_next_offset p)) (lc_data k)) p)"
  using assms by (auto simp: push_chunk_def parse_data_def checked_add_def placed_def Let_def split: if_splits)

lemma push_chunks_Inr:
  "push_chunks g ks p = (Inr u, q) \<Longrightarrow> ks \<noteq> [] \<Longrightarrow>
   q = placed (pp_next_offset p + length (concat (map lc_data ks)))
      (fold (push_byte g) (enumerate (Suc (pp_next_offset p)) (concat (map lc_data ks))) p)"
proof (induction ks arbitrary: p)
  case (Cons k ks)
  from Cons.prems(1) obtain v p' where k: "push_chunk g k p = (Inr v, p')" and rest: "push_chunks g ks p' = (Inr u, q)"
    by (auto split: prod.splits sum.splits)
  note p' = push_chunk_Inr [OF k]
  show ?case
  proof (cases "ks = []")
    case True
    with p' rest show ?thesis by simp
  next
    case False
    from Cons.IH [OF rest False] p' show ?thesis
      by (simp add: placed_bytes enumerate_append_eq add.assoc fold_append)
  qed
qed simp

lemma placed_new: "placed 0 (new_parser r) = new_parser r"
  by (simp add: placed_def new_parser_def)

lemma push_chunks_new:
  assumes "push_chunks g ks (new_parser r) = (Inr u, q)"
  shows "q = placed (length (concat (map lc_data ks)))
      (fold (push_byte g) (enumerate 1 (concat (map lc_data ks))) (new_parser r))"
proof (cases "ks = []")
  case True
  with assms show ?thesis by (auto simp: placed_new)
next
  case False
  have "pp_next_offset (new_parser r) = 0" by (simp add: new_parser_def)
  with push_chunks_Inr [OF assms False] show ?thesis by simp
qed

section \<open>Clean bounded text\<close>

text \<open>
  Text of at most so many bytes that is UTF-8 and whose characters are no direction character and
  no control character but the tab and the line feed.
\<close>

definition clean_text :: "nat \<Rightarrow> string \<Rightarrow> bool" where
  "clean_text n t = (length t \<le> n
     \<and> (\<exists>cs. to_str t = Some cs \<and> list_all (\<lambda>c. \<not> forbidden_character c) cs))"

text \<open>Whatever the bytes are, the lossy decoding gives scalar values.\<close>

lemma utf8_first_scalar: "utf8_first bs = Decoded c n \<Longrightarrow> is_scalar c"
  using encode_one(2) encode_two(2) encode_three(2) encode_four(2)
  by (cases bs) (auto simp: second_ok_def split: if_split_asm list.split_asm)

lemma lossy_scalar: "list_all is_scalar (lossy_codes bs)"
  by (induction bs rule: lossy_codes.induct)
    (auto simp: is_scalar_def [of 65533] dest: utf8_first_scalar split: utf8_step.splits simp del: utf8_first.simps)

lemma take_text_prefix:
  "length (take_text n cs) \<le> n \<and> (\<exists>k. take_text n cs = concat (map utf8_encode (take k cs)))"
proof (induction n cs rule: take_text.induct)
  case (2 n c cs)
  show ?case
  proof (cases "n < length (utf8_encode c)")
    case True
    then show ?thesis by (auto intro: exI [of _ 0])
  next
    case False
    with 2 obtain k where "length (take_text (n - length (utf8_encode c)) cs) \<le> n - length (utf8_encode c)"
      "take_text (n - length (utf8_encode c)) cs = concat (map utf8_encode (take k cs))" by blast
    with False show ?thesis by (auto intro!: exI [of _ "Suc k"])
  qed
qed simp

lemma safe_utf8_clean: "clean_text n (safe_utf8 b n)"
proof -
  let ?cs = "filter (\<lambda>c. \<not> forbidden_character c) (lossy_codes (bytes_of b))"
  from take_text_prefix [of n ?cs] obtain k where t: "length (take_text n ?cs) \<le> n"
    "take_text n ?cs = utf8_text (take k ?cs)" unfolding utf8_text_def by blast
  have "list_all is_scalar (take k ?cs)"
    using lossy_scalar [of "bytes_of b"] by (auto simp: list_all_iff dest: in_set_takeD)
  from to_str_text [OF this] have "to_str (take_text n ?cs) = Some (take k ?cs)" by (simp add: t(2))
  moreover have "list_all (\<lambda>c. \<not> forbidden_character c) (take k ?cs)"
    by (auto simp: list_all_iff dest: in_set_takeD)
  ultimately show ?thesis using t(1) unfolding clean_text_def safe_utf8_def by blast
qed

section \<open>Bounds\<close>

definition problem_cost :: "problem \<Rightarrow> nat" where
  "problem_cost q = length (pm_message q) + (case pm_file q of None \<Rightarrow> 0 | Some f \<Rightarrow> length f)
     + sum_list (map length (pm_details q))"

definition problem_bounded :: "problem \<Rightarrow> bool" where
  "problem_bounded q = (clean_text 2048 (pm_message q) \<and> length (pm_details q) \<le> 4
     \<and> list_all (clean_text 512) (pm_details q) \<and> (\<forall>f. pm_file q = Some f \<longrightarrow> length f \<le> 4096))"

definition problems_bounded :: "problem list \<Rightarrow> bool" where
  "problems_bounded qs = (length qs \<le> MAX_PROBLEMS \<and> sum_list (map problem_cost qs) \<le> MAX_RETAINED_TEXT
     \<and> list_all problem_bounded qs)"

definition parser_bounded :: "problem_parser \<Rightarrow> bool" where
  "parser_bounded p = (problems_bounded (pq_problems (pp_result p))
     \<and> pp_retained p = sum_list (map problem_cost (pq_problems (pp_result p)))
     \<and> (\<forall>i. pp_last_problem p = Some i \<longrightarrow> i < length (pq_problems (pp_result p)))
     \<and> length (pp_line p) \<le> MAX_LINE)"

text \<open>The invariant reads only the problems, what they retain, the last problem and the line.\<close>

lemma parser_bounded_updates [simp]:
  "parser_bounded (p\<lparr>pp_line_offset := n\<rparr>) = parser_bounded p"
  "parser_bounded (p\<lparr>pp_next_offset := n\<rparr>) = parser_bounded p"
  "parser_bounded (p\<lparr>pp_line_limited := b\<rparr>) = parser_bounded p"
  "parser_bounded (p\<lparr>pp_line_ambiguous := b\<rparr>) = parser_bounded p"
  "parser_bounded (p\<lparr>pp_controls := t\<rparr>) = parser_bounded p"
  "parser_bounded (p\<lparr>pp_python_frame := f\<rparr>) = parser_bounded p"
  "parser_bounded (p\<lparr>pp_uic_error := e\<rparr>) = parser_bounded p"
  "pq_problems s = pq_problems (pp_result p) \<Longrightarrow> parser_bounded (p\<lparr>pp_result := s\<rparr>) = parser_bounded p"
  by (simp_all add: parser_bounded_def)

lemma parser_bounded_resets:
  "parser_bounded p \<Longrightarrow> parser_bounded (p\<lparr>pp_last_problem := None\<rparr>)"
  "parser_bounded p \<Longrightarrow> length l \<le> MAX_LINE \<Longrightarrow> parser_bounded (p\<lparr>pp_line := l\<rparr>)"
  by (simp_all add: parser_bounded_def)

lemma add_problem_bounded:
  assumes "parser_bounded p"
  shows "parser_bounded (add_problem g f r v m k p)"
  using assms safe_utf8_clean [of 2048 m]
  by (auto simp: add_problem_def Let_def parser_bounded_def problems_bounded_def problem_bounded_def problem_cost_def
      split: option.splits)

lemma add_detail_bounded:
  assumes ok: "parser_bounded p" and i: "pp_last_problem p = Some i"
  shows "parser_bounded (add_detail i l p)"
proof -
  let ?qs = "pq_problems (pp_result p)" and ?d = "safe_utf8 l 512"
  let ?q = "(?qs ! i)\<lparr>pm_details := pm_details (?qs ! i) @ [?d]\<rparr>"
  from ok i have i: "i < length ?qs" by (simp add: parser_bounded_def)
  then have "?qs ! i \<in> set ?qs" by simp
  with ok have q: "problem_bounded (?qs ! i)" by (auto simp: parser_bounded_def problems_bounded_def list_all_iff)
  have cost: "sum_list (map problem_cost (?qs[i := ?q])) = sum_list (map problem_cost ?qs) + length ?d"
  proof -
    have split: "?qs = take i ?qs @ ?qs ! i # drop (Suc i) ?qs" using i by (simp add: id_take_nth_drop)
    have "sum_list (map problem_cost (?qs[i := ?q]))
        = sum_list (map problem_cost (take i ?qs)) + problem_cost ?q + sum_list (map problem_cost (drop (Suc i) ?qs))"
      using i by (simp add: upd_conv_take_nth_drop)
    also have "problem_cost ?q = problem_cost (?qs ! i) + length ?d" by (simp add: problem_cost_def)
    finally show ?thesis by (subst (2) split) simp
  qed
  from q safe_utf8_clean [of 512 l]
  have "problem_bounded ?q" if "length (pm_details (?qs ! i)) < 4"
    using that by (auto simp: problem_bounded_def)
  with ok cost show ?thesis
    by (auto simp: add_detail_def Let_def parser_bounded_def problems_bounded_def list_all_iff
        dest!: set_update_subset_insert [THEN subsetD])
qed

lemma rules_bounded:
  "parser_bounded p \<Longrightarrow> rule_compiler g l p = Some q \<Longrightarrow> parser_bounded q"
  "parser_bounded p \<Longrightarrow> rule_cmake g l p = Some q \<Longrightarrow> parser_bounded q"
  "parser_bounded p \<Longrightarrow> rule_make g l p = Some q \<Longrightarrow> parser_bounded q"
  "parser_bounded p \<Longrightarrow> rule_pytest g l p = Some q \<Longrightarrow> parser_bounded q"
  "parser_bounded p \<Longrightarrow> rule_uic_file g l p = Some q \<Longrightarrow> parser_bounded q"
  "parser_bounded p \<Longrightarrow> rule_python_error g l p = Some q \<Longrightarrow> parser_bounded q"
  "parser_bounded p \<Longrightarrow> rule_general g l p = Some q \<Longrightarrow> parser_bounded q"
  "parser_bounded p \<Longrightarrow> rule_python_frame g l p = Some q \<Longrightarrow> parser_bounded q"
  "parser_bounded p \<Longrightarrow> rule_uic_error g l p = Some q \<Longrightarrow> parser_bounded q"
  "parser_bounded p \<Longrightarrow> rule_traceback l p = Some q \<Longrightarrow> parser_bounded q"
  by (auto simp: rule_compiler_def rule_cmake_def rule_make_def rule_pytest_def rule_python_frame_def
      rule_traceback_def rule_python_error_def rule_uic_error_def rule_uic_file_def rule_general_def
      split: bind_splits if_splits intro!: add_problem_bounded parser_bounded_resets)

lemma detail_rule_bounded: "parser_bounded p \<Longrightarrow> parser_bounded (rule_detail l p)"
  by (auto simp: rule_detail_def Let_def intro: add_detail_bounded parser_bounded_resets split: option.splits)

lemma first_rule_bounded:
  "(\<And>r q. r \<in> set rs \<Longrightarrow> r p = Some q \<Longrightarrow> parser_bounded q) \<Longrightarrow> parser_bounded (d p) \<Longrightarrow>
   parser_bounded (first_rule rs d p)"
  by (induction rs) (auto split: option.splits)

lemma parse_bounded: "parser_bounded p \<Longrightarrow> parser_bounded (parse_line g l p)"
  unfolding parse_line_def by (rule first_rule_bounded) (auto intro: rules_bounded detail_rule_bounded)

lemma complete_bounded: "parser_bounded p \<Longrightarrow> parser_bounded (complete_line g p)"
  by (auto simp: complete_line_def Let_def intro!: parse_bounded parser_bounded_resets)

lemma byte_bounded: "parser_bounded p \<Longrightarrow> parser_bounded (push_byte g x p)"
  by (auto simp: push_byte_def take_byte_def mark_ambiguous_def Let_def intro!: complete_bounded
      parser_bounded_resets split: prod.splits option.splits)

lemma bytes_bounded: "parser_bounded p \<Longrightarrow> parser_bounded (fold (push_byte g) xs p)"
  by (induction xs arbitrary: p) (simp_all add: byte_bounded)

lemma new_bounded: "parser_bounded (new_parser r)"
  by (simp add: new_parser_def parser_bounded_def problems_bounded_def)

lemma placed_finish:
  assumes "push_chunks g ks (new_parser r) = (Inr u, p)"
  shows "pp_next_offset (complete_line g p) = length (concat (map lc_data ks))"
    and "pq_parsed_bytes (pp_result (complete_line g p)) = length (concat (map lc_data ks))"
  using push_chunks_new [OF assms] by (simp_all add: placed_complete)

section \<open>What can be relied on\<close>

text \<open>C33 (diagnostics_ignore_paging). However a log was cut into chunks, and however the cuts split its
  lines, characters and control sequences, the same bytes give the same diagnostics.\<close>

theorem diagnostics_ignore_paging:
  assumes "push_chunks g ks (new_parser r) = (Inr (), p)" "push_chunks g ls (new_parser r) = (Inr (), q)"
    and "concat (map lc_data ks) = concat (map lc_data ls)"
  shows "finish_problems g d p = finish_problems g d q"
  using push_chunks_new [OF assms(1)] push_chunks_new [OF assms(2)] assms(3) by simp

text \<open>C34 (problems_are_bounded). Whatever the log holds, its diagnostics are at most 256 problems that
  retain at most 512 KiB of text; each message has at most 2048 bytes and each of its at most four
  details 512, and both are valid UTF-8 without a direction character and without a control
  character other than the tab and the line feed.\<close>

theorem problems_are_bounded:
  assumes "push_chunks g ks (new_parser r) = (Inr (), p)" and "finish_problems g d p = Inr s"
  shows "problems_bounded (pq_problems s)"
proof -
  have "parser_bounded p"
    unfolding push_chunks_new [OF assms(1)] placed_def by (simp add: bytes_bounded new_bounded)
  from complete_bounded [OF this, of g] assms(2) show ?thesis
    by (auto simp: finish_problems_def Let_def parser_bounded_def ensure_def split: if_splits)
qed

text \<open>Diagnostics that are neither partial nor limited come from a log
  that is complete, that recorded all it observed, and whose every byte was parsed.\<close>

theorem plain_diagnostics_are_whole:
  assumes "push_chunks g ks (new_parser r) = (Inr (), p)" and "finish_problems g d p = Inr s"
    and "\<not> pq_partial s" and "\<not> pq_limited s"
  shows "ld_state d = LComplete \<and> ld_observed_bytes d \<le> ld_bytes d
    \<and> ld_bytes d \<le> length (concat (map lc_data ks)) \<and> pq_parsed_bytes s = length (concat (map lc_data ks))"
  using assms placed_finish [OF assms(1)]
  by (cases "ld_state d") (auto simp: finish_problems_def Let_def ensure_def split: if_splits)

section \<open>A log in two cuts\<close>

definition demo_grammar :: grammar where
  "demo_grammar = \<lparr>gr_captures = \<lparr>cg_compiler = (\<lambda>l. if l = ''a.c:3: error: bad''
        then Some (''a.c'', ''3'', None, ''error'', ''bad'') else None),
      cg_cmake = (\<lambda>_. None), cg_make = (\<lambda>_. None), cg_pytest = (\<lambda>_. None), cg_python_frame = (\<lambda>_. None),
      cg_python_error = (\<lambda>_. False), cg_uic_error = (\<lambda>_. None), cg_uic_file = (\<lambda>_. None)\<rparr>,
    gr_sha = (\<lambda>_. ''id'')\<rparr>"

definition demo_log_text :: string where
  "demo_log_text = ''a.c:3: '' @ [CHR 0x1B] @ ''[31merror: bad'' @ [CHR 0x0A] @ ''  here'' @ [CHR 0x0A]"

definition demo_log :: log_descriptor where
  "demo_log = \<lparr>ld_run_id = ''r1'', ld_generation = 1, ld_state = LComplete, ld_bytes = 30, ld_observed_bytes = 30,
     ld_limit_bytes = 4096, ld_merged_pty = True, ld_file_identity = None\<rparr>"

definition demo_empty_source :: source_observation where
  "demo_empty_source = \<lparr>so_identity = None, so_generation = None, so_git_head = None, so_dirty = None,
     so_status_digest = None, so_error = None\<rparr>"

definition demo_problem_run :: run_info where
  "demo_problem_run = \<lparr>ri_run_id = ''r1'', ri_operation_id = ''op'', ri_project_id = ''p1'', ri_task_id = ''t'',
     ri_name = ''build'', ri_session_id = None, ri_state = RSucceeded, ri_definition_revision = 1,
     ri_launch_digest = ''d'', ri_initialization_digest = ''d'', ri_cwd = ''/w'', ri_source_roots = [],
     ri_build_outputs = [], ri_started_at_ms = 1, ri_finished_at_ms = Some 2, ri_timeout_seconds = None,
     ri_timeout_requested = False, ri_cancel_requested = False, ri_cleanup_confirmed = True, ri_exit_code = Some 0,
     ri_signal = None, ri_steps = [], ri_structured_result = None, ri_pinned = False, ri_events = None,
     ri_source_start = demo_empty_source, ri_source_end = None, ri_source_changed = None, ri_artifact = \<lparr>ar_path = None, ar_from_task = None, ar_from_run = None,
       ar_verified_bytes = False, ar_snapshot = None, ar_snapshot_error = None, ar_observed_at_ms = None\<rparr>,
     ri_log = demo_log, ri_error = None\<rparr>"

definition demo_cut :: "nat \<Rightarrow> nat \<Rightarrow> log_chunk" where
  "demo_cut i j = \<lparr>lc_descriptor = demo_log, lc_offset = i, lc_next_offset = j,
     lc_data = take (j - i) (drop i demo_log_text), lc_eof = (j = 30)\<rparr>"

definition demo_parse :: "log_chunk list \<Rightarrow> problem_parser" where
  "demo_parse ks = snd (push_chunks demo_grammar ks (new_parser demo_problem_run))"

lemma demo_pushed:
  "fst (push_chunks demo_grammar [demo_cut 0 30] (new_parser demo_problem_run)) = Inr ()"
  "fst (push_chunks demo_grammar [demo_cut 0 9, demo_cut 9 30] (new_parser demo_problem_run)) = Inr ()"
  by code_simp+

lemma demo_parsed:
  assumes "fst (push_chunks demo_grammar ks (new_parser demo_problem_run)) = Inr ()"
  shows "push_chunks demo_grammar ks (new_parser demo_problem_run) = (Inr (), demo_parse ks)"
  using assms by (simp add: demo_parse_def prod_eq_iff)

theorem diagnostics_ignore_paging_witness:
  "finish_problems demo_grammar demo_log (demo_parse [demo_cut 0 30])
    = finish_problems demo_grammar demo_log (demo_parse [demo_cut 0 9, demo_cut 9 30])"
proof (rule diagnostics_ignore_paging [OF demo_parsed [OF demo_pushed(1)] demo_parsed [OF demo_pushed(2)]])
  show "concat (map lc_data [demo_cut 0 30]) = concat (map lc_data [demo_cut 0 9, demo_cut 9 30])" by code_simp
qed

lemma demo_finished:
  "(case finish_problems demo_grammar demo_log (demo_parse [demo_cut 0 9, demo_cut 9 30]) of
     Inr s \<Rightarrow> \<not> pq_partial s \<and> \<not> pq_limited s \<and> map pm_message (pq_problems s) = [''bad'']
       \<and> map pm_details (pq_problems s) = [[''  here'']] | _ \<Rightarrow> False)"
  by code_simp

theorem problems_are_bounded_witness:
  "\<exists>s. finish_problems demo_grammar demo_log (demo_parse [demo_cut 0 9, demo_cut 9 30]) = Inr s
     \<and> length (pq_problems s) = 1 \<and> problems_bounded (pq_problems s)"
proof -
  from demo_finished obtain s
    where s: "finish_problems demo_grammar demo_log (demo_parse [demo_cut 0 9, demo_cut 9 30]) = Inr s"
      and m: "map pm_message (pq_problems s) = [''bad'']" by (auto split: sum.splits)
  from m have "length (pq_problems s) = 1" by (metis length_map list.size(3) length_Cons One_nat_def)
  with s problems_are_bounded [OF demo_parsed [OF demo_pushed(2)] s] show ?thesis by blast
qed

theorem plain_diagnostics_are_whole_witness:
  "\<exists>s. finish_problems demo_grammar demo_log (demo_parse [demo_cut 0 9, demo_cut 9 30]) = Inr s
     \<and> ld_state demo_log = LComplete \<and> pq_parsed_bytes s = length (concat (map lc_data [demo_cut 0 9, demo_cut 9 30]))"
proof -
  from demo_finished obtain s
    where s: "finish_problems demo_grammar demo_log (demo_parse [demo_cut 0 9, demo_cut 9 30]) = Inr s"
      "\<not> pq_partial s" "\<not> pq_limited s" by (auto split: sum.splits)
  from plain_diagnostics_are_whole [OF demo_parsed [OF demo_pushed(2)] s] s(1) show ?thesis by blast
qed

end
