(* ===== verification/Tool_Safety.thy ===== *)
theory Tool_Safety
  imports Tool_Check
begin

text \<open>
  What discovery and the version check promise: bounded candidates, measured snapshots, a check
  that ends, and a cleanup that signals only processes of the session it started.
\<close>

section \<open>Candidates\<close>

definition candidate_ok :: "probe \<Rightarrow> task_candidate \<Rightarrow> bool" where
  "candidate_ok pv c = (tc_available c = (tc_resolved_program c \<noteq> None)
     \<and> tc_missing_tool c = (if tc_available c then None else Some (tc_program c))
     \<and> (\<forall>p. tc_resolved_program c = Some p \<longrightarrow> (\<exists>q. runnable pv q \<and> os_canonicalize (pv_os pv) q = Inr p)))"

lemma find_found: "find P xs = Some x \<Longrightarrow> x \<in> set xs \<and> P x"
  by (induction xs) (auto split: if_splits)

lemma resolve_program_Inr:
  "resolve_program pv program cwd env = Inr p \<Longrightarrow>
   \<exists>q. q \<in> set (program_candidates program cwd env) \<and> runnable pv q \<and> os_canonicalize (pv_os pv) q = Inr p"
  by (auto simp: resolve_program_def res_simps split: option.splits dest: find_found)

lemma candidate_is_ok: "candidate_ok pv (candidate pv n program args cwd origin env)"
  using resolve_program_Inr [of pv program cwd env]
  by (auto simp: candidate_def candidate_ok_def Let_def ok_opt_def split: sum.splits)

definition report_ok :: "probe \<Rightarrow> nat \<Rightarrow> discovery_report \<Rightarrow> bool" where
  "report_ok pv n r = (length (dr_candidates r) \<le> n \<and> list_all (candidate_ok pv) (dr_candidates r))"

lemma report_ok_simps [simp]:
  "report_ok pv n (dr_warn m r) = report_ok pv n r"
  "report_ok pv (Suc n) (dr_add c r) = (candidate_ok pv c \<and> report_ok pv n r)"
  by (auto simp: report_ok_def dr_warn_def dr_add_def)

lemma scripts_ok:
  "report_ok pv MAX_CANDIDATES r \<Longrightarrow> report_ok pv MAX_CANDIDATES (discover_scripts pv root p env m ss r)"
proof (induction ss arbitrary: r)
  case (Cons s ss)
  have "report_ok pv MAX_CANDIDATES (dr_add (candidate pv a b c d e f) r)"
    if "length (dr_candidates r) < MAX_CANDIDATES" for a b c d e f
    using that Cons.prems by (auto simp: report_ok_def dr_add_def candidate_is_ok)
  with Cons show ?case by (cases s) auto
qed simp

lemma report_ok_mono: "report_ok pv n r \<Longrightarrow> n \<le> m \<Longrightarrow> report_ok pv m r"
  by (auto simp: report_ok_def)

lemma cargo_ok: "report_ok pv 2 (discover_cargo pv root env \<lparr>dr_candidates = [], dr_warnings = []\<rparr>)"
  by (auto simp: discover_cargo_def Let_def candidate_is_ok report_ok_def dr_add_def dr_warn_def
      split: sum.splits option.splits)

text \<open>Discovery offers at most 128 candidates, whatever the manifests hold; a candidate
  is available exactly when its program resolved, and then to the canonical path of a file that can be executed.\<close>

theorem candidates_are_bounded:
  assumes "discover_tasks pv root env = Inr r"
  shows "length (dr_candidates r) \<le> 128 \<and> list_all (candidate_ok pv) (dr_candidates r)"
proof -
  from assms obtain d where r: "r = discover_package pv d env (discover_cargo pv d env \<lparr>dr_candidates = [], dr_warnings = []\<rparr>)"
    by (auto simp: discover_tasks_def res_simps)
  have "report_ok pv MAX_CANDIDATES (discover_cargo pv d env \<lparr>dr_candidates = [], dr_warnings = []\<rparr>)"
    by (rule report_ok_mono [OF cargo_ok]) (simp add: MAX_CANDIDATES_def)
  then have "report_ok pv MAX_CANDIDATES r"
    unfolding r by (auto simp: discover_package_def Let_def scripts_ok split: sum.splits option.splits json_value.splits)
  then show ?thesis by (simp add: report_ok_def MAX_CANDIDATES_def)
qed

section \<open>Snapshots\<close>

lemma measure_reads_Inr: "measure_reads budget acc rs = Inr b \<Longrightarrow> length acc \<le> budget \<Longrightarrow> length b \<le> budget"
  by (induction budget acc rs rule: measure_reads.induct) (auto simp: res_simps split: if_splits)

text \<open>A snapshot is the digest of exactly the bytes read, within the budget, of one
  ordinary file whose identity, size and times were the same when it was opened, at its path, after the reads, and
  at its path again.\<close>

theorem snapshot_is_measured:
  assumes "snapshot_artifact sha pv p budget = Inr s"
  shows "\<exists>r bytes a b c. pv_read pv p = Inr r \<and> measure_reads budget [] (rd_chunks r) = Inr bytes
    \<and> as_sha256 s = sha bytes \<and> as_size s = length bytes \<and> as_size s \<le> budget \<and> fm_is_file (rd_before r)
    \<and> rd_link r = Inr a \<and> rd_after r = Inr b \<and> rd_link_after r = Inr c
    \<and> list_all (\<lambda>m. identity_of m = as_identity s) [rd_before r, a, b, c]"
  using assms measure_reads_Inr [of budget "[]"]
  by (auto simp: snapshot_artifact_def same_identity_def res_simps)

section \<open>The version check ends\<close>

lemma version_loop_ends: "list_ex vt_late ts \<Longrightarrow> version_loop b eof ts \<noteq> None"
  by (induction b eof ts rule: version_loop.induct) (auto split: option.splits sum.splits prod.splits)

lemma session_loop_ends: "list_ex snd ps \<Longrightarrow> fst (session_loop leader ps sent) \<noteq> None"
  by (induction leader ps sent rule: session_loop.induct) (auto split: sum.splits prod.splits)

text \<open>C25 (version_check_ends). Once the clock passes both deadlines the version check has returned, whatever the
  tool writes, however long it runs and whatever processes it leaves.\<close>

theorem version_check_ends:
  assumes "list_ex vt_late (vr_turns v)" and "list_ex snd (vr_passes v)"
  shows "version_output v \<noteq> None"
proof -
  have s: "\<exists>z. fst (cleanup_session (vr_session v) pid (vr_passes v)) = Some z" for pid
    using session_loop_ends [OF assms(2)] by (auto simp: cleanup_session_def)
  have l: "\<exists>y. version_loop [] False (vr_turns v) = Some y" using version_loop_ends [OF assms(1)] by fast
  show ?thesis
  proof (cases "with_context (vr_start v) ''start selected tool version check''")
    case (Inr pid)
    from s [of pid] l Inr show ?thesis by (auto simp: version_output_def split: sum.splits)
  qed (simp add: version_output_def)
qed

section \<open>Only its own session is signalled\<close>

text \<open>An entry whose pinned process was seen, after pinning, in the session of the leader.\<close>

definition in_session :: "int \<Rightarrow> int \<Rightarrow> proc_entry \<Rightarrow> bool" where
  "in_session leader pid x = (entry_pid x = Some pid \<and> pid \<noteq> leader \<and> px_pidfd x = CallDone
     \<and> (\<exists>s fs. px_restat x = Inr s \<and> stat_fields ''invalid child identity'' s = Inr fs
        \<and> stat_session ''missing child session'' fs = Inr leader))"

lemma clean_entry_sent:
  "clean_entry leader n x sent = (r, sent') \<Longrightarrow> sent' = sent \<or> (\<exists>pid. sent' = sent @ [pid] \<and> in_session leader pid x)"
  by (auto simp: clean_entry_def signal_entry_def op_try_def op_modify_def in_session_def
      split: option.splits sum.splits if_splits prod.splits process_call.splits)

lemma clean_entries_sent:
  "clean_entries leader n xs sent = (r, sent') \<Longrightarrow> pid \<in> set sent' \<Longrightarrow> pid \<in> set sent \<or> (\<exists>x. Inr x \<in> set xs \<and> in_session leader pid x)"
proof (induction leader n xs sent rule: clean_entries.induct)
  case (3 leader n x xs sent)
  obtain q mid where m: "clean_entry leader n x sent = (q, mid)" by force
  from clean_entry_sent [OF m] have step: "pid \<in> set mid \<Longrightarrow> pid \<in> set sent \<or> in_session leader pid x" by auto
  from 3 m step show ?case by (cases q) auto
qed simp_all

lemma session_loop_sent:
  "session_loop leader ps sent = (r, sent') \<Longrightarrow> pid \<in> set sent' \<Longrightarrow>
   pid \<in> set sent \<or> (\<exists>xs late. (Inr xs, late) \<in> set ps \<and> (\<exists>x. Inr x \<in> set xs \<and> in_session leader pid x))"
proof (induction leader ps sent rule: session_loop.induct)
  case (2 leader listing late passes sent)
  show ?case
  proof (cases listing)
    case (Inl e)
    with 2 show ?thesis by (auto simp: with_context_def)
  next
    case (Inr xs)
    obtain q mid where m: "clean_entries leader 0 xs sent = (q, mid)" by force
    from clean_entries_sent [OF m] have step: "pid \<in> set mid \<Longrightarrow> pid \<in> set sent \<or> (\<exists>x. Inr x \<in> set xs \<and> in_session leader pid x)" .
    show ?thesis
    proof (cases "\<exists>n. q = Inr n \<and> n \<noteq> 0 \<and> \<not> late")
      case True
      then obtain n where n: "q = Inr n" "n \<noteq> 0" "\<not> late" by blast
      with 2(2) Inr m have "session_loop leader passes mid = (r, sent')" by (simp add: with_context_def)
      with 2(1) Inr m n 2(3)
      have "pid \<in> set mid \<or> (\<exists>xs late. (Inr xs, late) \<in> set passes \<and> (\<exists>x. Inr x \<in> set xs \<and> in_session leader pid x))"
        by (simp add: with_context_def)
      with step Inr show ?thesis by auto
    next
      case False
      with 2(2) Inr m have "sent' = mid" by (cases q) (auto simp: with_context_def split: if_splits)
      with step Inr 2(3) show ?thesis by auto
    qed
  qed
qed simp

text \<open>C24 (only_own_session_signalled). Beside the leader's own process group, which is killed first, the
  cleanup of a version check signals, whether it succeeds or not, only processes other than the leader that were seen,
  after they were pinned, to belong to the session the check started.\<close>

theorem only_own_session_signalled:
  assumes "cleanup_session sid leader passes = (r, sent)" and "pid \<in> set sent"
  shows "sid = leader \<and> (\<exists>xs late x. (Inr xs, late) \<in> set passes \<and> Inr x \<in> set xs \<and> in_session leader pid x)"
  using assms session_loop_sent [of leader passes "[]" r sent pid]
  by (auto simp: cleanup_session_def split: if_splits)

section \<open>A tool that leaves a process\<close>

definition demo_entry :: proc_entry where
  "demo_entry = \<lparr>px_name = ''43'', px_stat = Inr ''43 (a tool) S 42 42 42 0'', px_pidfd = CallDone,
     px_restat = Inr ''43 (a tool) S 42 42 42 0'', px_kill = CallDone\<rparr>"

lemma demo_cleanup: "snd (cleanup_session 42 42 [(Inr [Inr demo_entry, Inr (demo_entry\<lparr>px_name := ''42''\<rparr>)], False), (Inr [], True)]) = [43]"
  by code_simp

theorem only_own_session_signalled_witness:
  "\<exists>r xs late x. cleanup_session 42 42 [(Inr [Inr demo_entry, Inr (demo_entry\<lparr>px_name := ''42''\<rparr>)], False), (Inr [], True)] = (r, [43])
     \<and> Inr x \<in> set xs \<and> in_session 42 43 x"
proof -
  obtain r where r: "cleanup_session 42 42 [(Inr [Inr demo_entry, Inr (demo_entry\<lparr>px_name := ''42''\<rparr>)], False), (Inr [], True)] = (r, [43])"
    using demo_cleanup by (metis prod.collapse)
  from only_own_session_signalled [OF r, of 43] r show ?thesis by (metis list.set_intros(1))
qed

definition demo_turn :: version_turn where
  "demo_turn = \<lparr>vt_late = False, vt_poll = None, vt_ready = True, vt_read = Some (Inr ''ici 1.2.3''), vt_wait = Inr (), vt_exit = None\<rparr>"

definition demo_version_run :: version_run where
  "demo_version_run = \<lparr>vr_start = Inr 42, vr_setup = Inr (), vr_turns = [demo_turn, demo_turn\<lparr>vt_late := True\<rparr>],
     vr_session = 42, vr_passes = [(Inr [Inr demo_entry], False), (Inr [Inr demo_entry], True)]\<rparr>"

theorem version_check_ends_witness: "version_output demo_version_run \<noteq> None"
  by (rule version_check_ends) (simp_all add: demo_version_run_def)

end
