(* ===== verification/Editor.thy ===== *)
theory Editor
  imports Tool_Check Result_Store Problems Project_Service
begin

text \<open>
  Opening source locations in an external editor (\<open>editor.rs\<close>): the literal argument list, the
  resolution of a reported file inside registered roots, the review of a diagnostic or finding, and
  the command made from a reviewed plan.  Every call reads the filesystem through a probe of its
  own, so files may change between the review and the command.
\<close>

section \<open>Configuration\<close>

fun replace_all :: "string \<Rightarrow> string \<Rightarrow> nat \<Rightarrow> string \<Rightarrow> string" where
  "replace_all pat rep k [] = []"
| "replace_all pat rep (Suc k) (c # s) = replace_all pat rep k s"
| "replace_all pat rep 0 (c # s) = (if pat \<noteq> [] \<and> prefix pat (c # s) then rep @ replace_all pat rep (length pat - 1) s
     else c # replace_all pat rep 0 s)"

definition str_replace :: "string \<Rightarrow> string \<Rightarrow> string \<Rightarrow> string" where
  "str_replace pat rep s = replace_all pat rep 0 s"

definition strip_placeholders :: "string \<Rightarrow> string" where
  "strip_placeholders a = str_replace ''{column}'' [] (str_replace ''{line}'' [] (str_replace ''{file}'' [] a))"

definition check_argument :: "nat \<Rightarrow> nat \<Rightarrow> nat \<times> string \<Rightarrow> nat res" where
  "check_argument delimiter files ia = (case ia of (index, a) \<Rightarrow>
    ensure (length a \<le> 8192 \<and> \<not> has_control a) ''editor argument contains a control character or exceeds its bound''
    (ensure (contains_str ''{file}'' a \<longrightarrow> a = ''{file}'' \<and> delimiter < index)
      ''{file} must be one literal argument after --; command strings are not supported''
    (ensure (CHR ''{'' \<notin> set (strip_placeholders a) \<and> CHR ''}'' \<notin> set (strip_placeholders a)) ''unknown editor placeholder''
      (Inr (files + (if contains_str ''{file}'' a then 1 else 0))))))"

fun position_of :: "'a \<Rightarrow> 'a list \<Rightarrow> nat option" where
  "position_of x [] = None"
| "position_of x (y # ys) = (if x = y then Some 0 else map_option Suc (position_of x ys))"

definition validate_config :: "editor_config \<Rightarrow> unit res" where
  "validate_config c =
    ensure (is_absolute (ed_executable c) \<and> length (ed_args c) \<le> 64)
      ''editor needs an absolute executable and at most 64 arguments''
    (and_then (context_opt (position_of ''--'' (ed_args c)) ''editor arguments need -- before the file placeholder'') (\<lambda>delimiter.
     and_then (fold_res (check_argument delimiter) 0 (enumerate 0 (ed_args c))) (\<lambda>files.
     ensure (files = 1) ''editor requires exactly one file placeholder'' (Inr ()))))"

definition or_one :: "nat option \<Rightarrow> nat" where
  "or_one n = (case n of None \<Rightarrow> 1 | Some n \<Rightarrow> n)"

definition argument :: "path \<Rightarrow> nat option \<Rightarrow> nat option \<Rightarrow> string \<Rightarrow> string res" where
  "argument file line column a =
    ensure (contains_str ''{line}'' a \<longrightarrow> line \<noteq> None)
      ''configured editor needs a line number that this diagnostic does not provide''
    (ensure (contains_str ''{column}'' a \<longrightarrow> column \<noteq> None)
      ''configured editor needs a column number that this diagnostic does not provide''
    (Inr (if a = ''{file}'' then file
      else str_replace ''{column}'' (string_of_nat (or_one column)) (str_replace ''{line}'' (string_of_nat (or_one line)) a))))"

definition editor_arguments :: "editor_config \<Rightarrow> path \<Rightarrow> nat option \<Rightarrow> nat option \<Rightarrow> string list res" where
  "editor_arguments c file line column =
    ensure (line \<noteq> Some 0 \<and> column \<noteq> Some 0) ''invalid diagnostic position''
    (ensure (to_str file \<noteq> None) ''editor location is not UTF-8''
    (map_res (argument file line column) (ed_args c)))"

section \<open>Files\<close>

definition regular_source :: "probe \<Rightarrow> path \<Rightarrow> file_identity res" where
  "regular_source pv p = and_then (os_open (pv_os pv) p) (\<lambda>(m, _).
     ensure (fm_is_file m) ''editor source is not a regular file'' (Inr (identity_of m)))"

text \<open>\<open>ancestors\<close> of the parent of a canonical path.\<close>

definition parent_paths :: "path \<Rightarrow> path list" where
  "parent_paths p = map path_text (rev (filter (\<lambda>k. k \<noteq> []) (butlast (prefixes (components p)))))"

definition trusted_parent :: "nat \<Rightarrow> file_meta \<Rightarrow> bool" where
  "trusted_parent uid m = ((fm_uid m = 0 \<or> fm_uid m = uid)
     \<and> (Bit_Operations.and (fm_mode m) 18 = 0 \<or> (fm_uid m = 0 \<and> Bit_Operations.and (fm_mode m) 512 \<noteq> 0)))"

definition executable :: "probe \<Rightarrow> path \<Rightarrow> (path \<times> file_identity) res" where
  "executable pv p =
    and_then (with_context (os_canonicalize (pv_os pv) p) ''configured editor executable is unavailable'') (\<lambda>resolved.
    and_then (os_open (pv_os pv) resolved) (\<lambda>(m, _).
    ensure (fm_is_file m \<and> (fm_uid m = 0 \<or> fm_uid m = pv_uid pv) \<and> Bit_Operations.and (fm_mode m) 73 \<noteq> 0
        \<and> Bit_Operations.and (fm_mode m) 18 = 0)
      ''editor must be a regular executable owned by this user/root and not writable by other users''
    (ensure (has_parent (components resolved)) ''editor executable has no parent''
    (and_then (check_all (\<lambda>d. and_then (os_metadata (pv_os pv) d) (\<lambda>m.
        ensure (trusted_parent (pv_uid pv) m) ''editor executable has an untrusted writable parent'' (Inr ())))
      (parent_paths resolved)) (\<lambda>_.
     Inr (resolved, identity_of m))))))"

text \<open>Roots are sorted by components and kept once.\<close>

fun dedup_paths :: "path list \<Rightarrow> path list" where
  "dedup_paths (p # q # ps) = (if path_eq p q then dedup_paths (p # ps) else p # dedup_paths (q # ps))"
| "dedup_paths ps = ps"

fun insert_path :: "path \<Rightarrow> path list \<Rightarrow> path list" where
  "insert_path p [] = [p]"
| "insert_path p (q # qs) = (if component_le (components p) (components q) then p # q # qs else q # insert_path p qs)"

definition current_roots :: "probe \<Rightarrow> project \<Rightarrow> path list res" where
  "current_roots pv p =
    (let available = concat (map (\<lambda>r. case os_canonicalize (pv_os pv) r of Inl _ \<Rightarrow> []
           | Inr c \<Rightarrow> if is_directory pv c then [c] else [])
         (pr_root p # map ta_cwd (pr_tasks p) @ map td_cwd (pr_terminals p))) in
     ensure (available \<noteq> []) ''registered source locations are unavailable''
       (Inr (dedup_paths (foldr insert_path available []))))"

definition location_text_ok :: "path \<Rightarrow> bool" where
  "location_text_ok t = (t \<noteq> [] \<and> length t \<le> 4096 \<and> \<not> has_control t
     \<and> \<not> list_ex (\<lambda>c. (8234 \<le> c \<and> c \<le> 8238) \<or> (8294 \<le> c \<and> c \<le> 8297)) (chars t))"

definition in_recorded :: "probe \<Rightarrow> path list \<Rightarrow> path \<Rightarrow> bool" where
  "in_recorded pv roots p = list_ex (\<lambda>r. is_absolute r \<and> (case os_canonicalize (pv_os pv) r of Inl _ \<Rightarrow> False
     | Inr c \<Rightarrow> path_eq c r) \<and> starts_with p r) roots"

definition in_current :: "probe \<Rightarrow> path list \<Rightarrow> path \<Rightarrow> bool" where
  "in_current pv roots p = list_ex (\<lambda>r. is_absolute r \<and> (case os_canonicalize (pv_os pv) r of Inl _ \<Rightarrow> False
     | Inr c \<Rightarrow> starts_with p c)) roots"

definition resolve_location :: "probe \<Rightarrow> path \<Rightarrow> path \<Rightarrow> path list \<Rightarrow> path list \<Rightarrow> path res" where
  "resolve_location pv cwd reported recorded current =
    ensure (to_str reported \<noteq> None) ''diagnostic filename is not UTF-8; inspect the original log''
    (ensure (location_text_ok reported) ''diagnostic filename contains unsupported controls or is too long''
    (ensure (is_absolute cwd) ''run working directory is not absolute''
    (and_then (with_context (os_canonicalize (pv_os pv) (if is_absolute reported then reported else join_path cwd reported))
        ''diagnostic file is missing or unavailable; no file was created'') (\<lambda>resolved.
     ensure (in_recorded pv recorded resolved \<and> in_current pv current resolved)
       ''diagnostic path is outside a recorded and currently registered source/test root''
     (and_then (regular_source pv resolved) (\<lambda>_. Inr resolved))))))"

section \<open>Reviews\<close>

record finding_reference =
  fr_body_sha256 :: string
  fr_index :: nat

record editor_review =
  ew_finding :: "finding_reference option"
  ew_run_id :: string
  ew_problem_id :: string
  ew_project_id :: string
  ew_file :: path
  ew_line :: "nat option"
  ew_column :: "nat option"
  ew_executable :: path
  ew_arguments :: "string list"
  ew_external_gui :: bool
  ew_configuration_changed_since_run :: bool
  ew_source_changed_during_run :: "bool option"
  ew_source_identity_is_snapshot :: bool

record reviewed_location =
  rn_problem_id :: string
  rn_finding :: "finding_reference option"
  rn_reported :: path
  rn_line :: "nat option"
  rn_column :: "nat option"
  rn_result :: "structured_result option"

record editor_plan =
  ep_result :: "structured_result option"
  ep_review :: editor_review
  ep_config :: editor_config
  ep_source :: file_identity
  ep_executable :: file_identity
  ep_cwd :: path
  ep_recorded_roots :: "path list"

text \<open>What the service reads: the configuration store and the result store.\<close>

record editor_service =
  es_ext :: ext
  es_codec :: codec
  es_store :: store
  es_results :: results
  es_cost :: "structured_finding \<Rightarrow> nat"
  es_result_store :: result_store

definition editor_load :: "editor_service \<Rightarrow> (world, workspace) op" where
  "editor_load v = store_load (es_ext v) (es_codec v) (es_store v)"

definition save_editor :: "editor_service \<Rightarrow> probe \<Rightarrow> nat \<Rightarrow> string \<Rightarrow> editor_config \<Rightarrow> (world, unit) op" where
  "save_editor v pv expected pid c =
    op_try (op_lift (validate_config c)) (\<lambda>_.
    op_try (op_lift (executable pv (ed_executable c))) (\<lambda>_.
    op_try (editor_load v) (\<lambda>w.
    op_ensure (ws_revision w = expected) ''configuration changed; reload editor settings''
    (op_try (op_lift (find_project w pid)) (\<lambda>p.
     save_as (es_ext v) (es_codec v) (es_store v) expected ((), put_project pid (p\<lparr>pr_editor := Some c\<rparr>) w))))))"

text \<open>The plan made from the loaded project.\<close>

definition plan_location :: "probe \<Rightarrow> run_info \<Rightarrow> reviewed_location \<Rightarrow> workspace \<Rightarrow> editor_plan res" where
  "plan_location pv r l w =
    and_then (find_project w (ri_project_id r)) (\<lambda>p.
    and_then (context_opt (pr_editor p) ''configure an external editor for this project before opening a source location'') (\<lambda>c.
    and_then (validate_config c) (\<lambda>_.
    and_then (current_roots pv p) (\<lambda>roots.
    and_then (resolve_location pv (ri_cwd r) (rn_reported l) (ri_source_roots r) roots) (\<lambda>file.
    and_then (regular_source pv file) (\<lambda>source.
    and_then (executable pv (ed_executable c)) (\<lambda>(program, program_identity).
    and_then (editor_arguments c file (rn_line l) (rn_column l)) (\<lambda>args.
    and_then (with_context (os_canonicalize (pv_os pv) (pr_root p)) ''current project root unavailable'') (\<lambda>cwd.
    Inr \<lparr>ep_result = rn_result l,
      ep_review = \<lparr>ew_finding = rn_finding l, ew_run_id = ri_run_id r, ew_problem_id = rn_problem_id l,
        ew_project_id = ri_project_id r, ew_file = file, ew_line = rn_line l, ew_column = rn_column l,
        ew_executable = program, ew_arguments = args, ew_external_gui = ed_external_gui c,
        ew_configuration_changed_since_run = (ws_revision w \<noteq> ri_definition_revision r),
        ew_source_changed_during_run = ri_source_changed r, ew_source_identity_is_snapshot = False\<rparr>,
      ep_config = c, ep_source = source, ep_executable = program_identity, ep_cwd = cwd,
      ep_recorded_roots = ri_source_roots r\<rparr>)))))))))"

definition review_location :: "editor_service \<Rightarrow> probe \<Rightarrow> run_info \<Rightarrow> reviewed_location \<Rightarrow> (world, editor_plan) op" where
  "review_location v pv r l = op_try (editor_load v) (\<lambda>w. op_lift (plan_location pv r l w))"

definition review_problem :: "editor_service \<Rightarrow> probe \<Rightarrow> run_info \<Rightarrow> problem \<Rightarrow> (world, editor_plan) op" where
  "review_problem v pv r q =
    op_ensure (pm_run_id q = ri_run_id r \<and> pm_project_id q = ri_project_id r
        \<and> pm_log_generation q = ld_generation (ri_log r))
      ''diagnostic belongs to another run or log generation''
    (op_try (op_lift (context_opt (pm_file q) ''this tool diagnostic has no file location; inspect its original log'')) (\<lambda>f.
     review_location v pv r \<lparr>rn_problem_id = pm_id q, rn_finding = None, rn_reported = f,
       rn_line = map_option sg_line (pm_range q), rn_column = Option.bind (pm_range q) sg_column, rn_result = None\<rparr>))"

definition to_u32 :: "nat option \<Rightarrow> string \<Rightarrow> nat option res" where
  "to_u32 n e = (case n of None \<Rightarrow> Inr None | Some n \<Rightarrow> if n \<le> 4294967295 then Inr (Some n) else Inl (Bail e))"

text \<open>A finding is read again from the immutable result before its location is used.\<close>

definition finding_location_of :: "run_info \<Rightarrow> structured_finding \<Rightarrow> finding_page \<Rightarrow> reviewed_location res" where
  "finding_location_of r f page =
    and_then (context_opt (case fp_findings page of [] \<Rightarrow> None | a # _ \<Rightarrow> Some a)
      ''finding result is missing, expired, changed or unavailable'') (\<lambda>actual.
    ensure (sf_index actual = sf_index f \<and> sf_body_sha256 actual = sf_body_sha256 f \<and> sf_location actual = sf_location f)
      ''finding location differs from the immutable result''
    (and_then (context_opt (sf_location actual) ''this structured finding has no actionable file location'') (\<lambda>l.
     and_then (to_u32 (fl_start_line l) ''finding line exceeds editor range'') (\<lambda>line.
     and_then (to_u32 (fl_start_column l) ''finding column exceeds editor range'') (\<lambda>column.
     ensure (column = None \<or> line \<noteq> None) ''finding column has no source line''
     (Inr \<lparr>rn_problem_id = [], rn_finding = Some \<lparr>fr_body_sha256 = sf_body_sha256 f, fr_index = sf_index f\<rparr>,
        rn_reported = fl_path l, rn_line = line, rn_column = column, rn_result = Some (fp_result page)\<rparr>))))))"

definition review_finding :: "editor_service \<Rightarrow> probe \<Rightarrow> run_info \<Rightarrow> structured_finding \<Rightarrow> (world, editor_plan) op" where
  "review_finding v pv r f =
    op_try (op_lift (context_opt (ri_structured_result r) ''run has no structured result'')) (\<lambda>result.
    op_try (op_lift (context_opt (result_body result) ''run result has no immutable body reference'')) (\<lambda>body.
    op_ensure (bd_run_id body = ri_run_id r \<and> bd_sha256 body = sf_body_sha256 f)
      ''finding belongs to another run or result body''
    (op_try (result_findings (es_results v) (es_cost v) (es_result_store v) result (sf_index f) 1) (\<lambda>page.
     op_try (op_lift (finding_location_of r f page)) (review_location v pv r)))))"

section \<open>The command\<close>

record editor_command =
  ec_program :: path
  ec_args :: "string list"
  ec_cwd :: path
  ec_env :: environment

text \<open>The checks against the project as it is now.\<close>

definition check_plan :: "probe \<Rightarrow> editor_plan \<Rightarrow> environment \<Rightarrow> workspace \<Rightarrow> editor_command res" where
  "check_plan pv pl env w =
    and_then (find_project w (ew_project_id (ep_review pl))) (\<lambda>p.
    ensure (pr_editor p = Some (ep_config pl)) ''editor configuration changed after review''
    (and_then (current_roots pv p) (\<lambda>roots.
     and_then (resolve_location pv (ep_cwd pl) (ew_file (ep_review pl)) (ep_recorded_roots pl) roots) (\<lambda>file.
     ensure (path_eq file (ew_file (ep_review pl))) ''source file changed or was replaced after location review''
     (and_then (regular_source pv file) (\<lambda>source.
      ensure (source = ep_source pl) ''source file changed or was replaced after location review''
      (and_then (os_canonicalize (pv_os pv) (pr_root p)) (\<lambda>root.
       ensure (path_eq root (ep_cwd pl)) ''project root moved after editor review''
       (and_then (executable pv (ed_executable (ep_config pl))) (\<lambda>(program, identity).
        ensure (path_eq program (ew_executable (ep_review pl)) \<and> identity = ep_executable pl)
          ''editor executable changed after review''
        (and_then (from_variables env) (\<lambda>e.
         Inr \<lparr>ec_program = program, ec_args = ew_arguments (ep_review pl), ec_cwd = ep_cwd pl,
           ec_env = le_variables e\<rparr>))))))))))))"

definition result_still_there :: "editor_service \<Rightarrow> structured_result option \<Rightarrow> (world, unit) op" where
  "result_still_there v r = (case r of None \<Rightarrow> op_return ()
    | Some r \<Rightarrow> op_try (verified_op (es_results v) (es_result_store v) r) (\<lambda>(r', _).
        op_ensure (result_summary_of r' \<noteq> None) ''structured result changed or expired after editor review'' (op_return ())))"

definition command :: "editor_service \<Rightarrow> probe \<Rightarrow> editor_plan \<Rightarrow> environment \<Rightarrow> (world, editor_command) op" where
  "command v pv pl env =
    op_try (result_still_there v (ep_result pl)) (\<lambda>_.
    op_try (editor_load v) (\<lambda>w. op_lift (check_plan pv pl env w)))"

section \<open>Discovery\<close>

text \<open>The argument parser: quotes and backslashes only, on the characters of the value.\<close>

record argv_state =
  ag_args :: "string list"
  ag_current :: "nat list"
  ag_active :: bool
  ag_quote :: "nat option"

definition ag_push :: "nat \<Rightarrow> argv_state \<Rightarrow> argv_state" where
  "ag_push c s = s\<lparr>ag_current := ag_current s @ [c]\<rparr>"

definition argv_bounds :: "argv_state \<Rightarrow> argv_state res" where
  "argv_bounds s = ensure (length (ag_args s) \<le> 64 \<and> length (utf8_text (ag_current s)) \<le> 8192)
     ''editor argv exceeds bounds'' (Inr s)"

text \<open>One turn of the loop: the state and the characters left.\<close>

definition argv_turn :: "nat \<Rightarrow> nat list \<Rightarrow> argv_state \<Rightarrow> (argv_state \<times> nat list) res" where
  "argv_turn c rest s =
    (if ag_quote s = Some 39 then
       Inr (if c = 39 then s\<lparr>ag_quote := None\<rparr> else ag_push c s, rest)
     else if ag_quote s = Some 34 then
       (if c = 34 then Inr (s\<lparr>ag_quote := None\<rparr>, rest)
        else if c = 92 then
          (case rest of [] \<Rightarrow> Inl (Bail ''unterminated editor escape'')
           | n # rest' \<Rightarrow> Inr (ag_push n (if n \<in> {36, 96, 34, 92} then s else ag_push 92 s), rest'))
        else Inr (ag_push c s, rest))
     else if c = 39 \<or> c = 34 then Inr (s\<lparr>ag_quote := Some c, ag_active := True\<rparr>, rest)
     else if c = 92 then
       (case rest of [] \<Rightarrow> Inl (Bail ''unterminated editor escape'')
        | n # rest' \<Rightarrow> Inr ((ag_push n s)\<lparr>ag_active := True\<rparr>, rest'))
     else if is_whitespace c then
       Inr (if ag_active s then s\<lparr>ag_args := ag_args s @ [utf8_text (ag_current s)], ag_current := [], ag_active := False\<rparr>
         else s, rest)
     else Inr ((ag_push c s)\<lparr>ag_active := True\<rparr>, rest))"

function argv_loop :: "argv_state \<Rightarrow> nat list \<Rightarrow> argv_state res" where
  "argv_loop s [] = Inr s"
| "argv_loop s (c # cs) = (case argv_turn c cs s of Inl e \<Rightarrow> Inl e
     | Inr (s', rest) \<Rightarrow> and_then (argv_bounds s') (\<lambda>s'. argv_loop s' rest))"
  by pat_completeness auto
termination
  by (relation "measure (\<lambda>(s, cs). length cs)") (auto simp: argv_turn_def split: if_splits list.splits)

definition parse_editor_argv :: "string \<Rightarrow> string list res" where
  "parse_editor_argv value =
    ensure (length value \<le> 16384 \<and> \<not> has_control value) ''editor command is too long or contains control characters''
    (and_then (argv_loop \<lparr>ag_args = [], ag_current = [], ag_active = False, ag_quote = None\<rparr> (chars value)) (\<lambda>s.
     ensure (ag_quote s = None) ''unterminated editor quote''
     (let args = ag_args s @ (if ag_active s then [utf8_text (ag_current s)] else []) in
      ensure (length args \<le> 64) ''editor argv exceeds bounds'' (Inr args))))"

record editor_candidate =
  ek_config :: editor_config
  ek_origin :: string
  ek_available :: bool
  ek_reason :: "string option"

definition editor_candidate_of :: "probe \<Rightarrow> editor_config \<Rightarrow> string \<Rightarrow> editor_candidate" where
  "editor_candidate_of pv c origin =
    (let r = and_then (validate_config c) (\<lambda>_. executable pv (ed_executable c)) in
     \<lparr>ek_config = c, ek_origin = origin, ek_available = is_ok r,
       ek_reason = (case r of Inl e \<Rightarrow> Some (error_text e) | Inr _ \<Rightarrow> None)\<rparr>)"

definition complete_args :: "string list \<Rightarrow> string list" where
  "complete_args argv = (if list_ex (contains_str ''{file}'') argv then argv
     else argv @ (if ''--'' \<in> set argv then [] else [''--'']) @ [''{file}''])"

definition from_variable :: "probe \<Rightarrow> string \<Rightarrow> string \<Rightarrow> path \<Rightarrow> environment \<Rightarrow> editor_candidate res" where
  "from_variable pv name value cwd env =
    and_then (with_context (parse_editor_argv value) (''invalid '' @ name @ '' argv'')) (\<lambda>argv.
    ensure (argv \<noteq> [] \<and> hd argv \<noteq> []) (name @ '' has no executable'')
    (let program = hd argv; resolved = resolve_program pv program cwd env;
         p = (case resolved of Inr p \<Rightarrow> p | Inl _ \<Rightarrow> if is_absolute program then program else join_path cwd program);
         k = editor_candidate_of pv \<lparr>ed_executable = p, ed_args = complete_args (tl argv), ed_external_gui = False\<rparr> name in
     Inr (case resolved of Inr _ \<Rightarrow> k
       | Inl e \<Rightarrow> k\<lparr>ek_available := False, ek_reason := Some (error_text e)\<rparr>)))"

fun first_installed :: "probe \<Rightarrow> path \<Rightarrow> environment \<Rightarrow> string list \<Rightarrow> editor_candidate option" where
  "first_installed pv cwd env [] = None"
| "first_installed pv cwd env (program # ps) = (case resolve_program pv program cwd env of
     Inl _ \<Rightarrow> first_installed pv cwd env ps
   | Inr p \<Rightarrow>
     (let k = editor_candidate_of pv \<lparr>ed_executable = p, ed_args = [''--'', ''{file}''], ed_external_gui = False\<rparr>
        ''installed candidate'' in
      if ek_available k then Some k else first_installed pv cwd env ps))"

definition set_variable :: "environment \<Rightarrow> string \<Rightarrow> string option" where
  "set_variable env name = (case map_of env name of None \<Rightarrow> None | Some v \<Rightarrow> if trim_is_empty v then None else Some v)"

definition discover_editor :: "probe \<Rightarrow> editor_config option \<Rightarrow> environment \<Rightarrow> path \<Rightarrow> editor_candidate option res" where
  "discover_editor pv preferred env cwd =
    ensure (is_absolute cwd) ''editor discovery cwd must be absolute''
    (case preferred of Some c \<Rightarrow> Inr (Some (editor_candidate_of pv c ''explicit preference''))
     | None \<Rightarrow>
       (case set_variable env ''VISUAL'' of Some value \<Rightarrow> map_sum id Some (from_variable pv ''VISUAL'' value cwd env)
        | None \<Rightarrow>
          (case set_variable env ''EDITOR'' of Some value \<Rightarrow> map_sum id Some (from_variable pv ''EDITOR'' value cwd env)
           | None \<Rightarrow> Inr (first_installed pv cwd env [''nvim'', ''vim'', ''vi'', ''nano'', ''emacs'']))))"

end
