(* ===== verification/Editor_Safety.thy ===== *)
theory Editor_Safety
  imports Editor Utf8_Facts
begin

text \<open>
  What opening an editor promises: the command is the reviewed one, on the reviewed file inside
  registered roots; the file is one literal argument after \<open>--\<close>; quoted arguments survive the
  argument parser.
\<close>

section \<open>The argument parser undoes the quoting of drafts\<close>

abbreviation quote_state :: "string list \<Rightarrow> nat list \<Rightarrow> bool \<Rightarrow> nat option \<Rightarrow> argv_state" where
  "quote_state as cur act q \<equiv> \<lparr>ag_args = as, ag_current = cur, ag_active = act, ag_quote = q\<rparr>"

text \<open>\<open>escape_quotes\<close> on characters.\<close>

definition escape_codes :: "nat list \<Rightarrow> nat list" where
  "escape_codes cs = concat (map (\<lambda>c. if c = 39 then [39, 92, 39, 39] else [c]) cs)"

lemma argv_loop_step:
  "argv_turn c cs s = Inr (s', rest) \<Longrightarrow> length (ag_args s') \<le> 64 \<Longrightarrow> length (utf8_text (ag_current s')) \<le> 8192 \<Longrightarrow>
   argv_loop s (c # cs) = argv_loop s' rest"
  by (simp add: argv_bounds_def)

lemma utf8_text_append [simp]: "utf8_text (a @ b) = utf8_text a @ utf8_text b"
  by (simp add: utf8_text_def)

lemma argv_loop_quoted:
  "length as \<le> 64 \<Longrightarrow> length (utf8_text (cur @ cs)) \<le> 8192 \<Longrightarrow>
   argv_loop (quote_state as cur True (Some 39)) (escape_codes cs @ 39 # rest)
     = argv_loop (quote_state as (cur @ cs) True None) rest"
proof (induction cs arbitrary: cur)
  case Nil
  then show ?case by (simp add: escape_codes_def argv_turn_def argv_bounds_def)
next
  case (Cons c cs)
  from Cons.prems have l: "length (utf8_text (cur @ [c])) \<le> 8192" "length (utf8_text cur) \<le> 8192"
    by (simp_all add: utf8_text_def)
  from Cons.prems Cons.IH [of "cur @ [c]"]
  have ih: "argv_loop (quote_state as (cur @ [c]) True (Some 39)) (escape_codes cs @ 39 # rest)
     = argv_loop (quote_state as (cur @ c # cs) True None) rest" by (simp add: utf8_text_def)
  show ?case
  proof (cases "c = 39")
    case True
    with l ih Cons.prems(1) show ?thesis
      by (simp add: escape_codes_def argv_turn_def argv_bounds_def ag_push_def del: utf8_text_append)
  next
    case False
    with l ih Cons.prems(1) show ?thesis
      by (simp add: escape_codes_def argv_turn_def argv_bounds_def ag_push_def del: utf8_text_append)
  qed
qed

text \<open>A line of quoted words.\<close>

definition quoted_codes :: "nat list \<Rightarrow> nat list" where
  "quoted_codes w = 39 # escape_codes w @ [39]"

fun line_codes :: "nat list list \<Rightarrow> nat list" where
  "line_codes [] = []"
| "line_codes [w] = quoted_codes w"
| "line_codes (w # ws) = quoted_codes w @ 32 # line_codes ws"

lemma argv_loop_open:
  "length as \<le> 64 \<Longrightarrow> argv_loop (quote_state as [] act None) (39 # cs) = argv_loop (quote_state as [] True (Some 39)) cs"
  by (simp add: argv_turn_def argv_bounds_def utf8_text_def)

lemma argv_loop_word:
  assumes "length as \<le> 64" "length (utf8_text w) \<le> 8192"
  shows "argv_loop (quote_state as [] act None) (quoted_codes w @ rest) = argv_loop (quote_state as w True None) rest"
  using argv_loop_open [OF assms(1)] argv_loop_quoted [of as "[]" w rest] assms by (simp add: quoted_codes_def)

lemma argv_loop_space:
  "length as < 64 \<Longrightarrow> argv_loop (quote_state as w True None) (32 # cs) = argv_loop (quote_state (as @ [utf8_text w]) [] False None) cs"
  by (simp add: argv_turn_def argv_bounds_def is_whitespace_def utf8_text_def)

lemma argv_loop_line:
  "ws \<noteq> [] \<Longrightarrow> length as + length ws \<le> 64 \<Longrightarrow> list_all (\<lambda>w. length (utf8_text w) \<le> 8192) ws \<Longrightarrow>
   argv_loop (quote_state as [] act None) (line_codes ws)
     = Inr (quote_state (as @ map utf8_text (butlast ws)) (last ws) True None)"
proof (induction ws arbitrary: as act rule: line_codes.induct)
  case (2 w)
  then show ?case using argv_loop_word [of as w act "[]"] by simp
next
  case (3 w v ws)
  then show ?case
    using argv_loop_word [of as w act "32 # line_codes (v # ws)"] argv_loop_space [of as w "line_codes (v # ws)"] by simp
qed simp

lemma escape_quotes_append: "escape_quotes (s @ t) = escape_quotes s @ escape_quotes t"
  by (induction s) simp_all

lemma escape_quotes_plain: "CHR 0x27 \<notin> set s \<Longrightarrow> escape_quotes s = s"
  by (induction s) auto

lemma encode_no_quote: "c \<noteq> 39 \<Longrightarrow> is_scalar c \<Longrightarrow> CHR 0x27 \<notin> set (utf8_encode c)"
proof
  assume c: "c \<noteq> 39" "is_scalar c" and q: "CHR 0x27 \<in> set (utf8_encode c)"
  from q have m: "39 \<in> set (bytes_of (utf8_encode c))" by (force simp: bytes_of_def image_iff)
  consider "c < 128" | "128 \<le> c" "c < 2048" | "2048 \<le> c" "c < 65536" | "65536 \<le> c" "c < 1114112"
    using c by (force simp: is_scalar_def)
  then show False
    using m c by cases (auto simp: encode_bytes_one encode_bytes_two encode_bytes_three encode_bytes_four)
qed

lemma ascii_codes: "utf8_encode 39 = [CHR 0x27]" "utf8_encode 92 = [CHR 0x5C]" "utf8_encode 32 = '' ''"
  by code_simp+

lemma escape_quotes_text: "list_all is_scalar w \<Longrightarrow> escape_quotes (utf8_text w) = utf8_text (escape_codes w)"
proof (induction w)
  case (Cons c w)
  have "escape_quotes (utf8_encode c) = utf8_text (if c = 39 then [39, 92, 39, 39] else [c])"
    using Cons.prems encode_no_quote [of c]
    by (simp add: utf8_text_def escape_quotes_plain ascii_codes)
  with Cons show ?case by (simp add: utf8_text_def escape_codes_def escape_quotes_append)
qed (simp add: utf8_text_def escape_codes_def)

lemma quote_arg_text:
  "list_all is_scalar w \<Longrightarrow> quote_arg (utf8_text w) = Inr q \<Longrightarrow> q = utf8_text (quoted_codes w)"
  using escape_quotes_text [of w] by (auto simp: quote_arg_def res_simps quoted_codes_def utf8_text_def ascii_codes)

lemma quote_args_text:
  "map_res quote_arg (map utf8_text ws) = Inr qs \<Longrightarrow> list_all (list_all is_scalar) ws \<Longrightarrow>
   qs = map (\<lambda>w. utf8_text (quoted_codes w)) ws"
  by (induction ws arbitrary: qs) (auto simp: res_simps quote_arg_text)

lemma join_words_text: "join_words (map (\<lambda>w. utf8_text (quoted_codes w)) ws) = utf8_text (line_codes ws)"
  by (induction ws rule: line_codes.induct) (simp_all add: utf8_text_def ascii_codes)

lemma line_codes_from:
  "c \<in> set (line_codes ws) \<Longrightarrow> c \<in> {32, 39, 92} \<or> (\<exists>w\<in>set ws. c \<in> set w)"
  by (induction ws rule: line_codes.induct) (auto simp: quoted_codes_def escape_codes_def split: if_splits)

text \<open>Arguments quoted the way a tool draft quotes them, put on one line, come back from
  the editor's argument parser exactly as they were: no character of an argument is interpreted.\<close>

theorem argv_roundtrip:
  assumes quoted: "map_res quote_arg args = Inr qs"
    and plain: "list_all (\<lambda>a. to_str a \<noteq> None \<and> \<not> has_control a \<and> length a \<le> 8192) args"
    and size: "length args \<le> 64" "length (join_words qs) \<le> 16384"
  shows "parse_editor_argv (join_words qs) = Inr args"
proof -
  let ?ws = "map chars args"
  have codes: "utf8_text (chars a) = a \<and> list_all is_scalar (chars a)" if "a \<in> set args" for a
  proof -
    from that plain obtain cs where "to_str a = Some cs" by (auto simp: list_all_iff)
    with text_of_str [OF this] show ?thesis by (simp add: chars_def)
  qed
  then have args: "args = map utf8_text ?ws" by (simp add: map_idI)
  have scalar: "\<forall>w\<in>set ?ws. list_all is_scalar w" using codes by auto
  have qs: "qs = map (\<lambda>w. utf8_text (quoted_codes w)) ?ws"
    using quoted scalar args quote_args_text [of ?ws qs] by (simp add: list_all_iff)
  have line: "join_words qs = utf8_text (line_codes ?ws)" unfolding qs by (rule join_words_text)
  have "list_all is_scalar (line_codes ?ws)"
    using scalar line_codes_from [of _ ?ws] by (fastforce simp: list_all_iff is_scalar_def)
  then have chars: "chars (join_words qs) = line_codes ?ws" unfolding line by (rule chars_text)
  have "\<not> list_ex is_control (line_codes ?ws)"
    using plain line_codes_from [of _ ?ws] by (fastforce simp: list_ex_iff list_all_iff has_control_def is_control_def)
  then have calm: "\<not> has_control (join_words qs)" by (simp add: has_control_def chars)
  show ?thesis
  proof (cases "args = []")
    case True
    with size calm chars show ?thesis by (simp add: parse_editor_argv_def)
  next
    case False
    have "list_all (\<lambda>w. length (utf8_text w) \<le> 8192) ?ws"
      using plain codes by (simp add: list_all_iff)
    with False size argv_loop_line [of ?ws "[]" False]
    have "argv_loop (quote_state [] [] False None) (line_codes ?ws)
        = Inr (quote_state (map utf8_text (butlast ?ws)) (last ?ws) True None)" by simp
    moreover have "map utf8_text (butlast ?ws) @ [utf8_text (last ?ws)] = args"
      using False append_butlast_last_id [of "map utf8_text ?ws"] args by (simp add: map_butlast last_map)
    moreover have "length args - Suc 0 \<le> 63" using size(1) by simp
    ultimately show ?thesis
      using size calm by (simp add: parse_editor_argv_def chars)
  qed
qed

section \<open>The file is one literal argument\<close>

lemma position_of_Some: "position_of x xs = Some i \<Longrightarrow> i < length xs \<and> xs ! i = x"
  by (induction xs arbitrary: i) (auto split: if_splits)

lemma check_argument_Inr:
  "(check_argument d n ia = Inr k) = (length (snd ia) \<le> 8192 \<and> \<not> has_control (snd ia)
     \<and> (contains_str ''{file}'' (snd ia) \<longrightarrow> snd ia = ''{file}'' \<and> d < fst ia)
     \<and> CHR ''{'' \<notin> set (strip_placeholders (snd ia)) \<and> CHR ''}'' \<notin> set (strip_placeholders (snd ia))
     \<and> k = n + (if contains_str ''{file}'' (snd ia) then 1 else 0))"
  by (auto simp: check_argument_def res_simps split: prod.splits)

lemma check_arguments_count:
  "fold_res (check_argument d) n ias = Inr k \<Longrightarrow> n < k \<Longrightarrow> \<exists>(i, a)\<in>set ias. a = ''{file}'' \<and> d < i"
proof (induction ias arbitrary: n)
  case (Cons ia ias)
  then obtain m where m: "check_argument d n ia = Inr m" "fold_res (check_argument d) m ias = Inr k"
    by (auto simp: res_simps)
  show ?case
  proof (cases "contains_str ''{file}'' (snd ia)")
    case True
    with m(1) show ?thesis by (auto simp: check_argument_Inr split: prod.splits intro!: bexI [of _ ia])
  next
    case False
    with m(1) Cons.prems(2) have "m < k" by (simp add: check_argument_Inr)
    from Cons.IH [OF m(2) this] show ?thesis by auto
  qed
qed simp

lemma delimiter_argument: "argument file line column ''--'' = Inr ''--''"
  by (simp add: argument_def contains_str_def str_replace_def)

lemma file_argument: "argument file line column ''{file}'' = Inr file"
  by (simp add: argument_def contains_str_def)

lemma validate_config_Inr:
  assumes "validate_config c = Inr u"
  obtains d i where "d < i" "i < length (ed_args c)" "ed_args c ! d = ''--''" "ed_args c ! i = ''{file}''"
proof -
  from assms obtain d where d: "position_of ''--'' (ed_args c) = Some d"
    and f: "fold_res (check_argument d) 0 (enumerate 0 (ed_args c)) = Inr 1"
    by (auto simp: validate_config_def res_simps)
  from check_arguments_count [OF f] obtain i a where "(i, a) \<in> set (enumerate 0 (ed_args c))" "a = ''{file}''" "d < i"
    by auto
  with position_of_Some [OF d] show thesis by (auto simp: in_set_enumerate_eq intro: that)
qed

text \<open>Under a valid configuration the source file is one literal argument of the
  editor and stands after a literal \<open>--\<close>, so no file name can be taken for an option or split into words.\<close>

theorem file_is_one_argument:
  assumes "validate_config c = Inr ()" and "editor_arguments c file line column = Inr as"
  shows "\<exists>d i. d < i \<and> i < length as \<and> as ! d = ''--'' \<and> as ! i = file \<and> length as = length (ed_args c)"
proof -
  from assms(2) have m: "list_all2 (\<lambda>a b. argument file line column a = Inr b) (ed_args c) as"
    by (simp add: editor_arguments_def res_simps map_res_Inr_iff)
  from validate_config_Inr [OF assms(1)] obtain d i where di: "d < i" "i < length (ed_args c)"
    "ed_args c ! d = ''--''" "ed_args c ! i = ''{file}''" by blast
  from list_all2_nthD [OF m, of d] di have "as ! d = ''--''" by (simp add: delimiter_argument)
  moreover from list_all2_nthD [OF m, of i] di have "as ! i = file" by (simp add: file_argument)
  ultimately show ?thesis using di list_all2_lengthD [OF m] by fastforce
qed

section \<open>The command is the reviewed one\<close>

lemma resolve_location_inside:
  "resolve_location pv cwd reported recorded current = Inr f \<Longrightarrow> in_recorded pv recorded f \<and> in_current pv current f"
  by (auto simp: resolve_location_def res_simps)

text \<open>The command an editor is started with carries exactly the reviewed arguments and the
  reviewed executable, found unchanged; the reviewed file still is the same regular file, inside a root recorded
  by the run and inside one registered now.\<close>

theorem command_is_reviewed:
  assumes "command v pv pl env w = (Inr c, w')"
  shows "ec_args c = ew_arguments (ep_review pl) \<and> ec_cwd c = ep_cwd pl
    \<and> executable pv (ed_executable (ep_config pl)) = Inr (ec_program c, ep_executable pl)
    \<and> path_eq (ec_program c) (ew_executable (ep_review pl))
    \<and> (\<exists>p roots file. pr_editor p = Some (ep_config pl) \<and> current_roots pv p = Inr roots
        \<and> path_eq file (ew_file (ep_review pl)) \<and> regular_source pv file = Inr (ep_source pl)
        \<and> in_recorded pv (ep_recorded_roots pl) file \<and> in_current pv roots file)"
proof -
  from assms obtain u where "check_plan pv pl env u = Inr c"
    by (auto simp: command_def op_simps)
  then show ?thesis
    by (auto simp: check_plan_def res_simps dest: resolve_location_inside)
qed

section \<open>Quoting a few arguments\<close>

theorem argv_roundtrip_witness:
  "\<exists>qs. map_res quote_arg [''/opt/a b'', ''--'', ''it'' @ [CHR 0x27] @ ''s $x;'', []] = Inr qs
     \<and> parse_editor_argv (join_words qs) = Inr [''/opt/a b'', ''--'', ''it'' @ [CHR 0x27] @ ''s $x;'', []]"
proof -
  have q: "is_ok (map_res quote_arg [''/opt/a b'', ''--'', ''it'' @ [CHR 0x27] @ ''s $x;'', []])"
    "length (join_words (projr (map_res quote_arg [''/opt/a b'', ''--'', ''it'' @ [CHR 0x27] @ ''s $x;'', []]))) \<le> 16384"
    by code_simp+
  from q(1) obtain qs where m: "map_res quote_arg [''/opt/a b'', ''--'', ''it'' @ [CHR 0x27] @ ''s $x;'', []] = Inr qs"
    by (auto simp: is_ok_def split: sum.splits)
  have p: "list_all (\<lambda>a. to_str a \<noteq> None \<and> \<not> has_control a \<and> length a \<le> 8192) [''/opt/a b'', ''--'', ''it'' @ [CHR 0x27] @ ''s $x;'', []]"
    by code_simp
  have l: "length [''/opt/a b'', ''--'', ''it'' @ [CHR 0x27] @ ''s $x;'', []] \<le> 64" by simp
  from q(2) have "length (join_words qs) \<le> 16384" unfolding m sum.sel .
  from argv_roundtrip [OF m p l this] m show ?thesis by blast
qed

end
