(* ===== verification/Portable.thy ===== *)
theory Portable
  imports Rebind Editor
begin

text \<open>
  Portable declarations (\<open>portable.rs\<close>): the declaration and preference records, environment
  patches, the layers that resolve a declaration into local definitions, and what an existing
  project keeps.  TOML and the declaration file of a folder are parameters; preferences live in
  the configuration store.
\<close>

definition DECLARATION_LIMIT :: nat where "DECLARATION_LIMIT = 1048576"

section \<open>Records\<close>

record shell_declaration =
  sd_program :: "string option"
  sd_args :: "string list option"
  sd_env :: environment
  sd_unset_env :: "string list"
  sd_clear_env :: bool
  sd_cwd :: "path option"
  sd_legacy_csh :: "bool option"
  sd_login :: "bool option"
  sd_sources :: "source_spec list option"

record editor_declaration =
  de_program :: "string option"
  de_args :: "string list option"
  de_external_gui :: "bool option"

record terminal_declaration =
  dt_name :: "string option"
  dt_cwd :: "path option"
  dt_sources :: "source_spec list option"
  dt_persistent :: "bool option"

record task_declaration =
  dk_name :: "string option"
  dk_program :: "string option"
  dk_args :: "string list option"
  dk_interpreter :: "string option"
  dk_script :: "string option"
  dk_command :: "string option"
  dk_cwd :: "path option"
  dk_env :: environment
  dk_sources :: "source_spec list"
  dk_steps :: "task_step list"
  dk_interactive :: bool
  dk_disable_logging :: bool
  dk_continue_on_failure :: bool
  dk_artifact :: "path option"
  dk_build_outputs :: "path list"
  dk_artifact_from_task :: "string option"
  dk_timeout_seconds :: "nat option"

record portable_declaration =
  dc_schema :: nat
  dc_name :: "string option"
  dc_shell :: "shell_declaration option"
  dc_editor :: "editor_declaration option"
  dc_terminals :: "terminal_declaration btree"
  dc_tasks :: "task_declaration btree"

record preferences =
  up_schema :: nat
  up_shell :: "shell_declaration option"
  up_editor :: "editor_declaration option"

definition empty_shell_declaration :: shell_declaration where
  "empty_shell_declaration = \<lparr>sd_program = None, sd_args = None, sd_env = [], sd_unset_env = [],
     sd_clear_env = False, sd_cwd = None, sd_legacy_csh = None, sd_login = None, sd_sources = None\<rparr>"

definition empty_editor_declaration :: editor_declaration where
  "empty_editor_declaration = \<lparr>de_program = None, de_args = None, de_external_gui = None\<rparr>"

definition empty_terminal_declaration :: terminal_declaration where
  "empty_terminal_declaration = \<lparr>dt_name = None, dt_cwd = None, dt_sources = None, dt_persistent = None\<rparr>"

definition default_declaration :: portable_declaration where
  "default_declaration = \<lparr>dc_schema = 1, dc_name = None, dc_shell = None, dc_editor = None, dc_terminals = [],
     dc_tasks = []\<rparr>"

definition default_preferences :: preferences where
  "default_preferences = \<lparr>up_schema = 1, up_shell = None, up_editor = None\<rparr>"

record declaration_snapshot =
  dn_path :: path
  dn_raw :: string
  dn_digest :: string
  dn_declaration :: portable_declaration

record resolved_project =
  rj_revision :: nat
  rj_project :: project
  rj_binding :: "portable_binding option"
  rj_preferences_digest :: "string option"
  rj_origins :: "string btree"

datatype toml_value = TomlTable "(string \<times> toml_value) list" | TomlOther string

record portable_toml =
  py_declaration :: "string \<Rightarrow> portable_declaration res"
  py_preferences :: "string \<Rightarrow> preferences res"
  py_print_preferences :: "preferences \<Rightarrow> string res"
  py_value :: "string \<Rightarrow> toml_value res"
  py_print_value :: "toml_value \<Rightarrow> string res"

text \<open>The surroundings of one operation.\<close>

record portable =
  pn_ext :: ext
  pn_codec :: codec
  pn_store :: store
  pn_toml :: portable_toml
  pn_ob :: observation
  pn_pv :: probe

section \<open>Environment patches\<close>

record environment_patch =
  ev_replace :: "environment option"
  ev_clear :: bool
  ev_set :: environment
  ev_unset :: "string list"

definition no_patch :: environment_patch where
  "no_patch = \<lparr>ev_replace = None, ev_clear = False, ev_set = [], ev_unset = []\<rparr>"

definition unset_key :: "environment \<Rightarrow> string \<Rightarrow> environment res" where
  "unset_key env key = ensure (key \<noteq> [] \<and> CHR ''='' \<notin> set key \<and> nul \<notin> set key) ''invalid environment key to remove''
     (Inr (bt_remove key env))"

definition apply_patch :: "environment_patch \<Rightarrow> environment \<Rightarrow> environment res" where
  "apply_patch p target =
    ensure (\<not> (ev_replace p \<noteq> None \<and> (ev_clear p \<or> ev_set p \<noteq> [] \<or> ev_unset p \<noteq> [])))
      ''environment replacement cannot be combined with key patches/clear''
    (let base = (case ev_replace p of Some r \<Rightarrow> r | None \<Rightarrow> if ev_clear p then [] else target) in
     and_then (fold_res unset_key base (ev_unset p)) (\<lambda>next.
     let next = bt_extend next (ev_set p) in
     and_then (validate_execution_arguments [] next) (\<lambda>_. Inr next)))"

definition default_native :: native_shell where
  "default_native = \<lparr>ns_args = [], ns_env = []\<rparr>"

definition make_native :: "shell_config \<Rightarrow> shell_config" where
  "make_native s = (if sc_native s = None
     then s\<lparr>sc_native := Some default_native, sc_login := False, sc_sources := []\<rparr> else s)"

definition patches :: "string list option \<Rightarrow> environment_patch \<Rightarrow> bool" where
  "patches args e = (args \<noteq> None \<or> ev_replace e \<noteq> None \<or> ev_clear e \<or> ev_set e \<noteq> [] \<or> ev_unset e \<noteq> [])"

definition patch_native :: "shell_config \<Rightarrow> bool \<Rightarrow> string list option \<Rightarrow> environment_patch \<Rightarrow> shell_config res" where
  "patch_native s native args e =
    (let s = (if native then make_native s else s) in
     if \<not> patches args e then Inr s else
     and_then (context_opt (sc_native s) ''native argv/environment editing requires native mode'') (\<lambda>d.
     and_then (case args of None \<Rightarrow> Inr d
       | Some a \<Rightarrow> and_then (validate_execution_arguments a (ns_env d)) (\<lambda>_. Inr (d\<lparr>ns_args := a\<rparr>))) (\<lambda>d.
     and_then (apply_patch e (ns_env d)) (\<lambda>env.
     Inr (s\<lparr>sc_native := Some (d\<lparr>ns_env := env\<rparr>)\<rparr>)))))"

section \<open>Reading\<close>

text \<open>\<open>ob_declaration\<close> answers the bounded read: the bytes, or nothing when there is no file.\<close>

definition parse_declaration :: "portable_toml \<Rightarrow> string \<Rightarrow> portable_declaration res" where
  "parse_declaration t raw =
    and_then (with_context (py_declaration t raw) ''invalid declaration (original preserved)'') (\<lambda>d.
    ensure (dc_schema d = 1) ''unsupported declaration schema (preserved)''
    (ensure (length (dc_tasks d) \<le> 128 \<and> length (dc_terminals d) \<le> 64) ''declaration exceeds task/terminal limits''
    (and_then (check_all valid_name (bt_keys (dc_tasks d) @ bt_keys (dc_terminals d))) (\<lambda>_. Inr d))))"

definition read_declaration :: "portable \<Rightarrow> path \<Rightarrow> declaration_snapshot option res" where
  "read_declaration n root =
    (let p = join_path root DECLARATION in
     and_then (ob_declaration (pn_ob n) p) (\<lambda>b. case b of None \<Rightarrow> Inr None | Some raw \<Rightarrow>
     ensure (to_str raw \<noteq> None) ''idk.toml is not UTF-8 (preserved)''
     (and_then (parse_declaration (pn_toml n) raw) (\<lambda>d.
      Inr (Some \<lparr>dn_path = p, dn_raw = raw, dn_digest = sha256_hex (pn_ext n) raw, dn_declaration = d\<rparr>)))))"

definition preferences_path :: "portable \<Rightarrow> path" where
  "preferences_path n = join_path (so_config_dir (pn_store n)) ''preferences.toml''"

definition decode_preferences :: "portable \<Rightarrow> string \<Rightarrow> (preferences \<times> string option) res" where
  "decode_preferences n bytes =
    ensure (to_str bytes \<noteq> None) ''invalid utf-8 sequence''
    (and_then (with_context (py_preferences (pn_toml n) bytes) ''invalid preferences.toml (preserved)'') (\<lambda>v.
     ensure (up_schema v = 1) ''unsupported preferences schema (preserved)''
     (Inr (v, Some (sha256_hex (pn_ext n) bytes)))))"

definition load_preferences :: "portable \<Rightarrow> (world, preferences \<times> string option) op" where
  "load_preferences n w = (case read_private (preferences_path n) DECLARATION_LIMIT w of
      (Inr bytes, w') \<Rightarrow> (decode_preferences n bytes, w')
    | (Inl NotFound, w') \<Rightarrow> (Inr (default_preferences, None), w')
    | (Inl e, w') \<Rightarrow> (Inl e, w'))"

definition save_preferences :: "portable \<Rightarrow> string option \<Rightarrow> preferences \<Rightarrow> (world, string) op" where
  "save_preferences n expected p =
    op_ensure (up_schema p = 1) ''unsupported preferences schema''
    (op_try (acquire_lock (join_path (so_config_dir (pn_store n)) ''preferences.lock'')) (\<lambda>_.
     op_try (load_preferences n) (\<lambda>(_, current).
     op_ensure (current = expected) ''preferences changed externally; draft and original preserved''
     (op_try (op_lift (py_print_preferences (pn_toml n) p)) (\<lambda>t.
      op_ensure (length t \<le> DECLARATION_LIMIT) ''preferences exceed size limit''
      (op_try (atomic_write (preferences_path n) t) (\<lambda>_.
       op_return (sha256_hex (pn_ext n) t))))))))"

section \<open>Layers\<close>

definition declared_runnable :: "os \<Rightarrow> path \<Rightarrow> bool" where
  "declared_runnable sy p = (case os_metadata sy p of Inl _ \<Rightarrow> False
     | Inr m \<Rightarrow> fm_is_file m \<and> Bit_Operations.and (fm_mode m) 73 \<noteq> 0)"

definition resolve_declared :: "portable \<Rightarrow> string \<Rightarrow> path \<Rightarrow> environment \<Rightarrow> path res" where
  "resolve_declared n program base env =
    ensure (program \<noteq> [] \<and> nul \<notin> set program) ''executable must be nonempty without NUL''
    (context_opt (find (declared_runnable (ob_os (pn_ob n))) (program_candidates program base env))
      ''executable unavailable; install it or set an explicit path (no substitute selected)'')"

definition declared_path :: "path \<Rightarrow> path \<Rightarrow> path" where
  "declared_path base p = path_text (filter (\<lambda>c. c \<noteq> CurDir)
     (components (if is_absolute p then p else join_path base p)))"

definition declared_sources :: "path \<Rightarrow> source_spec list \<Rightarrow> source_spec list" where
  "declared_sources base = map (\<lambda>s. s\<lparr>ss_path := declared_path base (ss_path s)\<rparr>)"

definition apply_shell :: "portable \<Rightarrow> shell_config \<Rightarrow> shell_declaration \<Rightarrow> path \<Rightarrow> environment \<Rightarrow> shell_config res" where
  "apply_shell n s d base env =
    and_then (case sd_program d of None \<Rightarrow> Inr s
      | Some p \<Rightarrow> and_then (resolve_declared n p base env) (\<lambda>e. Inr (s\<lparr>sc_executable := e\<rparr>))) (\<lambda>s.
    let s = (case sd_cwd d of None \<Rightarrow> s | Some c \<Rightarrow> s\<lparr>sc_init_cwd := declared_path base c\<rparr>) in
    and_then (case sd_legacy_csh d of None \<Rightarrow> Inr s
      | Some True \<Rightarrow> Inr (s\<lparr>sc_native := None\<rparr>)
      | Some False \<Rightarrow> patch_native s True None no_patch) (\<lambda>s.
    let s = (case sd_login d of None \<Rightarrow> s | Some l \<Rightarrow> s\<lparr>sc_login := l\<rparr>);
        s = (case sd_sources d of None \<Rightarrow> s | Some v \<Rightarrow> s\<lparr>sc_sources := declared_sources base v\<rparr>) in
    if sd_args d \<noteq> None \<or> sd_env d \<noteq> [] \<or> sd_unset_env d \<noteq> [] \<or> sd_clear_env d
    then patch_native s False (sd_args d)
      \<lparr>ev_replace = None, ev_clear = sd_clear_env d, ev_set = sd_env d, ev_unset = sd_unset_env d\<rparr>
    else Inr s))"

definition apply_editor :: "portable \<Rightarrow> editor_config option \<Rightarrow> editor_declaration \<Rightarrow> path \<Rightarrow> environment \<Rightarrow> editor_config res" where
  "apply_editor n e d base env =
    and_then (case de_program d of
        Some p \<Rightarrow> resolve_declared n p base env
      | None \<Rightarrow> and_then (context_opt e ''editor args require an editor program or user preference'') (\<lambda>c.
          Inr (ed_executable c))) (\<lambda>program.
    Inr \<lparr>ed_executable = program,
      ed_args = (case de_args d of Some a \<Rightarrow> a | None \<Rightarrow> (case e of Some c \<Rightarrow> ed_args c | None \<Rightarrow> [''{file}''])),
      ed_external_gui = (case de_external_gui d of Some g \<Rightarrow> g | None \<Rightarrow> (case e of Some c \<Rightarrow> ed_external_gui c | None \<Rightarrow> False))\<rparr>)"

definition discover_default_editor :: "portable \<Rightarrow> environment \<Rightarrow> path \<Rightarrow> project \<times> string btree \<Rightarrow> (project \<times> string btree) res" where
  "discover_default_editor n env root po = (case po of (p, origins) \<Rightarrow>
    if pr_editor p \<noteq> None then Inr po else
    and_then (discover_editor (pn_pv n) None env root) (\<lambda>c. case c of
        None \<Rightarrow> Inr po
      | Some k \<Rightarrow> if ek_available k
          then Inr (p\<lparr>pr_editor := Some (ek_config k)\<rparr>, bt_insert ''editor'' (''discovered: '' @ ek_origin k) origins)
          else Inr (p, bt_insert ''editor'' (''unavailable '' @ ek_origin k @ '': ''
            @ (case ek_reason k of None \<Rightarrow> [] | Some r \<Rightarrow> r)) origins)))"

text \<open>\<open>project::discover_shells\<close>: executable shells, each canonical path once.\<close>

definition shell_paths :: "environment \<Rightarrow> path list" where
  "shell_paths env =
    (case map_of env ''SHELL'' of None \<Rightarrow> [] | Some s \<Rightarrow> [s])
    @ (case map_of env ''PATH'' of None \<Rightarrow> [] | Some search \<Rightarrow>
        concat (map (\<lambda>d. map (join_path d) [''bash'', ''zsh'', ''sh'', ''tcsh'', ''csh''])
          (filter is_absolute (split_on (CHR '':'') search))))
    @ [''/bin/sh'', ''/bin/bash'', ''/bin/zsh'']"

fun keep_shells :: "os \<Rightarrow> component list list \<Rightarrow> path list \<Rightarrow> path list" where
  "keep_shells sy seen [] = []"
| "keep_shells sy seen (p # ps) =
    (if \<not> is_absolute p then keep_shells sy seen ps else
     (case os_canonicalize sy p of Inl _ \<Rightarrow> keep_shells sy seen ps | Inr c \<Rightarrow>
       if \<not> declared_runnable sy c \<or> components c \<in> set seen then keep_shells sy seen ps
       else p # keep_shells sy (components c # seen) ps))"

definition discover_shells :: "os \<Rightarrow> environment \<Rightarrow> path list" where
  "discover_shells sy env = keep_shells sy [] (shell_paths env)"

end
