(* ===== verification/Portable_Resolve.thy ===== *)
theory Portable_Resolve
  imports Portable
begin

text \<open>
  Resolving a declaration (\<open>portable.rs\<close>: \<open>resolve_for\<close> and \<open>apply\<close>): defaults, user preferences,
  the project declaration, explicit local overrides, and the approvals an existing project keeps.
\<close>

section \<open>What is compared\<close>

definition semantic_task :: "task_definition \<Rightarrow> task_definition" where
  "semantic_task t = t\<lparr>ta_approved_digest := None\<rparr>"

definition semantic_shell :: "shell_config \<Rightarrow> shell_config" where
  "semantic_shell s = s\<lparr>sc_trusted_digest := None\<rparr>"

definition semantic_terminal :: "terminal_definition \<Rightarrow> terminal_definition" where
  "semantic_terminal t = t\<lparr>td_trusted_digest := None\<rparr>"

text \<open>\<open>==\<close> on definitions compares paths by components.\<close>

definition norm_shell :: "shell_config \<Rightarrow> shell_config" where
  "norm_shell s = s\<lparr>sc_executable := norm_path (sc_executable s), sc_init_cwd := norm_path (sc_init_cwd s),
     sc_sources := norm_sources (sc_sources s)\<rparr>"

definition norm_terminal :: "terminal_definition \<Rightarrow> terminal_definition" where
  "norm_terminal t = t\<lparr>td_cwd := norm_path (td_cwd t), td_sources := norm_sources (td_sources t)\<rparr>"

definition norm_editor :: "editor_config \<Rightarrow> editor_config" where
  "norm_editor e = e\<lparr>ed_executable := norm_path (ed_executable e)\<rparr>"

definition same_task_config :: "task_definition \<Rightarrow> task_definition \<Rightarrow> bool" where
  "same_task_config t u = (norm_task (semantic_task t) = norm_task (semantic_task u))"

definition same_shell_config :: "shell_config \<Rightarrow> shell_config \<Rightarrow> bool" where
  "same_shell_config s u = (norm_shell (semantic_shell s) = norm_shell (semantic_shell u))"

definition same_terminal_config :: "terminal_definition \<Rightarrow> terminal_definition \<Rightarrow> bool" where
  "same_terminal_config t u = (norm_terminal (semantic_terminal t) = norm_terminal (semantic_terminal u))"

section \<open>Local overrides\<close>

type_synonym origins = "string btree"

definition override :: "string \<Rightarrow> origins \<Rightarrow> origins" where
  "override k = bt_insert k ''local override''"

definition override_scalars :: "shell_config \<Rightarrow> shell_config \<Rightarrow> shell_config \<times> origins \<Rightarrow> shell_config \<times> origins" where
  "override_scalars cur base so =
    (let so = (if path_eq (sc_executable cur) (sc_executable base) then so
           else ((fst so)\<lparr>sc_executable := sc_executable cur\<rparr>, override ''shell.executable'' (snd so)));
         so = (if sc_login cur = sc_login base then so
           else ((fst so)\<lparr>sc_login := sc_login cur\<rparr>, override ''shell.login'' (snd so)));
         so = (if path_eq (sc_init_cwd cur) (sc_init_cwd base) then so
           else ((fst so)\<lparr>sc_init_cwd := sc_init_cwd cur\<rparr>, override ''shell.init_cwd'' (snd so)))
     in if norm_sources (sc_sources cur) = norm_sources (sc_sources base) then so
        else ((fst so)\<lparr>sc_sources := sc_sources cur\<rparr>, override ''shell.sources'' (snd so)))"

definition override_env :: "environment \<Rightarrow> environment \<Rightarrow> environment \<times> origins \<Rightarrow> environment \<times> origins" where
  "override_env local old eo =
    (let kept = fold bt_remove (filter (\<lambda>k. map_of local k = None) (bt_keys old)) (fst eo) in
     fold (\<lambda>(k, v) (e, os). if map_of old k = Some v then (e, os)
         else (bt_insert k v e, override (''shell.env.'' @ k) os)) local (kept, snd eo))"

definition override_native :: "native_shell option \<Rightarrow> native_shell option \<Rightarrow> shell_config \<times> origins \<Rightarrow> shell_config \<times> origins" where
  "override_native cur base so = (case (cur, base, sc_native (fst so)) of
      (Some l, Some b, Some x) \<Rightarrow>
        (let xo = (if ns_args l = ns_args b then (x, snd so) else (x\<lparr>ns_args := ns_args l\<rparr>, override ''shell.args'' (snd so)));
             eo = override_env (ns_env l) (ns_env b) (ns_env (fst xo), snd xo)
         in ((fst so)\<lparr>sc_native := Some ((fst xo)\<lparr>ns_env := fst eo\<rparr>)\<rparr>, snd eo))
    | _ \<Rightarrow> if cur \<noteq> base then ((fst so)\<lparr>sc_native := cur\<rparr>, override ''shell.mode'' (snd so)) else so)"

definition override_terminal :: "project \<Rightarrow> project \<Rightarrow> terminal_definition \<Rightarrow> terminal_definition" where
  "override_terminal cur base t =
    (case (find (\<lambda>u. td_id u = td_id t) (pr_terminals cur), find (\<lambda>u. td_id u = td_id t) (pr_terminals base)) of
      (Some l, Some b) \<Rightarrow>
        (let t = (if td_name l = td_name b then t else t\<lparr>td_name := td_name l\<rparr>);
             t = (if path_eq (td_cwd l) (td_cwd b) then t else t\<lparr>td_cwd := td_cwd l\<rparr>);
             t = (if norm_sources (td_sources l) = norm_sources (td_sources b) then t else t\<lparr>td_sources := td_sources l\<rparr>)
         in if td_persistent l = td_persistent b then t else t\<lparr>td_persistent := td_persistent l\<rparr>)
    | _ \<Rightarrow> t)"

definition local_overrides :: "project \<Rightarrow> project \<Rightarrow> project \<times> origins \<Rightarrow> project \<times> origins" where
  "local_overrides cur base po = (case po of (p, origins) \<Rightarrow>
    let so = override_native (sc_native (pr_shell cur)) (sc_native (pr_shell base))
               (override_scalars (pr_shell cur) (pr_shell base) (pr_shell p, origins));
        p = p\<lparr>pr_shell := fst so\<rparr>; origins = snd so;
        (p, origins) = (if map_option norm_editor (pr_editor cur) = map_option norm_editor (pr_editor base) then (p, origins)
           else (p\<lparr>pr_editor := pr_editor cur\<rparr>, override ''editor'' origins));
        (p, origins) = (if pr_name cur = pr_name base then (p, origins)
           else (p\<lparr>pr_name := pr_name cur\<rparr>, override ''name'' origins))
    in (p\<lparr>pr_terminals := map (override_terminal cur base) (pr_terminals p)\<rparr>, origins))"

section \<open>Declared definitions\<close>

definition declared_terminal :: "shell_config \<Rightarrow> path \<Rightarrow> string btree \<Rightarrow> string \<times> terminal_declaration \<Rightarrow> terminal_definition" where
  "declared_terminal sh root ids kv = (case kv of (key, v) \<Rightarrow>
    \<lparr>td_id = the (map_of ids key), td_name = (case dt_name v of Some n \<Rightarrow> n | None \<Rightarrow> key),
     td_cwd = (case dt_cwd v of Some p \<Rightarrow> declared_path root p
       | None \<Rightarrow> if sc_native sh \<noteq> None then sc_init_cwd sh else root),
     td_sources = declared_sources root (case dt_sources v of Some s \<Rightarrow> s | None \<Rightarrow> []),
     td_persistent = (case dt_persistent v of Some b \<Rightarrow> b | None \<Rightarrow> True), td_trusted_digest = None\<rparr>)"

definition task_modes :: "task_declaration \<Rightarrow> nat" where
  "task_modes v = of_bool (dk_program v \<noteq> None) + of_bool (dk_interpreter v \<noteq> None \<or> dk_script v \<noteq> None)
     + of_bool (dk_command v \<noteq> None \<or> dk_steps v \<noteq> [])"

definition declared_execution :: "portable \<Rightarrow> path \<Rightarrow> environment \<Rightarrow> string \<Rightarrow> task_declaration \<Rightarrow> task_execution option res" where
  "declared_execution n root env key v =
    (let args = (case dk_args v of Some a \<Rightarrow> a | None \<Rightarrow> []) in
     case dk_program v of
       Some program \<Rightarrow> and_then (with_context (resolve_declared n program root env) (''tasks.'' @ key @ ''.program'')) (\<lambda>p.
         Inr (Some (Process p args (dk_env v))))
     | None \<Rightarrow> (case dk_interpreter v of
         Some i \<Rightarrow> and_then (with_context (resolve_declared n i root env) (''tasks.'' @ key @ ''.interpreter'')) (\<lambda>p.
           and_then (context_opt (dk_script v) ''interpreter requires inline script'') (\<lambda>s.
           Inr (Some (Script p args s (dk_env v)))))
       | None \<Rightarrow> ensure (dk_script v = None \<and> dk_args v = None \<and> dk_env v = [])
           ''legacy task args/env are configured through its legacy shell'' (Inr None)))"

definition declared_task :: "portable \<Rightarrow> shell_config \<Rightarrow> path \<Rightarrow> environment \<Rightarrow> task_declaration btree \<Rightarrow> string btree
    \<Rightarrow> string \<times> task_declaration \<Rightarrow> task_definition res" where
  "declared_task n sh root env declared ids kv = (case kv of (key, v) \<Rightarrow>
    ensure (task_modes v = 1) (''tasks.'' @ key @ '' must choose exactly one of program, interpreter+script, or legacy command/steps'')
    (and_then (declared_execution n root env key v) (\<lambda>execution.
     ensure (execution \<noteq> None \<or> sc_native sh = None) (''tasks.'' @ key @ '': legacy command requires shell.legacy_csh=true'')
     (and_then (case dk_artifact_from_task v of None \<Rightarrow> Inr None
        | Some k \<Rightarrow> ensure (map_of declared k \<noteq> None) (''unknown artifact_from_task key '' @ k) (Inr (map_of ids k))) (\<lambda>from.
      Inr \<lparr>ta_execution = execution, ta_id = the (map_of ids key),
        ta_name = (case dk_name v of Some n \<Rightarrow> n | None \<Rightarrow> key),
        ta_command = (case dk_command v of Some c \<Rightarrow> c | None \<Rightarrow> []),
        ta_cwd = (case dk_cwd v of Some p \<Rightarrow> declared_path root p | None \<Rightarrow> root),
        ta_sources = declared_sources root (dk_sources v), ta_artifact = map_option (declared_path root) (dk_artifact v),
        ta_approved_digest = None, ta_steps = dk_steps v,
        ta_failure_policy = (if dk_continue_on_failure v then ContinueOnFailure else StopOnFailure),
        ta_logging = (if dk_interactive v \<or> dk_disable_logging v then DisabledLogging else RawLogging),
        ta_interactive = dk_interactive v, ta_build_outputs = map (declared_path root) (dk_build_outputs v),
        ta_artifact_from_task = from, ta_timeout_seconds = dk_timeout_seconds v\<rparr>)))))"

section \<open>Shell and editor layers\<close>

definition resolve_shell :: "portable \<Rightarrow> portable_declaration \<Rightarrow> preferences \<Rightarrow> path \<Rightarrow> environment \<Rightarrow> (shell_config \<times> origins) res" where
  "resolve_shell n d prefs root env =
    and_then (context_opt (case discover_shells (ob_os (pn_ob n)) env of [] \<Rightarrow> None | s # _ \<Rightarrow> Some s)
      ''no executable default shell; set a shell preference or declaration'') (\<lambda>default.
    let s = \<lparr>sc_native = Some default_native, sc_executable = default, sc_login = False, sc_init_cwd = root,
         sc_sources = [], sc_trusted_digest = None\<rparr>;
        os = bt_insert ''shell'' ''default shell candidate'' [] in
    and_then (case up_shell prefs of None \<Rightarrow> Inr (s, os)
      | Some pref \<Rightarrow>
        (let pref = (case dc_shell d of Some v \<Rightarrow> if sd_program v \<noteq> None then pref\<lparr>sd_program := None\<rparr> else pref
            | None \<Rightarrow> pref) in
         and_then (apply_shell n s pref (so_config_dir (pn_store n)) env) (\<lambda>s.
         Inr (s, bt_insert ''shell'' ''user preference'' os)))) (\<lambda>(s, os).
    case dc_shell d of None \<Rightarrow> Inr (s, os)
      | Some v \<Rightarrow> and_then (apply_shell n s v root env) (\<lambda>s. Inr (s, bt_insert ''shell'' ''project declaration'' os))))"

definition resolve_editor :: "portable \<Rightarrow> portable_declaration \<Rightarrow> preferences \<Rightarrow> path \<Rightarrow> environment
    \<Rightarrow> project \<times> origins \<Rightarrow> (project \<times> origins) res" where
  "resolve_editor n d prefs root env po =
    (if up_editor prefs = None \<and> dc_editor d = None then Inr po else
     let e = (case up_editor prefs of Some e \<Rightarrow> e | None \<Rightarrow> empty_editor_declaration);
         os = bt_insert ''editor'' ''user preference'' (snd po);
         (e, base, os) = (case dc_editor d of None \<Rightarrow> (e, so_config_dir (pn_store n), os)
           | Some v \<Rightarrow> (\<lparr>de_program = (if de_program v \<noteq> None then de_program v else de_program e),
               de_args = (if de_args v \<noteq> None then de_args v else de_args e),
               de_external_gui = (if de_external_gui v \<noteq> None then de_external_gui v else de_external_gui e)\<rparr>,
               if de_program v \<noteq> None then root else so_config_dir (pn_store n),
               bt_insert ''editor'' ''project declaration'' os))
     in and_then (apply_editor n (pr_editor (fst po)) e base env) (\<lambda>c. Inr ((fst po)\<lparr>pr_editor := Some c\<rparr>, os)))"

section \<open>What an existing project keeps\<close>

definition managed_ids :: "(portable_binding \<Rightarrow> string btree) \<Rightarrow> portable_binding option \<Rightarrow> string list" where
  "managed_ids f previous = (case previous of None \<Rightarrow> [] | Some b \<Rightarrow> map snd (f b))"

definition edited_locally :: "project \<Rightarrow> project \<Rightarrow> task_definition \<Rightarrow> bool" where
  "edited_locally p existing old = (case find (\<lambda>t. ta_id t = ta_id old) (pr_tasks existing) of None \<Rightarrow> False
     | Some l \<Rightarrow> \<not> (same_task_config l old \<or> list_ex (\<lambda>t. ta_id t = ta_id l \<and> same_task_config t l) (pr_tasks p)))"

definition merge_layers :: "portable_declaration \<Rightarrow> portable_binding option \<Rightarrow> project \<Rightarrow> project \<times> origins
    \<Rightarrow> (project \<times> origins) res" where
  "merge_layers d previous existing po = (case previous of
      Some b \<Rightarrow>
        (let po = local_overrides existing (pb_resolved b) po in
         ensure (\<not> list_ex (edited_locally (fst po) existing) (pr_tasks (pb_resolved b)))
           ''declaration task was edited locally; update idk.toml or preserve the local draft before syncing'' (Inr po))
    | None \<Rightarrow>
        (let (p, os) = po;
             (p, os) = (if dc_shell d = None then (p\<lparr>pr_shell := pr_shell existing\<rparr>,
                bt_insert ''shell'' ''existing local definition'' os) else (p, os));
             p = (if dc_editor d = None then p\<lparr>pr_editor := pr_editor existing\<rparr> else p)
         in Inr (p, os)))"

definition keep_local :: "portable_binding option \<Rightarrow> project \<Rightarrow> project \<Rightarrow> project" where
  "keep_local previous existing p =
    p\<lparr>pr_tasks := pr_tasks p @ filter (\<lambda>t. ta_id t \<notin> set (managed_ids pb_task_ids previous)
         \<and> \<not> list_ex (\<lambda>m. ta_id m = ta_id t) (pr_tasks p)) (pr_tasks existing),
      pr_terminals := pr_terminals p @ filter (\<lambda>t. td_id t \<notin> set (managed_ids pb_terminal_ids previous)
         \<and> \<not> list_ex (\<lambda>m. td_id m = td_id t) (pr_terminals p)) (pr_terminals existing)\<rparr>"

definition keep_terminal_trust :: "project \<Rightarrow> terminal_definition \<Rightarrow> terminal_definition" where
  "keep_terminal_trust existing t = (case find (\<lambda>u. td_id u = td_id t \<and> same_terminal_config u t) (pr_terminals existing) of
      None \<Rightarrow> t | Some u \<Rightarrow> t\<lparr>td_trusted_digest := td_trusted_digest u\<rparr>)"

definition keep_task_approval :: "project \<Rightarrow> task_definition \<Rightarrow> task_definition" where
  "keep_task_approval existing t = (case find (\<lambda>u. ta_id u = ta_id t \<and> same_task_config u t) (pr_tasks existing) of
      None \<Rightarrow> t | Some u \<Rightarrow> t\<lparr>ta_approved_digest := ta_approved_digest u\<rparr>)"

definition keep_trust :: "project \<Rightarrow> project \<Rightarrow> project" where
  "keep_trust existing p =
    (let p = (if same_shell_config (pr_shell p) (pr_shell existing)
           then p\<lparr>pr_shell := (pr_shell p)\<lparr>sc_trusted_digest := sc_trusted_digest (pr_shell existing)\<rparr>\<rparr> else p);
         p = p\<lparr>pr_terminals := map (keep_terminal_trust existing) (pr_terminals p),
               pr_tasks := map (keep_task_approval existing) (pr_tasks p)\<rparr>
     in if (case pr_default_terminal existing of None \<Rightarrow> False
          | Some i \<Rightarrow> list_ex (\<lambda>t. td_id t = i \<and> td_persistent t) (pr_terminals p))
        then p\<lparr>pr_default_terminal := pr_default_terminal existing\<rparr> else p)"

definition merge_existing :: "portable_declaration \<Rightarrow> portable_binding option \<Rightarrow> project option \<Rightarrow> project \<times> origins
    \<Rightarrow> (project \<times> origins) res" where
  "merge_existing d previous existing po = (case existing of None \<Rightarrow> Inr po
    | Some e \<Rightarrow> and_then (merge_layers d previous e po) (\<lambda>(p, os). Inr (keep_trust e (keep_local previous e p), os)))"

section \<open>Resolution\<close>

definition same_root :: "portable \<Rightarrow> path \<Rightarrow> project \<Rightarrow> bool" where
  "same_root n root p = (case os_canonicalize (ob_os (pn_ob n)) (pr_root p) of Inl _ \<Rightarrow> False | Inr c \<Rightarrow> path_eq c root)"

definition match_existing :: "portable \<Rightarrow> workspace \<Rightarrow> path \<Rightarrow> string option \<Rightarrow> project option res" where
  "match_existing n w root selected =
    (let matches = filter (same_root n root) (ws_projects w) in
     case selected of
       Some i \<Rightarrow> and_then (find_project w i) (\<lambda>p.
         ensure (list_ex (\<lambda>q. pr_id q = pr_id p) matches) ''selected project belongs to a different root'' (Inr (Some p)))
     | None \<Rightarrow> ensure (length matches \<le> 1) ''multiple local projects share this root; choose a project ID''
         (Inr (case matches of [] \<Rightarrow> None | p # _ \<Rightarrow> Some p)))"

text \<open>\<open>entry(key).or_insert_with(new_id)\<close> for every key.\<close>

fun assign_ids :: "string list \<Rightarrow> string btree \<Rightarrow> (world, string btree) op" where
  "assign_ids [] ids = op_return ids"
| "assign_ids (k # ks) ids = (if map_of ids k \<noteq> None then assign_ids ks ids
     else op_try new_id (\<lambda>i. assign_ids ks (bt_insert k i ids)))"

definition file_name_text :: "path \<Rightarrow> string" where
  "file_name_text p = (if components p = [] then [] else case last (components p) of
     Normal s \<Rightarrow> utf8_text (lossy_codes (bytes_of s)) | _ \<Rightarrow> [])"

definition adopt_identity :: "project option \<Rightarrow> project \<Rightarrow> project" where
  "adopt_identity existing p = (case existing of None \<Rightarrow> p
    | Some e \<Rightarrow> p\<lparr>pr_id := pr_id e, pr_repository := pr_repository e,
        pr_repository_binding := pr_repository_binding e, pr_related_repositories := pr_related_repositories e\<rparr>)"

definition declared_terminals :: "portable_declaration \<Rightarrow> terminal_declaration btree" where
  "declared_terminals d = (if dc_terminals d = [] then [(''dev'', empty_terminal_declaration)] else dc_terminals d)"

definition with_terminals :: "portable_declaration \<Rightarrow> path \<Rightarrow> string btree \<Rightarrow> project \<Rightarrow> project" where
  "with_terminals d root ids p =
    (let ts = pr_terminals p @ map (declared_terminal (pr_shell p) root ids) (declared_terminals d) in
     p\<lparr>pr_terminals := ts, pr_default_terminal := (case ts of [] \<Rightarrow> None
       | t # _ \<Rightarrow> if td_persistent t then Some (td_id t) else None)\<rparr>)"

definition with_tasks :: "portable \<Rightarrow> portable_declaration \<Rightarrow> path \<Rightarrow> environment \<Rightarrow> string btree \<Rightarrow> project \<times> origins
    \<Rightarrow> (project \<times> origins) res" where
  "with_tasks n d root env ids po =
    and_then (map_res (declared_task n (pr_shell (fst po)) root env (dc_tasks d) ids) (dc_tasks d)) (\<lambda>ts.
    Inr ((fst po)\<lparr>pr_tasks := pr_tasks (fst po) @ ts\<rparr>,
      fold (\<lambda>k. bt_insert (''tasks.'' @ k) ''project declaration'') (bt_keys (dc_tasks d)) (snd po)))"

definition binding_of :: "portable_declaration \<Rightarrow> declaration_snapshot \<Rightarrow> project \<Rightarrow> string btree \<Rightarrow> string btree \<Rightarrow> project
    \<Rightarrow> portable_binding" where
  "binding_of d snap p task_ids terminal_ids baseline =
    \<lparr>pb_project_id = pr_id p, pb_path = dn_path snap, pb_digest = dn_digest snap, pb_task_ids = task_ids,
     pb_terminal_ids = terminal_ids,
     pb_shell_review_required = (case dc_shell d of None \<Rightarrow> False | Some s \<Rightarrow> s \<noteq> empty_shell_declaration),
     pb_terminal_reviews = sort (remdups (map (\<lambda>(k, _). the (map_of terminal_ids k))
       (filter (\<lambda>(_, v). dt_cwd v \<noteq> None \<or> dt_sources v \<noteq> None) (dc_terminals d)))),
     pb_resolved = baseline\<rparr>"

text \<open>The layers above the connected project, once every identifier is drawn.\<close>

definition resolve_layers :: "portable \<Rightarrow> portable_declaration \<Rightarrow> preferences \<Rightarrow> path \<Rightarrow> environment
    \<Rightarrow> portable_binding option \<Rightarrow> project option \<Rightarrow> string btree \<Rightarrow> string btree \<Rightarrow> project \<times> origins
    \<Rightarrow> (project \<times> project \<times> origins) res" where
  "resolve_layers n d prefs root env previous existing task_ids terminal_ids po =
    and_then (with_tasks n d root env task_ids (with_terminals d root terminal_ids (fst po), snd po)) (\<lambda>po.
    and_then (resolve_editor n d prefs root env po) (\<lambda>po.
    let baseline = fst po in
    and_then (merge_existing d previous existing po) (\<lambda>(p, os).
    and_then (discover_default_editor n env root (p, os)) (\<lambda>(q, os).
    let baseline = (if pr_editor p = None then baseline\<lparr>pr_editor := pr_editor q\<rparr> else baseline) in
    and_then (validate_project (pn_ext n) q) (\<lambda>_. Inr (q, baseline, os))))))"

definition resolve_unmanaged :: "portable \<Rightarrow> path \<Rightarrow> environment \<Rightarrow> workspace \<Rightarrow> string option \<Rightarrow> project \<Rightarrow> resolved_project res" where
  "resolve_unmanaged n root env w prefs_digest e =
    and_then (discover_default_editor n env root (e, bt_insert ''project'' ''existing local definition'' [])) (\<lambda>(p, os).
    Inr \<lparr>rj_revision = ws_revision w, rj_project = p, rj_binding = None, rj_preferences_digest = prefs_digest,
      rj_origins = os\<rparr>)"

definition resolve_managed :: "portable \<Rightarrow> path \<Rightarrow> environment \<Rightarrow> workspace \<Rightarrow> preferences \<times> string option
    \<Rightarrow> declaration_snapshot option \<Rightarrow> portable_binding option \<Rightarrow> project option \<Rightarrow> (world, resolved_project) op" where
  "resolve_managed n root env w prefs snap previous existing =
    (let d = (case snap of None \<Rightarrow> default_declaration | Some s \<Rightarrow> dn_declaration s) in
     op_try (op_lift (resolve_shell n d (fst prefs) root env)) (\<lambda>(s, os).
     let name = (case dc_name d of Some m \<Rightarrow> m | None \<Rightarrow> file_name_text root) in
     op_try (preview_connect (pn_ext n) (pn_codec n) (pn_store n) (pn_ob n)
       \<lparr>cd_name = name, cd_root = root, cd_shell = s, cd_terminals = []\<rparr>) (\<lambda>preview.
     let p = adopt_identity existing (cp_project preview) in
     op_try (assign_ids (bt_keys (dc_tasks d)) (case previous of None \<Rightarrow> [] | Some b \<Rightarrow> pb_task_ids b)) (\<lambda>task_ids.
     op_try (assign_ids (bt_keys (declared_terminals d)) (case previous of None \<Rightarrow> [] | Some b \<Rightarrow> pb_terminal_ids b)) (\<lambda>terminal_ids.
     op_try (op_lift (resolve_layers n d (fst prefs) root env previous existing task_ids terminal_ids (p, os)))
       (\<lambda>(q, baseline, os).
     op_return \<lparr>rj_revision = ws_revision w, rj_project = q,
       rj_binding = map_option (\<lambda>snap. binding_of d snap q task_ids terminal_ids baseline) snap,
       rj_preferences_digest = snd prefs, rj_origins = os\<rparr>))))))"

definition resolve_found :: "portable \<Rightarrow> path \<Rightarrow> environment \<Rightarrow> workspace \<Rightarrow> preferences \<times> string option
    \<Rightarrow> declaration_snapshot option \<Rightarrow> portable_binding option \<Rightarrow> project option \<Rightarrow> (world, resolved_project) op" where
  "resolve_found n root env w prefs snap previous existing = (case (snap, existing) of
      (None, Some e) \<Rightarrow> op_lift (resolve_unmanaged n root env w (snd prefs) e)
    | _ \<Rightarrow> resolve_managed n root env w prefs snap previous existing)"

definition resolve_for :: "portable \<Rightarrow> path \<Rightarrow> environment \<Rightarrow> string option \<Rightarrow> (world, resolved_project) op" where
  "resolve_for n root env selected =
    op_try (op_lift (with_context (os_canonicalize (ob_os (pn_ob n)) root) ''project folder is unavailable'')) (\<lambda>root.
    op_ensure (is_directory (pn_pv n) root) ''project path must be a directory''
    (op_try (store_load (pn_ext n) (pn_codec n) (pn_store n)) (\<lambda>w.
     op_try (op_lift (match_existing n w root selected)) (\<lambda>existing.
     let previous = Option.bind existing (\<lambda>p. find (\<lambda>b. pb_project_id b = pr_id p) (ws_portable w)) in
     op_try (op_lift (read_declaration n root)) (\<lambda>snap.
     op_ensure (previous = None \<or> snap \<noteq> None)
       ''managed idk.toml was removed; original local definitions preserved; restore the declaration before syncing''
     (op_try (load_preferences n) (\<lambda>prefs.
      resolve_found n root env w prefs snap previous existing)))))))"

section \<open>Applying\<close>

definition put_resolved :: "resolved_project \<Rightarrow> workspace \<Rightarrow> workspace" where
  "put_resolved r w =
    (let p = rj_project r; i = pr_id p in
     w\<lparr>ws_projects := (if list_ex (\<lambda>q. pr_id q = i) (ws_projects w)
         then update_first (\<lambda>q. pr_id q = i) (\<lambda>_. p) (ws_projects w) else ws_projects w @ [p]),
       ws_portable := filter (\<lambda>b. pb_project_id b \<noteq> i) (ws_portable w)
         @ (case rj_binding r of None \<Rightarrow> [] | Some b \<Rightarrow> [b]),
       ws_selected_project := Some i,
       ws_recent_projects := take 32 (i # filter (\<lambda>j. j \<noteq> i) (ws_recent_projects w))\<rparr>)"

definition apply_resolved :: "portable \<Rightarrow> resolved_project \<Rightarrow> (world, project) op" where
  "apply_resolved n r =
    op_try (store_load (pn_ext n) (pn_codec n) (pn_store n)) (\<lambda>w.
    op_ensure (ws_revision w = rj_revision r) ''workspace changed; resolved draft preserved, resolve again''
    (op_try (op_lift (check_opt (check_binding (pn_ext n) (pn_ob n)) (rj_binding r))) (\<lambda>_.
     op_try (load_preferences n) (\<lambda>(_, current).
     op_ensure (current = rj_preferences_digest r) ''preferences changed; resolve again''
     (save_as (pn_ext n) (pn_codec n) (pn_store n) (rj_revision r) (rj_project r, put_resolved r w))))))"

end
