(* ===== verification/Portable_Write.thy ===== *)
theory Portable_Write
  imports Portable_Resolve
begin

text \<open>
  Writing declarations (\<open>portable.rs\<close>: \<open>write_declaration\<close>, \<open>patch_declaration\<close>,
  \<open>export_declaration\<close>).  A declaration is edited by other programs too, so the filesystem here
  has names and inodes, and at every numbered point of the write other programs may change it
  and the call may fail.
\<close>

section \<open>Names and inodes\<close>

record dfile =
  df_regular :: bool
  df_mode :: nat
  df_bytes :: string

record dfs =
  dx_names :: "path \<rightharpoonup> nat"
  dx_files :: "nat \<Rightarrow> dfile"
  dx_next :: nat

record other_writers =
  dw_other :: "nat \<Rightarrow> dfs \<Rightarrow> dfs"
  dw_fails :: "nat \<Rightarrow> error option"

definition at_point :: "other_writers \<Rightarrow> nat \<Rightarrow> (dfs, 'a) op \<Rightarrow> (dfs, 'a) op" where
  "at_point oth k m s = (let s = dw_other oth k s in case dw_fails oth k of Some e \<Rightarrow> (Inl e, s) | None \<Rightarrow> m s)"

section \<open>The steps\<close>

definition open_manifest :: "path \<Rightarrow> (dfs, nat) op" where
  "open_manifest p s = (case dx_names s p of
      None \<Rightarrow> (Inl (Bail ''declaration disappeared before edit''), s)
    | Some i \<Rightarrow> if df_regular (dx_files s i) then (Inr i, s)
        else (Inl (Bail ''declaration must be a regular file''), s))"

text \<open>\<open>flock\<close> is retried until its deadline; failing at its point is a busy writer.\<close>

definition lock_manifest :: "other_writers \<Rightarrow> path \<Rightarrow> string option \<Rightarrow> (dfs, nat option) op" where
  "lock_manifest oth p expected = (case expected of None \<Rightarrow> op_return None
    | Some _ \<Rightarrow> op_try (at_point oth 1 (open_manifest p)) (\<lambda>i.
        op_try (op_context ''declaration writer is busy; draft preserved'' (at_point oth 2 (op_return ()))) (\<lambda>_.
        op_return (Some i))))"

definition named_is :: "path \<Rightarrow> nat option \<Rightarrow> (dfs, unit) op" where
  "named_is p manifest s = (case manifest of None \<Rightarrow> (Inr (), s)
    | Some i \<Rightarrow> (case dx_names s p of
        None \<Rightarrow> (Inl (Bail ''declaration path changed while waiting for writer''), s)
      | Some j \<Rightarrow> if df_regular (dx_files s j) \<and> i = j then (Inr (), s)
          else (Inl (Bail ''declaration was replaced while editing; original and draft preserved''), s)))"

definition read_named :: "path \<Rightarrow> (dfs, string option) op" where
  "read_named p s = (case dx_names s p of None \<Rightarrow> (Inr None, s)
    | Some i \<Rightarrow> if \<not> df_regular (dx_files s i) then (Inl (Bail ''declaration must be a regular file''), s)
        else if DECLARATION_LIMIT < length (df_bytes (dx_files s i)) then (Inl (Bail ''declaration exceeds 1 MiB''), s)
        else (Inr (Some (df_bytes (dx_files s i))), s))"

definition check_target :: "(string \<Rightarrow> string) \<Rightarrow> other_writers \<Rightarrow> nat \<Rightarrow> path \<Rightarrow> nat option \<Rightarrow> string option \<Rightarrow> (dfs, unit) op" where
  "check_target sha oth k p manifest expected =
    op_try (at_point oth k (named_is p manifest)) (\<lambda>_.
    op_try (at_point oth (k + 1) (read_named p)) (\<lambda>current.
    op_ensure (map_option sha current = expected) ''idk.toml changed externally; original and draft preserved''
      (op_return ())))"

definition target_mode :: "path \<Rightarrow> (dfs, nat) op" where
  "target_mode p s = (case dx_names s p of None \<Rightarrow> (Inr 438, s)
    | Some i \<Rightarrow> (Inr (Bit_Operations.and (df_mode (dx_files s i)) 511), s))"

definition create_temporary :: "path \<Rightarrow> nat \<Rightarrow> (dfs, nat) op" where
  "create_temporary t mode s = (case dx_names s t of Some _ \<Rightarrow> (Inl (Os ''file exists''), s)
    | None \<Rightarrow> (let i = dx_next s in (Inr i, s\<lparr>dx_names := (dx_names s)(t \<mapsto> i),
        dx_files := (dx_files s)(i := \<lparr>df_regular = True, df_mode = mode, df_bytes = []\<rparr>), dx_next := Suc i\<rparr>)))"

definition fill_temporary :: "nat \<Rightarrow> string \<Rightarrow> (dfs, unit) op" where
  "fill_temporary i draft s = (Inr (), s\<lparr>dx_files := (dx_files s)(i := (dx_files s i)\<lparr>df_bytes := draft\<rparr>)\<rparr>)"

definition remove_name :: "path \<Rightarrow> (dfs, unit) op" where
  "remove_name t s = (case dx_names s t of None \<Rightarrow> (Inl NotFound, s)
    | Some _ \<Rightarrow> (Inr (), s\<lparr>dx_names := (dx_names s)(t := None)\<rparr>))"

definition link_new :: "path \<Rightarrow> path \<Rightarrow> (dfs, unit) op" where
  "link_new t p s = (case (dx_names s t, dx_names s p) of
      (Some i, None) \<Rightarrow> (Inr (), s\<lparr>dx_names := (dx_names s)(p \<mapsto> i)\<rparr>)
    | _ \<Rightarrow> (Inl (Bail ''idk.toml appeared during initialization; existing file preserved''), s))"

definition rename_over :: "path \<Rightarrow> path \<Rightarrow> (dfs, unit) op" where
  "rename_over t p s = (case dx_names s t of None \<Rightarrow> (Inl NotFound, s)
    | Some i \<Rightarrow> (Inr (), s\<lparr>dx_names := (dx_names s)(t := None, p \<mapsto> i)\<rparr>))"

definition publish :: "other_writers \<Rightarrow> path \<Rightarrow> path \<Rightarrow> string option \<Rightarrow> (dfs, unit) op" where
  "publish oth t p expected = (case expected of
      None \<Rightarrow> op_try (at_point oth 11 (link_new t p)) (\<lambda>_. at_point oth 12 (remove_name t))
    | Some _ \<Rightarrow> at_point oth 11 (rename_over t p))"

definition fill_and_publish :: "(string \<Rightarrow> string) \<Rightarrow> other_writers \<Rightarrow> path \<Rightarrow> path \<Rightarrow> nat option \<Rightarrow> nat \<Rightarrow> string option \<Rightarrow> string
    \<Rightarrow> (dfs, unit) op" where
  "fill_and_publish sha oth t p manifest mode expected draft =
    op_try (at_point oth 6 (create_temporary t mode)) (\<lambda>i.
    op_try (at_point oth 7 (fill_temporary i draft)) (\<lambda>_.
    op_try (at_point oth 8 (op_return ())) (\<lambda>_.
    op_try (check_target sha oth 9 p manifest expected) (\<lambda>_.
    op_try (publish oth t p expected) (\<lambda>_.
    at_point oth 13 (op_return ()))))))"

text \<open>A failure leaves no temporary, as far as it can be removed.\<close>

definition discard_on_error :: "other_writers \<Rightarrow> path \<Rightarrow> (dfs, unit) op \<Rightarrow> (dfs, unit) op" where
  "discard_on_error oth t m s = (case m s of (Inr u, s') \<Rightarrow> (Inr u, s')
    | (Inl e, s') \<Rightarrow> (Inl e, snd (at_point oth 14 (remove_name t) s')))"

definition declaration_target :: "path \<Rightarrow> bool" where
  "declaration_target p = (is_absolute p \<and> components p \<noteq> [] \<and> last (components p) = Normal DECLARATION)"

definition temporary_path :: "path \<Rightarrow> string \<Rightarrow> path" where
  "temporary_path p i = join_path (path_text (butlast (components p))) (''.idk-declaration-'' @ i @ ''.tmp'')"

text \<open>The lock in the configuration directory is point 0.\<close>

definition write_declaration :: "portable \<Rightarrow> other_writers \<Rightarrow> string \<Rightarrow> path \<Rightarrow> string option \<Rightarrow> string \<Rightarrow> (dfs, string) op" where
  "write_declaration n oth i p expected draft =
    op_ensure (declaration_target p) ''declaration target must be an absolute idk.toml path''
    (op_ensure (length draft \<le> DECLARATION_LIMIT) ''declaration exceeds 1 MiB''
    (op_try (op_lift (parse_declaration (pn_toml n) draft)) (\<lambda>_.
     op_try (at_point oth 0 (op_return ())) (\<lambda>_.
     op_try (lock_manifest oth p expected) (\<lambda>manifest.
     op_try (check_target (sha256_hex (pn_ext n)) oth 3 p manifest expected) (\<lambda>_.
     op_try (at_point oth 5 (target_mode p)) (\<lambda>mode.
     op_try (discard_on_error oth (temporary_path p i)
        (fill_and_publish (sha256_hex (pn_ext n)) oth (temporary_path p i) p manifest mode expected draft)) (\<lambda>_.
     op_return (sha256_hex (pn_ext n) draft)))))))))"

section \<open>Patching\<close>

fun patch_table :: "string list \<Rightarrow> toml_value option \<Rightarrow> toml_value \<Rightarrow> toml_value res" where
  "patch_table ks v (TomlOther s) = Inl (Bail ''patch parent must be a table'')"
| "patch_table [] v (TomlTable m) = Inr (TomlTable m)"
| "patch_table [k] v (TomlTable m) = Inr (TomlTable (case v of None \<Rightarrow> bt_remove k m | Some x \<Rightarrow> bt_insert k x m))"
| "patch_table (k # k' # ks) v (TomlTable m) =
    and_then (patch_table (k' # ks) v (case map_of m k of Some x \<Rightarrow> x | None \<Rightarrow> TomlTable [])) (\<lambda>x.
    Inr (TomlTable (bt_insert k x m)))"

definition patch_declaration :: "portable_toml \<Rightarrow> declaration_snapshot \<Rightarrow> string list \<Rightarrow> toml_value option \<Rightarrow> string res" where
  "patch_declaration t snap keys v =
    ensure (keys \<noteq> [] \<and> hd keys \<noteq> ''schema_version'') ''choose a declaration field''
    (and_then (py_value t (dn_raw snap)) (\<lambda>document.
     and_then (patch_table keys v document) (\<lambda>document.
     and_then (py_print_value t document) (\<lambda>draft.
     and_then (parse_declaration t draft) (\<lambda>_. Inr draft)))))"

section \<open>Exporting\<close>

definition relative_path :: "path \<Rightarrow> path \<Rightarrow> path" where
  "relative_path root p = (case strip_prefix p root of None \<Rightarrow> p | Some [] \<Rightarrow> ''.'' | Some s \<Rightarrow> s)"

definition exported_executable :: "path \<Rightarrow> path \<Rightarrow> string res" where
  "exported_executable root p = (let q = (case strip_prefix p root of None \<Rightarrow> p | Some s \<Rightarrow> join_path ''.'' s) in
     ensure (to_str q \<noteq> None) ''portable executable path must be UTF-8; original preserved'' (Inr q))"

definition exported_sources :: "path \<Rightarrow> source_spec list \<Rightarrow> source_spec list" where
  "exported_sources root = map (\<lambda>s. s\<lparr>ss_path := relative_path root (ss_path s)\<rparr>)"

text \<open>The loop for a key nobody uses: the name, then its first 90 characters with 2, 3, and so on.\<close>

definition key_candidate :: "string \<Rightarrow> nat \<Rightarrow> string" where
  "key_candidate name k = (if k < 2 then name else utf8_text (take 90 (chars name)) @ ''-'' @ string_of_nat k)"

fun fresh_key :: "nat \<Rightarrow> string list \<Rightarrow> string \<Rightarrow> nat \<Rightarrow> string option" where
  "fresh_key 0 used name k = None"
| "fresh_key (Suc fuel) used name k = (if key_candidate name k \<notin> set used then Some (key_candidate name k)
     else fresh_key fuel used name (k + 1))"

fun unique_keys :: "string list \<Rightarrow> (string \<times> string) list \<Rightarrow> string btree \<Rightarrow> string btree option" where
  "unique_keys used [] acc = Some acc"
| "unique_keys used ((i, name) # vs) acc = (case fresh_key (length used + 2) used name 1 of
     None \<Rightarrow> None | Some k \<Rightarrow> unique_keys (k # used) vs (bt_insert i k acc))"

definition exported_shell :: "path \<Rightarrow> shell_config \<Rightarrow> shell_declaration res" where
  "exported_shell root s = and_then (exported_executable root (sc_executable s)) (\<lambda>e.
     Inr \<lparr>sd_program = Some e, sd_args = map_option ns_args (sc_native s),
       sd_env = (case sc_native s of None \<Rightarrow> [] | Some d \<Rightarrow> ns_env d), sd_unset_env = [],
       sd_clear_env = (sc_native s \<noteq> None), sd_cwd = Some (relative_path root (sc_init_cwd s)),
       sd_legacy_csh = Some (sc_native s = None), sd_login = Some (sc_login s),
       sd_sources = Some (exported_sources root (sc_sources s))\<rparr>)"

definition exported_editor :: "path \<Rightarrow> editor_config \<Rightarrow> editor_declaration res" where
  "exported_editor root e = and_then (exported_executable root (ed_executable e)) (\<lambda>p.
     Inr \<lparr>de_program = Some p, de_args = Some (ed_args e), de_external_gui = Some (ed_external_gui e)\<rparr>)"

definition exported_terminal :: "path \<Rightarrow> terminal_definition \<Rightarrow> terminal_declaration" where
  "exported_terminal root t = \<lparr>dt_name = Some (td_name t), dt_cwd = Some (relative_path root (td_cwd t)),
     dt_sources = Some (exported_sources root (td_sources t)), dt_persistent = Some (td_persistent t)\<rparr>"

definition exported_execution :: "path \<Rightarrow> task_definition
    \<Rightarrow> (string option \<times> string option \<times> string option \<times> string list option \<times> environment) res" where
  "exported_execution root t = (case ta_execution t of
      None \<Rightarrow> Inr (None, None, None, None, [])
    | Some (Process p args env) \<Rightarrow> and_then (exported_executable root p) (\<lambda>e. Inr (Some e, None, None, Some args, env))
    | Some (Script i args script env) \<Rightarrow> and_then (exported_executable root i) (\<lambda>e.
        Inr (None, Some e, Some script, Some args, env)))"

definition exported_task :: "path \<Rightarrow> string btree \<Rightarrow> task_definition \<Rightarrow> (string \<times> task_declaration) res" where
  "exported_task root keys t =
    and_then (exported_execution root t) (\<lambda>(program, interpreter, script, args, env).
    and_then (case ta_artifact_from_task t of None \<Rightarrow> Inr None
      | Some i \<Rightarrow> and_then (context_opt (map_of keys i) ''artifact predecessor is not registered; cannot export a dangling reference'')
          (\<lambda>k. Inr (Some k))) (\<lambda>from.
    Inr (the (map_of keys (ta_id t)), \<lparr>dk_name = Some (ta_name t), dk_program = program, dk_args = args,
      dk_interpreter = interpreter, dk_script = script,
      dk_command = (if ta_execution t = None then Some (ta_command t) else None),
      dk_cwd = Some (relative_path root (ta_cwd t)), dk_env = env, dk_sources = exported_sources root (ta_sources t),
      dk_steps = ta_steps t, dk_interactive = ta_interactive t, dk_disable_logging = (ta_logging t = DisabledLogging),
      dk_continue_on_failure = (ta_failure_policy t = ContinueOnFailure),
      dk_artifact = map_option (relative_path root) (ta_artifact t),
      dk_build_outputs = map (relative_path root) (ta_build_outputs t), dk_artifact_from_task = from,
      dk_timeout_seconds = ta_timeout_seconds t\<rparr>)))"

definition export_declaration :: "ext \<Rightarrow> project \<Rightarrow> portable_declaration res option" where
  "export_declaration x p =
    Option.bind (unique_keys [] (map (\<lambda>t. (ta_id t, ta_name t)) (pr_tasks p)) []) (\<lambda>task_keys.
    Option.bind (unique_keys [] (map (\<lambda>t. (td_id t, td_name t)) (pr_terminals p)) []) (\<lambda>terminal_keys.
    Some (and_then (validate_project x p) (\<lambda>_.
      and_then (exported_shell (pr_root p) (pr_shell p)) (\<lambda>shell.
      and_then (case pr_editor p of None \<Rightarrow> Inr None
        | Some e \<Rightarrow> and_then (exported_editor (pr_root p) e) (\<lambda>d. Inr (Some d))) (\<lambda>editor.
      and_then (map_res (exported_task (pr_root p) task_keys) (pr_tasks p)) (\<lambda>tasks.
      Inr \<lparr>dc_schema = 1, dc_name = Some (pr_name p), dc_shell = Some shell, dc_editor = editor,
        dc_terminals = bt_extend [] (map (\<lambda>t. (the (map_of terminal_keys (td_id t)), exported_terminal (pr_root p) t))
          (pr_terminals p)),
        dc_tasks = bt_extend [] tasks\<rparr>)))))))"

end
