(* ===== verification/Portable_Safety.thy ===== *)
theory Portable_Safety
  imports Portable_Write Tool_Safety
begin

text \<open>
  What resolving a declaration promises: whatever a declaration, a preference or a discovered tool
  says, the resolved project carries only trust that an existing project already had for the same
  definition.
\<close>

section \<open>Where trust comes from\<close>

definition shell_trust :: "project option \<Rightarrow> shell_config \<Rightarrow> bool" where
  "shell_trust e s = (sc_trusted_digest s = None \<or> (\<exists>p. e = Some p \<and> same_shell_config s (pr_shell p)
     \<and> sc_trusted_digest s = sc_trusted_digest (pr_shell p)))"

definition task_trust :: "project option \<Rightarrow> task_definition \<Rightarrow> bool" where
  "task_trust e t = (ta_approved_digest t = None \<or> (\<exists>p u. e = Some p \<and> u \<in> set (pr_tasks p) \<and> ta_id u = ta_id t
     \<and> same_task_config u t \<and> ta_approved_digest t = ta_approved_digest u))"

definition terminal_trust :: "project option \<Rightarrow> terminal_definition \<Rightarrow> bool" where
  "terminal_trust e t = (td_trusted_digest t = None \<or> (\<exists>p u. e = Some p \<and> u \<in> set (pr_terminals p)
     \<and> td_id u = td_id t \<and> same_terminal_config u t \<and> td_trusted_digest t = td_trusted_digest u))"

definition trust_from :: "project option \<Rightarrow> project \<Rightarrow> bool" where
  "trust_from e q = (shell_trust e (pr_shell q) \<and> list_all (task_trust e) (pr_tasks q)
     \<and> list_all (terminal_trust e) (pr_terminals q))"

definition no_trust :: "project \<Rightarrow> bool" where
  "no_trust q = (sc_trusted_digest (pr_shell q) = None \<and> list_all (\<lambda>t. ta_approved_digest t = None) (pr_tasks q)
     \<and> list_all (\<lambda>t. td_trusted_digest t = None) (pr_terminals q))"

lemma no_trust_from: "no_trust q \<Longrightarrow> trust_from e q"
  by (auto simp: no_trust_def trust_from_def shell_trust_def task_trust_def terminal_trust_def list_all_iff)

lemma own_trust: "trust_from (Some e) e"
  by (auto simp: trust_from_def shell_trust_def task_trust_def terminal_trust_def list_all_iff
      same_shell_config_def same_task_config_def same_terminal_config_def)

section \<open>Layers give none\<close>

lemma patch_native_trust: "patch_native s b args e = Inr s' \<Longrightarrow> sc_trusted_digest s' = sc_trusted_digest s"
  by (auto simp: patch_native_def make_native_def Let_def res_simps split: if_splits)

lemma apply_shell_trust:
  assumes "apply_shell n s d base env = Inr s'"
  shows "sc_trusted_digest s' = sc_trusted_digest s"
proof -
  let ?cwd = "\<lambda>s. case sd_cwd d of None \<Rightarrow> s | Some c \<Rightarrow> s\<lparr>sc_init_cwd := declared_path base c\<rparr>"
  let ?login = "\<lambda>s. case sd_login d of None \<Rightarrow> s | Some l \<Rightarrow> s\<lparr>sc_login := l\<rparr>"
  let ?sources = "\<lambda>s. case sd_sources d of None \<Rightarrow> s | Some v \<Rightarrow> s\<lparr>sc_sources := declared_sources base v\<rparr>"
  let ?patch = "\<lparr>ev_replace = None, ev_clear = sd_clear_env d, ev_set = sd_env d, ev_unset = sd_unset_env d\<rparr>"
  have same [simp]: "sc_trusted_digest (?cwd s) = sc_trusted_digest s" "sc_trusted_digest (?login s) = sc_trusted_digest s"
    "sc_trusted_digest (?sources s) = sc_trusted_digest s" for s by (simp_all split: option.splits)
  from assms obtain s1 s2
    where p: "(case sd_program d of None \<Rightarrow> Inr s
        | Some p \<Rightarrow> and_then (resolve_declared n p base env) (\<lambda>e. Inr (s\<lparr>sc_executable := e\<rparr>))) = Inr s1"
      and l: "(case sd_legacy_csh d of None \<Rightarrow> Inr (?cwd s1) | Some True \<Rightarrow> Inr ((?cwd s1)\<lparr>sc_native := None\<rparr>)
        | Some False \<Rightarrow> patch_native (?cwd s1) True None no_patch) = Inr s2"
      and e: "s' = ?sources (?login s2) \<or> patch_native (?sources (?login s2)) False (sd_args d) ?patch = Inr s'"
    unfolding apply_shell_def Let_def and_then_Inr by (auto simp only: split: if_splits)
  from p have "sc_trusted_digest s1 = sc_trusted_digest s" by (auto simp: res_simps split: option.splits)
  moreover from l have "sc_trusted_digest s2 = sc_trusted_digest (?cwd s1)"
    by (auto simp del: same dest: patch_native_trust split: option.splits bool.splits)
  moreover from e have "sc_trusted_digest s' = sc_trusted_digest (?sources (?login s2))"
    by (auto simp del: same dest: patch_native_trust)
  ultimately show ?thesis by simp
qed

lemma map_res_all: "map_res f xs = Inr ys \<Longrightarrow> (\<And>x y. f x = Inr y \<Longrightarrow> P y) \<Longrightarrow> list_all P ys"
  by (induction xs arbitrary: ys) (auto simp: res_simps)

lemma resolve_shell_trust: "resolve_shell n d prefs root env = Inr (s, os) \<Longrightarrow> sc_trusted_digest s = None"
  by (auto simp: resolve_shell_def Let_def res_simps dest!: apply_shell_trust split: option.splits)

lemma declared_task_trust: "declared_task n sh root env ds ids kv = Inr t \<Longrightarrow> ta_approved_digest t = None"
  by (auto simp: declared_task_def res_simps split: prod.splits)

lemma declared_terminal_trust [simp]: "td_trusted_digest (declared_terminal sh root ids kv) = None"
  by (simp add: declared_terminal_def split: prod.splits)

lemma with_terminals_trust: "no_trust p \<Longrightarrow> no_trust (with_terminals d root ids p)"
  by (auto simp: no_trust_def with_terminals_def Let_def list_all_iff)

lemma with_tasks_trust:
  assumes "with_tasks n d root env ids po = Inr qo" and "no_trust (fst po)"
  shows "no_trust (fst qo)"
proof -
  from assms(1) obtain ts where ts: "map_res (declared_task n (pr_shell (fst po)) root env (dc_tasks d) ids) (dc_tasks d) = Inr ts"
    and q: "fst qo = (fst po)\<lparr>pr_tasks := pr_tasks (fst po) @ ts\<rparr>"
    by (auto simp: with_tasks_def res_simps)
  have "list_all (\<lambda>t. ta_approved_digest t = None) ts" by (rule map_res_all [OF ts]) (rule declared_task_trust)
  with q assms(2) show ?thesis by (simp add: no_trust_def)
qed

lemma resolve_editor_trust: "resolve_editor n d prefs root env po = Inr qo \<Longrightarrow> no_trust (fst po) \<Longrightarrow> no_trust (fst qo)"
  by (auto simp: resolve_editor_def Let_def res_simps no_trust_def split: if_splits option.splits prod.splits)

section \<open>Merging keeps what was there\<close>

lemma override_scalars_trust: "sc_trusted_digest (fst (override_scalars c b so)) = sc_trusted_digest (fst so)"
  by (simp add: override_scalars_def Let_def)

lemma override_native_trust: "sc_trusted_digest (fst (override_native c b so)) = sc_trusted_digest (fst so)"
  by (auto simp: override_native_def Let_def split: option.splits)

lemma override_terminal_trust: "td_trusted_digest (override_terminal c b t) = td_trusted_digest t"
  by (auto simp: override_terminal_def Let_def split: option.splits)

lemma local_overrides_trust: "no_trust (fst po) \<Longrightarrow> no_trust (fst (local_overrides c b po))"
  by (auto simp: local_overrides_def Let_def no_trust_def list_all_iff override_scalars_trust override_native_trust
      override_terminal_trust split: prod.splits if_splits)

lemma keep_trust_from:
  assumes "trust_from (Some e) p"
  shows "trust_from (Some e) (keep_trust e p)"
proof -
  have task: "task_trust (Some e) (keep_task_approval e t)" if "task_trust (Some e) t" for t
  proof (cases "find (\<lambda>u. ta_id u = ta_id t \<and> same_task_config u t) (pr_tasks e)")
    case (Some u)
    then have "u \<in> set (pr_tasks e)" "ta_id u = ta_id t" "same_task_config u t"
      by (auto simp: find_Some_iff)
    with Some show ?thesis by (auto simp: keep_task_approval_def task_trust_def same_task_config_def semantic_task_def)
  qed (use that in \<open>simp add: keep_task_approval_def\<close>)
  have terminal: "terminal_trust (Some e) (keep_terminal_trust e t)" if "terminal_trust (Some e) t" for t
  proof (cases "find (\<lambda>u. td_id u = td_id t \<and> same_terminal_config u t) (pr_terminals e)")
    case (Some u)
    then have "u \<in> set (pr_terminals e)" "td_id u = td_id t" "same_terminal_config u t"
      by (auto simp: find_Some_iff)
    with Some show ?thesis by (auto simp: keep_terminal_trust_def terminal_trust_def same_terminal_config_def semantic_terminal_def)
  qed (use that in \<open>simp add: keep_terminal_trust_def\<close>)
  from assms show ?thesis
    by (auto simp: keep_trust_def Let_def trust_from_def list_all_iff task terminal shell_trust_def
        same_shell_config_def semantic_shell_def)
qed

lemma keep_local_from: "trust_from (Some e) p \<Longrightarrow> trust_from (Some e) (keep_local b e p)"
  using own_trust [of e] by (auto simp: keep_local_def trust_from_def list_all_iff)

lemma merge_layers_from:
  assumes "merge_layers d b e po = Inr qo" and "no_trust (fst po)"
  shows "trust_from (Some e) (fst qo)"
proof (cases b)
  case None
  with assms own_trust [of e] show ?thesis
    by (auto simp: merge_layers_def trust_from_def no_trust_def shell_trust_def task_trust_def terminal_trust_def
        list_all_iff split: prod.splits if_splits)
next
  case (Some b')
  with assms no_trust_from [OF local_overrides_trust [OF assms(2)]] show ?thesis
    by (auto simp: merge_layers_def Let_def res_simps)
qed

lemma merge_existing_from:
  "merge_existing d b existing po = Inr qo \<Longrightarrow> no_trust (fst po) \<Longrightarrow> trust_from existing (fst qo)"
  by (cases existing) (auto simp: merge_existing_def res_simps no_trust_from
      intro!: keep_trust_from keep_local_from dest: merge_layers_from)

lemma trust_from_editor [simp]: "trust_from e (p\<lparr>pr_editor := c\<rparr>) = trust_from e p"
  by (simp add: trust_from_def)

lemma discover_default_editor_only:
  assumes "discover_default_editor n env root po = Inr qo"
  shows "fst qo = fst po \<or> (\<exists>c. fst qo = (fst po)\<lparr>pr_editor := c\<rparr>)"
proof (cases "pr_editor (fst po)")
  case None
  with assms obtain k where k: "discover_editor (pn_pv n) None env root = Inr k"
    unfolding discover_default_editor_def by (cases po) (auto simp: res_simps)
  from assms None show ?thesis
    unfolding discover_default_editor_def k by (cases po; cases k) (auto split: if_split_asm)
next
  case (Some c)
  with assms show ?thesis by (cases po) (auto simp: discover_default_editor_def)
qed

lemma discover_default_from: "discover_default_editor n env root po = Inr qo \<Longrightarrow> trust_from e (fst po) \<Longrightarrow> trust_from e (fst qo)"
  using discover_default_editor_only [of n env root po qo] by auto

lemma resolve_layers_from:
  assumes "resolve_layers n d prefs root env previous existing ti mi po = Inr (q, b, os)" and "no_trust (fst po)"
  shows "trust_from existing q"
  using assms
  by (auto simp: resolve_layers_def Let_def res_simps
      dest!: with_tasks_trust resolve_editor_trust merge_existing_from discover_default_from
      intro: with_terminals_trust)

lemma preview_no_trust:
  "preview_connect x c st ob \<lparr>cd_name = m, cd_root = root, cd_shell = s, cd_terminals = []\<rparr> w = (Inr r, w') \<Longrightarrow>
   no_trust (cp_project r)"
  by (cases "discover_binding ob root") (auto simp: preview_connect_def Let_def op_simps no_trust_def)

lemma adopt_no_trust: "no_trust p \<Longrightarrow> no_trust (adopt_identity e p)"
  by (auto simp: adopt_identity_def no_trust_def split: option.splits)

lemma resolve_managed_from:
  assumes "resolve_managed n root env ws prefs snap previous existing w = (Inr r, w')"
  shows "trust_from existing (rj_project r)"
proof -
  let ?d = "case snap of None \<Rightarrow> default_declaration | Some s \<Rightarrow> dn_declaration s"
  from assms obtain s os preview u ti mi b q os'
    where p: "preview_connect (pn_ext n) (pn_codec n) (pn_store n) (pn_ob n)
          \<lparr>cd_name = (case dc_name ?d of Some m \<Rightarrow> m | None \<Rightarrow> file_name_text root), cd_root = root, cd_shell = s,
            cd_terminals = []\<rparr> w = (Inr preview, u)"
      and l: "resolve_layers n ?d (fst prefs) root env previous existing ti mi
          (adopt_identity existing (cp_project preview), os) = Inr (q, b, os')"
      and r: "rj_project r = q"
    unfolding resolve_managed_def Let_def by (auto simp: op_simps)
  from resolve_layers_from [OF l] adopt_no_trust [OF preview_no_trust [OF p]] r show ?thesis by simp
qed

lemma resolve_unmanaged_from:
  assumes "resolve_unmanaged n root env w d e = Inr r"
  shows "trust_from (Some e) (rj_project r)"
  using assms discover_default_from [of n env root "(e, os)" _ "Some e" for os] own_trust [of e]
  by (auto simp: resolve_unmanaged_def res_simps)

lemma match_existing_member:
  assumes "match_existing n w root selected = Inr (Some p)"
  shows "p \<in> set (ws_projects w)"
proof (cases selected)
  case None
  with assms have "filter (same_root n root) (ws_projects w) = [p]"
    by (auto simp: match_existing_def Let_def res_simps split: list.splits)
  then have "p \<in> set (filter (same_root n root) (ws_projects w))" by simp
  then show ?thesis by simp
next
  case (Some i)
  with assms show ?thesis by (auto simp: match_existing_def Let_def res_simps find_project_Inr dest: find_found)
qed

lemma resolve_found_from:
  "resolve_found n root env ws prefs snap previous existing w = (Inr r, w') \<Longrightarrow> trust_from existing (rj_project r)"
  using resolve_managed_from [of n root env ws prefs snap previous existing w r w']
    resolve_unmanaged_from [of n root env ws "snd prefs" _ r]
  by (cases snap; cases existing) (auto simp: resolve_found_def)

text \<open>C22 (resolving_grants_no_trust). Whatever a declaration, the preferences or the machine say, the approvals of
  a resolved project are exactly taken over from one project of the stored workspace, each for a definition with
  the same identifier that is unchanged apart from its approval; without such a project there are none.\<close>

theorem resolving_grants_no_trust:
  assumes "resolve_for n root env selected w = (Inr r, w')"
    and "store_load (pn_ext n) (pn_codec n) (pn_store n) w = (Inr ws, u)"
  shows "\<exists>e. (e = None \<or> (\<exists>p. e = Some p \<and> p \<in> set (ws_projects ws))) \<and> trust_from e (rj_project r)"
proof -
  from assms obtain c existing previous snap prefs v v'
    where m: "match_existing n ws c selected = Inr existing"
      and r: "resolve_found n c env ws prefs snap previous existing v = (Inr r, v')"
    unfolding resolve_for_def Let_def by (auto simp: op_simps)
  have "existing = None \<or> (\<exists>p. existing = Some p \<and> p \<in> set (ws_projects ws))"
    using m match_existing_member by (cases existing) auto
  with resolve_found_from [OF r] show ?thesis by blast
qed

end
