(* ===== verification/Portable_Files.thy ===== *)
theory Portable_Files
  imports Portable_Write
begin

text \<open>
  What writing and exporting declarations promises while other programs use the same folder: a
  declaration that appears is never overwritten by an initialization, an edit replaces only the
  content it was made from, exported keys are found and distinct, exported paths come back.
\<close>

section \<open>A declaration that appears is kept\<close>

text \<open>Nothing has the name, and the content \<open>f\<close> is not in the inode \<open>j\<close>, which exists.\<close>

definition waiting :: "path \<Rightarrow> nat \<Rightarrow> dfile \<Rightarrow> dfs \<Rightarrow> bool" where
  "waiting p j f s = (dx_names s p = None \<and> dx_files s j \<noteq> f \<and> j < dx_next s)"

definition holds_file :: "path \<Rightarrow> nat \<Rightarrow> dfile \<Rightarrow> dfs \<Rightarrow> bool" where
  "holds_file p j f s = (dx_names s p = Some j \<and> dx_files s j = f)"

lemma at_point_keeps:
  "(\<And>s. P s \<Longrightarrow> P (dw_other oth k s)) \<Longrightarrow> op_keeps P m \<Longrightarrow> op_keeps P (at_point oth k m)"
  by (auto simp: op_keeps_def at_point_def Let_def split: option.splits)

lemma op_return_keeps: "op_keeps P (op_return x)"
  by (simp add: op_keeps_def)

lemma op_try_keeps: "op_keeps P m \<Longrightarrow> (\<And>x. op_keeps P (f x)) \<Longrightarrow> op_keeps P (op_try m f)"
  by (fastforce simp: op_keeps_def op_try_def split: prod.splits sum.splits)

lemma op_ensure_keeps: "op_keeps P m \<Longrightarrow> op_keeps P (op_ensure c e m)"
  by (auto simp: op_keeps_def op_ensure_def)

lemma op_lift_keeps: "op_keeps P (op_lift r)"
  by (simp add: op_keeps_def)

lemma op_context_keeps: "op_keeps P m \<Longrightarrow> op_keeps P (op_context e m)"
  by (fastforce simp: op_keeps_def op_context_def split: prod.splits sum.splits)

lemma named_is_keeps: "op_keeps P (named_is p m)"
  by (auto simp: op_keeps_def named_is_def split: option.splits)

lemma read_named_keeps: "op_keeps P (read_named p)"
  by (auto simp: op_keeps_def read_named_def split: option.splits)

lemma open_manifest_keeps: "op_keeps P (open_manifest p)"
  by (auto simp: op_keeps_def open_manifest_def split: option.splits)

lemma target_mode_keeps: "op_keeps P (target_mode p)"
  by (auto simp: op_keeps_def target_mode_def split: option.splits)

lemmas reading_keeps = op_return_keeps op_try_keeps op_ensure_keeps op_lift_keeps op_context_keeps named_is_keeps
  read_named_keeps open_manifest_keeps target_mode_keeps

lemma temporary_keeps:
  "t \<noteq> p \<Longrightarrow> op_keeps (waiting p j f) (create_temporary t mode)"
  "i \<noteq> j \<Longrightarrow> op_keeps (waiting p j f) (fill_temporary i draft)"
  "t \<noteq> p \<Longrightarrow> op_keeps (waiting p j f) (remove_name t)"
  "t \<noteq> p \<Longrightarrow> op_keeps (holds_file p j f) (remove_name t)"
  by (auto simp: op_keeps_def waiting_def holds_file_def create_temporary_def fill_temporary_def remove_name_def Let_def
      split: option.splits)

lemma check_target_keeps:
  "(\<And>s. P s \<Longrightarrow> P (dw_other oth k s)) \<Longrightarrow> (\<And>s. P s \<Longrightarrow> P (dw_other oth (k + 1) s)) \<Longrightarrow>
   op_keeps P (check_target sha oth k p m e)"
  unfolding check_target_def by (intro reading_keeps at_point_keeps)

text \<open>The hypotheses on the other programs: they leave the target unnamed, and \<open>f\<close> out of the inode \<open>j\<close>, until
  the very moment of publication, when they put \<open>f\<close> into \<open>j\<close> and give it the name; from then on they keep it.\<close>

definition appears :: "other_writers \<Rightarrow> path \<Rightarrow> nat \<Rightarrow> dfile \<Rightarrow> bool" where
  "appears oth p j f = ((\<forall>k s. k \<noteq> 11 \<longrightarrow> waiting p j f s \<longrightarrow> waiting p j f (dw_other oth k s))
     \<and> (\<forall>s. holds_file p j f (dw_other oth 11 s))
     \<and> (\<forall>k s. 11 < k \<longrightarrow> holds_file p j f s \<longrightarrow> holds_file p j f (dw_other oth k s)))"

text \<open>An operation that fails, before the other program made its file or leaving that file at the name.\<close>

definition refused :: "path \<Rightarrow> nat \<Rightarrow> dfile \<Rightarrow> 'a res \<Rightarrow> dfs \<Rightarrow> bool" where
  "refused p j f r s = ((\<exists>e. r = Inl e) \<and> (waiting p j f s \<or> holds_file p j f s))"

lemma refused_try:
  assumes "op_try m g s = (r, s')" "op_keeps (waiting p j f) m" "waiting p j f s"
    and "\<And>x u r s'. waiting p j f u \<Longrightarrow> g x u = (r, s') \<Longrightarrow> refused p j f r s'"
  shows "refused p j f r s'"
proof -
  obtain q u where q: "m s = (q, u)" by fastforce
  with assms(2,3) have "waiting p j f u" by (metis op_keepsD)
  with q assms(1,4) show ?thesis by (cases q) (auto simp: op_try_def refused_def)
qed

lemma refused_first:
  assumes "op_try m g s = (r, s')" "\<And>q u. m s = (q, u) \<Longrightarrow> refused p j f q u"
  shows "refused p j f r s'"
  using assms by (cases "m s") (auto simp: op_try_def refused_def)

lemma refused_ensure:
  "op_ensure c e m s = (r, s') \<Longrightarrow> waiting p j f s \<Longrightarrow> (m s = (r, s') \<Longrightarrow> refused p j f r s') \<Longrightarrow> refused p j f r s'"
  by (auto simp: op_ensure_def refused_def split: if_splits)

lemma publish_refused:
  assumes "appears oth p j f" "publish oth t p None s = (r, s')"
  shows "refused p j f r s'"
proof -
  have h: "holds_file p j f (dw_other oth 11 s)" using assms(1) by (simp add: appears_def)
  then have "dx_names (dw_other oth 11 s) p = Some j" by (simp add: holds_file_def)
  with assms(2) h show ?thesis
    by (auto simp: refused_def publish_def op_try_def at_point_def link_new_def Let_def split: option.splits)
qed

lemma others_waiting: "appears oth p j f \<Longrightarrow> k \<noteq> 11 \<Longrightarrow> waiting p j f s \<Longrightarrow> waiting p j f (dw_other oth k s)"
  by (simp add: appears_def)

lemma created_inode:
  assumes "at_point oth 6 (create_temporary t mode) s = (Inr i, u)" "waiting p j f (dw_other oth 6 s)"
  shows "i \<noteq> j"
  using assms by (auto simp: at_point_def create_temporary_def waiting_def Let_def split: option.splits)

lemma fill_refused:
  assumes a: "appears oth p j f" and t: "t \<noteq> p" and n: "waiting p j f s"
    and w: "fill_and_publish sha oth t p m mode None draft s = (r, s')"
  shows "refused p j f r s'"
proof -
  note keeps = at_point_keeps check_target_keeps op_return_keeps temporary_keeps(1,3,4) [OF t] temporary_keeps(2) others_waiting [OF a]
  obtain c v where c: "at_point oth 6 (create_temporary t mode) s = (c, v)" by fastforce
  have k: "op_keeps (waiting p j f) (at_point oth 6 (create_temporary t mode))" by (auto intro!: keeps)
  from op_keepsD [OF k n c] have v: "waiting p j f v" .
  show ?thesis
  proof (cases c)
    case (Inl e)
    with w c v show ?thesis by (auto simp: fill_and_publish_def op_try_def refused_def)
  next
    case (Inr i)
    have i: "i \<noteq> j" using created_inode [OF c [unfolded Inr]] others_waiting [OF a, of 6 s] n by simp
    from w c Inr have "op_try (at_point oth 7 (fill_temporary i draft)) (\<lambda>_. op_try (at_point oth 8 (op_return ())) (\<lambda>_.
      op_try (check_target sha oth 9 p m None) (\<lambda>_. op_try (publish oth t p None) (\<lambda>_. at_point oth 13 (op_return ()))))) v = (r, s')"
      by (simp add: fill_and_publish_def op_try_def)
    then show ?thesis
    proof (rule refused_try)
      fix x u r s' assume u: "waiting p j f u"
      assume "op_try (at_point oth 8 (op_return ())) (\<lambda>_.
        op_try (check_target sha oth 9 p m None) (\<lambda>_. op_try (publish oth t p None) (\<lambda>_. at_point oth 13 (op_return ())))) u = (r, s')"
      then show "refused p j f r s'"
      proof (rule refused_try)
        fix x u r s' assume u: "waiting p j f u"
        assume "op_try (check_target sha oth 9 p m None) (\<lambda>_. op_try (publish oth t p None) (\<lambda>_. at_point oth 13 (op_return ()))) u = (r, s')"
        then show "refused p j f r s'"
        proof (rule refused_try)
          fix x u r s' assume "op_try (publish oth t p None) (\<lambda>_. at_point oth 13 (op_return ())) u = (r, s')"
          then show "refused p j f r s'" by (rule refused_first) (rule publish_refused [OF a])
        qed (use u in \<open>auto intro!: keeps\<close>)
      qed (use u in \<open>auto intro!: keeps\<close>)
    qed (use v i in \<open>auto intro!: keeps\<close>)
  qed
qed

lemma discard_refused:
  assumes a: "appears oth p j f" and t: "t \<noteq> p"
    and m: "m s = (q, u)" "refused p j f q u" and w: "discard_on_error oth t m s = (r, s')"
  shows "refused p j f r s'"
proof -
  have "op_keeps (waiting p j f) (at_point oth 14 (remove_name t))"
    by (intro at_point_keeps temporary_keeps t others_waiting [OF a]) auto
  moreover have "op_keeps (holds_file p j f) (at_point oth 14 (remove_name t))"
    by (intro at_point_keeps temporary_keeps t) (use a in \<open>auto simp: appears_def\<close>)
  ultimately show ?thesis using m w by (auto simp: discard_on_error_def refused_def op_keeps_def)
qed

lemma refused_last:
  assumes "appears oth p j f" "t \<noteq> p"
    and "op_try (discard_on_error oth t (fill_and_publish sha oth t p m mode None draft)) g s = (r, s')" "waiting p j f s"
  shows "refused p j f r s'"
proof (rule refused_first [OF assms(3)])
  fix q u assume "discard_on_error oth t (fill_and_publish sha oth t p m mode None draft) s = (q, u)"
  then show "refused p j f q u"
    using discard_refused [OF assms(1,2)] fill_refused [OF assms(1,2,4)] by (metis surj_pair)
qed

text \<open>C23 (appearing_declaration_survives). When a declaration is initialized and another program creates the file
  at the last moment, right before it is published, the initialization fails and that file is still there, by its name
  and with its content; otherwise it failed before the other program acted.\<close>

theorem appearing_declaration_survives:
  assumes a: "appears oth p j f" and t: "temporary_path p i \<noteq> p" and n: "waiting p j f s"
    and w: "write_declaration pn oth i p None draft s = (r, s')"
  shows "(\<exists>e. r = Inl e) \<and> (waiting p j f s' \<or> holds_file p j f s')"
proof -
  note keeps = at_point_keeps check_target_keeps reading_keeps others_waiting [OF a]
  let ?sha = "sha256_hex (pn_ext pn)" and ?t = "temporary_path p i"
  have "refused p j f r s'"
    using w n unfolding write_declaration_def lock_manifest_def option.case
    by (elim refused_last [OF a t] refused_ensure refused_try) (auto intro!: keeps)
  then show ?thesis by (simp add: refused_def)
qed

section \<open>An edit replaces only what it was made from\<close>

lemma at_point_Inr: "(at_point oth k m s = (Inr x, u)) = (dw_fails oth k = None \<and> m (dw_other oth k s) = (Inr x, u))"
  by (auto simp: at_point_def Let_def split: option.splits)

lemma discard_Inr: "(discard_on_error oth t m s = (Inr u, s')) = (m s = (Inr u, s'))"
  by (auto simp: discard_on_error_def split: prod.splits sum.splits)

text \<open>Nobody else uses the temporary, and nobody acts between the last check and the rename after it.\<close>

definition private_temporary :: "other_writers \<Rightarrow> path \<Rightarrow> bool" where
  "private_temporary oth t = (\<forall>k s. dx_names (dw_other oth k s) t = dx_names s t
     \<and> (\<forall>i. dx_names s t = Some i \<longrightarrow> dx_files (dw_other oth k s) i = dx_files s i))"

definition idle_after_check :: "other_writers \<Rightarrow> bool" where
  "idle_after_check oth = (\<forall>k s. 9 \<le> k \<longrightarrow> dw_other oth k s = s)"

lemma check_target_Inr:
  assumes "check_target sha oth 9 p m (Some d) s = (Inr x, u)" "idle_after_check oth"
  shows "u = s \<and> (\<exists>j. dx_names s p = Some j \<and> sha (df_bytes (dx_files s j)) = d)"
  using assms
  by (auto simp: check_target_def op_simps at_point_Inr idle_after_check_def named_is_def read_named_def
      split: option.splits if_splits)

lemma fill_Inr:
  assumes w: "fill_and_publish sha oth t p m mode (Some d) draft s = (Inr x, s')"
    and priv: "private_temporary oth t" and idle: "idle_after_check oth"
  shows "\<exists>(u :: dfs) k j. dx_names u p = Some j \<and> sha (df_bytes (dx_files u j)) = d
    \<and> dx_names s' = (dx_names u)(t := None, p \<mapsto> k) \<and> dx_files s' = dx_files u \<and> df_bytes (dx_files u k) = draft"
proof -
  from w obtain i a b c where
    1: "create_temporary t mode (dw_other oth 6 s) = (Inr i, a)" and
    2: "fill_temporary i draft (dw_other oth 7 a) = (Inr (), b)" and
    3: "check_target sha oth 9 p m (Some d) (dw_other oth 8 b) = (Inr (), c)" and
    4: "rename_over t p c = (Inr (), s')"
    using idle by (auto simp: fill_and_publish_def publish_def op_simps at_point_Inr idle_after_check_def)
  from 1 have "dx_names a t = Some i" by (auto simp: create_temporary_def Let_def split: option.splits)
  with priv have "dx_names (dw_other oth 7 a) t = Some i" by (simp add: private_temporary_def)
  with 2 have b: "dx_names b t = Some i" "df_bytes (dx_files b i) = draft" by (auto simp: fill_temporary_def)
  from check_target_Inr [OF 3 idle] obtain j where c: "c = dw_other oth 8 b" "dx_names c p = Some j"
    "sha (df_bytes (dx_files c j)) = d" by blast
  from priv b c have t: "dx_names c t = Some i" "df_bytes (dx_files c i) = draft" by (simp_all add: private_temporary_def)
  with 4 have "dx_names s' = (dx_names c)(t := None, p \<mapsto> i)" "dx_files s' = dx_files c"
    by (auto simp: rename_over_def)
  with c t show ?thesis by (intro exI [of _ c] exI [of _ i] exI [of _ j]) simp
qed

text \<open>A successful edit found, at its last check, exactly the content its draft was
  made from at the name, and changed nothing but that name, which now holds the draft, and its own temporary.\<close>

theorem edit_is_compare_and_swap:
  assumes "write_declaration pn oth i p (Some d) draft s = (Inr g, s')"
    and "private_temporary oth (temporary_path p i)" and "idle_after_check oth"
  shows "\<exists>(u :: dfs) k j. dx_names u p = Some j \<and> sha256_hex (pn_ext pn) (df_bytes (dx_files u j)) = d
    \<and> dx_names s' = (dx_names u)(temporary_path p i := None, p \<mapsto> k)
    \<and> dx_files s' = dx_files u \<and> df_bytes (dx_files s' k) = draft \<and> g = sha256_hex (pn_ext pn) draft"
proof -
  from assms(1) obtain m mode v where
    "fill_and_publish (sha256_hex (pn_ext pn)) oth (temporary_path p i) p m mode (Some d) draft v = (Inr (), s')"
    and g: "g = sha256_hex (pn_ext pn) draft"
    by (auto simp: write_declaration_def op_simps discard_Inr)
  from fill_Inr [OF this(1) assms(2,3)] g show ?thesis by metis
qed

section \<open>Exported keys\<close>

definition decimal_value :: "string \<Rightarrow> nat" where
  "decimal_value s = foldl (\<lambda>a c. a * 10 + (of_char c - 48)) 0 s"

lemma decimal_value_of: "decimal_value (string_of_nat n) = n"
proof (induction n rule: string_of_nat.induct)
  case (1 n)
  have "n mod 10 < 10" by simp
  then have "48 + n mod 10 < 256" by linarith
  with 1 show ?case by (subst string_of_nat.simps) (auto simp: decimal_value_def)
qed

lemma candidates_differ: "2 \<le> a \<Longrightarrow> 2 \<le> b \<Longrightarrow> key_candidate name a = key_candidate name b \<Longrightarrow> a = b"
proof -
  assume "2 \<le> a" "2 \<le> b" "key_candidate name a = key_candidate name b"
  then have "string_of_nat a = string_of_nat b" by (simp add: key_candidate_def)
  then have "decimal_value (string_of_nat a) = decimal_value (string_of_nat b)" by simp
  then show "a = b" by (simp only: decimal_value_of)
qed

lemma fresh_key_Some: "fresh_key fuel used name k = Some key \<Longrightarrow> key \<notin> set used"
  by (induction fuel used name k rule: fresh_key.induct) (auto split: if_splits)

lemma fresh_key_None: "fresh_key fuel used name k = None \<Longrightarrow> k \<le> j \<Longrightarrow> j < k + fuel \<Longrightarrow> key_candidate name j \<in> set used"
proof (induction fuel used name k rule: fresh_key.induct)
  case (2 fuel used name k)
  then show ?case by (cases "j = k") (auto split: if_splits)
qed simp

lemma fresh_key_found: "\<exists>key. fresh_key (length used + 2) used name 1 = Some key"
proof (rule ccontr)
  assume "\<not> ?thesis"
  then have none: "fresh_key (length used + 2) used name 1 = None" by (simp only: not_Some_eq not_ex)
  have "key_candidate name j \<in> set used" if "2 \<le> j" "j < length used + 3" for j
    by (rule fresh_key_None [OF none]) (use that in simp_all)
  then have "key_candidate name ` {2..<length used + 3} \<subseteq> set used" by (intro image_subsetI) simp
  then have "card (key_candidate name ` {2..<length used + 3}) \<le> card (set used)" by (intro card_mono) simp_all
  also have "\<dots> \<le> length used" by (rule card_length)
  finally have "card (key_candidate name ` {2..<length used + 3}) \<le> length used" .
  moreover have "inj_on (key_candidate name) {2..<length used + 3}"
    by (rule inj_onI) (auto dest: candidates_differ)
  ultimately show False by (simp add: card_image)
qed

lemma unique_keys_invariant:
  "distinct (map fst vs) \<Longrightarrow> dom (map_of acc) \<inter> fst ` set vs = {} \<Longrightarrow> ran (map_of acc) \<subseteq> set used \<Longrightarrow>
   inj_on (map_of acc) (dom (map_of acc)) \<Longrightarrow>
   \<exists>m. unique_keys used vs acc = Some m \<and> dom (map_of m) = dom (map_of acc) \<union> fst ` set vs
     \<and> inj_on (map_of m) (dom (map_of m))"
proof (induction used vs acc rule: unique_keys.induct)
  case (2 used i name vs acc)
  obtain k where k: "fresh_key (length used + 2) used name 1 = Some k" using fresh_key_found by blast
  then have new: "k \<notin> set used" by (rule fresh_key_Some)
  have i: "map_of acc i = None" using "2.prems"(2) by auto
  have ids: "distinct (map fst vs)" using "2.prems"(1) by simp
  have ran: "ran (map_of (bt_insert i k acc)) \<subseteq> set (k # used)" using "2.prems"(3) i by (auto simp: ran_def)
  have inj: "inj_on (map_of (bt_insert i k acc)) (dom (map_of (bt_insert i k acc)))"
    using "2.prems"(3,4) new i by (auto simp: inj_on_def dom_def ran_def split: if_splits)
  have dom: "dom (map_of (bt_insert i k acc)) \<inter> fst ` set vs = {}" using "2.prems"(1,2) by auto
  from "2.IH" [OF k ids dom ran inj] obtain m where "unique_keys (k # used) vs (bt_insert i k acc) = Some m"
    "dom (map_of m) = dom (map_of (bt_insert i k acc)) \<union> fst ` set vs" "inj_on (map_of m) (dom (map_of m))"
    by blast
  with k show ?case by auto
qed simp

text \<open>The search for export keys always ends: each definition gets a key and no two
  share one, however often names repeat; so no definition is lost when the export becomes a table.\<close>

theorem export_keys_are_unique:
  assumes "distinct (map fst vs)"
  shows "\<exists>m. unique_keys [] vs [] = Some m \<and> dom (map_of m) = fst ` set vs \<and> inj_on (map_of m) (dom (map_of m))"
  using unique_keys_invariant [OF assms, of "[]" "[]"] by simp

section \<open>Exported paths\<close>

lemma absolute_names:
  assumes "is_absolute p"
  obtains ns where "components p = RootDir # map component_of ns" "\<forall>s\<in>set ns. CHR ''/'' \<notin> set s \<and> \<not> trivial_seg s"
proof (rule that [OF components_absolute [OF assms]])
  show "\<forall>s\<in>set (filter (\<lambda>s. \<not> trivial_seg s) (split_on (CHR ''/'') p)). CHR ''/'' \<notin> set s \<and> \<not> trivial_seg s"
    using split_on_no_sep by fastforce
qed

lemma component_of_text: "(case component_of s of RootDir \<Rightarrow> [] | CurDir \<Rightarrow> ''.'' | ParentDir \<Rightarrow> ''..'' | Normal n \<Rightarrow> n) = s"
  by (simp add: component_of_def)

lemma components_root: "components ''/'' = [RootDir]"
  by code_simp

lemma components_path_text:
  assumes "is_absolute p"
  shows "components (path_text (components p)) = components p"
proof -
  obtain ns where c: "components p = RootDir # map component_of ns"
    and ns: "\<forall>s\<in>set ns. CHR ''/'' \<notin> set s \<and> \<not> trivial_seg s"
    using absolute_names [OF assms] by blast
  show ?thesis
  proof (cases ns)
    case Nil
    then show ?thesis by (simp add: c path_text_def components_root)
  next
    case (Cons n ns')
    have t: "path_text (components p) = join_segs ([] # ns)"
      using Cons by (simp add: c path_text_def component_of_text comp_def)
    have a: "is_absolute (join_segs ([] # ns))" using Cons by (simp add: is_absolute_def)
    have "filter (\<lambda>s. \<not> trivial_seg s) ns = ns" using ns by (simp add: filter_id_conv)
    then have "filter (\<lambda>s. \<not> trivial_seg s) (split_on (CHR ''/'') (join_segs ([] # ns))) = ns"
      using ns by (subst real_split_join) (auto simp: trivial_seg_def)
    then have "components (join_segs ([] # ns)) = RootDir # map component_of ns"
      by (simp only: components_absolute [OF a])
    then show ?thesis by (simp only: t) (simp only: c)
  qed
qed

lemma declared_path_absolute:
  assumes "is_absolute q" "q = (if is_absolute p then p else join_path base p)"
  shows "components (declared_path base p) = components q"
proof -
  obtain ns where "components q = RootDir # map component_of ns" using absolute_names [OF assms(1)] by blast
  then have "filter (\<lambda>c. c \<noteq> CurDir) (components q) = components q" by (auto simp: filter_id_conv component_of_def)
  with components_path_text [OF assms(1)] assms(2) show ?thesis by (simp add: declared_path_def)
qed

lemma relative_path_under:
  assumes "is_absolute root" "is_absolute p" "strip_prefix p root = Some suf"
  shows "components root @ drop (length (components root)) (components p) = components p" and "\<not> is_absolute suf"
proof -
  from assms(3) have "prefix (components root) (components p)"
    by (simp add: strip_prefix_def starts_with_def split: if_splits)
  then show "components root @ drop (length (components root)) (components p) = components p" by (auto elim: prefixE)
  show "\<not> is_absolute suf"
  proof
    assume a: "is_absolute suf"
    from assms(3) obtain n where suf: "suf = join_segs (trim_segs (skip_real n (split_on (CHR ''/'') p)))"
      by (auto simp: strip_prefix_def split: if_splits)
    let ?ss = "trim_segs (skip_real n (split_on (CHR ''/'') p))"
    have "\<forall>s\<in>set ?ss. CHR ''/'' \<notin> set s"
      using set_trim_segs set_skip_real split_on_no_sep by (metis subsetD)
    then have "\<not> is_absolute (join_segs ?ss)" by (rule join_segs_relative) (rule hd_trim_segs)
    with a suf show False by simp
  qed
qed

lemma join_absolute: "is_absolute d \<Longrightarrow> \<not> is_absolute s \<Longrightarrow> is_absolute (join_path d s)"
  by (cases d) (auto simp: is_absolute_def join_path_def split: list.splits)

lemma join_dot: "is_absolute root \<Longrightarrow> components (join_path root ''.'') = components root"
  by (simp add: components_join_relative is_absolute_def trivial_seg_def)

text \<open>A path exported relative to the project folder names, once a declaration is
  resolved in that folder again, the same path component by component; a path outside the folder is kept.\<close>

theorem exported_paths_return:
  assumes root: "is_absolute root" and p: "is_absolute p"
  shows "path_eq (declared_path root (relative_path root p)) p"
proof (cases "strip_prefix p root")
  case None
  with p show ?thesis by (simp add: relative_path_def path_eq_def declared_path_absolute [OF p])
next
  case (Some suf)
  note c = strip_join_components [OF Some p root root] relative_path_under [OF root p Some]
  define r where "r = relative_path root p"
  have r: "\<not> is_absolute r \<and> components (join_path root r) = components p"
  proof (cases suf)
    case Nil
    have "components (join_path root []) = components root"
      using components_join_relative [OF root, of "[]"] by (simp add: is_absolute_def trivial_seg_def)
    with c Nil Some show ?thesis
      using join_dot [OF root] by (simp_all add: r_def relative_path_def is_absolute_def)
  next
    case (Cons a as)
    with c Some show ?thesis
      by (simp_all add: r_def relative_path_def)
  qed
  have "components (declared_path root r) = components (join_path root r)"
    by (rule declared_path_absolute) (use r root join_absolute in simp_all)
  with r show ?thesis by (simp add: path_eq_def r_def)
qed

section \<open>The default editor arguments\<close>

text \<open>C40 (default_editor_cannot_open). An editor declared or preferred without arguments gets the default arguments
  of a project without an editor; the project is valid with them, but no source location can ever be opened: the
  editor service wants a \<open>--\<close> before the file.\<close>

theorem default_editor_cannot_open:
  assumes "apply_editor n None d base env = Inr c" and "de_args d = None" and "absolute_path (ed_executable c) = Inr ()"
  shows "validate_editor c = Inr () \<and> validate_config c \<noteq> Inr ()"
proof -
  from assms(1,2) have a: "ed_args c = [''{file}'']" by (auto simp: apply_editor_def res_simps)
  then have "validate_editor c = Inr ()"
    using assms(3) by (simp add: validate_editor_def res_simps contains_str_def)
  moreover have "validate_config c \<noteq> Inr ()"
    by (auto simp: validate_config_def res_simps a)
  ultimately show ?thesis by simp
qed

end
