(* ===== verification/Portable_Demo.thy ===== *)
theory Portable_Demo
  imports Portable_Safety Portable_Files Trust_Properties
begin

text \<open>A small machine with one shell, a stored project and a declaration for its folder.\<close>

definition demo_tool_os :: os where
  "demo_tool_os = \<lparr>os_canonicalize = Inr,
     os_metadata = (\<lambda>p. if p \<in> {''/bin/sh'', ''/bin/make''} then Inr (demo_meta\<lparr>fm_is_file := True, fm_is_dir := False, fm_mode := 493\<rparr>)
       else if p = ''/w'' then Inr demo_meta else Inl NotFound),
     os_open = (\<lambda>_. Inl NotFound)\<rparr>"

definition demo_probe :: probe where
  "demo_probe = \<lparr>pv_os = demo_tool_os, pv_access = (\<lambda>_. True), pv_read = (\<lambda>_. Inl NotFound), pv_uid = 1000,
     pv_toml_tables = (\<lambda>_. None), pv_json = (\<lambda>_. Inl NotFound), pv_new_id = (\<lambda>_. ''n'')\<rparr>"

definition demo_declared :: portable_declaration where
  "demo_declared = default_declaration\<lparr>dc_name := Some ''App'', dc_tasks := [(''make'', \<lparr>dk_name = None,
     dk_program = Some ''/bin/make'', dk_args = None, dk_interpreter = None, dk_script = None, dk_command = None,
     dk_cwd = None, dk_env = [], dk_sources = [], dk_steps = [], dk_interactive = False, dk_disable_logging = False,
     dk_continue_on_failure = False, dk_artifact = None, dk_build_outputs = [], dk_artifact_from_task = None,
     dk_timeout_seconds = None\<rparr>)]\<rparr>"

definition demo_stored :: workspace where
  "demo_stored = default_workspace\<lparr>ws_projects := [demo_project\<lparr>pr_terminals := [demo_terminal]\<rparr>]\<rparr>"

definition demo_portable :: portable where
  "demo_portable = \<lparr>pn_ext = demo_ext,
     pn_codec = demo_codec\<lparr>toml_parse := (\<lambda>_. Inr demo_stored)\<rparr>,
     pn_store = demo_store,
     pn_toml = \<lparr>py_declaration = (\<lambda>_. Inr demo_declared), py_preferences = (\<lambda>_. Inl NotFound),
       py_print_preferences = (\<lambda>_. Inl NotFound), py_value = (\<lambda>_. Inl NotFound), py_print_value = (\<lambda>_. Inl NotFound)\<rparr>,
     pn_ob = demo_ob\<lparr>ob_os := demo_tool_os, ob_declaration := (\<lambda>_. Inr (Some ''x''))\<rparr>, pn_pv = demo_probe\<rparr>"

definition demo_config_world :: world where
  "demo_config_world = put_file (components ''/c/workspace.toml'') (new_inode 1000 ''w'') demo_world"

definition demo_home :: environment where
  "demo_home = [(''HOME'', ''/h'')]"

text \<open>The values along the way, one call at a time.\<close>

definition demo_snapshot :: declaration_snapshot where
  "demo_snapshot = \<lparr>dn_path = ''/w/idk.toml'', dn_raw = ''x'', dn_digest = sha256_hex demo_ext ''x'',
     dn_declaration = demo_declared\<rparr>"

definition demo_existing :: project where
  "demo_existing = demo_project\<lparr>pr_terminals := [demo_terminal]\<rparr>"

definition demo_loaded :: world where
  "demo_loaded = snd (store_load (pn_ext demo_portable) (pn_codec demo_portable) (pn_store demo_portable) demo_config_world)"

definition demo_preferred :: world where
  "demo_preferred = snd (load_preferences demo_portable demo_loaded)"

definition demo_layer :: "shell_config \<times> origins" where
  "demo_layer = projr (resolve_shell demo_portable demo_declared default_preferences ''/w'' demo_home)"

definition demo_draft :: connect_draft where
  "demo_draft = \<lparr>cd_name = ''App'', cd_root = ''/w'', cd_shell = fst demo_layer, cd_terminals = []\<rparr>"

definition demo_preview :: "connect_preview res \<times> world" where
  "demo_preview = preview_connect demo_ext (pn_codec demo_portable) demo_store (pn_ob demo_portable) demo_draft demo_preferred"

definition demo_task_ids :: "string btree res \<times> world" where
  "demo_task_ids = assign_ids (bt_keys (dc_tasks demo_declared)) [] (snd demo_preview)"

definition demo_terminal_ids :: "string btree res \<times> world" where
  "demo_terminal_ids = assign_ids (bt_keys (declared_terminals demo_declared)) [] (snd demo_task_ids)"

definition demo_layers :: "(project \<times> project \<times> origins) res" where
  "demo_layers = resolve_layers demo_portable demo_declared default_preferences ''/w'' demo_home None (Some demo_existing)
     (projr (fst demo_task_ids)) (projr (fst demo_terminal_ids))
     (adopt_identity (Some demo_existing) (cp_project (projr (fst demo_preview))), snd demo_layer)"

lemma ok_projr: "is_ok r \<Longrightarrow> r = Inr (projr r)"
  by (cases r) (simp_all add: is_ok_def)

lemma run_pair: "is_ok (fst x) \<Longrightarrow> x = (Inr (projr (fst x)), snd x)"
  using ok_projr by (metis prod.collapse)

lemma demo_store_load:
  "store_load (pn_ext demo_portable) (pn_codec demo_portable) (pn_store demo_portable) demo_config_world = (Inr demo_stored, demo_loaded)"
proof -
  have "fst (store_load (pn_ext demo_portable) (pn_codec demo_portable) (pn_store demo_portable) demo_config_world) = Inr demo_stored"
    by code_simp
  then show ?thesis by (simp add: demo_loaded_def prod_eq_iff)
qed

lemma demo_steps:
  "with_context (os_canonicalize (ob_os (pn_ob demo_portable)) ''/w'') ''project folder is unavailable'' = Inr ''/w''"
  "is_directory (pn_pv demo_portable) ''/w''"
  "match_existing demo_portable demo_stored ''/w'' None = Inr (Some demo_existing)"
  "read_declaration demo_portable ''/w'' = Inr (Some demo_snapshot)"
  "find (\<lambda>b. pb_project_id b = pr_id demo_existing) (ws_portable demo_stored) = None"
  "is_ok (resolve_shell demo_portable demo_declared default_preferences ''/w'' demo_home)"
  "dc_name demo_declared = Some ''App''"
  by code_simp+

lemma demo_load_preferences: "load_preferences demo_portable demo_loaded = (Inr (default_preferences, None), demo_preferred)"
proof -
  have "fst (load_preferences demo_portable demo_loaded) = Inr (default_preferences, None)" by code_simp
  then show ?thesis by (simp add: demo_preferred_def prod_eq_iff)
qed

lemma demo_drawn: "is_ok (fst demo_preview)" "is_ok (fst demo_task_ids)" "is_ok (fst demo_terminal_ids)"
  by code_simp+

lemma demo_layered:
  "(case demo_layers of Inr (p, _, _) \<Rightarrow> map td_trusted_digest (pr_terminals p) = [None, Some ''forged'']
     \<and> map ta_name (pr_tasks p) = [''make'', ''build''] | Inl e \<Rightarrow> False)"
  by code_simp

lemma demo_layers_ok: "is_ok demo_layers"
proof (cases demo_layers)
  case (Inl a)
  from demo_layered show ?thesis unfolding Inl sum.case by blast
next
  case (Inr b)
  show ?thesis unfolding is_ok_def Inr sum.case by blast
qed

text \<open>One call after the other gives the whole resolution.\<close>

lemma demo_managed:
  "\<exists>r w'. resolve_managed demo_portable ''/w'' demo_home demo_stored (default_preferences, None) (Some demo_snapshot)
     None (Some demo_existing) demo_preferred = (Inr r, w')"
proof -
  obtain q b os where l: "demo_layers = Inr (q, b, os)" using ok_projr [OF demo_layers_ok] by (metis prod_cases3)
  obtain sh so where y: "demo_layer = (sh, so)" by (cases demo_layer)
  obtain pre u where v: "demo_preview = (Inr pre, u)" using run_pair [OF demo_drawn(1)] by blast
  obtain ti w1 where t: "demo_task_ids = (Inr ti, w1)" using run_pair [OF demo_drawn(2)] by blast
  obtain mi w2 where m: "demo_terminal_ids = (Inr mi, w2)" using run_pair [OF demo_drawn(3)] by blast
  have 1: "resolve_shell demo_portable demo_declared default_preferences ''/w'' demo_home = Inr (sh, so)"
    using ok_projr [OF demo_steps(6)] y by (simp add: demo_layer_def)
  have 2: "preview_connect (pn_ext demo_portable) (pn_codec demo_portable) (pn_store demo_portable) (pn_ob demo_portable)
      \<lparr>cd_name = ''App'', cd_root = ''/w'', cd_shell = sh, cd_terminals = []\<rparr> demo_preferred = (Inr pre, u)"
    using v unfolding demo_preview_def demo_draft_def y by (simp add: demo_portable_def)
  have 3: "assign_ids (bt_keys (dc_tasks demo_declared)) [] u = (Inr ti, w1)"
    using t unfolding demo_task_ids_def v snd_conv by assumption
  have 4: "assign_ids (bt_keys (declared_terminals demo_declared)) [] w1 = (Inr mi, w2)"
    using m unfolding demo_terminal_ids_def t snd_conv by assumption
  have 5: "resolve_layers demo_portable demo_declared default_preferences ''/w'' demo_home None (Some demo_existing) ti mi
      (adopt_identity (Some demo_existing) (cp_project pre), so) = Inr (q, b, os)"
    using l unfolding demo_layers_def v t m y fst_conv snd_conv sum.sel by assumption
  have 6: "dn_declaration demo_snapshot = demo_declared" by (simp add: demo_snapshot_def)
  show ?thesis
    unfolding resolve_managed_def Let_def option.case 6 fst_conv snd_conv demo_steps(7)
    by (simp add: op_try_def 1 2 3 4 5 del: split_paired_Ex)
qed

lemma demo_resolved:
  "\<exists>r w'. resolve_for demo_portable ''/w'' demo_home None demo_config_world = (Inr r, w')"
proof -
  obtain r w' where r: "resolve_managed demo_portable ''/w'' demo_home demo_stored (default_preferences, None)
     (Some demo_snapshot) None (Some demo_existing) demo_preferred = (Inr r, w')" using demo_managed by blast
  have 1: "resolve_found demo_portable ''/w'' demo_home demo_stored (default_preferences, None)
     (Some demo_snapshot) None (Some demo_existing) demo_preferred = (Inr r, w')"
    using r by (simp add: resolve_found_def)
  show ?thesis
    unfolding resolve_for_def Let_def
    by (simp add: op_try_def demo_steps demo_store_load demo_load_preferences 1)
qed

theorem resolving_grants_no_trust_witness:
  "\<exists>r w'. resolve_for demo_portable ''/w'' demo_home None demo_config_world = (Inr r, w')
     \<and> (\<exists>e. (e = None \<or> (\<exists>p. e = Some p \<and> p \<in> set (ws_projects demo_stored))) \<and> trust_from e (rj_project r))"
  using demo_resolved resolving_grants_no_trust [OF _ demo_store_load] by metis

section \<open>Writing among other programs\<close>

definition demo_draft_text :: string where
  "demo_draft_text = ''name = App''"

definition demo_dfs :: dfs where
  "demo_dfs = \<lparr>dx_names = [''/w/idk.toml'' \<mapsto> 1], dx_files = (\<lambda>_. \<lparr>df_regular = True, df_mode = 420, df_bytes = ''x''\<rparr>),
     dx_next = 2\<rparr>"

definition quiet :: other_writers where
  "quiet = \<lparr>dw_other = (\<lambda>_ s. s), dw_fails = (\<lambda>_. None)\<rparr>"

text \<open>Another program creates the declaration right before it is published.\<close>

definition demo_intruder :: dfile where
  "demo_intruder = \<lparr>df_regular = True, df_mode = 420, df_bytes = ''theirs''\<rparr>"

definition intruding :: other_writers where
  "intruding = \<lparr>dw_other = (\<lambda>k s. if k = 11 then s\<lparr>dx_names := (dx_names s)(''/w/idk.toml'' \<mapsto> 1),
       dx_files := (dx_files s)(1 := demo_intruder)\<rparr> else s), dw_fails = (\<lambda>_. None)\<rparr>"

lemma demo_edit: "is_ok (fst (write_declaration demo_portable quiet ''n'' ''/w/idk.toml'' (Some (sha256_hex (pn_ext demo_portable) ''x''))
    demo_draft_text demo_dfs))"
  by code_simp

theorem edit_is_compare_and_swap_witness:
  "\<exists>g s' (u :: dfs) k j. write_declaration demo_portable quiet ''n'' ''/w/idk.toml'' (Some (sha256_hex (pn_ext demo_portable) ''x''))
       demo_draft_text demo_dfs = (Inr g, s') \<and>
     dx_names u ''/w/idk.toml'' = Some j \<and> df_bytes (dx_files s' k) = demo_draft_text \<and>
     dx_names s' = (dx_names u)(temporary_path ''/w/idk.toml'' ''n'' := None, ''/w/idk.toml'' \<mapsto> k)"
proof -
  obtain g s' where w: "write_declaration demo_portable quiet ''n'' ''/w/idk.toml''
      (Some (sha256_hex (pn_ext demo_portable) ''x'')) demo_draft_text demo_dfs = (Inr g, s')"
    using run_pair [OF demo_edit] by blast
  have "private_temporary quiet (temporary_path ''/w/idk.toml'' ''n'')" "idle_after_check quiet"
    by (simp_all add: quiet_def private_temporary_def idle_after_check_def)
  from edit_is_compare_and_swap [OF w this] w show ?thesis by blast
qed

theorem appearing_declaration_survives_witness:
  "\<exists>e s'. write_declaration demo_portable intruding ''n'' ''/w/idk.toml'' None demo_draft_text (demo_dfs\<lparr>dx_names := Map.empty\<rparr>) = (Inl e, s')
     \<and> (waiting ''/w/idk.toml'' 1 demo_intruder s' \<or> holds_file ''/w/idk.toml'' 1 demo_intruder s')"
proof -
  obtain r s' where w: "write_declaration demo_portable intruding ''n'' ''/w/idk.toml'' None demo_draft_text
      (demo_dfs\<lparr>dx_names := Map.empty\<rparr>) = (r, s')" by fastforce
  have a: "appears intruding ''/w/idk.toml'' 1 demo_intruder"
    by (simp add: appears_def intruding_def waiting_def holds_file_def)
  have t: "temporary_path ''/w/idk.toml'' ''n'' \<noteq> ''/w/idk.toml''" by code_simp
  have n: "waiting ''/w/idk.toml'' 1 demo_intruder (demo_dfs\<lparr>dx_names := Map.empty\<rparr>)"
    by (simp add: waiting_def demo_dfs_def demo_intruder_def)
  from appearing_declaration_survives [OF a t n w] w show ?thesis by blast
qed

text \<open>The intruder's file really is what is left.\<close>

lemma intruder_kept: "dx_names (snd (write_declaration demo_portable intruding ''n'' ''/w/idk.toml'' None demo_draft_text
    (demo_dfs\<lparr>dx_names := Map.empty\<rparr>))) ''/w/idk.toml'' = Some 1"
  by code_simp

theorem exported_paths_return_witness:
  "path_eq (declared_path ''/w'' (relative_path ''/w'' ''/w/src/main.c'')) ''/w/src/main.c''
     \<and> relative_path ''/w'' ''/w/src/main.c'' = ''src/main.c''"
proof
  show "path_eq (declared_path ''/w'' (relative_path ''/w'' ''/w/src/main.c'')) ''/w/src/main.c''"
    by (rule exported_paths_return) (simp_all add: is_absolute_def)
  show "relative_path ''/w'' ''/w/src/main.c'' = ''src/main.c''" by code_simp
qed

text \<open>An editor declared by its program only.\<close>

definition demo_editor :: editor_config where
  "demo_editor = \<lparr>ed_executable = ''/bin/make'', ed_args = [''{file}''], ed_external_gui = False\<rparr>"

theorem default_editor_cannot_open_witness:
  "validate_editor demo_editor = Inr () \<and> validate_config demo_editor \<noteq> Inr ()"
proof (rule default_editor_cannot_open)
  show "apply_editor demo_portable None (empty_editor_declaration\<lparr>de_program := Some ''/bin/make''\<rparr>) ''/w'' demo_home
      = Inr demo_editor" by code_simp
  show "de_args (empty_editor_declaration\<lparr>de_program := Some ''/bin/make''\<rparr>) = None"
    by (simp add: empty_editor_declaration_def)
  show "absolute_path (ed_executable demo_editor) = Inr ()" by code_simp
qed

end
