(* ===== verification/Shell_Prepare.thy ===== *)
theory Shell_Prepare
  imports Editor
begin

text \<open>
  Preparing a managed csh (\<open>shell.rs\<close>): the inspection of the selected shell, the checks of a plan,
  the generated start-up script, and the command that starts the shell.  The script is a list of
  steps, each rendered to the text the code writes; the private directory it is written to, and
  what the machine answers, are explicit.
\<close>

section \<open>Prepared shells\<close>

datatype initialization_state = Initializing | Unobserved | Ready | InitFailed

record shell_command =
  hc_program :: path
  hc_args :: "string list"
  hc_cwd :: path
  hc_env :: environment

record prepared_shell =
  ps_command :: shell_command
  ps_bootstrap :: string
  ps_state_path :: path
  ps_resource_dir :: path

section \<open>Inspecting the shell\<close>

text \<open>One turn of the probe: what reading until the end or until it would block returns, the exit
  status, what reading after the exit returns, and the clock.\<close>

datatype probe_read = ProbeData string | ProbePause | ProbeError error

record probe_turn =
  pt_reads :: "probe_read list"
  pt_exit :: "bool option res"
  pt_rest :: "probe_read list"
  pt_late :: bool

fun drain_probe :: "string \<Rightarrow> probe_read list \<Rightarrow> string res" where
  "drain_probe bytes [] = Inr bytes"
| "drain_probe bytes (ProbePause # rs) = Inr bytes"
| "drain_probe bytes (ProbeError e # rs) = Inl e"
| "drain_probe bytes (ProbeData c # rs) = (if c = [] then Inr bytes
     else ensure (length bytes + length c \<le> 4096) ''shell probe output exceeds limit'' (drain_probe (bytes @ c) rs))"

fun probe_loop :: "string \<Rightarrow> probe_turn list \<Rightarrow> string res option" where
  "probe_loop bytes [] = None"
| "probe_loop bytes (t # ts) = (case drain_probe bytes (pt_reads t) of Inl e \<Rightarrow> Some (Inl e)
   | Inr bytes \<Rightarrow> (case pt_exit t of Inl e \<Rightarrow> Some (Inl e)
     | Inr (Some success) \<Rightarrow> Some (and_then (drain_probe bytes (pt_rest t)) (\<lambda>bytes.
         ensure success ''selected shell implementation probe failed'' (Inr bytes)))
     | Inr None \<Rightarrow> if pt_late t then Some (Inl (Bail ''selected shell implementation probe timed out''))
         else probe_loop bytes ts))"

text \<open>\<open>str::lines\<close>: a line that ends in a line feed loses it and a carriage return before it.\<close>

definition text_lines :: "string \<Rightarrow> string list" where
  "text_lines s = (let ps = split_on (CHR 0x0A) s in
     map (\<lambda>l. if l \<noteq> [] \<and> last l = CHR 0x0D then butlast l else l) (butlast ps) @ (if last ps = [] then [] else [last ps]))"

definition version_login_first :: "string \<Rightarrow> bool" where
  "version_login_first version = (let ws = split_whitespace (chars version) in
     ws \<noteq> [] \<and> ''lf'' \<in> set (split_on (CHR '','') (utf8_text (last ws))))"

definition read_inspection :: "path \<Rightarrow> string \<Rightarrow> shell_inspection res" where
  "read_inspection canonical bytes =
    ensure (to_str bytes \<noteq> None) ''invalid shell probe response''
    (let ls = text_lines bytes in
     and_then (if ls \<noteq> [] \<and> hd ls = ''tcsh'' then Inr Tcsh
       else if ls \<noteq> [] \<and> hd ls = ''bsd'' then Inr BsdCsh
       else Inl (Bail ''selected executable is not recognized as csh/tcsh'')) (\<lambda>kind.
     Inr \<lparr>sn_canonical = canonical, sn_kind = kind,
       sn_login_first = version_login_first (if length ls < 2 then [] else ls ! 1)\<rparr>))"

section \<open>Quoting\<close>

definition shell_quote :: "string \<Rightarrow> string res" where
  "shell_quote v = ensure (\<not> has_control v) ''shell paths must not contain control characters''
     (Inr ([CHR 0x27] @ quote_chars v @ [CHR 0x27]))"

definition quote_path :: "path \<Rightarrow> string res" where
  "quote_path p = ensure (to_str p \<noteq> None) ''shell paths must be UTF-8'' (shell_quote p)"

record probe_start =
  pb_spawn :: "unit res"
  pb_nonblock :: "unit res"
  pb_turns :: "probe_turn list"

definition inspect_shell :: "os \<Rightarrow> probe_start \<Rightarrow> path \<Rightarrow> shell_inspection res option" where
  "inspect_shell x b p =
    (case ensure (is_absolute p) ''shell executable must be absolute''
       (and_then (quote_path p) (\<lambda>_.
        and_then (with_context (os_canonicalize x p) ''resolve shell executable'') (\<lambda>canonical.
        and_then (os_metadata x canonical) (\<lambda>m.
        ensure (fm_is_file m \<and> Bit_Operations.and (fm_mode m) 73 \<noteq> 0) ''shell must be an executable regular file''
        (and_then (with_context (pb_spawn b) ''probe selected shell implementation'') (\<lambda>_.
         and_then (pb_nonblock b) (\<lambda>_. Inr canonical))))))) of
       Inl e \<Rightarrow> Some (Inl e)
     | Inr canonical \<Rightarrow> map_option (\<lambda>r. and_then r (read_inspection canonical)) (probe_loop [] (pb_turns b)))"

section \<open>Checks\<close>

definition file_present :: "os \<Rightarrow> path \<Rightarrow> bool" where
  "file_present x p = (case os_metadata x p of Inl _ \<Rightarrow> False | Inr m \<Rightarrow> fm_is_file m)"

definition dir_present :: "os \<Rightarrow> path \<Rightarrow> bool" where
  "dir_present x p = (case os_metadata x p of Inl _ \<Rightarrow> False | Inr m \<Rightarrow> fm_is_dir m)"

definition resolved_source :: "shell_plan \<Rightarrow> source_spec \<Rightarrow> path" where
  "resolved_source sp s = (if is_absolute (ss_path s) then ss_path s else join_path (sp_init_cwd sp) (ss_path s))"

definition check_plan_path :: "string \<times> path \<Rightarrow> unit res" where
  "check_plan_path lp = (case lp of (label, p) \<Rightarrow>
     ensure (is_absolute p) (label @ '' must be absolute'') (and_then (quote_path p) (\<lambda>_. Inr ())))"

definition check_source_arg :: "string \<Rightarrow> unit res" where
  "check_source_arg a = ensure (length a \<le> 8192) ''source argument exceeds 8192 bytes''
     (and_then (shell_quote a) (\<lambda>_. Inr ()))"

definition check_plan_source :: "os \<Rightarrow> shell_plan \<Rightarrow> source_spec \<Rightarrow> unit res" where
  "check_plan_source x sp s =
    and_then (quote_path (ss_path s)) (\<lambda>_.
    ensure (length (ss_args s) \<le> 64) ''too many source arguments''
    (and_then (check_all check_source_arg (ss_args s)) (\<lambda>_.
     ensure (file_present x (resolved_source sp s)) ''initialization source does not exist'' (Inr ()))))"

definition env_entry_ok :: "string \<times> string \<Rightarrow> bool" where
  "env_entry_ok kv = (case kv of (k, v) \<Rightarrow> k \<noteq> [] \<and> CHR ''='' \<notin> set k \<and> nul \<notin> set k \<and> nul \<notin> set v)"

text \<open>The checks before the shell is inspected; the result is the home directory.\<close>

definition check_shell_plan :: "os \<Rightarrow> shell_plan \<Rightarrow> path \<Rightarrow> path \<Rightarrow> string res" where
  "check_shell_plan x sp resource_root launcher =
    and_then (check_all check_plan_path
      [(''shell'', sp_shell sp), (''initialization cwd'', sp_init_cwd sp), (''start cwd'', sp_start_cwd sp)]) (\<lambda>_.
    ensure (file_present x (sp_shell sp) \<and> dir_present x (sp_init_cwd sp) \<and> dir_present x (sp_start_cwd sp))
      ''shell and initialization/start directories must exist''
    (and_then (context_opt (map_of (sp_env sp) ''HOME'') ''project environment needs HOME'') (\<lambda>home.
     ensure (is_absolute home \<and> dir_present x home) ''project HOME must be an existing absolute directory''
     (and_then (shell_quote home) (\<lambda>_.
      ensure (list_all env_entry_ok (sp_env sp)) ''invalid environment entry''
      (and_then (check_all (check_plan_source x sp) (sp_sources sp)) (\<lambda>_.
       ensure (case sp_command sp of None \<Rightarrow> True | Some c \<Rightarrow> nul \<notin> set c) ''registered command contains NUL''
       (ensure (is_absolute resource_root \<and> is_absolute launcher)
         ''shell resource root and launcher must be absolute'' (Inr home)))))))))"

section \<open>The start-up script\<close>

definition script_lines :: "string list \<Rightarrow> string" where
  "script_lines ls = concat (map (\<lambda>l. l @ newline) ls)"

definition builtin_name :: "nat \<Rightarrow> string" where
  "builtin_name i = ''$__idk_builtin['' @ string_of_nat i @ '']''"

definition bit_text :: "bool \<Rightarrow> string" where
  "bit_text b = (if b then ''1'' else ''0'')"

definition script_check :: "string \<Rightarrow> string" where
  "script_check state = script_lines [''if ($status != 0) then'', builtin_name 2 @ '' failed >! '' @ state,
     builtin_name 3 @ '' 125'', ''endif'']"

definition optional_source :: "string \<Rightarrow> path \<Rightarrow> string res" where
  "optional_source state p = and_then (quote_path p) (\<lambda>q.
     Inr (script_lines [''if (-e '' @ q @ '') then'', builtin_name 1 @ '' '' @ q] @ script_check state @ script_lines [''endif'']))"

text \<open>A login file stands in both places it may have, each guarded by the order of the shell.\<close>

datatype startup_step =
    Fixed "string list"
  | OptionalSource path
  | LoginSource bool path
  | UserStartup bool path path
  | ChangeDir path
  | ScriptSource path "string list"

definition user_startup :: "string \<Rightarrow> bool \<Rightarrow> path \<Rightarrow> path \<Rightarrow> string res" where
  "user_startup state tcsh t c =
    and_then (quote_path t) (\<lambda>tcshrc.
    and_then (quote_path c) (\<lambda>cshrc.
    Inr (script_lines [builtin_name 4 @ '' __idk_use_tcshrc = 0'', ''if ('' @ bit_text tcsh @ '') then'',
           ''if (-e '' @ tcshrc @ '') '' @ builtin_name 4 @ '' __idk_use_tcshrc = 1'', ''endif'',
           ''if ($__idk_use_tcshrc) then'', builtin_name 1 @ '' '' @ tcshrc] @ script_check state
       @ script_lines [''else if (-e '' @ cshrc @ '') then'', builtin_name 1 @ '' '' @ cshrc] @ script_check state
       @ script_lines [''endif''])))"

fun step_text :: "string \<Rightarrow> startup_step \<Rightarrow> string res" where
  "step_text state (Fixed ls) = Inr (script_lines ls)"
| "step_text state (OptionalSource p) = optional_source state p"
| "step_text state (LoginSource first p) = and_then (optional_source state p) (\<lambda>t.
     Inr (script_lines [if first then ''if ($__idk_login_first) then'' else ''if (! $__idk_login_first) then'']
       @ t @ script_lines [''endif'']))"
| "step_text state (UserStartup tcsh t c) = user_startup state tcsh t c"
| "step_text state (ChangeDir p) = and_then (quote_path p) (\<lambda>q.
     Inr (script_lines [builtin_name 7 @ '' '' @ q] @ script_check state))"
| "step_text state (ScriptSource p args) = and_then (map_res shell_quote args) (\<lambda>as. and_then (quote_path p) (\<lambda>q.
     Inr (script_lines [builtin_name 1 @ '' '' @ q @ '' '' @ join_words as] @ script_check state)))"

definition script_head :: "shell_plan \<Rightarrow> shell_inspection \<Rightarrow> string \<Rightarrow> string \<Rightarrow> startup_step list" where
  "script_head sp i home quoted =
    [Fixed [''# Generated managed startup. Original files are sourced unchanged.'',
       ''set __idk_builtin = ( source echo exit set unset dirs cd rehash )'']]
    @ (if sp_login sp \<and> sn_kind i = BsdCsh then [Fixed [''setenv HOME '' @ quoted, ''set home = '' @ quoted]] else [])
    @ [Fixed [builtin_name 4 @ '' __idk_login_first = '' @ bit_text (sn_login_first i)]]"

definition history_lines :: "string list" where
  "history_lines = (let q = [CHR 0x22]; f = q @ ''$histfile'' @ q; h = q @ ''$home/.history'' @ q in
    [''if ($?histfile) then'', ''if (-f '' @ f @ '') '' @ builtin_name 1 @ '' -h '' @ f, ''else'',
     ''if (-f '' @ h @ '') '' @ builtin_name 1 @ '' -h '' @ h, ''endif''])"

definition script_startup :: "shell_plan \<Rightarrow> shell_inspection \<Rightarrow> string \<Rightarrow> startup_step list" where
  "script_startup sp i home =
    (if sp_login sp then [LoginSource True ''/etc/csh.login''] else [])
    @ [OptionalSource ''/etc/csh.cshrc'']
    @ (if sp_login sp then [LoginSource False ''/etc/csh.login'', LoginSource True (join_path home ''.login'')] else [])
    @ [UserStartup (sn_kind i = Tcsh) (join_path home ''.tcshrc'') (join_path home ''.cshrc'')]
    @ (if sp_command sp = None then [Fixed [builtin_name 8]] else [])
    @ [Fixed history_lines]
    @ (if sp_login sp then [LoginSource False (join_path home ''.login'')]
         @ (if sn_kind i = Tcsh then [Fixed [builtin_name 6 @ '' -L'']] else []) else [])"

definition script_sources :: "shell_plan \<Rightarrow> string \<Rightarrow> startup_step list" where
  "script_sources sp state =
    [Fixed [builtin_name 5 @ '' __idk_login_first'', builtin_name 5 @ '' __idk_use_tcshrc''], ChangeDir (sp_init_cwd sp)]
    @ map (\<lambda>s. ScriptSource (resolved_source sp s) (ss_args s)) (sp_sources sp)
    @ [ChangeDir (sp_start_cwd sp), Fixed [builtin_name 2 @ '' ready >! '' @ state]]"

definition steps_text :: "string \<Rightarrow> startup_step list \<Rightarrow> string res" where
  "steps_text state ss = and_then (map_res (step_text state) ss) (\<lambda>ts. Inr (concat ts))"

section \<open>Preparing\<close>

text \<open>
  The private directory, \<open>None\<close> while it does not exist, and the calls that may fail.  The two
  identifiers are \<open>new_v4\<close>'s.
\<close>

type_synonym private_dir = "(path \<times> string) list option"

record shell_machine =
  sm_os :: os
  sm_inspect :: "path \<Rightarrow> environment \<Rightarrow> shell_inspection res"
  sm_create_all :: "unit res"
  sm_create_dir :: "unit res"
  sm_open :: "path \<Rightarrow> unit res"
  sm_write :: "path \<Rightarrow> (nat \<times> error) option"
  sm_remove :: "unit res"
  sm_dir_id :: string
  sm_name_id :: string

definition write_private :: "shell_machine \<Rightarrow> path \<Rightarrow> string \<Rightarrow> (private_dir, unit) op" where
  "write_private m p t d = (case d of None \<Rightarrow> (Inl NotFound, d)
    | Some fs \<Rightarrow> if p \<in> set (map fst fs) then (Inl (Os ''file exists''), d) else
      (case sm_open m p of Inl e \<Rightarrow> (Inl e, d)
       | Inr _ \<Rightarrow> (case sm_write m p of None \<Rightarrow> (Inr (), Some (fs @ [(p, t)]))
         | Some (n, e) \<Rightarrow> (Inl e, Some (fs @ [(p, take n t)])))))"

definition create_resources :: "shell_machine \<Rightarrow> (private_dir, unit) op" where
  "create_resources m = op_try (op_lift (sm_create_all m)) (\<lambda>_. op_try (op_lift (sm_create_dir m)) (\<lambda>_ d. (Inr (), Some [])))"

definition private_names :: "string \<Rightarrow> string \<Rightarrow> string" where
  "private_names n t = str_replace ''__idk_use_tcshrc'' (n @ ''r'') (str_replace ''__idk_login_first'' (n @ ''l'')
     (str_replace ''__idk_builtin'' n t))"

definition task_lines :: "string \<Rightarrow> startup_step" where
  "task_lines quoted = Fixed [builtin_name 1 @ '' '' @ quoted, builtin_name 3 @ '' $status'']"

definition put_env :: "environment \<Rightarrow> environment \<Rightarrow> environment" where
  "put_env es acc = fold (\<lambda>(k, v) a. bt_insert k v a) es acc"

definition invocation :: "shell_plan \<Rightarrow> bool \<Rightarrow> string \<Rightarrow> string" where
  "invocation sp bsd_login wrapper = (if bsd_login \<and> sp_command sp \<noteq> None
     then ''source '' @ wrapper @ ''; exit $status'' else ''source '' @ wrapper)"

definition launch_shell :: "shell_plan \<Rightarrow> path \<Rightarrow> bool \<Rightarrow> string \<Rightarrow> shell_command \<times> string" where
  "launch_shell sp launcher bsd_login wrapper =
    (let direct = (sp_command sp \<noteq> None \<and> \<not> bsd_login) in
     (\<lparr>hc_program = launcher, hc_args = [''__shell-exec'', ''--shell'', sp_shell sp]
         @ (if sp_login sp then [''--login''] else []) @ (if bsd_login then [''--bsd-login''] else [])
         @ (if direct then [''--command'', ''source '' @ wrapper] else []),
       hc_cwd = sp_init_cwd sp, hc_env = bt_insert ''SHELL'' (sp_shell sp) (put_env (sp_env sp) [])\<rparr>,
      if direct then [] else invocation sp bsd_login wrapper @ newline))"

definition prepare_in :: "shell_machine \<Rightarrow> shell_plan \<Rightarrow> path \<Rightarrow> path \<Rightarrow> string \<Rightarrow> shell_inspection
    \<Rightarrow> (private_dir, prepared_shell) op" where
  "prepare_in m sp dir launcher home i =
    (let bsd_login = (sp_login sp \<and> sn_kind i = BsdCsh); state_path = join_path dir ''state'';
         wrapper_path = join_path dir ''startup.csh''; task_path = join_path dir ''task.csh'' in
     op_try (write_private m state_path (script_lines [''initializing''])) (\<lambda>_.
     op_try (op_lift (quote_path state_path)) (\<lambda>state.
     op_try (op_lift (if bsd_login then shell_quote home else Inr [])) (\<lambda>quoted.
     op_try (op_lift (steps_text state (script_head sp i home quoted @ script_startup sp i home @ script_sources sp state))) (\<lambda>script.
     op_try (case sp_command sp of
         Some c \<Rightarrow> op_try (write_private m task_path (script_lines [''# Registered csh command'', c])) (\<lambda>_.
           op_try (op_lift (quote_path task_path)) (\<lambda>q. op_lift (step_text state (task_lines q))))
       | None \<Rightarrow> op_lift (step_text state (Fixed [builtin_name 5 @ '' __idk_builtin'']))) (\<lambda>ending.
     op_try (write_private m wrapper_path (private_names (''__idk_'' @ sm_name_id m) (script @ ending))) (\<lambda>_.
     op_try (op_lift (quote_path wrapper_path)) (\<lambda>wrapper.
     let (c, bootstrap) = launch_shell sp launcher bsd_login wrapper in
     op_return \<lparr>ps_command = c, ps_bootstrap = bootstrap, ps_state_path = state_path, ps_resource_dir = dir\<rparr>))))))))"

definition prepare_native :: "shell_machine \<Rightarrow> shell_plan \<Rightarrow> native_shell \<Rightarrow> path \<Rightarrow> (private_dir, prepared_shell) op" where
  "prepare_native m sp n dir =
    op_try (op_lift (absolute_path (sp_shell sp))) (\<lambda>_.
    op_try (op_lift (absolute_path (sp_start_cwd sp))) (\<lambda>_.
    op_try (op_lift (validate_execution_arguments (ns_args n) (ns_env n))) (\<lambda>_.
    op_ensure (\<not> (sp_login sp \<or> sp_sources sp \<noteq> [] \<or> sp_command sp \<noteq> None))
      ''native execution cannot use legacy csh initialization''
    (op_try (create_resources m) (\<lambda>_.
     op_return \<lparr>ps_command = \<lparr>hc_program = sp_shell sp, hc_args = ns_args n, hc_cwd = sp_start_cwd sp,
         hc_env = put_env (sp_env sp @ ns_env n) []\<rparr>,
       ps_bootstrap = [], ps_state_path = [], ps_resource_dir = dir\<rparr>)))))"

definition remove_resources :: "shell_machine \<Rightarrow> private_dir \<Rightarrow> private_dir" where
  "remove_resources m d = (case sm_remove m of Inl _ \<Rightarrow> d | Inr _ \<Rightarrow> None)"

definition prepare_managed :: "shell_machine \<Rightarrow> shell_plan \<Rightarrow> path \<Rightarrow> path \<Rightarrow> string \<Rightarrow> (private_dir, prepared_shell) op" where
  "prepare_managed m sp dir launcher home =
    op_try (op_lift (sm_inspect m (sp_shell sp) (sp_env sp))) (\<lambda>i.
    op_ensure (\<not> (sn_kind i = BsdCsh \<and> list_ex (\<lambda>s. ss_args s \<noteq> []) (sp_sources sp)))
      ''BSD csh does not support source arguments; select tcsh or remove the arguments''
    (op_try (create_resources m) (\<lambda>_ d. case prepare_in m sp dir launcher home i d of
         (Inl e, d') \<Rightarrow> (Inl e, remove_resources m d') | (Inr r, d') \<Rightarrow> (Inr r, d'))))"

definition prepare :: "shell_machine \<Rightarrow> shell_plan \<Rightarrow> path \<Rightarrow> path \<Rightarrow> (private_dir, prepared_shell) op" where
  "prepare m sp root launcher =
    (let dir = join_path root (''shell-'' @ sm_dir_id m) in
     case sp_native sp of
       Some n \<Rightarrow> prepare_native m sp n dir
     | None \<Rightarrow> op_try (op_lift (check_shell_plan (sm_os m) sp root launcher)) (\<lambda>home. prepare_managed m sp dir launcher home))"

section \<open>Its state\<close>

text \<open>The content of the state file, as a private read bounded at 64 bytes returns it.\<close>

definition shell_state :: "path \<Rightarrow> string res \<Rightarrow> initialization_state res" where
  "shell_state p r = (if p = [] then Inr Unobserved else
    and_then r (\<lambda>bytes.
    ensure (to_str bytes \<noteq> None) ''shell initialization state is not UTF-8''
    (let t = trim_text bytes in
     if t = ''initializing'' \<or> t = [] then Inr Initializing else if t = ''ready'' then Inr Ready
     else if t = ''unobserved'' then Inr Unobserved else if t = ''failed'' then Inr InitFailed
     else Inl (Bail ''unrecognized shell initialization state''))))"

end
