(* ===== verification/Shell_Safety.thy ===== *)
theory Shell_Safety
  imports Shell_Prepare Utf8_Facts
begin

text \<open>
  What a prepared shell promises: what is typed into the terminal is one line, and a failed
  preparation leaves nothing behind.
\<close>

section \<open>Cleaning up\<close>

lemma cleaned_Inr: "(case x of (Inl e, d) \<Rightarrow> (Inl e, g d) | (Inr r, d) \<Rightarrow> (Inr r, d)) = (Inr r, d') \<Longrightarrow> x = (Inr r, d')"
  by (auto split: prod.splits sum.splits)

lemma cleaned_Inl:
  "(case x of (Inl e, d) \<Rightarrow> (Inl e, remove_resources m d) | (Inr r, d) \<Rightarrow> (Inr r, d)) = (Inl e, d') \<Longrightarrow>
   \<exists>d. d' = remove_resources m d"
  by (auto split: prod.splits sum.splits)

section \<open>One line\<close>

lemma byte_ten: "CHR 0x0A \<in> set s \<Longrightarrow> 10 \<in> set (bytes_of s)"
  unfolding bytes_of_def by (force intro: rev_image_eqI)

lemma encoded_ten:
  assumes "10 \<in> set (bytes_of (utf8_encode c))" "is_scalar c"
  shows "c = 10"
proof -
  have "c < 1114112" using assms(2) by (auto simp: is_scalar_def)
  then consider "c < 128" | "128 \<le> c \<and> c < 2048" | "2048 \<le> c \<and> c < 65536" | "65536 \<le> c \<and> c < 1114112"
    by linarith
  then show ?thesis
    by cases (use assms(1) in \<open>auto simp: encode_bytes_one encode_bytes_two encode_bytes_three encode_bytes_four\<close>)
qed

lemma newline_decodes:
  assumes s: "to_str s = Some cs" and n: "CHR 0x0A \<in> set s"
  shows "10 \<in> set cs"
proof -
  from text_of_str [OF s] have t: "s = utf8_text cs" "list_all is_scalar cs" by simp_all
  from n obtain c where c: "c \<in> set cs" "CHR 0x0A \<in> set (utf8_encode c)" unfolding t(1) utf8_text_def by auto
  then have "c = 10" using t(2) byte_ten encoded_ten by (auto simp: list_all_iff)
  with c show ?thesis by simp
qed

lemma quote_chars_set: "set (quote_chars v) \<subseteq> set v \<union> {CHR 0x27, CHR 0x5C}"
  by (induction v rule: quote_chars.induct) auto

lemma quoted_path_line:
  assumes "quote_path p = Inr q"
  shows "CHR 0x0A \<notin> set q"
proof -
  from assms obtain cs where s: "to_str p = Some cs" and c: "\<not> has_control p"
    and q: "q = [CHR 0x27] @ quote_chars p @ [CHR 0x27]"
    by (auto simp: quote_path_def shell_quote_def res_simps)
  have "10 \<notin> set cs" using c s by (auto simp: has_control_def chars_def is_control_def list_ex_iff)
  then have "CHR 0x0A \<notin> set p" using newline_decodes [OF s] by blast
  then show ?thesis using quote_chars_set [of p] unfolding q by auto
qed

lemma invocation_line:
  assumes "quote_path p = Inr q"
  shows "CHR 0x0A \<notin> set (invocation sp b q)"
  using quoted_path_line [OF assms] by (auto simp: invocation_def)

text \<open>C27 (bootstrap_is_one_line). What is typed into the terminal of a prepared shell is nothing or one line that ends
  with its only line feed, so no start-up script can read a later command from the terminal.\<close>

theorem bootstrap_is_one_line:
  assumes "prepare m sp root launcher d = (Inr r, d')"
  shows "ps_bootstrap r = [] \<or> (\<exists>l. ps_bootstrap r = l @ [CHR 0x0A] \<and> CHR 0x0A \<notin> set l)"
proof (cases "sp_native sp")
  case None
  with assms obtain home i e where "prepare_in m sp (join_path root (''shell-'' @ sm_dir_id m)) launcher home i e = (Inr r, d')"
    by (auto simp: prepare_def prepare_managed_def op_simps Let_def dest!: cleaned_Inr)
  then show ?thesis
    by (auto simp: prepare_in_def Let_def op_simps launch_shell_def newline_def
        dest: invocation_line split: prod.splits if_splits)
next
  case (Some n)
  with assms show ?thesis by (auto simp: prepare_def prepare_native_def op_simps)
qed

section \<open>A failure\<close>

lemma create_failed: "create_resources m d = (Inl e, d') \<Longrightarrow> d' = d"
  by (auto simp: create_resources_def op_simps)

lemma managed_failed:
  assumes "prepare_managed m sp dir launcher home None = (Inl e, d')" "sm_remove m = Inr ()"
  shows "d' = None"
  using assms create_failed [of m None]
  by (auto simp: prepare_managed_def op_simps remove_resources_def dest!: cleaned_Inl)

lemma native_failed:
  assumes "prepare_native m sp n dir None = (Inl e, d')"
  shows "d' = None"
  using assms create_failed [of m None] by (auto simp: prepare_native_def op_simps)

text \<open>C28 (failed_preparation_leaves_nothing). When preparing a shell fails, at whatever check or write, the private
  directory does not exist afterwards, provided it can be removed.\<close>

theorem failed_preparation_leaves_nothing:
  assumes "prepare m sp root launcher None = (Inl e, d')" and "sm_remove m = Inr ()"
  shows "d' = None"
  using assms managed_failed native_failed
  by (cases "sp_native sp") (auto simp: prepare_def Let_def op_simps)

section \<open>A tcsh and a failing write\<close>

end
