(* ===== verification/Shell_Demo.thy ===== *)
theory Shell_Demo
  imports Shell_Safety Trust_Properties
begin

text \<open>One login tcsh with a start-up file and an initialization script, on a disk that works or is full.\<close>

definition shell_os :: os where
  "shell_os = \<lparr>os_canonicalize = Inr,
     os_metadata = (\<lambda>p. if p \<in> {''/bin/tcsh'', ''/w/init.csh''} then Inr (demo_meta\<lparr>fm_is_file := True, fm_is_dir := False, fm_mode := 493\<rparr>)
       else if p \<in> {''/w'', ''/h''} then Inr demo_meta else Inl NotFound),
     os_open = (\<lambda>_. Inl NotFound)\<rparr>"

definition demo_inspection :: shell_inspection where
  "demo_inspection = \<lparr>sn_canonical = ''/bin/tcsh'', sn_kind = Tcsh, sn_login_first = False\<rparr>"

definition demo_shell_machine :: shell_machine where
  "demo_shell_machine = \<lparr>sm_os = shell_os, sm_inspect = (\<lambda>_ _. Inr demo_inspection), sm_create_all = Inr (),
     sm_create_dir = Inr (), sm_open = (\<lambda>_. Inr ()), sm_write = (\<lambda>_. None), sm_remove = Inr (),
     sm_dir_id = ''1'', sm_name_id = ''2''\<rparr>"

definition demo_shell_plan :: shell_plan where
  "demo_shell_plan = \<lparr>sp_native = None, sp_shell = ''/bin/tcsh'', sp_login = True, sp_init_cwd = ''/w'', sp_start_cwd = ''/w'',
     sp_sources = [\<lparr>ss_path = ''init.csh'', ss_args = [''!1'']\<rparr>], sp_env = [(''HOME'', ''/h'')], sp_command = None\<rparr>"

definition full_disk :: shell_machine where
  "full_disk = demo_shell_machine\<lparr>sm_write := (\<lambda>p. if p = ''/r/shell-1/startup.csh'' then Some (10, Os ''full'') else None)\<rparr>"

text \<open>The calls along the way.\<close>

definition demo_quoted :: "string \<Rightarrow> string" where
  "demo_quoted name = [CHR 0x27] @ ''/r/shell-1/'' @ name @ [CHR 0x27]"

lemma demo_calls:
  "check_shell_plan shell_os demo_shell_plan ''/r'' ''/l'' = Inr ''/h''"
  "quote_path ''/r/shell-1/state'' = Inr (demo_quoted ''state'')"
  "quote_path ''/r/shell-1/startup.csh'' = Inr (demo_quoted ''startup.csh'')"
  "join_path ''/r'' ''shell-1'' = ''/r/shell-1''"
  "join_path ''/r/shell-1'' ''state'' = ''/r/shell-1/state''"
  "join_path ''/r/shell-1'' ''startup.csh'' = ''/r/shell-1/startup.csh''"
  by code_simp+

lemma demo_text: "is_ok (steps_text (demo_quoted ''state'') (script_head demo_shell_plan demo_inspection ''/h'' []
    @ script_startup demo_shell_plan demo_inspection ''/h'' @ script_sources demo_shell_plan (demo_quoted ''state'')))"
  by code_simp

lemma demo_ending: "\<exists>t. step_text q (Fixed ls) = Inr t" by simp

lemma demo_fields:
  "sp_native demo_shell_plan = None" "sp_command demo_shell_plan = None" "sn_kind demo_inspection = Tcsh"
  "sm_dir_id demo_shell_machine = ''1''" "sm_os demo_shell_machine = shell_os" "sm_inspect demo_shell_machine = (\<lambda>_ _. Inr demo_inspection)"
  "sm_create_all demo_shell_machine = Inr ()" "sm_create_dir demo_shell_machine = Inr ()"
  "sm_open demo_shell_machine = (\<lambda>_. Inr ())" "sm_write demo_shell_machine = (\<lambda>_. None)"
  by (simp_all add: demo_shell_plan_def demo_inspection_def demo_shell_machine_def)

lemma demo_prepare_in:
  "\<exists>r d'. prepare_in demo_shell_machine demo_shell_plan ''/r/shell-1'' ''/l'' ''/h'' demo_inspection (Some []) = (Inr r, d')"
proof -
  obtain t where t: "steps_text (demo_quoted ''state'') (script_head demo_shell_plan demo_inspection ''/h'' []
    @ script_startup demo_shell_plan demo_inspection ''/h'' @ script_sources demo_shell_plan (demo_quoted ''state'')) = Inr t"
    using demo_text by (auto simp: is_ok_iff)
  show ?thesis
    by (simp add: prepare_in_def Let_def op_try_def write_private_def demo_fields demo_calls t split: prod.splits)
qed

lemma demo_full_in:
  "\<exists>e d'. prepare_in full_disk demo_shell_plan ''/r/shell-1'' ''/l'' ''/h'' demo_inspection (Some []) = (Inl e, d')"
proof -
  obtain t where t: "steps_text (demo_quoted ''state'') (script_head demo_shell_plan demo_inspection ''/h'' []
    @ script_startup demo_shell_plan demo_inspection ''/h'' @ script_sources demo_shell_plan (demo_quoted ''state'')) = Inr t"
    using demo_text by (auto simp: is_ok_iff)
  show ?thesis
    by (simp add: full_disk_def prepare_in_def Let_def op_try_def write_private_def demo_fields demo_calls t split: prod.splits)
qed

lemma demo_prepared: "\<exists>r d'. prepare demo_shell_machine demo_shell_plan ''/r'' ''/l'' None = (Inr r, d')"
proof -
  obtain r d' where r: "prepare_in demo_shell_machine demo_shell_plan ''/r/shell-1'' ''/l'' ''/h'' demo_inspection (Some []) = (Inr r, d')"
    using demo_prepare_in by blast
  show ?thesis
    by (simp add: prepare_def Let_def op_try_def prepare_managed_def create_resources_def demo_fields demo_calls r)
qed

lemma demo_full: "\<exists>e d'. prepare full_disk demo_shell_plan ''/r'' ''/l'' None = (Inl e, d')"
proof -
  obtain e d' where r: "prepare_in full_disk demo_shell_plan ''/r/shell-1'' ''/l'' ''/h'' demo_inspection (Some []) = (Inl e, d')"
    using demo_full_in by blast
  have f: "sm_dir_id full_disk = ''1''" "sm_os full_disk = shell_os" "sm_inspect full_disk = (\<lambda>_ _. Inr demo_inspection)"
    "sm_create_all full_disk = Inr ()" "sm_create_dir full_disk = Inr ()"
    by (simp_all add: full_disk_def demo_fields)
  show ?thesis
    by (simp add: prepare_def Let_def op_try_def prepare_managed_def create_resources_def demo_fields f demo_calls r)
qed

theorem bootstrap_is_one_line_witness:
  "\<exists>r d'. prepare demo_shell_machine demo_shell_plan ''/r'' ''/l'' None = (Inr r, d')
     \<and> (ps_bootstrap r = [] \<or> (\<exists>l. ps_bootstrap r = l @ [CHR 0x0A] \<and> CHR 0x0A \<notin> set l))"
proof -
  obtain r d' where p: "prepare demo_shell_machine demo_shell_plan ''/r'' ''/l'' None = (Inr r, d')" using demo_prepared by blast
  from bootstrap_is_one_line [OF p] p show ?thesis by blast
qed

theorem failed_preparation_leaves_nothing_witness:
  "\<exists>e. prepare full_disk demo_shell_plan ''/r'' ''/l'' None = (Inl e, None)"
proof -
  obtain e d' where p: "prepare full_disk demo_shell_plan ''/r'' ''/l'' None = (Inl e, d')" using demo_full by blast
  with failed_preparation_leaves_nothing [OF p] show ?thesis by (simp add: full_disk_def demo_shell_machine_def)
qed

end
