(* ===== verification/Client.thy ===== *)
theory Client
  imports Wire_Frames Editor
begin

text \<open>
  The client of the host (\<open>client.rs\<close>, \<open>local_socket.rs\<close>): connecting before a deadline, one exchange per
  request, the handshake that binds a client to one host instance and binary, starting an absent
  host, and the command suggested for an incompatible one.  A link is what one exchange observes;
  the state of an operation is the list of the byte strings sent to hosts.
\<close>

section \<open>Connecting\<close>

datatype poll_answer = PollFailed error | PollInterrupted | PollTimeout | PollReady

record wait_turn =
  wt_now :: nat
  wt_poll :: poll_answer
  wt_after :: nat
  wt_error :: "error option res"
  wt_peer :: "unit res"

text \<open>A connection that is not made is a connection to nobody: the kinds that mean an absent host are kept.\<close>

definition connection_refused :: error where "connection_refused = Os ''connection refused''"

definition absent_host :: "error \<Rightarrow> bool" where
  "absent_host e = (e = NotFound \<or> e = connection_refused)"

definition time_left :: "nat \<Rightarrow> nat \<Rightarrow> unit res" where
  "time_left deadline now = ensure (now < deadline) ''local socket connection deadline exceeded'' (Inr ())"

text \<open>When nothing more is observed, the deadline has passed.\<close>

fun wait_connected :: "nat \<Rightarrow> wait_turn list \<Rightarrow> unit res" where
  "wait_connected deadline [] = Inl (Bail ''local socket connection deadline exceeded'')"
| "wait_connected deadline (t # ts) = and_then (time_left deadline (wt_now t)) (\<lambda>_. case wt_poll t of
     PollFailed e \<Rightarrow> Inl (Bail ''wait for local socket connection'')
   | PollInterrupted \<Rightarrow> wait_connected deadline ts
   | PollTimeout \<Rightarrow> wait_connected deadline ts
   | PollReady \<Rightarrow> and_then (time_left deadline (wt_after t)) (\<lambda>_. and_then (wt_error t) (\<lambda>e. case e of
       Some e \<Rightarrow> Inl e | None \<Rightarrow> with_context (wt_peer t) ''local socket has no connected peer'')))"

datatype connect_outcome = ConnectDone | ConnectPending "wait_turn list" | ConnectBusy | ConnectFailed error

record connect_try =
  ct_now :: nat
  ct_socket :: "unit res"
  ct_outcome :: connect_outcome
  ct_after :: nat
  ct_blocking :: "unit res"

text \<open>\<open>EAGAIN\<close> and \<open>EINTR\<close> are busy: after a pause, with a new socket, the next try follows.\<close>

fun connect_tries :: "nat \<Rightarrow> connect_try list \<Rightarrow> unit res" where
  "connect_tries deadline [] = Inl (Bail ''local socket connection deadline exceeded'')"
| "connect_tries deadline (c # cs) = and_then (time_left deadline (ct_now c)) (\<lambda>_.
     and_then (with_context (ct_socket c) ''allocate local socket'') (\<lambda>_. case ct_outcome c of
       ConnectDone \<Rightarrow> and_then (time_left deadline (ct_after c)) (\<lambda>_. ct_blocking c)
     | ConnectPending ts \<Rightarrow> and_then (wait_connected deadline ts) (\<lambda>_. ct_blocking c)
     | ConnectBusy \<Rightarrow> and_then (time_left deadline (ct_after c)) (\<lambda>_. connect_tries deadline cs)
     | ConnectFailed e \<Rightarrow> Inl e))"

definition SUN_PATH :: nat where "SUN_PATH = 108"

definition connect_deadline :: "path \<Rightarrow> nat \<Rightarrow> connect_try list \<Rightarrow> unit res" where
  "connect_deadline p deadline cs =
    ensure (is_absolute p \<and> nul \<notin> set p) ''local socket needs an absolute pathname without NUL''
    (ensure (length p < SUN_PATH) ''local socket pathname is too long'' (connect_tries deadline cs))"

section \<open>Hosts and links\<close>

record host_info =
  hi_protocol :: nat
  hi_version :: string
  hi_build_id :: string
  hi_host_instance :: string
  hi_pid :: nat
  hi_uid :: nat
  hi_max_sessions :: nat
  hi_max_cells :: nat

record socket_meta =
  sk_is_socket :: bool
  sk_uid :: nat
  sk_mode :: nat

record 'j link =
  li_fresh :: string
  li_now_ms :: nat
  li_valid_ms :: nat
  li_socket :: "socket_meta res"
  li_start :: nat
  li_tries :: "connect_try list"
  li_peer :: "(nat \<times> int \<times> bool) res"
  li_timeouts :: "unit res"
  li_peer_again :: "(nat \<times> int \<times> bool) res"
  li_departures :: "departure list"
  li_arrivals :: "arrival list"

text \<open>What stays the same over the exchanges: the codecs, this user, this program's version.\<close>

record 'j wire =
  wi_ext :: ext
  wi_encode :: "envelope \<Rightarrow> string res"
  wi_decode :: "string \<Rightarrow> 'j response res"
  wi_host_info :: "'j \<Rightarrow> host_info res"
  wi_base64 :: "string \<Rightarrow> string"
  wi_euid :: nat
  wi_version :: string

definition private_socket :: "nat \<Rightarrow> string \<Rightarrow> socket_meta res \<Rightarrow> unit res" where
  "private_socket euid m r = and_then r (\<lambda>k.
     ensure (sk_is_socket k \<and> sk_uid k = euid \<and> Bit_Operations.and (sk_mode k) 63 = 0) m (Inr ()))"

definition sent_frame :: "'j wire \<Rightarrow> 'j link \<Rightarrow> nat \<Rightarrow> envelope \<Rightarrow> (string list, unit) op" where
  "sent_frame wi l deadline e = (\<lambda>s. case write_frame_deadline (wi_encode wi) deadline e (li_departures l) of
     (r, sent) \<Rightarrow> (r, if sent = [] then s else s @ [sent]))"

definition check_handshake :: "'j wire \<Rightarrow> peer \<Rightarrow> envelope \<Rightarrow> 'j response \<Rightarrow> unit res" where
  "check_handshake wi p e r = (if en_request e \<noteq> Hello \<or> rp_error r \<noteq> None then Inr () else
     and_then (context_opt (rp_data r) ''missing host handshake'') (\<lambda>d.
     and_then (wi_host_info wi d) (\<lambda>info.
     ensure (hi_host_instance info = rp_host_instance r \<and> hi_pid info = pc_pid p \<and> hi_uid info = pc_uid p)
       ''host handshake does not match its local peer identity'' (Inr ()))))"

definition exchange :: "'j wire \<Rightarrow> 'j link \<Rightarrow> path \<Rightarrow> envelope \<Rightarrow> nat \<Rightarrow> (string list, 'j response) op" where
  "exchange wi l socket e timeout =
    (let deadline = li_start l + timeout in
     op_try (op_lift (private_socket (wi_euid wi) ''host socket must be an owned private socket'' (li_socket l))) (\<lambda>_.
     op_try (op_lift (connect_deadline socket deadline (li_tries l))) (\<lambda>_.
     op_try (op_lift (peer_credentials (wi_euid wi) (li_peer l))) (\<lambda>_.
     op_try (op_lift (li_timeouts l)) (\<lambda>_.
     op_try (op_lift (peer_credentials (wi_euid wi) (li_peer_again l))) (\<lambda>p.
     op_try (sent_frame wi l deadline e) (\<lambda>_.
     op_try (op_lift (read_frame_deadline (wi_decode wi) deadline (li_arrivals l))) (\<lambda>(r, rest).
     op_try (op_lift (validate_response (wi_ext wi) e r)) (\<lambda>_.
     op_try (op_lift (check_handshake wi p e r)) (\<lambda>_.
     op_return r))))))))))"

section \<open>Requests of a client\<close>

record client =
  cl_socket :: path
  cl_client_id :: string
  cl_host :: host_info
  cl_timeout :: nat

definition set_timeout :: "nat \<Rightarrow> client \<Rightarrow> client res" where
  "set_timeout n c = ensure (50 \<le> n \<and> n \<le> MAX_REQUEST_MS) ''client timeout must be 50 ms to five seconds''
     (Inr (c\<lparr>cl_timeout := n\<rparr>))"

definition client_envelope :: "'j link \<Rightarrow> client \<Rightarrow> request \<Rightarrow> envelope" where
  "client_envelope l c q = (new_envelope (li_fresh l) (li_now_ms l) (cl_client_id c) q)\<lparr>
     en_host_instance := Some (hi_host_instance (cl_host c)), en_deadline_ms := saturating_add (li_now_ms l) (cl_timeout c)\<rparr>"

definition send_envelope :: "'j wire \<Rightarrow> 'j link \<Rightarrow> client \<Rightarrow> envelope \<Rightarrow> (string list, 'j response) op" where
  "send_envelope wi l c e =
    op_ensure (en_client_id e = cl_client_id c \<and> en_host_instance e = Some (hi_host_instance (cl_host c)))
      ''request belongs to another client or host instance''
    (op_try (op_lift (validate_envelope (wi_ext wi) (li_valid_ms l) e)) (\<lambda>_.
     exchange wi l (cl_socket c) e (cl_timeout c)))"

definition client_request :: "'j wire \<Rightarrow> 'j link \<Rightarrow> client \<Rightarrow> request \<Rightarrow> (string list, 'j response) op" where
  "client_request wi l c q = send_envelope wi l c (client_envelope l c q)"

definition client_call :: "'j wire \<Rightarrow> 'j link \<Rightarrow> ('j \<Rightarrow> 'v res) \<Rightarrow> client \<Rightarrow> request \<Rightarrow> (string list, 'v) op" where
  "client_call wi l dec c q = op_try (client_request wi l c q) (\<lambda>r. op_lift (decode_response dec r))"

section \<open>The requests of the interface\<close>

definition client_git_reconcile where
  "client_git_reconcile wi l dec c operation repository = client_call wi l dec c (GitOperationReconcile operation repository)"

definition client_git_submit where
  "client_git_submit wi l dec c task = client_call wi l dec c (GitSubmit task)"

definition client_git_job where
  "client_git_job wi l dec c job = client_call wi l dec c (GitJob job)"

definition client_git_execute where
  "client_git_execute wi l dec c plan height width = client_call wi l dec c (GitExecute plan height width)"

definition client_git_operations where
  "client_git_operations wi l dec c project = client_call wi l dec c (GitOperations project)"

definition client_git_operation_attach where
  "client_git_operation_attach wi l dec c operation takeover = client_call wi l dec c (GitOperationAttach operation takeover)"

definition client_git_operation_detach where
  "client_git_operation_detach wi l dec c operation epoch = client_call wi l dec c (GitOperationDetach operation epoch)"

definition client_git_operation_snapshot where
  "client_git_operation_snapshot wi l dec c operation since = client_call wi l dec c (GitOperationSnapshot operation since)"

definition client_git_operation_resize where
  "client_git_operation_resize wi l dec c operation epoch height width = client_call wi l dec c (GitOperationResize operation height width epoch)"

definition client_git_operation_cancel where
  "client_git_operation_cancel wi l dec c operation epoch force = client_call wi l dec c (GitOperationCancel operation epoch force)"

definition client_run where
  "client_run wi l dec c q = client_call wi l dec c (Run q)"

definition client_list where
  "client_list wi l dec c project = client_call wi l dec c (ListSessions project)"

definition client_definition where
  "client_definition wi l dec c session = client_call wi l dec c (Definition session)"

definition client_start where
  "client_start wi l dec c project terminal env height width reopen = client_call wi l dec c (StartTerminal project terminal height width env reopen)"

definition client_start_transient where
  "client_start_transient wi l dec c project terminal env height width = client_call wi l dec c (StartTransient project terminal height width env False)"

definition client_reopen_transient where
  "client_reopen_transient wi l dec c project terminal env height width = client_call wi l dec c (StartTransient project terminal height width env True)"

definition client_start_defaults where
  "client_start_defaults wi l dec c project env height width = client_call wi l dec c (StartDefaults project height width env)"

definition client_batch where
  "client_batch wi l dec c batch = client_call wi l dec c (Batch batch)"

definition client_continue_defaults where
  "client_continue_defaults wi l dec c batch = client_call wi l dec c (ContinueDefaults batch)"

definition client_cancel_defaults where
  "client_cancel_defaults wi l dec c batch = client_call wi l dec c (CancelDefaults batch)"

definition client_attach where
  "client_attach wi l dec c session takeover = client_call wi l dec c (Attach session takeover)"

definition client_detach where
  "client_detach wi l dec c session epoch = client_call wi l dec c (Detach session epoch)"

definition client_snapshot where
  "client_snapshot wi l dec c session since = client_call wi l dec c (Snapshot session since)"

definition client_resize where
  "client_resize wi l dec c session epoch height width = client_call wi l dec c (Resize session height width epoch)"

definition client_scroll where
  "client_scroll wi l dec c session epoch delta = client_call wi l dec c (Scroll session delta epoch)"

definition client_search where
  "client_search wi l dec c session epoch query backwards = client_call wi l dec c (Search session query backwards epoch)"

definition client_close where
  "client_close wi l dec c session epoch force = client_call wi l dec c (Close session epoch force)"

definition client_preview_close where
  "client_preview_close wi l dec c project = client_call wi l dec c (PreviewClose project)"

definition client_close_project where
  "client_close_project wi l dec c project sessions force = client_call wi l dec c (CloseProject project sessions force)"

definition client_shutdown where
  "client_shutdown wi l dec c sessions force = client_call wi l dec c (Shutdown sessions force)"

text \<open>Input is bounded before it is encoded.\<close>

definition client_git_operation_input where
  "client_git_operation_input wi l dec c operation epoch data =
    op_ensure (length data \<le> MAX_INPUT_PACKET) ''Git operation input packet exceeds 64 KiB''
      (client_call wi l dec c (GitOperationInput operation epoch (wi_base64 wi data)))"

definition client_input where
  "client_input wi l dec c session epoch data =
    op_ensure (length data \<le> MAX_INPUT_PACKET) ''terminal input packet exceeds 64 KiB''
      (client_call wi l dec c (Input session (wi_base64 wi data) epoch))"

section \<open>Finding the host\<close>

definition parent_of :: "path \<Rightarrow> path option" where
  "parent_of p = (if has_parent (components p) then Some (path_text (butlast (components p))) else None)"

definition name_of :: "path \<Rightarrow> string option" where
  "name_of p = (case rev (components p) of Normal s # _ \<Rightarrow> Some s | _ \<Rightarrow> None)"

definition command_word :: "string \<Rightarrow> string res" where
  "command_word v = ensure (to_str v \<noteq> None) ''recovery command path is not UTF-8''
    (ensure (\<not> has_control v) ''recovery command path contains control characters''
    (Inr ([CHR 0x27] @ str_replace [CHR 0x27] [CHR 0x27, CHR 0x22, CHR 0x27, CHR 0x22, CHR 0x27] v @ [CHR 0x27])))"

definition xdg_base :: "path \<Rightarrow> path option" where
  "xdg_base p = (if name_of p = Some ''v0.4'' \<and> Option.bind (parent_of p) name_of = Some ''idk''
     then Option.bind (parent_of p) parent_of else None)"

definition data_root :: "store \<Rightarrow> path option" where
  "data_root st = Option.bind (parent_of (so_config_dir st)) (\<lambda>root.
     if path_eq (so_config_dir st) (join_path root ''config'') \<and> path_eq (so_state_dir st) (join_path root ''state'')
       \<and> path_eq (so_runtime_dir st) (join_path root ''run'') then Some root else None)"

definition compatible_invocation :: "store \<Rightarrow> path \<Rightarrow> string res" where
  "compatible_invocation st binary = and_then (command_word binary) (\<lambda>b. case data_root st of
     Some root \<Rightarrow> and_then (command_word root) (\<lambda>r. Inr (b @ '' --data-dir '' @ r))
   | None \<Rightarrow> (case (xdg_base (so_config_dir st), xdg_base (so_state_dir st), parent_of (so_runtime_dir st)) of
       (Some config, Some state, Some runtime) \<Rightarrow>
         ensure (name_of (so_runtime_dir st) = Some ''idk-v04'') ''custom runtime path cannot be represented by the public CLI''
         (and_then (command_word config) (\<lambda>c. and_then (command_word state) (\<lambda>s. and_then (command_word runtime) (\<lambda>r.
          Inr (''env -u IDK_HOME XDG_CONFIG_HOME='' @ c @ '' XDG_STATE_HOME='' @ s @ '' XDG_RUNTIME_DIR='' @ r @ '' '' @ b)))))
     | _ \<Rightarrow> Inl (Bail ''custom config/state/runtime paths cannot be represented by a same-data public CLI command'')))"

text \<open>What the lookup observes; the installer answers for a prefix and a build.\<close>

record host_lookup =
  hl_socket :: "socket_meta res"
  hl_start :: nat
  hl_tries :: "connect_try list"
  hl_peer :: "(nat \<times> int \<times> bool) res"
  hl_stat :: "string res"
  hl_executable :: "path res"
  hl_file :: "(nat \<times> nat) res"
  hl_build :: "string res"
  hl_home :: "path option"
  hl_installed :: "path \<Rightarrow> string \<Rightarrow> path option res"
  hl_stat_again :: "string res"
  hl_file_again :: "(nat \<times> nat) res"
  hl_executable_again :: "path res"
  hl_client_build :: "path \<Rightarrow> string res"

record compatible_client =
  cc_host_pid :: nat
  cc_observed_executable :: path
  cc_client :: path
  cc_binary_sha256 :: string
  cc_invocation :: string
  cc_inspect_command :: string
  cc_config_dir :: path
  cc_state_dir :: path
  cc_runtime_dir :: path

definition process_start :: "string res \<Rightarrow> nat res" where
  "process_start r = and_then r (\<lambda>stat. and_then (stat_fields ''invalid peer process stat'' stat) (\<lambda>fs.
     and_then (context_opt (if length fs \<le> 19 then None else Some (fs ! 19)) ''peer process start time missing'') (\<lambda>f.
     with_context (parse_u64 f) ''invalid peer start time'')))"

text \<open>The installation a running executable belongs to: \<open>ROOT/generations/NAME/idk\<close>.\<close>

definition BINARY :: string where "BINARY = ''idk''"

definition executable_prefix :: "path \<Rightarrow> path option" where
  "executable_prefix p = (if name_of p \<noteq> Some BINARY then None else
     Option.bind (Option.bind (parent_of p) parent_of) (\<lambda>g. if name_of g = Some ''generations'' then parent_of g else None))"

definition opt_list :: "'a option \<Rightarrow> 'a list" where
  "opt_list x = (case x of None \<Rightarrow> [] | Some v \<Rightarrow> [v])"

definition lookup_prefixes :: "path option \<Rightarrow> path \<Rightarrow> path option \<Rightarrow> path list" where
  "lookup_prefixes given exe home = opt_list given @ opt_list (executable_prefix exe)
     @ opt_list (map_option (\<lambda>h. join_path h ''.local/share/idk'') home)"

fun first_installed_client :: "(path \<Rightarrow> path option res) \<Rightarrow> path list \<Rightarrow> path list \<Rightarrow> path option res" where
  "first_installed_client f seen [] = Inr None"
| "first_installed_client f seen (p # ps) = (if list_ex (path_eq p) seen then first_installed_client f seen ps
     else and_then (f p) (\<lambda>r. case r of Some c \<Rightarrow> Inr (Some c) | None \<Rightarrow> first_installed_client f (p # seen) ps))"

definition same_process :: "host_lookup \<Rightarrow> nat \<Rightarrow> nat \<times> nat \<Rightarrow> path \<Rightarrow> unit res" where
  "same_process hl started before exe =
    and_then (hl_file_again hl) (\<lambda>after.
    and_then (process_start (hl_stat_again hl)) (\<lambda>again.
    ensure (started = again \<and> before = after) ''host process identity changed during compatibility lookup''
    (and_then (hl_executable_again hl) (\<lambda>e.
     ensure (path_eq exe e) ''host process identity changed during compatibility lookup'' (Inr ())))))"

definition describe_client :: "store \<Rightarrow> host_lookup \<Rightarrow> nat \<Rightarrow> path \<Rightarrow> string \<Rightarrow> path \<Rightarrow> compatible_client res" where
  "describe_client st hl pid exe build c =
    and_then (hl_client_build hl c) (\<lambda>b.
    ensure (b = build) ''retained client bytes changed after verification''
    (and_then (compatible_invocation st c) (\<lambda>i.
     Inr \<lparr>cc_host_pid = pid, cc_observed_executable = exe, cc_client = c, cc_binary_sha256 = build,
       cc_invocation = i, cc_inspect_command = i @ '' session list'', cc_config_dir = so_config_dir st,
       cc_state_dir = so_state_dir st, cc_runtime_dir = so_runtime_dir st\<rparr>)))"

definition verified_client :: "store \<Rightarrow> path option \<Rightarrow> host_lookup \<Rightarrow> nat \<Rightarrow> compatible_client option res" where
  "verified_client st given hl pid =
    and_then (process_start (hl_stat hl)) (\<lambda>started.
    and_then (with_context (hl_executable hl) ''read live host executable'') (\<lambda>exe.
    and_then (hl_file hl) (\<lambda>before.
    and_then (hl_build hl) (\<lambda>build.
    and_then (first_installed_client (\<lambda>p. hl_installed hl p build) [] (lookup_prefixes given exe (hl_home hl))) (\<lambda>found.
    case found of None \<Rightarrow> Inr None
    | Some c \<Rightarrow> and_then (same_process hl started before exe) (\<lambda>_.
        and_then (describe_client st hl pid exe build c) (\<lambda>d. Inr (Some d))))))))"

definition compatible_host_client :: "nat \<Rightarrow> store \<Rightarrow> path option \<Rightarrow> host_lookup \<Rightarrow> compatible_client option res" where
  "compatible_host_client euid st given hl =
    and_then (private_socket euid ''host socket must be owned and private for compatibility lookup'' (hl_socket hl)) (\<lambda>_.
    and_then (connect_deadline (join_path (so_runtime_dir st) ''host.sock'') (hl_start hl + 2000) (hl_tries hl)) (\<lambda>_.
    and_then (peer_credentials euid (hl_peer hl)) (\<lambda>peer.
    ensure (1 < pc_pid peer) ''invalid host peer PID'' (verified_client st given hl (pc_pid peer)))))"

text \<open>An absent host stays recognisable; any other error gets the advice as its context.\<close>

definition compatibility_error :: "compatible_client option res \<Rightarrow> error \<Rightarrow> error" where
  "compatibility_error look e = (if absent_host e then e else Bail (case look of
     Inr (Some c) \<Rightarrow> ''Preserved host has a verified matching client: '' @ cc_inspect_command c
   | Inr None \<Rightarrow> ''No verified matching installation generation was found''
   | Inl _ \<Rightarrow> ''Compatible-client verification was unavailable''))"

section \<open>Connecting a client\<close>

record 'j attempt =
  at_client_id :: string
  at_link :: "'j link"
  at_lookup :: host_lookup

definition check_host :: "'j wire \<Rightarrow> string \<Rightarrow> host_info \<Rightarrow> unit res" where
  "check_host wi build h =
    ensure (hi_protocol h = PROTOCOL \<and> hi_version h = wi_version wi) ''running host version differs; existing sessions were preserved''
    (ensure (hi_build_id h = build) ''running host binary differs; existing sessions were preserved'' (Inr ()))"

definition connect_expected :: "'j wire \<Rightarrow> store \<Rightarrow> string \<Rightarrow> 'j attempt \<Rightarrow> (string list, client) op" where
  "connect_expected wi st build a =
    (let socket = join_path (so_runtime_dir st) ''host.sock''; e = new_envelope (li_fresh (at_link a)) (li_now_ms (at_link a))
         (at_client_id a) Hello;
       advise = (\<lambda>r. case r of Inl err \<Rightarrow> Inl (compatibility_error
         (compatible_host_client (wi_euid wi) st None (at_lookup a)) err) | Inr v \<Rightarrow> Inr v) in
     op_try (\<lambda>s. case exchange wi (at_link a) socket e MAX_REQUEST_MS s of (r, s') \<Rightarrow> (advise (and_then r (\<lambda>r.
         and_then (decode_response (wi_host_info wi) r) (\<lambda>h. and_then (check_host wi build h) (\<lambda>_. Inr h)))), s')) (\<lambda>h.
     op_try (op_lift (valid_id (wi_ext wi) (hi_host_instance h))) (\<lambda>_.
     op_return \<lparr>cl_socket = socket, cl_client_id = at_client_id a, cl_host = h, cl_timeout = MAX_REQUEST_MS\<rparr>)))"

text \<open>The state of starting a host: what was sent, and the processes that were started.\<close>

definition connecting :: "(string list, 'a) op \<Rightarrow> (string list \<times> nat, 'a) op" where
  "connecting f = (\<lambda>(sent, n). case f sent of (r, sent') \<Rightarrow> (r, (sent', n)))"

fun await_host :: "('j attempt \<Rightarrow> (string list, client) op) \<Rightarrow> ('j attempt \<times> bool) list \<Rightarrow> (string list \<times> nat, client) op" where
  "await_host f [] = op_fail (Bail ''host did not become ready; no existing host was stopped'')"
| "await_host f ((a, late) # as) = (\<lambda>s. case connecting (f a) s of
     (Inr c, s') \<Rightarrow> (Inr c, s')
   | (Inl e, s') \<Rightarrow> if \<not> absent_host e \<or> late then (Inl (Bail ''host did not become ready; no existing host was stopped''), s')
       else await_host f as s')"

definition ensure_host :: "'j wire \<Rightarrow> store \<Rightarrow> path \<Rightarrow> string res \<Rightarrow> 'j attempt \<Rightarrow> unit res \<Rightarrow> ('j attempt \<times> bool) list
    \<Rightarrow> (string list \<times> nat, client) op" where
  "ensure_host wi st launcher build first spawned later =
    op_ensure (is_absolute launcher) ''host launcher must be absolute''
    (op_try (op_lift build) (\<lambda>build s. case connecting (connect_expected wi st build first) s of
       (Inr c, s') \<Rightarrow> (Inr c, s')
     | (Inl e, s') \<Rightarrow> if \<not> absent_host e then (Inl e, s')
         else op_try (op_lift (with_context spawned ''start the same-binary user host'')) (\<lambda>_.
           op_try (op_modify (\<lambda>(sent, n). (sent, Suc n))) (\<lambda>_. await_host (connect_expected wi st build) later)) s'))"

end
