(* ===== verification/Client_Safety.thy ===== *)
theory Client_Safety
  imports Client
begin

text \<open>
  What a client promises: a request goes out once, to the host it was made for, and only the answer to it is
  accepted; a host is started only when none is there; recovery advice is given only for verified bytes.
\<close>

section \<open>One request, one frame\<close>

definition at_most_one :: "string list \<Rightarrow> string list \<Rightarrow> bool" where
  "at_most_one s s' = (s' = s \<or> (\<exists>b. s' = s @ [b]))"

lemma sent_frame_once: "sent_frame wi l d e s = (r, s') \<Longrightarrow> at_most_one s s'"
  by (auto simp: sent_frame_def at_most_one_def split: prod.splits if_splits)

lemma exchange_once:
  assumes "exchange wi l socket e n s = (r, s')"
  shows "at_most_one s s'"
proof (cases r)
  case (Inl err)
  with assms show ?thesis
    by (auto simp: exchange_def Let_def op_simps dest!: sent_frame_once)
      (auto simp: at_most_one_def)
next
  case (Inr x)
  with assms show ?thesis by (auto simp: exchange_def Let_def op_simps dest!: sent_frame_once)
qed

lemma exchange_answer:
  assumes "exchange wi l socket e n s = (Inr r, s')"
  shows "validate_response (wi_ext wi) e r = Inr ()"
  using assms by (auto simp: exchange_def Let_def op_simps)

text \<open>C20 (request_is_sent_once). A request is written to at most one connection, whatever fails, and never again; what is
  returned answers exactly this request and comes from the host instance the client was bound to.\<close>

theorem request_is_sent_once:
  assumes "client_request wi l c q s = (r, s')"
  shows "(s' = s \<or> (\<exists>b. s' = s @ [b])) \<and>
    (case r of Inl e \<Rightarrow> True | Inr x \<Rightarrow> rp_request_id x = li_fresh l \<and> rp_host_instance x = hi_host_instance (cl_host c))"
proof (cases r)
  case (Inl e)
  with assms exchange_once show ?thesis
    by (fastforce simp: client_request_def send_envelope_def op_simps at_most_one_def)
next
  case (Inr x)
  with assms have e: "exchange wi l (cl_socket c) (client_envelope l c q) (cl_timeout c) s = (Inr x, s')"
    by (auto simp: client_request_def send_envelope_def op_simps)
  from exchange_once [OF e] exchange_answer [OF e] Inr show ?thesis
    by (auto simp: at_most_one_def validate_response_def res_simps client_envelope_def new_envelope_def)
qed

section \<open>Starting a host\<close>

lemma connecting_starts: "connecting f s = (r, s') \<Longrightarrow> snd s' = snd s"
  by (auto simp: connecting_def split: prod.splits)

lemma await_starts: "await_host f as s = (r, s') \<Longrightarrow> snd s' = snd s"
proof (induction as arbitrary: s)
  case (Cons x as)
  obtain a late where x: "x = (a, late)" by fastforce
  obtain y t where y: "connecting (f a) s = (y, t)" by (rule prod.exhaust)
  show ?case using Cons.prems Cons.IH [of t] connecting_starts [OF y] by (auto simp: x y split: sum.splits if_splits)
qed simp

text \<open>The codecs and the socket options fail with errors of their own, not with those of an absent host.\<close>

definition quiet_wire :: "'j wire \<Rightarrow> 'j link \<Rightarrow> bool" where
  "quiet_wire wi l = ((\<forall>v e. wi_encode wi v = Inl e \<longrightarrow> \<not> absent_host e)
     \<and> (\<forall>d e. wi_host_info wi d = Inl e \<longrightarrow> \<not> absent_host e) \<and> (\<forall>e. li_timeouts l = Inl e \<longrightarrow> \<not> absent_host e))"

text \<open>Looking at the socket and connecting to it; the handshake.\<close>

definition socket_reached :: "'j wire \<Rightarrow> store \<Rightarrow> 'j link \<Rightarrow> unit res" where
  "socket_reached wi st l =
    and_then (private_socket (wi_euid wi) ''host socket must be an owned private socket'' (li_socket l)) (\<lambda>_.
    connect_deadline (join_path (so_runtime_dir st) ''host.sock'') (li_start l + MAX_REQUEST_MS) (li_tries l))"

definition hello :: "'j wire \<Rightarrow> store \<Rightarrow> 'j attempt \<Rightarrow> (string list, 'j response) op" where
  "hello wi st a = exchange wi (at_link a) (join_path (so_runtime_dir st) ''host.sock'')
     (new_envelope (li_fresh (at_link a)) (li_now_ms (at_link a)) (at_client_id a) Hello) MAX_REQUEST_MS"

lemma absent_Bail [simp]: "\<not> absent_host (Bail m)"
  by (simp add: absent_host_def connection_refused_def)

text \<open>What cannot fail with an absent host; the rules are conditional rewrite rules.\<close>

lemma present_context: "absent_host e \<Longrightarrow> (with_context r m = Inl e) = False"
  by (auto simp: with_context_def split: sum.splits)

lemma present_ensure: "absent_host e \<Longrightarrow> (ensure c m r = Inl e) = (c \<and> r = Inl e)"
  by (auto simp: ensure_def)

lemma present_then: "(and_then r f = Inl e) = (r = Inl e \<or> (\<exists>v. r = Inr v \<and> f v = Inl e))"
  by (cases r) (simp_all add: and_then_def)

lemma present_read_until: "absent_host e \<Longrightarrow> (read_until d n acc es = Inl e) = False"
proof (induction d n acc es rule: read_until.induct)
  case (1 d n acc es)
  then show ?case
    by (subst read_until.simps) (auto simp: present_ensure split: list.splits arrival.splits)
qed

lemma present_write_until: "absent_host e \<Longrightarrow> write_until d b ds sent \<noteq> (Inl e, x)"
  by (induction d b ds sent rule: write_until.induct) auto

lemma present_steps:
  assumes "absent_host e"
  shows "(peer_credentials n c = Inl e) = False" "(read_frame_deadline dec d es = Inl e) = False"
    "(validate_response x v r = Inl e) = False" "(valid_id x i = Inl e) = False"
    "(context_opt y m = Inl e) = False" "(decode_response f r = Inl e) = False" "(check_host wi b h = Inl e) = False"
  using assms by (auto simp: peer_credentials_def read_frame_deadline_def frame_size_def Let_def validate_response_def
      valid_id_def context_opt_def decode_response_def check_host_def present_context present_ensure present_then
      present_read_until split: option.splits)

lemma present_quiet:
  assumes "absent_host e" "quiet_wire wi l"
  shows "li_timeouts l \<noteq> Inl e" "sent_frame wi l d v s \<noteq> (Inl e, u)" "check_handshake wi p v r \<noteq> Inl e"
proof -
  show "li_timeouts l \<noteq> Inl e" using assms by (auto simp: quiet_wire_def)
  show "sent_frame wi l d v s \<noteq> (Inl e, u)"
    using assms by (auto simp: sent_frame_def write_frame_deadline_def quiet_wire_def present_then present_ensure
        present_write_until split: prod.splits sum.splits)
  show "check_handshake wi p v r \<noteq> Inl e"
    using assms by (auto simp: check_handshake_def quiet_wire_def present_then present_ensure present_steps)
qed

text \<open>An exchange fails with an absent host only before anything is sent.\<close>

lemma exchange_absent:
  assumes "exchange wi l socket v n s = (Inl e, u)" "absent_host e" "quiet_wire wi l"
  shows "u = s \<and> and_then (private_socket (wi_euid wi) ''host socket must be an owned private socket'' (li_socket l)) (\<lambda>_.
    connect_deadline socket (li_start l + n) (li_tries l)) = Inl e"
  using assms(1) unfolding exchange_def Let_def
  by (auto simp: op_try_def op_lift_def present_then present_steps [OF assms(2)] present_quiet [OF assms(2,3)]
      split: sum.splits prod.splits)

text \<open>An answer of a host is never taken for an absent host.\<close>

lemma compatibility_absent: "absent_host e \<Longrightarrow> (compatibility_error look x = e) = (x = e)"
  by (auto simp: compatibility_error_def)

lemma connect_absent:
  assumes "connect_expected wi st b a s = (Inl e, u)" "absent_host e"
  shows "hello wi st a s = (Inl e, u)"
proof -
  obtain r v where h: "hello wi st a s = (r, v)" by fastforce
  show ?thesis
  proof (cases r)
    case (Inl x)
    with assms h compatibility_absent [OF assms(2)] show ?thesis
      unfolding connect_expected_def Let_def hello_def by (simp add: op_try_def and_then_def)
  next
    case (Inr x)
    with assms(1) h show ?thesis
      unfolding connect_expected_def Let_def hello_def
      by (auto simp: op_try_def op_lift_def present_then present_steps [OF assms(2)]
          compatibility_absent [OF assms(2)] split: sum.splits)
  qed
qed

lemma connect_answered:
  assumes "hello wi st a s = (Inr x, u)"
  shows "snd (connect_expected wi st b a s) = u"
    "decode_response (wi_host_info wi) x = Inr h \<Longrightarrow> check_host wi b h \<noteq> Inr () \<Longrightarrow>
     \<exists>e. fst (connect_expected wi st b a s) = Inl e"
  using assms unfolding connect_expected_def Let_def hello_def
  by (simp_all add: op_try_def op_lift_def and_then_def split: sum.split)

text \<open>C21 (host_started_only_when_absent). A client starts at most one host process, and only when looking at the socket or
  connecting to it failed because nobody is there, so that nothing was sent.  Whenever a host
  answered the handshake no process is started, and a host of another protocol, version or binary is
  refused: it is never replaced.\<close>

theorem host_started_only_when_absent:
  assumes "ensure_host wi st launcher (Inr b) first spawned later (s, n) = (r, (s', n'))"
    and "quiet_wire wi (at_link first)"
  shows "(n' = n \<or> n' = Suc n)
    \<and> (n' \<noteq> n \<longrightarrow> (\<exists>e. socket_reached wi st (at_link first) = Inl e \<and> absent_host e \<and> hello wi st first s = (Inl e, s)))
    \<and> (\<forall>x u. hello wi st first s = (Inr x, u) \<longrightarrow> n' = n
        \<and> (\<forall>h. decode_response (wi_host_info wi) x = Inr h
            \<and> (hi_protocol h \<noteq> PROTOCOL \<or> hi_version h \<noteq> wi_version wi \<or> hi_build_id h \<noteq> b) \<longrightarrow> (\<exists>e. r = Inl e)))"
proof (cases "is_absolute launcher")
  case False
  with assms(1) show ?thesis by (auto simp: ensure_host_def op_ensure_def op_fail_def)
next
  case True
  obtain x u where x: "connect_expected wi st b first s = (x, u)" by fastforce
  note step = assms(1) [unfolded ensure_host_def op_ensure_def op_try_def op_lift_def connecting_def]
  show ?thesis
  proof (cases "\<exists>e. x = Inl e \<and> absent_host e")
    case True
    then obtain e where e: "x = Inl e" "absent_host e" by blast
    from connect_absent [OF x [unfolded e(1)] e(2)] have h: "hello wi st first s = (Inl e, u)" .
    from exchange_absent [OF h [unfolded hello_def] e(2) assms(2)] have "u = s" "socket_reached wi st (at_link first) = Inl e"
      by (simp_all add: socket_reached_def)
    moreover have "n' = n \<or> n' = Suc n"
      using step e x \<open>is_absolute launcher\<close> by (cases spawned) (auto simp: with_context_def op_modify_def dest: await_starts)
    ultimately show ?thesis using h e(2) by auto
  next
    case False
    with step x \<open>is_absolute launcher\<close> have n: "n' = n" "r = x" by (auto split: sum.splits if_splits)
    moreover have "\<exists>e. r = Inl e" if "hello wi st first s = (Inr y, v)" "decode_response (wi_host_info wi) y = Inr h"
      "hi_protocol h \<noteq> PROTOCOL \<or> hi_version h \<noteq> wi_version wi \<or> hi_build_id h \<noteq> b" for y v h
    proof -
      have "check_host wi b h \<noteq> Inr ()" using that(3) by (auto simp: check_host_def ensure_def)
      from connect_answered(2) [OF that(1,2) this] x n(2) show ?thesis by simp
    qed
    ultimately show ?thesis by blast
  qed
qed

section \<open>Advice\<close>

text \<open>A client is suggested for the process at the socket only if an installation verified it for
  exactly the bytes that process runs, its own bytes are those, and the process was still the same afterwards.\<close>

theorem advice_is_verified:
  assumes "compatible_host_client euid st given hl = Inr (Some c)"
  shows "hl_build hl = Inr (cc_binary_sha256 c) \<and> hl_client_build hl (cc_client c) = Inr (cc_binary_sha256 c)
    \<and> (\<exists>p. hl_installed hl p (cc_binary_sha256 c) = Inr (Some (cc_client c)))
    \<and> hl_file hl = hl_file_again hl \<and> process_start (hl_stat hl) = process_start (hl_stat_again hl)"
proof -
  have f: "first_installed_client f seen ps = Inr (Some x) \<Longrightarrow> \<exists>p. f p = Inr (Some x)" for f seen ps x
    by (induction f seen ps rule: first_installed_client.induct) (auto simp: res_simps split: if_splits option.splits)
  from assms obtain pid where v: "verified_client st given hl pid = Inr (Some c)"
    by (auto simp: compatible_host_client_def res_simps)
  then obtain started exe before build ps x where r: "process_start (hl_stat hl) = Inr started" "hl_file hl = Inr before"
      "hl_build hl = Inr build" "first_installed_client (\<lambda>p. hl_installed hl p build) [] ps = Inr (Some x)"
      "same_process hl started before exe = Inr ()" "describe_client st hl pid exe build x = Inr c"
    by (auto simp: verified_client_def res_simps split: option.splits)
  from r(5) have s: "hl_file_again hl = Inr before" "process_start (hl_stat_again hl) = Inr started"
    by (auto simp: same_process_def res_simps)
  from r(6) have d: "cc_client c = x" "cc_binary_sha256 c = build" "hl_client_build hl x = Inr build"
    by (auto simp: describe_client_def res_simps)
  from f [OF r(4)] r s d show ?thesis by auto
qed

end
