(* ===== verification/Client_Demo.thy ===== *)
theory Client_Demo
  imports Client_Safety Trust_Properties
begin

text \<open>One host that answers, one socket without a host, one verified client of another version.\<close>

definition demo_reply :: "unit response" where
  "demo_reply = \<lparr>rp_protocol = PROTOCOL, rp_request_id = ''q'', rp_host_instance = ''h'', rp_data = Some (), rp_error = None\<rparr>"

definition demo_host :: host_info where
  "demo_host = \<lparr>hi_protocol = PROTOCOL, hi_version = ''0.4'', hi_build_id = ''b'', hi_host_instance = ''h'', hi_pid = 7,
     hi_uid = 1000, hi_max_sessions = 1, hi_max_cells = 1\<rparr>"

definition demo_wire :: "unit wire" where
  "demo_wire = \<lparr>wi_ext = demo_ext, wi_encode = (\<lambda>_. Inr ''x''), wi_decode = (\<lambda>_. Inr demo_reply),
     wi_host_info = (\<lambda>_. Inr demo_host), wi_base64 = (\<lambda>s. s), wi_euid = 1000, wi_version = ''0.4''\<rparr>"

definition demo_try :: connect_try where
  "demo_try = \<lparr>ct_now = 0, ct_socket = Inr (), ct_outcome = ConnectDone, ct_after = 1, ct_blocking = Inr ()\<rparr>"

definition demo_link :: "unit link" where
  "demo_link = \<lparr>li_fresh = ''q'', li_now_ms = 0, li_valid_ms = 1,
     li_socket = Inr \<lparr>sk_is_socket = True, sk_uid = 1000, sk_mode = 384\<rparr>, li_start = 0, li_tries = [demo_try],
     li_peer = Inr (1000, 7, True), li_timeouts = Inr (), li_peer_again = Inr (1000, 7, True),
     li_departures = [Took 2 2, Took 3 2, Took 4 1], li_arrivals = [Arrived 5 (be32 1), Arrived 6 ''y'']\<rparr>"

definition demo_client :: client where
  "demo_client = \<lparr>cl_socket = ''/r/host.sock'', cl_client_id = ''c'', cl_host = demo_host, cl_timeout = 100\<rparr>"

definition demo_envelope :: envelope where
  "demo_envelope = client_envelope demo_link demo_client (ListSessions None)"

lemma demo_request_calls:
  "validate_envelope demo_ext 1 demo_envelope = Inr ()"
  "private_socket 1000 m (li_socket demo_link) = Inr ()"
  "connect_deadline ''/r/host.sock'' 100 (li_tries demo_link) = Inr ()"
  "peer_credentials 1000 (Inr (1000, 7, True)) = Inr \<lparr>pc_uid = 1000, pc_pid = 7\<rparr>"
  "sent_frame demo_wire demo_link 100 demo_envelope [] = (Inr (), [be32 1 @ ''x''])"
  "read_frame_deadline (wi_decode demo_wire) 100 (li_arrivals demo_link) = Inr (demo_reply, [])"
  "validate_response demo_ext demo_envelope demo_reply = Inr ()"
  by code_simp+

lemma demo_answered: "client_request demo_wire demo_link demo_client (ListSessions None) [] = (Inr demo_reply, [be32 1 @ ''x''])"
proof -
  have c: "en_client_id demo_envelope = ''c''" "en_host_instance demo_envelope = Some ''h''" "en_request demo_envelope = ListSessions None"
    by (simp_all add: demo_envelope_def client_envelope_def new_envelope_def demo_client_def demo_host_def)
  have w: "wi_ext demo_wire = demo_ext" "wi_euid demo_wire = 1000" "li_valid_ms demo_link = 1" "li_start demo_link = 0"
    "li_peer demo_link = Inr (1000, 7, True)" "li_peer_again demo_link = Inr (1000, 7, True)" "li_timeouts demo_link = Inr ()"
    by (simp_all add: demo_wire_def demo_link_def)
  have d: "cl_client_id demo_client = ''c''" "hi_host_instance (cl_host demo_client) = ''h''" "cl_socket demo_client = ''/r/host.sock''"
    "cl_timeout demo_client = 100" by (simp_all add: demo_client_def demo_host_def)
  have h: "check_handshake demo_wire p demo_envelope demo_reply = Inr ()" for p by (simp add: check_handshake_def c)
  show ?thesis
    unfolding client_request_def demo_envelope_def [symmetric] send_envelope_def exchange_def Let_def w d
    by (simp add: op_try_def demo_request_calls c h del: One_nat_def)
qed

theorem request_is_sent_once_witness:
  "client_request demo_wire demo_link demo_client (ListSessions None) [] = (Inr demo_reply, [be32 1 @ ''x''])
     \<and> ([be32 1 @ ''x''] = [] \<or> (\<exists>b. [be32 1 @ ''x''] = [] @ [b]))"
  using request_is_sent_once [OF demo_answered] demo_answered by blast

section \<open>Nobody at the socket\<close>

definition demo_lookup :: host_lookup where
  "demo_lookup = \<lparr>hl_socket = Inr \<lparr>sk_is_socket = True, sk_uid = 1000, sk_mode = 384\<rparr>, hl_start = 0, hl_tries = [demo_try],
     hl_peer = Inr (1000, 7, True), hl_stat = Inr ''7 (idk) S 1 1 1 0 0 0 0 0 0 0 0 0 0 0 0 0 0 0 99'',
     hl_executable = Inr ''/i/generations/1/idk'', hl_file = Inr (1, 2), hl_build = Inr ''b'', hl_home = None,
     hl_installed = (\<lambda>p b. if p = ''/i'' then Inr (Some ''/i/generations/1/idk'') else Inr None),
     hl_stat_again = Inr ''7 (idk) S 1 1 1 0 0 0 0 0 0 0 0 0 0 0 0 0 0 0 99'', hl_file_again = Inr (1, 2),
     hl_executable_again = Inr ''/i/generations/1/idk'', hl_client_build = (\<lambda>_. Inr ''b'')\<rparr>"

definition demo_absent :: "unit attempt" where
  "demo_absent = \<lparr>at_client_id = ''c'', at_link = demo_link\<lparr>li_socket := Inl NotFound\<rparr>, at_lookup = demo_lookup\<rparr>"

definition demo_home_store :: store where
  "demo_home_store = \<lparr>so_config_dir = ''/d/config'', so_state_dir = ''/d/state'', so_runtime_dir = ''/d/run''\<rparr>"

lemma demo_not_there: "connect_expected demo_wire demo_home_store ''b'' demo_absent s = (Inl NotFound, s)"
  by (simp add: connect_expected_def Let_def exchange_def op_try_def demo_absent_def private_socket_def
      compatibility_error_def absent_host_def)

lemma demo_started: "ensure_host demo_wire demo_home_store ''/i/idk'' (Inr ''b'') demo_absent (Inr ()) [] ([], 0)
  = (Inl (Bail ''host did not become ready; no existing host was stopped''), ([], 1))"
  by (simp add: ensure_host_def op_try_def connecting_def demo_not_there absent_host_def with_context_def op_modify_def
      is_absolute_def)

lemma demo_quiet: "quiet_wire demo_wire (at_link demo_absent)"
  by (auto simp: quiet_wire_def demo_wire_def demo_absent_def demo_link_def split: if_splits)

theorem host_started_only_when_absent_witness:
  "\<exists>e. socket_reached demo_wire demo_home_store (at_link demo_absent) = Inl e \<and> absent_host e
     \<and> hello demo_wire demo_home_store demo_absent [] = (Inl e, [])"
proof -
  have "(1 :: nat) \<noteq> 0" by simp
  then show ?thesis using host_started_only_when_absent [OF demo_started demo_quiet] by blast
qed

lemma demo_advised: "\<exists>c. compatible_host_client 1000 demo_home_store None demo_lookup = Inr (Some c)
    \<and> cc_invocation c = [CHR 0x27] @ ''/i/generations/1/idk'' @ [CHR 0x27] @ '' --data-dir '' @ [CHR 0x27] @ ''/d'' @ [CHR 0x27]"
proof -
  have "(case compatible_host_client 1000 demo_home_store None demo_lookup of Inr (Some c) \<Rightarrow>
      cc_invocation c = [CHR 0x27] @ ''/i/generations/1/idk'' @ [CHR 0x27] @ '' --data-dir '' @ [CHR 0x27] @ ''/d'' @ [CHR 0x27]
    | _ \<Rightarrow> False)" by code_simp
  then show ?thesis by (auto split: sum.splits option.splits)
qed

theorem advice_is_verified_witness:
  "\<exists>c. compatible_host_client 1000 demo_home_store None demo_lookup = Inr (Some c)
     \<and> hl_client_build demo_lookup (cc_client c) = Inr (cc_binary_sha256 c)"
proof -
  obtain c where c: "compatible_host_client 1000 demo_home_store None demo_lookup = Inr (Some c)" using demo_advised by blast
  from advice_is_verified [OF c] c show ?thesis by blast
qed

end
