(* ===== verification/Spec2Isabelle.thy ===== *)
theory Spec2Isabelle
  imports Source_Gate Digest_Safety Trust_Properties Run_Log Run_Properties Run_Retention Run_Ledger Run_Text
    Git_Parse Git_Redact Git_Demo Wire_Bounds Wire_Frames Result_Demo Problems_Safety
    Tool_Safety Editor_Safety Portable_Demo Shell_Demo Client_Demo
begin

text \<open>
  \<^bold>\<open>idk\<close> keeps C shell projects: their shells, terminals and tasks are saved definitions, a person
  approves what may be executed, a host process runs approved tasks and reviewed Git operations, and
  terminal clients talk to the host over a local socket.  This library models the Rust crate
  \<open>src/crates/idk/src\<close>; file names below are relative to it.

  \<^bold>\<open>Parts and how they interact.\<close>  A client's request is validated (protocol.rs) and answered by services.
  The project and task services (project.rs, task.rs) edit one saved workspace (model.rs) through the
  configuration store (store.rs), which replaces its file only under a lock and an expected revision.  A
  declaration in the project folder (portable.rs) is merged into that workspace.  A launch plan is made only
  from an approved definition, whose digest covers the definition and the files it reads.  The run registry
  (run.rs) reserves a start, takes a lease from the source-use gate, commits the run to a ledger
  (saved_state.rs), writes its log, and settles it when it ends; its structured result goes to the result
  store (result_store.rs), its log through the diagnostics parser (problems.rs), and a reported location to
  an editor (editor.rs).  The Git service (git.rs, git/) takes mutation leases from the same gate, so runs and
  Git operations on one repository exclude each other.

  \<^bold>\<open>Theories.\<close>
  \<^item> Prelude: results (\<open>anyhow::Result\<close>) as sums, operations on a state that also return the state reached
    when they fail, sorted association lists for \<open>BTreeMap\<close>, paths by components, machine integer parsing, and
    the locales \<open>ordered_map\<close> and \<open>transition_system\<close>.
  \<^item> Model, Model_Valid, Digest, Source_Gate: the saved definitions and validators of model.rs, what a valid
    workspace guarantees, the digests of definitions, and \<open>SourceGate\<close> with its leases.  Digest_Safety
    shows what an approval digest binds.
  \<^item> Store: \<open>load\<close>, \<open>save\<close>, \<open>update\<close>, \<open>atomic_write\<close> over a filesystem with inodes and faults at each call;
    the locale \<open>cas_store\<close> is its contract as a compare-and-swap register.
  \<^item> Trust_Scope, Project_Edit, Rebind, Project_Service: project.rs and task.rs, every edit as the closure
    its service hands to the store.  Trust_Safety and Trust_Properties show what edits may do to trust.
  \<^item> Run_Types, Saved_State, Run_Registry, Run_Log: the run records, their validation, the registry's methods
    and the bounded log writer.  Run_Safety, Run_Invariant and Run_System put the registry among its clients
    as a step relation with an invariant; Run_Demo, Run_Properties, Run_Retention, Run_Ledger and Run_Text
    hold the claims.
  \<^item> Git_Text, Git_Machine, Git_Observe, Git_Remote, Git_Plan, Git_Execute: git.rs and git/, from what Git
    prints to the execution of a reviewed plan.  Git_Parse, Git_Redact, Git_Safety and Git_Demo hold the claims.
  \<^item> Wire_Requests, Wire_Frames: protocol.rs, git_wire.rs and the request half of run_wire.rs; Wire_Bounds.
  \<^item> Text_Encode, Utf8_Facts: UTF-8 both ways, bounded texts.
  \<^item> Result_Format, Result_Store, Result_Compare: structured_result.rs and result_store.rs; claims in
    Result_Safety, Result_Properties, Result_Views, with Result_Demo.
  \<^item> Problems, Problems_Safety: problems.rs.
  \<^item> Discovery, Tool_Check, Tool_Safety: discovery.rs.  Editor, Editor_Safety: editor.rs.
  \<^item> Portable, Portable_Resolve, Portable_Write: portable.rs and the shell discovery of project.rs; claims
    in Portable_Safety and Portable_Files, with Portable_Demo.
  \<^item> Shell_Prepare, Shell_Safety, Shell_Demo: shell.rs, the generated start-up script of a managed csh.
  \<^item> Client, Client_Safety, Client_Demo: client.rs and local_socket.rs, the other end of the socket.

  \<^bold>\<open>What is shown.\<close>  Trust: no edit, reconnection or declaration creates an approval, an edited definition
  cannot be launched before it is approved again, and approving makes it launchable.  Exclusion: leases and
  outputs are held by one owner, a mutation waits for runs, a lease is returned on every path.  Durability:
  saves lose no update, cancellation and results are on disk before they are reported, a restart adopts no
  process, and every ledger left on disk passes the check that opening it makes.  Git: the reviewed plan is run at most
  once, reported success was verified, what is displayed hides credentials.  Input: requests, frames, status
  output, diagnostics and event streams are bounded and independent of how the bytes arrive.  Results: what
  was captured is what is read, and a comparison resolves nothing without evidence.  Client: a request is
  written once, and a host is started only when none answers.  Tools: a version check
  ends and signals only its own session, an argument line read back gives the quoted arguments, and what is
  typed into a prepared shell is one line.

  \<^bold>\<open>Bounds and fuel.\<close>  Loops that follow a list recurse on it.  The loops that expire and rotate history carry
  the number of retained runs as fuel; each turn removes one, and \<open>expiry_is_complete\<close> shows that none is left
  to expire.  The search for
  export keys (\<open>unique_keys\<close>) has two more attempts than keys in use, which \<open>export_keys_are_unique\<close> shows to
  be enough.  Loops on a clock (frames under a deadline, the version check, its cleanup) take the list of
  turns that happen and return \<open>None\<close> when it is exhausted first; that they end is stated about lists in which
  the deadline passes.

  \<^bold>\<open>Parameters.\<close>  SHA-256, JSON and TOML encoding, UUIDs, Unicode classes, the regular expressions' captures,
  the clock, the filesystem calls and the Git process are arguments of the definitions.  A mutex is modelled by calls that
  do not overlap; where code runs between calls (other programs writing a file, faults of a write) it is an
  argument with one entry per point.  Error messages keep their fixed text, without interpolated values.

  \<^bold>\<open>Not modelled.\<close>  The host's actor and job threads (host.rs, host/), which move requests and events between
  the modelled services, sockets and child processes; terminal emulation (terminal.rs), which drives a
  third-party parser on a pseudo terminal; installation and packaging (install.rs, package.rs); the terminal
  interface (ui.rs, ui/); argument parsing, printing and health probes (main.rs, \<open>cli_*\<close>, \<open>doctor.rs\<close>,
  \<open>probe*\<close>).  Of modelled files: opening a store and its ancestor checks; searching logs and observing
  sources in run.rs.
\<close>

end
